(* ===== verification/Prelude.thy ===== *)
theory Prelude
  imports Complex_Main "HOL-Library.AList" "HOL-Library.Multiset"
    "HOL-Library.List_Lexorder" "HOL-Library.Char_ord"
begin

text \<open>
  What every component shares: the text operations of the language on strings, tables as lists
  of rows with the statements the code issues against them (select, update, delete, insert with
  a unique key, insert-or-ignore, upsert), insertion-ordered maps with eviction of the oldest
  entries, and the rounding of byte counts for display. A JavaScript string is a \<open>char list\<close>
  (all texts the model handles are ASCII), a JavaScript number that the code only uses as an
  integer is an \<open>int\<close>, a fraction is a \<open>rat\<close>.
\<close>

named_theorems table_simps \<open>rewriting of table statements\<close>
named_theorems table_keys \<open>preservation of unique keys\<close>

section \<open>Text\<close>

definition js_space :: "char \<Rightarrow> bool" where
  "js_space c \<longleftrightarrow> (let n = of_char c :: nat in n = 32 \<or> (9 \<le> n \<and> n \<le> 13))"

definition js_trim_start :: "string \<Rightarrow> string" where
  "js_trim_start s = dropWhile js_space s"

definition js_trim :: "string \<Rightarrow> string" where
  "js_trim s = rev (dropWhile js_space (rev (dropWhile js_space s)))"

definition js_lower_char :: "char \<Rightarrow> char" where
  "js_lower_char c =
     (let n = of_char c :: nat in if 65 \<le> n \<and> n \<le> 90 then char_of (n + 32) else c)"

definition js_upper_char :: "char \<Rightarrow> char" where
  "js_upper_char c =
     (let n = of_char c :: nat in if 97 \<le> n \<and> n \<le> 122 then char_of (n - 32) else c)"

definition js_lower :: "string \<Rightarrow> string" where
  "js_lower s = map js_lower_char s"

definition js_upper :: "string \<Rightarrow> string" where
  "js_upper s = map js_upper_char s"

definition js_starts :: "string \<Rightarrow> string \<Rightarrow> bool" where
  "js_starts p s \<longleftrightarrow> take (length p) s = p"

fun js_includes :: "string \<Rightarrow> string \<Rightarrow> bool" where
  "js_includes p [] = (p = [])"
| "js_includes p (c # s) = (js_starts p (c # s) \<or> js_includes p s)"

text \<open>\<open>s.indexOf(c)\<close> for one character: the first position, or none for \<open>-1\<close>.\<close>

fun js_index :: "char \<Rightarrow> string \<Rightarrow> nat option" where
  "js_index c [] = None"
| "js_index c (x # s) = (if x = c then Some 0 else map_option Suc (js_index c s))"

text \<open>\<open>s.split(c)\<close> for a separator of one character; the empty text splits into one empty part.\<close>

fun js_split :: "char \<Rightarrow> string \<Rightarrow> string list" where
  "js_split c [] = [[]]"
| "js_split c (x # s) =
     (if x = c then [] # js_split c s
      else case js_split c s of [] \<Rightarrow> [[x]] | p # ps \<Rightarrow> (x # p) # ps)"

definition js_join :: "string \<Rightarrow> string list \<Rightarrow> string" where
  "js_join sep parts = (case parts of [] \<Rightarrow> [] | p # ps \<Rightarrow> p @ concat (map (\<lambda>q. sep @ q) ps))"

definition is_digit :: "char \<Rightarrow> bool" where
  "is_digit c \<longleftrightarrow> (let n = of_char c :: nat in 48 \<le> n \<and> n \<le> 57)"

definition digit_val :: "char \<Rightarrow> int" where
  "digit_val c = int (of_char c) - 48"

definition digits_val :: "string \<Rightarrow> int" where
  "digits_val ds = fold (\<lambda>c a. 10 * a + digit_val c) ds 0"

text \<open>
  \<open>parseInt(s, 10)\<close>: leading white space, an optional sign, then the longest run of digits;
  no digit gives NaN, here \<open>None\<close>.
\<close>

definition js_parse_int :: "string \<Rightarrow> int option" where
  "js_parse_int s =
     (let t = js_trim_start s;
          neg = js_starts ''-'' t;
          body = (if neg \<or> js_starts ''+'' t then drop 1 t else t);
          ds = takeWhile is_digit body
      in if ds = [] then None
         else Some (if neg then - digits_val ds else digits_val ds))"

text \<open>Decimal digits of a natural number, as \<open>String(n)\<close> prints it.\<close>

fun show_nat :: "nat \<Rightarrow> string" where
  "show_nat n =
     (if n < 10 then [char_of (48 + n)] else show_nat (n div 10) @ [char_of (48 + n mod 10)])"

declare show_nat.simps [simp del]

definition show_int :: "int \<Rightarrow> string" where
  "show_int i = (if i < 0 then CHR ''-'' # show_nat (nat (- i)) else show_nat (nat i))"

section \<open>Numbers\<close>

text \<open>
  The value of a request field after \<open>Number(...)\<close>: an integer, or anything for which
  \<open>Number.isInteger\<close> is false (a fraction, an infinity, NaN).
\<close>

datatype js_num = JInt int | JNonInt

abbreviation GB :: int where
  "GB \<equiv> 1073741824"

text \<open>\<open>+(x).toFixed(2)\<close> for \<open>0 \<le> x\<close>: the nearest hundredth, the larger one on a tie.\<close>

definition to_fixed2 :: "rat \<Rightarrow> rat" where
  "to_fixed2 x = of_int (floor (100 * x + 1 / 2)) / 100"

text \<open>
  \<open>Number(text)\<close> as an exact value, \<open>None\<close> for NaN and the infinities: white space around is
  dropped, the empty text is 0, then a sign and a decimal literal with optional fraction and
  exponent, or an unsigned literal in base 16, 8 or 2.
\<close>

definition split_digits :: "string \<Rightarrow> string \<times> string" where
  "split_digits s = (takeWhile is_digit s, dropWhile is_digit s)"

definition hex_val :: "char \<Rightarrow> int option" where
  "hex_val c =
     (let n = int (of_char c); l = int (of_char (js_lower_char c))
      in if is_digit c then Some (n - 48) else if 97 \<le> l \<and> l \<le> 102 then Some (l - 87) else None)"

definition radix_val :: "int \<Rightarrow> string \<Rightarrow> rat option" where
  "radix_val b ds =
     (if ds \<noteq> [] \<and> list_all (\<lambda>c. case hex_val c of None \<Rightarrow> False | Some v \<Rightarrow> v < b) ds
      then Some (of_int (fold (\<lambda>c a. b * a + the (hex_val c)) ds 0)) else None)"

definition exponent_val :: "string \<Rightarrow> int option" where
  "exponent_val s =
     (case s of
        [] \<Rightarrow> Some 0
      | c # rest \<Rightarrow>
          if c = CHR ''e'' \<or> c = CHR ''E'' then
            (let neg = js_starts ''-'' rest; ds = (if neg \<or> js_starts ''+'' rest then drop 1 rest else rest)
             in if ds \<noteq> [] \<and> list_all is_digit ds then Some (if neg then - digits_val ds else digits_val ds)
                else None)
          else None)"

definition ten_power :: "int \<Rightarrow> rat" where
  "ten_power e = (if 0 \<le> e then 10 ^ nat e else 1 / 10 ^ nat (- e))"

definition decimal_val :: "string \<Rightarrow> rat option" where
  "decimal_val s =
     (let (ip, r1) = split_digits s;
          (fp, r2) = (case r1 of [] \<Rightarrow> ([], []) | c # r \<Rightarrow> if c = CHR ''.'' then split_digits r else ([], r1))
      in if ip = [] \<and> fp = [] then None
         else map_option (\<lambda>e. of_int (digits_val (ip @ fp)) * ten_power (e - int (length fp)))
                (exponent_val r2))"

definition js_number :: "string \<Rightarrow> rat option" where
  "js_number s =
     (let t = js_trim s; l = js_lower (take 2 t)
      in if t = [] then Some 0
         else if l = ''0x'' then radix_val 16 (drop 2 t)
         else if l = ''0o'' then radix_val 8 (drop 2 t)
         else if l = ''0b'' then radix_val 2 (drop 2 t)
         else if js_starts ''-'' t then map_option uminus (decimal_val (drop 1 t))
         else decimal_val (if js_starts ''+'' t then drop 1 t else t))"

definition to_js_num :: "rat option \<Rightarrow> js_num" where
  "to_js_num x =
     (case x of None \<Rightarrow> JNonInt | Some v \<Rightarrow> if v = of_int (floor v) then JInt (floor v) else JNonInt)"

section \<open>Tables\<close>

definition update_where :: "('r \<Rightarrow> bool) \<Rightarrow> ('r \<Rightarrow> 'r) \<Rightarrow> 'r list \<Rightarrow> 'r list" where
  "update_where P f t = map (\<lambda>r. if P r then f r else r) t"

definition delete_where :: "('r \<Rightarrow> bool) \<Rightarrow> 'r list \<Rightarrow> 'r list" where
  "delete_where P t = filter (\<lambda>r. \<not> P r) t"

definition count_where :: "('r \<Rightarrow> bool) \<Rightarrow> 'r list \<Rightarrow> nat" where
  "count_where P t = length (filter P t)"

text \<open>An insertion into a table with a unique key: \<open>None\<close> when the constraint throws.\<close>

definition insert_row :: "('r \<Rightarrow> 'k) \<Rightarrow> 'r \<Rightarrow> 'r list \<Rightarrow> 'r list option" where
  "insert_row key r t = (if key r \<in> key ` set t then None else Some (t @ [r]))"

text \<open>\<open>INSERT OR IGNORE\<close>: the number of changes and the table.\<close>

definition insert_ignore :: "('r \<Rightarrow> 'k) \<Rightarrow> 'r \<Rightarrow> 'r list \<Rightarrow> nat \<times> 'r list" where
  "insert_ignore key r t = (if key r \<in> key ` set t then (0, t) else (1, t @ [r]))"

text \<open>\<open>INSERT ... ON CONFLICT(key) DO UPDATE\<close>: \<open>merge excluded old\<close> replaces the old row.\<close>

definition upsert :: "('r \<Rightarrow> 'k) \<Rightarrow> ('r \<Rightarrow> 'r \<Rightarrow> 'r) \<Rightarrow> 'r \<Rightarrow> 'r list \<Rightarrow> 'r list" where
  "upsert key merge r t =
     (if key r \<in> key ` set t then update_where (\<lambda>x. key x = key r) (merge r) t else t @ [r])"

text \<open>The next value of an integer primary key.\<close>

definition fresh_id :: "('r \<Rightarrow> int) \<Rightarrow> 'r list \<Rightarrow> int" where
  "fresh_id key t = fold (\<lambda>r m. max (key r) m) t 0 + 1"

lemma fold_max_ge: "m \<le> fold (\<lambda>r m. max (key r) m) t (m :: int)"
proof (induction t arbitrary: m)
  case (Cons x t)
  show ?case using Cons.IH [of "max (key x) m"] by simp
qed simp

lemma fold_max_mem: "r \<in> set t \<Longrightarrow> key r \<le> fold (\<lambda>r m. max (key r) m) t (m :: int)"
proof (induction t arbitrary: m)
  case (Cons x t)
  then show ?case
    using fold_max_ge [of "max (key x) m" key t] by auto
qed simp

lemma fresh_id_gt: "r \<in> set t \<Longrightarrow> key r < fresh_id key t"
  using fold_max_mem [of r t key 0] by (simp add: fresh_id_def)

lemma fresh_id_notin [simp]: "fresh_id key t \<notin> key ` set t"
proof
  assume "fresh_id key t \<in> key ` set t"
  then obtain r where "r \<in> set t" and "key r = fresh_id key t" by auto
  then show False using fresh_id_gt [of r t key] by simp
qed

lemma set_update_where [table_simps]:
  "set (update_where P f t) = (\<lambda>r. if P r then f r else r) ` set t"
  by (simp add: update_where_def)

lemma length_update_where [simp]: "length (update_where P f t) = length t"
  by (simp add: update_where_def)

lemma update_where_Nil [simp]: "update_where P f [] = []"
  by (simp add: update_where_def)

lemma update_where_Cons [simp]:
  "update_where P f (r # t) = (if P r then f r else r) # update_where P f t"
  by (simp add: update_where_def)

lemma map_update_where [table_simps]:
  "(\<And>r. P r \<Longrightarrow> g (f r) = g r) \<Longrightarrow> map g (update_where P f t) = map g t"
  by (auto simp: update_where_def)

lemma update_where_none: "(\<And>r. r \<in> set t \<Longrightarrow> \<not> P r) \<Longrightarrow> update_where P f t = t"
  by (induction t) auto

lemma filter_update_where_out:
  "(\<And>r. P r \<Longrightarrow> \<not> Q r) \<Longrightarrow> (\<And>r. P r \<Longrightarrow> \<not> Q (f r)) \<Longrightarrow>
   filter Q (update_where P f t) = filter Q t"
  by (induction t) auto

lemma set_delete_where [simp]: "set (delete_where P t) = {r \<in> set t. \<not> P r}"
  by (auto simp: delete_where_def)

lemma distinct_delete_where [table_keys]:
  "distinct (map key t) \<Longrightarrow> distinct (map key (delete_where P t))"
  by (simp add: delete_where_def distinct_map_filter)

lemma distinct_update_where [table_keys]:
  "distinct (map key t) \<Longrightarrow> (\<And>r. P r \<Longrightarrow> key (f r) = key r) \<Longrightarrow>
   distinct (map key (update_where P f t))"
  by (simp add: map_update_where)

lemma distinct_insert_row [table_keys]:
  "distinct (map key t) \<Longrightarrow> insert_row key r t = Some t' \<Longrightarrow> distinct (map key t')"
  by (auto simp: insert_row_def split: if_splits)

lemma distinct_insert_ignore [table_keys]:
  "distinct (map key t) \<Longrightarrow> distinct (map key (snd (insert_ignore key r t)))"
  by (auto simp: insert_ignore_def)

lemma insert_row_None: "insert_row key r t = None \<longleftrightarrow> key r \<in> key ` set t"
  by (simp add: insert_row_def)

lemma insert_row_Some:
  "insert_row key r t = Some t' \<longleftrightarrow> key r \<notin> key ` set t \<and> t' = t @ [r]"
  by (auto simp: insert_row_def)

lemma find_None_key: "find (\<lambda>r. key r = k) t = None \<longleftrightarrow> k \<notin> key ` set t"
  by (auto simp: find_None_iff)

lemma find_Some_mem: "find P t = Some r \<Longrightarrow> r \<in> set t \<and> P r"
  by (auto simp: find_Some_iff)

lemma find_key_eq:
  "distinct (map key t) \<Longrightarrow> r \<in> set t \<Longrightarrow> key r = k \<Longrightarrow> find (\<lambda>x. key x = k) t = Some r"
proof (induction t)
  case (Cons x t)
  then show ?case by force
qed simp

lemma find_update_where:
  "(\<And>r. key (f r) = key r) \<Longrightarrow>
   find (\<lambda>r. key r = k) (update_where (\<lambda>r. key r = j) f t) =
   (if k = j then map_option f (find (\<lambda>r. key r = k) t) else find (\<lambda>r. key r = k) t)"
  by (induction t) auto

lemma find_update_where_cond:
  "(\<And>r. key (f r) = key r) \<Longrightarrow>
   find (\<lambda>r. key r = k) (update_where (\<lambda>r. key r = j \<and> Q r) f t) =
   map_option (\<lambda>r. if k = j \<and> Q r then f r else r) (find (\<lambda>r. key r = k) t)"
  by (induction t) auto

lemma find_update_where_other:
  "(\<And>r. Q r \<Longrightarrow> \<not> P r) \<Longrightarrow> (\<And>r. P r \<Longrightarrow> \<not> Q (f r)) \<Longrightarrow>
   find Q (update_where P f t) = find Q t"
  by (induction t) auto

lemma find_update_where_stable:
  "(\<And>r. P (f r) = P r) \<Longrightarrow>
   find P (update_where Q f t) = map_option (\<lambda>r. if Q r then f r else r) (find P t)"
  by (induction t) auto

lemma find_delete_where_other:
  "(\<And>r. Q r \<Longrightarrow> \<not> P r) \<Longrightarrow> find Q (delete_where P t) = find Q t"
  by (induction t) (auto simp: delete_where_def)

lemma find_filter: "find P (filter Q xs) = find (\<lambda>x. Q x \<and> P x) xs"
  by (induction xs) auto

lemma find_append: "find P (xs @ ys) = (case find P xs of None \<Rightarrow> find P ys | Some r \<Rightarrow> Some r)"
  by (induction xs) auto

section \<open>Maps with insertion order\<close>

text \<open>
  A JavaScript \<open>Map\<close> is a list of entries in insertion order; \<open>set\<close> on a key that is present
  keeps its place, which is what \<open>AList.update\<close> does. \<open>evict ts cap\<close> is the eviction that
  several caches of the program share: sort the entries by their time stamp (the sort is
  stable) and delete as many of the oldest as exceed the capacity.
\<close>

type_synonym ('k, 'v) js_map = "('k \<times> 'v) list"

abbreviation js_get :: "('k, 'v) js_map \<Rightarrow> 'k \<Rightarrow> 'v option" where
  "js_get \<equiv> map_of"

abbreviation js_set :: "'k \<Rightarrow> 'v \<Rightarrow> ('k, 'v) js_map \<Rightarrow> ('k, 'v) js_map" where
  "js_set \<equiv> AList.update"

abbreviation js_keys_distinct :: "('k, 'v) js_map \<Rightarrow> bool" where
  "js_keys_distinct m \<equiv> distinct (map fst m)"

definition evict :: "('v \<Rightarrow> int) \<Rightarrow> nat \<Rightarrow> ('k, 'v) js_map \<Rightarrow> ('k, 'v) js_map" where
  "evict ts cap m =
     (if length m \<le> cap then m
      else let sorted = sort_key (\<lambda>e. ts (snd e)) m;
               victims = map fst (take (length m - cap) sorted)
           in filter (\<lambda>e. fst e \<notin> set victims) m)"

lemma js_get_set [simp]: "js_get (js_set k v m) j = (if j = k then Some v else js_get m j)"
  by (simp add: update_conv')

lemma js_get_filter:
  "js_keys_distinct m \<Longrightarrow>
   js_get (filter P m) k = (case js_get m k of None \<Rightarrow> None | Some v \<Rightarrow> if P (k, v) then Some v else None)"
proof (induction m)
  case (Cons e m)
  then have "js_get m (fst e) = None" by (simp add: map_of_eq_None_iff image_iff)
  then show ?case using Cons by (cases e) auto
qed simp

lemma js_get_remove: "js_get (filter (\<lambda>e. fst e \<noteq> k) m) j = (if j = k then None else js_get m j)"
  by (induction m) auto

lemma distinct_js_filter [table_keys]: "js_keys_distinct m \<Longrightarrow> js_keys_distinct (filter P m)"
  by (simp add: distinct_map_filter)

lemma distinct_js_set [table_keys]: "js_keys_distinct m \<Longrightarrow> js_keys_distinct (js_set k v m)"
  by (rule distinct_update)

lemma set_evict: "set (evict ts cap m) \<subseteq> set m"
  by (auto simp: evict_def Let_def)

lemma distinct_evict [table_keys]: "js_keys_distinct m \<Longrightarrow> js_keys_distinct (evict ts cap m)"
  by (auto simp: evict_def Let_def distinct_map_filter)

lemma evict_partition:
  assumes "js_keys_distinct m" and "cap < length m"
  shows "mset (evict ts cap m) = mset (drop (length m - cap) (sort_key (\<lambda>e. ts (snd e)) m))"
proof -
  define s where "s = sort_key (\<lambda>e. ts (snd e)) m"
  define n where "n = length m - cap"
  have ms: "mset s = mset m" by (simp add: s_def)
  then have ds: "distinct (map fst s)"
    using assms(1) by (metis mset_map mset_eq_imp_distinct_iff)
  have "evict ts cap m = filter (\<lambda>e. fst e \<notin> set (map fst (take n s))) m"
    using assms(2) by (simp add: evict_def Let_def s_def n_def)
  then have "mset (evict ts cap m) = mset (filter (\<lambda>e. fst e \<notin> set (map fst (take n s))) s)"
    by (simp add: ms mset_filter)
  also have "filter (\<lambda>e. fst e \<notin> set (map fst (take n s))) s = drop n s"
  proof -
    have dj: "set (map fst (take n s)) \<inter> set (map fst (drop n s)) = {}"
      using ds by (metis append_take_drop_id distinct_append map_append)
    have "filter (\<lambda>e. fst e \<notin> set (map fst (take n s))) (take n s @ drop n s) = drop n s"
      unfolding filter_append using dj by (force simp: filter_empty_conv filter_id_conv)
    then show ?thesis by simp
  qed
  finally show ?thesis by (simp add: s_def n_def)
qed

lemma length_evict:
  assumes "js_keys_distinct m"
  shows "length (evict ts cap m) = min (length m) cap"
proof (cases "length m \<le> cap")
  case False
  then have "size (mset (evict ts cap m)) =
      size (mset (drop (length m - cap) (sort_key (\<lambda>e. ts (snd e)) m)))"
    using evict_partition [OF assms, of cap ts] by simp
  then show ?thesis using False by simp
qed (simp add: evict_def)

text \<open>What is evicted is never newer than what is kept.\<close>

lemma evict_oldest:
  assumes "js_keys_distinct m" and "e \<in> set m" and "e \<notin> set (evict ts cap m)"
    and "f \<in> set (evict ts cap m)"
  shows "ts (snd e) \<le> ts (snd f)"
proof -
  define s where "s = sort_key (\<lambda>e. ts (snd e)) m"
  define n where "n = length m - cap"
  have big: "cap < length m" using assms(2,3) by (cases "length m \<le> cap") (auto simp: evict_def)
  have kept: "set (evict ts cap m) = set (drop n s)"
    using arg_cong [OF evict_partition [OF assms(1) big, of ts], of set_mset]
    by (simp add: s_def n_def)
  have "sorted (map (\<lambda>e. ts (snd e)) (take n s @ drop n s))" by (simp add: s_def)
  moreover have "e \<in> set (take n s)"
    using assms(2,3) kept by (metis append_take_drop_id s_def set_append set_sort UnE)
  ultimately show ?thesis
    using assms(4) kept by (auto simp: sorted_append simp del: append_take_drop_id)
qed

end
