(* ===== verification/Schema.thy ===== *)
theory Schema
  imports Prelude
begin

text \<open>
  The database of \<open>src/services/database.js\<close> and \<open>src/services/migrations.js\<close>: one record per
  table row with the columns the modelled code reads or writes, and the record \<open>db\<close> of the
  tables. A table is the list of its rows in insertion order, which is the order of an
  unordered select. A nullable text is a \<open>string option\<close>, a 0/1 column is a \<open>bool\<close>. Time
  stamps are texts in SQL form (UTC), as in the code, and compare as texts.
  The texts written to the audit log and to notifications are Chinese sentences around some
  values: the model keeps the action and the values, in order. What leaves the program
  (notifications, configuration pushes) is appended to the list of effects.
\<close>

section \<open>Rows\<close>

record user =
  u_id :: int
  u_auth_type :: string
  u_username :: string
  u_name :: string
  u_avatar_url :: "string option"
  u_trust_level :: int
  u_email :: "string option"
  u_password_hash :: "string option"
  u_oauth_provider :: "string option"
  u_oauth_subject :: "string option"
  u_sub_token :: string
  u_is_admin :: bool
  u_is_blocked :: bool
  u_is_frozen :: bool
  u_freeze_reason :: "string option"
  u_traffic_limit :: int
  u_telegram_id :: "string option"
  u_expires_at :: "string option"
  u_created_at :: string
  u_last_login :: "string option"
  u_last_token_reset :: "string option"

record uuid_row =
  uu_id :: int
  uu_user :: int
  uu_node :: int
  uu_uuid :: string

record traffic_row =
  tr_user :: int
  tr_node :: int
  tr_up :: int
  tr_down :: int
  tr_at :: string

record daily_row =
  da_user :: int
  da_node :: int
  da_date :: string
  da_up :: int
  da_down :: int

record total_row =
  ut_user :: int
  ut_up :: int
  ut_down :: int

record audit_row =
  au_user :: "int option"
  au_action :: string
  au_args :: "string list"
  au_ip :: string
  au_at :: string

record checkin_row =
  ck_user :: int
  ck_date :: string
  ck_amount :: int

record lucky_row =
  lu_user :: int
  lu_week :: string
  lu_prize :: string
  lu_amount :: int

record rps_row =
  rp_user :: int
  rp_date :: string
  rp_plays :: nat
  rp_net_gb :: rat

record flip_row =
  fl_user :: int
  fl_date :: string
  fl_card :: int
  fl_label :: string
  fl_bytes :: int
  fl_gb :: rat

record plot_row =
  pl_user :: int
  pl_slot :: int
  pl_planted_at :: int
  pl_notified :: bool

record seed_row =
  se_user :: int
  se_seeds :: int

record steal_row =
  st_thief :: int
  st_victim :: int
  st_slot :: int
  st_planted_at :: int
  st_stolen_gb :: int
  st_day :: string

record sub_log_row =
  sl_user :: int
  sl_ip :: string
  sl_ua :: string
  sl_at :: string

record sub_event_row =
  ev_user :: "int option"
  ev_token :: string
  ev_route :: string
  ev_result :: string
  ev_reason :: string
  ev_ip :: string
  ev_ua :: string
  ev_client :: string
  ev_status :: int
  ev_at :: string

record invite_row =
  iv_id :: int
  iv_inviter :: int
  iv_code :: string
  iv_expires_at :: string
  iv_used_at :: "string option"
  iv_used_by :: "int option"
  iv_created_at :: string

record observe_row =
  ob_user :: int
  ob_username :: string
  ob_node_count :: int
  ob_nodes :: string
  ob_window :: int
  ob_traffic :: int
  ob_at :: string

record node =
  n_id :: int
  n_name :: string
  n_host :: string
  n_port :: int
  n_uuid :: string
  n_protocol :: string
  n_network :: "string option"
  n_security :: "string option"
  n_ws_path :: "string option"
  n_allow_insecure :: bool
  n_ssh_host :: "string option"
  n_is_active :: bool
  n_region :: string
  n_remark :: string
  n_min_level :: int
  n_reality_public_key :: "string option"
  n_reality_short_id :: "string option"
  n_sni :: "string option"
  n_ip_version :: int
  n_ss_method :: "string option"
  n_ss_password :: "string option"
  n_hy2_port :: "int option"
  n_hy2_obfs :: "string option"
  n_hy2_sni :: "string option"
  n_traffic_cap :: int
  n_traffic_rate :: rat
  n_ssh_password :: "string option"
  n_socks5_pass :: "string option"
  n_reality_private_key :: "string option"
  n_hy2_stats_secret :: "string option"
  n_agent_token :: "string option"
  n_last_rotated :: "string option"
  n_is_manual :: bool
  n_fail_count :: int
  n_aws_instance :: "string option"
  n_last_check :: "string option"
  n_agent_last_report :: "string option"
  n_ssh_port :: int
  n_ssh_user :: string
  n_ssh_key_path :: "string option"
  n_xray_config_path :: "string option"
  n_socks5_host :: "string option"
  n_socks5_port :: int
  n_socks5_user :: "string option"
  n_hy2_up :: "int option"
  n_hy2_down :: "int option"

record order_row =
  od_id :: int
  od_order :: string
  od_user :: int
  od_amount :: int
  od_traffic_gb :: int
  od_status :: string
  od_transaction :: "string option"
  od_url :: "string option"
  od_paid_at :: "string option"
  od_raw :: "string option"
  od_created_at :: string
  od_updated_at :: string

record metric_row =
  me_id :: int
  me_node :: int
  me_cpu :: "rat option"
  me_mem :: "rat option"
  me_disk :: "rat option"
  me_load :: "rat option list"
  me_rx :: "rat option"
  me_tx :: "rat option"
  me_uptime :: "rat option"
  me_at :: string

record abuse_row =
  ab_node :: "int option"
  ab_user :: "int option"
  ab_type :: string
  ab_detail :: string
  ab_at :: string

record diagnosis_row =
  dg_id :: int
  dg_node :: int
  dg_status :: string
  dg_info :: string
  dg_ai_analysis :: "string option"
  dg_fix_commands :: "string option"
  dg_fix_result :: "string option"
  dg_created_at :: string
  dg_resolved_at :: "string option"

record diary_row =
  di_id :: int
  di_content :: string
  di_mood :: string
  di_category :: string
  di_at :: string

text \<open>The three whitelists: of accounts, of names that may register, of an account at a node.\<close>

record white_row =
  wl_id :: int
  wl_user :: int
  wl_at :: string

record reg_white_row =
  rw_id :: int
  rw_username :: string
  rw_at :: string

record node_white_row =
  na_id :: int
  na_user :: int
  na_node :: int
  na_at :: string

section \<open>Effects and the database\<close>

datatype effect =
    EmitSyncAll
  | EmitSyncNode int
  | Notify string "string list"
  | SendToUser string "string list"
  | AgentCommand int string
  | SwapIp int

record db =
  d_users :: "user list"
  d_nodes :: "node list"
  d_uuids :: "uuid_row list"
  d_traffic :: "traffic_row list"
  d_daily :: "daily_row list"
  d_totals :: "total_row list"
  d_site_total :: "(int \<times> int) option"
  d_settings :: "(string \<times> string) list"
  d_audit :: "audit_row list"
  d_checkin :: "checkin_row list"
  d_lucky :: "lucky_row list"
  d_rps :: "rps_row list"
  d_flip :: "flip_row list"
  d_plots :: "plot_row list"
  d_seeds :: "seed_row list"
  d_steals :: "steal_row list"
  d_sub_log :: "sub_log_row list"
  d_sub_events :: "sub_event_row list"
  d_invites :: "invite_row list"
  d_observe :: "observe_row list"
  d_orders :: "order_row list"
  d_metrics :: "metric_row list"
  d_abuse :: "abuse_row list"
  d_diagnoses :: "diagnosis_row list"
  d_diary :: "diary_row list"
  d_white :: "white_row list"
  d_reg_white :: "reg_white_row list"
  d_node_white :: "node_white_row list"
  d_effects :: "effect list"

definition empty_db :: db where
  "empty_db = \<lparr>d_users = [], d_nodes = [], d_uuids = [], d_traffic = [], d_daily = [],
     d_totals = [], d_site_total = Some (0, 0), d_settings = [], d_audit = [], d_checkin = [],
     d_lucky = [], d_rps = [], d_flip = [], d_plots = [], d_seeds = [], d_steals = [],
     d_sub_log = [], d_sub_events = [], d_invites = [], d_observe = [], d_orders = [], d_metrics = [],
     d_abuse = [], d_diagnoses = [], d_diary = [], d_white = [], d_reg_white = [], d_node_white = [],
     d_effects = []\<rparr>"

text \<open>The truth value of a text column: absent and empty texts count as false.\<close>

definition truthy :: "string option \<Rightarrow> bool" where
  "truthy x \<longleftrightarrow> x \<noteq> None \<and> x \<noteq> Some []"

text \<open>\<open>x || d\<close> on a text column.\<close>

definition or_else :: "string option \<Rightarrow> string \<Rightarrow> string" where
  "or_else x d = (case x of None \<Rightarrow> d | Some s \<Rightarrow> if s = [] then d else s)"

definition user_by_id :: "db \<Rightarrow> int \<Rightarrow> user option" where
  "user_by_id d uid = find (\<lambda>u. u_id u = uid) (d_users d)"

definition update_user :: "int \<Rightarrow> (user \<Rightarrow> user) \<Rightarrow> db \<Rightarrow> db" where
  "update_user uid f d = d\<lparr>d_users := update_where (\<lambda>u. u_id u = uid) f (d_users d)\<rparr>"

definition add_effect :: "effect \<Rightarrow> db \<Rightarrow> db" where
  "add_effect e d = d\<lparr>d_effects := d_effects d @ [e]\<rparr>"

section \<open>Key constraints\<close>

text \<open>The primary and unique keys the tables declare.\<close>

abbreviation uuid_key :: "uuid_row \<Rightarrow> int \<times> int" where
  "uuid_key r \<equiv> (uu_user r, uu_node r)"

abbreviation daily_key :: "daily_row \<Rightarrow> int \<times> int \<times> string" where
  "daily_key r \<equiv> (da_user r, da_node r, da_date r)"

abbreviation lucky_key :: "lucky_row \<Rightarrow> int \<times> string" where
  "lucky_key r \<equiv> (lu_user r, lu_week r)"

abbreviation rps_key :: "rps_row \<Rightarrow> int \<times> string" where
  "rps_key r \<equiv> (rp_user r, rp_date r)"

abbreviation flip_key :: "flip_row \<Rightarrow> int \<times> string \<times> int" where
  "flip_key r \<equiv> (fl_user r, fl_date r, fl_card r)"

abbreviation plot_key :: "plot_row \<Rightarrow> int \<times> int" where
  "plot_key r \<equiv> (pl_user r, pl_slot r)"

abbreviation steal_key :: "steal_row \<Rightarrow> int \<times> int \<times> int \<times> int" where
  "steal_key r \<equiv> (st_thief r, st_victim r, st_slot r, st_planted_at r)"

definition wf_users :: "db \<Rightarrow> bool" where
  "wf_users d \<longleftrightarrow> distinct (map u_id (d_users d)) \<and> distinct (map u_sub_token (d_users d))"

lemma user_by_id_update_user [simp]:
  assumes "\<And>u. u_id (f u) = u_id u"
  shows "user_by_id (update_user uid f d) k =
    (if k = uid then map_option f (user_by_id d k) else user_by_id d k)"
  using find_update_where [of u_id f, OF assms] by (simp add: user_by_id_def update_user_def)

lemma user_by_id_effect [simp]: "user_by_id (add_effect e d) k = user_by_id d k"
  by (simp add: user_by_id_def add_effect_def)

lemma user_by_id_SomeD: "user_by_id d k = Some u \<Longrightarrow> u_id u = k \<and> u \<in> set (d_users d)"
  unfolding user_by_id_def by (auto dest: find_Some_mem)

lemma update_user_ids [table_simps]:
  assumes "\<And>u. u_id (f u) = u_id u"
  shows "map u_id (d_users (update_user uid f d)) = map u_id (d_users d)"
  by (simp add: update_user_def map_update_where assms)

lemma wf_users_update [table_keys]:
  assumes "wf_users d" and "\<And>u. u_id (f u) = u_id u" and "\<And>u. u_sub_token (f u) = u_sub_token u"
  shows "wf_users (update_user uid f d)"
  using assms by (simp add: wf_users_def update_user_def map_update_where)

end
