(* ===== verification/Calendar.thy ===== *)
theory Calendar
  imports Prelude
begin

text \<open>
  Dates and times: the language's proleptic Gregorian \<open>Date\<close> on milliseconds since the epoch,
  the helpers of \<open>src/utils/time.js\<close> (SQL time stamps in UTC, date keys in the site's time
  zone, repair of stamps written in local time) and the date part of \<open>src/utils/tgGame.js\<close>
  (the game day and the week key). The site's zone Asia/Shanghai is UTC+8 without daylight
  saving for every instant after 1991, the only ones the program sees.
\<close>

section \<open>The civil calendar\<close>

text \<open>
  Days are counted from 1970-01-01. Inside, a year starts on 1 March, so that a leap day is the
  last day of its year: \<open>days_of_march_year\<close> is the first day of such a year relative to the
  start of a cycle of 400 years, \<open>days_before_month\<close> the days before the month \<open>mp\<close> of the year.
\<close>

definition days_of_march_year :: "int \<Rightarrow> int" where
  "days_of_march_year y = 365 * y + y div 4 - y div 100 + y div 400"

definition days_before_month :: "int \<Rightarrow> int" where
  "days_before_month mp = (153 * mp + 2) div 5"

definition days_from_civil :: "int \<Rightarrow> int \<Rightarrow> int \<Rightarrow> int" where
  "days_from_civil y m d =
     (let y1 = y + (m - 1) div 12; m1 = (m - 1) mod 12 + 1;
          ym = (if m1 \<le> 2 then y1 - 1 else y1); mp = (m1 + 9) mod 12
      in days_of_march_year ym + days_before_month mp + (d - 1) - 719468)"

definition march_from_days :: "int \<Rightarrow> int \<times> int" where
  "march_from_days z =
     (let n = z + 719468; c400 = n div 146097; r = n mod 146097;
          c100 = min 3 (r div 36524); r2 = r - 36524 * c100;
          c4 = r2 div 1461; r3 = r2 mod 1461;
          c1 = min 3 (r3 div 365); doy = r3 - 365 * c1
      in (400 * c400 + 100 * c100 + 4 * c4 + c1, doy))"

definition civil_from_days :: "int \<Rightarrow> int \<times> int \<times> int" where
  "civil_from_days z =
     (let (ym, doy) = march_from_days z;
          mp = (5 * doy + 2) div 153;
          d = doy - days_before_month mp + 1;
          m = (if mp < 10 then mp + 3 else mp - 9)
      in (if m \<le> 2 then ym + 1 else ym, m, d))"

lemma capped_quotient:
  fixes r k q :: int
  assumes "0 \<le> r" and "0 < k" and "q = min 3 (r div k)"
  shows "0 \<le> q" and "q \<le> 3" and "0 \<le> r - k * q" and "r - k * q < k \<or> r - k * q \<le> r - 3 * k"
proof -
  have d: "k * (r div k) + r mod k = r" "0 \<le> r mod k" "r mod k < k" using assms(2) by simp_all
  show "0 \<le> q" "q \<le> 3" using assms by (simp_all add: pos_imp_zdiv_nonneg_iff)
  have "k * q \<le> k * (r div k)" using assms(2) unfolding assms(3) by (intro mult_left_mono) auto
  then show "0 \<le> r - k * q" using d by linarith
  show "r - k * q < k \<or> r - k * q \<le> r - 3 * k"
  proof (cases "r div k \<le> 3")
    case True
    then have "q = r div k" using assms(3) by simp
    moreover have "r - k * (r div k) < k" using d by linarith
    ultimately show ?thesis by simp
  next
    case False
    then have "q = 3" using assms(3) by simp
    then show ?thesis by simp
  qed
qed

lemma march_from_days_split:
  assumes "march_from_days z = (ym, doy)"
  shows "days_of_march_year ym + doy - 719468 = z" and "0 \<le> doy" and "doy \<le> 365"
proof -
  define n where "n = z + 719468"
  define c400 where "c400 = n div 146097"
  define r where "r = n mod 146097"
  define c100 where "c100 = min 3 (r div 36524)"
  define r2 where "r2 = r - 36524 * c100"
  define c4 where "c4 = r2 div 1461"
  define r3 where "r3 = r2 mod 1461"
  define c1 where "c1 = min 3 (r3 div 365)"
  have e: "ym = 400 * c400 + 100 * c100 + 4 * c4 + c1" "doy = r3 - 365 * c1"
    using assms unfolding march_from_days_def Let_def n_def c400_def r_def c100_def
        r2_def c4_def r3_def c1_def by (simp_all only: prod.inject)
  have n: "n = 146097 * c400 + r" "0 \<le> r" "r < 146097" by (simp_all add: c400_def r_def)
  note q100 = capped_quotient [OF n(2) _ c100_def, simplified]
  have c100: "0 \<le> c100" "c100 \<le> 3" using q100 by simp_all
  have r2: "0 \<le> r2" "r2 \<le> 36524" using q100 n(3) unfolding r2_def by auto
  have r2e: "r2 = 1461 * c4 + r3" "0 \<le> r3" "r3 < 1461" by (simp_all add: c4_def r3_def)
  have c4: "0 \<le> c4" "c4 \<le> 24" using r2 r2e by linarith+
  note q1 = capped_quotient [OF r2e(2) _ c1_def, simplified]
  have c1: "0 \<le> c1" "c1 \<le> 3" using q1 by simp_all
  show "0 \<le> doy" "doy \<le> 365" using q1 r2e(3) unfolding e by auto
  have "ym div 400 = c400"
    using c100 c4 c1 by (intro int_div_pos_eq [where r = "100 * c100 + 4 * c4 + c1"]) (simp_all add: e)
  moreover have "ym div 100 = 4 * c400 + c100"
    using c4 c1 by (intro int_div_pos_eq [where r = "4 * c4 + c1"]) (simp_all add: e)
  moreover have "ym div 4 = 100 * c400 + 25 * c100 + c4"
    using c1 by (intro int_div_pos_eq [where r = c1]) (simp_all add: e)
  ultimately have "days_of_march_year ym =
      365 * ym + (100 * c400 + 25 * c100 + c4) - (4 * c400 + c100) + c400"
    by (simp add: days_of_march_year_def)
  then show "days_of_march_year ym + doy - 719468 = z"
    using n(1) r2e(1) n_def r2_def e by linarith
qed

text \<open>The calendar is a faithful reading of the day count: dates lead back to their day.\<close>

lemma days_from_civil_inverse:
  assumes "civil_from_days z = (y, m, d)"
  shows "days_from_civil y m d = z" and "1 \<le> m" and "m \<le> 12" and "1 \<le> d" and "d \<le> 31"
proof -
  obtain ym doy where z: "march_from_days z = (ym, doy)" by fastforce
  note b = march_from_days_split [OF z]
  define mp where "mp = (5 * doy + 2) div 153"
  have mpb: "153 * mp \<le> 5 * doy + 2" "5 * doy + 2 < 153 * mp + 153"
    unfolding mp_def by linarith+
  have mp: "0 \<le> mp" "mp \<le> 11" using mpb b(2,3) by linarith+
  have e: "m = (if mp < 10 then mp + 3 else mp - 9)" "d = doy - days_before_month mp + 1"
    "y = (if m \<le> 2 then ym + 1 else ym)"
    using assms z by (auto simp: civil_from_days_def Let_def mp_def)
  show m: "1 \<le> m" "m \<le> 12" using mp by (auto simp: e)
  show "1 \<le> d" "d \<le> 31"
    using mpb unfolding e days_before_month_def by linarith+
  have "(m - 1) div 12 = 0" "(m - 1) mod 12 + 1 = m" using m by simp_all
  moreover have "(m + 9) mod 12 = mp" unfolding e using mp by (simp split: if_splits)
  moreover have "(if m \<le> 2 then y - 1 else y) = ym" using e(3) by simp
  ultimately show "days_from_civil y m d = z"
    using b(1) by (simp add: days_from_civil_def Let_def e(2))
qed


section \<open>The language's \<open>Date\<close>\<close>

definition ms_per_day :: int where "ms_per_day = 86400000"

text \<open>
  \<open>Date.UTC(y, mon - 1, d, h, mi, s)\<close>: out-of-range parts carry over; a year from 0 to 99
  means 1900 to 1999.
\<close>

definition date_utc :: "int \<Rightarrow> int \<Rightarrow> int \<Rightarrow> int \<Rightarrow> int \<Rightarrow> int \<Rightarrow> int" where
  "date_utc y mon d h mi s =
     (let yr = (if 0 \<le> y \<and> y \<le> 99 then 1900 + y else y)
      in days_from_civil yr mon d * ms_per_day + h * 3600000 + mi * 60000 + s * 1000)"

definition pad_start :: "nat \<Rightarrow> string \<Rightarrow> string" where
  "pad_start k s = replicate (k - length s) CHR ''0'' @ s"

definition pad2 :: "int \<Rightarrow> string" where
  "pad2 n = pad_start 2 (show_int n)"

text \<open>The year as \<open>toISOString\<close> prints it: four digits, or a sign and six.\<close>

definition iso_year :: "int \<Rightarrow> string" where
  "iso_year y = (if 0 \<le> y \<and> y \<le> 9999 then pad_start 4 (show_int y)
     else (if y < 0 then ''-'' else ''+'') @ pad_start 6 (show_int \<bar>y\<bar>))"

text \<open>\<open>d.toISOString().slice(0, 10)\<close> for a day.\<close>

definition iso_day :: "int \<Rightarrow> string" where
  "iso_day z = (let (y, m, d) = civil_from_days z
     in take 10 (iso_year y @ ''-'' @ pad2 m @ ''-'' @ pad2 d))"

section \<open>utils/time.js\<close>

fun is_digits :: "string \<Rightarrow> bool" where
  "is_digits s = list_all is_digit s"

text \<open>
  The pattern \<open>YYYY-MM-DD\<close> with an optional time of day: a blank or \<open>T\<close>, hours and minutes, and
  optional seconds. The groups that are absent read as 0.
\<close>

definition match_time :: "string \<Rightarrow> (int \<times> int \<times> int) option" where
  "match_time s =
     (case s of
        [] \<Rightarrow> Some (0, 0, 0)
      | [t, a, b, c1, c, d] \<Rightarrow>
          if (t = CHR '' '' \<or> t = CHR ''T'') \<and> c1 = CHR '':'' \<and> is_digits [a, b, c, d]
          then Some (digits_val [a, b], digits_val [c, d], 0) else None
      | [t, a, b, c1, c, d, c2, e, f] \<Rightarrow>
          if (t = CHR '' '' \<or> t = CHR ''T'') \<and> c1 = CHR '':'' \<and> c2 = CHR '':''
             \<and> is_digits [a, b, c, d, e, f]
          then Some (digits_val [a, b], digits_val [c, d], digits_val [e, f]) else None
      | _ \<Rightarrow> None)"

definition match_sql_date :: "string \<Rightarrow> (int \<times> int \<times> int \<times> int \<times> int \<times> int) option" where
  "match_sql_date s =
     (case s of
        y1 # y2 # y3 # y4 # s1 # m1 # m2 # s2 # d1 # d2 # rest \<Rightarrow>
          if is_digits [y1, y2, y3, y4, m1, m2, d1, d2] \<and> s1 = CHR ''-'' \<and> s2 = CHR ''-''
          then map_option
            (\<lambda>(h, mi, sec). (digits_val [y1, y2, y3, y4], digits_val [m1, m2], digits_val [d1, d2], h, mi, sec))
            (match_time rest)
          else None
      | _ \<Rightarrow> None)"

text \<open>
  \<open>parseDateInput\<close>: a date or a number of milliseconds as it is; a text in the SQL form is read
  as UTC, any other text goes to the engine's own parser, whose results for other formats the
  language leaves open: it is the parameter \<open>engine\<close> (\<open>None\<close> is an invalid date).
\<close>

datatype date_input = DateMs int | DateText string

definition parseDateInput :: "(string \<Rightarrow> int option) \<Rightarrow> date_input \<Rightarrow> int option" where
  "parseDateInput engine inp =
     (case inp of
        DateMs t \<Rightarrow> Some t
      | DateText s \<Rightarrow>
          (case match_sql_date (js_trim s) of
             Some (y, mon, d, h, mi, sec) \<Rightarrow> Some (date_utc y mon d h mi sec)
           | None \<Rightarrow> engine s))"

text \<open>\<open>toSqlUtc\<close> of an instant: the year is printed without padding.\<close>

definition toSqlUtc :: "int \<Rightarrow> string" where
  "toSqlUtc t =
     (let (y, m, d) = civil_from_days (t div ms_per_day);
          sod = (t mod ms_per_day) div 1000
      in show_int y @ ''-'' @ pad2 m @ ''-'' @ pad2 d @ '' '' @
         pad2 (sod div 3600) @ '':'' @ pad2 (sod div 60 mod 60) @ '':'' @ pad2 (sod mod 60))"

definition shanghai_offset :: int where "shanghai_offset = 28800000"

definition local_day :: "int \<Rightarrow> int" where
  "local_day t = (t + shanghai_offset) div ms_per_day"

definition dateKeyInTimeZone :: "int \<Rightarrow> string" where
  "dateKeyInTimeZone t =
     (let (y, m, d) = civil_from_days (local_day t) in show_int y @ ''-'' @ pad2 m @ ''-'' @ pad2 d)"

definition dateKeyDaysAgo :: "int \<Rightarrow> int \<Rightarrow> string" where
  "dateKeyDaysAgo days t = dateKeyInTimeZone (t - days * 86400000)"

text \<open>
  \<open>normalizeLegacyLocalSqlToUtc\<close>: a stamp that lies more than the threshold in the future was
  written in local time and is moved back by the offset; everything else is returned unchanged.
\<close>

definition normalizeLegacyLocalSqlToUtc :: "string \<Rightarrow> int \<Rightarrow> int \<Rightarrow> int \<Rightarrow> string" where
  "normalizeLegacyLocalSqlToUtc s localOffsetHours futureThresholdHours now =
     (case match_sql_date (js_trim s) of
        None \<Rightarrow> s
      | Some (y, mon, d, h, mi, sec) \<Rightarrow>
          if date_utc y mon d h mi sec \<le> now + futureThresholdHours * 3600000 then s
          else toSqlUtc (date_utc y mon d (h - localOffsetHours) mi sec))"

section \<open>The game calendar of utils/tgGame.js\<close>

record tz_parts =
  tz_year :: int
  tz_month :: int
  tz_day :: int
  tz_weekday :: int
  tz_date :: string

text \<open>1970-01-01 was a Thursday; Sunday is 0.\<close>

definition weekday_of :: "int \<Rightarrow> int" where
  "weekday_of z = (z + 4) mod 7"

definition getTzDateParts :: "int \<Rightarrow> tz_parts" where
  "getTzDateParts t =
     (let z = local_day t; (y, m, d) = civil_from_days z
      in \<lparr>tz_year = y, tz_month = m, tz_day = d, tz_weekday = weekday_of z,
          tz_date = show_int y @ ''-'' @ pad2 m @ ''-'' @ pad2 d\<rparr>)"

definition today :: "int \<Rightarrow> string" where
  "today t = tz_date (getTzDateParts t)"

text \<open>
  \<open>shiftIsoDate\<close>: the ISO text of a day with a four-digit year (months 1 to 12, days 1 to 31, the
  excess of a short month carries over) moved by some days; an unreadable text is an invalid date
  and printing it throws.
\<close>

definition parse_iso_day :: "string \<Rightarrow> int option" where
  "parse_iso_day s =
     (case s of
        [y1, y2, y3, y4, s1, m1, m2, s2, d1, d2] \<Rightarrow>
          (let y = digits_val [y1, y2, y3, y4]; m = digits_val [m1, m2]; d = digits_val [d1, d2]
           in if is_digits [y1, y2, y3, y4, m1, m2, d1, d2] \<and> s1 = CHR ''-'' \<and> s2 = CHR ''-''
                 \<and> 1 \<le> m \<and> m \<le> 12 \<and> 1 \<le> d \<and> d \<le> 31
              then Some (days_from_civil y m d) else None)
      | _ \<Rightarrow> None)"

definition shiftIsoDate :: "string \<Rightarrow> int \<Rightarrow> string option" where
  "shiftIsoDate s days = map_option (\<lambda>z. iso_day (z + days)) (parse_iso_day s)"

definition weekKey :: "int \<Rightarrow> string option" where
  "weekKey t = (let p = getTzDateParts t in shiftIsoDate (tz_date p) (- ((tz_weekday p + 6) mod 7)))"

end
