(* ===== verification/SettingsRepo.thy ===== *)
theory SettingsRepo
  imports Schema Calendar
begin

text \<open>
  Settings and the audit log (\<open>src/services/repos/settingsRepo.js\<close>). The audit log keeps the
  action and the interpolated values of the detail text. A page of the log is newest first;
  entries of the same second come in reverse order of insertion, the order of the index on the
  time stamp read backwards.
\<close>

definition getSetting :: "db \<Rightarrow> string \<Rightarrow> string option" where
  "getSetting d key = map_of (d_settings d) key"

definition setSetting :: "string \<Rightarrow> string \<Rightarrow> db \<Rightarrow> db" where
  "setSetting key val d = d\<lparr>d_settings := AList.update key val (d_settings d)\<rparr>"

definition addAuditLog :: "int \<Rightarrow> int option \<Rightarrow> string \<Rightarrow> string list \<Rightarrow> string \<Rightarrow> db \<Rightarrow> db" where
  "addAuditLog now uid act args ip d =
     d\<lparr>d_audit := d_audit d @
        [\<lparr>au_user = uid, au_action = act, au_args = args, au_ip = ip, au_at = toSqlUtc now\<rparr>]\<rparr>"

definition audit_filter :: "string \<Rightarrow> audit_row \<Rightarrow> bool" where
  "audit_filter type r =
     (if type = ''system'' then au_ip r = ''system''
      else if type = ''user'' then au_ip r \<noteq> ''system'' else True)"

text \<open>\<open>LIMIT l OFFSET o\<close>.\<close>

definition page :: "nat \<Rightarrow> nat \<Rightarrow> 'a list \<Rightarrow> 'a list" where
  "page limit offset xs = take limit (drop offset xs)"

text \<open>
  \<open>text LIKE pattern\<close> without an escape character: \<open>%\<close> is any text, \<open>_\<close> any character, letters
  compare without case.
\<close>

fun like_plain :: "string \<Rightarrow> string \<Rightarrow> bool" where
  "like_plain [] s = (s = [])"
| "like_plain (c # p) [] = (c = CHR ''%'' \<and> like_plain p [])"
| "like_plain (c # p) (x # s) =
     (if c = CHR ''%'' then like_plain p (x # s) \<or> like_plain (c # p) s
      else (c = CHR ''_'' \<or> js_lower_char x = js_lower_char c) \<and> like_plain p s)"

definition like_infix :: "string \<Rightarrow> string \<Rightarrow> bool" where
  "like_infix q s = like_plain (''%'' @ q @ ''%'') s"

text \<open>A page of the log, each entry with the name of its user if there is one, and the total.\<close>

definition getAuditLogs :: "nat \<Rightarrow> nat \<Rightarrow> string \<Rightarrow> db \<Rightarrow> (audit_row \<times> string option) list \<times> nat" where
  "getAuditLogs limit offset type d =
     (let rows = filter (audit_filter type) (d_audit d);
          named = map (\<lambda>r. (r, case au_user r of None \<Rightarrow> None
                                | Some uid \<Rightarrow> map_option u_username (user_by_id d uid)))
                      (rev (sort_key au_at rows))
      in (page limit offset named, length rows))"

definition clearAuditLogs :: "db \<Rightarrow> db" where
  "clearAuditLogs d = d\<lparr>d_audit := []\<rparr>"

lemma getSetting_setSetting: "getSetting (setSetting k v d) j = (if j = k then Some v else getSetting d j)"
  by (simp add: getSetting_def setSetting_def update_conv')

lemma audit_frame [simp]:
  "d_users (addAuditLog now uid act args ip d) = d_users d"
  "d_settings (addAuditLog now uid act args ip d) = d_settings d"
  "d_nodes (addAuditLog now uid act args ip d) = d_nodes d"
  "d_uuids (addAuditLog now uid act args ip d) = d_uuids d"
  "d_daily (addAuditLog now uid act args ip d) = d_daily d"
  "d_totals (addAuditLog now uid act args ip d) = d_totals d"
  "d_checkin (addAuditLog now uid act args ip d) = d_checkin d"
  "d_lucky (addAuditLog now uid act args ip d) = d_lucky d"
  "d_rps (addAuditLog now uid act args ip d) = d_rps d"
  "d_flip (addAuditLog now uid act args ip d) = d_flip d"
  "d_plots (addAuditLog now uid act args ip d) = d_plots d"
  "d_seeds (addAuditLog now uid act args ip d) = d_seeds d"
  "d_steals (addAuditLog now uid act args ip d) = d_steals d"
  "d_sub_log (addAuditLog now uid act args ip d) = d_sub_log d"
  "d_sub_events (addAuditLog now uid act args ip d) = d_sub_events d"
  "d_invites (addAuditLog now uid act args ip d) = d_invites d"
  "d_effects (addAuditLog now uid act args ip d) = d_effects d"
  by (simp_all add: addAuditLog_def)

lemma user_by_id_audit [simp]: "user_by_id (addAuditLog now uid act args ip d) k = user_by_id d k"
  by (simp add: user_by_id_def)

lemma effect_frame [simp]:
  "d_users (add_effect e d) = d_users d"
  "d_settings (add_effect e d) = d_settings d"
  "d_nodes (add_effect e d) = d_nodes d"
  "d_uuids (add_effect e d) = d_uuids d"
  "d_daily (add_effect e d) = d_daily d"
  "d_totals (add_effect e d) = d_totals d"
  "d_checkin (add_effect e d) = d_checkin d"
  "d_lucky (add_effect e d) = d_lucky d"
  "d_rps (add_effect e d) = d_rps d"
  "d_flip (add_effect e d) = d_flip d"
  "d_plots (add_effect e d) = d_plots d"
  "d_seeds (add_effect e d) = d_seeds d"
  "d_steals (add_effect e d) = d_steals d"
  "d_sub_log (add_effect e d) = d_sub_log d"
  "d_sub_events (add_effect e d) = d_sub_events d"
  "d_invites (add_effect e d) = d_invites d"
  "d_audit (add_effect e d) = d_audit d"
  by (simp_all add: add_effect_def)

lemma update_user_frame [simp]:
  "d_settings (update_user uid f d) = d_settings d"
  "d_nodes (update_user uid f d) = d_nodes d"
  "d_uuids (update_user uid f d) = d_uuids d"
  "d_daily (update_user uid f d) = d_daily d"
  "d_totals (update_user uid f d) = d_totals d"
  "d_checkin (update_user uid f d) = d_checkin d"
  "d_lucky (update_user uid f d) = d_lucky d"
  "d_rps (update_user uid f d) = d_rps d"
  "d_flip (update_user uid f d) = d_flip d"
  "d_plots (update_user uid f d) = d_plots d"
  "d_seeds (update_user uid f d) = d_seeds d"
  "d_steals (update_user uid f d) = d_steals d"
  "d_sub_log (update_user uid f d) = d_sub_log d"
  "d_sub_events (update_user uid f d) = d_sub_events d"
  "d_invites (update_user uid f d) = d_invites d"
  "d_effects (update_user uid f d) = d_effects d"
  by (simp_all add: update_user_def)

text \<open>Consecutive pages of the log put together are the whole list, each entry once.\<close>

lemma pages_partition: "0 < l \<Longrightarrow> length xs \<le> n * l \<Longrightarrow> concat (map (\<lambda>i. page l (i * l) xs) [0..<n]) = xs"
proof (induction n arbitrary: xs)
  case (Suc n)
  have "concat (map (\<lambda>i. page l (i * l) xs) [0..<Suc n]) =
      take l xs @ concat (map (\<lambda>i. page l (i * l) (drop l xs)) [0..<n])"
    unfolding upt_conv_Cons [OF zero_less_Suc] map_Suc_upt [symmetric]
    by (simp add: page_def comp_def add.commute)
  also have "\<dots> = xs" using Suc.IH [of "drop l xs"] Suc.prems by simp
  finally show ?case .
qed simp

end
