(* ===== verification/NetUtils.thy ===== *)
theory NetUtils
  imports SettingsRepo
begin

text \<open>
  Small services shared by the routes: input validation (\<open>src/utils/validators.js\<close>), addresses of
  clients (\<open>src/utils/clientIp.js\<close>), the proxy setting (\<open>src/utils/trustProxy.js\<close>), HTML escaping
  (\<open>src/utils/escapeHtml.js\<close>), account groups (\<open>src/utils/userGroup.js\<close>), secret comparison
  (\<open>src/utils/securityTokens.js\<close>) and signed links (\<open>src/utils/subSignature.js\<close>). The platform's
  address check and its hash functions are parameters.
\<close>

section \<open>Validation of input\<close>

definition toPosInt :: "string \<Rightarrow> int \<Rightarrow> int \<Rightarrow> int option \<Rightarrow> int" where
  "toPosInt val fallback least greatest =
     (case js_parse_int val of
        None \<Rightarrow> fallback
      | Some n \<Rightarrow>
          (let out = (if n < least then least else n)
           in case greatest of None \<Rightarrow> out | Some m \<Rightarrow> if m < out then m else out))"

definition parseIntId :: "string \<Rightarrow> int option" where
  "parseIntId raw = (case to_js_num (js_number raw) of JInt n \<Rightarrow> if 0 < n then Some n else None | JNonInt \<Rightarrow> None)"

definition host_char :: "char \<Rightarrow> bool" where
  "host_char c \<longleftrightarrow> (let n = of_char c :: nat in
     (97 \<le> n \<and> n \<le> 122) \<or> (65 \<le> n \<and> n \<le> 90) \<or> (48 \<le> n \<and> n \<le> 57)) \<or> c \<in> set ''._-''"

text \<open>\<open>None\<close> is a value that is not a text; \<open>isIP\<close> is the platform's check.\<close>

definition isValidHost :: "(string \<Rightarrow> bool) \<Rightarrow> string option \<Rightarrow> bool" where
  "isValidHost isIP host =
     (case host of
        None \<Rightarrow> False
      | Some h \<Rightarrow>
          (let v = js_trim h
           in if v = [] then False
              else isIP v \<or> (length v \<le> 253 \<and> list_all host_char v)))"

definition normalizeUsernameInput :: "string \<Rightarrow> nat \<Rightarrow> string" where
  "normalizeUsernameInput raw maxLen = (let v = js_trim raw in if maxLen < length v then [] else v)"

section \<open>Addresses of clients\<close>

definition short_digits :: "string \<Rightarrow> bool" where
  "short_digits s \<longleftrightarrow> 1 \<le> length s \<and> length s \<le> 3 \<and> list_all is_digit s"

definition ipv4_shape :: "string \<Rightarrow> bool" where
  "ipv4_shape s \<longleftrightarrow> (let ps = js_split (CHR ''.'') s in length ps = 4 \<and> list_all short_digits ps)"

text \<open>\<open>a.b.c.d:port\<close> without its port.\<close>

definition strip_port :: "string \<Rightarrow> string" where
  "strip_port s =
     (case js_split (CHR '':'') s of
        [a, p] \<Rightarrow> if ipv4_shape a \<and> p \<noteq> [] \<and> list_all is_digit p then a else s
      | _ \<Rightarrow> s)"

definition normalizeIp :: "string \<Rightarrow> string" where
  "normalizeIp ip =
     (let r0 = js_trim ip
      in if r0 = [] then []
         else let r1 = (if js_starts ''['' r0
                        then (case js_index (CHR '']'') r0 of
                                Some e \<Rightarrow> if 1 < e then take (e - 1) (drop 1 r0) else r0
                              | None \<Rightarrow> r0)
                        else r0);
                  r2 = (case js_index (CHR ''%'') r1 of
                          Some z \<Rightarrow> if 0 < z then take z r1 else r1
                        | None \<Rightarrow> r1);
                  r3 = strip_port r2
              in if js_starts ''::ffff:'' r3 then drop 7 r3 else r3)"

text \<open>A header as the platform gives it: absent, one text, or a list of texts.\<close>

datatype header = NoHeader | HText string | HList "string list"

definition header_set :: "header \<Rightarrow> bool" where
  "header_set h \<longleftrightarrow> h \<noteq> NoHeader \<and> h \<noteq> HText []"

definition getFirstHeaderIp :: "header \<Rightarrow> string" where
  "getFirstHeaderIp h =
     (if \<not> header_set h then []
      else let raw = (case h of HList (x # _) \<Rightarrow> x | HList [] \<Rightarrow> ''undefined'' | HText s \<Rightarrow> s | NoHeader \<Rightarrow> [])
           in normalizeIp (js_trim (hd (js_split (CHR '','') raw))))"

text \<open>The number after the prefix when the text is \<open>prefix\<close>, one to three digits and a dot.\<close>

definition second_octet :: "string \<Rightarrow> string \<Rightarrow> int option" where
  "second_octet prefix s =
     (if js_starts prefix s
      then let rest = drop (length prefix) s; ds = takeWhile is_digit rest
           in if short_digits ds \<and> js_starts ''.'' (drop (length ds) rest) then Some (digits_val ds) else None
      else None)"

definition octet_in :: "int \<Rightarrow> int \<Rightarrow> int option \<Rightarrow> bool" where
  "octet_in lo hi x = (case x of None \<Rightarrow> False | Some v \<Rightarrow> lo \<le> v \<and> v \<le> hi)"

definition isPrivateOrLoopback :: "string \<Rightarrow> bool" where
  "isPrivateOrLoopback ip =
     (let n = js_lower (normalizeIp ip)
      in if n = [] then False
         else n = ''::1'' \<or> js_starts ''127.'' n \<or> js_starts ''10.'' n \<or> js_starts ''192.168.'' n \<or>
           js_starts ''169.254.'' n \<or> octet_in 64 127 (second_octet ''100.'' n) \<or> js_starts ''0.'' n \<or>
           octet_in 16 31 (second_octet ''172.'' n) \<or>
           js_starts ''fc'' n \<or> js_starts ''fd'' n \<or> js_starts ''fe80:'' n \<or>
           n = ''::'' \<or> n = ''::ffff:0:0'')"

record request =
  rq_ip :: string
  rq_remote :: string
  rq_header :: "string \<Rightarrow> header"

definition first_nonempty :: "string list \<Rightarrow> string" where
  "first_nonempty xs = (case find (\<lambda>x. x \<noteq> []) xs of None \<Rightarrow> [] | Some x \<Rightarrow> x)"

definition getForwardedIp :: "request \<Rightarrow> string" where
  "getForwardedIp req = first_nonempty
     [getFirstHeaderIp (rq_header req ''cf-connecting-ip''), getFirstHeaderIp (rq_header req ''x-real-ip''),
      getFirstHeaderIp (rq_header req ''x-forwarded-for'')]"

definition cf_signal :: "request \<Rightarrow> bool" where
  "cf_signal req \<longleftrightarrow> header_set (rq_header req ''cf-ray'') \<or> header_set (rq_header req ''cf-worker'') \<or>
     header_set (rq_header req ''cf-visitor'')"

definition getCloudflareClientIp :: "request \<Rightarrow> string" where
  "getCloudflareClientIp req =
     (let cfIp = getFirstHeaderIp (rq_header req ''cf-connecting-ip'')
      in if cfIp = [] then [] else if cf_signal req then cfIp else [])"

definition getClientIp :: "request \<Rightarrow> string" where
  "getClientIp req =
     (let remote = normalizeIp (rq_remote req);
          cf = getCloudflareClientIp req;
          forwarded = getForwardedIp req;
          trusted = normalizeIp (rq_ip req)
      in if trusted \<noteq> [] then (if cf \<noteq> [] \<and> cf \<noteq> trusted then cf else trusted)
         else if cf \<noteq> [] \<and> (if remote \<noteq> [] then \<not> isPrivateOrLoopback remote else True) then cf
         else if forwarded \<noteq> [] \<and> isPrivateOrLoopback remote then forwarded
         else first_nonempty [remote, forwarded])"

definition parseIpAllowlist :: "string \<Rightarrow> string list" where
  "parseIpAllowlist raw = (if raw = [] then [] else filter (\<lambda>x. x \<noteq> []) (map normalizeIp (js_split (CHR '','') raw)))"

definition isIpAllowed :: "string \<Rightarrow> string list \<Rightarrow> bool" where
  "isIpAllowed ip allowlist =
     (let n = normalizeIp ip in if n = [] then False else if allowlist = [] then True else n \<in> set allowlist)"

section \<open>The proxy setting\<close>

datatype trust_proxy = TrustNone | TrustHops int | TrustText string | TrustCidrs "string list"

definition parseTrustProxyCidrs :: "string \<Rightarrow> string list" where
  "parseTrustProxyCidrs raw = (if raw = [] then [] else filter (\<lambda>x. x \<noteq> []) (map js_trim (js_split (CHR '','') raw)))"

definition parseTrustProxyValue :: "string option \<Rightarrow> trust_proxy" where
  "parseTrustProxyValue raw =
     (let s = (case raw of None \<Rightarrow> ''false'' | Some r \<Rightarrow> r); v = js_lower (js_trim s)
      in if v \<in> {''0'', ''false'', ''off'', ''no''} then TrustNone
         else if v \<noteq> [] \<and> list_all is_digit v then TrustHops (digits_val v)
         else TrustText (js_trim s))"

definition resolveTrustProxyConfig :: "string \<Rightarrow> string option \<Rightarrow> trust_proxy" where
  "resolveTrustProxyConfig cidrsEnv valueEnv =
     (let cidrs = parseTrustProxyCidrs cidrsEnv
      in if cidrs \<noteq> [] then TrustCidrs cidrs else parseTrustProxyValue valueEnv)"

section \<open>HTML escaping\<close>

text \<open>\<open>s.replace(/c/g, r)\<close> for one character.\<close>

definition replace_char :: "char \<Rightarrow> string \<Rightarrow> string \<Rightarrow> string" where
  "replace_char c r s = concat (map (\<lambda>x. if x = c then r else [x]) s)"

definition escapeHtml :: "string option \<Rightarrow> string" where
  "escapeHtml str =
     (case str of
        None \<Rightarrow> []
      | Some s \<Rightarrow>
          replace_char (CHR 0x27) ''&#39;'' (replace_char (CHR 0x22) ''&quot;'' (replace_char (CHR ''>'') ''&gt;''
            (replace_char (CHR ''<'') ''&lt;'' (replace_char (CHR ''&'') ''&amp;'' s)))))"

section \<open>Account groups\<close>

definition GROUP_RESET_DEFAULTS :: "(int \<times> int) list" where
  "GROUP_RESET_DEFAULTS = [(1, 7), (1, 15), (1, 0), (0, 0)]"

record group_reset =
  gr_level :: int
  gr_uuid_days :: int
  gr_sub_days :: int

definition group_setting :: "db \<Rightarrow> nat \<Rightarrow> string \<Rightarrow> int option" where
  "group_setting d i what =
     (case getSetting d (''group_'' @ show_nat i @ what) of None \<Rightarrow> None | Some s \<Rightarrow> js_parse_int s)"

definition getGroupResetConfig :: "db \<Rightarrow> group_reset list" where
  "getGroupResetConfig d =
     map (\<lambda>i. \<lparr>gr_level = int i,
         gr_uuid_days = (case group_setting d i ''_uuid_days'' of
                           Some u \<Rightarrow> u | None \<Rightarrow> fst (GROUP_RESET_DEFAULTS ! i)),
         gr_sub_days = (case group_setting d i ''_sub_days'' of
                          Some s \<Rightarrow> s | None \<Rightarrow> snd (GROUP_RESET_DEFAULTS ! i))\<rparr>) [0, 1, 2, 3]"

section \<open>Secrets and signed links\<close>

text \<open>\<open>sha\<close> is the platform's hash, compared in constant time.\<close>

definition safeTokenEqual :: "(string \<Rightarrow> string) \<Rightarrow> string \<Rightarrow> string \<Rightarrow> bool" where
  "safeTokenEqual sha a b \<longleftrightarrow> a \<noteq> [] \<and> b \<noteq> [] \<and> sha a = sha b \<and> length a = length b"

lemma safeTokenEqual_iff:
  assumes "sha a = sha b \<Longrightarrow> a = b"
  shows "safeTokenEqual sha a b \<longleftrightarrow> a \<noteq> [] \<and> a = b"
  using assms by (auto simp: safeTokenEqual_def)

definition isValidOAuthState :: "(string \<Rightarrow> string) \<Rightarrow> string \<Rightarrow> string \<Rightarrow> bool" where
  "isValidOAuthState sha expectedState incomingState \<longleftrightarrow>
     expectedState \<noteq> [] \<and> incomingState \<noteq> [] \<and> safeTokenEqual sha incomingState expectedState"

datatype sign_mode = SignOff | SignObserve | SignEnforce

definition normalizeMode :: "string \<Rightarrow> sign_mode" where
  "normalizeMode raw =
     (let m = js_lower (js_trim raw)
      in if m = ''observe'' then SignObserve else if m = ''enforce'' then SignEnforce else SignOff)"

definition word_char :: "char \<Rightarrow> bool" where
  "word_char c \<longleftrightarrow> (let n = of_char c :: nat in
     (97 \<le> n \<and> n \<le> 122) \<or> (65 \<le> n \<and> n \<le> 90) \<or> (48 \<le> n \<and> n \<le> 57) \<or> n = 95)"

definition normalizeParamName :: "string \<Rightarrow> string" where
  "normalizeParamName raw =
     (let s = js_trim (if raw = [] then ''sig'' else raw)
      in if s \<noteq> [] \<and> length s \<le> 32 \<and> list_all word_char s then s else ''sig'')"

record sign_config =
  sg_mode :: sign_mode
  sg_secret :: string
  sg_param :: string

record sign_env =
  se_mode :: string
  se_secret :: string
  se_session :: string
  se_param :: string

definition getSignConfig :: "sign_env \<Rightarrow> sign_config" where
  "getSignConfig env =
     \<lparr>sg_mode = normalizeMode (se_mode env), sg_secret = first_nonempty [se_secret env, se_session env],
      sg_param = normalizeParamName (se_param env)\<rparr>"

text \<open>\<open>hmacHex\<close> is the platform's MAC in hexadecimal digits.\<close>

definition createSignature :: "(string \<Rightarrow> string \<Rightarrow> string) \<Rightarrow> sign_env \<Rightarrow> string \<Rightarrow> string \<Rightarrow> string" where
  "createSignature hmacHex env token scope =
     (let secret = sg_secret (getSignConfig env)
      in if secret = [] then [] else hmacHex secret (scope @ '':'' @ token))"

datatype sign_reason =
    SignatureOff | SecretMissing | SecretMissingObserve | SignatureOk | SignatureInvalid | SignatureInvalidObserve

record sign_verdict =
  sv_ok :: bool
  sv_status :: int
  sv_reason :: sign_reason
  sv_should_log :: bool

definition verifySignature ::
  "(string \<Rightarrow> string \<Rightarrow> string) \<Rightarrow> (string \<Rightarrow> string) \<Rightarrow> sign_env \<Rightarrow> string \<Rightarrow> string \<Rightarrow> string \<Rightarrow> sign_verdict" where
  "verifySignature hmacHex sha env token inputSig scope =
     (let cfg = getSignConfig env;
          pass = (\<lambda>reason log. \<lparr>sv_ok = True, sv_status = 0, sv_reason = reason, sv_should_log = log\<rparr>);
          refuse = (\<lambda>status reason. \<lparr>sv_ok = False, sv_status = status, sv_reason = reason, sv_should_log = False\<rparr>)
      in if sg_mode cfg = SignOff then pass SignatureOff False
         else if sg_secret cfg = [] then
           (if sg_mode cfg = SignEnforce then refuse 500 SecretMissing else pass SecretMissingObserve True)
         else if safeTokenEqual sha inputSig (createSignature hmacHex env token scope) then pass SignatureOk False
         else if sg_mode cfg = SignEnforce then refuse 403 SignatureInvalid
         else pass SignatureInvalidObserve True)"

end
