(* ===== verification/Contracts.thy ===== *)
theory Contracts
  imports Prelude
begin

text \<open>
  The interfaces between the components, each a locale with the laws a provider promises and
  the facts its clients use: unique-key upserts and their running totals, operations under a
  quota, claims that succeed at most once, and maps of bounded size.
\<close>

section \<open>Upserts on a unique key\<close>

text \<open>
  The code's \<open>INSERT ... ON CONFLICT DO UPDATE\<close> statements: \<open>merge\<close> combines the excluded
  row with the stored one and keeps the key.
\<close>

locale keyed_upsert =
  fixes key :: "'r \<Rightarrow> 'k"
    and merge :: "'r \<Rightarrow> 'r \<Rightarrow> 'r"
  assumes merge_key: "key (merge n x) = key x"
begin

lemma map_key_upsert:
  "map key (upsert key merge r t) = (if key r \<in> key ` set t then map key t else map key t @ [key r])"
  by (simp add: upsert_def map_update_where merge_key)

lemma keys_upsert: "key ` set (upsert key merge r t) = insert (key r) (key ` set t)"
proof -
  have "key ` set (upsert key merge r t) = set (map key (upsert key merge r t))" by simp
  then show ?thesis unfolding map_key_upsert by auto
qed

lemma distinct_upsert: "distinct (map key t) \<Longrightarrow> distinct (map key (upsert key merge r t))"
  by (simp add: map_key_upsert)

lemma find_upsert_other:
  assumes "k \<noteq> key r"
  shows "find (\<lambda>x. key x = k) (upsert key merge r t) = find (\<lambda>x. key x = k) t"
proof -
  have "find (\<lambda>x. key x = k) (update_where (\<lambda>x. key x = key r) (merge r) t) =
      find (\<lambda>x. key x = k) t"
    using assms merge_key by (intro find_update_where_other) auto
  then show ?thesis
    using assms by (auto simp: upsert_def find_append split: option.splits)
qed

lemma find_upsert_same:
  "find (\<lambda>x. key x = key r) (upsert key merge r t) =
   Some (case find (\<lambda>x. key x = key r) t of None \<Rightarrow> r | Some x \<Rightarrow> merge r x)"
proof (cases "find (\<lambda>x. key x = key r) t")
  case None
  then have "key r \<notin> key ` set t" using find_None_key [of key "key r" t] by simp
  then show ?thesis using None by (simp add: upsert_def find_append)
next
  case (Some x)
  then have "key r \<in> key ` set t" using find_None_key [of key "key r" t] by simp
  then show ?thesis
    using Some find_update_where [of key "merge r", OF merge_key] by (simp add: upsert_def)
qed

lemma filter_upsert_out:
  "\<not> Q r \<Longrightarrow> (\<And>x. key x = key r \<Longrightarrow> \<not> Q x) \<Longrightarrow> filter Q (upsert key merge r t) = filter Q t"
  by (auto simp: upsert_def merge_key intro!: filter_update_where_out)

end

text \<open>Running totals: a column that an upsert adds up.\<close>

locale additive_upsert = keyed_upsert key merge
  for key :: "'r \<Rightarrow> 'k" and merge :: "'r \<Rightarrow> 'r \<Rightarrow> 'r" +
  fixes amount :: "'r \<Rightarrow> int"
  assumes merge_amount: "amount (merge n x) = amount n + amount x"
begin

lemma sum_update_one:
  "distinct (map key t) \<Longrightarrow>
   sum_list (map amount (update_where (\<lambda>x. key x = key r) (merge r) t)) =
   sum_list (map amount t) + (if key r \<in> key ` set t then amount r else 0)"
proof (induction t)
  case (Cons x t)
  show ?case
  proof (cases "key x = key r")
    case True
    then have nk: "key r \<notin> key ` set t" using Cons.prems by auto
    have "update_where (\<lambda>x. key x = key r) (merge r) t = t"
      by (rule update_where_none) (metis image_eqI nk)
    then show ?thesis using True nk by (simp add: merge_amount)
  next
    case False
    then show ?thesis using Cons by auto
  qed
qed simp

lemma sum_upsert:
  "distinct (map key t) \<Longrightarrow>
   sum_list (map amount (upsert key merge r t)) = sum_list (map amount t) + amount r"
  by (simp add: upsert_def sum_update_one)

text \<open>The total over the rows that satisfy a predicate decided by the key.\<close>

lemma sum_upsert_filter:
  assumes "distinct (map key t)" and "\<And>x y. key x = key y \<Longrightarrow> Q x = Q y"
  shows "sum_list (map amount (filter Q (upsert key merge r t))) =
    sum_list (map amount (filter Q t)) + (if Q r then amount r else 0)"
proof (cases "Q r")
  case True
  have Qk: "Q x" if "key x = key r" for x using assms(2) [OF that] True by simp
  have Qm: "Q (merge r x) = Q x" for x by (rule assms(2)) (rule merge_key)
  have "filter Q (upsert key merge r t) = upsert key merge r (filter Q t)"
  proof -
    have "filter Q (update_where (\<lambda>x. key x = key r) (merge r) t) =
        update_where (\<lambda>x. key x = key r) (merge r) (filter Q t)"
      by (induction t) (auto simp: Qm dest: Qk)
    moreover have "key r \<in> key ` set (filter Q t) \<longleftrightarrow> key r \<in> key ` set t"
      using Qk by (fastforce simp: image_iff)
    ultimately show ?thesis using True by (simp add: upsert_def)
  qed
  then show ?thesis
    using True sum_upsert [of "filter Q t" r] assms(1) by (simp add: distinct_map_filter)
next
  case False
  then have "\<not> Q x" if "key x = key r" for x using assms(2) [OF that] by simp
  then show ?thesis using False filter_upsert_out [of Q r t] by simp
qed

end

section \<open>Runs\<close>

text \<open>A sequence of operations on a state, with the answers in order.\<close>

primrec run_ops :: "('a \<Rightarrow> 's \<Rightarrow> 'b \<times> 's) \<Rightarrow> 'a list \<Rightarrow> 's \<Rightarrow> 'b list \<times> 's" where
  "run_ops step [] s = ([], s)"
| "run_ops step (a # as) s =
     (let (b, s') = step a s; (bs, s'') = run_ops step as s' in (b # bs, s''))"

text \<open>The keys that the accepted operations of a run were about, in order.\<close>

primrec accepted_targets ::
  "('b \<Rightarrow> bool) \<Rightarrow> ('a \<Rightarrow> 's \<Rightarrow> 'k) \<Rightarrow> ('a \<Rightarrow> 's \<Rightarrow> 'b \<times> 's) \<Rightarrow> 'a list \<Rightarrow> 's \<Rightarrow> 'k list" where
  "accepted_targets ok target step [] s = []"
| "accepted_targets ok target step (a # as) s =
     (let rest = accepted_targets ok target step as (snd (step a s))
      in if ok (fst (step a s)) then target a s # rest else rest)"

text \<open>A sequence of insertions into a map.\<close>

primrec put_all :: "('k \<Rightarrow> 'v \<Rightarrow> ('k, 'v) js_map \<Rightarrow> ('k, 'v) js_map) \<Rightarrow> ('k \<times> 'v) list \<Rightarrow>
    ('k, 'v) js_map \<Rightarrow> ('k, 'v) js_map" where
  "put_all put [] m = m"
| "put_all put (e # es) m = put_all put es (put (fst e) (snd e) m)"

section \<open>Operations under a quota\<close>

text \<open>
  \<open>count\<close> reads how much of the quota the state has used; an accepted operation is only
  performed below the limit and uses one unit, every other operation leaves the count alone.
\<close>

locale quota =
  fixes count :: "'s \<Rightarrow> nat"
    and step :: "'a \<Rightarrow> 's \<Rightarrow> 'b \<times> 's"
    and ok :: "'b \<Rightarrow> bool"
    and limit :: nat
  assumes accepted_below: "ok (fst (step a s)) \<Longrightarrow> count s < limit"
    and accepted_counts: "ok (fst (step a s)) \<Longrightarrow> count (snd (step a s)) = Suc (count s)"
    and refused_keeps: "\<not> ok (fst (step a s)) \<Longrightarrow> count (snd (step a s)) = count s"
begin

lemma run_counts:
  "count (snd (run_ops step as s)) = count s + length (filter ok (fst (run_ops step as s)))"
proof (induction as arbitrary: s)
  case (Cons a as)
  then show ?case
    using accepted_counts [of a s] refused_keeps [of a s]
    by (cases "ok (fst (step a s))") (simp_all add: Let_def split_beta)
qed simp

lemma run_within_limit: "count s \<le> limit \<Longrightarrow> count (snd (run_ops step as s)) \<le> limit"
proof (induction as arbitrary: s)
  case (Cons a as)
  have "count (snd (step a s)) \<le> limit"
    using Cons.prems accepted_below [of a s] accepted_counts [of a s] refused_keeps [of a s]
    by (cases "ok (fst (step a s))") auto
  then show ?case using Cons.IH [of "snd (step a s)"] by (simp add: Let_def split_beta)
qed simp

lemma run_accepts_at_most: "count s \<le> limit \<Longrightarrow> length (filter ok (fst (run_ops step as s))) \<le> limit - count s"
  using run_counts [of as s] run_within_limit [of s as] by simp

lemma full_refuses: "limit \<le> count s \<Longrightarrow> \<not> ok (fst (step a s))"
  using accepted_below [of a s] by fastforce

end

section \<open>Operations that use up a budget\<close>

text \<open>
  \<open>left\<close> is what remains. Among the operations that are allowed an accepted one uses at least one
  unit and none adds to what remains. A quota is a budget.
\<close>

locale budget =
  fixes inv_ok :: "'s \<Rightarrow> bool"
    and left :: "'s \<Rightarrow> nat"
    and step :: "'a \<Rightarrow> 's \<Rightarrow> 'b \<times> 's"
    and ok :: "'a \<Rightarrow> 'b \<Rightarrow> bool"
    and allowed :: "'a \<Rightarrow> bool"
  assumes inv_step: "inv_ok s \<Longrightarrow> inv_ok (snd (step a s))"
    and uses: "inv_ok s \<Longrightarrow> allowed a \<Longrightarrow> ok a (fst (step a s)) \<Longrightarrow> Suc (left (snd (step a s))) \<le> left s"
    and keeps: "inv_ok s \<Longrightarrow> allowed a \<Longrightarrow> left (snd (step a s)) \<le> left s"
begin

lemma run_spends:
  assumes "inv_ok s" and "\<And>a. a \<in> set as \<Longrightarrow> allowed a"
  shows "length (filter (\<lambda>x. ok (fst x) (snd x)) (zip as (fst (run_ops step as s)))) \<le> left s"
  using assms
proof (induction as arbitrary: s)
  case (Cons a as)
  note IH = Cons.IH [OF inv_step [OF Cons.prems(1), of a]]
  show ?case
    using IH uses [OF Cons.prems(1), of a] keeps [OF Cons.prems(1), of a] Cons.prems(2)
    by (cases "ok a (fst (step a s))") (fastforce simp: Let_def split_beta)+
qed simp

end

sublocale quota \<subseteq> spending: budget "\<lambda>_. True" "\<lambda>s. limit - count s" step "\<lambda>_. ok" "\<lambda>_. True"
proof
  fix s a
  show "ok (fst (step a s)) \<Longrightarrow> Suc (limit - count (snd (step a s))) \<le> limit - count s"
    using accepted_below [of a s] accepted_counts [of a s] by simp
  show "limit - count (snd (step a s)) \<le> limit - count s"
    using accepted_counts [of a s] refused_keeps [of a s] by (cases "ok (fst (step a s))") simp_all
qed simp

section \<open>Claims that succeed at most once\<close>

text \<open>
  \<open>claimed s k\<close>: the record that blocks a further claim of \<open>k\<close>. In the states that satisfy the
  invariant an accepted claim finds its key unclaimed and leaves it claimed; nothing in the
  interface takes a claim back.
\<close>

locale guarded_claims =
  fixes inv_ok :: "'s \<Rightarrow> bool"
    and claimed :: "'s \<Rightarrow> 'k \<Rightarrow> bool"
    and step :: "'a \<Rightarrow> 's \<Rightarrow> 'b \<times> 's"
    and ok :: "'b \<Rightarrow> bool"
    and target :: "'a \<Rightarrow> 's \<Rightarrow> 'k"
  assumes inv_step: "inv_ok s \<Longrightarrow> inv_ok (snd (step a s))"
    and accepted_fresh: "inv_ok s \<Longrightarrow> ok (fst (step a s)) \<Longrightarrow> \<not> claimed s (target a s)"
    and accepted_marks: "inv_ok s \<Longrightarrow> ok (fst (step a s)) \<Longrightarrow> claimed (snd (step a s)) (target a s)"
    and claims_stay: "inv_ok s \<Longrightarrow> claimed s k \<Longrightarrow> claimed (snd (step a s)) k"
begin

lemma claimed_blocks:
  "inv_ok s \<Longrightarrow> claimed s k \<Longrightarrow> k \<notin> set (accepted_targets ok target step as s)"
proof (induction as arbitrary: s)
  case (Cons a as)
  then show ?case
    using claims_stay [OF Cons.prems, of a] accepted_fresh [of s a] inv_step [of s a] by (auto simp: Let_def)
qed simp

lemma accepted_distinct: "inv_ok s \<Longrightarrow> distinct (accepted_targets ok target step as s)"
proof (induction as arbitrary: s)
  case (Cons a as)
  then show ?case
    using claimed_blocks [OF inv_step] accepted_marks [of s a] inv_step [of s a] by (auto simp: Let_def)
qed simp

end

text \<open>
  Claims that some operations take back: \<open>releases a s k\<close>. A key is only claimed again after one
  of these.
\<close>

primrec released :: "('a \<Rightarrow> 's \<Rightarrow> 'k \<Rightarrow> bool) \<Rightarrow> ('a \<Rightarrow> 's \<Rightarrow> 'b \<times> 's) \<Rightarrow> 'a list \<Rightarrow> 's \<Rightarrow> 'k \<Rightarrow> bool" where
  "released releases step [] s k = False"
| "released releases step (a # as) s k = (releases a s k \<or> released releases step as (snd (step a s)) k)"

locale released_claims =
  fixes inv_ok :: "'s \<Rightarrow> bool"
    and claimed :: "'s \<Rightarrow> 'k \<Rightarrow> bool"
    and releases :: "'a \<Rightarrow> 's \<Rightarrow> 'k \<Rightarrow> bool"
    and step :: "'a \<Rightarrow> 's \<Rightarrow> 'b \<times> 's"
    and ok :: "'b \<Rightarrow> bool"
    and target :: "'a \<Rightarrow> 's \<Rightarrow> 'k"
  assumes inv_step: "inv_ok s \<Longrightarrow> inv_ok (snd (step a s))"
    and accepted_fresh: "inv_ok s \<Longrightarrow> ok (fst (step a s)) \<Longrightarrow> \<not> claimed s (target a s)"
    and accepted_marks: "inv_ok s \<Longrightarrow> ok (fst (step a s)) \<Longrightarrow> claimed (snd (step a s)) (target a s)"
    and claims_stay: "inv_ok s \<Longrightarrow> claimed s k \<Longrightarrow> \<not> releases a s k \<Longrightarrow> claimed (snd (step a s)) k"
begin

lemma inv_run: "inv_ok s \<Longrightarrow> inv_ok (snd (run_ops step as s))"
  by (induction as arbitrary: s) (simp_all add: Let_def split_beta inv_step)

lemma stays_or_released:
  "inv_ok s \<Longrightarrow> claimed s k \<Longrightarrow> claimed (snd (run_ops step as s)) k \<or> released releases step as s k"
proof (induction as arbitrary: s)
  case (Cons a as)
  then show ?case using claims_stay [of s k a] inv_step [of s a] by (auto simp: Let_def split_beta)
qed simp

lemma again_only_released:
  assumes "inv_ok s" and "ok (fst (step a s))" and "ok (fst (step b (snd (run_ops step as (snd (step a s))))))"
    and "target b (snd (run_ops step as (snd (step a s)))) = target a s"
  shows "released releases step as (snd (step a s)) (target a s)"
proof -
  have inv: "inv_ok (snd (step a s))" by (rule inv_step [OF assms(1)])
  have "\<not> claimed (snd (run_ops step as (snd (step a s)))) (target a s)"
    using accepted_fresh [OF inv_run [OF inv] assms(3)] assms(4) by simp
  then show ?thesis using stays_or_released [OF inv accepted_marks [OF assms(1,2)]] by blast
qed

end

sublocale guarded_claims \<subseteq> lasting: released_claims inv_ok claimed "\<lambda>_ _ _. False" step ok target
  by unfold_locales (auto dest: inv_step accepted_fresh accepted_marks claims_stay)

text \<open>Claims that need no invariant.\<close>

locale claim_once =
  fixes claimed :: "'s \<Rightarrow> 'k \<Rightarrow> bool"
    and step :: "'a \<Rightarrow> 's \<Rightarrow> 'b \<times> 's"
    and ok :: "'b \<Rightarrow> bool"
    and target :: "'a \<Rightarrow> 's \<Rightarrow> 'k"
  assumes accepted_fresh: "ok (fst (step a s)) \<Longrightarrow> \<not> claimed s (target a s)"
    and accepted_marks: "ok (fst (step a s)) \<Longrightarrow> claimed (snd (step a s)) (target a s)"
    and claims_stay: "claimed s k \<Longrightarrow> claimed (snd (step a s)) k"

sublocale claim_once \<subseteq> always: guarded_claims "\<lambda>_. True" claimed step ok target
  by unfold_locales (auto dest: accepted_fresh accepted_marks claims_stay)

context claim_once
begin

lemma accepted_distinct: "distinct (accepted_targets ok target step as s)"
  by (rule always.accepted_distinct) simp

end

section \<open>Maps of bounded size\<close>

text \<open>
  \<open>put k v m\<close> stores an entry and makes room; keys stay unique and, as long as the keys are
  those the cache is made for, the size never passes the capacity.
\<close>

locale bounded_cache =
  fixes put :: "'k \<Rightarrow> 'v \<Rightarrow> ('k, 'v) js_map \<Rightarrow> ('k, 'v) js_map"
    and cap :: nat
    and good :: "'k \<Rightarrow> bool"
  assumes put_distinct: "js_keys_distinct m \<Longrightarrow> js_keys_distinct (put k v m)"
    and put_keys: "fst ` set (put k v m) \<subseteq> insert k (fst ` set m)"
    and put_bounded: "js_keys_distinct m \<Longrightarrow> length m \<le> cap \<Longrightarrow> (\<And>j. j \<in> fst ` set m \<Longrightarrow> good j) \<Longrightarrow>
      length (put k v m) \<le> cap"
begin

definition bounded :: "('k, 'v) js_map \<Rightarrow> bool" where
  "bounded m \<longleftrightarrow> js_keys_distinct m \<and> length m \<le> cap \<and> (\<forall>j \<in> fst ` set m. good j)"

lemma bounded_put:
  assumes "bounded m" and "good k"
  shows "bounded (put k v m)"
proof -
  have m: "js_keys_distinct m" "length m \<le> cap" "j \<in> fst ` set m \<Longrightarrow> good j" for j
    using assms(1) by (auto simp: bounded_def)
  have "good j" if "j \<in> fst ` set (put k v m)" for j
    using subsetD [OF put_keys that] m(3) assms(2) by blast
  then show ?thesis using put_distinct [OF m(1)] put_bounded [OF m] by (simp add: bounded_def)
qed

lemma bounded_filter: "bounded m \<Longrightarrow> bounded (filter c m)"
  unfolding bounded_def using order_trans [OF length_filter_le] by (auto simp: distinct_map_filter)

lemma puts_bounded: "bounded m \<Longrightarrow> (\<And>e. e \<in> set es \<Longrightarrow> good (fst e)) \<Longrightarrow> bounded (put_all put es m)"
  by (induction es arbitrary: m) (simp_all add: bounded_put)

end

end
