(* ===== verification/UuidRepo.thy ===== *)
theory UuidRepo
  imports SettingsRepo Contracts
begin

text \<open>
  The credentials table \<open>user_node_uuid\<close> (\<open>src/services/repos/uuidRepo.js\<close>): one UUID for each
  user and node. The generator is a third-party package; in a call, \<open>gen\<close> gives the UUID drawn
  for a node, for a user or for a row.
\<close>

definition new_uuid_row :: "int \<Rightarrow> int \<Rightarrow> string \<Rightarrow> uuid_row list \<Rightarrow> uuid_row" where
  "new_uuid_row uid nid u t = \<lparr>uu_id = fresh_id uu_id t, uu_user = uid, uu_node = nid, uu_uuid = u\<rparr>"

definition getUserNodeUuid :: "string \<Rightarrow> int \<Rightarrow> int \<Rightarrow> db \<Rightarrow> uuid_row \<times> db" where
  "getUserNodeUuid newUuid uid nid d =
     (case find (\<lambda>r. uuid_key r = (uid, nid)) (d_uuids d) of
        Some r \<Rightarrow> (r, d)
      | None \<Rightarrow> (let r = new_uuid_row uid nid newUuid (d_uuids d) in (r, d\<lparr>d_uuids := d_uuids d @ [r]\<rparr>)))"

text \<open>The inner join with the nodes keeps the rows whose node exists.\<close>

definition getUserAllNodeUuids :: "int \<Rightarrow> db \<Rightarrow> uuid_row list" where
  "getUserAllNodeUuids uid d =
     filter (\<lambda>r. uu_user r = uid \<and> uu_node r \<in> n_id ` set (d_nodes d)) (d_uuids d)"

definition getNodeAllUserUuids :: "int \<Rightarrow> db \<Rightarrow> (uuid_row \<times> string) list" where
  "getNodeAllUserUuids nid d =
     concat (map (\<lambda>r.
       case (user_by_id d (uu_user r), find (\<lambda>n. n_id n = uu_node r) (d_nodes d)) of
         (Some u, Some n) \<Rightarrow>
           if uu_node r = nid \<and> \<not> u_is_blocked u \<and> \<not> u_is_frozen u \<and> n_min_level n \<le> u_trust_level u
           then [(r, u_username u)] else []
       | _ \<Rightarrow> []) (d_uuids d))"

definition ensure_uuid :: "int \<Rightarrow> int \<Rightarrow> string \<Rightarrow> uuid_row list \<Rightarrow> uuid_row list" where
  "ensure_uuid uid nid u t = snd (insert_ignore uuid_key (new_uuid_row uid nid u t) t)"

definition ensureAllUsersHaveUuid :: "(int \<Rightarrow> string) \<Rightarrow> int \<Rightarrow> db \<Rightarrow> db" where
  "ensureAllUsersHaveUuid gen nid d =
     (let users = filter (\<lambda>u. \<not> u_is_frozen u \<and> \<not> u_is_blocked u) (d_users d)
      in d\<lparr>d_uuids := fold (\<lambda>u t. ensure_uuid (u_id u) nid (gen (u_id u)) t) users (d_uuids d)\<rparr>)"

definition ensureUserHasAllNodeUuids :: "(int \<Rightarrow> string) \<Rightarrow> int \<Rightarrow> db \<Rightarrow> db" where
  "ensureUserHasAllNodeUuids gen uid d =
     (case user_by_id d uid of
        None \<Rightarrow> d
      | Some u \<Rightarrow>
          if u_is_frozen u \<or> u_is_blocked u then d
          else d\<lparr>d_uuids := fold (\<lambda>n t. ensure_uuid uid (n_id n) (gen (n_id n)) t) (d_nodes d) (d_uuids d)\<rparr>)"

text \<open>The rotations redraw the UUID of the selected rows and report how many there are.\<close>

definition rotate_where :: "(uuid_row \<Rightarrow> bool) \<Rightarrow> (int \<Rightarrow> string) \<Rightarrow> db \<Rightarrow> nat \<times> db" where
  "rotate_where P gen d =
     (let ids = map uu_id (filter P (d_uuids d))
      in (length ids,
          d\<lparr>d_uuids := fold (\<lambda>i t. update_where (\<lambda>r. uu_id r = i) (\<lambda>r. r\<lparr>uu_uuid := gen i\<rparr>) t) ids (d_uuids d)\<rparr>))"

definition rotateAllUserNodeUuids :: "(int \<Rightarrow> string) \<Rightarrow> db \<Rightarrow> nat \<times> db" where
  "rotateAllUserNodeUuids gen d = rotate_where (\<lambda>r. True) gen d"

definition rotateUserAllNodeUuids :: "(int \<Rightarrow> string) \<Rightarrow> int \<Rightarrow> db \<Rightarrow> nat \<times> db" where
  "rotateUserAllNodeUuids gen uid d = rotate_where (\<lambda>r. uu_user r = uid) gen d"

definition rotateUserNodeUuidsByNodeIds :: "(int \<Rightarrow> string) \<Rightarrow> int list \<Rightarrow> db \<Rightarrow> nat \<times> db" where
  "rotateUserNodeUuidsByNodeIds gen nids d =
     (if nids = [] then (0, d) else rotate_where (\<lambda>r. uu_node r \<in> set nids) gen d)"

definition rotateUserNodeUuidsByNodeIdsAndLevels ::
  "(int \<Rightarrow> string) \<Rightarrow> int list \<Rightarrow> int list \<Rightarrow> db \<Rightarrow> nat \<times> db" where
  "rotateUserNodeUuidsByNodeIdsAndLevels gen nids levels d =
     (if nids = [] \<or> levels = [] then (0, d)
      else rotate_where
        (\<lambda>r. uu_node r \<in> set nids \<and>
             (case user_by_id d (uu_user r) of None \<Rightarrow> False | Some u \<Rightarrow> u_trust_level u \<in> set levels))
        gen d)"

section \<open>Facts\<close>

definition wf_uuids :: "db \<Rightarrow> bool" where
  "wf_uuids d \<longleftrightarrow> distinct (map uu_id (d_uuids d)) \<and> distinct (map uuid_key (d_uuids d))"

lemma new_uuid_row_sel [simp]:
  "uu_id (new_uuid_row uid nid u t) = fresh_id uu_id t"
  "uu_user (new_uuid_row uid nid u t) = uid"
  "uu_node (new_uuid_row uid nid u t) = nid"
  "uu_uuid (new_uuid_row uid nid u t) = u"
  by (simp_all add: new_uuid_row_def)

lemma ensure_uuid_keys:
  "uuid_key ` set (ensure_uuid uid nid u t) = insert (uid, nid) (uuid_key ` set t)"
  by (auto simp: ensure_uuid_def insert_ignore_def)

lemma ensure_uuid_keeps: "set t \<subseteq> set (ensure_uuid uid nid u t)"
  by (auto simp: ensure_uuid_def insert_ignore_def)

lemma ensure_uuid_distinct [table_keys]:
  "distinct (map uuid_key t) \<Longrightarrow> distinct (map uuid_key (ensure_uuid uid nid u t))"
  "distinct (map uu_id t) \<Longrightarrow> distinct (map uu_id (ensure_uuid uid nid u t))"
  by (auto simp: ensure_uuid_def insert_ignore_def)

lemma fold_ensure:
  "uuid_key ` set (fold (\<lambda>n t. ensure_uuid (a n) (b n) (c n) t) ns t) =
     (\<lambda>n. (a n, b n)) ` set ns \<union> uuid_key ` set t"
  "set t \<subseteq> set (fold (\<lambda>n t. ensure_uuid (a n) (b n) (c n) t) ns t)"
  "distinct (map uuid_key t) \<Longrightarrow>
     distinct (map uuid_key (fold (\<lambda>n t. ensure_uuid (a n) (b n) (c n) t) ns t))"
  "distinct (map uu_id t) \<Longrightarrow>
     distinct (map uu_id (fold (\<lambda>n t. ensure_uuid (a n) (b n) (c n) t) ns t))"
proof (induction ns arbitrary: t)
  case (Cons n ns)
  { case 1 show ?case
      unfolding fold_simps Cons.IH(1) ensure_uuid_keys by simp }
  { case 2 show ?case
      unfolding fold_simps by (rule subset_trans [OF ensure_uuid_keeps Cons.IH(2)]) }
  { case 3 then show ?case
      unfolding fold_simps by (intro Cons.IH(3) ensure_uuid_distinct(1)) }
  { case 4 then show ?case
      unfolding fold_simps by (intro Cons.IH(4) ensure_uuid_distinct(2)) }
qed simp_all

lemma ensure_user_frame [simp]:
  "d_users (ensureUserHasAllNodeUuids gen uid d) = d_users d"
  "d_nodes (ensureUserHasAllNodeUuids gen uid d) = d_nodes d"
  "d_settings (ensureUserHasAllNodeUuids gen uid d) = d_settings d"
  "d_invites (ensureUserHasAllNodeUuids gen uid d) = d_invites d"
  "d_totals (ensureUserHasAllNodeUuids gen uid d) = d_totals d"
  "d_lucky (ensureUserHasAllNodeUuids gen uid d) = d_lucky d"
  "d_rps (ensureUserHasAllNodeUuids gen uid d) = d_rps d"
  "d_flip (ensureUserHasAllNodeUuids gen uid d) = d_flip d"
  "d_plots (ensureUserHasAllNodeUuids gen uid d) = d_plots d"
  "d_seeds (ensureUserHasAllNodeUuids gen uid d) = d_seeds d"
  "d_steals (ensureUserHasAllNodeUuids gen uid d) = d_steals d"
  "d_sub_log (ensureUserHasAllNodeUuids gen uid d) = d_sub_log d"
  "d_daily (ensureUserHasAllNodeUuids gen uid d) = d_daily d"
  by (simp_all add: ensureUserHasAllNodeUuids_def split: option.splits)

lemma ensure_user_wf [table_keys]: "wf_uuids d \<Longrightarrow> wf_uuids (ensureUserHasAllNodeUuids gen uid d)"
  by (auto simp: wf_uuids_def ensureUserHasAllNodeUuids_def fold_ensure split: option.splits)

lemma ensure_user_complete:
  assumes "user_by_id d uid = Some u" and "\<not> u_is_frozen u" and "\<not> u_is_blocked u"
  shows "uuid_key ` set (d_uuids (ensureUserHasAllNodeUuids gen uid d)) =
    (\<lambda>n. (uid, n_id n)) ` set (d_nodes d) \<union> uuid_key ` set (d_uuids d)"
  using assms by (simp add: ensureUserHasAllNodeUuids_def fold_ensure(1))

lemma ensure_user_keeps: "set (d_uuids d) \<subseteq> set (d_uuids (ensureUserHasAllNodeUuids gen uid d))"
  using fold_ensure(2) by (fastforce simp: ensureUserHasAllNodeUuids_def split: option.splits)

lemma fold_rotate:
  "fold (\<lambda>i t. update_where (\<lambda>r. uu_id r = i) (\<lambda>r. r\<lparr>uu_uuid := gen i\<rparr>) t) ids t =
   map (\<lambda>r. if uu_id r \<in> set ids then r\<lparr>uu_uuid := gen (uu_id r)\<rparr> else r) t"
  by (induction ids arbitrary: t) (auto simp: update_where_def)

text \<open>A rotation redraws exactly the selected credentials and leaves the pairs of user and node.\<close>

lemma rotate_where_uuids:
  assumes "distinct (map uu_id (d_uuids d))"
  shows "d_uuids (snd (rotate_where P gen d)) =
    map (\<lambda>r. if P r then r\<lparr>uu_uuid := gen (uu_id r)\<rparr> else r) (d_uuids d)"
proof -
  have "uu_id r \<in> set (map uu_id (filter P (d_uuids d))) \<longleftrightarrow> P r" if "r \<in> set (d_uuids d)" for r
    using that assms by (auto simp: distinct_map dest: inj_onD)
  then show ?thesis by (simp add: rotate_where_def Let_def fold_rotate)
qed

lemma rotate_where_wf: "wf_uuids d \<Longrightarrow> wf_uuids (snd (rotate_where P gen d))"
  by (auto simp: wf_uuids_def rotate_where_uuids comp_def if_distrib cong: if_cong)

lemma rotate_where_users [simp]: "d_users (snd (rotate_where P gen d)) = d_users d"
  "d_nodes (snd (rotate_where P gen d)) = d_nodes d"
  "d_settings (snd (rotate_where P gen d)) = d_settings d"
  by (simp_all add: rotate_where_def Let_def)

end
