(* ===== verification/UserRepo.thy ===== *)
theory UserRepo
  imports UuidRepo
begin

text \<open>
  Accounts (\<open>src/services/repos/userRepo.js\<close>): look-ups, sign-up with and without invitation,
  the gift for binding a chat account, freezing and the periodic sweeps, cascading deletion.
  What the code throws is the left side of a sum; a transaction that throws leaves the database
  as it was. Random tokens (\<open>subToken\<close>), the clock (\<open>now\<close>, in milliseconds) and the UUID
  generator (\<open>gen\<close>) are arguments.
\<close>

datatype repo_error =
    InvalidInput | InvalidOAuthIdentity | InviteRequired | InvalidInvite | InviteAlreadyUsed
  | UniqueViolation

section \<open>Look-ups\<close>

definition getUserBySubToken :: "string \<Rightarrow> db \<Rightarrow> user option" where
  "getUserBySubToken token d =
     find (\<lambda>u. u_sub_token u = token \<and> \<not> u_is_blocked u \<and> \<not> u_is_frozen u) (d_users d)"

definition getUserById :: "int \<Rightarrow> db \<Rightarrow> user option" where
  "getUserById uid d = user_by_id d uid"

definition getUsersByIds :: "int list \<Rightarrow> db \<Rightarrow> user list" where
  "getUsersByIds ids d =
     (let lst = remdups (filter (\<lambda>i. 0 < i) ids)
      in if lst = [] then [] else filter (\<lambda>u. u_id u \<in> set lst) (d_users d))"

definition same_nocase :: "string \<Rightarrow> string \<Rightarrow> bool" where
  "same_nocase a b \<longleftrightarrow> js_lower a = js_lower b"

definition getUserByUsername :: "string \<Rightarrow> db \<Rightarrow> user option" where
  "getUserByUsername username d =
     (let name = js_trim username
      in if name = [] then None else find (\<lambda>u. same_nocase (u_username u) name) (d_users d))"

definition getUserByEmail :: "string \<Rightarrow> db \<Rightarrow> user option" where
  "getUserByEmail email d =
     (let v = js_lower (js_trim email)
      in if v = [] then None else find (\<lambda>u. map_option js_lower (u_email u) = Some v) (d_users d))"

definition getUserByOAuth :: "string \<Rightarrow> string \<Rightarrow> db \<Rightarrow> user option" where
  "getUserByOAuth provider subject d =
     (let p = js_trim provider; s = js_trim subject
      in if p = [] \<or> s = [] then None
         else find (\<lambda>u. u_oauth_provider u = Some p \<and> u_oauth_subject u = Some s) (d_users d))"

section \<open>Names for new accounts\<close>

definition username_char :: "char \<Rightarrow> bool" where
  "username_char c \<longleftrightarrow>
     (let n = of_char c :: nat in 97 \<le> n \<and> n \<le> 122) \<or> is_digit c \<or> c \<in> {CHR ''.'', CHR ''_'', CHR ''-''}"

definition last_chars :: "nat \<Rightarrow> string \<Rightarrow> string" where
  "last_chars k s = drop (length s - k) s"

definition normalizeUsernameSeed :: "string \<Rightarrow> int \<Rightarrow> string" where
  "normalizeUsernameSeed seed now =
     (let base = take 32 (filter username_char (js_lower (js_trim seed)))
      in if base = [] then ''user'' @ last_chars 6 (show_int now) else base)"

definition username_candidate :: "string \<Rightarrow> nat \<Rightarrow> string" where
  "username_candidate base i =
     (let suffix = show_nat i; cut = max 1 (32 - length suffix) in take cut base @ suffix)"

definition resolveAvailableUsername :: "string \<Rightarrow> int \<Rightarrow> db \<Rightarrow> string" where
  "resolveAvailableUsername seed now d =
     (let base = normalizeUsernameSeed seed now
      in if getUserByUsername base d = None then base
         else case find (\<lambda>i. getUserByUsername (username_candidate base i) d = None) [1..<10000] of
                Some i \<Rightarrow> username_candidate base i
              | None \<Rightarrow> take 24 base @ last_chars 8 (show_int now))"

section \<open>Sign-up\<close>

record signup_settings =
  sg_is_admin :: bool
  sg_traffic_limit :: int
  sg_trust_level :: int

text \<open>
  The first account becomes the administrator and gets the configured quota; every other account
  starts with none and is credited when it binds a chat account.
\<close>

definition setting_int :: "db \<Rightarrow> string \<Rightarrow> int option" where
  "setting_int d key = (case getSetting d key of None \<Rightarrow> None | Some s \<Rightarrow> js_parse_int s)"

definition getDefaultSignupSettings :: "db \<Rightarrow> signup_settings" where
  "getDefaultSignupSettings d =
     (let isAdmin = (d_users d = []);
          configuredLimit = (case setting_int d ''default_traffic_limit'' of None \<Rightarrow> -1 | Some n \<Rightarrow> n)
      in \<lparr>sg_is_admin = isAdmin,
          sg_traffic_limit = (if isAdmin then configuredLimit else 0),
          sg_trust_level = (case setting_int d ''default_user_group'' of
                              None \<Rightarrow> 0 | Some g \<Rightarrow> max 0 (min 3 g))\<rparr>)"

definition insert_user :: "user \<Rightarrow> db \<Rightarrow> repo_error + db" where
  "insert_user u d =
     (case insert_row u_sub_token u (d_users d) of
        None \<Rightarrow> Inl UniqueViolation
      | Some t \<Rightarrow> Inr (d\<lparr>d_users := t\<rparr>))"

record signup_result =
  sr_user :: user
  sr_is_admin :: bool
  sr_username :: string
  sr_email :: string

definition insertEmailUser ::
  "string \<Rightarrow> int \<Rightarrow> string \<Rightarrow> string \<Rightarrow> string option \<Rightarrow> string \<Rightarrow> db \<Rightarrow> repo_error + signup_result \<times> db" where
  "insertEmailUser subToken now username email passwordHash displayName d =
     (let cleanUsername = js_trim username;
          cleanEmail = js_lower (js_trim email);
          cfg = getDefaultSignupSettings d;
          nm = js_trim (if displayName = [] then cleanUsername else displayName);
          row = \<lparr>u_id = fresh_id u_id (d_users d), u_auth_type = ''email'', u_username = cleanUsername,
            u_name = nm, u_avatar_url = None, u_trust_level = sg_trust_level cfg,
            u_email = Some cleanEmail, u_password_hash = passwordHash, u_oauth_provider = None,
            u_oauth_subject = None, u_sub_token = subToken, u_is_admin = sg_is_admin cfg,
            u_is_blocked = False, u_is_frozen = False, u_freeze_reason = None,
            u_traffic_limit = sg_traffic_limit cfg, u_telegram_id = None, u_expires_at = None,
            u_created_at = toSqlUtc now, u_last_login = Some (toSqlUtc now), u_last_token_reset = Some ''2000-01-01''\<rparr>
      in if cleanUsername = [] \<or> cleanEmail = [] \<or> \<not> truthy passwordHash then Inl InvalidInput
         else case insert_user row d of
                Inl e \<Rightarrow> Inl e
              | Inr d' \<Rightarrow>
                  Inr (\<lparr>sr_user = (case find (\<lambda>u. map_option js_lower (u_email u) = Some (js_lower cleanEmail))
                                     (d_users d') of Some u \<Rightarrow> u | None \<Rightarrow> row),
                        sr_is_admin = sg_is_admin cfg, sr_username = cleanUsername,
                        sr_email = cleanEmail\<rparr>, d'))"

text \<open>What follows every sign-up: audit entry, notification, credentials, configuration push.\<close>

definition finish_signup ::
  "(int \<Rightarrow> string) \<Rightarrow> int \<Rightarrow> string \<Rightarrow> string list \<Rightarrow> string \<Rightarrow> string list \<Rightarrow> user \<Rightarrow> db \<Rightarrow> db" where
  "finish_signup gen now act args ip note u d =
     add_effect EmitSyncAll
       (ensureUserHasAllNodeUuids gen (u_id u)
         (add_effect (Notify ''userRegister'' note) (addAuditLog now None act args ip d)))"

definition admin_mark :: "bool \<Rightarrow> string" where
  "admin_mark b = (if b then ''admin'' else [])"

definition createEmailUser ::
  "(int \<Rightarrow> string) \<Rightarrow> string \<Rightarrow> int \<Rightarrow> string \<Rightarrow> string \<Rightarrow> string option \<Rightarrow> string \<Rightarrow> string \<Rightarrow> db
   \<Rightarrow> repo_error + user \<times> db" where
  "createEmailUser gen subToken now username email passwordHash displayName ip d =
     (case insertEmailUser subToken now username email passwordHash displayName d of
        Inl e \<Rightarrow> Inl e
      | Inr (r, d') \<Rightarrow>
          Inr (sr_user r,
               finish_signup gen now ''user_register_email'' [sr_username r, admin_mark (sr_is_admin r)] ip
                 [sr_username r, sr_email r] (sr_user r) d'))"

definition invite_usable :: "string \<Rightarrow> string \<Rightarrow> invite_row \<Rightarrow> bool" where
  "invite_usable code now_sql i \<longleftrightarrow>
     iv_code i = code \<and> iv_used_at i = None \<and> now_sql < iv_expires_at i"

definition createInvitedEmailUser ::
  "(int \<Rightarrow> string) \<Rightarrow> string \<Rightarrow> int \<Rightarrow> string \<Rightarrow> string \<Rightarrow> string option \<Rightarrow> string \<Rightarrow> string \<Rightarrow> string \<Rightarrow> db
   \<Rightarrow> repo_error + user \<times> db" where
  "createInvitedEmailUser gen subToken now username email passwordHash displayName inviteCode ip d =
     (let code = js_upper (js_trim inviteCode); nowSql = toSqlUtc now
      in if code = [] then Inl InviteRequired
         else case find (invite_usable code nowSql) (d_invites d) of
                None \<Rightarrow> Inl InvalidInvite
              | Some invite \<Rightarrow>
                  (case insertEmailUser subToken now username email passwordHash displayName d of
                     Inl e \<Rightarrow> Inl e
                   | Inr (r, d') \<Rightarrow>
                       (let mark = (\<lambda>i. iv_id i = iv_id invite \<and> iv_used_at i = None)
                        in if count_where mark (d_invites d') \<noteq> 1 then Inl InviteAlreadyUsed
                           else Inr (sr_user r,
                             finish_signup gen now ''user_register_email''
                               [sr_username r, admin_mark (sr_is_admin r), show_int (iv_inviter invite)] ip
                               [sr_username r, sr_email r] (sr_user r)
                               (d'\<lparr>d_invites := update_where mark
                                  (\<lambda>i. i\<lparr>iv_used_at := Some nowSql, iv_used_by := Some (u_id (sr_user r))\<rparr>)
                                  (d_invites d')\<rparr>)))))"

definition createOAuthUser ::
  "(int \<Rightarrow> string) \<Rightarrow> string \<Rightarrow> int \<Rightarrow> string \<Rightarrow> string \<Rightarrow> string \<Rightarrow> string \<Rightarrow> string \<Rightarrow> string \<Rightarrow> string \<Rightarrow> db
   \<Rightarrow> repo_error + user \<times> db" where
  "createOAuthUser gen subToken now provider subject usernameSeed email displayName avatarUrl ip d =
     (let p = js_trim provider; s = js_trim subject
      in if p = [] \<or> s = [] then Inl InvalidOAuthIdentity
         else case getUserByOAuth p s d of
                Some u \<Rightarrow> Inr (u, d)
              | None \<Rightarrow>
                  (let seed = (if usernameSeed \<noteq> [] then usernameSeed else if email \<noteq> [] then email else s);
                       username = resolveAvailableUsername seed now d;
                       e = js_lower (js_trim email);
                       cleanEmail = (if e = [] then None else Some e);
                       av = js_trim avatarUrl;
                       cfg = getDefaultSignupSettings d;
                       row = \<lparr>u_id = fresh_id u_id (d_users d), u_auth_type = p, u_username = username,
                         u_name = js_trim (if displayName = [] then username else displayName),
                         u_avatar_url = (if av = [] then None else Some av),
                         u_trust_level = sg_trust_level cfg, u_email = cleanEmail, u_password_hash = None,
                         u_oauth_provider = Some p, u_oauth_subject = Some s, u_sub_token = subToken,
                         u_is_admin = sg_is_admin cfg, u_is_blocked = False, u_is_frozen = False,
                         u_freeze_reason = None, u_traffic_limit = sg_traffic_limit cfg,
                         u_telegram_id = None, u_expires_at = None, u_created_at = toSqlUtc now,
                         u_last_login = Some (toSqlUtc now), u_last_token_reset = Some ''2000-01-01''\<rparr>
                   in case insert_user row d of
                        Inl err \<Rightarrow> Inl err
                      | Inr d' \<Rightarrow>
                          (let u = (case getUserByOAuth p s d' of Some u \<Rightarrow> u | None \<Rightarrow> row)
                           in Inr (u, finish_signup gen now ''user_register_oauth''
                                [p, username, admin_mark (sg_is_admin cfg)] ip
                                [username, case cleanEmail of None \<Rightarrow> [] | Some x \<Rightarrow> x] u d'))))"

end
