(* ===== verification/Payment.thy ===== *)
theory Payment
  imports NetUtils SettingsRepo UserRepo
begin

text \<open>
  Buying traffic (\<open>src/routes/payment.js\<close>): an order is opened and handed to the payment service,
  the service's answer is written back when it arrives, and a signed callback credits the order.
  Opening and writing back are two steps, since other requests come in between. The hash and the
  MAC, the printer of the query, the sentence that describes an order and the database engine's
  \<open>date(text, '+8 hours')\<close> are the parameters \<open>sha\<close>, \<open>hmac\<close>, \<open>json\<close>, \<open>describe\<close> and \<open>date8\<close>
  (\<open>None\<close> is NULL). A query is its list of names and texts, each name once.
\<close>

section \<open>Configuration and signatures\<close>

record pay_config =
  pc_id :: string
  pc_token :: string

definition getPaymentConfig :: "string option \<Rightarrow> string option \<Rightarrow> string option \<Rightarrow> pay_config" where
  "getPaymentConfig paymentId token secret =
     \<lparr>pc_id = or_else paymentId [], pc_token = or_else token (or_else secret [])\<rparr>"

definition sortedParamString :: "(string \<times> string) list \<Rightarrow> string" where
  "sortedParamString params = js_join ''&'' (map (\<lambda>p. fst p @ ''='' @ snd p) (sort_key fst params))"

definition signCreatePayment ::
  "(string \<Rightarrow> string) \<Rightarrow> (string \<Rightarrow> string \<Rightarrow> string) \<Rightarrow> (string \<times> string) list \<Rightarrow> string \<Rightarrow> string" where
  "signCreatePayment sha hmac params token = hmac (sha token) (sortedParamString params)"

definition signCallback ::
  "(string \<Rightarrow> string) \<Rightarrow> (string \<Rightarrow> string \<Rightarrow> string) \<Rightarrow> (string \<times> string) list \<Rightarrow> string \<Rightarrow> string" where
  "signCallback sha hmac params token = hmac (sha token) (sortedParamString params)"

definition EXCHANGE_MIN :: int where "EXCHANGE_MIN = 10"
definition EXCHANGE_MAX :: int where "EXCHANGE_MAX = 100"

text \<open>The amount of a request: energy and gigabytes are the same number.\<close>

definition getPackage :: "string option \<Rightarrow> int option" where
  "getPackage amount =
     (case amount of
        None \<Rightarrow> None
      | Some s \<Rightarrow>
          (case js_parse_int s of
             None \<Rightarrow> None
           | Some n \<Rightarrow> if n < EXCHANGE_MIN \<or> EXCHANGE_MAX < n then None else Some n))"

definition isPaymentEnabled :: "pay_config \<Rightarrow> bool" where
  "isPaymentEnabled cfg \<longleftrightarrow> pc_id cfg \<noteq> [] \<and> pc_token cfg \<noteq> []"

definition isExchangePaused :: "db \<Rightarrow> bool" where
  "isExchangePaused d \<longleftrightarrow> getSetting d ''exchange_paused'' = Some ''true''"

text \<open>The account's last twenty orders, the newest first.\<close>

definition my_orders :: "int \<Rightarrow> db \<Rightarrow> (int \<times> int \<times> string \<times> string \<times> string) list" where
  "my_orders uid d =
     take 20 (map (\<lambda>o'. (od_amount o', od_traffic_gb o', od_status o', od_created_at o',
                     case od_paid_at o' of None \<Rightarrow> od_updated_at o' | Some t \<Rightarrow> t))
       (rev (sort_key od_id (filter (\<lambda>o'. od_user o' = uid) (d_orders d)))))"

section \<open>Opening an order\<close>

datatype pay_refusal =
    ExchangePaused | TgNotBound | NotConfigured | BadAmount | PaidToday | StartFailed

text \<open>The order was completed on the local day of the stamp \<open>nowSql\<close>.\<close>

definition paid_on :: "(string \<Rightarrow> string option) \<Rightarrow> string \<Rightarrow> order_row \<Rightarrow> bool" where
  "paid_on date8 nowSql o' \<longleftrightarrow>
     od_status o' = ''completed'' \<and>
     (let paid = (case od_paid_at o' of None \<Rightarrow> od_updated_at o' | Some t \<Rightarrow> t)
      in date8 paid \<noteq> None \<and> date8 nowSql \<noteq> None \<and> date8 paid = date8 nowSql)"

definition order_text :: "int \<Rightarrow> int \<Rightarrow> string \<Rightarrow> string" where
  "order_text uid now rnd = ''nl_'' @ show_int uid @ ''_'' @ show_int now @ ''_'' @ rnd"

text \<open>The request's first half: the order's text and the signed fields that are sent.\<close>

definition open_order ::
  "(string \<Rightarrow> string) \<Rightarrow> (string \<Rightarrow> string \<Rightarrow> string) \<Rightarrow> (string \<Rightarrow> string option) \<Rightarrow> (int \<Rightarrow> string) \<Rightarrow>
   pay_config \<Rightarrow> string \<Rightarrow> user \<Rightarrow> string option \<Rightarrow> int \<Rightarrow> db \<Rightarrow>
   (pay_refusal + string \<times> (string \<times> string) list) \<times> db" where
  "open_order sha hmac date8 describe cfg rnd u amount now d =
     (if isExchangePaused d then (Inl ExchangePaused, d)
      else if \<not> truthy (u_telegram_id u) then (Inl TgNotBound, d)
      else if pc_id cfg = [] \<or> pc_token cfg = [] then (Inl NotConfigured, d)
      else case getPackage amount of
             None \<Rightarrow> (Inl BadAmount, d)
           | Some n \<Rightarrow>
               if \<exists>o' \<in> set (d_orders d). od_user o' = u_id u \<and> paid_on date8 (toSqlUtc now) o'
               then (Inl PaidToday, d)
               else
                 (let orderId = order_text (u_id u) now rnd;
                      payload = [(''amount'', show_int n), (''description'', describe n), (''order_id'', orderId)];
                      row = \<lparr>od_id = fresh_id od_id (d_orders d), od_order = orderId, od_user = u_id u,
                             od_amount = n, od_traffic_gb = n, od_status = ''pending'', od_transaction = None,
                             od_url = None, od_paid_at = None, od_raw = None,
                             od_created_at = toSqlUtc now, od_updated_at = toSqlUtc now\<rparr>
                  in case insert_row od_order row (d_orders d) of
                       None \<Rightarrow> (Inl StartFailed, d)
                     | Some t \<Rightarrow>
                         (Inr (orderId, payload @ [(''signature'', signCreatePayment sha hmac payload (pc_token cfg))]),
                          d\<lparr>d_orders := t\<rparr>)))"

text \<open>What comes back from the payment service.\<close>

record pay_answer =
  pa_ok :: bool
  pa_transaction :: "string option"
  pa_url :: "string option"
  pa_status :: "string option"
  pa_text :: string

datatype pay_reply = Unreachable string | Answered pay_answer

definition mark_failed :: "string \<Rightarrow> string \<Rightarrow> int \<Rightarrow> db \<Rightarrow> db" where
  "mark_failed orderId raw now d =
     d\<lparr>d_orders := update_where (\<lambda>o'. od_order o' = orderId)
         (\<lambda>o'. o'\<lparr>od_status := ''failed'', od_raw := Some raw, od_updated_at := toSqlUtc now\<rparr>) (d_orders d)\<rparr>"

text \<open>The request's second half: the address the client is sent to.\<close>

definition settle_reply ::
  "string \<Rightarrow> int \<Rightarrow> int \<Rightarrow> string \<Rightarrow> pay_reply \<Rightarrow> int \<Rightarrow> db \<Rightarrow> (pay_refusal + string \<times> string) \<times> db" where
  "settle_reply orderId uid n ip reply now d =
     (case reply of
        Unreachable msg \<Rightarrow> (Inl StartFailed, mark_failed orderId msg now d)
      | Answered a \<Rightarrow>
          if \<not> pa_ok a \<or> \<not> truthy (pa_url a) then (Inl StartFailed, mark_failed orderId (pa_text a) now d)
          else
            (let d1 = d\<lparr>d_orders := update_where (\<lambda>o'. od_order o' = orderId)
                   (\<lambda>o'. o'\<lparr>od_transaction := (if truthy (pa_transaction a) then pa_transaction a else None),
                            od_url := pa_url a, od_status := or_else (pa_status a) ''pending'',
                            od_updated_at := toSqlUtc now\<rparr>) (d_orders d)\<rparr>
             in (Inr (the (pa_url a), orderId),
                 addAuditLog now (Some uid) ''nodeloc_payment_create'' [show_int n, show_int n] ip d1)))"

section \<open>The callback\<close>

datatype callback_fault =
    MissingSignature | InvalidSignature | NotCompleted string | OrderNotFound | AmountMismatch | UserNotFound

datatype callback_result =
    CallbackFailed callback_fault
  | AlreadyDone order_row
  | OverDailyLimit order_row
  | Credited order_row

definition param :: "(string \<times> string) list \<Rightarrow> string \<Rightarrow> string" where
  "param params key = or_else (map_of params key) []"

text \<open>The columns a callback writes: \<open>transactionId || order.transaction_id\<close> and
  \<open>paid_at || new Date().toISOString()\<close> (\<open>isoNow\<close> is that text).\<close>

definition note_payment :: "string \<Rightarrow> string \<Rightarrow> string \<Rightarrow> string \<Rightarrow> int \<Rightarrow> order_row \<Rightarrow> order_row" where
  "note_payment status transactionId paidAt raw now o' =
     o'\<lparr>od_status := status,
        od_transaction := (if transactionId = [] then od_transaction o' else Some transactionId),
        od_paid_at := Some paidAt, od_raw := Some raw, od_updated_at := toSqlUtc now\<rparr>"

definition credit_user :: "int \<Rightarrow> int \<Rightarrow> db \<Rightarrow> db" where
  "credit_user uid addBytes d =
     update_user uid
       (\<lambda>u. if 0 \<le> u_traffic_limit u then u\<lparr>u_traffic_limit := max 0 (u_traffic_limit u + addBytes)\<rparr> else u) d"

text \<open>The transaction of the callback.\<close>

definition complete_order ::
  "(string \<Rightarrow> string option) \<Rightarrow> string \<Rightarrow> string \<Rightarrow> string \<Rightarrow> int option \<Rightarrow> string \<Rightarrow> int \<Rightarrow> db \<Rightarrow>
   callback_result \<times> db" where
  "complete_order date8 orderId transactionId paidAt amount raw now d =
     (case find (\<lambda>o'. od_order o' = orderId) (d_orders d) of
        None \<Rightarrow> (CallbackFailed OrderNotFound, d)
      | Some order \<Rightarrow>
          if od_status order = ''completed'' then (AlreadyDone order, d)
          else if Some (od_amount order) \<noteq> amount then (CallbackFailed AmountMismatch, d)
          else
            (let mark = (\<lambda>status d'. d'\<lparr>d_orders := update_where (\<lambda>o'. od_order o' = orderId)
                   (note_payment status transactionId paidAt raw now) (d_orders d')\<rparr>)
             in if \<exists>o' \<in> set (d_orders d). od_user o' = od_user order \<and> od_id o' \<noteq> od_id order \<and>
                     paid_on date8 (toSqlUtc now) o'
                then (OverDailyLimit order,
                  addAuditLog now (Some (od_user order)) ''nodeloc_payment_daily_limit'' [show_int (od_amount order)]
                    ''nodeloc-payment'' (mark ''rejected_daily_limit'' d))
                else case user_by_id d (od_user order) of
                       None \<Rightarrow> (CallbackFailed UserNotFound, d)
                     | Some u \<Rightarrow>
                         (Credited order,
                          addAuditLog now (Some (u_id u)) ''nodeloc_payment_complete''
                            [show_int (od_amount order), show_int (od_traffic_gb order)] ''nodeloc-payment''
                            (mark ''completed'' (credit_user (u_id u) (od_traffic_gb order * GB) d)))))"

definition payment_callback ::
  "(string \<Rightarrow> string) \<Rightarrow> (string \<Rightarrow> string \<Rightarrow> string) \<Rightarrow> (string \<Rightarrow> string option) \<Rightarrow>
   ((string \<times> string) list \<Rightarrow> string) \<Rightarrow> pay_config \<Rightarrow> (string \<times> string) list \<Rightarrow> string \<Rightarrow> int \<Rightarrow> db \<Rightarrow>
   callback_result \<times> db" where
  "payment_callback sha hmac date8 json cfg query isoNow now d =
     (let params = filter (\<lambda>p. fst p \<noteq> ''signature'') query;
          incomingSig = param query ''signature'';
          status = param params ''status''
      in if pc_token cfg = [] \<or> incomingSig = [] then (CallbackFailed MissingSignature, d)
         else if \<not> safeTokenEqual sha (signCallback sha hmac params (pc_token cfg)) incomingSig
         then (CallbackFailed InvalidSignature, d)
         else if status \<noteq> ''completed'' then (CallbackFailed (NotCompleted status), d)
         else complete_order date8 (param params ''external_reference'') (param params ''transaction_id'')
                (or_else (map_of params ''paid_at'') isoNow) (js_parse_int (param params ''amount'')) (json query) now d)"

end
