(* ===== verification/Samples.thy ===== *)
theory Samples
  imports Schema
begin

text \<open>
  Small concrete databases, used to show that the hypotheses of the properties can hold
  together.
\<close>

definition sample_user :: "int \<Rightarrow> int \<Rightarrow> int \<Rightarrow> user" where
  "sample_user uid level limit =
     \<lparr>u_id = uid, u_auth_type = ''email'', u_username = ''alice'', u_name = ''Alice'', u_avatar_url = None,
      u_trust_level = level, u_email = Some ''a@b.c'', u_password_hash = Some ''x'',
      u_oauth_provider = None, u_oauth_subject = None, u_sub_token = CHR ''t'' # replicate (nat uid) CHR ''k'',
      u_is_admin = False, u_is_blocked = False, u_is_frozen = False, u_freeze_reason = None,
      u_traffic_limit = limit, u_telegram_id = Some ''77'', u_expires_at = None,
      u_created_at = ''2024-01-01 00:00:00'', u_last_login = Some ''2024-01-01 00:00:00'',
      u_last_token_reset = None\<rparr>"

definition sample_db :: db where
  "sample_db = empty_db\<lparr>d_users := [sample_user 1 3 0, sample_user 2 0 (5 * GB)]\<rparr>"

text \<open>Account 1 has a mature plot that account 2 has already visited once.\<close>

definition sample_farm :: db where
  "sample_farm = sample_db\<lparr>
     d_plots := [\<lparr>pl_user = 1, pl_slot = 0, pl_planted_at = 0, pl_notified = False\<rparr>],
     d_seeds := [\<lparr>se_user = 1, se_seeds = 3\<rparr>],
     d_steals := [\<lparr>st_thief = 2, st_victim = 1, st_slot = 0, st_planted_at = 0, st_stolen_gb = 1,
                   st_day = ''1970-01-02''\<rparr>]\<rparr>"

definition sample_node :: "int \<Rightarrow> node" where
  "sample_node i =
     \<lparr>n_id = i, n_name = ''n'', n_host = ''h'', n_port = 1, n_uuid = ''u'',
      n_protocol = ''vless'', n_network = None, n_security = None, n_ws_path = None, n_allow_insecure = False,
      n_ssh_host = None, n_is_active = True, n_region = ''r'', n_remark = ''k'', n_min_level = 0,
      n_reality_public_key = None, n_reality_short_id = None, n_sni = None, n_ip_version = 4,
      n_ss_method = None, n_ss_password = None, n_hy2_port = None, n_hy2_obfs = None, n_hy2_sni = None,
      n_traffic_cap = 0, n_traffic_rate = 1, n_ssh_password = Some ''s'', n_socks5_pass = None,
      n_reality_private_key = None, n_hy2_stats_secret = None, n_agent_token = Some ''a'', n_last_rotated = None,
      n_is_manual = False, n_fail_count = 0, n_aws_instance = None, n_last_check = None,
      n_agent_last_report = None, n_ssh_port = 22, n_ssh_user = ''root'', n_ssh_key_path = None, n_xray_config_path = None,
      n_socks5_host = None, n_socks5_port = 1080, n_socks5_user = None, n_hy2_up = None, n_hy2_down = None\<rparr>"

lemma sample_node_sel [simp]:
  "n_id (sample_node i) = i" "n_is_active (sample_node i) = True" "n_protocol (sample_node i) = ''vless''"
  "n_min_level (sample_node i) = 0" "n_traffic_rate (sample_node i) = 1" "n_region (sample_node i) = ''r''"
  by (simp_all add: sample_node_def)

lemma sample_user_sel [simp]:
  "u_id (sample_user uid level limit) = uid"
  "u_trust_level (sample_user uid level limit) = level"
  "u_traffic_limit (sample_user uid level limit) = limit"
  "u_is_admin (sample_user uid level limit) = False"
  "u_is_blocked (sample_user uid level limit) = False"
  "u_is_frozen (sample_user uid level limit) = False"
  "u_freeze_reason (sample_user uid level limit) = None"
  "u_telegram_id (sample_user uid level limit) = Some ''77''"
  "u_username (sample_user uid level limit) = ''alice''"
  by (simp_all add: sample_user_def)

end
