(* ===== verification/PaymentProps.thy ===== *)
theory PaymentProps
  imports Payment Contracts Samples
begin

text \<open>
  The properties of payments: a callback needs the service's signature and credits exactly the
  order it names, an order is credited once and an account once a day, whatever other orders are
  opened, answered and credited in between; and two gaps: the service's answer to an order that arrives
  after the callback reopens the order, and a payment over the daily limit is credited by the same
  callback on a later day.
\<close>

section \<open>What a callback does\<close>

lemma callback_reaches:
  assumes "payment_callback sha hmac date8 json cfg query isoNow now d = (r, d')" and "\<And>f. r \<noteq> CallbackFailed f"
  shows "complete_order date8 (param (filter (\<lambda>p. fst p \<noteq> ''signature'') query) ''external_reference'')
      (param (filter (\<lambda>p. fst p \<noteq> ''signature'') query) ''transaction_id'')
      (or_else (map_of (filter (\<lambda>p. fst p \<noteq> ''signature'') query) ''paid_at'') isoNow)
      (js_parse_int (param (filter (\<lambda>p. fst p \<noteq> ''signature'') query) ''amount'')) (json query) now d = (r, d')"
    and "safeTokenEqual sha (signCallback sha hmac (filter (\<lambda>p. fst p \<noteq> ''signature'') query) (pc_token cfg))
      (param query ''signature'')"
    and "pc_token cfg \<noteq> []"
  using assms by (auto simp: payment_callback_def Let_def split: if_splits)


lemma complete_credited:
  assumes "complete_order date8 k tid paidAt amount raw now d = (Credited order, d')"
  obtains u where "find (\<lambda>o'. od_order o' = k) (d_orders d) = Some order"
    and "od_status order \<noteq> ''completed''" and "amount = Some (od_amount order)"
    and "\<And>o'. o' \<in> set (d_orders d) \<Longrightarrow> od_user o' = od_user order \<Longrightarrow> od_id o' \<noteq> od_id order \<Longrightarrow>
      \<not> paid_on date8 (toSqlUtc now) o'"
    and "user_by_id d (od_user order) = Some u"
    and "d' = addAuditLog now (Some (u_id u)) ''nodeloc_payment_complete''
        [show_int (od_amount order), show_int (od_traffic_gb order)] ''nodeloc-payment''
        ((credit_user (u_id u) (od_traffic_gb order * GB) d)
           \<lparr>d_orders := update_where (\<lambda>o'. od_order o' = k) (note_payment ''completed'' tid paidAt raw now) (d_orders d)\<rparr>)"
  using assms
  by (auto simp: complete_order_def Let_def credit_user_def update_user_def split: option.splits if_splits)


lemma note_payment_sel [simp]:
  "od_order (note_payment s t p r n o') = od_order o'" "od_id (note_payment s t p r n o') = od_id o'"
  "od_user (note_payment s t p r n o') = od_user o'" "od_status (note_payment s t p r n o') = s"
  "od_paid_at (note_payment s t p r n o') = Some p" "od_amount (note_payment s t p r n o') = od_amount o'"
  "od_traffic_gb (note_payment s t p r n o') = od_traffic_gb o'"
  by (simp_all add: note_payment_def)

section \<open>Runs\<close>



text \<open>The text of the order a callback names, and whether its stamp of payment is of the day it arrives.\<close>

definition callback_order :: "(string \<times> string) list \<Rightarrow> string" where
  "callback_order query = param (filter (\<lambda>p. fst p \<noteq> ''signature'') query) ''external_reference''"







definition orders_ok :: "db \<Rightarrow> bool" where
  "orders_ok d \<longleftrightarrow> distinct (map od_order (d_orders d)) \<and> distinct (map od_id (d_orders d))"

definition completed :: "db \<Rightarrow> string \<Rightarrow> bool" where
  "completed d k \<longleftrightarrow> (\<exists>o' \<in> set (d_orders d). od_order o' = k \<and> od_status o' = ''completed'')"















text \<open>What a credit does to the accounts and the orders.\<close>

lemma complete_credited_effect:
  assumes "complete_order date8 k tid paidAt amount raw now d = (Credited order, d')"
  shows "user_by_id d' j = map_option (\<lambda>u. if j = od_user order \<and> 0 \<le> u_traffic_limit u
       then u\<lparr>u_traffic_limit := max 0 (u_traffic_limit u + od_traffic_gb order * GB)\<rparr> else u) (user_by_id d j)"
    and "d_orders d' = update_where (\<lambda>o'. od_order o' = k) (note_payment ''completed'' tid paidAt raw now) (d_orders d)"
    and "completed d' k"
proof -
  have f: "find (\<lambda>o'. od_order o' = k) (d_orders d) = Some order"
    by (rule complete_credited [OF assms])
  obtain u where u: "user_by_id d (od_user order) = Some u" and
    d': "d' = addAuditLog now (Some (u_id u)) ''nodeloc_payment_complete''
        [show_int (od_amount order), show_int (od_traffic_gb order)] ''nodeloc-payment''
        ((credit_user (u_id u) (od_traffic_gb order * GB) d)
           \<lparr>d_orders := update_where (\<lambda>o'. od_order o' = k)
              (note_payment ''completed'' tid paidAt raw now) (d_orders d)\<rparr>)"
    by (rule complete_credited [OF assms]) blast
  have id: "u_id u = od_user order" using u user_by_id_SomeD by blast
  have "user_by_id d' j = user_by_id (credit_user (od_user order) (od_traffic_gb order * GB) d) j"
    by (simp add: d' id user_by_id_def addAuditLog_def)
  then show "user_by_id d' j = map_option (\<lambda>u. if j = od_user order \<and> 0 \<le> u_traffic_limit u
       then u\<lparr>u_traffic_limit := max 0 (u_traffic_limit u + od_traffic_gb order * GB)\<rparr> else u) (user_by_id d j)"
    by (simp add: credit_user_def user_by_id_update_user option.map_id0 [unfolded id_def])
  show "d_orders d' = update_where (\<lambda>o'. od_order o' = k) (note_payment ''completed'' tid paidAt raw now) (d_orders d)"
    by (simp add: d' addAuditLog_def)
  show "completed d' k"
    using find_Some_mem [OF f]
    by (auto simp: completed_def d' addAuditLog_def set_update_where
        intro!: bexI [where x = "note_payment ''completed'' tid paidAt raw now order"])
qed

lemma complete_intro:
  assumes "find (\<lambda>o'. od_order o' = k) (d_orders d) = Some order" and "od_status order \<noteq> ''completed''"
    and "amount = Some (od_amount order)"
    and "\<And>o'. o' \<in> set (d_orders d) \<Longrightarrow> od_user o' = od_user order \<Longrightarrow> od_id o' \<noteq> od_id order \<Longrightarrow>
      \<not> paid_on date8 (toSqlUtc now) o'"
    and "user_by_id d (od_user order) \<noteq> None"
  shows "\<exists>d'. complete_order date8 k tid paidAt amount raw now d = (Credited order, d')"
  using assms by (auto simp: complete_order_def Let_def)

text \<open>Whether a callback is accepted for processing does not depend on the database.\<close>

lemma callback_again:
  assumes "payment_callback sha hmac date8 json cfg query isoNow now d = (r, d')" and "\<And>f. r \<noteq> CallbackFailed f"
  shows "payment_callback sha hmac date8 json cfg query isoNow' now' d2 =
    complete_order date8 (callback_order query) (param (filter (\<lambda>p. fst p \<noteq> ''signature'') query) ''transaction_id'')
      (or_else (map_of (filter (\<lambda>p. fst p \<noteq> ''signature'') query) ''paid_at'') isoNow')
      (js_parse_int (param (filter (\<lambda>p. fst p \<noteq> ''signature'') query) ''amount'')) (json query) now' d2"
  using assms by (auto simp: payment_callback_def callback_order_def Let_def split: if_splits)

section \<open>The properties\<close>


text \<open>An open order of account 2, and the callback that pays it, with simple stand-ins for the hash,
  the MAC and the engine's date.\<close>

definition sample_order :: "string \<Rightarrow> int \<Rightarrow> order_row" where
  "sample_order k i = \<lparr>od_id = i, od_order = k, od_user = 2, od_amount = 10, od_traffic_gb = 10, od_status = ''pending'',
     od_transaction = None, od_url = None, od_paid_at = None, od_raw = None,
     od_created_at = ''1970-01-01 00:00:00'', od_updated_at = ''1970-01-01 00:00:00''\<rparr>"

definition sample_orders :: db where
  "sample_orders = sample_db\<lparr>d_orders := [sample_order ''a'' 1, sample_order ''b'' 2]\<rparr>"

abbreviation sample_mac :: "string \<Rightarrow> string \<Rightarrow> string" where
  "sample_mac \<equiv> \<lambda>k m. k @ m"

abbreviation sample_date8 :: "string \<Rightarrow> string option" where
  "sample_date8 \<equiv> \<lambda>t. Some (take 10 t)"

definition sample_callback :: "string \<Rightarrow> (string \<times> string) list" where
  "sample_callback k =
     (let ps = [(''amount'', ''10''), (''external_reference'', k), (''status'', ''completed'')]
      in ps @ [(''signature'', sample_mac ''t'' (sortedParamString ps))])"

definition sample_pay :: pay_config where "sample_pay = \<lparr>pc_id = ''p'', pc_token = ''t''\<rparr>"

lemma sample_orders_ok: "orders_ok sample_orders"
  by (simp add: orders_ok_def sample_orders_def sample_order_def)


text \<open>C34: a callback that credits carries the MAC of all its other fields under the secret, names an
  open order of exactly the paid amount, and raises the quota of that order's account by the
  order's gigabytes and nobody else's.\<close>

theorem callback_credits_order:
  assumes "payment_callback sha hmac date8 json cfg query isoNow now d = (Credited order, d')"
    and "\<And>a b. sha a = sha b \<Longrightarrow> a = b"
  shows "param query ''signature'' =
      hmac (sha (pc_token cfg)) (sortedParamString (filter (\<lambda>p. fst p \<noteq> ''signature'') query)) \<and> pc_token cfg \<noteq> [] \<and>
    order \<in> set (d_orders d) \<and> od_order order = callback_order query \<and> od_status order \<noteq> ''completed'' \<and>
    js_parse_int (param (filter (\<lambda>p. fst p \<noteq> ''signature'') query) ''amount'') = Some (od_amount order) \<and>
    (\<forall>k. user_by_id d' k = map_option (\<lambda>u. if k = od_user order \<and> 0 \<le> u_traffic_limit u
       then u\<lparr>u_traffic_limit := max 0 (u_traffic_limit u + od_traffic_gb order * GB)\<rparr> else u) (user_by_id d k)) \<and>
    completed d' (callback_order query)"
proof -
  have nf: "\<And>f. Credited order \<noteq> CallbackFailed f" by simp
  note c = callback_reaches(1) [OF assms(1) nf, folded callback_order_def] and s = callback_reaches(2,3) [OF assms(1) nf]
  have f: "find (\<lambda>o'. od_order o' = callback_order query) (d_orders d) = Some order"
    and st: "od_status order \<noteq> ''completed''"
    and am: "js_parse_int (param (filter (\<lambda>p. fst p \<noteq> ''signature'') query) ''amount'') = Some (od_amount order)"
    by (rule complete_credited [OF c]; simp)+
  have "param query ''signature'' =
      hmac (sha (pc_token cfg)) (sortedParamString (filter (\<lambda>p. fst p \<noteq> ''signature'') query))"
    using s(1) assms(2) by (simp add: safeTokenEqual_def signCallback_def)
  then show ?thesis using f find_Some_mem [OF f] st am s(2) complete_credited_effect(1,3) [OF c] by simp
qed

theorem callback_credits_order_witness:
  "order_row.od_order (sample_order ''a'' 1) = callback_order (sample_callback ''a'')"
proof -
  have "fst (payment_callback (\<lambda>x. x) sample_mac sample_date8 (\<lambda>_. []) sample_pay (sample_callback ''a'') ''1970-01-01'' 0
      sample_orders) = Credited (sample_order ''a'' 1)"
    by code_simp
  then obtain d' where "payment_callback (\<lambda>x. x) sample_mac sample_date8 (\<lambda>_. []) sample_pay (sample_callback ''a'')
      ''1970-01-01'' 0 sample_orders = (Credited (sample_order ''a'' 1), d')"
    by (metis prod.collapse)
  from callback_credits_order [OF this] show ?thesis by blast
qed

text \<open>C36: the service's answer to the opening of an order is written back whatever the order's state: if
  it comes after the callback and does not itself say that the order is completed, the same callback
  is accepted again and the account gets the gigabytes a second time.\<close>

theorem late_reply_reopens_order:
  assumes "payment_callback sha hmac date8 json cfg query isoNow now d = (Credited order, d1)"
    and "settle_reply (callback_order query) uid n ip (Answered a) t d1 = (Inr pg, d2)"
    and "pa_status a \<noteq> Some ''completed''" and "orders_ok d"
    and "user_by_id d (od_user order) = Some u" and "0 \<le> u_traffic_limit u" and "0 \<le> od_traffic_gb order"
  shows "\<exists>order2 d3. payment_callback sha hmac date8 json cfg query isoNow now d2 = (Credited order2, d3) \<and>
    user_by_id d3 (od_user order) = Some (u\<lparr>u_traffic_limit := u_traffic_limit u + 2 * od_traffic_gb order * GB\<rparr>)"
proof -
  have nf: "\<And>f. Credited order \<noteq> CallbackFailed f" by simp
  let ?k = "callback_order query" and ?tid = "param (filter (\<lambda>p. fst p \<noteq> ''signature'') query) ''transaction_id''"
    and ?paid = "or_else (map_of (filter (\<lambda>p. fst p \<noteq> ''signature'') query) ''paid_at'') isoNow"
    and ?amount = "js_parse_int (param (filter (\<lambda>p. fst p \<noteq> ''signature'') query) ''amount'')"
  note again = callback_again [OF assms(1) nf]
  note c = callback_reaches(1) [OF assms(1) nf, folded callback_order_def]
  note e = complete_credited_effect [OF c]
  define g where "g = (\<lambda>o'. (note_payment ''completed'' ?tid ?paid (json query) now o')
      \<lparr>od_transaction := (if truthy (pa_transaction a) then pa_transaction a else None), od_url := pa_url a,
       od_status := or_else (pa_status a) ''pending'', od_updated_at := toSqlUtc t\<rparr>)"
  have g: "od_order (g o') = od_order o'" "od_id (g o') = od_id o'" "od_user (g o') = od_user o'"
    "od_amount (g o') = od_amount o'" "od_traffic_gb (g o') = od_traffic_gb o'"
    "od_status (g o') = or_else (pa_status a) ''pending''" for o'
    by (simp_all add: g_def)
  have f: "find (\<lambda>o'. od_order o' = ?k) (d_orders d) = Some order" and am: "?amount = Some (od_amount order)"
    by (rule complete_credited [OF c]; simp)+
  have oth: "\<not> paid_on date8 (toSqlUtc now) o'"
    if "o' \<in> set (d_orders d)" "od_user o' = od_user order" "od_id o' \<noteq> od_id order" for o'
    by (rule complete_credited [OF c]) (use that in blast)
  have o2: "d_orders d2 = update_where (\<lambda>o'. od_order o' = ?k) g (d_orders d)"
    using assms(2) e(2) by (auto simp: settle_reply_def Let_def addAuditLog_def update_where_def g_def split: if_splits)
  have u2: "user_by_id d2 j = user_by_id d1 j" for j
    using assms(2) by (auto simp: settle_reply_def Let_def addAuditLog_def user_by_id_def split: if_splits)
  have "find (\<lambda>o'. od_order o' = ?k) (d_orders d2) = Some (g order)"
    using f by (simp add: o2 find_update_where [of od_order g, OF g(1)])
  moreover have "od_status (g order) \<noteq> ''completed''"
    using assms(3) by (auto simp: g(6) or_else_def split: option.splits)
  moreover have "\<not> paid_on date8 (toSqlUtc now) o'"
    if o': "o' \<in> set (d_orders d2)" "od_user o' = od_user (g order)" "od_id o' \<noteq> od_id (g order)" for o'
  proof -
    obtain x where x: "x \<in> set (d_orders d)" "o' = (if od_order x = ?k then g x else x)"
      using o'(1) by (auto simp: o2 update_where_def)
    have "od_order x \<noteq> ?k"
      using find_key_eq [of od_order "d_orders d" x ?k] f assms(4) x o'(3) by (auto simp: orders_ok_def g)
    then show ?thesis using oth [of x] x o'(2,3) by (simp add: g)
  qed
  ultimately obtain d3 where c3: "complete_order date8 ?k ?tid ?paid ?amount (json query) now d2 = (Credited (g order), d3)"
    using complete_intro [of ?k d2 "g order" ?amount date8 now ?tid ?paid "json query"] am assms(5) e(1) [of "od_user order"]
    by (auto simp: g u2)
  have "user_by_id d3 (od_user order) = Some (u\<lparr>u_traffic_limit := u_traffic_limit u + 2 * od_traffic_gb order * GB\<rparr>)"
    using complete_credited_effect(1) [OF c3, of "od_user order"] e(1) [of "od_user order"] assms(5,6,7)
    by (simp add: g u2)
  then show ?thesis using c3 again by auto
qed

definition sample_credit :: "callback_result \<times> db" where
  "sample_credit = payment_callback (\<lambda>x. x) sample_mac sample_date8 (\<lambda>_. []) sample_pay (sample_callback ''a'')
     ''1970-01-01'' 0 sample_orders"

definition sample_answer :: pay_answer where
  "sample_answer = \<lparr>pa_ok = True, pa_transaction = None, pa_url = Some ''u'', pa_status = None, pa_text = []\<rparr>"

definition sample_settled :: "(pay_refusal + string \<times> string) \<times> db" where
  "sample_settled = settle_reply (callback_order (sample_callback ''a'')) 2 10 ''i'' (Answered sample_answer) 0 (snd sample_credit)"

lemma sample_credit_eval: "fst sample_credit = Credited (sample_order ''a'' 1)" by code_simp

lemma sample_settled_eval: "fst sample_settled = Inr (''u'', ''a'')" by code_simp

theorem late_reply_reopens_order_witness:
  "\<exists>order2 d3. payment_callback (\<lambda>x. x) sample_mac sample_date8 (\<lambda>_. []) sample_pay (sample_callback ''a'')
      ''1970-01-01'' 0 (snd sample_settled) = (Credited order2, d3) \<and>
    user_by_id d3 (od_user (sample_order ''a'' 1)) =
      Some ((sample_user 2 0 (5 * GB))\<lparr>u_traffic_limit := 5 * GB + 2 * od_traffic_gb (sample_order ''a'' 1) * GB\<rparr>)"
proof -
  have c: "payment_callback (\<lambda>x. x) sample_mac sample_date8 (\<lambda>_. []) sample_pay (sample_callback ''a'')
      ''1970-01-01'' 0 sample_orders = (Credited (sample_order ''a'' 1), snd sample_credit)"
    using sample_credit_eval by (metis sample_credit_def prod.collapse)
  have st: "settle_reply (callback_order (sample_callback ''a'')) 2 10 ''i'' (Answered sample_answer) 0 (snd sample_credit) =
      (Inr (''u'', ''a''), snd sample_settled)"
    using sample_settled_eval by (metis sample_settled_def prod.collapse)
  have u: "user_by_id sample_orders (od_user (sample_order ''a'' 1)) = Some (sample_user 2 0 (5 * GB))"
    by (simp add: user_by_id_def sample_orders_def sample_order_def sample_db_def)
  have "pa_status sample_answer \<noteq> Some ''completed''" "0 \<le> u_traffic_limit (sample_user 2 0 (5 * GB))"
    "0 \<le> od_traffic_gb (sample_order ''a'' 1)"
    by (simp_all add: sample_answer_def sample_order_def)
  from late_reply_reopens_order [OF c st this(1) sample_orders_ok u this(2,3)] show ?thesis by simp
qed

text \<open>A payment refused for the daily limit stays open: the same callback, sent again on a later day
  on which the account has no completed order, credits it, although its page has said that it
  will not be credited.\<close>

theorem refused_payment_credited_later:
  assumes "payment_callback sha hmac date8 json cfg query isoNow now d = (OverDailyLimit order, d1)"
    and "\<forall>o' \<in> set (d_orders d). od_user o' = od_user order \<longrightarrow> \<not> paid_on date8 (toSqlUtc later) o'"
    and "user_by_id d (od_user order) \<noteq> None"
  shows "\<exists>order2 d2. payment_callback sha hmac date8 json cfg query isoLater later d1 = (Credited order2, d2) \<and>
    od_order order2 = od_order order"
proof -
  have nf: "\<And>f. OverDailyLimit order \<noteq> CallbackFailed f" by simp
  let ?k = "callback_order query" and ?tid = "param (filter (\<lambda>p. fst p \<noteq> ''signature'') query) ''transaction_id''"
    and ?paid = "or_else (map_of (filter (\<lambda>p. fst p \<noteq> ''signature'') query) ''paid_at'') isoNow"
    and ?amount = "js_parse_int (param (filter (\<lambda>p. fst p \<noteq> ''signature'') query) ''amount'')"
  note again = callback_again [OF assms(1) nf]
  note c = callback_reaches(1) [OF assms(1) nf, folded callback_order_def]
  let ?g = "note_payment ''rejected_daily_limit'' ?tid ?paid (json query) now"
  have f: "find (\<lambda>o'. od_order o' = ?k) (d_orders d) = Some order" and am: "?amount = Some (od_amount order)"
    and o1: "d_orders d1 = update_where (\<lambda>o'. od_order o' = ?k) ?g (d_orders d)"
    and u1: "d_users d1 = d_users d"
    using c by (auto simp: complete_order_def Let_def addAuditLog_def split: option.splits if_splits)
  have "find (\<lambda>o'. od_order o' = ?k) (d_orders d1) = Some (?g order)"
    using f by (simp add: o1 find_update_where [of od_order ?g])
  moreover have "\<not> paid_on date8 (toSqlUtc later) o'"
    if "o' \<in> set (d_orders d1)" "od_user o' = od_user (?g order)" "od_id o' \<noteq> od_id (?g order)" for o'
    using that assms(2) by (auto simp: o1 set_update_where paid_on_def)
  moreover have "user_by_id d1 (od_user (?g order)) \<noteq> None"
    using assms(3) by (simp add: user_by_id_def u1)
  ultimately have "\<exists>d2. complete_order date8 ?k ?tid (or_else (map_of (filter (\<lambda>p. fst p \<noteq> ''signature'') query) ''paid_at'') isoLater)
      ?amount (json query) later d1 = (Credited (?g order), d2)"
    by (intro complete_intro) (simp_all add: am)
  then show ?thesis unfolding again by fastforce
qed

text \<open>Account 2 has paid order b on the day on which the callback of order a arrives.\<close>

definition sample_second :: db where
  "sample_second = sample_db\<lparr>d_orders := [sample_order ''a'' 1,
     (sample_order ''b'' 2)\<lparr>od_status := ''completed'', od_paid_at := Some ''1970-01-01''\<rparr>]\<rparr>"

theorem refused_payment_credited_later_witness:
  "\<exists>order2 d2. payment_callback (\<lambda>x. x) sample_mac sample_date8 (\<lambda>_. []) sample_pay (sample_callback ''a'') ''1970-01-02'' 90000000
      (snd (payment_callback (\<lambda>x. x) sample_mac sample_date8 (\<lambda>_. []) sample_pay (sample_callback ''a'') ''1970-01-01'' 0
         sample_second)) = (Credited order2, d2) \<and> od_order order2 = od_order (sample_order ''a'' 1)"
proof -
  have "fst (payment_callback (\<lambda>x. x) sample_mac sample_date8 (\<lambda>_. []) sample_pay (sample_callback ''a'') ''1970-01-01'' 0
      sample_second) = OverDailyLimit (sample_order ''a'' 1)"
    by code_simp
  then have c: "payment_callback (\<lambda>x. x) sample_mac sample_date8 (\<lambda>_. []) sample_pay (sample_callback ''a'') ''1970-01-01'' 0
      sample_second = (OverDailyLimit (sample_order ''a'' 1), snd (payment_callback (\<lambda>x. x) sample_mac sample_date8 (\<lambda>_. [])
        sample_pay (sample_callback ''a'') ''1970-01-01'' 0 sample_second))"
    by (metis prod.collapse)
  have day: "take 10 (toSqlUtc 90000000) = ''1970-01-02''" by code_simp
  have "user_by_id sample_second (od_user (sample_order ''a'' 1)) \<noteq> None"
    by (simp add: user_by_id_def sample_second_def sample_order_def sample_db_def)
  moreover have "\<forall>o' \<in> set (d_orders sample_second). od_user o' = od_user (sample_order ''a'' 1) \<longrightarrow>
      \<not> paid_on sample_date8 (toSqlUtc 90000000) o'"
    using day by (simp add: sample_second_def sample_order_def paid_on_def)
  ultimately show ?thesis using refused_payment_credited_later [OF c] by blast
qed

end
