(* ===== verification/Accounts.thy ===== *)
theory Accounts
  imports UserRepo
begin

text \<open>
  The second half of \<open>src/services/repos/userRepo.js\<close>: counting, the bind gift, cascading
  deletion, blocking, quotas, freezing and the periodic sweeps, and the searchable list of
  accounts with its \<open>LIKE\<close> patterns.
\<close>

definition getUserCount :: "db \<Rightarrow> nat" where
  "getUserCount d = length (d_users d)"

definition tg_bound :: "user \<Rightarrow> bool" where
  "tg_bound u \<longleftrightarrow> truthy (u_telegram_id u)"

definition getTgBoundUserCount :: "db \<Rightarrow> nat" where
  "getTgBoundUserCount d = count_where tg_bound (d_users d)"

definition set_limit :: "int \<Rightarrow> user \<Rightarrow> user" where
  "set_limit n u = u\<lparr>u_traffic_limit := n\<rparr>"

definition setUserTrafficLimit :: "int \<Rightarrow> int \<Rightarrow> db \<Rightarrow> db" where
  "setUserTrafficLimit uid n d = update_user uid (set_limit n) d"

record gift =
  g_granted :: bool
  g_bytes :: int

definition grantTgBindGift :: "int \<Rightarrow> db \<Rightarrow> gift \<times> db" where
  "grantTgBindGift uid d =
     (case user_by_id d uid of
        None \<Rightarrow> (\<lparr>g_granted = False, g_bytes = 0\<rparr>, d)
      | Some u \<Rightarrow>
          if u_traffic_limit u \<noteq> 0 then (\<lparr>g_granted = False, g_bytes = 0\<rparr>, d)
          else let giftBytes = (case setting_int d ''default_traffic_limit'' of
                                  None \<Rightarrow> -1 | Some n \<Rightarrow> if n < 0 then -1 else n)
               in (\<lparr>g_granted = True, g_bytes = giftBytes\<rparr>, setUserTrafficLimit uid giftBytes d))"

text \<open>
  Deletion of an account and the rows that belong to it. Besides the statements of the function
  the foreign keys act: invitations of the account go with it, the account is erased from the
  invitations it used. The steal log \<open>tg_farm_steals\<close> is not among the tables.
\<close>

definition deleteUserCascade :: "int \<Rightarrow> db \<Rightarrow> db" where
  "deleteUserCascade uid d =
     d\<lparr>d_audit := delete_where (\<lambda>r. au_user r = Some uid) (d_audit d),
       d_sub_log := delete_where (\<lambda>r. sl_user r = uid) (d_sub_log d),
       d_sub_events := delete_where (\<lambda>r. ev_user r = Some uid) (d_sub_events d),
       d_observe := delete_where (\<lambda>r. ob_user r = uid) (d_observe d),
       d_uuids := delete_where (\<lambda>r. uu_user r = uid) (d_uuids d),
       d_traffic := delete_where (\<lambda>r. tr_user r = uid) (d_traffic d),
       d_daily := delete_where (\<lambda>r. da_user r = uid) (d_daily d),
       d_totals := delete_where (\<lambda>r. ut_user r = uid) (d_totals d),
       d_checkin := delete_where (\<lambda>r. ck_user r = uid) (d_checkin d),
       d_lucky := delete_where (\<lambda>r. lu_user r = uid) (d_lucky d),
       d_flip := delete_where (\<lambda>r. fl_user r = uid) (d_flip d),
       d_rps := delete_where (\<lambda>r. rp_user r = uid) (d_rps d),
       d_plots := delete_where (\<lambda>r. pl_user r = uid) (d_plots d),
       d_seeds := delete_where (\<lambda>r. se_user r = uid) (d_seeds d),
       d_invites := update_where (\<lambda>i. iv_used_by i = Some uid) (\<lambda>i. i\<lparr>iv_used_by := None\<rparr>)
                      (delete_where (\<lambda>i. iv_inviter i = uid) (d_invites d)),
       d_orders := delete_where (\<lambda>r. od_user r = uid) (d_orders d),
       d_node_white := delete_where (\<lambda>r. na_user r = uid) (d_node_white d),
       d_abuse := update_where (\<lambda>r. ab_user r = Some uid) (\<lambda>r. r\<lparr>ab_user := None\<rparr>) (d_abuse d),
       d_users := delete_where (\<lambda>u. u_id u = uid) (d_users d)\<rparr>"

text \<open>
  Accounts without a chat account that are due for deletion: nothing before the policy itself is
  \<open>graceDays\<close> old (a policy start that is not a number counts as not reached). The bound is
  compared as a text of 19 characters of the ISO form.
\<close>

definition iso_sql_of_ms :: "int \<Rightarrow> string" where
  "iso_sql_of_ms t =
     (let (y, m, dd) = civil_from_days (t div ms_per_day); sod = (t mod ms_per_day) div 1000
      in map (\<lambda>c. if c = CHR ''T'' then CHR '' '' else c)
           (take 19 (iso_year y @ ''-'' @ pad2 m @ ''-'' @ pad2 dd @ ''T'' @ pad2 (sod div 3600) @
              '':'' @ pad2 (sod div 60 mod 60) @ '':'' @ pad2 (sod mod 60))))"

definition getUnboundUsersForDeletion :: "int \<Rightarrow> int \<Rightarrow> int option \<Rightarrow> db \<Rightarrow> (int \<times> string) list" where
  "getUnboundUsersForDeletion now graceDays policyStartMs d =
     (let cutoffMs = now - graceDays * 86400000
      in case policyStartMs of
           None \<Rightarrow> []
         | Some start \<Rightarrow>
             if cutoffMs < start then []
             else map (\<lambda>u. (u_id u, u_username u))
               (filter (\<lambda>u. \<not> u_is_admin u \<and> \<not> tg_bound u \<and> u_created_at u \<le> iso_sql_of_ms cutoffMs)
                 (d_users d)))"

definition blockUser :: "int \<Rightarrow> bool \<Rightarrow> db \<Rightarrow> db" where
  "blockUser uid blocked d = update_user uid (\<lambda>u. u\<lparr>u_is_blocked := blocked\<rparr>) d"

definition used_bytes :: "int \<Rightarrow> db \<Rightarrow> int" where
  "used_bytes uid d =
     (case find (\<lambda>r. ut_user r = uid) (d_totals d) of None \<Rightarrow> 0 | Some r \<Rightarrow> ut_up r + ut_down r)"

definition isTrafficExceeded :: "int \<Rightarrow> db \<Rightarrow> bool" where
  "isTrafficExceeded uid d =
     (case user_by_id d uid of
        None \<Rightarrow> False
      | Some u \<Rightarrow> if u_traffic_limit u \<le> 0 then False else u_traffic_limit u \<le> used_bytes uid d)"

definition freezeUser :: "int \<Rightarrow> string \<Rightarrow> db \<Rightarrow> db" where
  "freezeUser uid reason d =
     (let d' = update_user uid (\<lambda>u. u\<lparr>u_is_frozen := True, u_freeze_reason := Some reason\<rparr>) d
      in d'\<lparr>d_uuids := delete_where (\<lambda>r. uu_user r = uid) (d_uuids d')\<rparr>)"

definition unfreezeUser :: "(int \<Rightarrow> string) \<Rightarrow> int \<Rightarrow> db \<Rightarrow> db" where
  "unfreezeUser gen uid d =
     (let d' = update_user uid (\<lambda>u. u\<lparr>u_is_frozen := False, u_freeze_reason := None\<rparr>) d
      in if 0 < count_where (\<lambda>u. u_id u = uid) (d_users d) then ensureUserHasAllNodeUuids gen uid d' else d')"

definition sweepable :: "user \<Rightarrow> bool" where
  "sweepable u \<longleftrightarrow> \<not> u_is_frozen u \<and> \<not> u_is_blocked u \<and> \<not> u_is_admin u"

text \<open>A sweep freezes the selected accounts one after the other and returns them.\<close>

definition freeze_all :: "string \<Rightarrow> user list \<Rightarrow> db \<Rightarrow> db" where
  "freeze_all reason us d = fold (\<lambda>u. freezeUser (u_id u) reason) us d"

definition autoFreezeInactiveUsers :: "int \<Rightarrow> int \<Rightarrow> db \<Rightarrow> user list \<times> db" where
  "autoFreezeInactiveUsers now days d =
     (let cutoff = toSqlUtc (now - days * 86400000);
          users = filter (\<lambda>u. sweepable u \<and> (case u_last_login u of None \<Rightarrow> False | Some l \<Rightarrow> l < cutoff))
                    (d_users d)
      in (users, freeze_all ''inactive'' users d))"

definition last_checkin :: "int \<Rightarrow> db \<Rightarrow> string option" where
  "last_checkin uid d =
     (case map ck_date (filter (\<lambda>c. ck_user c = uid) (d_checkin d)) of
        [] \<Rightarrow> None | x # xs \<Rightarrow> Some (fold max xs x))"

definition autoFreezeNoCheckinUsers :: "int \<Rightarrow> int \<Rightarrow> db \<Rightarrow> user list \<times> db" where
  "autoFreezeNoCheckinUsers now days d =
     (let cutoffDate = iso_day ((now - days * 86400000) div ms_per_day);
          users = filter (\<lambda>u. sweepable u \<and> tg_bound u \<and>
                      (case last_checkin (u_id u) d of None \<Rightarrow> True | Some l \<Rightarrow> l = [] \<or> l < cutoffDate))
                    (d_users d)
      in (users, freeze_all ''tg_inactive'' users d))"

definition autoFreezeExpiredUsers :: "int \<Rightarrow> db \<Rightarrow> user list \<times> db" where
  "autoFreezeExpiredUsers now d =
     (let nowSql = toSqlUtc now;
          users = filter (\<lambda>u. sweepable u \<and> (case u_expires_at u of None \<Rightarrow> False | Some e \<Rightarrow> e < nowSql))
                    (d_users d)
      in (users, freeze_all ''expired'' users d))"

definition resetSubToken :: "string \<Rightarrow> int \<Rightarrow> db \<Rightarrow> string \<times> db" where
  "resetSubToken newToken uid d = (newToken, update_user uid (\<lambda>u. u\<lparr>u_sub_token := newToken\<rparr>) d)"

definition setUserExpiry :: "int \<Rightarrow> string \<Rightarrow> db \<Rightarrow> db" where
  "setUserExpiry uid expiresAt d =
     update_user uid (\<lambda>u. u\<lparr>u_expires_at := (if expiresAt = [] then None else Some expiresAt)\<rparr>) d"

section \<open>The list of accounts\<close>

definition with_total :: "db \<Rightarrow> user \<Rightarrow> user \<times> int" where
  "with_total d u = (u, used_bytes (u_id u) d)"

definition getAllUsers :: "db \<Rightarrow> (user \<times> int) list" where
  "getAllUsers d = rev (sort_key snd (map (with_total d) (d_users d)))"

definition escape_char :: char where "escape_char = CHR 0x5C"

definition escapeLikePattern :: "string \<Rightarrow> string" where
  "escapeLikePattern s =
     concat (map (\<lambda>c. if c \<in> {escape_char, CHR ''%'', CHR ''_''} then [escape_char, c] else [c]) s)"

text \<open>
  \<open>text LIKE pattern ESCAPE '\'\<close>: \<open>%\<close> is any text, \<open>_\<close> any character, the escape character makes
  the next one literal, letters match in either case.
\<close>

function like :: "string \<Rightarrow> string \<Rightarrow> bool" where
  "like [] s = (s = [])"
| "like (c # p) s =
     (if c = CHR ''%'' then like p s \<or> (case s of [] \<Rightarrow> False | _ # s' \<Rightarrow> like (c # p) s')
      else if c = CHR ''_'' then (case s of [] \<Rightarrow> False | _ # s' \<Rightarrow> like p s')
      else if c = escape_char then
        (case p of [] \<Rightarrow> False
         | e # p' \<Rightarrow> (case s of [] \<Rightarrow> False
                    | x # s' \<Rightarrow> js_lower_char x = js_lower_char e \<and> like p' s'))
      else (case s of [] \<Rightarrow> False | x # s' \<Rightarrow> js_lower_char x = js_lower_char c \<and> like p s'))"
  by pat_completeness auto
termination
  by (relation "measure (\<lambda>(p, s). length p + length s)")
    auto

declare like.simps(2) [simp del]

datatype sort_column = SortId | SortUsername | SortTrust | SortTotal | SortExpires | SortLogin

definition sort_column_of :: "string \<Rightarrow> sort_column" where
  "sort_column_of s =
     (if s = ''id'' then SortId else if s = ''username'' then SortUsername
      else if s = ''trust_level'' then SortTrust else if s = ''expires_at'' then SortExpires
      else if s = ''last_login'' then SortLogin else SortTotal)"

text \<open>A null sorts before every text.\<close>

definition null_first :: "string option \<Rightarrow> string" where
  "null_first x = (case x of None \<Rightarrow> [] | Some s \<Rightarrow> CHR ''x'' # s)"

definition order_users :: "sort_column \<Rightarrow> (user \<times> int) list \<Rightarrow> (user \<times> int) list" where
  "order_users col rows =
     (case col of
        SortId \<Rightarrow> sort_key (\<lambda>r. u_id (fst r)) rows
      | SortUsername \<Rightarrow> sort_key (\<lambda>r. u_username (fst r)) rows
      | SortTrust \<Rightarrow> sort_key (\<lambda>r. u_trust_level (fst r)) rows
      | SortTotal \<Rightarrow> sort_key snd rows
      | SortExpires \<Rightarrow> sort_key (\<lambda>r. null_first (u_expires_at (fst r))) rows
      | SortLogin \<Rightarrow> sort_key (\<lambda>r. null_first (u_last_login (fst r))) rows)"

definition getAllUsersPaged ::
  "nat \<Rightarrow> nat \<Rightarrow> string \<Rightarrow> string \<Rightarrow> string \<Rightarrow> db \<Rightarrow> (user \<times> int) list \<times> nat" where
  "getAllUsersPaged limit offset search sortBy sortDir d =
     (let pat = ''%'' @ escapeLikePattern search @ ''%'';
          hit = (\<lambda>u. search = [] \<or> like pat (u_username u) \<or> like pat (u_name u));
          found = map (with_total d) (filter hit (d_users d));
          ordered = order_users (sort_column_of sortBy) found;
          rows = (if sortDir = ''ASC'' then ordered else rev ordered)
      in (page limit offset rows, length found))"

end
