(* ===== verification/TgGame.thy ===== *)
theory TgGame
  imports Accounts
begin

text \<open>
  What the chat games share (\<open>src/utils/tgGame.js\<close> after its calendar): the check of the signed
  launch data, the weighted draw and the release of an account that was frozen for its quota.
  Hashing is the platform's: \<open>hmac key msg\<close> is the MAC of a text as a byte text. The collation of
  \<open>localeCompare\<close> is the parameter \<open>ckey\<close> (entries are sorted by the collation key), the JSON
  reader the parameter \<open>json\<close>; the launch data comes as its decoded list of parameters.
\<close>

section \<open>Launch data\<close>

fun hex_bytes :: "string \<Rightarrow> string" where
  "hex_bytes (a # b # s) =
     (case (hex_val a, hex_val b) of
        (Some x, Some y) \<Rightarrow> char_of (nat (16 * x + y)) # hex_bytes s
      | _ \<Rightarrow> [])"
| "hex_bytes _ = []"

definition data_check_string :: "(string \<Rightarrow> string) \<Rightarrow> (string \<times> string) list \<Rightarrow> string" where
  "data_check_string ckey params =
     js_join [char_of (10 :: nat)]
       (map (\<lambda>(k, v). k @ ''='' @ v) (sort_key (\<lambda>e. ckey (fst e)) (filter (\<lambda>e. fst e \<noteq> ''hash'') params)))"

definition TG_INITDATA_MAX_AGE_SEC :: int where "TG_INITDATA_MAX_AGE_SEC = 600"

definition verifyTgInitData ::
  "(string \<Rightarrow> string \<Rightarrow> string) \<Rightarrow> (string \<Rightarrow> string) \<Rightarrow> (string \<Rightarrow> 'j option) \<Rightarrow> string \<Rightarrow>
   (string \<times> string) list \<Rightarrow> int \<Rightarrow> 'j option" where
  "verifyTgInitData hmac ckey json token params nowMs =
     (if token = [] then None
      else case map_of params ''hash'' of
             None \<Rightarrow> None
           | Some hash \<Rightarrow>
               if hash = [] then None
               else let mac = hmac (hmac ''WebAppData'' token) (data_check_string ckey params);
                        rest = filter (\<lambda>e. fst e \<noteq> ''hash'') params;
                        authDate = to_js_num (case map_of rest ''auth_date'' of None \<Rightarrow> Some 0 | Some a \<Rightarrow> js_number a)
                    in case authDate of
                         JNonInt \<Rightarrow> None
                       | JInt a \<Rightarrow>
                           if TG_INITDATA_MAX_AGE_SEC < \<bar>nowMs div 1000 - a\<bar> then None
                           else if hex_bytes hash \<noteq> mac then None
                           else case map_of rest ''user'' of None \<Rightarrow> json ''null'' | Some u \<Rightarrow> json u)"

section \<open>The weighted draw\<close>

record prize =
  pz_label :: string
  pz_gb :: rat
  pz_weight :: int

fun draw_loop :: "rat \<Rightarrow> prize list \<Rightarrow> prize option" where
  "draw_loop roll [] = None"
| "draw_loop roll (p # ps) =
     (let roll' = roll - of_int (pz_weight p) in if roll' \<le> 0 then Some p else draw_loop roll' ps)"

definition total_weight :: "prize list \<Rightarrow> int" where
  "total_weight ps = sum_list (map pz_weight ps)"

definition draw_at :: "rat \<Rightarrow> prize list \<Rightarrow> prize" where
  "draw_at roll ps = (case draw_loop roll ps of Some p \<Rightarrow> p | None \<Rightarrow> last ps)"

text \<open>\<open>weightedRandom\<close>, with the random number of the call as the argument \<open>rnd\<close> in [0, 1).\<close>

definition weightedRandom :: "rat \<Rightarrow> prize list \<Rightarrow> prize" where
  "weightedRandom rnd ps = draw_at (rnd * of_int (total_weight ps)) ps"

section \<open>Accounts of players\<close>

definition getUserByTelegramId :: "string \<Rightarrow> db \<Rightarrow> user option" where
  "getUserByTelegramId tgId d = find (\<lambda>u. u_telegram_id u = Some tgId) (d_users d)"

definition traffic_frozen :: "user \<Rightarrow> bool" where
  "traffic_frozen u \<longleftrightarrow> u_is_frozen u \<and> u_freeze_reason u = Some ''traffic_limit''"

definition tryUnfreezeAfterTraffic :: "(int \<Rightarrow> string) \<Rightarrow> int \<Rightarrow> int \<Rightarrow> db \<Rightarrow> db" where
  "tryUnfreezeAfterTraffic gen now uid d =
     (case user_by_id d uid of
        None \<Rightarrow> d
      | Some u \<Rightarrow>
          if traffic_frozen u \<and> \<not> isTrafficExceeded uid d
          then add_effect EmitSyncAll
                 (addAuditLog now None ''traffic_limit_unfreeze'' [u_username u] ''system'' (unfreezeUser gen uid d))
          else d)"

section \<open>Facts\<close>

lemma tg_lookup_update:
  assumes "\<And>u. u_telegram_id (f u) = u_telegram_id u"
  shows "getUserByTelegramId t (update_user uid f d) =
    map_option (\<lambda>u. if u_id u = uid then f u else u) (getUserByTelegramId t d)"
  unfolding getUserByTelegramId_def update_user_def using assms by (simp add: find_update_where_stable)

lemma tg_lookup_cong: "d_users d' = d_users d \<Longrightarrow> getUserByTelegramId t d' = getUserByTelegramId t d"
  by (simp add: getUserByTelegramId_def)

lemma draw_loop_mem: "draw_loop roll ps = Some p \<Longrightarrow> p \<in> set ps"
  by (induction ps arbitrary: roll) (auto simp: Let_def split: if_splits)

lemma draw_loop_total:
  "roll \<le> of_int (total_weight ps) \<Longrightarrow> ps \<noteq> [] \<Longrightarrow> \<exists>p. draw_loop roll ps = Some p"
proof (induction ps arbitrary: roll)
  case (Cons p ps)
  then show ?case
    by (cases ps) (auto simp: Let_def total_weight_def)
qed simp

text \<open>A roll in the slice of the prize at position \<open>length pre\<close> draws that prize.\<close>

lemma draw_loop_slice:
  assumes "\<forall>q \<in> set pre. 0 \<le> pz_weight q"
    and "of_int (total_weight pre) < roll" and "roll \<le> of_int (total_weight pre + pz_weight p)"
  shows "draw_loop roll (pre @ p # post) = Some p"
  using assms
proof (induction pre arbitrary: roll)
  case Nil
  then show ?case by (simp add: total_weight_def)
next
  case (Cons q pre)
  have nn: "0 \<le> total_weight pre"
    using Cons.prems(1) by (auto simp: total_weight_def intro!: sum_list_nonneg)
  have "of_int (total_weight pre) < roll - of_int (pz_weight q)"
    and "roll - of_int (pz_weight q) \<le> of_int (total_weight pre + pz_weight p)"
    using Cons.prems by (simp_all add: total_weight_def)
  moreover from this nn have "\<not> roll - of_int (pz_weight q) \<le> 0"
    by (metis le_less_trans less_le_not_le of_int_0_le_iff)
  ultimately show ?case using Cons.IH Cons.prems(1) by (simp add: Let_def)
qed

end
