(* ===== verification/Passwords.thy ===== *)
theory Passwords
  imports TgGame
begin

text \<open>
  Password hashes (\<open>src/utils/password.js\<close>): a text of six parts around a random salt. The key
  derivation is the platform's: \<open>kdf password salt len N r p\<close> is the derived key as a text of
  bytes, \<open>None\<close> when the platform refuses the parameters.
\<close>

type_synonym kdf = "string \<Rightarrow> string \<Rightarrow> nat \<Rightarrow> int \<Rightarrow> int \<Rightarrow> int \<Rightarrow> string option"

definition SCRYPT_N :: int where "SCRYPT_N = 32768"
definition SCRYPT_R :: int where "SCRYPT_R = 8"
definition SCRYPT_P :: int where "SCRYPT_P = 2"
definition KEYLEN :: nat where "KEYLEN = 64"

definition hex_digit :: "nat \<Rightarrow> char" where
  "hex_digit n = (if n < 10 then char_of (48 + n) else char_of (87 + n))"

text \<open>\<open>toString('hex')\<close> of a text of bytes.\<close>

definition to_hex :: "string \<Rightarrow> string" where
  "to_hex s = concat (map (\<lambda>c. let n = of_char c in [hex_digit (n div 16), hex_digit (n mod 16)]) s)"

definition hashPassword :: "kdf \<Rightarrow> string \<Rightarrow> string \<Rightarrow> string option" where
  "hashPassword kdf salt password =
     (if password = [] then None
      else case kdf password salt KEYLEN SCRYPT_N SCRYPT_R SCRYPT_P of
             None \<Rightarrow> None
           | Some derived \<Rightarrow>
               Some (js_join ''$'' [''scrypt'', show_int SCRYPT_N, show_int SCRYPT_R, show_int SCRYPT_P, salt, to_hex derived]))"

text \<open>\<open>None\<close> when the derivation throws.\<close>

definition verifyPassword :: "kdf \<Rightarrow> string \<Rightarrow> string \<Rightarrow> bool option" where
  "verifyPassword kdf password encoded =
     (if \<not> js_starts ''scrypt$'' encoded then Some False
      else let parts = js_split (CHR ''$'') encoded
           in if length parts \<noteq> 6 then Some False
              else case (js_parse_int (parts ! 1), js_parse_int (parts ! 2), js_parse_int (parts ! 3)) of
                     (Some n, Some r, Some p) \<Rightarrow>
                       if n < 1 \<or> 1048576 < n \<or> r < 1 \<or> 16 < r \<or> p < 1 \<or> 4 < p then Some False
                       else if parts ! 4 = [] \<or> parts ! 5 = [] then Some False
                       else let expected = hex_bytes (parts ! 5)
                            in map_option (\<lambda>actual. length expected = length actual \<and> expected = actual)
                                 (kdf password (parts ! 4) (length expected) n r p)
                   | _ \<Rightarrow> Some False)"

section \<open>Round trip\<close>

lemma hex_digit_facts:
  assumes "n < 16"
  shows "hex_val (hex_digit n) = Some (int n)" and "hex_digit n \<noteq> CHR ''$''"
proof -
  have m: "of_char (hex_digit n) = (if n < 10 then 48 + n else 87 + n)"
    using assms by (simp add: hex_digit_def)
  have l: "js_lower_char (hex_digit n) = hex_digit n" using assms by (simp add: js_lower_char_def m Let_def)
  show "hex_val (hex_digit n) = Some (int n)"
    using assms by (simp add: hex_val_def is_digit_def l m Let_def)
  show "hex_digit n \<noteq> CHR ''$''"
  proof
    assume "hex_digit n = CHR ''$''"
    then have "of_char (hex_digit n) = (36 :: nat)" by simp
    then show False using m by (simp split: if_splits)
  qed
qed

lemma hex_bytes_to_hex [simp]: "hex_bytes (to_hex s) = s"
proof (induction s)
  case (Cons c s)
  define n :: nat where "n = of_char c"
  have n: "n < 256" by (simp add: n_def)
  then have "hex_val (hex_digit (n div 16)) = Some (int (n div 16))" "hex_val (hex_digit (n mod 16)) = Some (int (n mod 16))"
    by (intro hex_digit_facts(1); simp)+
  moreover have "nat (16 * int (n div 16) + int (n mod 16)) = n" by (simp add: nat_eq_iff zdiv_int zmod_int)
  moreover have "to_hex (c # s) = hex_digit (n div 16) # hex_digit (n mod 16) # to_hex s"
    by (simp add: to_hex_def n_def Let_def)
  ultimately show ?case using Cons.IH by (simp add: n_def)
qed (simp add: to_hex_def)

lemma to_hex_plain: "CHR ''$'' \<notin> set (to_hex s)"
proof -
  have "hex_digit (of_char c div 16) \<noteq> CHR ''$''" "hex_digit (of_char c mod 16) \<noteq> CHR ''$''" for c :: char
    by (intro hex_digit_facts(2); simp add: less_mult_imp_div_less)+
  then show ?thesis by (auto simp: to_hex_def Let_def) metis+
qed

lemma split_part: "c \<notin> set p \<Longrightarrow> js_split c (p @ c # s) = p # js_split c s"
  by (induction p) auto

lemma split_last: "c \<notin> set p \<Longrightarrow> js_split c p = [p]"
  by (induction p) auto

lemma encoded_parts:
  assumes "CHR ''$'' \<notin> set salt" and "CHR ''$'' \<notin> set h"
  shows "js_split (CHR ''$'') (js_join ''$'' [''scrypt'', show_int SCRYPT_N, show_int SCRYPT_R, show_int SCRYPT_P, salt, h]) =
    [''scrypt'', ''32768'', ''8'', ''2'', salt, h]"
proof -
  have n: "show_int SCRYPT_N = ''32768''" "show_int SCRYPT_R = ''8''" "show_int SCRYPT_P = ''2''"
    by (simp_all add: show_int_def SCRYPT_N_def SCRYPT_R_def SCRYPT_P_def show_nat.simps [of 32768] show_nat.simps [of 3276]
        show_nat.simps [of 327] show_nat.simps [of 32] show_nat.simps [of 3] show_nat.simps [of 8] show_nat.simps [of 2])
      code_simp+
  have "js_join ''$'' [''scrypt'', ''32768'', ''8'', ''2'', salt, h] = ''scrypt$32768$8$2$'' @ salt @ CHR ''$'' # h"
    by (simp add: js_join_def)
  then show ?thesis using assms by (simp add: n split_part split_last)
qed

text \<open>A stored hash accepts exactly the passwords with the same derived key: the one it was made
  of, and, as far as the derivation separates passwords, no other.\<close>

theorem password_round_trip:
  assumes "\<And>pw. kdf pw salt KEYLEN SCRYPT_N SCRYPT_R SCRYPT_P = Some (key pw)" and "\<And>pw. length (key pw) = KEYLEN"
    and "salt \<noteq> []" and "CHR ''$'' \<notin> set salt" and "hashPassword kdf salt password = Some encoded"
  shows "verifyPassword kdf attempt encoded = Some (key attempt = key password)"
proof -
  have k: "length (hex_bytes (to_hex (key password))) = KEYLEN" using assms(2) by simp
  have e: "encoded = js_join ''$'' [''scrypt'', show_int SCRYPT_N, show_int SCRYPT_R, show_int SCRYPT_P, salt, to_hex (key password)]"
    using assms(1,5) by (simp add: hashPassword_def split: if_splits)
  have ps: "js_split (CHR ''$'') encoded = [''scrypt'', ''32768'', ''8'', ''2'', salt, to_hex (key password)]"
    unfolding e by (rule encoded_parts [OF assms(4) to_hex_plain])
  have i: "js_parse_int ''32768'' = Some 32768" "js_parse_int ''8'' = Some 8" "js_parse_int ''2'' = Some 2"
    by code_simp+
  have "encoded = ''scrypt$'' @ concat (map (\<lambda>q. q @ ''$'') [show_int SCRYPT_N, show_int SCRYPT_R, show_int SCRYPT_P, salt]) @
      to_hex (key password)"
    unfolding e js_join_def by simp
  then have "js_starts ''scrypt$'' encoded" by (simp add: js_starts_def)
  moreover have "key password \<noteq> []" using assms(2) [of password] by (auto simp: KEYLEN_def)
  then have "to_hex (key password) \<noteq> []" by (metis hex_bytes.simps(2) hex_bytes_to_hex)
  moreover have "kdf attempt salt KEYLEN 32768 8 2 = Some (key attempt)"
    using assms(1) [of attempt] by (simp add: SCRYPT_N_def SCRYPT_R_def SCRYPT_P_def)
  ultimately show ?thesis unfolding verifyPassword_def ps using assms(3) k by (simp add: i assms(2) eq_commute [of "key password"])
qed

definition sample_kdf :: kdf where
  "sample_kdf pw salt len n r p = Some (take len (pw @ replicate len (CHR ''x'')))"

theorem password_round_trip_witness:
  "verifyPassword sample_kdf ''other'' (the (hashPassword sample_kdf ''s'' ''secret'')) = Some False"
proof -
  define key where "key = (\<lambda>pw :: string. take KEYLEN (pw @ replicate KEYLEN (CHR ''x'')))"
  have k: "sample_kdf pw ''s'' KEYLEN SCRYPT_N SCRYPT_R SCRYPT_P = Some (key pw)" and l: "length (key pw) = KEYLEN" for pw
    by (simp_all add: sample_kdf_def key_def)
  obtain h where h: "hashPassword sample_kdf ''s'' ''secret'' = Some h"
    by (simp add: hashPassword_def sample_kdf_def)
  have "verifyPassword sample_kdf ''other'' h = Some (key ''other'' = key ''secret'')"
    by (rule password_round_trip [OF k l _ _ h]) simp_all
  moreover have "hd (key (c # cs)) = c" for c cs by (simp add: key_def KEYLEN_def)
  then have "hd (key ''other'') \<noteq> hd (key ''secret'')" by simp
  then have "key ''other'' \<noteq> key ''secret''" by (rule contrapos_nn) (rule arg_cong [where f = hd])
  ultimately show ?thesis using h by simp
qed

end
