(* ===== verification/SubAccess.thy ===== *)
theory SubAccess
  imports SettingsRepo NetUtils
begin

text \<open>
  The log of subscription requests (\<open>src/services/repos/subAccessRepo.js\<close>): writing to it, and
  the statistics the administration pages read from it. A grouped select yields its groups in
  the order of the grouping key, and a descending sort keeps that order among equals. Rates are
  exact rationals rounded where the code rounds them. An insertion is refused (\<open>None\<close>) when the
  account it names does not exist (the tables' foreign key).
\<close>

section \<open>Grouping, ordering, rounding\<close>

definition group_rows :: "('r \<Rightarrow> 'k :: linorder) \<Rightarrow> 'r list \<Rightarrow> ('k \<times> 'r list) list" where
  "group_rows key t = map (\<lambda>k. (k, filter (\<lambda>r. key r = k) t)) (sort (remdups (map key t)))"

definition order_desc :: "('r \<Rightarrow> 'k :: linorder) \<Rightarrow> 'r list \<Rightarrow> 'r list" where
  "order_desc key t = rev (sort_key key (rev t))"

definition max_text :: "('r \<Rightarrow> string) \<Rightarrow> 'r list \<Rightarrow> string" where
  "max_text f t = fold (\<lambda>r m. max (f r) m) t []"

definition count_distinct :: "('r \<Rightarrow> 'v) \<Rightarrow> 'r list \<Rightarrow> nat" where
  "count_distinct f t = length (remdups (map f t))"

definition round_tenth :: "rat \<Rightarrow> rat" where
  "round_tenth x = of_int (floor (10 * x + 1 / 2)) / 10"

definition round_hundredth :: "rat \<Rightarrow> rat" where
  "round_hundredth x = of_int (floor (100 * x + 1 / 2)) / 100"

text \<open>\<open>created_at > datetime('now', '-h hours')\<close>.\<close>

definition within_hours :: "int \<Rightarrow> int \<Rightarrow> string \<Rightarrow> bool" where
  "within_hours hours now t \<longleftrightarrow> toSqlUtc (now - hours * 3600000) < t"

definition safe_hours :: "string \<Rightarrow> int" where
  "safe_hours hours = toPosInt hours 24 1 (Some (24 * 365))"

section \<open>Writing\<close>

definition toSafeText :: "string \<Rightarrow> nat \<Rightarrow> string" where
  "toSafeText s maxLen = take maxLen s"

datatype risk = Low | Mid | High

definition buildRiskLevel :: "nat \<Rightarrow> nat \<Rightarrow> nat \<Rightarrow> nat \<Rightarrow> risk" where
  "buildRiskLevel req deny ip ua =
     (let denyRate = (if 0 < req then of_nat deny / of_nat req else 0 :: rat)
      in if 40 \<le> deny \<or> 1 / 2 \<le> denyRate \<or> 10 \<le> ip \<or> 8 \<le> ua \<or> 200 \<le> req then High
         else if 10 \<le> deny \<or> 1 / 5 \<le> denyRate \<or> 5 \<le> ip \<or> 4 \<le> ua \<or> 80 \<le> req then Mid
         else Low)"

definition logSubAccess :: "int \<Rightarrow> string \<Rightarrow> string \<Rightarrow> int \<Rightarrow> db \<Rightarrow> db option" where
  "logSubAccess uid ip ua now d =
     (if user_by_id d uid = None then None
      else Some (d\<lparr>d_sub_log := d_sub_log d @
             [\<lparr>sl_user = uid, sl_ip = ip, sl_ua = ua, sl_at = toSqlUtc now\<rparr>]\<rparr>))"

text \<open>The key of a client text: outer blanks dropped, lower case.\<close>

definition sql_trim :: "string \<Rightarrow> string" where
  "sql_trim s = rev (dropWhile (\<lambda>c. c = CHR '' '') (rev (dropWhile (\<lambda>c. c = CHR '' '') s)))"

definition ua_key :: "string \<Rightarrow> string" where
  "ua_key ua = js_lower (sql_trim ua)"

definition countDistinctSubAccessUas :: "int \<Rightarrow> int \<Rightarrow> int \<Rightarrow> db \<Rightarrow> nat" where
  "countDistinctSubAccessUas uid hours now d =
     count_distinct (\<lambda>r. ua_key (ev_ua r))
       (filter (\<lambda>r. ev_user r = Some uid \<and> within_hours hours now (ev_at r) \<and> sql_trim (ev_ua r) \<noteq> [])
          (d_sub_events d))"

definition clearSubAccessWindow :: "int \<Rightarrow> string \<Rightarrow> int \<Rightarrow> db \<Rightarrow> db" where
  "clearSubAccessWindow uid hours now d =
     (let h = safe_hours hours
      in d\<lparr>d_sub_log := delete_where (\<lambda>r. sl_user r = uid \<and> within_hours h now (sl_at r)) (d_sub_log d),
           d_sub_events := delete_where (\<lambda>r. ev_user r = Some uid \<and> within_hours h now (ev_at r))
             (d_sub_events d)\<rparr>)"

record event_input =
  ei_user :: "int option"
  ei_token :: string
  ei_route :: string
  ei_result :: string
  ei_reason :: string
  ei_ip :: string
  ei_ua :: string
  ei_client :: string
  ei_status :: "int option"

definition default_text :: "string \<Rightarrow> string \<Rightarrow> string" where
  "default_text s d = (if s = [] then d else s)"

definition event_row :: "event_input \<Rightarrow> int \<Rightarrow> sub_event_row" where
  "event_row i now =
     (let result = (if js_lower (default_text (ei_result i) ''allow'') = ''deny'' then ''deny'' else ''allow'')
      in \<lparr>ev_user = (case ei_user i of None \<Rightarrow> None | Some n \<Rightarrow> if 0 < n then Some n else None),
          ev_token = toSafeText (ei_token i) 16,
          ev_route = toSafeText (default_text (ei_route i) ''sub'') 16, ev_result = result,
          ev_reason = toSafeText (default_text (ei_reason i) ''ok'') 64,
          ev_ip = toSafeText (ei_ip i) 64, ev_ua = toSafeText (ei_ua i) 300,
          ev_client = toSafeText (ei_client i) 32,
          ev_status = (case ei_status i of Some n \<Rightarrow> n | None \<Rightarrow> if result = ''allow'' then 200 else 403),
          ev_at = toSqlUtc now\<rparr>)"

definition logSubAccessEvent :: "event_input \<Rightarrow> int \<Rightarrow> db \<Rightarrow> db option" where
  "logSubAccessEvent i now d =
     (let row = event_row i now
      in if ev_user row \<noteq> None \<and> user_by_id d (the (ev_user row)) = None then None
         else Some (d\<lparr>d_sub_events := d_sub_events d @ [row]\<rparr>))"

section \<open>Statistics of the pull log\<close>

record ip_stat =
  ia_ip :: string
  ia_count :: nat
  ia_last :: string

definition log_of :: "int \<Rightarrow> int \<Rightarrow> int \<Rightarrow> db \<Rightarrow> sub_log_row list" where
  "log_of uid hours now d =
     filter (\<lambda>r. sl_user r = uid \<and> within_hours hours now (sl_at r)) (d_sub_log d)"

definition getSubAccessIPs :: "int \<Rightarrow> int \<Rightarrow> int \<Rightarrow> db \<Rightarrow> ip_stat list" where
  "getSubAccessIPs uid hours now d =
     order_desc ia_count
       (map (\<lambda>(ip, rows). \<lparr>ia_ip = ip, ia_count = length rows, ia_last = max_text sl_at rows\<rparr>)
          (group_rows sl_ip (log_of uid hours now d)))"

record pull_stat =
  ps_user :: int
  ps_username :: "string option"
  ps_pulls :: nat
  ps_ips :: nat
  ps_last :: string
  ps_interval :: rat
  ps_risk :: risk

definition pull_stat_of :: "int \<Rightarrow> db \<Rightarrow> int \<times> sub_log_row list \<Rightarrow> pull_stat" where
  "pull_stat_of hours d g =
     (let pulls = length (snd g); ips = count_distinct sl_ip (snd g)
      in \<lparr>ps_user = fst g, ps_username = map_option u_username (user_by_id d (fst g)),
          ps_pulls = pulls, ps_ips = ips, ps_last = max_text sl_at (snd g),
          ps_interval = round_tenth (of_int (hours * 3600) / of_nat (max pulls 1)),
          ps_risk = (if 100 < pulls \<or> 8 < ips then High else if 30 \<le> pulls \<or> 4 \<le> ips then Mid else Low)\<rparr>)"

definition order_pulls :: "string \<Rightarrow> pull_stat list \<Rightarrow> pull_stat list" where
  "order_pulls sort_by t =
     (if sort_by = ''ip'' then order_desc ps_ips t
      else if sort_by = ''last'' then order_desc ps_last t
      else order_desc ps_pulls t)"

definition getSubAccessStats :: "int \<Rightarrow> nat \<Rightarrow> nat \<Rightarrow> bool \<Rightarrow> string \<Rightarrow> int \<Rightarrow> db \<Rightarrow> nat \<times> pull_stat list" where
  "getSubAccessStats hours limit offset onlyHigh sort_by now d =
     (let groups = group_rows sl_user (filter (\<lambda>r. within_hours hours now (sl_at r)) (d_sub_log d));
          kept = (if onlyHigh
                  then filter (\<lambda>g. 100 < length (snd g) \<or> 8 < count_distinct sl_ip (snd g)) groups
                  else groups)
      in (length kept, page limit offset (order_pulls sort_by (map (pull_stat_of hours d) kept))))"

definition getSubAccessUserDetail ::
  "int \<Rightarrow> int \<Rightarrow> int \<Rightarrow> db \<Rightarrow> ip_stat list \<times> (string \<times> nat) list \<times> (string \<times> string \<times> string) list" where
  "getSubAccessUserDetail uid hours now d =
     (let rows = log_of uid hours now d
      in (getSubAccessIPs uid hours now d,
          take 10 (order_desc snd (map (\<lambda>(ua, g). (ua, length g)) (group_rows sl_ua rows))),
          take 20 (map (\<lambda>r. (sl_at r, sl_ip r, sl_ua r)) (order_desc sl_at rows))))"

section \<open>Statistics of the event stream\<close>

definition allowed :: "sub_event_row \<Rightarrow> bool" where "allowed r \<longleftrightarrow> ev_result r = ''allow''"

definition denied :: "sub_event_row \<Rightarrow> bool" where "denied r \<longleftrightarrow> ev_result r = ''deny''"

definition percent_of :: "nat \<Rightarrow> nat \<Rightarrow> rat" where
  "percent_of part n = (if 0 < n then round_tenth (of_nat (100 * part) / of_nat n) else 0)"

record reason_stat =
  rs_reason :: string
  rs_count :: nat
  rs_last :: string

text \<open>The reasons of refusals, the most frequent first, the most recent first among equals.\<close>

definition deny_reasons :: "sub_event_row list \<Rightarrow> reason_stat list" where
  "deny_reasons rows =
     order_desc rs_count (order_desc rs_last
       (map (\<lambda>(reason, g). \<lparr>rs_reason = reason, rs_count = length g, rs_last = max_text ev_at g\<rparr>)
          (group_rows ev_reason (filter denied rows))))"

record event_overview =
  eo_total :: nat
  eo_allow :: nat
  eo_deny :: nat
  eo_allow_rate :: rat
  eo_deny_rate :: rat
  eo_users :: nat
  eo_denied_users :: nat
  eo_reasons :: "reason_stat list"

definition recent_events :: "int \<Rightarrow> int \<Rightarrow> db \<Rightarrow> sub_event_row list" where
  "recent_events h now d = filter (\<lambda>r. within_hours h now (ev_at r)) (d_sub_events d)"

definition getSubEventOverview :: "string \<Rightarrow> int \<Rightarrow> db \<Rightarrow> event_overview" where
  "getSubEventOverview hours now d =
     (let rows = recent_events (safe_hours hours) now d;
          n = length rows; allow = count_where allowed rows; deny = count_where denied rows
      in \<lparr>eo_total = n, eo_allow = allow, eo_deny = deny,
          eo_allow_rate = percent_of allow n, eo_deny_rate = percent_of deny n,
          eo_users = count_distinct ev_user (filter (\<lambda>r. ev_user r \<noteq> None) rows),
          eo_denied_users = count_distinct ev_user (filter (\<lambda>r. denied r \<and> ev_user r \<noteq> None) rows),
          eo_reasons = take 8 (deny_reasons rows)\<rparr>)"

record event_stat =
  es_user :: int
  es_username :: "string option"
  es_requests :: nat
  es_ok :: nat
  es_deny :: nat
  es_ok_rate :: rat
  es_deny_rate :: rat
  es_ips :: nat
  es_uas :: nat
  es_last :: string
  es_interval :: rat
  es_top_reason :: "string option"
  es_deny_ratio :: rat
  es_risk :: risk

definition event_stat_of :: "int \<Rightarrow> db \<Rightarrow> int \<times> sub_event_row list \<Rightarrow> event_stat" where
  "event_stat_of hours d g =
     (let rows = snd g; n = length rows; ok = count_where allowed rows; deny = count_where denied rows;
          ips = count_distinct ev_ip rows;
          uas = count_distinct ev_ua (filter (\<lambda>r. ev_ua r \<noteq> []) rows)
      in \<lparr>es_user = fst g, es_username = map_option u_username (user_by_id d (fst g)),
          es_requests = n, es_ok = ok, es_deny = deny,
          es_ok_rate = round_tenth (of_nat (100 * ok) / of_nat (max n 1)),
          es_deny_rate = round_tenth (of_nat (100 * deny) / of_nat (max n 1)),
          es_ips = ips, es_uas = uas, es_last = max_text ev_at rows,
          es_interval = round_tenth (of_int (hours * 3600) / of_nat (max n 1)),
          es_top_reason = (case deny_reasons rows of [] \<Rightarrow> None | r # _ \<Rightarrow> Some (rs_reason r)),
          es_deny_ratio = (if 0 < n then round_hundredth (of_nat (100 * deny) / of_nat n) else 0),
          es_risk = buildRiskLevel n deny ips uas\<rparr>)"

definition order_events :: "string \<Rightarrow> event_stat list \<Rightarrow> event_stat list" where
  "order_events sort_by t =
     (if sort_by = ''success'' then order_desc es_ok t
      else if sort_by = ''deny'' then order_desc es_deny t
      else if sort_by = ''ip'' then order_desc es_ips t
      else if sort_by = ''ua'' then order_desc es_uas t
      else if sort_by = ''last'' then order_desc es_last t
      else if sort_by = ''ok_rate'' then order_desc es_ok_rate t
      else order_desc es_requests t)"

definition high_group :: "sub_event_row list \<Rightarrow> bool" where
  "high_group g \<longleftrightarrow> 150 \<le> length g \<or> 8 \<le> count_distinct ev_ip g \<or> 20 \<le> count_where denied g"

definition event_groups :: "int \<Rightarrow> int \<Rightarrow> db \<Rightarrow> (int \<times> sub_event_row list) list" where
  "event_groups h now d =
     group_rows (\<lambda>r. the (ev_user r)) (filter (\<lambda>r. ev_user r \<noteq> None) (recent_events h now d))"

definition getSubAccessStatsV2 ::
  "string \<Rightarrow> string \<Rightarrow> string \<Rightarrow> bool \<Rightarrow> string \<Rightarrow> int \<Rightarrow> db \<Rightarrow> nat \<times> event_stat list \<times> event_overview" where
  "getSubAccessStatsV2 hours limit offset onlyHigh sort_by now d =
     (let h = safe_hours hours;
          l = nat (toPosInt limit 20 1 (Some 200));
          off = nat (toPosInt offset 0 0 (Some 1000000));
          kept = filter (\<lambda>g. onlyHigh \<longrightarrow> high_group (snd g)) (event_groups h now d)
      in (length kept, page l off (order_events sort_by (map (event_stat_of h d) kept)),
          getSubEventOverview (show_int h) now d))"

record outcome_stat =
  os_key :: string
  os_count :: nat
  os_ok :: nat
  os_deny :: nat
  os_last :: string

definition outcome_stats :: "(sub_event_row \<Rightarrow> string) \<Rightarrow> sub_event_row list \<Rightarrow> outcome_stat list" where
  "outcome_stats key rows =
     map (\<lambda>(k, g). \<lparr>os_key = k, os_count = length g, os_ok = count_where allowed g,
                    os_deny = count_where denied g, os_last = max_text ev_at g\<rparr>) (group_rows key rows)"

record event_summary =
  sm_requests :: nat
  sm_ok :: nat
  sm_deny :: nat
  sm_ips :: nat
  sm_uas :: nat
  sm_last :: "string option"
  sm_ok_rate :: rat
  sm_deny_rate :: rat
  sm_risk :: risk

record user_detail =
  ud_summary :: "event_summary option"
  ud_ips :: "outcome_stat list"
  ud_uas :: "outcome_stat list"
  ud_reasons :: "reason_stat list"
  ud_routes :: "outcome_stat list"
  ud_timeline :: "sub_event_row list"

definition getSubAccessUserDetailV2 :: "string \<Rightarrow> string \<Rightarrow> int \<Rightarrow> db \<Rightarrow> user_detail" where
  "getSubAccessUserDetailV2 userId hours now d =
     (let uid = toPosInt userId 0 1 None
      in if uid = 0 then \<lparr>ud_summary = None, ud_ips = [], ud_uas = [], ud_reasons = [], ud_routes = [], ud_timeline = []\<rparr>
         else
           (let rows = filter (\<lambda>r. ev_user r = Some uid) (recent_events (safe_hours hours) now d);
                n = length rows; ok = count_where allowed rows; deny = count_where denied rows;
                ips = count_distinct ev_ip rows;
                uas = count_distinct ev_ua (filter (\<lambda>r. ev_ua r \<noteq> []) rows)
            in \<lparr>ud_summary = Some \<lparr>sm_requests = n, sm_ok = ok, sm_deny = deny, sm_ips = ips, sm_uas = uas,
                   sm_last = (if rows = [] then None else Some (max_text ev_at rows)),
                   sm_ok_rate = percent_of ok n, sm_deny_rate = percent_of deny n,
                   sm_risk = buildRiskLevel n deny ips uas\<rparr>,
                ud_ips = take 30 (order_desc os_count (order_desc os_last (outcome_stats ev_ip rows))),
                ud_uas = take 15 (order_desc os_count (outcome_stats ev_ua rows)),
                ud_reasons = take 15 (deny_reasons rows),
                ud_routes = order_desc os_count (outcome_stats ev_route rows),
                ud_timeline = take 50 (order_desc ev_at rows)\<rparr>))"

end
