(* ===== verification/Middleware.thy ===== *)
theory Middleware
  imports UserRepo NetUtils SubAccess
begin

text \<open>
  What every request passes through (\<open>src/middleware/\<close>): the session, the sign-in checks with
  the throttled note of the last activity, the token against forged requests, the key of the
  operations interface, the rate limiters' keys and the error answers. \<open>sha\<close> is the platform's
  hash. The error texts are fixed sentences; the model names them.
\<close>

section \<open>The session (auth.js)\<close>

record session =
  ss_user :: "int option"
  ss_csrf :: "string option"

text \<open>What the middleware attaches to a request; a destroyed session is gone.\<close>

record auth_req =
  ar_session :: "session option"
  ar_user :: "user option"
  ar_authenticated :: bool

definition setupAuth :: "session \<Rightarrow> db \<Rightarrow> auth_req" where
  "setupAuth s d =
     (case ss_user s of
        None \<Rightarrow> \<lparr>ar_session = Some s, ar_user = None, ar_authenticated = False\<rparr>
      | Some uid \<Rightarrow>
          if uid = 0 then \<lparr>ar_session = Some s, ar_user = None, ar_authenticated = False\<rparr>
          else (case getUserById uid d of
                  Some u \<Rightarrow> \<lparr>ar_session = Some s, ar_user = Some u, ar_authenticated = True\<rparr>
                | None \<Rightarrow> \<lparr>ar_session = Some (s\<lparr>ss_user := None\<rparr>), ar_user = None, ar_authenticated = False\<rparr>))"

text \<open>Signing in continues in the new session \<open>fresh\<close> of the session store, \<open>None\<close> when that fails.\<close>

definition logIn :: "session option \<Rightarrow> user \<Rightarrow> auth_req \<Rightarrow> auth_req" where
  "logIn fresh u r =
     (case fresh of
        None \<Rightarrow> r
      | Some s \<Rightarrow> \<lparr>ar_session = Some (s\<lparr>ss_user := Some (u_id u)\<rparr>), ar_user = Some u, ar_authenticated = True\<rparr>)"

definition logout :: "auth_req \<Rightarrow> auth_req" where
  "logout r = \<lparr>ar_session = None, ar_user = None, ar_authenticated = False\<rparr>"

section \<open>Sign-in checks (auth.js)\<close>

definition LAST_ACTIVE_CACHE_TTL_MS :: int where "LAST_ACTIVE_CACHE_TTL_MS = 30 * 60 * 1000"

definition LAST_ACTIVE_CACHE_MAX_ENTRIES :: nat where "LAST_ACTIVE_CACHE_MAX_ENTRIES = 50000"

record activity =
  ac_cache :: "(int, int) js_map"
  ac_last_cleanup :: int

definition cleanupLastActiveCache :: "int \<Rightarrow> activity \<Rightarrow> activity" where
  "cleanupLastActiveCache now a =
     (if now - ac_last_cleanup a < 60000 then a
      else \<lparr>ac_cache = evict (\<lambda>t. t) LAST_ACTIVE_CACHE_MAX_ENTRIES
              (filter (\<lambda>e. \<not> LAST_ACTIVE_CACHE_TTL_MS < now - snd e) (ac_cache a)),
            ac_last_cleanup = now\<rparr>)"

datatype gate = Proceed | ToLogin | Refuse int string

definition requireAuth :: "auth_req \<Rightarrow> int \<Rightarrow> activity \<times> db \<Rightarrow> gate \<times> activity \<times> db" where
  "requireAuth r now st =
     (case ar_user r of
        None \<Rightarrow> (ToLogin, st)
      | Some u \<Rightarrow>
          if ar_authenticated r \<and> \<not> u_is_blocked u then
            (let uid = u_id u; a = cleanupLastActiveCache now (fst st);
                 last = (case map_of (ac_cache a) uid of None \<Rightarrow> 0 | Some t \<Rightarrow> t)
             in if 5 * 60 * 1000 < now - last
                then (Proceed, a\<lparr>ac_cache := AList.update uid now (ac_cache a)\<rparr>,
                      update_user uid (\<lambda>v. v\<lparr>u_last_login := Some (toSqlUtc now)\<rparr>) (snd st))
                else (Proceed, a, snd st))
          else (ToLogin, st))"

definition requireAdmin :: "auth_req \<Rightarrow> gate" where
  "requireAdmin r =
     (case ar_user r of
        Some u \<Rightarrow> if ar_authenticated r \<and> \<not> u_is_blocked u \<and> u_is_admin u then Proceed else Refuse 403 ''admin required''
      | None \<Rightarrow> Refuse 403 ''admin required'')"

section \<open>Forged requests (csrf.js)\<close>

text \<open>The session's token, drawn when there is none yet.\<close>

definition generateToken :: "string \<Rightarrow> session \<Rightarrow> string \<times> session" where
  "generateToken random s =
     (if truthy (ss_csrf s) then (the (ss_csrf s), s) else (random, s\<lparr>ss_csrf := Some random\<rparr>))"

definition csrfProtection ::
  "(string \<Rightarrow> string) \<Rightarrow> string \<Rightarrow> bool \<Rightarrow> string option \<Rightarrow> string option \<Rightarrow> session \<Rightarrow> gate" where
  "csrfProtection sha meth isJson header body s =
     (if meth \<in> {''GET'', ''HEAD'', ''OPTIONS''} then Proceed
      else if isJson then
        (if truthy header \<and> truthy (ss_csrf s) \<and> safeTokenEqual sha (the header) (the (ss_csrf s))
         then Proceed else Refuse 403 ''csrf failed'')
      else if \<not> truthy (ss_csrf s) then Refuse 403 ''csrf session''
      else
        (let token = (if truthy body then body else header)
         in if \<not> truthy token \<or> \<not> safeTokenEqual sha (the token) (the (ss_csrf s))
            then Refuse 403 ''csrf token'' else Proceed))"

definition csrfLocals :: "string \<Rightarrow> session \<Rightarrow> string \<times> session" where
  "csrfLocals random s = generateToken random s"

section \<open>The operations interface (opsAuth.js)\<close>

definition opsAuth :: "(string \<Rightarrow> string) \<Rightarrow> string option \<Rightarrow> string option \<Rightarrow> gate" where
  "opsAuth sha key authorization =
     (if \<not> truthy key then Refuse 503 ''unavailable''
      else case authorization of
             None \<Rightarrow> Refuse 401 ''unauthorized''
           | Some auth \<Rightarrow>
               if auth = [] \<or> \<not> js_starts ''Bearer '' auth then Refuse 401 ''unauthorized''
               else (let token = js_trim (drop 7 auth)
                     in if token = [] \<or> \<not> safeTokenEqual sha token (the key)
                        then Refuse 401 ''unauthorized'' else Proceed))"

section \<open>Errors (errorHandler.js)\<close>

definition normalizeHttpStatus :: "string \<Rightarrow> int" where
  "normalizeHttpStatus raw =
     (case js_parse_int raw of None \<Rightarrow> 500 | Some n \<Rightarrow> if n < 400 \<or> 599 < n then 500 else n)"

datatype error_text = ServerError | RequestFailed | ErrorText string

datatype error_reply =
    PassedOn
  | JsonError int error_text string
  | ErrorPage int "error_text option"
  | PlainErrorPage int bool error_text

definition is_api :: "string \<Rightarrow> string option \<Rightarrow> bool" where
  "is_api path accept \<longleftrightarrow>
     js_starts ''/admin/api'' path \<or> (case accept of None \<Rightarrow> False | Some a \<Rightarrow> js_includes ''json'' a)"

definition notFoundHandler :: "string \<Rightarrow> string option \<Rightarrow> error_reply" where
  "notFoundHandler path accept =
     (if is_api path accept then JsonError 404 (ErrorText ''not found'') ''NOT_FOUND'' else ErrorPage 404 None)"

record js_error =
  er_status :: "string option"
  er_status_code :: "string option"
  er_message :: string
  er_code :: "string option"

text \<open>\<open>views\<close>: a view engine is set; the plain page says whether its heading is "not found".\<close>

definition errorHandler :: "bool \<Rightarrow> bool \<Rightarrow> string \<Rightarrow> string option \<Rightarrow> js_error \<Rightarrow> error_reply" where
  "errorHandler sent views path accept e =
     (if sent then PassedOn
      else
        (let status = normalizeHttpStatus
               (case er_status e of Some s \<Rightarrow> s
                | None \<Rightarrow> (case er_status_code e of Some s \<Rightarrow> s | None \<Rightarrow> ''500''));
             msg = (if status = 500 then ServerError
                    else if er_message e = [] then RequestFailed else ErrorText (er_message e))
         in if is_api path accept then JsonError status msg (or_else (er_code e) ''INTERNAL_ERROR'')
            else if views then ErrorPage status (Some msg)
            else PlainErrorPage status (status = 404) msg))"

section \<open>Rate limits (rateLimit.js)\<close>

text \<open>The keys under which the limiters of the games and of the signed-in interface count.\<close>

definition tg_id_text :: "string \<Rightarrow> bool" where
  "tg_id_text s \<longleftrightarrow> s \<noteq> [] \<and> length s \<le> 20 \<and> list_all is_digit s"

text \<open>The column is an integer: the comparison takes the number of the text.\<close>

definition same_tg_id :: "string \<Rightarrow> string option \<Rightarrow> bool" where
  "same_tg_id raw stored \<longleftrightarrow>
     (case stored of None \<Rightarrow> False | Some t \<Rightarrow> tg_id_text t \<and> digits_val t = digits_val raw)"

definition game_limit_key :: "string \<Rightarrow> string \<Rightarrow> db \<Rightarrow> string" where
  "game_limit_key ip tgUserId d =
     (let ipKey = ''ip:'' @ ip; raw = js_trim tgUserId
      in if \<not> tg_id_text raw then ipKey
         else if list_ex (\<lambda>u. same_tg_id raw (u_telegram_id u)) (d_users d) then ipKey @ ''|tg:'' @ raw
         else ipKey)"

definition user_limit_key :: "string \<Rightarrow> user option \<Rightarrow> string" where
  "user_limit_key ip u =
     (case u of
        Some v \<Rightarrow> if u_id v \<noteq> 0 then ''user:'' @ show_int (u_id v) else ''ip:'' @ ip
      | None \<Rightarrow> ''ip:'' @ ip)"

text \<open>A subscription request over the limit is logged; a failure to log is ignored.\<close>

definition logSubRateLimited :: "string \<Rightarrow> string \<Rightarrow> string \<Rightarrow> string \<Rightarrow> int \<Rightarrow> db \<Rightarrow> db" where
  "logSubRateLimited token path ip ua now d =
     (let u = (if token = [] then None else getUserBySubToken token d);
          route = (if js_includes ''/sub6/'' path then ''sub6''
                   else if js_includes ''/subhy2/'' path then ''subhy2'' else ''sub'')
      in case logSubAccessEvent
              \<lparr>ei_user = map_option u_id u, ei_token = take 8 token, ei_route = route, ei_result = ''deny'',
               ei_reason = ''ip_rate_limited'', ei_ip = ip, ei_ua = ua, ei_client = [], ei_status = Some 429\<rparr> now d of
           Some d' \<Rightarrow> d' | None \<Rightarrow> d)"

end
