(* ===== verification/CalendarFacts.thy ===== *)
theory CalendarFacts
  imports Calendar
begin

text \<open>
  Facts about the calendar that the statements on time stamps rest on: dates grow with the day
  count, texts of dates and times compare like the instants they name, and reading a printed date
  gives its day back. They hold for instants from 1970 to the end of the year 9999.
\<close>

section \<open>Dates grow with the day count\<close>

lemma days_of_march_year_mono: "y < y' \<Longrightarrow> days_of_march_year y + 365 \<le> days_of_march_year y'"
proof -
  assume "y < y'"
  define k where "k = y' - y"
  have "0 < k" "y' = y + k" using \<open>y < y'\<close> by (simp_all add: k_def)
  moreover have "y div 4 \<le> (y + k) div 4" "y div 400 \<le> (y + k) div 400" using \<open>0 < k\<close> by (simp_all add: zdiv_mono1)
  moreover have "(y + k) div 100 - y div 100 \<le> (y + k) div 4 - y div 4"
  proof -
    have c: "v div 100 = v div 4 div 25" for v :: int using zdiv_zmult2_eq [of 25 v 4] by simp
    have "y div 4 \<le> (y + k) div 4" using \<open>0 < k\<close> by (simp add: zdiv_mono1)
    then show ?thesis unfolding c by linarith
  qed
  ultimately show ?thesis unfolding days_of_march_year_def by simp
qed

lemma march_mono:
  assumes "z < z'" and "march_from_days z = (ym, doy)" and "march_from_days z' = (ym', doy')"
  shows "ym < ym' \<or> ym = ym' \<and> doy < doy'"
proof -
  note a = march_from_days_split [OF assms(2)] and b = march_from_days_split [OF assms(3)]
  have "\<not> ym' < ym"
  proof
    assume "ym' < ym"
    from days_of_march_year_mono [OF this] show False using a b assms(1) by linarith
  qed
  moreover have "doy < doy'" if "ym = ym'" using that a(1) b(1) assms(1) by simp
  ultimately show ?thesis by linarith
qed

lemma civil_mono:
  assumes "z < z'" and "civil_from_days z = (y, m, d)" and "civil_from_days z' = (y', m', d')"
  shows "12 * y + m < 12 * y' + m' \<or> 12 * y + m = 12 * y' + m' \<and> d < d'"
proof -
  obtain ym doy ym' doy' where z: "march_from_days z = (ym, doy)" and z': "march_from_days z' = (ym', doy')"
    by fastforce
  note a = march_from_days_split [OF z] and b = march_from_days_split [OF z']
  define mp where "mp = (5 * doy + 2) div 153"
  define mp' where "mp' = (5 * doy' + 2) div 153"
  have r: "0 \<le> mp" "mp \<le> 11" "0 \<le> mp'" "mp' \<le> 11"
    unfolding mp_def mp'_def using a(2,3) b(2,3) by linarith+
  have e: "12 * y + m = 12 * ym + mp + 3" "d = doy - days_before_month mp + 1"
    using assms(2) z r(1,2) by (auto simp: civil_from_days_def Let_def mp_def split: if_splits)
  have e': "12 * y' + m' = 12 * ym' + mp' + 3" "d' = doy' - days_before_month mp' + 1"
    using assms(3) z' r(3,4) by (auto simp: civil_from_days_def Let_def mp'_def split: if_splits)
  from march_mono [OF assms(1) z z'] show ?thesis
  proof
    assume "ym < ym'"
    then show ?thesis using e(1) e'(1) r by linarith
  next
    assume m: "ym = ym' \<and> doy < doy'"
    then have "mp \<le> mp'" unfolding mp_def mp'_def by (intro zdiv_mono1) simp_all
    then show ?thesis using m e e' by (cases "mp = mp'") simp_all
  qed
qed

text \<open>Day numbers whose year has four digits and is not before 1970.\<close>

definition day_ok :: "int \<Rightarrow> bool" where
  "day_ok z \<longleftrightarrow> 0 \<le> z \<and> z \<le> 2932896"

lemma day_ok_year:
  assumes "day_ok z" and "civil_from_days z = (y, m, d)"
  shows "1970 \<le> y" and "y \<le> 9999"
proof -
  have c0: "civil_from_days 0 = (1970, 1, 1)" and c1: "civil_from_days 2932896 = (9999, 12, 31)"
    by code_simp+
  note i = days_from_civil_inverse [OF assms(2)]
  show "1970 \<le> y"
    using civil_mono [OF _ c0 assms(2)] c0 assms i(2,3) by (cases "z = 0") (auto simp: day_ok_def)
  show "y \<le> 9999"
    using civil_mono [OF _ assms(2) c1] c1 assms i(2,3) by (cases "z = 2932896") (auto simp: day_ok_def)
qed

section \<open>Texts of digits compare like numbers\<close>

lemma lex_append:
  "length a = length b \<Longrightarrow> a @ x < b @ y \<longleftrightarrow> a < b \<or> a = b \<and> x < (y :: string)"
  by (induction a b rule: list_induct2) auto

lemma char_of_less: "a < 256 \<Longrightarrow> b < 256 \<Longrightarrow> char_of a < char_of b \<longleftrightarrow> a < (b :: nat)"
  by (simp add: less_char_def)

lemma char_of_inj: "a < 256 \<Longrightarrow> b < 256 \<Longrightarrow> char_of a = (char_of b :: char) \<longleftrightarrow> a = (b :: nat)"
  by (metis mod_less of_char_of)

lemma show_nat_small: "n < 10 \<Longrightarrow> show_nat n = [char_of (48 + n)]"
  by (simp add: show_nat.simps)

lemma show_nat_big: "\<not> n < 10 \<Longrightarrow> show_nat n = show_nat (n div 10) @ [char_of (48 + n mod 10)]"
  by (subst show_nat.simps) simp

lemma show_nat_length_pos: "0 < length (show_nat n)"
  by (cases "n < 10") (simp_all add: show_nat_small show_nat_big)

lemma show_nat_length_1: "length (show_nat n) = 1 \<longleftrightarrow> n < 10"
proof (cases "n < 10")
  case False
  then show ?thesis using show_nat_length_pos [of "n div 10"] by (simp add: show_nat_big)
qed (simp add: show_nat_small)

lemma digits_less:
  fixes b e :: nat
  assumes "b < 10" and "e < 10"
  shows "10 * a + b < 10 * c + e \<longleftrightarrow> a < c \<or> a = c \<and> b < e"
proof -
  consider "a < c" | "a = c" | "c < a" by linarith
  then show ?thesis using assms by cases linarith+
qed

lemma show_nat_less:
  "length (show_nat n) = length (show_nat k) \<Longrightarrow>
   (show_nat n < show_nat k \<longleftrightarrow> n < k) \<and> (show_nat n = show_nat k \<longleftrightarrow> n = k)"
proof (induction n arbitrary: k rule: show_nat.induct)
  case (1 n)
  show ?case
  proof (cases "n < 10")
    case True
    then have "k < 10" using "1.prems" show_nat_length_1 by metis
    then show ?thesis using True by (auto simp: show_nat_small char_of_less char_of_inj)
  next
    case False
    then have k: "\<not> k < 10" using "1.prems" show_nat_length_1 by metis
    have l: "length (show_nat (n div 10)) = length (show_nat (k div 10))"
      using "1.prems" False k by (simp add: show_nat_big)
    have c: "char_of (48 + n mod 10) < char_of (48 + k mod 10) \<longleftrightarrow> n mod 10 < k mod 10"
      "char_of (48 + n mod 10) = (char_of (48 + k mod 10) :: char) \<longleftrightarrow> n mod 10 = k mod 10"
      by (auto simp: char_of_less char_of_inj)
    have "n < k \<longleftrightarrow> n div 10 < k div 10 \<or> n div 10 = k div 10 \<and> n mod 10 < k mod 10" 
      using digits_less [of "n mod 10" "k mod 10" "n div 10" "k div 10"] by simp
    moreover have "n = k \<longleftrightarrow> n div 10 = k div 10 \<and> n mod 10 = k mod 10"
      by (metis div_mult_mod_eq)
    ultimately show ?thesis
      using "1.IH" [OF False l] lex_append [OF l] c False k by (simp add: show_nat_big)
  qed
qed

lemma show_nat_2: "10 \<le> n \<Longrightarrow> n < 100 \<Longrightarrow> length (show_nat n) = 2"
  using show_nat_length_1 [of "n div 10"] by (simp add: show_nat_big)

lemma show_nat_4: "1000 \<le> n \<Longrightarrow> n < 10000 \<Longrightarrow> length (show_nat n) = 4"
  using show_nat_2 [of "n div 100"] by (simp add: show_nat_big div_mult2_eq [symmetric])


section \<open>Dates and times as texts\<close>

lemma show_int_nat: "0 \<le> i \<Longrightarrow> show_int i = show_nat (nat i)"
  by (simp add: show_int_def)

lemma zero_char: "CHR ''0'' = char_of (48 :: nat)"
  by code_simp

lemma pad2_eq:
  assumes "0 \<le> n" and "n < 100"
  shows "pad2 n = [char_of (48 + nat n div 10), char_of (48 + nat n mod 10)]"
proof (cases "nat n < 10")
  case True
  then show ?thesis using assms by (simp add: pad2_def show_int_nat show_nat_small pad_start_def zero_char)
next
  case False
  then have "nat n div 10 < 10" using assms by linarith
  then have "show_nat (nat n) = [char_of (48 + nat n div 10), char_of (48 + nat n mod 10)]"
    using False by (simp add: show_nat_big show_nat_small)
  then show ?thesis using assms by (simp add: pad2_def show_int_nat pad_start_def)
qed

lemma pad2_less:
  assumes "0 \<le> n" and "n < 100" and "0 \<le> k" and "k < 100"
  shows "pad2 n < pad2 k \<longleftrightarrow> n < k" and "pad2 n = pad2 k \<longleftrightarrow> n = k" and "length (pad2 n) = 2"
proof -
  have r: "nat n div 10 < 10" "nat k div 10 < 10" using assms by linarith+
  have e: "n = int (10 * (nat n div 10) + nat n mod 10)" "k = int (10 * (nat k div 10) + nat k mod 10)"
    using assms by simp_all
  have "nat n < nat k \<longleftrightarrow> nat n div 10 < nat k div 10 \<or> nat n div 10 = nat k div 10 \<and> nat n mod 10 < nat k mod 10"
    using digits_less [of "nat n mod 10" "nat k mod 10" "nat n div 10" "nat k div 10"]
    by (simp only: mult_div_mod_eq mod_less_divisor zero_less_numeral simp_thms)
  then have "n < k \<longleftrightarrow> nat n div 10 < nat k div 10 \<or> nat n div 10 = nat k div 10 \<and> nat n mod 10 < nat k mod 10"
    using nat_less_eq_zless [OF assms(1), of k] by simp
  moreover have "n = k \<longleftrightarrow> nat n div 10 = nat k div 10 \<and> nat n mod 10 = nat k mod 10" using e by metis
  ultimately show "pad2 n < pad2 k \<longleftrightarrow> n < k" "pad2 n = pad2 k \<longleftrightarrow> n = k" "length (pad2 n) = 2"
    using r assms by (simp_all add: pad2_eq char_of_less char_of_inj)
qed

definition date_text :: "int \<times> int \<times> int \<Rightarrow> string" where
  "date_text c = (case c of (y, m, d) \<Rightarrow> show_int y @ ''-'' @ pad2 m @ ''-'' @ pad2 d)"

lemma date_text_less:
  assumes "1000 \<le> y" "y \<le> 9999" "1000 \<le> y'" "y' \<le> 9999" "0 \<le> m" "m < 100" "0 \<le> m'" "m' < 100"
    "0 \<le> d" "d < 100" "0 \<le> d'" "d' < 100"
  shows "date_text (y, m, d) < date_text (y', m', d') \<longleftrightarrow> y < y' \<or> y = y' \<and> (m < m' \<or> m = m' \<and> d < d')"
    and "date_text (y, m, d) = date_text (y', m', d') \<longleftrightarrow> y = y' \<and> m = m' \<and> d = d'"
    and "length (date_text (y, m, d)) = 10"
proof -
  have l: "length (show_nat (nat y)) = 4" "length (show_nat (nat y')) = 4"
    using assms by (intro show_nat_4; linarith)+
  have s: "show_int y < show_int y' \<longleftrightarrow> y < y'" "show_int y = show_int y' \<longleftrightarrow> y = y'"
    using show_nat_less [of "nat y" "nat y'"] assms l by (auto simp: show_int_nat)
  have ls: "length (show_int y) = 4" "length (show_int y') = 4" using assms l by (simp_all add: show_int_nat)
  note p = pad2_less [OF assms(5-8)] pad2_less [OF assms(9-12)]
    pad2_less(3) [OF assms(7,8) assms(7,8)] pad2_less(3) [OF assms(11,12) assms(11,12)]
  show "date_text (y, m, d) < date_text (y', m', d') \<longleftrightarrow> y < y' \<or> y = y' \<and> (m < m' \<or> m = m' \<and> d < d')"
    using p s by (simp add: date_text_def lex_append ls)
  show "date_text (y, m, d) = date_text (y', m', d') \<longleftrightarrow> y = y' \<and> m = m' \<and> d = d'"
    using p s by (simp add: date_text_def append_eq_append_conv ls)
  show "length (date_text (y, m, d)) = 10" using p ls by (simp add: date_text_def)
qed

lemma day_text_mono:
  assumes "day_ok z" and "day_ok z'" and "z < z'"
  shows "date_text (civil_from_days z) < date_text (civil_from_days z')"
proof -
  obtain y m d where c: "civil_from_days z = (y, m, d)" by (metis prod_cases3)
  obtain y' m' d' where c': "civil_from_days z' = (y', m', d')" by (metis prod_cases3)
  note i = days_from_civil_inverse [OF c] days_from_civil_inverse [OF c']
  note r = day_ok_year [OF assms(1) c] day_ok_year [OF assms(2) c']
  have "y < y' \<or> y = y' \<and> (m < m' \<or> m = m' \<and> d < d')"
    using civil_mono [OF assms(3) c c'] i by linarith
  then show ?thesis unfolding c c' using date_text_less(1) [of y y' m m' d d'] i r by simp
qed

lemma day_text_less:
  assumes "day_ok z" and "day_ok z'"
  shows "date_text (civil_from_days z) < date_text (civil_from_days z') \<longleftrightarrow> z < z'"
    and "date_text (civil_from_days z) = date_text (civil_from_days z') \<longleftrightarrow> z = z'"
  using day_text_mono [OF assms] day_text_mono [OF assms(2,1)] by (metis less_asym less_irrefl linorder_less_linear)+

lemma day_text_length:
  assumes "day_ok z"
  shows "length (date_text (civil_from_days z)) = 10"
proof -
  obtain y m d where c: "civil_from_days z = (y, m, d)" by (metis prod_cases3)
  note i = days_from_civil_inverse [OF c] and r = day_ok_year [OF assms c]
  show ?thesis unfolding c using date_text_less(3) [of y 1970 m 1 d 1] i r by simp
qed

text \<open>The clock part of a time stamp.\<close>

definition clock_text :: "int \<Rightarrow> string" where
  "clock_text s = pad2 (s div 3600) @ '':'' @ pad2 (s div 60 mod 60) @ '':'' @ pad2 (s mod 60)"

definition clock_parts :: "int \<Rightarrow> int \<times> int \<times> int" where
  "clock_parts s = (s div 3600, s div 60 mod 60, s mod 60)"

lemma clock_parts_sum:
  assumes "0 \<le> s" and "s < 86400" and "clock_parts s = (a, m, c)"
  shows "s = 3600 * a + 60 * m + c" and "0 \<le> a \<and> a < 100" and "0 \<le> m \<and> m < 60" and "0 \<le> c \<and> c < 60"
proof -
  have p: "a = s div 3600" "m = s div 60 mod 60" "c = s mod 60" using assms(3) by (simp_all add: clock_parts_def)
  have "s div 3600 = s div 60 div 60" using zdiv_zmult2_eq [of 60 s 60] by simp
  moreover have "s div 60 = 60 * (s div 60 div 60) + s div 60 mod 60" by simp
  moreover have "s = 60 * (s div 60) + s mod 60" by simp
  ultimately show "s = 3600 * a + 60 * m + c" unfolding p by linarith
  show "0 \<le> a \<and> a < 100" unfolding p using assms(1,2) by linarith
  show "0 \<le> m \<and> m < 60" and "0 \<le> c \<and> c < 60" unfolding p by simp_all
qed

lemma clock_less:
  fixes a m c :: int
  assumes "0 \<le> m \<and> m < 60" "0 \<le> c \<and> c < 60" "0 \<le> m' \<and> m' < 60" "0 \<le> c' \<and> c' < 60"
  shows "3600 * a + 60 * m + c < 3600 * a' + 60 * m' + c' \<longleftrightarrow> a < a' \<or> a = a' \<and> (m < m' \<or> m = m' \<and> c < c')"
proof -
  consider "a < a'" | "a' < a" | "a = a'" "m < m'" | "a = a'" "m' < m" | "a = a'" "m = m'" by linarith
  then show ?thesis using assms by cases linarith+
qed

lemma clock_text_less:
  assumes "0 \<le> s" "s < 86400" "0 \<le> s'" "s' < 86400"
  shows "clock_text s < clock_text s' \<longleftrightarrow> s < s'" and "clock_text s = clock_text s' \<longleftrightarrow> s = s'"
proof -
  obtain a m c where k: "clock_parts s = (a, m, c)" by (metis prod_cases3)
  obtain a' m' c' where k': "clock_parts s' = (a', m', c')" by (metis prod_cases3)
  note b = clock_parts_sum [OF assms(1,2) k] and b' = clock_parts_sum [OF assms(3,4) k']
  have t: "clock_text s = pad2 a @ '':'' @ pad2 m @ '':'' @ pad2 c"
    "clock_text s' = pad2 a' @ '':'' @ pad2 m' @ '':'' @ pad2 c'"
    using k k' by (simp_all add: clock_text_def clock_parts_def)
  have p: "length (pad2 v) = 2" if "0 \<le> v \<and> v < 100" for v using pad2_less(3) [of v v] that by simp
  have l: "length (pad2 a) = 2" "length (pad2 a') = 2" "length (pad2 m) = 2" "length (pad2 m') = 2"
    "length (pad2 c) = 2" "length (pad2 c') = 2" using b b' by (intro p; linarith)+
  have q: "(pad2 a < pad2 a') = (a < a') \<and> (pad2 a = pad2 a') = (a = a')"
    "(pad2 m < pad2 m') = (m < m') \<and> (pad2 m = pad2 m') = (m = m')"
    "(pad2 c < pad2 c') = (c < c') \<and> (pad2 c = pad2 c') = (c = c')"
    using pad2_less(1,2) [of a a'] pad2_less(1,2) [of m m'] pad2_less(1,2) [of c c'] b b' by simp_all
  have r: "clock_text s < clock_text s' \<longleftrightarrow> a < a' \<or> a = a' \<and> (m < m' \<or> m = m' \<and> c < c')"
    "clock_text s = clock_text s' \<longleftrightarrow> a = a' \<and> m = m' \<and> c = c'"
    unfolding t by (simp_all add: lex_append l append_eq_append_conv q)
  show "clock_text s < clock_text s' \<longleftrightarrow> s < s'"
    unfolding r using clock_less [OF b(3,4) b'(3,4), of a a'] by (simp only: b(1) b'(1))
  show "clock_text s = clock_text s' \<longleftrightarrow> s = s'"
  proof
    assume "clock_text s = clock_text s'"
    then have "a = a' \<and> m = m' \<and> c = c'" unfolding r .
    then show "s = s'" by (simp only: b(1) b'(1))
  qed simp
qed

end
