(* ===== verification/CalendarProps.thy ===== *)
theory CalendarProps
  imports CalendarFacts
begin

text \<open>
  The properties of the calendar: time stamps compare as texts like the instants they name, dates
  can be read back, and the week of the games runs from Monday to Sunday in local time.
\<close>

section \<open>Time stamps compare as texts\<close>

text \<open>Instants from 1970 to the end of the year 9999, with a margin of a day at the end.\<close>

definition instant_ok :: "int \<Rightarrow> bool" where
  "instant_ok t \<longleftrightarrow> 0 \<le> t \<and> t < 253402214400000"

lemma instant_day_ok:
  assumes "instant_ok t"
  shows "day_ok (t div ms_per_day)" and "day_ok (local_day t)"
  using assms unfolding instant_ok_def day_ok_def local_day_def ms_per_day_def shanghai_offset_def by linarith+

lemma toSqlUtc_text:
  "toSqlUtc t = date_text (civil_from_days (t div ms_per_day)) @ '' '' @ clock_text ((t mod ms_per_day) div 1000)"
  by (simp add: toSqlUtc_def date_text_def clock_text_def Let_def split: prod.split)

lemma second_split:
  "t div 1000 = 86400 * (t div ms_per_day) + (t mod ms_per_day) div 1000"
  "0 \<le> (t mod ms_per_day) div 1000" "(t mod ms_per_day) div 1000 < 86400"
proof -
  have m: "ms_per_day = 1000 * 86400" by (simp add: ms_per_day_def)
  have s: "(t mod ms_per_day) div 1000 = t div 1000 mod 86400"
    unfolding m zmod_zmult2_eq [of 86400 t 1000, OF zero_le_numeral] by simp
  show "t div 1000 = 86400 * (t div ms_per_day) + (t mod ms_per_day) div 1000"
    unfolding s unfolding m zdiv_zmult2_eq [of 86400 t 1000, OF zero_le_numeral] by simp
  show "0 \<le> (t mod ms_per_day) div 1000" "(t mod ms_per_day) div 1000 < 86400" unfolding s by simp_all
qed

lemma mixed_radix:
  fixes a b :: int
  assumes "0 \<le> a" "a < 86400" "0 \<le> b" "b < 86400"
  shows "86400 * q + a < 86400 * r + b \<longleftrightarrow> q < r \<or> q = r \<and> a < b"
    and "86400 * q + a = 86400 * r + b \<longleftrightarrow> q = r \<and> a = b"
proof -
  consider "q < r" | "q = r" | "r < q" by linarith
  then show "86400 * q + a < 86400 * r + b \<longleftrightarrow> q < r \<or> q = r \<and> a < b"
    and "86400 * q + a = 86400 * r + b \<longleftrightarrow> q = r \<and> a = b"
    using assms by (cases; linarith)+
qed

lemma stamps_order:
  assumes "instant_ok t" and "instant_ok t'"
  shows "toSqlUtc t < toSqlUtc t' \<longleftrightarrow> t div 1000 < t' div 1000"
    and "toSqlUtc t = toSqlUtc t' \<longleftrightarrow> t div 1000 = t' div 1000"
proof -
  let ?z = "t div ms_per_day" and ?z' = "t' div ms_per_day"
  let ?s = "(t mod ms_per_day) div 1000" and ?s' = "(t' mod ms_per_day) div 1000"
  note ok = instant_day_ok(1) [OF assms(1)] instant_day_ok(1) [OF assms(2)]
  note l = day_text_length [OF ok(1)] day_text_length [OF ok(2)]
  note c = clock_text_less [OF second_split(2,3) second_split(2,3), of t t']
  have "t div 1000 < t' div 1000 \<longleftrightarrow> ?z < ?z' \<or> ?z = ?z' \<and> ?s < ?s'"
    and "t div 1000 = t' div 1000 \<longleftrightarrow> ?z = ?z' \<and> ?s = ?s'"
    using mixed_radix [OF second_split(2,3) [of t] second_split(2,3) [of t'], of ?z ?z']
      second_split(1) [of t] second_split(1) [of t'] by simp_all
  then show "toSqlUtc t < toSqlUtc t' \<longleftrightarrow> t div 1000 < t' div 1000"
    and "toSqlUtc t = toSqlUtc t' \<longleftrightarrow> t div 1000 = t' div 1000"
    using c day_text_less [OF ok] l by (simp_all add: toSqlUtc_text lex_append append_eq_append_conv)
qed

lemma date_keys_order:
  "instant_ok t \<Longrightarrow> instant_ok t' \<Longrightarrow>
   dateKeyInTimeZone t < dateKeyInTimeZone t' \<longleftrightarrow> local_day t < local_day t'"
  using day_text_less(1) [OF instant_day_ok(2) instant_day_ok(2), of t t']
  by (simp add: dateKeyInTimeZone_def date_text_def)

text \<open>The code orders and filters rows by comparing SQL time stamps and date keys as texts; for
  instants of the years 1970 to 9999 that is the order of the seconds, and of the local days.\<close>

theorem timestamps_compare_as_texts:
  assumes "instant_ok t" and "instant_ok t'"
  shows "(toSqlUtc t < toSqlUtc t' \<longleftrightarrow> t div 1000 < t' div 1000) \<and>
    (toSqlUtc t = toSqlUtc t' \<longleftrightarrow> t div 1000 = t' div 1000) \<and>
    (dateKeyInTimeZone t < dateKeyInTimeZone t' \<longleftrightarrow> local_day t < local_day t')"
  using stamps_order [OF assms] date_keys_order [OF assms] by blast

theorem timestamps_compare_as_texts_witness: "toSqlUtc 946684799999 < toSqlUtc 946684800000"
  using timestamps_compare_as_texts [of 946684799999 946684800000] by (simp add: instant_ok_def)

section \<open>Weeks\<close>

lemma digits_val_snoc: "digits_val (ds @ [c]) = 10 * digits_val ds + digit_val c"
  by (simp add: digits_val_def)

lemma digit_of_char: "n < 10 \<Longrightarrow> digit_val (char_of (48 + n)) = int n \<and> is_digit (char_of (48 + n))"
  by (simp add: digit_val_def is_digit_def)

lemma show_nat_value: "digits_val (show_nat n) = int n \<and> list_all is_digit (show_nat n)"
proof (induction n rule: show_nat.induct)
  case (1 n)
  show ?case
  proof (cases "n < 10")
    case True
    then show ?thesis using digit_of_char [of n] by (simp add: show_nat_small digits_val_def)
  next
    case False
    then show ?thesis
      using "1.IH" digit_of_char [of "n mod 10"] by (simp add: show_nat_big digits_val_snoc zdiv_int zmod_int)
  qed
qed

lemma pad2_value:
  assumes "0 \<le> n" and "n < 100"
  shows "digits_val (pad2 n) = n \<and> list_all is_digit (pad2 n)"
proof -
  have "nat n div 10 < 10" using assms by linarith
  then show ?thesis
    using digit_of_char [of "nat n div 10"] digit_of_char [of "nat n mod 10"] assms
    by (simp add: pad2_eq digits_val_def zdiv_int zmod_int)
qed

lemma length_4_cases: "length s = 4 \<Longrightarrow> \<exists>a b c d. s = [a, b, c, d]"
  by (auto simp: eval_nat_numeral length_Suc_conv)

lemma length_2_cases: "length s = 2 \<Longrightarrow> \<exists>a b. s = [a, b]"
  by (auto simp: eval_nat_numeral length_Suc_conv)

lemma is_digits_all: "is_digits s \<longleftrightarrow> list_all is_digit s"
  by (induction s) auto

text \<open>A printed date reads back as its day.\<close>

lemma parse_iso_day_text:
  assumes "day_ok z"
  shows "parse_iso_day (date_text (civil_from_days z)) = Some z"
proof -
  obtain y m d where c: "civil_from_days z = (y, m, d)" by (metis prod_cases3)
  note i = days_from_civil_inverse [OF c] and r = day_ok_year [OF assms c]
  have "length (show_int y) = 4" using show_nat_4 [of "nat y"] r by (simp add: show_int_nat)
  then obtain a1 a2 a3 a4 where ys: "show_int y = [a1, a2, a3, a4]" using length_4_cases by blast
  obtain b1 b2 where ms: "pad2 m = [b1, b2]" using pad2_less(3) [of m m] length_2_cases i by force
  obtain c1 c2 where ds: "pad2 d = [c1, c2]" using pad2_less(3) [of d d] length_2_cases i by force
  have "digits_val (show_int y) = y \<and> list_all is_digit (show_int y)"
    using show_nat_value [of "nat y"] r by (simp add: show_int_nat)
  then have "digits_val [a1, a2, a3, a4] = y" "list_all is_digit [a1, a2, a3, a4]" by (simp_all only: ys)
  moreover have "digits_val [b1, b2] = m" "list_all is_digit [b1, b2]"
    "digits_val [c1, c2] = d" "list_all is_digit [c1, c2]"
    using pad2_value [of m] pad2_value [of d] i unfolding ms ds by simp_all
  ultimately show ?thesis
    using i unfolding c date_text_def by (simp add: ys ms ds parse_iso_day_def is_digits_all)
qed

lemma iso_day_text:
  assumes "day_ok z"
  shows "iso_day z = date_text (civil_from_days z)"
proof -
  obtain y m d where c: "civil_from_days z = (y, m, d)" by (metis prod_cases3)
  note r = day_ok_year [OF assms c]
  have l: "length (show_int y) = 4" using show_nat_4 [of "nat y"] r by (simp add: show_int_nat)
  have "iso_year y = show_int y" using r l by (simp add: iso_year_def pad_start_def)
  then show ?thesis using day_text_length [OF assms] by (simp add: iso_day_def c date_text_def)
qed

text \<open>The day number of the Monday of a day's week.\<close>

definition monday_of :: "int \<Rightarrow> int" where
  "monday_of z = z - (z + 3) mod 7"

lemma weekKey_monday:
  assumes "instant_ok t" and "345600000 \<le> t"
  shows "weekKey t = Some (iso_day (monday_of (local_day t)))" and "day_ok (monday_of (local_day t))"
proof -
  note ok = instant_day_ok [OF assms(1)]
  have "tz_date (getTzDateParts t) = date_text (civil_from_days (local_day t))"
    by (simp add: getTzDateParts_def date_text_def Let_def split: prod.split)
  moreover have "tz_weekday (getTzDateParts t) = weekday_of (local_day t)"
    by (simp add: getTzDateParts_def Let_def split: prod.split)
  moreover have "(weekday_of z + 6) mod 7 = (z + 3) mod 7" for z
    unfolding weekday_of_def by presburger
  ultimately show "weekKey t = Some (iso_day (monday_of (local_day t)))"
    by (simp add: weekKey_def shiftIsoDate_def parse_iso_day_text [OF ok(2)] Let_def monday_of_def)
  have "4 \<le> local_day t" using assms(2) unfolding local_day_def shanghai_offset_def ms_per_day_def by linarith
  moreover have "0 \<le> (local_day t + 3) mod 7" "(local_day t + 3) mod 7 < 7" by simp_all
  ultimately show "day_ok (monday_of (local_day t))"
    using ok(2) unfolding monday_of_def day_ok_def by presburger
qed

text \<open>The week key of an instant is the date of the Monday of its local week; two instants have the
  same key exactly when no Monday starts between them, so the wheel opens again every Monday at
  midnight local time.\<close>

theorem weekKey_is_monday:
  assumes "instant_ok t" and "instant_ok t'" and "345600000 \<le> t" and "345600000 \<le> t'"
  shows "weekKey t = Some (iso_day (monday_of (local_day t))) \<and>
    weekday_of (monday_of (local_day t)) = 1 \<and>
    monday_of (local_day t) \<le> local_day t \<and> local_day t < monday_of (local_day t) + 7 \<and>
    (weekKey t = weekKey t' \<longleftrightarrow> monday_of (local_day t) = monday_of (local_day t'))"
proof -
  note a = weekKey_monday [OF assms(1,3)] and b = weekKey_monday [OF assms(2,4)]
  have w: "weekday_of (monday_of z) = 1" for z unfolding weekday_of_def monday_of_def by presburger
  have m: "monday_of z \<le> z \<and> z < monday_of z + 7" for z unfolding monday_of_def by simp
  show ?thesis
    unfolding a(1) b(1) using w m day_text_less(2) [OF a(2) b(2)]
    by (simp add: iso_day_text [OF a(2)] iso_day_text [OF b(2)])
qed

theorem weekKey_is_monday_witness: "weekKey 1704067200000 = Some (iso_day 19723) \<and> weekday_of 19723 = 1"
  using weekKey_is_monday [of 1704067200000 1704067200000]
  by (simp add: instant_ok_def monday_of_def local_day_def shanghai_offset_def ms_per_day_def)

end
