(* ===== verification/Stamps.thy ===== *)
theory Stamps
  imports CalendarProps
begin

text \<open>
  Reading SQL time stamps back: \<open>new Date(stamp with T and Z)\<close> as \<open>database.js\<close> uses it, and the
  round trips of the stamps the program writes.
\<close>

text \<open>
  A stamp in SQL form is read as UTC; any other text goes to the engine's own parser, the
  parameter \<open>engine\<close> (\<open>None\<close> is NaN).
\<close>

definition stamp_ms :: "(string \<Rightarrow> int option) \<Rightarrow> string \<Rightarrow> int option" where
  "stamp_ms engine s =
     (case match_sql_date s of
        Some (y, mon, d, h, mi, sec) \<Rightarrow>
          if length s = 19 \<and> 1 \<le> mon \<and> mon \<le> 12 \<and> 1 \<le> d \<and> d \<le> 31 \<and> h < 24 \<and> mi < 60 \<and> sec < 60
          then Some (days_from_civil y mon d * ms_per_day + h * 3600000 + mi * 60000 + sec * 1000)
          else engine s
      | None \<Rightarrow> engine s)"

lemma pad2_digits:
  assumes "0 \<le> n" and "n < 100"
  obtains a b where "pad2 n = [a, b]" and "digits_val [a, b] = n" and "is_digit a" and "is_digit b"
proof -
  obtain a b where p: "pad2 n = [a, b]"
    using pad2_less(3) [of n n] assms length_2_cases [of "pad2 n"] by blast
  then show thesis using pad2_value [OF assms] that [of a b] by simp
qed

lemma match_sql_date_text:
  assumes "instant_ok t" and c: "civil_from_days (t div ms_per_day) = (y, m, d)"
    and k: "clock_parts ((t mod ms_per_day) div 1000) = (h, mi, s)"
  shows "match_sql_date (toSqlUtc t) = Some (y, m, d, h, mi, s)" and "length (toSqlUtc t) = 19"
    and "js_trim (toSqlUtc t) = toSqlUtc t"
proof -
  note i = days_from_civil_inverse [OF c] and r = day_ok_year [OF instant_day_ok(1) [OF assms(1)] c]
  note b = clock_parts_sum [OF second_split(2,3) k]
  have "length (show_int y) = 4" using show_nat_4 [of "nat y"] r by (simp add: show_int_nat)
  then obtain y1 y2 y3 y4 where ys: "show_int y = [y1, y2, y3, y4]" using length_4_cases by blast
  have "digits_val (show_int y) = y \<and> list_all is_digit (show_int y)"
    using show_nat_value [of "nat y"] r by (simp add: show_int_nat)
  then have yv: "digits_val [y1, y2, y3, y4] = y" "is_digit y1" "is_digit y2" "is_digit y3" "is_digit y4"
    unfolding ys by simp_all
  have mb: "0 \<le> m" "m < 100" "0 \<le> d" "d < 100" "0 \<le> mi" "mi < 100" "0 \<le> s" "s < 100"
    using i b by linarith+
  obtain m1 m2 where ms: "pad2 m = [m1, m2]" "digits_val [m1, m2] = m" "is_digit m1" "is_digit m2"
    using pad2_digits [OF mb(1,2)] by blast
  obtain d1 d2 where ds: "pad2 d = [d1, d2]" "digits_val [d1, d2] = d" "is_digit d1" "is_digit d2"
    using pad2_digits [OF mb(3,4)] by blast
  obtain h1 h2 where hs: "pad2 h = [h1, h2]" "digits_val [h1, h2] = h" "is_digit h1" "is_digit h2"
    using pad2_digits [of h] b(2) by blast
  obtain n1 n2 where ns: "pad2 mi = [n1, n2]" "digits_val [n1, n2] = mi" "is_digit n1" "is_digit n2"
    using pad2_digits [OF mb(5,6)] by blast
  obtain s1 s2 where ss: "pad2 s = [s1, s2]" "digits_val [s1, s2] = s" "is_digit s1" "is_digit s2"
    using pad2_digits [OF mb(7,8)] by blast
  have t: "toSqlUtc t = [y1, y2, y3, y4, CHR ''-'', m1, m2, CHR ''-'', d1, d2, CHR '' '',
      h1, h2, CHR '':'', n1, n2, CHR '':'', s1, s2]"
    using k unfolding toSqlUtc_text c date_text_def clock_text_def clock_parts_def
    by (simp add: ys ms(1) ds(1) hs(1) ns(1) ss(1))
  show "match_sql_date (toSqlUtc t) = Some (y, m, d, h, mi, s)"
    unfolding t by (simp add: match_sql_date_def match_time_def yv ms ds hs ns ss)
  show "length (toSqlUtc t) = 19" unfolding t by simp
  have "\<not> js_space y1" "\<not> js_space s2"
    using yv(2) ss(4) by (auto simp: js_space_def is_digit_def Let_def)
  then show "js_trim (toSqlUtc t) = toSqlUtc t" unfolding t by (simp add: js_trim_def)
qed

text \<open>The instant a stamp stands for: its second.\<close>

lemma stamp_value:
  assumes "instant_ok t"
  shows "stamp_ms engine (toSqlUtc t) = Some (t div 1000 * 1000)"
    and "parseDateInput engine (DateText (toSqlUtc t)) = Some (t div 1000 * 1000)"
proof -
  obtain y m d where c: "civil_from_days (t div ms_per_day) = (y, m, d)" by (metis prod_cases3)
  obtain h mi s where k: "clock_parts ((t mod ms_per_day) div 1000) = (h, mi, s)" by (metis prod_cases3)
  note i = days_from_civil_inverse [OF c] and r = day_ok_year [OF instant_day_ok(1) [OF assms] c]
  note b = clock_parts_sum [OF second_split(2,3) k] and t = match_sql_date_text [OF assms c k]
  have "h < 24" using b(1,3,4) second_split(3) [of t] by linarith
  moreover have "t div 1000 * 1000 = (t div ms_per_day) * ms_per_day + h * 3600000 + mi * 60000 + s * 1000"
    using second_split(1) [of t] b(1) by (simp add: ms_per_day_def)
  ultimately show "stamp_ms engine (toSqlUtc t) = Some (t div 1000 * 1000)"
    and "parseDateInput engine (DateText (toSqlUtc t)) = Some (t div 1000 * 1000)"
    using i r b by (simp_all add: stamp_ms_def parseDateInput_def date_utc_def t)
qed


text \<open>A time stamp reads back as the second it was written in, whichever reader is used and whatever
  the engine's own parser does, writing that second again gives the same text, and the repair of
  old local stamps leaves it alone unless it lies in the future.\<close>

theorem sql_stamps_round_trip:
  assumes "instant_ok t"
  shows "parseDateInput engine (DateText (toSqlUtc t)) = Some (t div 1000 * 1000) \<and>
    stamp_ms engine (toSqlUtc t) = Some (t div 1000 * 1000) \<and>
    toSqlUtc (t div 1000 * 1000) = toSqlUtc t \<and>
    (t \<le> now + thr * 3600000 \<longrightarrow> normalizeLegacyLocalSqlToUtc (toSqlUtc t) off thr now = toSqlUtc t)"
proof -
  have t: "0 \<le> t" "t < 253402214400000" using assms by (simp_all add: instant_ok_def)
  have "0 \<le> t div 1000 * 1000" "t div 1000 * 1000 \<le> t" using t(1)
    by (simp_all add: minus_mod_eq_div_mult [symmetric] zmod_le_nonneg_dividend)
  then have ok: "instant_ok (t div 1000 * 1000)" using t(2) by (simp add: instant_ok_def)
  obtain y m d where c: "civil_from_days (t div ms_per_day) = (y, m, d)" by (metis prod_cases3)
  obtain h mi s where k: "clock_parts ((t mod ms_per_day) div 1000) = (h, mi, s)" by (metis prod_cases3)
  note p = match_sql_date_text [OF assms c k]
  have "date_utc y m d h mi s = t div 1000 * 1000"
    using stamp_value(2) [OF assms, of engine] by (simp add: parseDateInput_def p)
  moreover have "t div 1000 * 1000 \<le> t" by linarith
  ultimately have "normalizeLegacyLocalSqlToUtc (toSqlUtc t) off thr now = toSqlUtc t" if "t \<le> now + thr * 3600000"
    using that by (simp add: normalizeLegacyLocalSqlToUtc_def p)
  then show ?thesis using stamp_value [OF assms] stamps_order(2) [OF ok assms] by simp
qed

theorem sql_stamps_round_trip_witness:
  "parseDateInput (\<lambda>_. None) (DateText (toSqlUtc 1704067200123)) = Some 1704067200000"
  using sql_stamps_round_trip [of 1704067200123 "\<lambda>_. None"] by (simp add: instant_ok_def)

end
