(* ===== verification/Invites.thy ===== *)
theory Invites
  imports Stamps SettingsRepo SubAccess UserRepo
begin

text \<open>
  Invitation codes (\<open>src/services/database.js\<close>, second half): an account may generate a code
  once in seven days, an administrator at any time, and a code is good for one registration.
  The code's random text is a parameter (the \<open>n\<close>-th attempt draws \<open>draw n\<close>), and so is the
  engine's parser for stamps that are not in SQL form. Rows with the same stamp come in the
  order of insertion, as the index on (inviter, stamp descending) yields them.
\<close>

definition INVITE_CODE_TTL_MS :: int where
  "INVITE_CODE_TTL_MS = 7 * 24 * 60 * 60 * 1000"

definition generateInviteCodeValue :: "string \<Rightarrow> string" where
  "generateInviteCodeValue random = js_upper random"

text \<open>Deletes the unused codes that have expired; the number of deleted rows.\<close>

definition expired_invite :: "int \<Rightarrow> invite_row \<Rightarrow> bool" where
  "expired_invite now i \<longleftrightarrow> iv_used_at i = None \<and> iv_expires_at i \<le> toSqlUtc now"

definition cleanupExpiredInviteCodes :: "int \<Rightarrow> db \<Rightarrow> nat \<times> db" where
  "cleanupExpiredInviteCodes now d =
     (count_where (expired_invite now) (d_invites d),
      d\<lparr>d_invites := delete_where (expired_invite now) (d_invites d)\<rparr>)"

definition newest :: "invite_row list \<Rightarrow> invite_row option" where
  "newest rows = (case order_desc iv_created_at rows of [] \<Rightarrow> None | i # _ \<Rightarrow> Some i)"

definition getLatestInviteCodeByUser :: "int \<Rightarrow> db \<Rightarrow> invite_row option" where
  "getLatestInviteCodeByUser uid d = newest (filter (\<lambda>i. iv_inviter i = uid) (d_invites d))"

definition active_invite :: "int \<Rightarrow> invite_row \<Rightarrow> bool" where
  "active_invite now i \<longleftrightarrow> iv_used_at i = None \<and> toSqlUtc now < iv_expires_at i"

definition getActiveInviteCodeByUser :: "int \<Rightarrow> int \<Rightarrow> db \<Rightarrow> invite_row option" where
  "getActiveInviteCodeByUser uid now d =
     newest (filter (\<lambda>i. iv_inviter i = uid \<and> active_invite now i) (d_invites d))"

record invite_status =
  is_active :: "invite_row option"
  is_latest :: "invite_row option"
  is_can_generate :: bool
  is_next_at :: "string option"

definition getInviteGenerateStatusByUser ::
  "(string \<Rightarrow> int option) \<Rightarrow> int \<Rightarrow> bool \<Rightarrow> int \<Rightarrow> db \<Rightarrow> invite_status" where
  "getInviteGenerateStatusByUser engine uid isAdmin now d =
     (case getLatestInviteCodeByUser uid d of
        None \<Rightarrow> \<lparr>is_active = None, is_latest = None, is_can_generate = True, is_next_at = None\<rparr>
      | Some latest \<Rightarrow>
          (let active = getActiveInviteCodeByUser uid now d
           in if isAdmin then
                \<lparr>is_active = active, is_latest = Some latest, is_can_generate = True, is_next_at = None\<rparr>
              else
                (let next = map_option (\<lambda>t. toSqlUtc (t + INVITE_CODE_TTL_MS))
                       (stamp_ms engine (iv_created_at latest))
                 in \<lparr>is_active = active, is_latest = Some latest,
                     is_can_generate =
                       (case next of
                          None \<Rightarrow> True
                        | Some s \<Rightarrow> (case stamp_ms engine s of None \<Rightarrow> False | Some t \<Rightarrow> t \<le> now)),
                     is_next_at = next\<rparr>)))"

definition getUsableInviteCode :: "string \<Rightarrow> int \<Rightarrow> db \<Rightarrow> invite_row option" where
  "getUsableInviteCode code now d =
     (let v = js_upper (js_trim code)
      in if v = [] then None else find (\<lambda>i. iv_code i = v \<and> active_invite now i) (d_invites d))"

section \<open>The list of the administration page\<close>

datatype invite_state = InviteUsed | InviteExpired | InviteActive

definition invite_state_of :: "int \<Rightarrow> invite_row \<Rightarrow> invite_state" where
  "invite_state_of now i =
     (if iv_used_at i \<noteq> None then InviteUsed
      else if iv_expires_at i \<le> toSqlUtc now then InviteExpired else InviteActive)"

record invite_relation =
  ir_invite :: invite_row
  ir_inviter :: "user option"
  ir_invitee :: "user option"
  ir_state :: invite_state

definition invite_relation_of :: "int \<Rightarrow> db \<Rightarrow> invite_row \<Rightarrow> invite_relation" where
  "invite_relation_of now d i =
     \<lparr>ir_invite = i, ir_inviter = user_by_id d (iv_inviter i),
      ir_invitee = (case iv_used_by i of None \<Rightarrow> None | Some u \<Rightarrow> user_by_id d u),
      ir_state = invite_state_of now i\<rparr>"

text \<open>The columns a search looks at.\<close>

definition relation_texts :: "invite_relation \<Rightarrow> string list" where
  "relation_texts r =
     [iv_code (ir_invite r),
      or_else (map_option u_username (ir_inviter r)) [], or_else (Option.bind (ir_inviter r) u_email) [],
      or_else (map_option u_username (ir_invitee r)) [], or_else (Option.bind (ir_invitee r) u_email) []]"

definition relation_matches :: "string \<Rightarrow> string \<Rightarrow> invite_relation \<Rightarrow> bool" where
  "relation_matches q status r \<longleftrightarrow>
     (q = [] \<or> list_ex (\<lambda>t. like_infix q (js_lower t)) (relation_texts r)) \<and>
     (status = ''used'' \<longrightarrow> ir_state r = InviteUsed) \<and>
     (status = ''active'' \<longrightarrow> ir_state r = InviteActive) \<and>
     (status = ''expired'' \<longrightarrow> ir_state r = InviteExpired)"

definition getInviteRelationsPaged ::
  "nat \<Rightarrow> nat \<Rightarrow> string \<Rightarrow> string \<Rightarrow> int \<Rightarrow> db \<Rightarrow> invite_relation list \<times> nat" where
  "getInviteRelationsPaged limit offset search status now d =
     (let q = js_lower (js_trim search);
          rows = filter (relation_matches q status) (map (invite_relation_of now d) (d_invites d))
      in (page limit offset
            (order_desc (\<lambda>r. iv_created_at (ir_invite r)) (order_desc (\<lambda>r. iv_id (ir_invite r)) rows)),
          length rows))"

section \<open>Generating a code\<close>

text \<open>At most five attempts at a code that is not in use.\<close>

fun pick_code :: "(nat \<Rightarrow> string) \<Rightarrow> string set \<Rightarrow> nat \<Rightarrow> nat \<Rightarrow> string option" where
  "pick_code draw used 0 n = None"
| "pick_code draw used (Suc left) n =
     (let code = generateInviteCodeValue (draw n)
      in if code \<notin> used then Some code else pick_code draw used left (Suc n))"

datatype invite_answer =
    InviteFailed
  | InviteRefused invite_row string
  | InviteMade "invite_row option" "string option"

definition generateInviteCodeForUser ::
  "(string \<Rightarrow> int option) \<Rightarrow> (nat \<Rightarrow> string) \<Rightarrow> int \<Rightarrow> bool \<Rightarrow> int \<Rightarrow> db \<Rightarrow> invite_answer \<times> db" where
  "generateInviteCodeForUser engine draw uid isAdmin now d =
     (let latest = getLatestInviteCodeByUser uid d;
          waiting = (case latest of
              None \<Rightarrow> None
            | Some l \<Rightarrow>
                if isAdmin then None
                else (case stamp_ms engine (iv_created_at l) of
                        None \<Rightarrow> None
                      | Some t \<Rightarrow> if now - t < INVITE_CODE_TTL_MS then Some (l, t) else None))
      in case waiting of
           Some (l, t) \<Rightarrow>
             (InviteRefused
                (case (if iv_used_at l \<noteq> None then None else getActiveInviteCodeByUser uid now d) of
                   None \<Rightarrow> l | Some i \<Rightarrow> i)
                (toSqlUtc (t + INVITE_CODE_TTL_MS)), d)
         | None \<Rightarrow>
             (case pick_code draw (iv_code ` set (d_invites d)) 5 0 of
                None \<Rightarrow> (InviteFailed, d)
              | Some code \<Rightarrow>
                  if user_by_id d uid = None then (InviteFailed, d)
                  else
                    (let expires = (if isAdmin then ''9999-12-31 23:59:59'' else toSqlUtc (now + INVITE_CODE_TTL_MS));
                         row = \<lparr>iv_id = fresh_id iv_id (d_invites d), iv_inviter = uid, iv_code = code,
                                iv_expires_at = expires, iv_used_at = None, iv_used_by = None,
                                iv_created_at = toSqlUtc now\<rparr>;
                         d' = d\<lparr>d_invites := d_invites d @ [row]\<rparr>
                     in (InviteMade (getActiveInviteCodeByUser uid now d')
                           (if isAdmin then None else Some expires), d'))))"

end
