(* ===== verification/SignIn.thy ===== *)
theory SignIn
  imports Passwords Middleware Invites NetUtils
begin

text \<open>
  Registration and sign-in (\<open>src/routes/auth.js\<close>): the codes sent by e-mail with their limits, the
  registration and the reset of a password that use them, sign-in by password and by the
  emergency token, and invitation codes. Sending a mail takes time: a request that sends one ends
  with the address and code to send, and what follows a failure is a step of its own. Random codes
  (\<open>code\<close>), salts, tokens and credentials are arguments, the hash is \<open>sha\<close>, the key derivation
  \<open>kdf\<close>. Replies are named by their reason; \<open>fresh\<close> is the session store's new session.
\<close>

section \<open>Codes and their limits\<close>

record code_entry =
  vc_code :: string
  vc_expires :: int
  vc_attempts :: nat

record signin =
  si_codes :: "(string, code_entry) js_map"
  si_forgot :: "(string, code_entry) js_map"
  si_sent :: nat
  si_window :: int
  si_recipients :: "(string, int list) js_map"
  si_temp :: "(string, int) js_map"
  si_db :: db

definition CODE_TTL :: int where "CODE_TTL = 10 * 60 * 1000"
definition CODE_COOLDOWN :: int where "CODE_COOLDOWN = 60 * 1000"
definition GLOBAL_HOURLY_LIMIT :: nat where "GLOBAL_HOURLY_LIMIT = 200"
definition RECIPIENT_HOURLY_LIMIT :: nat where "RECIPIENT_HOURLY_LIMIT = 10"

definition checkGlobalSendLimit :: "int \<Rightarrow> signin \<Rightarrow> bool \<times> signin" where
  "checkGlobalSendLimit now s =
     (let s1 = (if 60 * 60 * 1000 < now - si_window s then s\<lparr>si_sent := 0, si_window := now\<rparr> else s)
      in if GLOBAL_HOURLY_LIMIT \<le> si_sent s1 then (False, s1)
         else (True, s1\<lparr>si_sent := si_sent s1 + 1\<rparr>))"

definition recent_times :: "int \<Rightarrow> string \<Rightarrow> signin \<Rightarrow> int list" where
  "recent_times now email s =
     filter (\<lambda>t. now - t < 60 * 60 * 1000) (case js_get (si_recipients s) email of None \<Rightarrow> [] | Some ts \<Rightarrow> ts)"

definition checkRecipientLimit :: "string \<Rightarrow> int \<Rightarrow> signin \<Rightarrow> bool \<times> signin" where
  "checkRecipientLimit email now s =
     (let times = recent_times now email s
      in if RECIPIENT_HOURLY_LIMIT \<le> length times then (False, s)
         else (True, s\<lparr>si_recipients := js_set email (times @ [now]) (si_recipients s)\<rparr>))"

definition cleanupExpiredCodes :: "int \<Rightarrow> signin \<Rightarrow> signin" where
  "cleanupExpiredCodes now s =
     s\<lparr>si_codes := filter (\<lambda>e. \<not> vc_expires (snd e) < now) (si_codes s),
       si_forgot := filter (\<lambda>e. \<not> vc_expires (snd e) < now) (si_forgot s)\<rparr>"

section \<open>E-mail addresses\<close>

text \<open>\<open>const [local, domain] = email.split('@')\<close>.\<close>

definition mail_local :: "string \<Rightarrow> string" where
  "mail_local email = (case js_split (CHR ''@'') email of [] \<Rightarrow> [] | p # _ \<Rightarrow> p)"

definition mail_domain :: "string \<Rightarrow> string option" where
  "mail_domain email = (case js_split (CHR ''@'') email of _ # q # _ \<Rightarrow> Some q | _ \<Rightarrow> None)"

definition is_gmail :: "string \<Rightarrow> bool" where
  "is_gmail email \<longleftrightarrow> mail_domain email \<in> {Some ''gmail.com'', Some ''googlemail.com''}"

definition normalizeGmail :: "string \<Rightarrow> string" where
  "normalizeGmail email =
     (if \<not> is_gmail email then email
      else takeWhile (\<lambda>c. c \<noteq> CHR ''+'') (filter (\<lambda>c. c \<noteq> CHR ''.'') (mail_local email)) @ ''@gmail.com'')"

definition isGmailDotAbuse :: "string \<Rightarrow> bool" where
  "isGmailDotAbuse email \<longleftrightarrow>
     is_gmail email \<and> (CHR ''.'' \<in> set (mail_local email) \<or> CHR ''+'' \<in> set (mail_local email))"

definition isEmailRegistered :: "string \<Rightarrow> db \<Rightarrow> bool" where
  "isEmailRegistered email d \<longleftrightarrow>
     getUserByEmail email d \<noteq> None \<or>
     (let norm = normalizeGmail email
      in (norm \<noteq> email \<and> getUserByEmail norm d \<noteq> None) \<or>
         (\<exists>u \<in> set (d_users d). truthy (u_email u) \<and> normalizeGmail (js_lower (or_else (u_email u) [])) = norm))"

definition isInviteRegistrationEnabled :: "db \<Rightarrow> bool" where
  "isInviteRegistrationEnabled d \<longleftrightarrow> getSetting d ''invite_registration_enabled'' \<noteq> Some ''false''"

text \<open>\<open>/^[^\s@]+@[^\s@]+\.[^\s@]+$/\<close>: one \<open>@\<close>, and a dot inside the domain.\<close>

definition isValidEmail :: "string \<Rightarrow> bool" where
  "isValidEmail email \<longleftrightarrow>
     (case js_split (CHR ''@'') (js_trim email) of
        [lp, dm] \<Rightarrow> lp \<noteq> [] \<and> list_all (\<lambda>c. \<not> js_space c) (lp @ dm) \<and> CHR ''.'' \<in> set (butlast (drop 1 dm))
      | _ \<Rightarrow> False)"

definition normalizeInviteCode :: "string \<Rightarrow> string" where
  "normalizeInviteCode code = js_upper (js_trim code)"

text \<open>The domains a new address may have; the empty list allows all.\<close>

definition allowed_domains :: "db \<Rightarrow> string list" where
  "allowed_domains d =
     filter (\<lambda>x. x \<noteq> []) (js_split (CHR '','') (or_else (getSetting d ''allowed_email_domains'') []))"

definition domain_allowed :: "string \<Rightarrow> db \<Rightarrow> bool" where
  "domain_allowed email d \<longleftrightarrow>
     allowed_domains d = [] \<or> (case mail_domain email of None \<Rightarrow> [] | Some x \<Rightarrow> x) \<in> set (allowed_domains d)"

definition registration_open :: "db \<Rightarrow> bool" where
  "registration_open d \<longleftrightarrow> getSetting d ''registration_open'' \<noteq> Some ''false''"

datatype auth_fault =
    BadEmail | GmailAlias | EmailTaken | NotRegistered | RegistrationClosed | InviteMissing | InviteUnusable
  | DomainRefused | Cooldown | HourlyLimit | RecipientLimit
  | CodeExpired | TooManyAttempts | WrongCode | PasswordShort | PasswordLong | PasswordMismatch
  | HashFailed | CreateFailed | CredentialsMissing | BadCredentials | AccountBlocked | LoginFailed

definition getInviteError :: "string \<Rightarrow> int \<Rightarrow> db \<Rightarrow> auth_fault option" where
  "getInviteError inviteCode now d =
     (let code = normalizeInviteCode inviteCode
      in if code = [] then Some InviteMissing
         else if getUsableInviteCode code now d = None then Some InviteUnusable else None)"

section \<open>Sending a code\<close>

definition fresh_entry :: "string \<Rightarrow> int \<Rightarrow> code_entry" where
  "fresh_entry code now = \<lparr>vc_code = code, vc_expires = now + CODE_TTL, vc_attempts = 0\<rparr>"

definition cooling_down :: "(string, code_entry) js_map \<Rightarrow> string \<Rightarrow> int \<Rightarrow> bool" where
  "cooling_down m email now \<longleftrightarrow>
     (case js_get m email of None \<Rightarrow> False | Some e \<Rightarrow> now - (vc_expires e - CODE_TTL) < CODE_COOLDOWN)"

datatype send_reply = SendRefused auth_fault | SkipCode | SendCode string string

text \<open>What both kinds of codes share: the wait after the last code, then the two hourly limits.\<close>

definition take_send :: "(signin \<Rightarrow> (string, code_entry) js_map) \<Rightarrow> string \<Rightarrow> int \<Rightarrow> signin \<Rightarrow> auth_fault option \<times> signin" where
  "take_send codes email now s =
     (if cooling_down (codes s) email now then (Some Cooldown, s)
      else case checkGlobalSendLimit now s of
             (False, s1) \<Rightarrow> (Some HourlyLimit, s1)
           | (True, s1) \<Rightarrow>
               (case checkRecipientLimit email now s1 of
                  (False, s2) \<Rightarrow> (Some RecipientLimit, s2)
                | (True, s2) \<Rightarrow> (None, s2)))"

definition send_email_code :: "string \<Rightarrow> string \<Rightarrow> string \<Rightarrow> int \<Rightarrow> signin \<Rightarrow> send_reply \<times> signin" where
  "send_email_code rawEmail rawInvite code now s =
     (let email = js_lower (js_trim rawEmail); inviteCode = normalizeInviteCode rawInvite; d = si_db s
      in if \<not> isValidEmail email then (SendRefused BadEmail, s)
         else if isGmailDotAbuse email then (SendRefused GmailAlias, s)
         else if isEmailRegistered email d then (SendRefused EmailTaken, s)
         else if d_users d = [] then (SkipCode, s\<lparr>si_codes := js_set email (fresh_entry ''000000'' now) (si_codes s)\<rparr>)
         else if \<not> registration_open d then (SendRefused RegistrationClosed, s)
         else (case (if isInviteRegistrationEnabled d then getInviteError inviteCode now d else None) of
                 Some e \<Rightarrow> (SendRefused e, s)
               | None \<Rightarrow>
                   if \<not> domain_allowed email d then (SendRefused DomainRefused, s)
                   else (case take_send si_codes email now s of
                           (Some e, s1) \<Rightarrow> (SendRefused e, s1)
                         | (None, s1) \<Rightarrow>
                             (SendCode email code, s1\<lparr>si_codes := js_set email (fresh_entry code now) (si_codes s1)\<rparr>))))"

text \<open>The mail could not be sent.\<close>

definition email_code_failed :: "string \<Rightarrow> signin \<Rightarrow> signin" where
  "email_code_failed email s = s\<lparr>si_codes := filter (\<lambda>e. fst e \<noteq> email) (si_codes s)\<rparr>"

definition forgot_send_code :: "string \<Rightarrow> string \<Rightarrow> int \<Rightarrow> signin \<Rightarrow> send_reply \<times> signin" where
  "forgot_send_code rawEmail code now s =
     (let email = js_lower (js_trim rawEmail)
      in if \<not> isValidEmail email then (SendRefused BadEmail, s)
         else if getUserByEmail email (si_db s) = None then (SendRefused NotRegistered, s)
         else (case take_send si_forgot email now s of
                 (Some e, s1) \<Rightarrow> (SendRefused e, s1)
               | (None, s1) \<Rightarrow>
                   (SendCode email code, s1\<lparr>si_forgot := js_set email (fresh_entry code now) (si_forgot s1)\<rparr>)))"

definition forgot_code_failed :: "string \<Rightarrow> signin \<Rightarrow> signin" where
  "forgot_code_failed email s = s\<lparr>si_forgot := filter (\<lambda>e. fst e \<noteq> email) (si_forgot s)\<rparr>"

section \<open>Registration\<close>

definition auth_username_seed :: "string \<Rightarrow> int \<Rightarrow> string" where
  "auth_username_seed email now =
     (let base = take 32 (filter username_char (js_lower (mail_local email)))
      in if base = [] then ''user'' @ last_chars 6 (show_int now) else base)"

definition auth_available_username :: "string \<Rightarrow> int \<Rightarrow> db \<Rightarrow> string" where
  "auth_available_username seed now d =
     (let base = take 32 (if seed = [] then ''user'' else seed)
      in if getUserByUsername base d = None then base
         else case find (\<lambda>i. getUserByUsername (username_candidate base i) d = None) [1..<10000] of
                Some i \<Rightarrow> username_candidate base i
              | None \<Rightarrow> take 24 base @ last_chars 8 (show_int now))"

record reg_form =
  rf_email :: string
  rf_name :: string
  rf_password :: string
  rf_confirm :: string
  rf_code :: string
  rf_invite :: string
  rf_ip :: string

text \<open>What the request draws: the credentials, the link's token, the salt.\<close>

record reg_draws =
  rd_gen :: "int \<Rightarrow> string"
  rd_token :: string
  rd_salt :: string

datatype reg_reply = RegRefused auth_fault | RegDone user auth_req | RegPleaseSignIn user

text \<open>The code of a registration: the stored entry is spent when it has expired or after five errors.\<close>

definition check_code :: "(string \<Rightarrow> string) \<Rightarrow> string \<Rightarrow> string \<Rightarrow> int \<Rightarrow> signin \<Rightarrow> auth_fault option \<times> signin" where
  "check_code sha email code now s =
     (let gone = s\<lparr>si_codes := filter (\<lambda>e. fst e \<noteq> email) (si_codes s)\<rparr>
      in case js_get (si_codes s) email of
           None \<Rightarrow> (Some CodeExpired, gone)
         | Some stored \<Rightarrow>
             if vc_expires stored < now then (Some CodeExpired, gone)
             else if 5 \<le> vc_attempts stored then (Some TooManyAttempts, gone)
             else if \<not> safeTokenEqual sha (vc_code stored) code
             then (Some WrongCode, s\<lparr>si_codes := js_set email (stored\<lparr>vc_attempts := vc_attempts stored + 1\<rparr>) (si_codes s)\<rparr>)
             else (None, s))"

text \<open>What the site's settings say about a new address; the first account is exempt.\<close>

definition check_admission :: "string \<Rightarrow> string \<Rightarrow> int \<Rightarrow> db \<Rightarrow> auth_fault option" where
  "check_admission email inviteCode now d =
     (if d_users d = [] then None
      else if \<not> registration_open d then Some RegistrationClosed
      else if \<not> domain_allowed email d then Some DomainRefused
      else if isInviteRegistrationEnabled d then getInviteError inviteCode now d else None)"

definition create_account ::
  "kdf \<Rightarrow> reg_draws \<Rightarrow> reg_form \<Rightarrow> string \<Rightarrow> string \<Rightarrow> int \<Rightarrow> db \<Rightarrow> (auth_fault + user) \<times> db" where
  "create_account kdf draws f email username now d =
     (case hashPassword kdf (rd_salt draws) (rf_password f) of
        None \<Rightarrow> (Inl HashFailed, d)
      | Some h \<Rightarrow>
          (case (if d_users d = [] \<or> \<not> isInviteRegistrationEnabled d
                 then createEmailUser (rd_gen draws) (rd_token draws) now username email (Some h) (js_trim (rf_name f)) (rf_ip f) d
                 else createInvitedEmailUser (rd_gen draws) (rd_token draws) now username email (Some h) (js_trim (rf_name f))
                        (normalizeInviteCode (rf_invite f)) (rf_ip f) d) of
             Inl e \<Rightarrow> (Inl CreateFailed, d)
           | Inr (u, d') \<Rightarrow> (Inr u, d')))"

definition email_register ::
  "(string \<Rightarrow> string) \<Rightarrow> kdf \<Rightarrow> reg_draws \<Rightarrow> session option \<Rightarrow> auth_req \<Rightarrow> reg_form \<Rightarrow> int \<Rightarrow> signin \<Rightarrow> reg_reply \<times> signin" where
  "email_register sha kdf draws fresh r f now s =
     (let email = js_lower (js_trim (rf_email f));
          code = filter (\<lambda>c. \<not> js_space c) (rf_code f);
          inviteCode = normalizeInviteCode (rf_invite f)
      in if \<not> isValidEmail email then (RegRefused BadEmail, s)
         else if isGmailDotAbuse email then (RegRefused GmailAlias, s)
         else case check_code sha email code now s of
                (Some e, s1) \<Rightarrow> (RegRefused e, s1)
              | (None, s1) \<Rightarrow>
                  if length (rf_password f) < 8 then (RegRefused PasswordShort, s1)
                  else if 128 < length (rf_password f) then (RegRefused PasswordLong, s1)
                  else if rf_password f \<noteq> rf_confirm f then (RegRefused PasswordMismatch, s1)
                  else if isEmailRegistered email (si_db s1) then (RegRefused EmailTaken, s1)
                  else (case check_admission email inviteCode now (si_db s1) of
                          Some e \<Rightarrow> (RegRefused e, s1)
                        | None \<Rightarrow>
                            (let username = auth_available_username (auth_username_seed email now) now (si_db s1);
                                 s2 = s1\<lparr>si_codes := filter (\<lambda>e. fst e \<noteq> email) (si_codes s1)\<rparr>
                             in case create_account kdf draws f email username now (si_db s2) of
                                  (Inl e, _) \<Rightarrow> (RegRefused e, s2)
                                | (Inr u, d') \<Rightarrow>
                                    (case fresh of
                                       None \<Rightarrow> (RegPleaseSignIn u, s2\<lparr>si_db := add_effect EmitSyncAll d'\<rparr>)
                                     | Some ses \<Rightarrow>
                                         (RegDone u (logIn fresh u r),
                                          s2\<lparr>si_db := addAuditLog now (Some (u_id u)) ''login_email'' [u_username u] (rf_ip f)
                                            (add_effect EmitSyncAll d')\<rparr>)))))"

section \<open>Resetting a password\<close>

datatype reset_reply = ResetRefused auth_fault | ResetDone

definition forgot_reset ::
  "(string \<Rightarrow> string) \<Rightarrow> kdf \<Rightarrow> string \<Rightarrow> string \<Rightarrow> string \<Rightarrow> string \<Rightarrow> string \<Rightarrow> int \<Rightarrow> signin \<Rightarrow> reset_reply \<times> signin" where
  "forgot_reset sha kdf salt rawEmail rawCode password ip now s =
     (let email = js_lower (js_trim rawEmail); code = js_trim rawCode;
          gone = s\<lparr>si_forgot := filter (\<lambda>e. fst e \<noteq> email) (si_forgot s)\<rparr>
      in case js_get (si_forgot s) email of
           None \<Rightarrow> (ResetRefused CodeExpired, gone)
         | Some stored \<Rightarrow>
             if vc_expires stored < now then (ResetRefused CodeExpired, gone)
             else
               (let stored' = stored\<lparr>vc_attempts := vc_attempts stored + 1\<rparr>;
                    s1 = s\<lparr>si_forgot := js_set email stored' (si_forgot s)\<rparr>
                in if 5 < vc_attempts stored' then (ResetRefused TooManyAttempts, gone)
                   else if \<not> safeTokenEqual sha (vc_code stored') code then (ResetRefused WrongCode, s1)
                   else if length password < 8 then (ResetRefused PasswordShort, s1)
                   else if 128 < length password then (ResetRefused PasswordLong, s1)
                   else (case getUserByEmail email (si_db s1) of
                           None \<Rightarrow> (ResetRefused NotRegistered, s1)
                         | Some u \<Rightarrow>
                             (ResetDone,
                              gone\<lparr>si_db := addAuditLog now (Some (u_id u)) ''password_reset'' [u_username u] ip
                                (update_user (u_id u) (\<lambda>v. v\<lparr>u_password_hash := hashPassword kdf salt password\<rparr>) (si_db s1))\<rparr>))))"

section \<open>Sign-in\<close>

datatype login_reply = LoginRefused auth_fault | LoggedIn auth_req | LoginCrashed

text \<open>A sign-in releases an account that was frozen for one of the given reasons.\<close>

definition login_release :: "(int \<Rightarrow> string) \<Rightarrow> string list \<Rightarrow> user \<Rightarrow> string \<Rightarrow> int \<Rightarrow> db \<Rightarrow> db" where
  "login_release gen reasons u ip now d =
     (if u_is_frozen u \<and> (\<exists>r \<in> set reasons. u_freeze_reason u = Some r)
      then add_effect EmitSyncAll
             (addAuditLog now (Some (u_id u)) ''login_auto_unfreeze'' [u_username u] ip (unfreezeUser gen (u_id u) d))
      else d)"

definition note_login :: "string \<Rightarrow> user \<Rightarrow> string \<Rightarrow> int \<Rightarrow> db \<Rightarrow> db" where
  "note_login act u ip now d =
     addAuditLog now (Some (u_id u)) act [u_username u] ip
       (update_user (u_id u) (\<lambda>v. v\<lparr>u_last_login := Some (toSqlUtc now)\<rparr>) d)"

definition email_login ::
  "kdf \<Rightarrow> (int \<Rightarrow> string) \<Rightarrow> session option \<Rightarrow> auth_req \<Rightarrow> string \<Rightarrow> string \<Rightarrow> string \<Rightarrow> int \<Rightarrow> db \<Rightarrow> login_reply \<times> db" where
  "email_login kdf gen fresh r rawEmail password ip now d =
     (let email = js_lower (js_trim rawEmail)
      in if email = [] \<or> password = [] then (LoginRefused CredentialsMissing, d)
         else if 128 < length password then (LoginRefused BadCredentials, d)
         else case getUserByEmail email d of
                None \<Rightarrow> (LoginRefused BadCredentials, d)
              | Some u \<Rightarrow>
                  if \<not> truthy (u_password_hash u) then (LoginRefused BadCredentials, d)
                  else (case verifyPassword kdf password (the (u_password_hash u)) of
                          None \<Rightarrow> (LoginCrashed, d)
                        | Some False \<Rightarrow> (LoginRefused BadCredentials, d)
                        | Some True \<Rightarrow>
                            if u_is_blocked u then (LoginRefused AccountBlocked, d)
                            else if fresh = None then (LoginRefused LoginFailed, d)
                            else (LoggedIn (logIn fresh u r),
                                  login_release gen [''inactive'', ''traffic''] u ip now (note_login ''login_email'' u ip now d))))"

section \<open>The emergency sign-in\<close>

record temp_env =
  te_enabled :: "string option"
  te_node_env :: "string option"
  te_allow_prod :: "string option"
  te_token :: "string option"
  te_expires :: "string option"
  te_one_time :: "string option"
  te_allowlist :: "string option"
  te_ttl :: "string option"
  te_max :: "string option"

definition getUsedTokenTtlMs :: "temp_env \<Rightarrow> int" where
  "getUsedTokenTtlMs e =
     toPosInt (or_else (te_ttl e) []) (24 * 60 * 60 * 1000) 1000 (Some (30 * 24 * 60 * 60 * 1000))"

definition getUsedTokenMaxEntries :: "temp_env \<Rightarrow> int" where
  "getUsedTokenMaxEntries e = toPosInt (or_else (te_max e) []) 10000 1 (Some 200000)"

definition verifyTempLoginEnabled :: "temp_env \<Rightarrow> bool" where
  "verifyTempLoginEnabled e \<longleftrightarrow>
     te_enabled e = Some ''true'' \<and> \<not> (te_node_env e = Some ''production'' \<and> te_allow_prod e \<noteq> Some ''true'')"

definition consumeTempLoginTokenIfNeeded ::
  "(string \<Rightarrow> string) \<Rightarrow> temp_env \<Rightarrow> string \<Rightarrow> int \<Rightarrow> (string, int) js_map \<Rightarrow> bool \<times> (string, int) js_map" where
  "consumeTempLoginTokenIfNeeded sha e expected now m =
     (let fingerprint = sha expected; ttl = getUsedTokenTtlMs e; cap = nat (getUsedTokenMaxEntries e);
          m1 = evict (\<lambda>t. t) cap (filter (\<lambda>x. \<not> ttl < now - snd x) m)
      in if te_one_time e = Some ''false'' then (True, m1)
         else (case js_get m1 fingerprint of
                 Some t \<Rightarrow> if t \<noteq> 0 \<and> now - t \<le> ttl then (False, m1)
                          else (True, evict (\<lambda>t. t) cap (js_set fingerprint now m1))
               | None \<Rightarrow> (True, evict (\<lambda>t. t) cap (js_set fingerprint now m1))))"

datatype temp_reply =
    TempNotFound | TempNoToken | TempExpired | TempBadToken | TempAddress | TempUsed | TempNoAdmin
  | TempFailed | TempIn user auth_req

definition temp_login ::
  "(string \<Rightarrow> string) \<Rightarrow> temp_env \<Rightarrow> session option \<Rightarrow> auth_req \<Rightarrow> string \<Rightarrow> string \<Rightarrow> int \<Rightarrow> signin \<Rightarrow>
   temp_reply \<times> signin" where
  "temp_login sha e fresh r token ip now s =
     (if \<not> verifyTempLoginEnabled e then (TempNotFound, s)
      else let expected = or_else (te_token e) [];
               expiresAt = (case js_parse_int (or_else (te_expires e) ''0'') of None \<Rightarrow> 0 | Some n \<Rightarrow> n);
               allowlist = parseIpAllowlist (or_else (te_allowlist e) [])
           in if expected = [] then (TempNoToken, s)
              else if 0 < expiresAt \<and> expiresAt < now then (TempExpired, s)
              else if \<not> safeTokenEqual sha token expected then (TempBadToken, s)
              else if allowlist \<noteq> [] \<and> \<not> isIpAllowed ip allowlist then (TempAddress, s)
              else (case consumeTempLoginTokenIfNeeded sha e expected now (si_temp s) of
                      (False, m) \<Rightarrow> (TempUsed, s\<lparr>si_temp := m\<rparr>)
                    | (True, m) \<Rightarrow>
                        (let s1 = s\<lparr>si_temp := m\<rparr>
                         in case sort_key u_id (filter (\<lambda>u. u_is_admin u \<and> \<not> u_is_blocked u) (d_users (si_db s))) of
                              [] \<Rightarrow> (TempNoAdmin, s1)
                            | u # _ \<Rightarrow>
                                if fresh = None then (TempFailed, s1)
                                else (TempIn u (logIn fresh u r),
                                  s1\<lparr>si_db := addAuditLog now (Some (u_id u)) ''temp_login'' [u_username u] ip (si_db s1)\<rparr>))))"

section \<open>Invitation codes and signing out\<close>

datatype invite_reply = InviteForbidden | InviteAnswer invite_answer | InviteBroken

definition generate_invite_route ::
  "(string \<Rightarrow> int option) \<Rightarrow> (nat \<Rightarrow> string) \<Rightarrow> user \<Rightarrow> string \<Rightarrow> int \<Rightarrow> db \<Rightarrow> invite_reply \<times> db" where
  "generate_invite_route engine draw u ip now d =
     (if u_trust_level u < 1 then (InviteForbidden, d)
      else case generateInviteCodeForUser engine draw (u_id u) (u_is_admin u) now d of
             (InviteMade (Some i) t, d') \<Rightarrow>
               (InviteAnswer (InviteMade (Some i) t),
                addAuditLog now (Some (u_id u)) ''invite_code_generate'' [iv_code i] ip d')
           | (InviteMade None t, d') \<Rightarrow> (InviteBroken, d')
           | (InviteRefused i t, d') \<Rightarrow> (InviteAnswer (InviteRefused i t), d')
           | (InviteFailed, d') \<Rightarrow> (InviteBroken, d'))"

definition logout_route :: "auth_req \<Rightarrow> string \<Rightarrow> int \<Rightarrow> db \<Rightarrow> auth_req \<times> db" where
  "logout_route r ip now d =
     (logout r,
      case ar_user r of None \<Rightarrow> d | Some u \<Rightarrow> addAuditLog now (Some (u_id u)) ''logout'' [u_username u] ip d)"

section \<open>Sign-in at the provider\<close>

record oauth_saved =
  oa_state :: string
  oa_nonce :: string
  oa_created :: int

record oauth_query =
  oq_error :: "string option"
  oq_code :: "string option"
  oq_state :: "string option"

record oauth_profile =
  op_sub :: string
  op_preferred :: "string option"
  op_username :: "string option"
  op_nickname :: "string option"
  op_name :: "string option"
  op_email :: "string option"
  op_pictures :: "string option list"

datatype oauth_message = MissingConfig | InvalidState | NoCode | OAuthFailed

definition getOAuthErrorMessage :: "string \<Rightarrow> oauth_message" where
  "getOAuthErrorMessage message =
     (if js_includes ''missing_config'' message then MissingConfig
      else if js_includes ''invalid_state'' message then InvalidState
      else if js_includes ''no_code'' message then NoCode else OAuthFailed)"

definition oauth_open :: "db \<Rightarrow> bool" where
  "oauth_open d \<longleftrightarrow> getSetting d ''nodeloc_login_open'' \<noteq> Some ''false''"

datatype oauth_reply =
    OAuthClosed | OAuthError oauth_message | OAuthRegistrationPaused | OAuthBlocked | OAuthLoginFailed
  | OAuthIn user auth_req

text \<open>The address the provider is asked with carries \<open>state\<close> and \<open>nonce\<close>; they are kept in the session.\<close>

definition nodeloc_start :: "bool \<Rightarrow> string \<Rightarrow> string \<Rightarrow> int \<Rightarrow> db \<Rightarrow> oauth_reply + oauth_saved" where
  "nodeloc_start configured state nonce now d =
     (if \<not> oauth_open d then Inl OAuthClosed
      else if \<not> configured then Inl (OAuthError (getOAuthErrorMessage ''missing_config''))
      else Inr \<lparr>oa_state = state, oa_nonce = nonce, oa_created = now\<rparr>)"

definition first_truthy :: "string option list \<Rightarrow> string \<Rightarrow> string" where
  "first_truthy xs z = (case find truthy xs of Some (Some v) \<Rightarrow> v | _ \<Rightarrow> z)"

definition oauth_user ::
  "reg_draws \<Rightarrow> oauth_profile \<Rightarrow> string \<Rightarrow> int \<Rightarrow> db \<Rightarrow> (oauth_reply + user) \<times> db" where
  "oauth_user draws p ip now d =
     (let seed = first_truthy [op_preferred p, op_username p, op_nickname p, op_name p, op_email p] (op_sub p)
      in case getUserByOAuth ''nodeloc'' (op_sub p) d of
           Some u \<Rightarrow> (Inr u, d)
         | None \<Rightarrow>
             if getSetting d ''nodeloc_registration_open'' = Some ''false''
             then (Inl OAuthRegistrationPaused, addAuditLog now None ''register_blocked'' [seed] ip d)
             else (case createOAuthUser (rd_gen draws) (rd_token draws) now ''nodeloc'' (op_sub p) seed
                     (or_else (op_email p) []) (first_truthy [op_name p, op_nickname p] seed)
                     (first_truthy (op_pictures p) []) ip d of
                     Inl e \<Rightarrow> (Inl (OAuthError OAuthFailed), d)
                   | Inr (u, d') \<Rightarrow> (Inr u, d')))"

text \<open>\<open>profile\<close> is what the provider says about the code, \<open>None\<close> when an exchange fails. The second
  component is what is left of the saved state.\<close>

definition handleNodeLocCallback ::
  "(string \<Rightarrow> string) \<Rightarrow> (int \<Rightarrow> string) \<Rightarrow> reg_draws \<Rightarrow> bool \<Rightarrow> session option \<Rightarrow> auth_req \<Rightarrow> oauth_query \<Rightarrow>
   (string \<Rightarrow> oauth_profile option) \<Rightarrow> string \<Rightarrow> int \<Rightarrow> oauth_saved option \<Rightarrow> db \<Rightarrow>
   oauth_reply \<times> oauth_saved option \<times> db" where
  "handleNodeLocCallback sha gen draws configured fresh r q profile ip now saved d =
     (if \<not> oauth_open d then (OAuthClosed, saved, d)
      else if \<not> configured then (OAuthError (getOAuthErrorMessage ''missing_config''), saved, d)
      else if truthy (oq_error q) then (OAuthError (getOAuthErrorMessage (the (oq_error q))), saved, d)
      else if \<not> truthy (oq_code q) then (OAuthError (getOAuthErrorMessage ''no_code''), saved, d)
      else (case saved of
              None \<Rightarrow> (OAuthError InvalidState, None, d)
            | Some sv \<Rightarrow>
                if \<not> truthy (oq_state q) \<or> \<not> safeTokenEqual sha (oa_state sv) (the (oq_state q))
                then (OAuthError InvalidState, None, d)
                else if 10 * 60 * 1000 < now - oa_created sv then (OAuthError InvalidState, None, d)
                else (case profile (the (oq_code q)) of
                        None \<Rightarrow> (OAuthError OAuthFailed, None, d)
                      | Some p \<Rightarrow>
                          (case oauth_user draws p ip now d of
                             (Inl e, d1) \<Rightarrow> (e, None, d1)
                           | (Inr u, d1) \<Rightarrow>
                               if u_is_blocked u then (OAuthBlocked, None, d1)
                               else if fresh = None then (OAuthLoginFailed, None, d1)
                               else (OAuthIn u (logIn fresh u r), None,
                                 login_release gen [''inactive'', ''traffic'', ''traffic_limit''] u ip now
                                   (note_login ''login_nodeloc'' u ip now d1))))))"

end
