(* ===== verification/AccountFacts.thy ===== *)
theory AccountFacts
  imports TgGame
begin

text \<open>
  Facts about accounts that the components built on them share: what the operations leave
  alone, what freezing does to credentials, and the invariant that a frozen account holds none.
\<close>

section \<open>Frames\<close>

lemma unfreeze_frame [simp]:
  "d_plots (unfreezeUser gen uid d) = d_plots d"
  "d_seeds (unfreezeUser gen uid d) = d_seeds d"
  "d_steals (unfreezeUser gen uid d) = d_steals d"
  "d_lucky (unfreezeUser gen uid d) = d_lucky d"
  "d_rps (unfreezeUser gen uid d) = d_rps d"
  "d_flip (unfreezeUser gen uid d) = d_flip d"
  "d_totals (unfreezeUser gen uid d) = d_totals d"
  "d_nodes (unfreezeUser gen uid d) = d_nodes d"
  "d_settings (unfreezeUser gen uid d) = d_settings d"
  by (simp_all add: unfreezeUser_def Let_def)

lemma unfreeze_users:
  "d_users (unfreezeUser gen uid d) =
   d_users (update_user uid (\<lambda>u. u\<lparr>u_is_frozen := False, u_freeze_reason := None\<rparr>) d)"
  by (simp add: unfreezeUser_def Let_def)

lemma try_unfreeze_frame [simp]:
  "d_plots (tryUnfreezeAfterTraffic gen now uid d) = d_plots d"
  "d_seeds (tryUnfreezeAfterTraffic gen now uid d) = d_seeds d"
  "d_steals (tryUnfreezeAfterTraffic gen now uid d) = d_steals d"
  "d_lucky (tryUnfreezeAfterTraffic gen now uid d) = d_lucky d"
  "d_rps (tryUnfreezeAfterTraffic gen now uid d) = d_rps d"
  "d_flip (tryUnfreezeAfterTraffic gen now uid d) = d_flip d"
  "d_totals (tryUnfreezeAfterTraffic gen now uid d) = d_totals d"
  "d_settings (tryUnfreezeAfterTraffic gen now uid d) = d_settings d"
  by (simp_all add: tryUnfreezeAfterTraffic_def split: option.splits)

lemma freeze_frame [simp]:
  "d_plots (freezeUser uid reason d) = d_plots d"
  "d_totals (freezeUser uid reason d) = d_totals d"
  "d_nodes (freezeUser uid reason d) = d_nodes d"
  "d_settings (freezeUser uid reason d) = d_settings d"
  "d_daily (freezeUser uid reason d) = d_daily d"
  "d_checkin (freezeUser uid reason d) = d_checkin d"
  by (simp_all add: freezeUser_def Let_def)

lemma freeze_users:
  "d_users (freezeUser uid reason d) =
   d_users (update_user uid (\<lambda>u. u\<lparr>u_is_frozen := True, u_freeze_reason := Some reason\<rparr>) d)"
  by (simp add: freezeUser_def Let_def)

lemma freeze_uuids: "d_uuids (freezeUser uid reason d) = delete_where (\<lambda>r. uu_user r = uid) (d_uuids d)"
  by (simp add: freezeUser_def Let_def)

text \<open>The flag columns and the quota of an account, which the sweeps must respect.\<close>

lemma freeze_user_by_id:
  "user_by_id (freezeUser uid reason d) k =
   (if k = uid then map_option (\<lambda>u. u\<lparr>u_is_frozen := True, u_freeze_reason := Some reason\<rparr>) (user_by_id d k)
    else user_by_id d k)"
  using user_by_id_update_user [of "\<lambda>u. u\<lparr>u_is_frozen := True, u_freeze_reason := Some reason\<rparr>" uid d k]
  by (simp add: user_by_id_def freeze_users)

section \<open>Frozen accounts hold no credentials\<close>

definition frozen_clean :: "db \<Rightarrow> bool" where
  "frozen_clean d \<longleftrightarrow> (\<forall>u \<in> set (d_users d). u_is_frozen u \<longrightarrow> u_id u \<notin> uu_user ` set (d_uuids d))"

lemma frozen_clean_freeze [table_keys]: "frozen_clean d \<Longrightarrow> frozen_clean (freezeUser uid reason d)"
  by (auto simp: frozen_clean_def freeze_users freeze_uuids update_user_def set_update_where)

lemma frozen_clean_ensure [table_keys]:
  assumes "frozen_clean d" and "distinct (map u_id (d_users d))"
  shows "frozen_clean (ensureUserHasAllNodeUuids gen uid d)"
proof (cases "user_by_id d uid")
  case (Some v)
  note v = user_by_id_SomeD [OF Some]
  show ?thesis
  proof (cases "u_is_frozen v \<or> u_is_blocked v")
    case False
    have "uu_user ` set (d_uuids (ensureUserHasAllNodeUuids gen uid d)) \<subseteq> insert uid (uu_user ` set (d_uuids d))"
    proof -
      have "uu_user ` set (d_uuids (ensureUserHasAllNodeUuids gen uid d)) =
          fst ` uuid_key ` set (d_uuids (ensureUserHasAllNodeUuids gen uid d))"
        by (simp add: image_image)
      also have "\<dots> \<subseteq> insert uid (uu_user ` set (d_uuids d))"
        unfolding ensure_user_complete [OF Some, of gen] using ensure_user_complete [OF Some, of gen] False
        by (auto simp: image_image)
      finally show ?thesis .
    qed
    moreover have "u_id u \<noteq> uid" if "u \<in> set (d_users d)" "u_is_frozen u" for u
      using that v False assms(2) by (auto simp: distinct_map dest: inj_onD)
    ultimately show ?thesis using assms(1) by (fastforce simp: frozen_clean_def)
  qed (use assms(1) Some in \<open>auto simp: ensureUserHasAllNodeUuids_def\<close>)
qed (use assms(1) in \<open>auto simp: ensureUserHasAllNodeUuids_def\<close>)

lemma frozen_clean_cong:
  "d_users d' = d_users d \<Longrightarrow> d_uuids d' = d_uuids d \<Longrightarrow> frozen_clean d' = frozen_clean d"
  by (simp add: frozen_clean_def)

lemma frozen_clean_update_other:
  assumes "frozen_clean d" and "\<And>u. u_id (f u) = u_id u" and "\<And>u. u_is_frozen (f u) \<longrightarrow> u_is_frozen u"
  shows "frozen_clean (update_user uid f d)"
  using assms by (auto simp: frozen_clean_def update_user_def set_update_where)

lemma frozen_clean_unfreeze [table_keys]:
  assumes "frozen_clean d" and "distinct (map u_id (d_users d))"
  shows "frozen_clean (unfreezeUser gen uid d)"
proof -
  let ?d = "update_user uid (\<lambda>u. u\<lparr>u_is_frozen := False, u_freeze_reason := None\<rparr>) d"
  have "frozen_clean ?d" by (rule frozen_clean_update_other [OF assms(1)]) auto
  moreover have "distinct (map u_id (d_users ?d))" using assms(2) by (simp add: update_user_ids)
  ultimately show ?thesis by (simp add: unfreezeUser_def Let_def frozen_clean_ensure)
qed

lemma fold_freeze_users:
  "map u_id (d_users (freeze_all reason us d)) = map u_id (d_users d)"
  "frozen_clean d \<Longrightarrow> frozen_clean (freeze_all reason us d)"
  by (induction us arbitrary: d)
    (simp_all add: freeze_all_def freeze_users update_user_ids frozen_clean_freeze)

lemma freeze_all_user_by_id:
  "user_by_id (freeze_all reason us d) k =
   (if k \<in> u_id ` set us
    then map_option (\<lambda>u. u\<lparr>u_is_frozen := True, u_freeze_reason := Some reason\<rparr>) (user_by_id d k)
    else user_by_id d k)"
proof (induction us arbitrary: d)
  case (Cons u us)
  have "freeze_all reason (u # us) d = freeze_all reason us (freezeUser (u_id u) reason d)"
    by (simp add: freeze_all_def)
  then show ?case
    by (auto simp: Cons.IH freeze_user_by_id option.map_comp comp_def)
qed (simp add: freeze_all_def)

end
