(* ===== verification/SignInProps.thy ===== *)
theory SignInProps
  imports SignIn Contracts Samples AccountFacts
begin

text \<open>
  The properties of registration and sign-in: a registration and a new password need the code that
  was sent, the codes that can be tried in an hour are bounded whatever requests come in between,
  the emergency token signs in once, the provider's state is used once; and two gaps: refused
  mails use up the hourly limit of the whole site, and a sign-in at the provider releases an
  account that is out of quota.
\<close>

section \<open>Runs\<close>

datatype signin_op =
    AskCode string string string
  | AskReset string string
  | CodeMailFailed string
  | ResetMailFailed string
  | Register reg_draws "session option" auth_req reg_form
  | Reset string string string string string
  | SweepCodes

datatype signin_out = Sent send_reply | Registered reg_reply | ResetAnswer reset_reply | Quiet

fun signin_step :: "(string \<Rightarrow> string) \<Rightarrow> kdf \<Rightarrow> signin_op \<times> int \<Rightarrow> signin \<Rightarrow> signin_out \<times> signin" where
  "signin_step sha kdf (AskCode email invite code, now) s =
     (case send_email_code email invite code now s of (r, s') \<Rightarrow> (Sent r, s'))"
| "signin_step sha kdf (AskReset email code, now) s =
     (case forgot_send_code email code now s of (r, s') \<Rightarrow> (Sent r, s'))"
| "signin_step sha kdf (CodeMailFailed email, now) s = (Quiet, email_code_failed email s)"
| "signin_step sha kdf (ResetMailFailed email, now) s = (Quiet, forgot_code_failed email s)"
| "signin_step sha kdf (Register draws fresh r f, now) s =
     (case email_register sha kdf draws fresh r f now s of (a, s') \<Rightarrow> (Registered a, s'))"
| "signin_step sha kdf (Reset salt email code password ip, now) s =
     (case forgot_reset sha kdf salt email code password ip now s of (a, s') \<Rightarrow> (ResetAnswer a, s'))"
| "signin_step sha kdf (SweepCodes, now) s = (Quiet, cleanupExpiredCodes now s)"

section \<open>What the steps do to the reset codes and the mail counters\<close>

lemma take_send_keeps:
  assumes "take_send codes email now s = (r, s')"
  shows "si_forgot s' = si_forgot s" "si_codes s' = si_codes s" "si_db s' = si_db s" "si_temp s' = si_temp s"
    and "r \<noteq> None \<Longrightarrow> si_recipients s' = si_recipients s"
    and "r = None \<Longrightarrow> si_recipients s' = js_set email (recent_times now email s @ [now]) (si_recipients s) \<and>
      length (recent_times now email s) < RECIPIENT_HOURLY_LIMIT"
  using assms
  by (auto simp: take_send_def checkGlobalSendLimit_def checkRecipientLimit_def recent_times_def Let_def
      split: if_splits prod.splits bool.splits)

lemma send_email_code_cases:
  assumes "send_email_code rawEmail rawInvite code now s = (r, s')"
  obtains (same) "si_forgot s' = si_forgot s" "si_recipients s' = si_recipients s"
  | (sent) "si_forgot s' = si_forgot s" "length (recent_times now (js_lower (js_trim rawEmail)) s) < RECIPIENT_HOURLY_LIMIT"
      "si_recipients s' = js_set (js_lower (js_trim rawEmail))
        (recent_times now (js_lower (js_trim rawEmail)) s @ [now]) (si_recipients s)"
proof (cases "take_send si_codes (js_lower (js_trim rawEmail)) now s")
  case (Pair e s1)
  note k = take_send_keeps [OF Pair]
  show thesis
    using assms k same sent
    by (cases e) (auto simp: send_email_code_def Let_def Pair split: if_splits option.splits)
qed

lemma forgot_send_code_cases:
  assumes "forgot_send_code rawEmail code now s = (r, s')"
  obtains (same) "si_forgot s' = si_forgot s" "si_recipients s' = si_recipients s"
  | (sent) "r = SendCode (js_lower (js_trim rawEmail)) code"
      "si_forgot s' = js_set (js_lower (js_trim rawEmail)) (fresh_entry code now) (si_forgot s)"
      "length (recent_times now (js_lower (js_trim rawEmail)) s) < RECIPIENT_HOURLY_LIMIT"
      "si_recipients s' = js_set (js_lower (js_trim rawEmail))
        (recent_times now (js_lower (js_trim rawEmail)) s @ [now]) (si_recipients s)"
proof (cases "take_send si_forgot (js_lower (js_trim rawEmail)) now s")
  case (Pair e s1)
  note k = take_send_keeps [OF Pair]
  show thesis
    using assms k same sent
    by (cases e) (auto simp: forgot_send_code_def Let_def Pair split: if_splits option.splits)
qed

lemma check_code_keeps:
  "check_code sha email code now s = (r, s') \<Longrightarrow>
   si_forgot s' = si_forgot s \<and> si_recipients s' = si_recipients s \<and> si_db s' = si_db s"
  by (auto simp: check_code_def Let_def split: option.splits if_splits)

lemma email_register_keeps:
  assumes "email_register sha kdf draws fresh r f now s = (a, s')"
  shows "si_forgot s' = si_forgot s" "si_recipients s' = si_recipients s"
proof -
  obtain e s1 where c: "check_code sha (js_lower (js_trim (rf_email f))) (filter (\<lambda>c. \<not> js_space c) (rf_code f)) now s = (e, s1)"
    by fastforce
  note k = check_code_keeps [OF c]
  show "si_forgot s' = si_forgot s" "si_recipients s' = si_recipients s"
    using assms k
    by (auto simp: email_register_def Let_def c split: if_splits option.splits prod.splits sum.splits)
qed

text \<open>The reply of a reset for which the code was compared.\<close>

fun compared :: "reset_reply \<Rightarrow> bool" where
  "compared (ResetRefused e) = (e \<notin> {CodeExpired, TooManyAttempts})"
| "compared ResetDone = True"

lemma forgot_reset_cases:
  assumes "forgot_reset sha kdf salt rawEmail rawCode password ip now s = (a, s')"
  obtains (dropped) "\<not> compared a" "si_recipients s' = si_recipients s"
      "si_forgot s' = filter (\<lambda>e. fst e \<noteq> js_lower (js_trim rawEmail)) (si_forgot s)"
  | (tried) stored where "js_get (si_forgot s) (js_lower (js_trim rawEmail)) = Some stored"
      "vc_attempts stored < 5" "si_recipients s' = si_recipients s" "a \<noteq> ResetDone"
      "si_forgot s' = js_set (js_lower (js_trim rawEmail)) (stored\<lparr>vc_attempts := vc_attempts stored + 1\<rparr>) (si_forgot s)"
  | (reset) stored u where "js_get (si_forgot s) (js_lower (js_trim rawEmail)) = Some stored"
      "\<not> vc_expires stored < now" "vc_attempts stored < 5" "safeTokenEqual sha (vc_code stored) (js_trim rawCode)"
      "8 \<le> length password" "length password \<le> 128"
      "getUserByEmail (js_lower (js_trim rawEmail)) (si_db s) = Some u" "a = ResetDone"
      "s' = s\<lparr>si_forgot := filter (\<lambda>e. fst e \<noteq> js_lower (js_trim rawEmail)) (si_forgot s),
        si_db := addAuditLog now (Some (u_id u)) ''password_reset'' [u_username u] ip
          (update_user (u_id u) (\<lambda>v. v\<lparr>u_password_hash := hashPassword kdf salt password\<rparr>) (si_db s))\<rparr>"
proof (cases "js_get (si_forgot s) (js_lower (js_trim rawEmail))")
  case None
  then show thesis using assms dropped by (auto simp: forgot_reset_def Let_def)
next
  case (Some stored)
  show thesis
  proof (cases "vc_expires stored < now \<or> 5 \<le> vc_attempts stored")
    case True
    then show thesis using assms Some dropped by (auto simp: forgot_reset_def Let_def split: if_splits)
  next
    case False
    show thesis
      using assms Some False tried [OF Some] reset [OF Some]
      by (auto simp: forgot_reset_def Let_def not_less not_le split: if_splits option.splits)
  qed
qed

section \<open>How many codes can be tried\<close>

definition sent_since :: "string \<Rightarrow> int \<Rightarrow> signin \<Rightarrow> nat" where
  "sent_since e t0 s =
     length (filter (\<lambda>t. t0 \<le> t) (case js_get (si_recipients s) e of None \<Rightarrow> [] | Some ts \<Rightarrow> ts))"

text \<open>Five for every mail the address can still get in the hour, and what is left of the current code.\<close>

definition guesses_left :: "string \<Rightarrow> int \<Rightarrow> signin \<Rightarrow> nat" where
  "guesses_left e t0 s =
     5 * (10 - sent_since e t0 s) +
     (case js_get (si_forgot s) e of None \<Rightarrow> 0 | Some en \<Rightarrow> 5 - vc_attempts en)"

fun guessed :: "string \<Rightarrow> signin_op \<times> int \<Rightarrow> signin_out \<Rightarrow> bool" where
  "guessed e (Reset salt email code password ip, now) (ResetAnswer a) = (js_lower (js_trim email) = e \<and> compared a)"
| "guessed e _ _ = False"

definition in_hour :: "int \<Rightarrow> signin_op \<times> int \<Rightarrow> bool" where
  "in_hour t0 req \<longleftrightarrow> t0 \<le> snd req \<and> snd req < t0 + 3600000"

lemma sent_since_other: "js_get (si_recipients s') e = js_get (si_recipients s) e \<Longrightarrow> sent_since e t0 s' = sent_since e t0 s"
  by (simp add: sent_since_def)

lemma sent_since_send:
  assumes "si_recipients s' = js_set k (recent_times now k s @ [now]) (si_recipients s)"
    and "length (recent_times now k s) < RECIPIENT_HOURLY_LIMIT" and "t0 \<le> now" and "now < t0 + 3600000"
  shows "sent_since e t0 s' = (if e = k then Suc (sent_since e t0 s) else sent_since e t0 s)"
    and "e = k \<Longrightarrow> sent_since e t0 s < 10"
proof -
  let ?ts = "case js_get (si_recipients s) k of None \<Rightarrow> [] | Some ts \<Rightarrow> ts"
  have f: "filter (\<lambda>t. t0 \<le> t) (recent_times now k s) = filter (\<lambda>t. t0 \<le> t) ?ts"
    using assms(3,4) by (auto simp: recent_times_def intro!: filter_cong)
  then show "sent_since e t0 s' = (if e = k then Suc (sent_since e t0 s) else sent_since e t0 s)"
    using assms(1,3) by (simp add: sent_since_def)
  have "length (filter (\<lambda>t. t0 \<le> t) (recent_times now k s)) \<le> length (recent_times now k s)" by simp
  then show "e = k \<Longrightarrow> sent_since e t0 s < 10"
    using assms(2) f by (simp add: sent_since_def RECIPIENT_HOURLY_LIMIT_def)
qed

lemma guesses_left_same:
  "si_forgot s' = si_forgot s \<Longrightarrow> si_recipients s' = si_recipients s \<Longrightarrow> guesses_left e t0 s' = guesses_left e t0 s"
  by (simp add: guesses_left_def sent_since_def)

lemma guesses_left_filter:
  assumes "si_forgot s' = filter P (si_forgot s)" and "si_recipients s' = si_recipients s" and "js_keys_distinct (si_forgot s)"
  shows "guesses_left e t0 s' \<le> guesses_left e t0 s"
  using assms by (simp add: guesses_left_def sent_since_def js_get_filter split: option.split)

lemma guess_step:
  assumes "js_keys_distinct (si_forgot s)"
  shows "js_keys_distinct (si_forgot (snd (signin_step sha kdf req s)))"
    and "in_hour t0 req \<Longrightarrow> guesses_left e t0 (snd (signin_step sha kdf req s)) +
      (if guessed e req (fst (signin_step sha kdf req s)) then 1 else 0) \<le> guesses_left e t0 s"
proof -
  obtain oper now where req: "req = (oper, now)" by fastforce
  have "js_keys_distinct (si_forgot (snd (signin_step sha kdf req s))) \<and>
    (in_hour t0 req \<longrightarrow> guesses_left e t0 (snd (signin_step sha kdf req s)) +
      (if guessed e req (fst (signin_step sha kdf req s)) then 1 else 0) \<le> guesses_left e t0 s)"
  proof (cases oper)
    case (AskCode email invite code)
    obtain r s' where c: "send_email_code email invite code now s = (r, s')" by fastforce
    then show ?thesis
    proof (cases rule: send_email_code_cases)
      case same
      then show ?thesis using assms by (simp add: req AskCode c guesses_left_same [OF same])
    next
      case sent
      note k = sent_since_send [OF sent(3,2), of t0 e]
      show ?thesis using assms sent(1) k by (auto simp: req AskCode c in_hour_def guesses_left_def)
    qed
  next
    case (AskReset email code)
    obtain r s' where c: "forgot_send_code email code now s = (r, s')" by fastforce
    then show ?thesis
    proof (cases rule: forgot_send_code_cases)
      case same
      then show ?thesis using assms by (simp add: req AskReset c guesses_left_same [OF same])
    next
      case sent
      note k = sent_since_send [OF sent(4,3), of t0 e]
      have d: "js_keys_distinct (si_forgot s')" using assms by (simp add: sent(2) distinct_update)
      have "guesses_left e t0 s' \<le> guesses_left e t0 s" if "in_hour t0 req"
      proof (cases "e = js_lower (js_trim email)")
        case True
        then show ?thesis using k that by (simp add: req in_hour_def guesses_left_def sent(2) fresh_entry_def)
      next
        case False
        then show ?thesis using k(1) that by (simp add: req in_hour_def guesses_left_def sent(2))
      qed
      then show ?thesis using d by (simp add: req AskReset c)
    qed
  next
    case (CodeMailFailed email)
    then show ?thesis using assms by (simp add: req email_code_failed_def guesses_left_def sent_since_def)
  next
    case (ResetMailFailed email)
    then show ?thesis using assms
      guesses_left_filter [where s = s and s' = "forgot_code_failed email s" and P = "\<lambda>x. fst x \<noteq> email" and e = e]
      by (simp add: req forgot_code_failed_def distinct_js_filter)
  next
    case (Register draws fresh r f)
    obtain a s' where c: "email_register sha kdf draws fresh r f now s = (a, s')" by fastforce
    show ?thesis using assms email_register_keeps [OF c] by (simp add: req Register c guesses_left_same [OF email_register_keeps [OF c]])
  next
    case (Reset salt email code password ip)
    obtain a s' where c: "forgot_reset sha kdf salt email code password ip now s = (a, s')" by fastforce
    then show ?thesis
    proof (cases rule: forgot_reset_cases)
      case dropped
      then show ?thesis using assms guesses_left_filter [OF dropped(3,2) assms, of e t0]
        by (simp add: req Reset c distinct_js_filter)
    next
      case (tried stored)
      then show ?thesis using assms
        by (auto simp: req Reset c guesses_left_def sent_since_def distinct_update)
    next
      case (reset stored u)
      have "guesses_left e t0 s' + (if e = js_lower (js_trim email) then 1 else 0) \<le> guesses_left e t0 s"
        using reset(1,3) by (auto simp: reset(9) guesses_left_def sent_since_def js_get_remove)
      moreover have "js_keys_distinct (si_forgot s')" using assms by (simp add: reset(9) distinct_js_filter)
      ultimately show ?thesis by (auto simp: req Reset c)
    qed
  next
    case SweepCodes
    then show ?thesis using assms
      guesses_left_filter [where s = s and s' = "cleanupExpiredCodes now s" and P = "\<lambda>x. \<not> vc_expires (snd x) < now" and e = e]
      by (simp add: req cleanupExpiredCodes_def distinct_js_filter)
  qed
  then show "js_keys_distinct (si_forgot (snd (signin_step sha kdf req s)))"
    and "in_hour t0 req \<Longrightarrow> guesses_left e t0 (snd (signin_step sha kdf req s)) +
      (if guessed e req (fst (signin_step sha kdf req s)) then 1 else 0) \<le> guesses_left e t0 s" by blast+
qed

interpretation reset_guesses:
  budget "\<lambda>s. js_keys_distinct (si_forgot s)" "guesses_left e t0" "signin_step sha kdf" "guessed e" "in_hour t0"
proof
  fix s :: signin and req assume s: "js_keys_distinct (si_forgot s)"
  show "js_keys_distinct (si_forgot (snd (signin_step sha kdf req s)))" by (rule guess_step(1) [OF s])
  assume "in_hour t0 req"
  note left = guess_step(2) [OF s this, of e sha kdf]
  show "guesses_left e t0 (snd (signin_step sha kdf req s)) \<le> guesses_left e t0 s" using left by simp
  assume "guessed e req (fst (signin_step sha kdf req s))"
  then show "Suc (guesses_left e t0 (snd (signin_step sha kdf req s))) \<le> guesses_left e t0 s" using left by simp
qed

text \<open>C24: in any hour at most fifty-five codes are compared with the reset codes of an address, whatever
  codes are sent, failed, swept or tried for it and for others: five for each of the ten mails the
  address can get and five for a code sent before.\<close>

theorem reset_guesses_bounded:
  assumes "js_keys_distinct (si_forgot s)" and "\<forall>req \<in> set reqs. in_hour start req"
  shows "length (filter (\<lambda>x. guessed e (fst x) (snd x)) (zip reqs (fst (run_ops (signin_step sha kdf) reqs s)))) \<le> 55"
proof -
  have "10 - sent_since e start s \<le> 10" "5 - k \<le> 5" for k :: nat by simp_all
  then have "guesses_left e start s \<le> 5 * 10 + 5"
    unfolding guesses_left_def by (intro add_mono mult_le_mono2) (simp_all split: option.split)
  then show ?thesis
    using reset_guesses.run_spends [OF assms(1), of reqs start e sha kdf] assms(2) by fastforce
qed

definition sample_signin :: signin where
  "sample_signin = \<lparr>si_codes = [], si_forgot = [(''a@b.c'', fresh_entry ''123456'' 1000)], si_sent = 0, si_window = 0,
     si_recipients = [], si_temp = [], si_db = sample_db\<rparr>"

theorem reset_guesses_bounded_witness:
  "length (filter (\<lambda>x. guessed ''a@b.c'' (fst x) (snd x))
     (zip (replicate 100 (Reset ''s'' ''a@b.c'' ''000000'' ''password'' ''i'', 2000))
       (fst (run_ops (signin_step (\<lambda>x. x) sample_kdf) (replicate 100 (Reset ''s'' ''a@b.c'' ''000000'' ''password'' ''i'', 2000))
         sample_signin)))) \<le> 55"
  by (rule reset_guesses_bounded [where start = 1000]) (simp_all add: sample_signin_def in_hour_def)

text \<open>C32: a password is only replaced on a request that carries the code last sent to the address, not
  expired and not tried five times before; the code is then gone, the account of the address has
  the hash of the given password, and no other account is touched.\<close>

theorem reset_needs_code:
  assumes "forgot_reset sha kdf salt rawEmail rawCode password ip now s = (ResetDone, s')"
    and "\<And>a b. sha a = sha b \<Longrightarrow> a = b"
  shows "\<exists>stored u. js_get (si_forgot s) (js_lower (js_trim rawEmail)) = Some stored \<and>
      vc_code stored = js_trim rawCode \<and> now \<le> vc_expires stored \<and> vc_attempts stored < 5 \<and>
      getUserByEmail (js_lower (js_trim rawEmail)) (si_db s) = Some u \<and>
      js_get (si_forgot s') (js_lower (js_trim rawEmail)) = None \<and>
      (\<forall>k. user_by_id (si_db s') k = (if k = u_id u
         then map_option (\<lambda>v. v\<lparr>u_password_hash := hashPassword kdf salt password\<rparr>) (user_by_id (si_db s) k)
         else user_by_id (si_db s) k))"
  using assms(1)
proof (cases rule: forgot_reset_cases)
  case (reset stored u)
  have "vc_code stored = js_trim rawCode" using reset(4) assms(2) by (simp add: safeTokenEqual_def)
  moreover have "user_by_id (addAuditLog n w a g p d) k = user_by_id d k" for n w a g p d k
    by (simp add: addAuditLog_def user_by_id_def)
  ultimately show ?thesis using reset(1,2,3,7)
    by (auto simp: reset(9) js_get_remove not_less intro!: exI [of _ stored] exI [of _ u])
qed auto

theorem reset_needs_code_witness:
  "u_password_hash (the (user_by_id (si_db (snd (forgot_reset (\<lambda>x. x) sample_kdf ''s'' ''a@b.c'' ''123456'' ''password'' ''i'' 2000
      sample_signin))) 1)) = hashPassword sample_kdf ''s'' ''password''"
proof -
  have u: "getUserByEmail ''a@b.c'' (si_db sample_signin) = Some (sample_user 1 3 0)"
    by (simp add: getUserByEmail_def sample_signin_def sample_db_def sample_user_def js_lower_def js_trim_def
        js_lower_char_def js_space_def Let_def)
  have "js_lower (js_trim ''a@b.c'') = ''a@b.c''" by code_simp
  moreover have "js_trim ''123456'' = ''123456''" by code_simp
  ultimately have "fst (forgot_reset (\<lambda>x. x) sample_kdf ''s'' ''a@b.c'' ''123456'' ''password'' ''i'' 2000 sample_signin) = ResetDone"
    using u by (simp add: forgot_reset_def sample_signin_def fresh_entry_def CODE_TTL_def safeTokenEqual_def Let_def)
  then have r: "forgot_reset (\<lambda>x. x) sample_kdf ''s'' ''a@b.c'' ''123456'' ''password'' ''i'' 2000 sample_signin =
      (ResetDone, snd (forgot_reset (\<lambda>x. x) sample_kdf ''s'' ''a@b.c'' ''123456'' ''password'' ''i'' 2000 sample_signin))"
    by (metis prod.collapse)
  from reset_needs_code [OF r] u \<open>js_lower (js_trim ''a@b.c'') = ''a@b.c''\<close>
  show ?thesis by (auto simp: user_by_id_def sample_signin_def sample_db_def)
qed

section \<open>Registration\<close>

lemma check_code_passed:
  assumes "check_code sha email code now s = (None, s1)"
  obtains stored where "js_get (si_codes s) email = Some stored" "now \<le> vc_expires stored" "vc_attempts stored < 5"
    "safeTokenEqual sha (vc_code stored) code" "s1 = s"
  using assms by (auto simp: check_code_def Let_def split: option.splits if_splits)

fun is_account :: "reg_reply \<Rightarrow> bool" where
  "is_account (RegRefused e) = False"
| "is_account _ = True"

text \<open>C33: an account is only registered on a request that carries the code last sent to its address,
  not expired and with fewer than five errors; the code is then gone, the address was not in use
  even up to the dots and suffixes of its provider, and unless it is the first account the site
  was open for it.\<close>

theorem registration_needs_code:
  assumes "email_register sha kdf draws fresh r f now s = (a, s')" and "is_account a"
    and "\<And>a b. sha a = sha b \<Longrightarrow> a = b"
  shows "\<exists>stored. js_get (si_codes s) (js_lower (js_trim (rf_email f))) = Some stored \<and>
      vc_code stored = filter (\<lambda>c. \<not> js_space c) (rf_code f) \<and> now \<le> vc_expires stored \<and> vc_attempts stored < 5 \<and>
      js_get (si_codes s') (js_lower (js_trim (rf_email f))) = None \<and>
      \<not> isEmailRegistered (js_lower (js_trim (rf_email f))) (si_db s) \<and>
      check_admission (js_lower (js_trim (rf_email f))) (normalizeInviteCode (rf_invite f)) now (si_db s) = None"
proof -
  let ?email = "js_lower (js_trim (rf_email f))"
  obtain e s1 where c: "check_code sha ?email (filter (\<lambda>c. \<not> js_space c) (rf_code f)) now s = (e, s1)" by fastforce
  then have "e = None"
    using assms(1,2) by (auto simp: email_register_def Let_def split: if_splits option.splits)
  then obtain stored where st: "js_get (si_codes s) ?email = Some stored" "now \<le> vc_expires stored"
    "vc_attempts stored < 5" "safeTokenEqual sha (vc_code stored) (filter (\<lambda>c. \<not> js_space c) (rf_code f))" "s1 = s"
    using check_code_passed [of sha ?email "filter (\<lambda>c. \<not> js_space c) (rf_code f)" now s s1] c by metis
  have "vc_code stored = filter (\<lambda>c. \<not> js_space c) (rf_code f)" using st(4) assms(3) by (simp add: safeTokenEqual_def)
  moreover have "\<not> isEmailRegistered ?email (si_db s)"
    and "check_admission ?email (normalizeInviteCode (rf_invite f)) now (si_db s) = None"
    and "si_codes s' = filter (\<lambda>e. fst e \<noteq> ?email) (si_codes s)"
    using assms(1,2) c \<open>e = None\<close> st(5)
    by (auto simp: email_register_def Let_def split: if_splits option.splits prod.splits sum.splits)
  ultimately show ?thesis using st by (simp add: js_get_remove)
qed

definition sample_form :: reg_form where
  "sample_form = \<lparr>rf_email = ''new@b.c'', rf_name = [], rf_password = ''password'', rf_confirm = ''password'',
     rf_code = ''123456'', rf_invite = [], rf_ip = ''i''\<rparr>"

definition sample_draws :: reg_draws where
  "sample_draws = \<lparr>rd_gen = (\<lambda>_. ''g''), rd_token = ''fresh'', rd_salt = ''s''\<rparr>"

definition sample_open :: signin where
  "sample_open = sample_signin\<lparr>si_codes := [(''new@b.c'', fresh_entry ''123456'' 1000)],
     si_db := sample_db\<lparr>d_settings := [(''invite_registration_enabled'', ''false'')]\<rparr>\<rparr>"

definition sample_visitor :: auth_req where
  "sample_visitor = \<lparr>ar_session = None, ar_user = None, ar_authenticated = False\<rparr>"

lemma sample_form_eval:
  "js_lower (js_trim (rf_email sample_form)) = ''new@b.c''" "isValidEmail ''new@b.c''" "\<not> isGmailDotAbuse ''new@b.c''"
  "filter (\<lambda>c. \<not> js_space c) (rf_code sample_form) = ''123456''" "auth_username_seed ''new@b.c'' 2000 = ''new''"
  by code_simp+

lemma sample_open_eval:
  "\<not> isEmailRegistered ''new@b.c'' (si_db sample_open)"
  "check_admission ''new@b.c'' (normalizeInviteCode (rf_invite sample_form)) 2000 (si_db sample_open) = None"
  "auth_available_username ''new'' 2000 (si_db sample_open) = ''new''"
  by code_simp+

lemma sample_open_creates:
  "\<exists>u d'. create_account sample_kdf sample_draws sample_form ''new@b.c'' ''new'' 2000 (si_db sample_open) = (Inr u, d')"
proof -
  have t: "js_trim ''new'' = ''new''" "js_lower (js_trim ''new@b.c'') = ''new@b.c''" by code_simp+
  have "isInviteRegistrationEnabled (si_db sample_open) = False" by code_simp
  then show ?thesis
    by (simp add: create_account_def hashPassword_def sample_kdf_def sample_form_def createEmailUser_def insertEmailUser_def
        insert_user_def insert_row_def t truthy_def Let_def sample_draws_def js_join_def)
      (simp add: sample_open_def sample_signin_def sample_db_def empty_db_def sample_user_def)
qed

lemma sample_registers:
  "is_account (fst (email_register (\<lambda>x. x) sample_kdf sample_draws None sample_visitor sample_form 2000 sample_open))"
proof -
  have c: "check_code (\<lambda>x. x) ''new@b.c'' ''123456'' 2000 sample_open = (None, sample_open)"
    by (simp add: check_code_def sample_open_def fresh_entry_def safeTokenEqual_def CODE_TTL_def)
  have p: "rf_password sample_form = ''password''" "rf_confirm sample_form = ''password''" by (simp_all add: sample_form_def)
  obtain u d' where "create_account sample_kdf sample_draws sample_form ''new@b.c'' ''new'' 2000 (si_db sample_open) = (Inr u, d')"
    using sample_open_creates by blast
  then show ?thesis by (simp add: email_register_def sample_form_eval c p sample_open_eval Let_def)
qed

theorem registration_needs_code_witness:
  "js_get (si_codes (snd (email_register (\<lambda>x. x) sample_kdf sample_draws None sample_visitor sample_form 2000 sample_open)))
     ''new@b.c'' = None"
proof -
  let ?r = "email_register (\<lambda>x. x) sample_kdf sample_draws None sample_visitor sample_form 2000 sample_open"
  have r: "?r = (fst ?r, snd ?r)" by simp
  from registration_needs_code [OF r sample_registers] show ?thesis by (auto simp: sample_form_eval)
qed

section \<open>The hourly limit of the site\<close>

lemma refused_send:
  assumes "js_lower (js_trim e) = e" and "isValidEmail e" and "getUserByEmail e (si_db s) \<noteq> None"
    and "\<not> cooling_down (si_forgot s) e now" and "now - si_window s \<le> 3600000"
    and "RECIPIENT_HOURLY_LIMIT \<le> length (recent_times now e s)" and "si_sent s < GLOBAL_HOURLY_LIMIT"
  shows "forgot_send_code e code now s = (SendRefused RecipientLimit, s\<lparr>si_sent := si_sent s + 1\<rparr>)"
  using assms
  by (simp add: forgot_send_code_def take_send_def checkGlobalSendLimit_def checkRecipientLimit_def recent_times_def Let_def)

lemma refused_sends:
  assumes "js_lower (js_trim e) = e" and "isValidEmail e" and "getUserByEmail e (si_db s) \<noteq> None"
    and "\<not> cooling_down (si_forgot s) e now" and "now - si_window s \<le> 3600000"
    and "RECIPIENT_HOURLY_LIMIT \<le> length (recent_times now e s)" and "si_sent s + n \<le> GLOBAL_HOURLY_LIMIT"
  shows "run_ops (signin_step sha kdf) (replicate n (AskReset e code, now)) s =
    (replicate n (Sent (SendRefused RecipientLimit)), s\<lparr>si_sent := si_sent s + n\<rparr>)"
  using assms(3-7)
proof (induction n arbitrary: s)
  case (Suc n)
  have "recent_times now e (s\<lparr>si_sent := si_sent s + 1\<rparr>) = recent_times now e s" by (simp add: recent_times_def)
  then show ?case
    using Suc.IH [of "s\<lparr>si_sent := si_sent s + 1\<rparr>"] Suc.prems refused_send [OF assms(1,2) Suc.prems(1-4)] by simp
qed simp

text \<open>A mail that is refused because its address has had ten in the last hour counts for the whole
  site all the same: two hundred such requests for one address, none of which sends anything, and
  nobody gets a code until the window ends.\<close>

theorem refused_mails_use_up_hourly_limit:
  assumes "js_lower (js_trim e) = e" and "isValidEmail e" and "getUserByEmail e (si_db s) \<noteq> None"
    and "\<not> cooling_down (si_forgot s) e now" and "now - si_window s \<le> 3600000"
    and "RECIPIENT_HOURLY_LIMIT \<le> length (recent_times now e s)" and "si_sent s \<le> GLOBAL_HOURLY_LIMIT"
    and "run_ops (signin_step sha kdf) (replicate (GLOBAL_HOURLY_LIMIT - si_sent s) (AskReset e code, now)) s = (outs, s')"
    and "js_lower (js_trim f) = f" and "isValidEmail f" and "getUserByEmail f (si_db s) \<noteq> None"
    and "\<not> cooling_down (si_forgot s) f later" and "now \<le> later" and "later - si_window s \<le> 3600000"
  shows "set outs \<subseteq> {Sent (SendRefused RecipientLimit)} \<and> si_forgot s' = si_forgot s \<and>
    fst (forgot_send_code f code2 later s') = SendRefused HourlyLimit"
proof -
  have "si_sent s + (GLOBAL_HOURLY_LIMIT - si_sent s) \<le> GLOBAL_HOURLY_LIMIT" using assms(7) by simp
  note r = refused_sends [OF assms(1-6) this, of sha kdf code]
  then have "outs = replicate (GLOBAL_HOURLY_LIMIT - si_sent s) (Sent (SendRefused RecipientLimit))"
    and s': "s' = s\<lparr>si_sent := GLOBAL_HOURLY_LIMIT\<rparr>"
    using assms(7,8) by simp_all
  then show ?thesis using assms(9-14)
    by (auto simp: forgot_send_code_def take_send_def checkGlobalSendLimit_def Let_def)
qed

text \<open>Alice's address has had ten mails at instant 0; at instant 100000 she asks again and again.\<close>

definition sample_ten :: signin where
  "sample_ten = sample_signin\<lparr>si_forgot := [], si_recipients := [(''a@b.c'', replicate 10 0)]\<rparr>"

theorem refused_mails_use_up_hourly_limit_witness:
  "fst (forgot_send_code ''a@b.c'' ''999999'' 200000
     (snd (run_ops (signin_step (\<lambda>x. x) sample_kdf) (replicate 200 (AskReset ''a@b.c'' ''111111'', 100000)) sample_ten))) =
   SendRefused HourlyLimit"
proof -
  have "js_lower (js_trim ''a@b.c'') = ''a@b.c''" "isValidEmail ''a@b.c''" by code_simp+
  moreover have "getUserByEmail ''a@b.c'' (si_db sample_ten) \<noteq> None"
    by (simp add: getUserByEmail_def sample_ten_def sample_signin_def sample_db_def sample_user_def js_lower_def js_trim_def
        js_lower_char_def js_space_def Let_def)
  moreover have "\<not> cooling_down (si_forgot sample_ten) ''a@b.c'' t" "si_window sample_ten = 0" "si_sent sample_ten = 0" for t
    by (simp_all add: sample_ten_def sample_signin_def cooling_down_def)
  moreover have "RECIPIENT_HOURLY_LIMIT \<le> length (recent_times 100000 ''a@b.c'' sample_ten)"
    by (simp add: recent_times_def sample_ten_def RECIPIENT_HOURLY_LIMIT_def)
  moreover obtain outs s' where r: "run_ops (signin_step (\<lambda>x. x) sample_kdf)
      (replicate 200 (AskReset ''a@b.c'' ''111111'', 100000)) sample_ten = (outs, s')" by fastforce
  ultimately have "fst (forgot_send_code ''a@b.c'' ''999999'' 200000 s') = SendRefused HourlyLimit"
    using refused_mails_use_up_hourly_limit [of "''a@b.c''" sample_ten 100000 "\<lambda>x. x" sample_kdf "''111111''" outs s' "''a@b.c''" 200000]
    by (simp add: GLOBAL_HOURLY_LIMIT_def)
  then show ?thesis by (simp add: r)
qed

section \<open>The provider and the emergency token\<close>

lemma callback_in:
  assumes "handleNodeLocCallback sha gen draws configured fresh r q profile ip now saved d = (OAuthIn u r', rest, d')"
  obtains sv p d1 where "saved = Some sv" "truthy (oq_state q)" "safeTokenEqual sha (oa_state sv) (the (oq_state q))"
    "now - oa_created sv \<le> 600000" "profile (the (oq_code q)) = Some p" "oauth_user draws p ip now d = (Inr u, d1)"
    "\<not> u_is_blocked u" "rest = None" "oauth_open d" "r' = logIn fresh u r"
    "d' = login_release gen [''inactive'', ''traffic'', ''traffic_limit''] u ip now (note_login ''login_nodeloc'' u ip now d1)"
proof -
  have no: "oauth_user draws p ip now d \<noteq> (Inl (OAuthIn u r'), d')" for p
    by (auto simp: oauth_user_def Let_def split: option.splits if_splits sum.splits prod.splits)
  show thesis
    using assms no that unfolding handleNodeLocCallback_def
    by (auto split: if_splits option.splits prod.splits sum.splits)
qed

text \<open>A sign-in through the provider answers the request that this session made in the last ten
  minutes: the saved state is the one that comes back, and it is spent, so the same callback does
  not sign in again; a blocked account is not signed in.\<close>

theorem provider_state_used_once:
  assumes "handleNodeLocCallback sha gen draws configured fresh r q profile ip now saved d = (OAuthIn u r', rest, d')"
    and "\<And>a b. sha a = sha b \<Longrightarrow> a = b"
  shows "(\<exists>sv. saved = Some sv \<and> oq_state q = Some (oa_state sv) \<and> now \<le> oa_created sv + 600000) \<and> \<not> u_is_blocked u \<and>
    (\<forall>fresh2 r2 ip2 later u2 r2' rest2 d2.
       handleNodeLocCallback sha gen draws configured fresh2 r2 q profile ip2 later rest d' \<noteq> (OAuthIn u2 r2', rest2, d2))"
proof -
  obtain sv where sv: "saved = Some sv" "truthy (oq_state q)" "safeTokenEqual sha (oa_state sv) (the (oq_state q))"
    "now - oa_created sv \<le> 600000" "\<not> u_is_blocked u" "rest = None"
    by (rule callback_in [OF assms(1)])
  have "oq_state q = Some (oa_state sv)"
    using sv(2,3) assms(2) by (auto simp: truthy_def safeTokenEqual_def)
  then show ?thesis using sv(1,4,5) by (auto simp: sv(6) elim: callback_in)
qed

text \<open>A sign-in through the provider releases an account that was frozen because its quota is used
  up, and leaves the quota used up: until the next traffic report it has its credentials again.\<close>

theorem provider_sign_in_releases_exhausted:
  assumes "handleNodeLocCallback sha gen draws configured fresh r q profile ip now saved d = (OAuthIn u r', rest, d')"
    and "\<forall>p. profile (the (oq_code q)) = Some p \<longrightarrow> getUserByOAuth ''nodeloc'' (op_sub p) d = Some u"
    and "user_by_id d (u_id u) = Some u" and "u_is_frozen u" and "u_freeze_reason u = Some ''traffic_limit''"
    and "isTrafficExceeded (u_id u) d"
  shows "\<exists>v. user_by_id d' (u_id u) = Some v \<and> \<not> u_is_frozen v \<and> isTrafficExceeded (u_id u) d'"
proof -
  obtain p d1 where p: "profile (the (oq_code q)) = Some p" "oauth_user draws p ip now d = (Inr u, d1)"
    and d': "d' = login_release gen [''inactive'', ''traffic'', ''traffic_limit''] u ip now (note_login ''login_nodeloc'' u ip now d1)"
    by (rule callback_in [OF assms(1)])
  have "d1 = d" using p assms(2) by (simp add: oauth_user_def Let_def)
  define e where "e = note_login ''login_nodeloc'' u ip now d"
  have e: "user_by_id e (u_id u) = Some (u\<lparr>u_last_login := Some (toSqlUtc now)\<rparr>)" "d_totals e = d_totals d"
    using assms(3) by (simp_all add: e_def note_login_def addAuditLog_def user_by_id_def update_user_def find_update_where)
  have d': "d' = add_effect EmitSyncAll (addAuditLog now (Some (u_id u)) ''login_auto_unfreeze'' [u_username u] ip (unfreezeUser gen (u_id u) e))"
    using assms(4,5) by (simp add: d' \<open>d1 = d\<close> login_release_def e_def)
  have u': "user_by_id d' (u_id u) = Some (u\<lparr>u_last_login := Some (toSqlUtc now), u_is_frozen := False, u_freeze_reason := None\<rparr>)"
    using e(1) by (simp add: d' user_by_id_def add_effect_def addAuditLog_def unfreeze_users update_user_def find_update_where)
  moreover have "d_totals d' = d_totals d"
    by (simp add: d' add_effect_def addAuditLog_def e(2))
  ultimately show ?thesis using assms(3,6)
    by (auto simp: isTrafficExceeded_def used_bytes_def split: if_splits)
qed

definition sample_exhausted :: user where
  "sample_exhausted = (sample_user 2 0 GB)\<lparr>u_oauth_provider := Some ''nodeloc'', u_oauth_subject := Some ''s'',
     u_is_frozen := True, u_freeze_reason := Some ''traffic_limit''\<rparr>"

definition sample_provider_db :: db where
  "sample_provider_db = sample_db\<lparr>d_users := [sample_exhausted], d_totals := [\<lparr>ut_user = 2, ut_up = GB, ut_down = GB\<rparr>]\<rparr>"

definition sample_profile :: oauth_profile where
  "sample_profile = \<lparr>op_sub = ''s'', op_preferred = None, op_username = None, op_nickname = None, op_name = None,
     op_email = None, op_pictures = []\<rparr>"

abbreviation sample_return :: "oauth_saved option \<Rightarrow> db \<Rightarrow> oauth_reply \<times> oauth_saved option \<times> db" where
  "sample_return sv d \<equiv> handleNodeLocCallback (\<lambda>x. x) (\<lambda>_. ''g'') sample_draws True
     (Some \<lparr>ss_user = None, ss_csrf = None\<rparr>) sample_visitor \<lparr>oq_error = None, oq_code = Some ''c'', oq_state = Some ''t''\<rparr>
     (\<lambda>_. Some sample_profile) ''i'' 1000 sv d"

lemma sample_provider_user: "getUserByOAuth ''nodeloc'' ''s'' sample_provider_db = Some sample_exhausted"
proof -
  have "js_trim ''nodeloc'' = ''nodeloc''" "js_trim ''s'' = ''s''" by code_simp+
  then show ?thesis by (simp add: getUserByOAuth_def sample_provider_db_def sample_exhausted_def)
qed

lemma sample_return_eval:
  "\<exists>d'. sample_return (Some \<lparr>oa_state = ''t'', oa_nonce = ''n'', oa_created = 0\<rparr>) sample_provider_db =
     (OAuthIn sample_exhausted (logIn (Some \<lparr>ss_user = None, ss_csrf = None\<rparr>) sample_exhausted sample_visitor), None, d')"
proof -
  have "oauth_open sample_provider_db"
    by (simp add: oauth_open_def getSetting_def sample_provider_db_def sample_db_def empty_db_def)
  moreover have "oauth_user sample_draws sample_profile ''i'' 1000 sample_provider_db = (Inr sample_exhausted, sample_provider_db)"
    by (simp add: oauth_user_def sample_provider_user sample_profile_def Let_def)
  moreover have "\<not> u_is_blocked sample_exhausted" by (simp add: sample_exhausted_def sample_user_def)
  ultimately show ?thesis by (simp add: handleNodeLocCallback_def truthy_def safeTokenEqual_def)
qed

theorem provider_state_used_once_witness:
  "\<exists>d'. \<forall>u r' sv d2. sample_return None d' \<noteq> (OAuthIn u r', sv, d2)"
proof -
  obtain d' where r: "sample_return (Some \<lparr>oa_state = ''t'', oa_nonce = ''n'', oa_created = 0\<rparr>) sample_provider_db =
     (OAuthIn sample_exhausted (logIn (Some \<lparr>ss_user = None, ss_csrf = None\<rparr>) sample_exhausted sample_visitor), None, d')"
    using sample_return_eval by blast
  note once = provider_state_used_once [OF r, THEN conjunct2, THEN conjunct2, rule_format]
  show ?thesis by (intro exI [of _ d'] allI, rule once)
qed

theorem provider_sign_in_releases_exhausted_witness:
  "\<exists>d' v. user_by_id d' 2 = Some v \<and> \<not> u_is_frozen v \<and> isTrafficExceeded 2 d'"
proof -
  obtain d' where r: "sample_return (Some \<lparr>oa_state = ''t'', oa_nonce = ''n'', oa_created = 0\<rparr>) sample_provider_db =
     (OAuthIn sample_exhausted (logIn (Some \<lparr>ss_user = None, ss_csrf = None\<rparr>) sample_exhausted sample_visitor), None, d')"
    using sample_return_eval by blast
  have i: "u_id sample_exhausted = 2" by (simp add: sample_exhausted_def)
  have "user_by_id sample_provider_db (u_id sample_exhausted) = Some sample_exhausted"
    by (simp add: user_by_id_def sample_provider_db_def)
  moreover have "isTrafficExceeded (u_id sample_exhausted) sample_provider_db"
    by (simp add: isTrafficExceeded_def user_by_id_def used_bytes_def sample_provider_db_def sample_exhausted_def)
  moreover have "u_is_frozen sample_exhausted" "u_freeze_reason sample_exhausted = Some ''traffic_limit''"
    by (simp_all add: sample_exhausted_def)
  moreover have "op_sub sample_profile = ''s''" by (simp add: sample_profile_def)
  ultimately have "\<exists>v. user_by_id d' (u_id sample_exhausted) = Some v \<and> \<not> u_is_frozen v \<and>
      isTrafficExceeded (u_id sample_exhausted) d'"
    using provider_sign_in_releases_exhausted [OF r] sample_provider_user by simp
  then show ?thesis unfolding i by blast
qed

text \<open>The memory of used tokens holds at most the one of the configuration.\<close>

type_synonym temp_req = "session option \<times> auth_req \<times> string \<times> string \<times> int"

fun temp_step :: "(string \<Rightarrow> string) \<Rightarrow> temp_env \<Rightarrow> temp_req \<Rightarrow> signin \<Rightarrow> temp_reply \<times> signin" where
  "temp_step sha e (fresh, r, token, ip, now) s = temp_login sha e fresh r token ip now s"

definition temp_print :: "(string \<Rightarrow> string) \<Rightarrow> temp_env \<Rightarrow> string" where
  "temp_print sha e = sha (or_else (te_token e) [])"

definition temp_memory :: "(string \<Rightarrow> string) \<Rightarrow> temp_env \<Rightarrow> signin \<Rightarrow> bool" where
  "temp_memory sha e s \<longleftrightarrow> si_temp s = [] \<or> (\<exists>t. si_temp s = [(temp_print sha e, t)])"

definition temp_left :: "(string \<Rightarrow> string) \<Rightarrow> temp_env \<Rightarrow> int \<Rightarrow> signin \<Rightarrow> nat" where
  "temp_left sha e start s =
     (case js_get (si_temp s) (temp_print sha e) of None \<Rightarrow> 1 | Some t \<Rightarrow> if start \<le> t then 0 else 1)"

fun temp_in :: "temp_req \<Rightarrow> temp_reply \<Rightarrow> bool" where
  "temp_in q (TempIn u r) = True"
| "temp_in q _ = False"

definition in_ttl :: "temp_env \<Rightarrow> int \<Rightarrow> temp_req \<Rightarrow> bool" where
  "in_ttl e start q \<longleftrightarrow> (case q of (_, _, _, _, now) \<Rightarrow> start \<le> now \<and> now \<le> start + getUsedTokenTtlMs e)"

lemma temp_cap: "0 < nat (getUsedTokenMaxEntries e)"
  by (auto simp: getUsedTokenMaxEntries_def toPosInt_def Let_def split: option.splits)

lemma consume_small:
  assumes "m = [] \<or> (\<exists>t. m = [(sha expected, t)])"
  shows "consumeTempLoginTokenIfNeeded sha e expected now m =
    (if te_one_time e = Some ''false'' then (True, filter (\<lambda>x. \<not> getUsedTokenTtlMs e < now - snd x) m)
     else case js_get (filter (\<lambda>x. \<not> getUsedTokenTtlMs e < now - snd x) m) (sha expected) of
            Some t \<Rightarrow> if t \<noteq> 0 then (False, m) else (True, [(sha expected, now)])
          | None \<Rightarrow> (True, [(sha expected, now)]))"
  using assms temp_cap [of e]
  by (auto simp: consumeTempLoginTokenIfNeeded_def evict_def Let_def)

lemma temp_login_cases:
  assumes "temp_login sha e fresh r token ip now s = (a, s')"
  obtains (same) "si_temp s' = si_temp s" "\<not> temp_in q a"
  | (used) m where "consumeTempLoginTokenIfNeeded sha e (or_else (te_token e) []) now (si_temp s) = (False, m)"
      "si_temp s' = m" "\<not> temp_in q a"
  | (consumed) m where "consumeTempLoginTokenIfNeeded sha e (or_else (te_token e) []) now (si_temp s) = (True, m)"
      "si_temp s' = m"
  using assms by (auto simp: temp_login_def Let_def split: if_splits prod.splits bool.splits list.splits)

lemma temp_step_facts:
  assumes "temp_memory sha e s"
  shows "temp_memory sha e (snd (temp_step sha e q s))"
    and "in_ttl e start q \<Longrightarrow> 0 < start \<Longrightarrow> te_one_time e \<noteq> Some ''false'' \<Longrightarrow>
      temp_left sha e start (snd (temp_step sha e q s)) + (if temp_in q (fst (temp_step sha e q s)) then 1 else 0)
        \<le> temp_left sha e start s"
proof -
  obtain fresh r token ip now where q: "q = (fresh, r, token, ip, now)" by (cases q)
  obtain a s' where c: "temp_login sha e fresh r token ip now s = (a, s')" by fastforce
  let ?P = "\<lambda>x. \<not> getUsedTokenTtlMs e < now - snd x"
  have m: "si_temp s = [] \<or> (\<exists>t. si_temp s = [(sha (or_else (te_token e) []), t)])"
    using assms by (simp add: temp_memory_def temp_print_def)
  note k = consume_small [where sha = sha and expected = "or_else (te_token e) []" and e = e and now = now, OF m]
  have "temp_memory sha e s' \<and> (in_ttl e start q \<longrightarrow> 0 < start \<longrightarrow> te_one_time e \<noteq> Some ''false'' \<longrightarrow>
      temp_left sha e start s' + (if temp_in q a then 1 else 0) \<le> temp_left sha e start s)"
    using c
  proof (cases rule: temp_login_cases [where q = q])
    case same
    then show ?thesis using assms by (simp add: temp_memory_def temp_left_def)
  next
    case (used m)
    then have "m = si_temp s \<and> si_temp s \<noteq> []"
      using k m by (auto split: if_splits option.splits)
    then show ?thesis using used assms by (simp add: temp_memory_def temp_left_def)
  next
    case (consumed m')
    have "temp_memory sha e s'"
      using k m consumed by (auto simp: temp_memory_def temp_print_def split: if_splits option.splits)
    moreover have "temp_left sha e start s' = 0 \<and> temp_left sha e start s = 1"
      if "in_ttl e start q" "0 < start" "te_one_time e \<noteq> Some ''false''"
      using k m consumed that
      by (auto simp: q in_ttl_def temp_left_def temp_print_def split: if_splits option.splits)
    ultimately show ?thesis by auto
  qed
  then show "temp_memory sha e (snd (temp_step sha e q s))"
    and "in_ttl e start q \<Longrightarrow> 0 < start \<Longrightarrow> te_one_time e \<noteq> Some ''false'' \<Longrightarrow>
      temp_left sha e start (snd (temp_step sha e q s)) + (if temp_in q (fst (temp_step sha e q s)) then 1 else 0)
        \<le> temp_left sha e start s"
    by (simp_all add: q c)
qed

interpretation temp_token: budget "temp_memory sha e" "temp_left sha e start" "temp_step sha e" temp_in
    "\<lambda>q. in_ttl e start q \<and> 0 < start \<and> te_one_time e \<noteq> Some ''false''"
proof
  fix s :: signin and q assume s: "temp_memory sha e s"
  show "temp_memory sha e (snd (temp_step sha e q s))" by (rule temp_step_facts(1) [OF s])
  assume "in_ttl e start q \<and> 0 < start \<and> te_one_time e \<noteq> Some ''false''"
  then have left: "temp_left sha e start (snd (temp_step sha e q s)) +
      (if temp_in q (fst (temp_step sha e q s)) then 1 else 0) \<le> temp_left sha e start s"
    using temp_step_facts(2) [OF s, of start q] by blast
  show "temp_left sha e start (snd (temp_step sha e q s)) \<le> temp_left sha e start s" using left by simp
  assume "temp_in q (fst (temp_step sha e q s))"
  then show "Suc (temp_left sha e start (snd (temp_step sha e q s))) \<le> temp_left sha e start s" using left by simp
qed

text \<open>As long as it is configured for one use the emergency token signs in at most once in the
  life time of its note, however many requests carry it.\<close>

theorem emergency_token_once:
  assumes "si_temp s = []" and "te_one_time e \<noteq> Some ''false''" and "0 < start" and "\<forall>q \<in> set reqs. in_ttl e start q"
  shows "length (filter (\<lambda>x. temp_in (fst x) (snd x)) (zip reqs (fst (run_ops (temp_step sha e) reqs s)))) \<le> 1"
proof -
  have "temp_memory sha e s" "temp_left sha e start s = 1" using assms(1) by (simp_all add: temp_memory_def temp_left_def)
  then show ?thesis using temp_token.run_spends [of sha e s reqs start] assms(2,3,4) by simp
qed

definition sample_temp :: temp_env where
  "sample_temp = \<lparr>te_enabled = Some ''true'', te_node_env = None, te_allow_prod = None, te_token = Some ''t'',
     te_expires = None, te_one_time = None, te_allowlist = None, te_ttl = None, te_max = None\<rparr>"

theorem emergency_token_once_witness:
  "length (filter (\<lambda>x. temp_in (fst x) (snd x))
     (zip (replicate 3 (Some \<lparr>ss_user = None, ss_csrf = None\<rparr>, sample_visitor, ''t'', ''i'', 5))
       (fst (run_ops (temp_step (\<lambda>x. x) sample_temp)
          (replicate 3 (Some \<lparr>ss_user = None, ss_csrf = None\<rparr>, sample_visitor, ''t'', ''i'', 5)) sample_signin)))) \<le> 1"
proof (rule emergency_token_once [where start = 5])
  have "js_parse_int [] = None" by code_simp
  then show "\<forall>q \<in> set (replicate 3 (Some \<lparr>ss_user = None, ss_csrf = None\<rparr>, sample_visitor, ''t'', ''i'', 5)). in_ttl sample_temp 5 q"
    by (simp add: in_ttl_def getUsedTokenTtlMs_def sample_temp_def toPosInt_def or_else_def)
qed (simp_all add: sample_signin_def sample_temp_def)

end
