(* ===== verification/Farm.thy ===== *)
theory Farm
  imports TgGame
begin

text \<open>
  The farm game (\<open>src/services/farm.js\<close>): one crop, seeds from the daily check-in, harvests that
  raise the quota, and stealing from a neighbour's mature plot at the expense of that harvest.
  \<open>now\<close> is the clock of the request; the game day is derived from it. A transaction is one
  state change. Every byte amount and gigabyte amount of this game is an integer.
\<close>

section \<open>Constants\<close>

definition crop_hours :: int where "crop_hours = 20"
definition crop_yield_gb :: int where "crop_yield_gb = 5"
definition TOTAL_PLOTS :: int where "TOTAL_PLOTS = 4"
definition PLOTS_BY_LEVEL :: "int list" where "PLOTS_BY_LEVEL = [1, 2, 3, 4]"
definition STEAL_PER_GB :: int where "STEAL_PER_GB = 1"
definition STEAL_MAX_PER_PLOT_GB :: int where "STEAL_MAX_PER_PLOT_GB = 2"
definition STEAL_DAILY_LIMIT :: nat where "STEAL_DAILY_LIMIT = 5"

definition mature_ms :: int where "mature_ms = crop_hours * 3600 * 1000"

definition lvl :: "user \<Rightarrow> nat" where
  "lvl u = nat (min (max (u_trust_level u) 0) 3)"

definition unlockedPlots :: "user \<Rightarrow> int" where
  "unlockedPlots u = PLOTS_BY_LEVEL ! lvl u"

definition seedCap :: "user \<Rightarrow> int" where
  "seedCap u = PLOTS_BY_LEVEL ! lvl u"

definition dailySeedGrant :: "user \<Rightarrow> int" where
  "dailySeedGrant u = PLOTS_BY_LEVEL ! lvl u"

section \<open>Seeds\<close>

definition stolenFromPlot :: "int \<Rightarrow> int \<Rightarrow> int \<Rightarrow> db \<Rightarrow> int" where
  "stolenFromPlot victim slot plantedAt d =
     sum_list (map st_stolen_gb
       (filter (\<lambda>s. st_victim s = victim \<and> st_slot s = slot \<and> st_planted_at s = plantedAt) (d_steals d)))"

definition stealCountToday :: "int \<Rightarrow> string \<Rightarrow> db \<Rightarrow> nat" where
  "stealCountToday thief day d = count_where (\<lambda>s. st_thief s = thief \<and> st_day s = day) (d_steals d)"

definition getSeeds :: "int \<Rightarrow> db \<Rightarrow> int" where
  "getSeeds uid d = (case find (\<lambda>r. se_user r = uid) (d_seeds d) of None \<Rightarrow> 0 | Some r \<Rightarrow> se_seeds r)"

definition seed_merge :: "seed_row \<Rightarrow> seed_row \<Rightarrow> seed_row" where
  "seed_merge new old = old\<lparr>se_seeds := se_seeds new\<rparr>"

definition setSeeds :: "int \<Rightarrow> int \<Rightarrow> db \<Rightarrow> db" where
  "setSeeds uid n d =
     d\<lparr>d_seeds := upsert se_user seed_merge \<lparr>se_user = uid, se_seeds = n\<rparr> (d_seeds d)\<rparr>"

record seed_grant =
  sgr_granted :: int
  sgr_full :: bool
  sgr_seeds :: int
  sgr_cap :: int

definition grantDailySeeds :: "user \<Rightarrow> db \<Rightarrow> seed_grant \<times> db" where
  "grantDailySeeds u d =
     (let cap = seedCap u; cur = getSeeds (u_id u) d
      in if cap \<le> cur then (\<lparr>sgr_granted = 0, sgr_full = True, sgr_seeds = cur, sgr_cap = cap\<rparr>, d)
         else let want = dailySeedGrant u; nxt = min cap (cur + want)
              in (\<lparr>sgr_granted = nxt - cur, sgr_full = False, sgr_seeds = nxt, sgr_cap = cap\<rparr>,
                  setSeeds (u_id u) nxt d))"

section \<open>The state of a farm\<close>

record plot_info =
  pi_slot :: int
  pi_locked :: bool
  pi_crop :: bool
  pi_planted_at :: int
  pi_mature :: bool
  pi_remaining_sec :: int
  pi_total_sec :: int
  pi_expected_gb :: int

definition plotInfo :: "user \<Rightarrow> int \<Rightarrow> plot_row option \<Rightarrow> int \<Rightarrow> db \<Rightarrow> plot_info" where
  "plotInfo u slot row now d =
     (let locked = (unlockedPlots u \<le> slot);
          bare = \<lparr>pi_slot = slot, pi_locked = locked, pi_crop = False, pi_planted_at = 0, pi_mature = False,
            pi_remaining_sec = 0, pi_total_sec = 0, pi_expected_gb = 0\<rparr>
      in case row of
           None \<Rightarrow> bare
         | Some r \<Rightarrow>
             if locked then bare
             else let elapsedSec = (now - pl_planted_at r) div 1000;
                      remainingSec = max 0 (crop_hours * 3600 - elapsedSec);
                      stolen = min STEAL_MAX_PER_PLOT_GB (stolenFromPlot (u_id u) slot (pl_planted_at r) d)
                  in \<lparr>pi_slot = slot, pi_locked = False, pi_crop = True, pi_planted_at = pl_planted_at r,
                      pi_mature = (remainingSec \<le> 0), pi_remaining_sec = remainingSec,
                      pi_total_sec = crop_hours * 3600, pi_expected_gb = max 0 (crop_yield_gb - stolen)\<rparr>)"

definition plot_at :: "int \<Rightarrow> int \<Rightarrow> db \<Rightarrow> plot_row option" where
  "plot_at uid slot d = find (\<lambda>r. plot_key r = (uid, slot)) (d_plots d)"

record farm_state =
  fs_plots :: "plot_info list"
  fs_unlocked :: int
  fs_seeds :: int
  fs_seed_cap :: int
  fs_mature_count :: nat

definition plot_infos :: "user \<Rightarrow> int \<Rightarrow> db \<Rightarrow> plot_info list" where
  "plot_infos u now d = map (\<lambda>s. plotInfo u s (plot_at (u_id u) s d) now d) [0, 1, 2, 3]"

definition getState :: "user \<Rightarrow> int \<Rightarrow> db \<Rightarrow> farm_state" where
  "getState u now d =
     (let plots = plot_infos u now d
      in \<lparr>fs_plots = plots, fs_unlocked = unlockedPlots u, fs_seeds = getSeeds (u_id u) d,
          fs_seed_cap = seedCap u,
          fs_mature_count = length (filter (\<lambda>p. pi_crop p \<and> pi_mature p) plots)\<rparr>)"

section \<open>Planting and harvesting\<close>

datatype farm_error =
    InvalidPlot | PlotLocked | PlotOccupied | NoSeeds | NothingPlanted | NotMature
  | InvalidTarget | DailyStealsUsedUp | PlotEmpty | PlotPickedClean | AlreadyStolen

definition slot_valid :: "int \<Rightarrow> bool" where
  "slot_valid s \<longleftrightarrow> 0 \<le> s \<and> s < TOTAL_PLOTS"

text \<open>Planting: the number of seeds left, or an error.\<close>

definition plant :: "user \<Rightarrow> js_num \<Rightarrow> int \<Rightarrow> db \<Rightarrow> (farm_error + int) \<times> db" where
  "plant u slotArg now d =
     (case slotArg of
        JNonInt \<Rightarrow> (Inl InvalidPlot, d)
      | JInt slot \<Rightarrow>
          if \<not> slot_valid slot then (Inl InvalidPlot, d)
          else if unlockedPlots u \<le> slot then (Inl PlotLocked, d)
          else if plot_at (u_id u) slot d \<noteq> None then (Inl PlotOccupied, d)
          else let seeds = getSeeds (u_id u) d
               in if seeds \<le> 0 then (Inl NoSeeds, d)
                  else let d1 = setSeeds (u_id u) (seeds - 1) d
                       in (Inr (seeds - 1),
                           d1\<lparr>d_plots := d_plots d1 @
                             [\<lparr>pl_user = u_id u, pl_slot = slot, pl_planted_at = now, pl_notified = False\<rparr>]\<rparr>))"

datatype harvest_result = Skipped | NotMatureYet | Gained int int

definition add_quota :: "int \<Rightarrow> int \<Rightarrow> db \<Rightarrow> db" where
  "add_quota uid bytes d =
     d\<lparr>d_users := update_where (\<lambda>u. u_id u = uid \<and> 0 \<le> u_traffic_limit u)
        (\<lambda>u. u\<lparr>u_traffic_limit := u_traffic_limit u + bytes\<rparr>) (d_users d)\<rparr>"

text \<open>
  One harvest transaction. The deletion of the plot is the gate: the grant happens only in the
  branch in which a row was deleted.
\<close>

definition harvestOne :: "user \<Rightarrow> int \<Rightarrow> int \<Rightarrow> db \<Rightarrow> harvest_result \<times> db" where
  "harvestOne u slot now d =
     (case plot_at (u_id u) slot d of
        None \<Rightarrow> (Skipped, d)
      | Some row \<Rightarrow>
          if now < pl_planted_at row + mature_ms then (NotMatureYet, d)
          else let stolen = min STEAL_MAX_PER_PLOT_GB (stolenFromPlot (u_id u) slot (pl_planted_at row) d);
                   netGb = max 0 (crop_yield_gb - stolen);
                   grantBytes = netGb * GB;
                   gone = (\<lambda>r. plot_key r = (u_id u, slot));
                   d1 = d\<lparr>d_plots := delete_where gone (d_plots d)\<rparr>
               in if count_where gone (d_plots d) = 0 then (Skipped, d1)
                  else (Gained netGb stolen, if 0 < grantBytes then add_quota (u_id u) grantBytes d1 else d1))"

definition unfreezeIfNeeded :: "(int \<Rightarrow> string) \<Rightarrow> int \<Rightarrow> int \<Rightarrow> db \<Rightarrow> db" where
  "unfreezeIfNeeded gen now uid d =
     (case user_by_id d uid of
        None \<Rightarrow> d
      | Some u \<Rightarrow>
          if traffic_frozen u \<and> \<not> isTrafficExceeded uid d
          then addAuditLog now None ''traffic_limit_unfreeze'' [u_username u] ''system'' (unfreezeUser gen uid d)
          else d)"

definition harvest :: "(int \<Rightarrow> string) \<Rightarrow> user \<Rightarrow> js_num \<Rightarrow> int \<Rightarrow> db \<Rightarrow> (farm_error + int) \<times> db" where
  "harvest gen u slotArg now d =
     (case slotArg of
        JNonInt \<Rightarrow> (Inl InvalidPlot, d)
      | JInt slot \<Rightarrow>
          if \<not> slot_valid slot then (Inl InvalidPlot, d)
          else case harvestOne u slot now d of
                 (Skipped, d1) \<Rightarrow> (Inl NothingPlanted, d1)
               | (NotMatureYet, d1) \<Rightarrow> (Inl NotMature, d1)
               | (Gained g s, d1) \<Rightarrow> (Inr g, unfreezeIfNeeded gen now (u_id u) d1))"

record harvest_all =
  ha_ok :: bool
  ha_count :: nat
  ha_gained_gb :: int

fun harvest_loop :: "user \<Rightarrow> int \<Rightarrow> int list \<Rightarrow> nat \<Rightarrow> int \<Rightarrow> db \<Rightarrow> nat \<times> int \<times> db" where
  "harvest_loop u now [] cnt totalGb d = (cnt, totalGb, d)"
| "harvest_loop u now (s # ss) cnt totalGb d =
     (case harvestOne u s now d of
        (Gained g st, d1) \<Rightarrow>
          if 0 < g then harvest_loop u now ss (cnt + 1) (totalGb + g) d1
          else harvest_loop u now ss cnt totalGb d1
      | (_, d1) \<Rightarrow> harvest_loop u now ss cnt totalGb d1)"

definition harvestAll :: "(int \<Rightarrow> string) \<Rightarrow> user \<Rightarrow> int \<Rightarrow> db \<Rightarrow> harvest_all \<times> db" where
  "harvestAll gen u now d =
     (let slots = sort (map pl_slot (filter (\<lambda>r. pl_user r = u_id u) (d_plots d)));
          (cnt, totalGb, d1) = harvest_loop u now slots 0 0 d;
          d2 = (if 0 < cnt then unfreezeIfNeeded gen now (u_id u) d1 else d1)
      in (\<lparr>ha_ok = (0 < cnt), ha_count = cnt, ha_gained_gb = totalGb\<rparr>, d2))"

section \<open>Visiting and stealing\<close>

definition maskName :: "string \<Rightarrow> string" where
  "maskName s =
     (if s = [] then ''mystery neighbour''
      else if length s \<le> 2 then [hd s] @ ''*''
      else [hd s] @ ''***'' @ [last s])"

record visit_plot =
  vp_info :: plot_info
  vp_stolen_by_me :: bool
  vp_stealable_left_gb :: int

definition has_stolen :: "int \<Rightarrow> int \<Rightarrow> int \<Rightarrow> int \<Rightarrow> db \<Rightarrow> bool" where
  "has_stolen thief victim slot plantedAt d \<longleftrightarrow>
     (thief, victim, slot, plantedAt) \<in> steal_key ` set (d_steals d)"

definition visit_plot_of :: "user \<Rightarrow> user \<Rightarrow> int \<Rightarrow> db \<Rightarrow> plot_info \<Rightarrow> visit_plot" where
  "visit_plot_of viewer victim now d info =
     (if pi_crop info \<and> pi_mature info
      then \<lparr>vp_info = info,
            vp_stolen_by_me = has_stolen (u_id viewer) (u_id victim) (pi_slot info) (pi_planted_at info) d,
            vp_stealable_left_gb =
              max 0 (STEAL_MAX_PER_PLOT_GB - stolenFromPlot (u_id victim) (pi_slot info) (pi_planted_at info) d)\<rparr>
      else \<lparr>vp_info = info, vp_stolen_by_me = False, vp_stealable_left_gb = 0\<rparr>)"

definition stealable :: "visit_plot \<Rightarrow> bool" where
  "stealable p \<longleftrightarrow> pi_crop (vp_info p) \<and> pi_mature (vp_info p) \<and> 0 < vp_stealable_left_gb p \<and> \<not> vp_stolen_by_me p"

record farm_visit =
  fv_victim_id :: int
  fv_victim_name :: string
  fv_unlocked :: int
  fv_plots :: "visit_plot list"
  fv_steal_left_today :: nat

definition visit_farm :: "user \<Rightarrow> int \<Rightarrow> db \<Rightarrow> user \<Rightarrow> farm_visit option" where
  "visit_farm viewer now d victim =
     (let plots = map (visit_plot_of viewer victim now d) (plot_infos victim now d)
      in if \<exists>p \<in> set plots. stealable p
         then Some \<lparr>fv_victim_id = u_id victim, fv_victim_name = maskName (u_username victim),
                    fv_unlocked = unlockedPlots victim, fv_plots = plots,
                    fv_steal_left_today = STEAL_DAILY_LIMIT - stealCountToday (u_id viewer) (today now) d\<rparr>
         else None)"

text \<open>
  The database draws at most 30 other, unblocked accounts with a crop in random order; \<open>shuffle\<close>
  is that order. The first candidate with a stealable plot is shown.
\<close>

definition farm_candidates :: "(int list \<Rightarrow> int list) \<Rightarrow> user \<Rightarrow> db \<Rightarrow> int list" where
  "farm_candidates shuffle viewer d =
     take 30 (shuffle (remdups (map pl_user (filter (\<lambda>p. pl_user p \<noteq> u_id viewer \<and>
       (case user_by_id d (pl_user p) of None \<Rightarrow> False | Some u \<Rightarrow> \<not> u_is_blocked u)) (d_plots d)))))"

fun first_visit :: "user \<Rightarrow> int \<Rightarrow> db \<Rightarrow> int list \<Rightarrow> farm_visit option" where
  "first_visit viewer now d [] = None"
| "first_visit viewer now d (c # cs) =
     (case user_by_id d c of
        None \<Rightarrow> first_visit viewer now d cs
      | Some victim \<Rightarrow>
          (case visit_farm viewer now d victim of
             Some v \<Rightarrow> Some v
           | None \<Rightarrow> first_visit viewer now d cs))"

definition getRandomFarm :: "(int list \<Rightarrow> int list) \<Rightarrow> user \<Rightarrow> int \<Rightarrow> db \<Rightarrow> farm_visit option" where
  "getRandomFarm shuffle viewer now d = first_visit viewer now d (farm_candidates shuffle viewer d)"

definition steal_tx :: "user \<Rightarrow> int \<Rightarrow> int \<Rightarrow> int \<Rightarrow> db \<Rightarrow> (farm_error + unit) \<times> db" where
  "steal_tx thief victim slot now d =
     (case plot_at victim slot d of
        None \<Rightarrow> (Inl PlotEmpty, d)
      | Some row \<Rightarrow>
          if now < pl_planted_at row + mature_ms then (Inl NotMature, d)
          else if STEAL_MAX_PER_PLOT_GB < stolenFromPlot victim slot (pl_planted_at row) d + STEAL_PER_GB
          then (Inl PlotPickedClean, d)
          else if STEAL_DAILY_LIMIT \<le> stealCountToday (u_id thief) (today now) d
          then (Inl DailyStealsUsedUp, d)
          else case insert_row steal_key
                 \<lparr>st_thief = u_id thief, st_victim = victim, st_slot = slot,
                  st_planted_at = pl_planted_at row, st_stolen_gb = STEAL_PER_GB, st_day = today now\<rparr>
                 (d_steals d) of
                 None \<Rightarrow> (Inl AlreadyStolen, d)
               | Some t \<Rightarrow> (Inr (), add_quota (u_id thief) (STEAL_PER_GB * GB) (d\<lparr>d_steals := t\<rparr>)))"

text \<open>A successful theft reports how many are left today.\<close>

definition steal ::
  "(int \<Rightarrow> string) \<Rightarrow> user \<Rightarrow> js_num \<Rightarrow> js_num \<Rightarrow> int \<Rightarrow> db \<Rightarrow> (farm_error + nat) \<times> db" where
  "steal gen thief victimArg slotArg now d =
     (case victimArg of
        JNonInt \<Rightarrow> (Inl InvalidTarget, d)
      | JInt victim \<Rightarrow>
          if victim = u_id thief then (Inl InvalidTarget, d)
          else case slotArg of
                 JNonInt \<Rightarrow> (Inl InvalidPlot, d)
               | JInt slot \<Rightarrow>
                   if \<not> slot_valid slot then (Inl InvalidPlot, d)
                   else if STEAL_DAILY_LIMIT \<le> stealCountToday (u_id thief) (today now) d
                   then (Inl DailyStealsUsedUp, d)
                   else case steal_tx thief victim slot now d of
                          (Inl e, d1) \<Rightarrow> (Inl e, d1)
                        | (Inr _, d1) \<Rightarrow>
                            (let d2 = unfreezeIfNeeded gen now (u_id thief) d1
                             in (Inr (STEAL_DAILY_LIMIT - stealCountToday (u_id thief) (today now) d2), d2)))"

section \<open>Maturity notices\<close>

text \<open>Each plot due for a notice is marked first, then its owner is told.\<close>

definition notice_due :: "int \<Rightarrow> db \<Rightarrow> plot_row \<Rightarrow> bool" where
  "notice_due now d p \<longleftrightarrow>
     pl_planted_at p \<le> now - crop_hours * 3600 * 1000 \<and> \<not> pl_notified p \<and>
     (case user_by_id d (pl_user p) of None \<Rightarrow> False | Some u \<Rightarrow> truthy (u_telegram_id u))"

definition notify_plot :: "plot_row \<Rightarrow> db \<Rightarrow> db" where
  "notify_plot p d =
     (case user_by_id d (pl_user p) of
        None \<Rightarrow> d
      | Some u \<Rightarrow>
          add_effect (SendToUser (or_else (u_telegram_id u) []) [''farm_mature'', show_int (pl_slot p + 1)])
            (d\<lparr>d_plots := update_where (\<lambda>r. plot_key r = plot_key p) (\<lambda>r. r\<lparr>pl_notified := True\<rparr>)
                (d_plots d)\<rparr>))"

definition checkAndNotifyMatureCrops :: "int \<Rightarrow> db \<Rightarrow> db" where
  "checkAndNotifyMatureCrops now d = fold notify_plot (filter (notice_due now d) (d_plots d)) d"

end
