(* ===== verification/FarmProps.thy ===== *)
theory FarmProps
  imports FarmFacts Samples
begin

text \<open>
  The properties of the farm game, over the definitions of \<open>Farm\<close> and the invariant of
  \<open>FarmFacts\<close>.
\<close>

section \<open>One crop, paid out once and in full\<close>

lemma harvestOne_gained:
  assumes "harvestOne u slot now d = (Gained g st, d')"
  obtains row where "plot_at (u_id u) slot d = Some row" and "pl_planted_at row + mature_ms \<le> now"
    and "st = min STEAL_MAX_PER_PLOT_GB (stolenFromPlot (u_id u) slot (pl_planted_at row) d)"
    and "g = max 0 (crop_yield_gb - st)"
    and "d' = (let d1 = d\<lparr>d_plots := delete_where (\<lambda>r. plot_key r = (u_id u, slot)) (d_plots d)\<rparr>
               in if 0 < g then add_quota (u_id u) (g * GB) d1 else d1)"
  using assms by (auto simp: harvestOne_def Let_def split: option.splits if_splits)

lemma plot_at_cong: "d_plots d' = d_plots d \<Longrightarrow> plot_at uid slot d' = plot_at uid slot d"
  by (simp add: plot_at_def)

lemma harvestOne_plot_gone:
  assumes "harvestOne u slot now d = (Gained g st, d')"
  shows "plot_at (u_id u) slot d' = None"
proof -
  have "d_plots d' = delete_where (\<lambda>r. plot_key r = (u_id u, slot)) (d_plots d)"
    using harvestOne_plots [of u slot now d] assms by simp
  then show ?thesis by (auto simp: plot_at_None)
qed

text \<open>C1: whenever a harvest of a reachable farm pays out, the plot was mature, the owner's share and
  what the thieves took add up to exactly the yield of one crop, a limited owner's quota rises by
  exactly that share, and the plot is empty afterwards, so the crop cannot be paid again.\<close>

theorem crop_paid_once_in_full:
  assumes "farm_reachable d" and "user_by_id d (u_id u) = Some v" and "0 \<le> u_traffic_limit v"
    and "harvestOne u slot now d = (Gained g st, d')"
  shows "(\<exists>row. plot_at (u_id u) slot d = Some row \<and> pl_planted_at row + mature_ms \<le> now \<and>
             g + stolenFromPlot (u_id u) slot (pl_planted_at row) d = crop_yield_gb) \<and>
         map_option u_traffic_limit (user_by_id d' (u_id u)) = Some (u_traffic_limit v + g * GB) \<and>
         fst (harvestOne u slot later d') = Skipped"
proof -
  obtain row where r: "plot_at (u_id u) slot d = Some row" "pl_planted_at row + mature_ms \<le> now"
    and st: "st = min STEAL_MAX_PER_PLOT_GB (stolenFromPlot (u_id u) slot (pl_planted_at row) d)"
    and g: "g = max 0 (crop_yield_gb - st)"
    and d': "d' = (let d1 = d\<lparr>d_plots := delete_where (\<lambda>r. plot_key r = (u_id u, slot)) (d_plots d)\<rparr>
               in if 0 < g then add_quota (u_id u) (g * GB) d1 else d1)"
    using assms(4) by (rule harvestOne_gained)
  have "stolenFromPlot (u_id u) slot (pl_planted_at row) d \<le> STEAL_MAX_PER_PLOT_GB"
    using farm_reachable_ok [OF assms(1)] by (simp add: farm_ok_defs)
  then have sum: "g + stolenFromPlot (u_id u) slot (pl_planted_at row) d = crop_yield_gb" and pos: "0 < g"
    unfolding g st by (simp_all add: crop_yield_gb_def STEAL_MAX_PER_PLOT_GB_def)
  have "user_by_id (d\<lparr>d_plots := t\<rparr>) (u_id u) = Some v" for t
    using assms(2) by (simp add: user_by_id_def)
  then have "map_option u_traffic_limit (user_by_id d' (u_id u)) = Some (u_traffic_limit v + g * GB)"
    using pos assms(3) unfolding d' by (simp add: Let_def add_quota_user)
  moreover have "fst (harvestOne u slot later d') = Skipped"
    using harvestOne_plot_gone [OF assms(4)] by (simp add: harvestOne_def)
  ultimately show ?thesis using r sum by blast
qed

lemma today_at_maturity: "today mature_ms = ''1970-01-02''"
  by code_simp

lemmas farm_eval =
  harvestOne_def steal_def steal_tx_def plant_def grantDailySeeds_def setSeeds_def getSeeds_def
  upsert_def seed_merge_def insert_row_def plot_at_def stolenFromPlot_def stealCountToday_def
  count_where_def delete_where_def add_quota_def unfreezeIfNeeded_def traffic_frozen_def user_by_id_def
  slot_valid_def unlockedPlots_def seedCap_def dailySeedGrant_def lvl_def PLOTS_BY_LEVEL_def
  mature_ms_def crop_hours_def crop_yield_gb_def TOTAL_PLOTS_def STEAL_PER_GB_def
  STEAL_MAX_PER_PLOT_GB_def STEAL_DAILY_LIMIT_def Let_def
  sample_farm_def sample_db_def empty_db_def

lemma sample_farm_reachable: "farm_reachable sample_farm"
proof -
  let ?u = "sample_user 1 3 0" and ?w = "sample_user 2 0 (5 * GB)"
  have s0: "farm_reachable sample_db"
    by (rule farm_next [OF farm_start], rule farm_other) (simp_all add: sample_db_def empty_db_def)
  note s1 = farm_next [OF s0 farm_checkin [of _ ?u]]
  note s2 = farm_next [OF s1 farm_plant [of _ ?u "JInt 0" 0]]
  note s3 = farm_next [OF s2 farm_steal [of _ "\<lambda>_. []" ?w "JInt 1" "JInt 0" mature_ms]]
  show ?thesis
    by (rule farm_next [OF s3], rule farm_other)
      (simp_all add: today_at_maturity [unfolded mature_ms_def crop_hours_def, simplified] farm_eval)
qed

theorem crop_paid_once_in_full_witness:
  "map_option u_traffic_limit
     (user_by_id (snd (harvestOne (sample_user 1 3 0) 0 mature_ms sample_farm)) 1) = Some (4 * GB)"
proof -
  let ?u = "sample_user 1 3 0"
  have h: "harvestOne ?u 0 mature_ms sample_farm =
      (Gained 4 1, snd (harvestOne ?u 0 mature_ms sample_farm))"
    by (simp add: prod_eq_iff farm_eval)
  have u: "user_by_id sample_farm (u_id ?u) = Some ?u" by (simp add: farm_eval)
  show ?thesis
    using crop_paid_once_in_full [OF sample_farm_reachable u _ h] by simp
qed


section \<open>What the pages show\<close>

text \<open>C37: for an unlocked, planted plot the page's maturity mark is exactly the condition under which
  a harvest at the same moment pays out, and the amount shown is the amount paid.\<close>

theorem plot_page_matches_harvest:
  assumes "slot < unlockedPlots u" and "plot_at (u_id u) slot d = Some row"
  shows "(pi_mature (plotInfo u slot (Some row) now d) \<longleftrightarrow>
            fst (harvestOne u slot now d) \<noteq> NotMatureYet) \<and>
         (\<forall>g st. fst (harvestOne u slot now d) = Gained g st \<longrightarrow>
            pi_expected_gb (plotInfo u slot (Some row) now d) = g)"
proof -
  have m: "crop_hours * 3600 - (now - pl_planted_at row) div 1000 \<le> 0 \<longleftrightarrow> pl_planted_at row + mature_ms \<le> now"
    unfolding mature_ms_def crop_hours_def by linarith
  have "0 < count_where (\<lambda>r. plot_key r = (u_id u, slot)) (d_plots d)"
    using plot_at_SomeD [OF assms(2)] by (auto simp: count_where_def filter_empty_conv)
  then show ?thesis
    using assms m by (auto simp: plotInfo_def harvestOne_def Let_def)
qed

theorem plot_page_matches_harvest_witness:
  "pi_mature (plotInfo (sample_user 1 3 0) 0 (Some \<lparr>pl_user = 1, pl_slot = 0, pl_planted_at = 0, pl_notified = False\<rparr>)
      mature_ms sample_farm) = (fst (harvestOne (sample_user 1 3 0) 0 mature_ms sample_farm) \<noteq> NotMatureYet)"
  using plot_page_matches_harvest [of 0 "sample_user 1 3 0" sample_farm
      "\<lparr>pl_user = 1, pl_slot = 0, pl_planted_at = 0, pl_notified = False\<rparr>" mature_ms]
  by (simp add: farm_eval)

text \<open>A plot that a visit shows as stealable can be stolen at that moment by the visitor, as long
  as a theft is left today.\<close>

theorem shown_stealable_can_be_stolen:
  assumes "visit_farm viewer now d victim = Some fv" and "p \<in> set (fv_plots fv)" and "stealable p"
    and "u_id victim \<noteq> u_id viewer" and "0 < fv_steal_left_today fv"
  shows "\<exists>left. fst (steal gen viewer (JInt (fv_victim_id fv)) (JInt (pi_slot (vp_info p))) now d) = Inr left"
proof -
  have fv: "fv_victim_id fv = u_id victim"
      "fv_plots fv = map (visit_plot_of viewer victim now d) (plot_infos victim now d)"
      "fv_steal_left_today fv = STEAL_DAILY_LIMIT - stealCountToday (u_id viewer) (today now) d"
    using assms(1) by (auto simp: visit_farm_def Let_def split: if_splits)
  obtain slot where s: "slot \<in> {0, 1, 2, 3 :: int}"
      and p: "p = visit_plot_of viewer victim now d (plotInfo victim slot (plot_at (u_id victim) slot d) now d)"
    using assms(2) unfolding fv plot_infos_def by auto
  obtain row where row: "plot_at (u_id victim) slot d = Some row" and lk: "slot < unlockedPlots victim"
    using assms(3) unfolding p stealable_def visit_plot_of_def plotInfo_def Let_def
    by (cases "plot_at (u_id victim) slot d") (auto split: if_splits)
  have sl: "pi_slot (vp_info p) = slot" "pi_planted_at (vp_info p) = pl_planted_at row"
    using row lk by (simp_all add: p visit_plot_of_def plotInfo_def Let_def)
  have m: "crop_hours * 3600 - (now - pl_planted_at row) div 1000 \<le> 0 \<longleftrightarrow> pl_planted_at row + mature_ms \<le> now"
    unfolding mature_ms_def crop_hours_def by linarith
  have "pl_planted_at row + mature_ms \<le> now"
    and "stolenFromPlot (u_id victim) slot (pl_planted_at row) d < STEAL_MAX_PER_PLOT_GB"
    and "\<not> has_stolen (u_id viewer) (u_id victim) slot (pl_planted_at row) d"
    using assms(3) row lk m unfolding p stealable_def visit_plot_of_def plotInfo_def Let_def
    by (auto split: if_splits)
  moreover have "slot_valid slot" using s by (auto simp: slot_valid_def TOTAL_PLOTS_def)
  ultimately have "may_steal viewer (u_id victim) slot row now d"
    using assms(4,5) row unfolding fv may_steal_def has_stolen_def STEAL_PER_GB_def by simp
  then have "\<not> isl (fst (steal gen viewer (JInt (u_id victim)) (JInt slot) now d))"
    using steal_accepted [of gen viewer "JInt (u_id victim)" "JInt slot" now d] by auto
  then show ?thesis unfolding sl fv by (metis sum.collapse(2))
qed

section \<open>Limits of stealing\<close>

text \<open>
  For one account and one day, any run of thefts by anybody: the step reports whether this account
  stole on this day.
\<close>

definition steal_step ::
  "(int \<Rightarrow> string) \<Rightarrow> int \<Rightarrow> string \<Rightarrow> user \<times> js_num \<times> js_num \<times> int \<Rightarrow> db \<Rightarrow> bool \<times> db" where
  "steal_step gen thief day a d =
     (case a of (u, v, s, now) \<Rightarrow>
        let (r, d') = steal gen u v s now d in (u_id u = thief \<and> today now = day \<and> \<not> isl r, d'))"

lemma steal_count_after:
  "stealCountToday t day (snd (steal gen u v s now d)) = stealCountToday t day d +
   (if \<not> isl (fst (steal gen u v s now d)) \<and> u_id u = t \<and> today now = day then 1 else 0)"
proof (cases "isl (fst (steal gen u v s now d))")
  case False
  then obtain victim slot row where e: "v = JInt victim" "s = JInt slot"
      and m: "may_steal u victim slot row now d"
    using steal_accepted by blast
  show ?thesis
    using False unfolding e steal_effect [OF m]
    by (subst steal_count_cong [of _ "d\<lparr>d_steals := d_steals d @ [steal_row_of u victim slot row now]\<rparr>"])
      (simp_all add: steal_count_snoc steal_row_of_def)
qed (simp add: steal_refused)

interpretation thefts: quota "stealCountToday thief day" "steal_step gen thief day" "\<lambda>b. b" STEAL_DAILY_LIMIT
  for gen thief day
proof unfold_locales
  fix a :: "user \<times> js_num \<times> js_num \<times> int" and d :: db
  obtain u v s now where a: "a = (u, v, s, now)" by (metis prod_cases4)
  show "fst (steal_step gen thief day a d) \<Longrightarrow> stealCountToday thief day d < STEAL_DAILY_LIMIT"
    using steal_accepted [of gen u v s now d] unfolding a steal_step_def may_steal_def
    by (auto simp: split_beta)
  show "fst (steal_step gen thief day a d) \<Longrightarrow>
      stealCountToday thief day (snd (steal_step gen thief day a d)) = Suc (stealCountToday thief day d)"
    unfolding a steal_step_def by (simp add: split_beta steal_count_after)
  show "\<not> fst (steal_step gen thief day a d) \<Longrightarrow>
      stealCountToday thief day (snd (steal_step gen thief day a d)) = stealCountToday thief day d"
    unfolding a steal_step_def by (auto simp: split_beta steal_count_after)
qed

text \<open>However the requests of all accounts interleave, one account gets at most five thefts a
  day, those already made included.\<close>

theorem daily_thefts_limited:
  assumes "stealCountToday thief day d \<le> STEAL_DAILY_LIMIT"
  shows "stealCountToday thief day d +
    length (filter (\<lambda>b. b) (fst (run_ops (steal_step gen thief day) acts d))) \<le> 5"
  using thefts.run_accepts_at_most [OF assms, of gen acts] assms by (simp add: STEAL_DAILY_LIMIT_def)

definition steal_target :: "user \<times> js_num \<times> js_num \<times> int \<Rightarrow> db \<Rightarrow> int \<times> int \<times> int \<times> int" where
  "steal_target a d =
     (case a of
        (u, JInt v, JInt s, now) \<Rightarrow>
          (u_id u, v, s, case plot_at v s d of None \<Rightarrow> 0 | Some row \<Rightarrow> pl_planted_at row)
      | (u, _, _, now) \<Rightarrow> (u_id u, 0, 0, 0))"

definition steal_op :: "(int \<Rightarrow> string) \<Rightarrow> user \<times> js_num \<times> js_num \<times> int \<Rightarrow> db \<Rightarrow> (farm_error + nat) \<times> db" where
  "steal_op gen a d = (case a of (u, v, s, now) \<Rightarrow> steal gen u v s now d)"

interpretation crop_thefts: claim_once "\<lambda>d k. k \<in> steal_key ` set (d_steals d)" "steal_op gen"
    "\<lambda>r. \<not> isl r" steal_target
  for gen
proof unfold_locales
  fix a :: "user \<times> js_num \<times> js_num \<times> int" and d :: db and k
  obtain u v s now where a: "a = (u, v, s, now)" by (metis prod_cases4)
  { assume "\<not> isl (fst (steal_op gen a d))"
    then obtain victim slot row where e: "v = JInt victim" "s = JInt slot"
      and m: "may_steal u victim slot row now d"
      using steal_accepted [of gen u v s now d] unfolding a steal_op_def by auto
    have p: "plot_at victim slot d = Some row" using m by (simp add: may_steal_def)
    show "steal_target a d \<notin> steal_key ` set (d_steals d)"
      using m p unfolding a e steal_target_def may_steal_def by simp
    show "steal_target a d \<in> steal_key ` set (d_steals (snd (steal_op gen a d)))"
      using p unfolding a e steal_op_def steal_target_def
      by (simp add: steal_effect [OF m] steal_row_of_def) }
  show "k \<in> steal_key ` set (d_steals d) \<Longrightarrow> k \<in> steal_key ` set (d_steals (snd (steal_op gen a d)))"
    unfolding a steal_op_def by (auto simp: steal_steals split: js_num.splits)
qed

text \<open>In any run of thefts no account steals twice from the same crop (the same owner, plot and
  time of planting).\<close>

theorem no_crop_stolen_twice_by_one:
  "distinct (accepted_targets (\<lambda>r. \<not> isl r) steal_target (steal_op gen) acts d)"
  by (rule crop_thefts.accepted_distinct)


section \<open>Harvesting everything\<close>

definition ripe :: "user \<Rightarrow> int \<Rightarrow> db \<Rightarrow> int \<Rightarrow> bool" where
  "ripe u now d s \<longleftrightarrow>
     (case plot_at (u_id u) s d of None \<Rightarrow> False | Some row \<Rightarrow> pl_planted_at row + mature_ms \<le> now)"

definition share :: "user \<Rightarrow> db \<Rightarrow> int \<Rightarrow> int" where
  "share u d s =
     (case plot_at (u_id u) s d of None \<Rightarrow> 0
      | Some row \<Rightarrow> crop_yield_gb - stolenFromPlot (u_id u) s (pl_planted_at row) d)"

lemma harvestOne_ripe:
  assumes "steals_ok d" and "ripe u now d s"
  shows "\<exists>st. fst (harvestOne u s now d) = Gained (share u d s) st" and "0 < share u d s"
proof -
  obtain row where r: "plot_at (u_id u) s d = Some row" "pl_planted_at row + mature_ms \<le> now"
    using assms(2) by (auto simp: ripe_def split: option.splits)
  have "stolenFromPlot (u_id u) s (pl_planted_at row) d \<le> STEAL_MAX_PER_PLOT_GB"
    using assms(1) by (simp add: steals_ok_def)
  moreover have "0 < count_where (\<lambda>r. plot_key r = (u_id u, s)) (d_plots d)"
    using plot_at_SomeD [OF r(1)] by (auto simp: count_where_def filter_empty_conv)
  ultimately show "\<exists>st. fst (harvestOne u s now d) = Gained (share u d s) st" "0 < share u d s"
    using r by (auto simp: harvestOne_def share_def Let_def crop_yield_gb_def STEAL_MAX_PER_PLOT_GB_def)
qed

lemma harvestOne_unripe:
  assumes "\<not> ripe u now d s"
  shows "fst (harvestOne u s now d) \<in> {Skipped, NotMatureYet} \<and> snd (harvestOne u s now d) = d"
  using assms by (auto simp: harvestOne_def ripe_def split: option.splits)

lemma harvestOne_other_plot:
  assumes "s' \<noteq> s"
  shows "plot_at (u_id u) s' (snd (harvestOne u s now d)) = plot_at (u_id u) s' d"
  unfolding plot_at_def harvestOne_plots using assms by (auto intro: find_delete_where_other)

lemma harvest_loop_spec:
  assumes "steals_ok d" and "distinct ss"
  shows "fst (harvest_loop u now ss c t d) = c + length (filter (ripe u now d) ss) \<and>
    fst (snd (harvest_loop u now ss c t d)) = t + sum_list (map (share u d) (filter (ripe u now d) ss)) \<and>
    (\<forall>s. plot_at (u_id u) s (snd (snd (harvest_loop u now ss c t d))) =
       (if s \<in> set ss \<and> ripe u now d s then None else plot_at (u_id u) s d))"
  using assms
proof (induction ss arbitrary: c t d)
  case (Cons s ss)
  obtain r d1 where h: "harvestOne u s now d = (r, d1)" by fastforce
  have ok1: "steals_ok d1"
    using Cons.prems(1) harvestOne_farm(2) [of u s now d] h
    by (simp add: steals_ok_def stolenFromPlot_def stealCountToday_def)
  have other: "plot_at (u_id u) s' d1 = plot_at (u_id u) s' d" if "s' \<noteq> s" for s'
    using harvestOne_other_plot [OF that, of u now d] h by simp
  have st: "d_steals d1 = d_steals d" using harvestOne_farm(2) [of u s now d] h by simp
  have ripe1: "ripe u now d1 s' = ripe u now d s'" if "s' \<noteq> s" for s'
    using other [OF that] by (simp add: ripe_def)
  have share1: "share u d1 s' = share u d s'" if "s' \<noteq> s" for s'
    using other [OF that] by (simp add: share_def stolen_cong [OF st] split: option.split)
  have ne: "s' \<noteq> s" if "s' \<in> set ss" for s' using that Cons.prems(2) by auto
  have rest: "filter (ripe u now d1) ss = filter (ripe u now d) ss"
      "map (share u d1) (filter (ripe u now d) ss) = map (share u d) (filter (ripe u now d) ss)"
    using ripe1 [OF ne] share1 [OF ne] by (auto intro: filter_cong)
  have IH: "fst (harvest_loop u now ss c' t' d1) = c' + length (filter (ripe u now d) ss) \<and>
      fst (snd (harvest_loop u now ss c' t' d1)) = t' + sum_list (map (share u d) (filter (ripe u now d) ss)) \<and>
      (\<forall>s'. plot_at (u_id u) s' (snd (snd (harvest_loop u now ss c' t' d1))) =
         (if s' \<in> set ss \<and> ripe u now d1 s' then None else plot_at (u_id u) s' d1))" for c' t'
    using Cons.IH [OF ok1] Cons.prems(2) rest by simp
  show ?case
  proof (cases "ripe u now d s")
    case True
    obtain st where g: "r = Gained (share u d s) st" "0 < share u d s"
      using harvestOne_ripe [OF Cons.prems(1) True] h by auto
    have gone: "plot_at (u_id u) s d1 = None" using harvestOne_plot_gone h g by blast
    have loop: "harvest_loop u now (s # ss) c t d = harvest_loop u now ss (c + 1) (t + share u d s) d1"
      using h g by simp
    note IH1 = IH [of "c + 1" "t + share u d s"]
    have plots: "plot_at (u_id u) s' (snd (snd (harvest_loop u now ss (c + 1) (t + share u d s) d1))) =
        (if s' \<in> set (s # ss) \<and> ripe u now d s' then None else plot_at (u_id u) s' d)" for s'
    proof (cases "s' = s")
      case True
      then show ?thesis using IH1 gone \<open>ripe u now d s\<close> Cons.prems(2) by simp
    next
      case False
      then show ?thesis using IH1 other [OF False] ripe1 [OF False] by simp
    qed
    show ?thesis unfolding loop using IH1 plots True by simp
  next
    case False
    then have e: "d1 = d" "r = Skipped \<or> r = NotMatureYet" using harvestOne_unripe [OF False] h by auto
    have loop: "harvest_loop u now (s # ss) c t d = harvest_loop u now ss c t d"
      using h e by auto
    show ?thesis unfolding loop using False IH [of c t] e(1) by auto
  qed
qed simp

definition own_slots :: "user \<Rightarrow> db \<Rightarrow> int list" where
  "own_slots u d = sort (map pl_slot (filter (\<lambda>r. pl_user r = u_id u) (d_plots d)))"

text \<open>Harvesting all plots of a reachable farm pays for every ripe plot and only for those, clears
  exactly them, and gives the sum of what the single plots are worth.\<close>

theorem harvest_all_takes_every_ripe_plot:
  assumes "farm_reachable d"
  shows "ha_count (fst (harvestAll gen u now d)) = length (filter (ripe u now d) (own_slots u d)) \<and>
    ha_gained_gb (fst (harvestAll gen u now d)) = sum_list (map (share u d) (filter (ripe u now d) (own_slots u d))) \<and>
    (\<forall>s. plot_at (u_id u) s (snd (harvestAll gen u now d)) =
       (if ripe u now d s then None else plot_at (u_id u) s d))"
proof -
  have ok: "steals_ok d" "plots_ok d" using farm_reachable_ok [OF assms(1)] by (simp_all add: farm_ok_def)
  have "inj_on pl_slot (set (filter (\<lambda>r. pl_user r = u_id u) (d_plots d)))"
    using ok(2) by (auto simp: plots_ok_def inj_on_def distinct_map)
  moreover have "distinct (d_plots d)" using ok(2) by (auto simp: plots_ok_def distinct_map)
  ultimately have ds: "distinct (own_slots u d)" by (simp add: own_slots_def distinct_map)
  have mem: "s \<in> set (own_slots u d)" if rp: "ripe u now d s" for s
  proof -
    obtain row where "plot_at (u_id u) s d = Some row"
      using rp by (cases "plot_at (u_id u) s d") (auto simp: ripe_def)
    from plot_at_SomeD [OF this] show ?thesis by (auto simp: own_slots_def image_iff)
  qed
  obtain c t d1 where l: "harvest_loop u now (own_slots u d) 0 0 d = (c, t, d1)" by (metis prod_cases3)
  have "plot_at (u_id u) s (snd (harvestAll gen u now d)) = plot_at (u_id u) s d1" for s
    using l by (intro plot_at_cong) (simp add: harvestAll_def own_slots_def [symmetric])
  then show ?thesis
    using harvest_loop_spec [OF ok(1) ds, of u now 0 0] l mem
    by (auto simp: harvestAll_def own_slots_def [symmetric])
qed

theorem harvest_all_takes_every_ripe_plot_witness:
  "ha_gained_gb (fst (harvestAll (\<lambda>_. []) (sample_user 1 3 0) mature_ms sample_farm)) = 4"
  using harvest_all_takes_every_ripe_plot [OF sample_farm_reachable, of "\<lambda>_. []" "sample_user 1 3 0" mature_ms]
  by (simp add: ripe_def share_def own_slots_def farm_eval)

section \<open>The invariant\<close>

text \<open>C38: in every reachable farm each plot holds at most one crop in one of the four slots, nobody
  has a negative number of seeds or more than four, no crop has lost more than two of its five
  gigabytes, and nobody has stolen more than five times on any day.\<close>

theorem farm_invariant:
  assumes "farm_reachable d"
  shows "distinct (map plot_key (d_plots d)) \<and> (\<forall>p \<in> set (d_plots d). 0 \<le> pl_slot p \<and> pl_slot p < 4) \<and>
    (0 \<le> getSeeds uid d \<and> getSeeds uid d \<le> 4) \<and> stolenFromPlot v s p d \<le> 2 \<and>
    stealCountToday t day d \<le> 5"
  using farm_reachable_ok [OF assms]
  by (simp add: farm_ok_defs slot_valid_def TOTAL_PLOTS_def STEAL_MAX_PER_PLOT_GB_def STEAL_DAILY_LIMIT_def)

theorem farm_invariant_witness: "stolenFromPlot 1 0 0 sample_farm \<le> 2 \<and> getSeeds 1 sample_farm \<le> 4"
  using farm_invariant [OF sample_farm_reachable] by blast

theorem daily_thefts_limited_witness:
  "stealCountToday 2 ''1970-01-02'' sample_farm +
    length (filter (\<lambda>b. b) (fst (run_ops (steal_step (\<lambda>_. []) 2 ''1970-01-02'') [] sample_farm))) \<le> 5"
  by (rule daily_thefts_limited) (simp add: farm_eval)

theorem shown_stealable_can_be_stolen_witness:
  "\<exists>left. fst (steal (\<lambda>_. []) (sample_user 3 0 0) (JInt 1) (JInt 0) mature_ms sample_farm) = Inr left"
proof -
  let ?v = "sample_user 3 0 0" and ?o = "sample_user 1 3 0"
  define fv where "fv = the (visit_farm ?v mature_ms sample_farm ?o)"
  note ev = farm_eval visit_farm_def plot_infos_def visit_plot_of_def plotInfo_def stealable_def has_stolen_def
  have h: "visit_farm ?v mature_ms sample_farm ?o = Some fv"
    unfolding fv_def by (simp add: ev)
  have e: "fv_victim_id fv = 1" "pi_slot (vp_info (hd (fv_plots fv))) = 0"
      "hd (fv_plots fv) \<in> set (fv_plots fv)" "stealable (hd (fv_plots fv))" "0 < fv_steal_left_today fv"
    unfolding fv_def by (simp_all add: ev)
  show ?thesis
    using shown_stealable_can_be_stolen [OF h e(3,4) _ e(5), of "\<lambda>_. []"] e(1,2) by simp
qed

end
