(* ===== verification/Flip.thy ===== *)
theory Flip
  imports TgGame "HOL-Library.Word"
begin

text \<open>
  The card game (\<open>src/routes/flipGame.js\<close>): three of nine cards a day, each card once, prizes by
  weighted draw, and after the third card the whole board, whose other cards come from a seeded
  generator. The generator keeps its 32-bit seed as a word; the handlers are modelled after the
  check of the launch data, whose result they get. A prize label is kept by its Latin part.
\<close>

section \<open>Constants and the seeded generator\<close>

definition DAILY_FLIP_LIMIT :: nat where "DAILY_FLIP_LIMIT = 3"
definition CARD_COUNT :: nat where "CARD_COUNT = 9"

definition FLIP_PRIZES :: "prize list" where
  "FLIP_PRIZES =
     [\<lparr>pz_label = ''jackpot +2GB'', pz_gb = 2, pz_weight = 8\<rparr>,
      \<lparr>pz_label = ''luck +2GB'', pz_gb = 2, pz_weight = 16\<rparr>,
      \<lparr>pz_label = ''small +1GB'', pz_gb = 1, pz_weight = 24\<rparr>,
      \<lparr>pz_label = ''consolation +1GB'', pz_gb = 1, pz_weight = 20\<rparr>,
      \<lparr>pz_label = ''thanks'', pz_gb = 0, pz_weight = 20\<rparr>,
      \<lparr>pz_label = ''slip -0.5GB'', pz_gb = - 1 / 2, pz_weight = 12\<rparr>]"

definition seed_of_text :: "string \<Rightarrow> 32 word" where
  "seed_of_text s = fold (\<lambda>c seed. seed * 31 + of_nat (of_char c)) s 0"

definition next_seed :: "32 word \<Rightarrow> 32 word" where
  "next_seed seed = seed * 1664525 + 1013904223"

definition seed_fraction :: "32 word \<Rightarrow> rat" where
  "seed_fraction seed = of_int (uint seed) / 4294967296"

section \<open>The profile of a day\<close>

definition flip_rows :: "int \<Rightarrow> string \<Rightarrow> db \<Rightarrow> flip_row list" where
  "flip_rows uid day d = filter (\<lambda>r. fl_user r = uid \<and> fl_date r = day) (d_flip d)"

definition flip_plays :: "int \<Rightarrow> string \<Rightarrow> db \<Rightarrow> nat" where
  "flip_plays uid day d = length (flip_rows uid day d)"

definition used_cards :: "int \<Rightarrow> string \<Rightarrow> db \<Rightarrow> int list" where
  "used_cards uid day d = map fl_card (flip_rows uid day d)"

text \<open>The quota left, in GB with two digits; \<open>-1\<close> for an unlimited account.\<close>

definition remaining_gb :: "user \<Rightarrow> db \<Rightarrow> rat" where
  "remaining_gb u d =
     (if u_traffic_limit u < 0 then - 1
      else to_fixed2 (of_int (max 0 (u_traffic_limit u - used_bytes (u_id u) d)) / of_int GB))"

record card =
  cd_label :: string
  cd_gb :: rat
  cd_actual :: bool

text \<open>\<open>board[i] = x\<close> on an array: an index past the end extends it, a negative one is no element.\<close>

definition array_set :: "int \<Rightarrow> 'a \<Rightarrow> 'a option list \<Rightarrow> 'a option list" where
  "array_set i x xs =
     (if i < 0 then xs
      else if nat i < length xs then xs[nat i := Some x]
      else xs @ replicate (nat i - length xs) None @ [Some x])"

definition actual_card :: "flip_row \<Rightarrow> card" where
  "actual_card r = \<lparr>cd_label = fl_label r, cd_gb = fl_gb r, cd_actual = True\<rparr>"

definition place_records :: "flip_row list \<Rightarrow> card option list" where
  "place_records rs =
     fold (\<lambda>r b. array_set (fl_card r) (actual_card r) b) rs (replicate CARD_COUNT None)"

text \<open>The cards not played are drawn one after the other; only they advance the generator.\<close>

primrec fill_board :: "32 word \<Rightarrow> card option list \<Rightarrow> card option list" where
  "fill_board seed [] = []"
| "fill_board seed (c # cs) =
     (case c of
        Some x \<Rightarrow> Some x # fill_board seed cs
      | None \<Rightarrow>
          (let seed' = next_seed seed;
               p = draw_at (seed_fraction seed' * of_int (total_weight FLIP_PRIZES)) FLIP_PRIZES
           in Some \<lparr>cd_label = pz_label p, cd_gb = pz_gb p, cd_actual = False\<rparr> # fill_board seed' cs))"

definition board_seed :: "int \<Rightarrow> string \<Rightarrow> 32 word" where
  "board_seed uid day = seed_of_text (show_int uid @ '':'' @ day @ '':flip-board'')"

definition reveal_board :: "int \<Rightarrow> string \<Rightarrow> flip_row list \<Rightarrow> card option list" where
  "reveal_board uid day rs =
     (let b = place_records rs
      in fill_board (board_seed uid day) (take CARD_COUNT b) @ drop CARD_COUNT b)"

record flip_profile =
  fp_plays :: nat
  fp_net_gb :: rat
  fp_plays_left :: int
  fp_remaining_gb :: rat
  fp_used_cards :: "int list"
  fp_board :: "card option list option"

definition getFlipProfileByUser :: "user \<Rightarrow> int \<Rightarrow> db \<Rightarrow> flip_profile" where
  "getFlipProfileByUser u now d =
     (let day = today now; rs = flip_rows (u_id u) day d; plays = length rs
      in \<lparr>fp_plays = plays, fp_net_gb = sum_list (map fl_gb rs),
          fp_plays_left = int DAILY_FLIP_LIMIT - int plays, fp_remaining_gb = remaining_gb u d,
          fp_used_cards = map fl_card rs,
          fp_board = (if DAILY_FLIP_LIMIT \<le> plays then Some (reveal_board (u_id u) day rs) else None)\<rparr>)"

section \<open>Playing a card\<close>

datatype game_error =
    Maintenance | VerifyFailed | NotBound | InvalidCard | PlaysUsedUp rat | CardTaken | ConstraintFailed
  | InvalidChoice | AlreadySpun string | AccountBlocked | PlayerVanished

text \<open>\<open>Math.round(gb * 2^30)\<close>: the nearest integer, the larger one on a tie.\<close>

definition gb_bytes :: "rat \<Rightarrow> int" where
  "gb_bytes gb = floor (gb * of_int GB + 1 / 2)"

definition set_quota :: "int \<Rightarrow> int \<Rightarrow> db \<Rightarrow> db" where
  "set_quota uid bytes d = update_user uid (\<lambda>u. u\<lparr>u_traffic_limit := bytes\<rparr>) d"

definition applyFlipDraw :: "user \<Rightarrow> int \<Rightarrow> prize \<Rightarrow> int \<Rightarrow> db \<Rightarrow> (game_error + prize) \<times> db" where
  "applyFlipDraw u cardIndex p now d =
     (let day = today now
      in if DAILY_FLIP_LIMIT \<le> flip_plays (u_id u) day d
         then (Inl (PlaysUsedUp (fp_net_gb (getFlipProfileByUser u now d))), d)
         else if cardIndex \<in> set (used_cards (u_id u) day d) then (Inl CardTaken, d)
         else let bytes = gb_bytes (pz_gb p)
              in case insert_row flip_key
                   \<lparr>fl_user = u_id u, fl_date = day, fl_card = cardIndex, fl_label = pz_label p,
                    fl_bytes = bytes, fl_gb = pz_gb p\<rparr> (d_flip d) of
                   None \<Rightarrow> (Inl ConstraintFailed, d)
                 | Some t \<Rightarrow>
                     (Inr p,
                      if pz_gb p \<noteq> 0 \<and> 0 \<le> u_traffic_limit u
                      then set_quota (u_id u) (max 0 (u_traffic_limit u + bytes)) (d\<lparr>d_flip := t\<rparr>)
                      else d\<lparr>d_flip := t\<rparr>))"

section \<open>The routes\<close>

text \<open>
  The subject of verified launch data: its identifier as the code compares it, \<open>String(id)\<close>, or
  none when it has no identifier.
\<close>

datatype tg_ident = TgId string | TgNull | TgUndefined

primrec tg_text :: "tg_ident \<Rightarrow> string" where
  "tg_text (TgId s) = s"
| "tg_text TgNull = ''null''"
| "tg_text TgUndefined = ''undefined''"

definition in_maintenance :: "db \<Rightarrow> bool" where
  "in_maintenance d \<longleftrightarrow> getSetting d ''games_maintenance'' = Some ''true''"

definition flip_profile_route :: "tg_ident option \<Rightarrow> int \<Rightarrow> db \<Rightarrow> game_error + flip_profile" where
  "flip_profile_route tgUser now d =
     (case tgUser of
        None \<Rightarrow> Inl VerifyFailed
      | Some t \<Rightarrow>
          (case getUserByTelegramId (tg_text t) d of
             None \<Rightarrow> Inl NotBound
           | Some u \<Rightarrow> Inr (getFlipProfileByUser u now d)))"

record flip_reply =
  fr_card :: int
  fr_label :: string
  fr_gb :: rat
  fr_profile :: flip_profile

text \<open>A refusal by the transaction is answered with the current profile.\<close>

definition flip_draw_route ::
  "(int \<Rightarrow> string) \<Rightarrow> rat \<Rightarrow> tg_ident option \<Rightarrow> js_num \<Rightarrow> int \<Rightarrow> db \<Rightarrow>
   (game_error \<times> flip_profile option + flip_reply) \<times> db" where
  "flip_draw_route gen rnd tgUser cardArg now d =
     (if in_maintenance d then (Inl (Maintenance, None), d)
      else case tgUser of
             None \<Rightarrow> (Inl (VerifyFailed, None), d)
           | Some t \<Rightarrow>
               (case cardArg of
                  JNonInt \<Rightarrow> (Inl (InvalidCard, None), d)
                | JInt c \<Rightarrow>
                    if c < 0 \<or> int CARD_COUNT \<le> c then (Inl (InvalidCard, None), d)
                    else case getUserByTelegramId (tg_text t) d of
                           None \<Rightarrow> (Inl (NotBound, None), d)
                         | Some u \<Rightarrow>
                             (let p = weightedRandom rnd FLIP_PRIZES;
                                  (r, d1) = applyFlipDraw u c p now d
                              in case r of
                                   Inl e \<Rightarrow> (Inl (e, Some (getFlipProfileByUser u now d1)), d1)
                                 | Inr q \<Rightarrow>
                                     (let d2 = (if 0 < pz_gb p then tryUnfreezeAfterTraffic gen now (u_id u) d1 else d1)
                                      in (Inr \<lparr>fr_card = c, fr_label = pz_label q, fr_gb = pz_gb q,
                                               fr_profile = getFlipProfileByUser u now d2\<rparr>, d2)))))"

section \<open>Facts\<close>

lemma gb_bytes_int: "gb_bytes (of_int n) = n * GB"
  unfolding gb_bytes_def by linarith

lemma gb_bytes_half: "gb_bytes (- 1 / 2) = - (GB div 2)"
  unfolding gb_bytes_def by (simp add: floor_eq_iff)

lemma flip_prize_cases: "p \<in> set FLIP_PRIZES \<Longrightarrow> pz_gb p \<in> {2, 1, 0, - 1 / 2}"
  by (auto simp: FLIP_PRIZES_def)

lemma weightedRandom_mem: "ps \<noteq> [] \<Longrightarrow> weightedRandom rnd ps \<in> set ps"
  by (auto simp: weightedRandom_def draw_at_def dest: draw_loop_mem split: option.splits)

lemma set_quota_frame [simp]:
  "d_flip (set_quota uid b d) = d_flip d"
  "d_rps (set_quota uid b d) = d_rps d"
  "d_lucky (set_quota uid b d) = d_lucky d"
  "d_totals (set_quota uid b d) = d_totals d"
  "d_settings (set_quota uid b d) = d_settings d"
  by (simp_all add: set_quota_def)

text \<open>A play is accepted exactly below the limit on a card not used yet; the constraint never throws.\<close>

definition may_flip :: "user \<Rightarrow> int \<Rightarrow> string \<Rightarrow> db \<Rightarrow> bool" where
  "may_flip u c day d \<longleftrightarrow> flip_plays (u_id u) day d < DAILY_FLIP_LIMIT \<and> c \<notin> set (used_cards (u_id u) day d)"

definition flip_row_of :: "user \<Rightarrow> int \<Rightarrow> prize \<Rightarrow> string \<Rightarrow> flip_row" where
  "flip_row_of u c p day = \<lparr>fl_user = u_id u, fl_date = day, fl_card = c, fl_label = pz_label p,
      fl_bytes = gb_bytes (pz_gb p), fl_gb = pz_gb p\<rparr>"

lemma used_cards_key: "c \<in> set (used_cards uid day d) \<longleftrightarrow> (uid, day, c) \<in> flip_key ` set (d_flip d)"
  by (force simp: used_cards_def flip_rows_def image_iff)

lemma applyFlipDraw_accept:
  assumes "may_flip u c (today now) d"
  shows "fst (applyFlipDraw u c p now d) = Inr p"
    and "d_flip (snd (applyFlipDraw u c p now d)) = d_flip d @ [flip_row_of u c p (today now)]"
proof -
  have "(u_id u, today now, c) \<notin> flip_key ` set (d_flip d)"
    using assms by (simp add: may_flip_def used_cards_key)
  then show "fst (applyFlipDraw u c p now d) = Inr p"
    and "d_flip (snd (applyFlipDraw u c p now d)) = d_flip d @ [flip_row_of u c p (today now)]"
    using assms by (simp_all add: applyFlipDraw_def may_flip_def Let_def insert_row_def flip_row_of_def)
qed

lemma applyFlipDraw_refuse:
  assumes "\<not> may_flip u c (today now) d"
  shows "\<exists>e. fst (applyFlipDraw u c p now d) = Inl e \<and> e \<noteq> ConstraintFailed \<and> snd (applyFlipDraw u c p now d) = d"
  using assms by (auto simp: applyFlipDraw_def may_flip_def Let_def)

lemma flip_plays_snoc:
  "d_flip d' = d_flip d @ [r] \<Longrightarrow>
   flip_plays uid day d' = flip_plays uid day d + (if fl_user r = uid \<and> fl_date r = day then 1 else 0)"
  by (simp add: flip_plays_def flip_rows_def)

lemma array_set_length: "0 \<le> i \<Longrightarrow> i < int (length xs) \<Longrightarrow> length (array_set i x xs) = length xs"
  by (simp add: array_set_def)

lemma fill_board_length [simp]: "length (fill_board seed b) = length b"
  by (induction b arbitrary: seed) (auto simp: Let_def split: option.splits)

lemma fill_board_full: "None \<notin> set (fill_board seed b)"
  by (induction b arbitrary: seed) (auto simp: Let_def split: option.splits)

lemma fill_board_keeps: "i < length b \<Longrightarrow> b ! i = Some x \<Longrightarrow> fill_board seed b ! i = Some x"
  by (induction b arbitrary: seed i) (auto simp: Let_def nth_Cons split: option.splits nat.splits)

lemma fill_board_drawn:
  "i < length b \<Longrightarrow> b ! i = None \<Longrightarrow> \<exists>p \<in> set FLIP_PRIZES. fill_board seed b ! i =
     Some \<lparr>cd_label = pz_label p, cd_gb = pz_gb p, cd_actual = False\<rparr>"
proof (induction b arbitrary: seed i)
  case (Cons c cs)
  have mem: "draw_at r FLIP_PRIZES \<in> set FLIP_PRIZES" for r
    by (auto simp: draw_at_def FLIP_PRIZES_def dest: draw_loop_mem split: option.splits)
  show ?case
    using Cons mem by (cases i) (auto simp: Let_def split: option.splits)
qed simp

lemma place_records_spec:
  assumes "distinct (map fl_card rs)" and "\<And>r. r \<in> set rs \<Longrightarrow> 0 \<le> fl_card r \<and> fl_card r < int n"
    and "length b = n"
  shows "length (fold (\<lambda>r b. array_set (fl_card r) (actual_card r) b) rs b) = n \<and>
    (\<forall>i < n. fold (\<lambda>r b. array_set (fl_card r) (actual_card r) b) rs b ! i =
      (case find (\<lambda>r. fl_card r = int i) rs of Some r \<Rightarrow> Some (actual_card r) | None \<Rightarrow> b ! i))"
  using assms
proof (induction rs arbitrary: b)
  case (Cons r rs)
  have r: "0 \<le> fl_card r" "fl_card r < int n" using Cons.prems(2) [of r] by simp_all
  then have b': "array_set (fl_card r) (actual_card r) b = b[nat (fl_card r) := Some (actual_card r)]"
    using Cons.prems(3) by (simp add: array_set_def nat_less_iff)
  have nf: "find (\<lambda>x. fl_card x = fl_card r) rs = None"
    using Cons.prems(1) by (auto simp: find_None_iff image_iff)
  let ?b = "array_set (fl_card r) (actual_card r) b"
  let ?f = "fold (\<lambda>r b. array_set (fl_card r) (actual_card r) b) rs ?b"
  have IH: "length ?f = n \<and> (\<forall>i < n. ?f ! i =
      (case find (\<lambda>r. fl_card r = int i) rs of Some r \<Rightarrow> Some (actual_card r) | None \<Rightarrow> ?b ! i))"
    using Cons.prems b' by (intro Cons.IH) auto
  have "?f ! i = (case find (\<lambda>r. fl_card r = int i) (r # rs) of Some r \<Rightarrow> Some (actual_card r) | None \<Rightarrow> b ! i)"
    if i: "i < n" for i
  proof (cases "fl_card r = int i")
    case True
    then show ?thesis using IH i nf b' Cons.prems(3) by simp
  next
    case False
    then have "?b ! i = b ! i" using b' r(1) by (simp add: nat_eq_iff)
    then show ?thesis using IH i False by (simp split: option.split)
  qed
  then show ?case using IH by simp
qed simp

end
