(* ===== verification/Rps.thy ===== *)
theory Rps
  imports Flip
begin

text \<open>
  Rock, paper, scissors against the bot (\<open>src/routes/rpsGame.js\<close>): the outcome follows from one
  random number, a day allows twenty plays, and every play books its gain or loss on the day and
  on the account's quota.
\<close>

section \<open>The outcome\<close>

datatype rps_result = Win | Draw | Lose

record outcome =
  oc_sys_choice :: int
  oc_result :: rps_result
  oc_gb :: rat

definition WIN_RATE :: rat where "WIN_RATE = 1 / 2"
definition DRAW_RATE :: rat where "DRAW_RATE = 15 / 100"

definition resolveOutcome :: "int \<Rightarrow> rat \<Rightarrow> outcome" where
  "resolveOutcome choice roll =
     (let sysChoice = (if roll < WIN_RATE then (choice + 1) mod 3
                       else if roll < WIN_RATE + DRAW_RATE then choice
                       else (choice + 2) mod 3);
          result = (if choice = sysChoice then Draw
                    else if (choice + 1) mod 3 = sysChoice then Win else Lose)
      in \<lparr>oc_sys_choice = sysChoice, oc_result = result,
          oc_gb = (case result of Win \<Rightarrow> 1 | Lose \<Rightarrow> - 1 / 2 | Draw \<Rightarrow> 0)\<rparr>)"

section \<open>One play\<close>

definition DAILY_RPS_LIMIT :: nat where "DAILY_RPS_LIMIT = 20"

definition rps_row_at :: "int \<Rightarrow> string \<Rightarrow> db \<Rightarrow> rps_row option" where
  "rps_row_at uid day d = find (\<lambda>r. rps_key r = (uid, day)) (d_rps d)"

definition rps_plays :: "int \<Rightarrow> string \<Rightarrow> db \<Rightarrow> nat" where
  "rps_plays uid day d = (case rps_row_at uid day d of None \<Rightarrow> 0 | Some r \<Rightarrow> rp_plays r)"

definition rps_net :: "int \<Rightarrow> string \<Rightarrow> db \<Rightarrow> rat" where
  "rps_net uid day d = (case rps_row_at uid day d of None \<Rightarrow> 0 | Some r \<Rightarrow> rp_net_gb r)"

definition book_play :: "int \<Rightarrow> string \<Rightarrow> rat \<Rightarrow> db \<Rightarrow> db" where
  "book_play uid day gb d =
     (case rps_row_at uid day d of
        Some _ \<Rightarrow>
          d\<lparr>d_rps := update_where (\<lambda>r. rps_key r = (uid, day))
              (\<lambda>r. r\<lparr>rp_plays := rp_plays r + 1, rp_net_gb := rp_net_gb r + gb\<rparr>) (d_rps d)\<rparr>
      | None \<Rightarrow>
          d\<lparr>d_rps := d_rps d @ [\<lparr>rp_user = uid, rp_date = day, rp_plays = 1, rp_net_gb = gb\<rparr>]\<rparr>)"

text \<open>
  The new quota is \<open>limit + gb * 2^30\<close>, a whole number of bytes for the three gains that occur.
  An accepted play reports the plays and the net gain of the day.
\<close>

definition applyRpsPlay :: "int \<Rightarrow> string \<Rightarrow> outcome \<Rightarrow> db \<Rightarrow> (game_error + nat \<times> rat) \<times> db" where
  "applyRpsPlay uid day oc d =
     (case user_by_id d uid of
        None \<Rightarrow> (Inl NotBound, d)
      | Some u \<Rightarrow>
          if DAILY_RPS_LIMIT \<le> rps_plays uid day d then (Inl (PlaysUsedUp (rps_net uid day d)), d)
          else let d1 = book_play uid day (oc_gb oc) d;
                   d2 = (if oc_gb oc \<noteq> 0 \<and> 0 \<le> u_traffic_limit u
                         then set_quota uid (max 0 (u_traffic_limit u + gb_bytes (oc_gb oc))) d1 else d1)
               in (Inr (rps_plays uid day d2, rps_net uid day d2), d2))"

section \<open>The profile and the routes\<close>

record rps_profile =
  rpf_user :: int
  rpf_plays :: nat
  rpf_net_gb :: rat
  rpf_remaining_gb :: rat
  rpf_plays_left :: int
  rpf_checkins :: nat
  rpf_broadband :: bool
  rpf_broadband_left :: nat

definition getRpsProfileByUser :: "user \<Rightarrow> int \<Rightarrow> db \<Rightarrow> rps_profile" where
  "getRpsProfileByUser u now d =
     (let day = today now; checkins = count_where (\<lambda>c. ck_user c = u_id u) (d_checkin d)
      in \<lparr>rpf_user = u_id u, rpf_plays = rps_plays (u_id u) day d, rpf_net_gb = rps_net (u_id u) day d,
          rpf_remaining_gb = remaining_gb u d,
          rpf_plays_left = int DAILY_RPS_LIMIT - int (rps_plays (u_id u) day d),
          rpf_checkins = checkins, rpf_broadband = (7 \<le> checkins), rpf_broadband_left = 7 - checkins\<rparr>)"

definition getRpsProfileByTelegramId :: "string \<Rightarrow> int \<Rightarrow> db \<Rightarrow> rps_profile option" where
  "getRpsProfileByTelegramId tgId now d =
     map_option (\<lambda>u. getRpsProfileByUser u now d) (getUserByTelegramId tgId d)"

definition rps_profile_route :: "tg_ident option \<Rightarrow> int \<Rightarrow> db \<Rightarrow> game_error + rps_profile" where
  "rps_profile_route tgUser now d =
     (case tgUser of
        None \<Rightarrow> Inl VerifyFailed
      | Some t \<Rightarrow>
          (case getRpsProfileByTelegramId (tg_text t) now d of None \<Rightarrow> Inl NotBound | Some p \<Rightarrow> Inr p))"

text \<open>
  After an accepted play the account is read again by its chat identifier; \<open>PlayerVanished\<close> is the
  exception the code would raise if it were gone.
\<close>

definition rps_play_route ::
  "(int \<Rightarrow> string) \<Rightarrow> rat \<Rightarrow> tg_ident option \<Rightarrow> js_num \<Rightarrow> int \<Rightarrow> db \<Rightarrow>
   (game_error \<times> rps_profile option + outcome \<times> rps_profile) \<times> db" where
  "rps_play_route gen rnd tgUser choiceArg now d =
     (if in_maintenance d then (Inl (Maintenance, None), d)
      else case tgUser of
             None \<Rightarrow> (Inl (VerifyFailed, None), d)
           | Some t \<Rightarrow>
               (case choiceArg of
                  JNonInt \<Rightarrow> (Inl (InvalidChoice, None), d)
                | JInt c \<Rightarrow>
                    if c \<notin> {0, 1, 2} then (Inl (InvalidChoice, None), d)
                    else case getUserByTelegramId (tg_text t) d of
                           None \<Rightarrow> (Inl (NotBound, None), d)
                         | Some u \<Rightarrow>
                             (let oc = resolveOutcome c rnd;
                                  (r, d1) = applyRpsPlay (u_id u) (today now) oc d
                              in case r of
                                   Inl e \<Rightarrow> (Inl (e, Some (getRpsProfileByUser u now d1)), d1)
                                 | Inr _ \<Rightarrow>
                                     (let d2 = (if 0 < oc_gb oc then tryUnfreezeAfterTraffic gen now (u_id u) d1 else d1)
                                      in case getRpsProfileByTelegramId (tg_text t) now d2 of
                                           None \<Rightarrow> (Inl (PlayerVanished, None), d2)
                                         | Some p \<Rightarrow> (Inr (oc, p), d2)))))"

section \<open>Facts\<close>

lemma resolve_gb: "oc_gb (resolveOutcome c roll) \<in> {1, 0, - 1 / 2}"
  by (simp add: resolveOutcome_def Let_def split: rps_result.splits)

lemma rps_row_book:
  "rps_row_at uid' day' (book_play uid day gb d) =
   (if (uid', day') = (uid, day)
    then Some (case rps_row_at uid day d of
                 None \<Rightarrow> \<lparr>rp_user = uid, rp_date = day, rp_plays = 1, rp_net_gb = gb\<rparr>
               | Some r \<Rightarrow> r\<lparr>rp_plays := rp_plays r + 1, rp_net_gb := rp_net_gb r + gb\<rparr>)
    else rps_row_at uid' day' d)"
proof (cases "rps_row_at uid day d")
  case None
  then show ?thesis by (auto simp: book_play_def rps_row_at_def find_append split: option.split)
next
  case (Some r)
  have "find (\<lambda>r. rps_key r = (uid', day')) (update_where (\<lambda>r. rps_key r = (uid, day))
      (\<lambda>r. r\<lparr>rp_plays := rp_plays r + 1, rp_net_gb := rp_net_gb r + gb\<rparr>) (d_rps d)) =
    (if (uid', day') = (uid, day)
     then map_option (\<lambda>r. r\<lparr>rp_plays := rp_plays r + 1, rp_net_gb := rp_net_gb r + gb\<rparr>)
       (find (\<lambda>r. rps_key r = (uid', day')) (d_rps d))
     else find (\<lambda>r. rps_key r = (uid', day')) (d_rps d))"
    by (rule find_update_where) simp
  then show ?thesis using Some by (auto simp: book_play_def rps_row_at_def)
qed

lemma rps_row_quota [simp]: "rps_row_at uid day (set_quota k b d) = rps_row_at uid day d"
  by (simp add: rps_row_at_def)

lemma rps_plays_book:
  "rps_plays uid' day' (book_play uid day gb d) =
   rps_plays uid' day' d + (if (uid', day') = (uid, day) then 1 else 0)"
  unfolding rps_plays_def rps_row_book by (auto split: option.split)

lemma rps_net_book:
  "rps_net uid' day' (book_play uid day gb d) =
   rps_net uid' day' d + (if (uid', day') = (uid, day) then gb else 0)"
  unfolding rps_net_def rps_row_book by (auto split: option.split)

lemma rps_quota_cong [simp]:
  "rps_plays uid day (set_quota k b d) = rps_plays uid day d"
  "rps_net uid day (set_quota k b d) = rps_net uid day d"
  by (simp_all add: rps_plays_def rps_net_def)

lemma applyRpsPlay_refused: "isl (fst (applyRpsPlay uid day oc d)) \<Longrightarrow> snd (applyRpsPlay uid day oc d) = d"
  by (auto simp: applyRpsPlay_def Let_def split: option.splits if_splits)

lemma applyRpsPlay_accepted:
  "\<not> isl (fst (applyRpsPlay uid day oc d)) \<longleftrightarrow>
   user_by_id d uid \<noteq> None \<and> rps_plays uid day d < DAILY_RPS_LIMIT"
  by (auto simp: applyRpsPlay_def Let_def split: option.splits)

lemma applyRpsPlay_counts:
  "rps_plays uid' day' (snd (applyRpsPlay uid day oc d)) = rps_plays uid' day' d +
   (if \<not> isl (fst (applyRpsPlay uid day oc d)) \<and> (uid', day') = (uid, day) then 1 else 0)"
  by (auto simp: applyRpsPlay_def Let_def rps_plays_book split: option.splits)

lemma applyRpsPlay_net:
  "rps_net uid' day' (snd (applyRpsPlay uid day oc d)) = rps_net uid' day' d +
   (if \<not> isl (fst (applyRpsPlay uid day oc d)) \<and> (uid', day') = (uid, day) then oc_gb oc else 0)"
  by (auto simp: applyRpsPlay_def Let_def rps_net_book split: option.splits)

end
