(* ===== verification/Lucky.thy ===== *)
theory Lucky
  imports Flip
begin

text \<open>
  The weekly wheel (\<open>src/routes/luckyWheel.js\<close>): one spin per account and week, settled by an
  insert that the unique key makes the only one. Labels are kept by their Latin part.
\<close>

definition LUCKY_WHEEL_PRIZES :: "prize list" where
  "LUCKY_WHEEL_PRIZES =
     [\<lparr>pz_label = ''first 50GB'', pz_gb = 50, pz_weight = 1\<rparr>,
      \<lparr>pz_label = ''grand 30GB'', pz_gb = 30, pz_weight = 4\<rparr>,
      \<lparr>pz_label = ''major 20GB'', pz_gb = 20, pz_weight = 8\<rparr>,
      \<lparr>pz_label = ''luck 15GB'', pz_gb = 15, pz_weight = 14\<rparr>,
      \<lparr>pz_label = ''burst 10GB'', pz_gb = 10, pz_weight = 22\<rparr>,
      \<lparr>pz_label = ''sure 8GB'', pz_gb = 8, pz_weight = 20\<rparr>,
      \<lparr>pz_label = ''floor 5GB'', pz_gb = 5, pz_weight = 18\<rparr>,
      \<lparr>pz_label = ''happy 5GB'', pz_gb = 5, pz_weight = 13\<rparr>]"

text \<open>The month and the day of the Monday after this week; \<open>None\<close> if the week has no key.\<close>

definition getNextLuckyOpenLabel :: "int \<Rightarrow> (int option \<times> int option) option" where
  "getNextLuckyOpenLabel now =
     (case weekKey now of
        None \<Rightarrow> None
      | Some wk \<Rightarrow>
          (case shiftIsoDate wk 7 of
             None \<Rightarrow> None
           | Some m \<Rightarrow>
               (let parts = js_split (CHR ''-'') m;
                    part = (\<lambda>i. if i < length parts then map_option floor (js_number (parts ! i)) else None)
                in Some (part 1, part 2))))"

definition lucky_row_at :: "int \<Rightarrow> string \<Rightarrow> db \<Rightarrow> lucky_row option" where
  "lucky_row_at uid wk d = find (\<lambda>r. lucky_key r = (uid, wk)) (d_lucky d)"

text \<open>\<open>findIndex\<close> by label.\<close>

fun index_of :: "string \<Rightarrow> prize list \<Rightarrow> nat option" where
  "index_of l [] = None"
| "index_of l (p # ps) = (if pz_label p = l then Some 0 else map_option Suc (index_of l ps))"

record lucky_profile =
  lp_week :: string
  lp_can_spin :: bool
  lp_prize_label :: string
  lp_prize_gb :: "rat option"
  lp_prize_index :: "nat option"
  lp_remaining_gb :: rat
  lp_next_open :: "(int option \<times> int option) option"
  lp_prizes :: "prize list"

definition getLuckyProfileByUser :: "user \<Rightarrow> string \<Rightarrow> int \<Rightarrow> db \<Rightarrow> lucky_profile" where
  "getLuckyProfileByUser u wk now d =
     (let row = lucky_row_at (u_id u) wk d
      in \<lparr>lp_week = wk, lp_can_spin = (row = None),
          lp_prize_label = (case row of None \<Rightarrow> [] | Some r \<Rightarrow> lu_prize r),
          lp_prize_gb = map_option (\<lambda>r. to_fixed2 (of_int (lu_amount r) / of_int GB)) row,
          lp_prize_index = (case row of None \<Rightarrow> None | Some r \<Rightarrow> index_of (lu_prize r) LUCKY_WHEEL_PRIZES),
          lp_remaining_gb = remaining_gb u d, lp_next_open = getNextLuckyOpenLabel now,
          lp_prizes = LUCKY_WHEEL_PRIZES\<rparr>)"

definition applyLuckySpin :: "int \<Rightarrow> string \<Rightarrow> prize \<Rightarrow> db \<Rightarrow> (game_error + prize) \<times> db" where
  "applyLuckySpin uid wk p d =
     (let bytes = gb_bytes (pz_gb p)
      in case user_by_id d uid of
           None \<Rightarrow> (Inl NotBound, d)
         | Some u \<Rightarrow>
             (let (changes, t) = insert_ignore lucky_key
                    \<lparr>lu_user = uid, lu_week = wk, lu_prize = pz_label p, lu_amount = bytes\<rparr> (d_lucky d);
                  d1 = d\<lparr>d_lucky := t\<rparr>
              in if changes = 0
                 then (Inl (AlreadySpun (case lucky_row_at uid wk d1 of None \<Rightarrow> [] | Some r \<Rightarrow> lu_prize r)), d1)
                 else (Inr p, if 0 \<le> u_traffic_limit u
                              then set_quota uid (max 0 (u_traffic_limit u + bytes)) d1 else d1)))"

section \<open>The routes\<close>

text \<open>\<open>wk\<close> is \<open>weekKey()\<close> of the moment of the request.\<close>

definition lucky_profile_route :: "tg_ident option \<Rightarrow> string \<Rightarrow> int \<Rightarrow> db \<Rightarrow> game_error + lucky_profile" where
  "lucky_profile_route tgUser wk now d =
     (case tgUser of
        None \<Rightarrow> Inl VerifyFailed
      | Some t \<Rightarrow>
          (case getUserByTelegramId (tg_text t) d of
             None \<Rightarrow> Inl NotBound
           | Some u \<Rightarrow> Inr (getLuckyProfileByUser u wk now d)))"

text \<open>
  The reply to a spin spreads the profile over the drawn prize, so the label, the amount and the
  position come from the stored row.
\<close>

definition lucky_spin_route ::
  "(int \<Rightarrow> string) \<Rightarrow> rat \<Rightarrow> tg_ident option \<Rightarrow> string \<Rightarrow> int \<Rightarrow> db \<Rightarrow>
   (game_error \<times> lucky_profile option + lucky_profile) \<times> db" where
  "lucky_spin_route gen rnd tgUser wk now d =
     (if in_maintenance d then (Inl (Maintenance, None), d)
      else case tgUser of
             None \<Rightarrow> (Inl (VerifyFailed, None), d)
           | Some t \<Rightarrow>
               (case getUserByTelegramId (tg_text t) d of
                  None \<Rightarrow> (Inl (NotBound, None), d)
                | Some u \<Rightarrow>
                    (let (r, d1) = applyLuckySpin (u_id u) wk (weightedRandom rnd LUCKY_WHEEL_PRIZES) d
                     in case r of
                          Inl e \<Rightarrow> (Inl (e, Some (getLuckyProfileByUser u wk now d1)), d1)
                        | Inr _ \<Rightarrow>
                            (let d2 = tryUnfreezeAfterTraffic gen now (u_id u) d1
                             in (Inr (getLuckyProfileByUser u wk now d2), d2)))))"

section \<open>Facts\<close>

lemma lucky_cong: "d_lucky d' = d_lucky d \<Longrightarrow> lucky_row_at uid wk d' = lucky_row_at uid wk d"
  by (simp add: lucky_row_at_def)

lemma lucky_row_None: "lucky_row_at uid wk d = None \<longleftrightarrow> (uid, wk) \<notin> lucky_key ` set (d_lucky d)"
  unfolding lucky_row_at_def by (rule find_None_key)

text \<open>A spin is accepted exactly for an existing account without a row for the week.\<close>

lemma spin_accepted:
  "\<not> isl (fst (applyLuckySpin uid wk p d)) \<longleftrightarrow> user_by_id d uid \<noteq> None \<and> lucky_row_at uid wk d = None"
  by (auto simp: applyLuckySpin_def Let_def insert_ignore_def lucky_row_None split: option.splits)

lemma spin_rows:
  "d_lucky (snd (applyLuckySpin uid wk p d)) =
   (if user_by_id d uid \<noteq> None \<and> lucky_row_at uid wk d = None
    then d_lucky d @ [\<lparr>lu_user = uid, lu_week = wk, lu_prize = pz_label p, lu_amount = gb_bytes (pz_gb p)\<rparr>]
    else d_lucky d)"
  by (auto simp: applyLuckySpin_def Let_def insert_ignore_def lucky_row_None split: option.splits)

lemma spin_row_at:
  "\<not> isl (fst (applyLuckySpin uid wk p d)) \<Longrightarrow> lucky_row_at uid wk (snd (applyLuckySpin uid wk p d)) =
     Some \<lparr>lu_user = uid, lu_week = wk, lu_prize = pz_label p, lu_amount = gb_bytes (pz_gb p)\<rparr>"
  unfolding lucky_row_at_def spin_rows spin_accepted by (simp add: find_append)

lemma lucky_prize_gb: "p \<in> set LUCKY_WHEEL_PRIZES \<Longrightarrow> \<exists>n. 0 < n \<and> pz_gb p = of_int n"
  by (auto simp: LUCKY_WHEEL_PRIZES_def intro: exI [of _ 50] exI [of _ 30] exI [of _ 20] exI [of _ 15]
      exI [of _ 10] exI [of _ 8] exI [of _ 5])

end
