(* ===== verification/GameProps.thy ===== *)
theory GameProps
  imports Rps Lucky AccountFacts Samples Contracts
begin

text \<open>
  The properties of the three chat games: their limits under any interleaving of requests, what
  they do to quotas, the draw and the seeded board.
\<close>

section \<open>Requests of all games\<close>

datatype game_req =
    FlipReq rat "tg_ident option" js_num int
  | RpsReq rat "tg_ident option" js_num int
  | SpinReq rat "tg_ident option" string int

datatype game_event =
    FlipPlayed int string int
  | RpsPlayed int string
  | Spun int string
  | NotPlayed

definition player :: "tg_ident option \<Rightarrow> db \<Rightarrow> int" where
  "player tgUser d =
     (case tgUser of None \<Rightarrow> 0 | Some t \<Rightarrow>
        (case getUserByTelegramId (tg_text t) d of None \<Rightarrow> 0 | Some u \<Rightarrow> u_id u))"

definition card_of :: "js_num \<Rightarrow> int" where
  "card_of c = (case c of JInt i \<Rightarrow> i | JNonInt \<Rightarrow> 0)"

text \<open>One request to any of the games, with what it did.\<close>

definition game_op :: "(int \<Rightarrow> string) \<Rightarrow> game_req \<Rightarrow> db \<Rightarrow> game_event \<times> db" where
  "game_op gen req d =
     (case req of
        FlipReq rnd t c now \<Rightarrow>
          (let (r, d') = flip_draw_route gen rnd t c now d
           in (if isl r then NotPlayed else FlipPlayed (player t d) (today now) (card_of c), d'))
      | RpsReq rnd t c now \<Rightarrow>
          (let (r, d') = rps_play_route gen rnd t c now d
           in (if isl r then NotPlayed else RpsPlayed (player t d) (today now), d'))
      | SpinReq rnd t wk now \<Rightarrow>
          (let (r, d') = lucky_spin_route gen rnd t wk now d
           in (if isl r then NotPlayed else Spun (player t d) wk, d')))"

definition flip_of :: "int \<Rightarrow> string \<Rightarrow> game_event \<Rightarrow> bool" where
  "flip_of uid day e = (case e of FlipPlayed u w c \<Rightarrow> u = uid \<and> w = day | _ \<Rightarrow> False)"

definition rps_of :: "int \<Rightarrow> string \<Rightarrow> game_event \<Rightarrow> bool" where
  "rps_of uid day e = (case e of RpsPlayed u w \<Rightarrow> u = uid \<and> w = day | _ \<Rightarrow> False)"

definition is_spin :: "game_event \<Rightarrow> bool" where
  "is_spin e = (case e of Spun _ _ \<Rightarrow> True | _ \<Rightarrow> False)"

definition is_flip :: "game_event \<Rightarrow> bool" where
  "is_flip e = (case e of FlipPlayed _ _ _ \<Rightarrow> True | _ \<Rightarrow> False)"

section \<open>What a request does\<close>

definition game_open :: "tg_ident option \<Rightarrow> js_num \<Rightarrow> int \<Rightarrow> db \<Rightarrow> bool" where
  "game_open t c n d \<longleftrightarrow> \<not> in_maintenance d \<and>
     (\<exists>x i u. t = Some x \<and> c = JInt i \<and> 0 \<le> i \<and> i < n \<and> getUserByTelegramId (tg_text x) d = Some u)"

lemma flip_route_closed: "\<not> game_open t c 9 d \<Longrightarrow> \<exists>e. flip_draw_route gen rnd t c now d = (Inl e, d)"
  by (cases t; cases c; cases "getUserByTelegramId (tg_text (the t)) d";
      simp add: flip_draw_route_def game_open_def CARD_COUNT_def not_le not_less; fastforce)

lemma flip_route_open:
  assumes "\<not> in_maintenance d" and "0 \<le> i" and "i < 9" and "getUserByTelegramId (tg_text x) d = Some u"
  shows "flip_draw_route gen rnd (Some x) (JInt i) now d =
    (let p = weightedRandom rnd FLIP_PRIZES; (r, d1) = applyFlipDraw u i p now d
     in case r of
          Inl e \<Rightarrow> (Inl (e, Some (getFlipProfileByUser u now d1)), d1)
        | Inr q \<Rightarrow>
            (let d2 = (if 0 < pz_gb p then tryUnfreezeAfterTraffic gen now (u_id u) d1 else d1)
             in (Inr \<lparr>fr_card = i, fr_label = pz_label q, fr_gb = pz_gb q,
                      fr_profile = getFlipProfileByUser u now d2\<rparr>, d2)))"
  using assms by (simp add: flip_draw_route_def CARD_COUNT_def)

text \<open>The two ways a request to the card game can go.\<close>

lemma flip_route_cases:
  obtains (refused) e where "flip_draw_route gen rnd t c now d = (Inl e, d)"
  | (played) u i r x where "t = Some x" and "getUserByTelegramId (tg_text x) d = Some u" and "c = JInt i"
      and "0 \<le> i" and "i < 9" and "may_flip u i (today now) d"
      and "flip_draw_route gen rnd t c now d =
        (Inr r, if 0 < pz_gb (weightedRandom rnd FLIP_PRIZES)
                then tryUnfreezeAfterTraffic gen now (u_id u)
                  (snd (applyFlipDraw u i (weightedRandom rnd FLIP_PRIZES) now d))
                else snd (applyFlipDraw u i (weightedRandom rnd FLIP_PRIZES) now d))"
proof (cases "game_open t c 9 d")
  case False
  then show ?thesis using flip_route_closed refused by metis
next
  case True
  let ?p = "weightedRandom rnd FLIP_PRIZES"
  obtain x i u where o: "\<not> in_maintenance d" "0 \<le> i" "i < 9" "getUserByTelegramId (tg_text x) d = Some u"
    and t: "t = Some x" "c = JInt i" using True by (auto simp: game_open_def)
  show ?thesis
  proof (cases "may_flip u i (today now) d")
    case True
    obtain d1 where a: "applyFlipDraw u i ?p now d = (Inr ?p, d1)"
      using applyFlipDraw_accept(1) [OF True] by (metis prod.collapse)
    show ?thesis
      using played [OF t(1) o(4) t(2) o(2,3) True] flip_route_open [OF o] a unfolding t by (simp add: Let_def)
  next
    case False
    obtain e where a: "applyFlipDraw u i ?p now d = (Inl e, d)"
      using applyFlipDraw_refuse [OF False] by (metis prod.collapse)
    show ?thesis using refused flip_route_open [OF o] a unfolding t by (simp add: Let_def)
  qed
qed

lemma applyFlipDraw_frame:
  "d_rps (snd (applyFlipDraw u i p now d)) = d_rps d"
  "d_lucky (snd (applyFlipDraw u i p now d)) = d_lucky d"
  by (auto simp: applyFlipDraw_def Let_def split: option.split)

lemma flip_route_frame:
  "d_rps (snd (flip_draw_route gen rnd t c now d)) = d_rps d"
  "d_lucky (snd (flip_draw_route gen rnd t c now d)) = d_lucky d"
  "d_flip (snd (flip_draw_route gen rnd t c now d)) =
     (if isl (fst (flip_draw_route gen rnd t c now d)) then d_flip d
      else d_flip d @ [flip_row_of (the (getUserByTelegramId (tg_text (the t)) d)) (card_of c)
        (weightedRandom rnd FLIP_PRIZES) (today now)])"
  by (rule flip_route_cases [of gen rnd t c now d];
      simp add: applyFlipDraw_frame applyFlipDraw_accept card_of_def)+

lemma choice_range: "(c :: int) \<notin> {0, 1, 2} \<longleftrightarrow> c < 0 \<or> 3 \<le> c"
  by auto

lemma rps_route_closed: "\<not> game_open t c 3 d \<Longrightarrow> \<exists>e. rps_play_route gen rnd t c now d = (Inl e, d)"
  unfolding rps_play_route_def choice_range
  by (cases t; cases c; cases "getUserByTelegramId (tg_text (the t)) d";
      simp add: game_open_def not_le not_less; fastforce)

lemma rps_route_open:
  assumes "\<not> in_maintenance d" and "i \<in> {0, 1, 2}" and "getUserByTelegramId (tg_text x) d = Some u"
    and "applyRpsPlay (u_id u) (today now) (resolveOutcome i rnd) d = (r, d1)"
  shows "rps_play_route gen rnd (Some x) (JInt i) now d =
    (case r of
       Inl e \<Rightarrow> (Inl (e, Some (getRpsProfileByUser u now d1)), d1)
     | Inr _ \<Rightarrow>
         (let d2 = (if 0 < oc_gb (resolveOutcome i rnd) then tryUnfreezeAfterTraffic gen now (u_id u) d1 else d1)
          in case getRpsProfileByTelegramId (tg_text x) now d2 of
               None \<Rightarrow> (Inl (PlayerVanished, None), d2)
             | Some p \<Rightarrow> (Inr (resolveOutcome i rnd, p), d2)))"
proof -
  have i: "(i \<notin> {0, 1, 2}) = False" using assms(2) by blast
  have m: "in_maintenance d = False" using assms(1) by simp
  show ?thesis
    unfolding rps_play_route_def option.case js_num.case i m if_False assms(3) Let_def assms(4) prod.case ..
qed

lemma tg_lookup_unfreeze:
  "getUserByTelegramId t (unfreezeUser gen uid d) = None \<longleftrightarrow> getUserByTelegramId t d = None"
  unfolding tg_lookup_cong [OF unfreeze_users] by (simp add: tg_lookup_update)

lemma tg_lookup_try:
  "getUserByTelegramId t (tryUnfreezeAfterTraffic gen now uid d) = None \<longleftrightarrow> getUserByTelegramId t d = None"
  by (simp add: tryUnfreezeAfterTraffic_def tg_lookup_unfreeze tg_lookup_cong [OF effect_frame(1)]
      tg_lookup_cong [OF audit_frame(1)] split: option.split)

lemma tg_lookup_quota:
  "getUserByTelegramId t (set_quota uid b d) = None \<longleftrightarrow> getUserByTelegramId t d = None"
  by (simp add: set_quota_def tg_lookup_update)

lemma book_play_users [simp]: "d_users (book_play uid day gb d) = d_users d"
  by (simp add: book_play_def split: option.split)

lemma tg_lookup_play:
  "getUserByTelegramId t (snd (applyRpsPlay uid day oc d)) = None \<longleftrightarrow> getUserByTelegramId t d = None"
proof -
  have b: "getUserByTelegramId t (book_play uid day gb d) = getUserByTelegramId t d" for gb
    by (simp add: getUserByTelegramId_def)
  show ?thesis
    by (simp add: applyRpsPlay_def Let_def tg_lookup_quota b split: option.split)
qed

lemma rps_route_cases:
  obtains (refused) e where "rps_play_route gen rnd t c now d = (Inl e, d)"
  | (played) u i p x where "t = Some x" and "getUserByTelegramId (tg_text x) d = Some u" and "c = JInt i"
      and "i \<in> {0, 1, 2}" and "\<not> isl (fst (applyRpsPlay (u_id u) (today now) (resolveOutcome i rnd) d))"
      and "rps_play_route gen rnd t c now d =
        (Inr (resolveOutcome i rnd, p), if 0 < oc_gb (resolveOutcome i rnd)
                then tryUnfreezeAfterTraffic gen now (u_id u)
                  (snd (applyRpsPlay (u_id u) (today now) (resolveOutcome i rnd) d))
                else snd (applyRpsPlay (u_id u) (today now) (resolveOutcome i rnd) d))"
proof (cases "game_open t c 3 d")
  case False
  then show ?thesis using rps_route_closed refused by metis
next
  case True
  then obtain x i u where o: "\<not> in_maintenance d" "0 \<le> i" "i < 3" "getUserByTelegramId (tg_text x) d = Some u"
    and t: "t = Some x" "c = JInt i" by (auto simp: game_open_def)
  have i: "i \<in> {0, 1, 2}" using o(2,3) by auto
  let ?oc = "resolveOutcome i rnd"
  obtain r d1 where a: "applyRpsPlay (u_id u) (today now) ?oc d = (r, d1)" by (metis prod.collapse)
  show ?thesis
  proof (cases "isl r")
    case True
    then have "d1 = d" using applyRpsPlay_refused [of "u_id u" "today now" ?oc d] a by simp
    then show ?thesis
      using True refused rps_route_open [OF o(1) i o(4) a] unfolding t by (cases r) auto
  next
    case False
    let ?d2 = "if 0 < oc_gb ?oc then tryUnfreezeAfterTraffic gen now (u_id u) d1 else d1"
    have e: "getUserByTelegramId (tg_text x) d1 \<noteq> None"
      using tg_lookup_play [of "tg_text x" "u_id u" "today now" ?oc d] o(4) a by simp
    have "getUserByTelegramId (tg_text x) ?d2 \<noteq> None"
      by (cases "0 < oc_gb ?oc") (simp_all only: if_True if_False tg_lookup_try e not_False_eq_True)
    then obtain p where p: "getRpsProfileByTelegramId (tg_text x) now ?d2 = Some p"
      by (auto simp: getRpsProfileByTelegramId_def)
    have "rps_play_route gen rnd t c now d = (Inr (?oc, p), ?d2)"
      using False rps_route_open [OF o(1) i o(4) a, of gen] p unfolding t Let_def by (cases r) simp_all
    then show ?thesis
      using False played [OF t(1) o(4) t(2) i] a by simp
  qed
qed

lemma rps_play_rows:
  "d_flip (snd (applyRpsPlay uid day oc d)) = d_flip d"
  "d_lucky (snd (applyRpsPlay uid day oc d)) = d_lucky d"
proof -
  have b: "d_flip (book_play uid day gb d) = d_flip d" "d_lucky (book_play uid day gb d) = d_lucky d" for gb
    by (simp_all add: book_play_def split: option.split)
  show "d_flip (snd (applyRpsPlay uid day oc d)) = d_flip d"
    "d_lucky (snd (applyRpsPlay uid day oc d)) = d_lucky d"
    by (simp_all add: applyRpsPlay_def Let_def b split: option.split)
qed

lemma rps_plays_cong: "d_rps d' = d_rps d \<Longrightarrow> rps_plays uid day d' = rps_plays uid day d"
  by (simp add: rps_plays_def rps_row_at_def)

lemma flip_plays_cong: "d_flip d' = d_flip d \<Longrightarrow> flip_plays uid day d' = flip_plays uid day d"
  by (simp add: flip_plays_def flip_rows_def)

lemma rps_route_frame:
  "d_flip (snd (rps_play_route gen rnd t c now d)) = d_flip d"
  "d_lucky (snd (rps_play_route gen rnd t c now d)) = d_lucky d"
  "rps_plays uid day (snd (rps_play_route gen rnd t c now d)) = rps_plays uid day d +
     (if \<not> isl (fst (rps_play_route gen rnd t c now d)) \<and> uid = player t d \<and> day = today now then 1 else 0)"
proof -
  have f: "rps_plays i w (tryUnfreezeAfterTraffic gen now k d') = rps_plays i w d'" for i w k d'
    by (rule rps_plays_cong) simp
  show "d_flip (snd (rps_play_route gen rnd t c now d)) = d_flip d"
    "d_lucky (snd (rps_play_route gen rnd t c now d)) = d_lucky d"
    by (rule rps_route_cases [of gen rnd t c now d]; simp add: rps_play_rows)+
  show "rps_plays uid day (snd (rps_play_route gen rnd t c now d)) = rps_plays uid day d +
     (if \<not> isl (fst (rps_play_route gen rnd t c now d)) \<and> uid = player t d \<and> day = today now then 1 else 0)"
    by (rule rps_route_cases [of gen rnd t c now d]; simp add: f applyRpsPlay_counts player_def)
qed

lemma spin_route_cases:
  obtains (refused) e where "lucky_spin_route gen rnd t wk now d = (Inl e, d)"
  | (played) u p x where "t = Some x" and "getUserByTelegramId (tg_text x) d = Some u"
      and "\<not> isl (fst (applyLuckySpin (u_id u) wk (weightedRandom rnd LUCKY_WHEEL_PRIZES) d))"
      and "lucky_spin_route gen rnd t wk now d =
        (Inr p, tryUnfreezeAfterTraffic gen now (u_id u)
          (snd (applyLuckySpin (u_id u) wk (weightedRandom rnd LUCKY_WHEEL_PRIZES) d)))"
proof (cases "in_maintenance d \<or> t = None \<or> getUserByTelegramId (tg_text (the t)) d = None")
  case True
  then have "\<exists>e. lucky_spin_route gen rnd t wk now d = (Inl e, d)"
    by (auto simp: lucky_spin_route_def split: option.split)
  then show ?thesis using refused by blast
next
  case False
  then obtain x u where x: "\<not> in_maintenance d" "t = Some x" "getUserByTelegramId (tg_text x) d = Some u"
    by auto
  obtain r d1 where a: "applyLuckySpin (u_id u) wk (weightedRandom rnd LUCKY_WHEEL_PRIZES) d = (r, d1)"
    by (metis prod.collapse)
  show ?thesis
  proof (cases r)
    case (Inl e)
    then have "d1 = d"
      using a by (auto simp: applyLuckySpin_def Let_def insert_ignore_def split: option.splits if_splits)
    then show ?thesis using refused x a Inl by (simp add: lucky_spin_route_def)
  next
    case (Inr q)
    then show ?thesis using played [OF x(2,3)] x a by (simp add: lucky_spin_route_def Let_def)
  qed
qed

lemma spin_rows_other:
  "d_flip (snd (applyLuckySpin uid wk p d)) = d_flip d"
  "d_rps (snd (applyLuckySpin uid wk p d)) = d_rps d"
  by (simp_all add: applyLuckySpin_def Let_def split_beta split: option.split)

lemma spin_route_frame:
  "d_flip (snd (lucky_spin_route gen rnd t wk now d)) = d_flip d"
  "d_rps (snd (lucky_spin_route gen rnd t wk now d)) = d_rps d"
  "lucky_key ` set (d_lucky (snd (lucky_spin_route gen rnd t wk now d))) =
     (if isl (fst (lucky_spin_route gen rnd t wk now d)) then {} else {(player t d, wk)}) \<union>
     lucky_key ` set (d_lucky d)"
  by (rule spin_route_cases [of gen rnd t wk now d];
      auto simp: spin_rows_other spin_rows spin_accepted player_def)+

lemma spin_route_fresh:
  "\<not> isl (fst (lucky_spin_route gen rnd t wk now d)) \<Longrightarrow> (player t d, wk) \<notin> lucky_key ` set (d_lucky d)"
  by (rule spin_route_cases [of gen rnd t wk now d]; simp add: spin_accepted player_def lucky_row_None)

section \<open>Limits\<close>

lemma flip_route_player:
  "\<not> isl (fst (flip_draw_route gen rnd t c now d)) \<Longrightarrow>
   u_id (the (getUserByTelegramId (tg_text (the t)) d)) = player t d \<and>
   flip_plays (player t d) (today now) d < DAILY_FLIP_LIMIT \<and>
   (player t d, today now, card_of c) \<notin> flip_key ` set (d_flip d)"
  by (rule flip_route_cases [of gen rnd t c now d];
      simp add: player_def may_flip_def used_cards_key card_of_def)

lemma game_op_flip:
  "d_flip (snd (game_op gen req d)) =
   (case req of
      FlipReq rnd t c now \<Rightarrow>
        if isl (fst (flip_draw_route gen rnd t c now d)) then d_flip d
        else d_flip d @ [flip_row_of (the (getUserByTelegramId (tg_text (the t)) d)) (card_of c)
          (weightedRandom rnd FLIP_PRIZES) (today now)]
    | _ \<Rightarrow> d_flip d)"
  by (simp add: game_op_def split_beta flip_route_frame rps_route_frame spin_route_frame split: game_req.split)

lemma flip_plays_game_op:
  "flip_plays uid day (snd (game_op gen req d)) =
   flip_plays uid day d + (if flip_of uid day (fst (game_op gen req d)) then 1 else 0)"
proof (cases req)
  case (FlipReq rnd t c now)
  show ?thesis
  proof (cases "isl (fst (flip_draw_route gen rnd t c now d))")
    case True
    then show ?thesis
      by (simp add: FlipReq game_op_def split_beta flip_of_def flip_route_frame flip_plays_def flip_rows_def)
  next
    case False
    let ?u = "the (getUserByTelegramId (tg_text (the t)) d)"
    have e: "d_flip (snd (game_op gen req d)) = d_flip d @
        [flip_row_of ?u (card_of c) (weightedRandom rnd FLIP_PRIZES) (today now)]"
      unfolding game_op_flip using False FlipReq by simp
    show ?thesis
      using flip_plays_snoc [OF e] False FlipReq flip_route_player [OF False]
      by (auto simp: game_op_def split_beta flip_of_def flip_row_of_def)
  qed
qed (simp_all add: flip_of_def game_op_def split_beta flip_plays_def flip_rows_def
    rps_route_frame spin_route_frame)

interpretation flips: quota "flip_plays uid day" "game_op gen" "flip_of uid day" DAILY_FLIP_LIMIT
  for gen uid day
proof unfold_locales
  fix req :: game_req and d :: db
  show "flip_of uid day (fst (game_op gen req d)) \<Longrightarrow> flip_plays uid day d < DAILY_FLIP_LIMIT"
    by (cases req) (auto simp: game_op_def split_beta flip_of_def dest: flip_route_player split: if_splits)
qed (simp_all add: flip_plays_game_op)

lemma rps_plays_game_op:
  "rps_plays uid day (snd (game_op gen req d)) =
   rps_plays uid day d + (if rps_of uid day (fst (game_op gen req d)) then 1 else 0)"
proof (cases req)
  case (FlipReq rnd t c now)
  then show ?thesis
    by (simp add: game_op_def split_beta rps_of_def rps_plays_cong [OF flip_route_frame(1)])
next
  case (RpsReq rnd t c now)
  then show ?thesis by (auto simp: game_op_def split_beta rps_of_def rps_route_frame)
next
  case (SpinReq rnd t wk now)
  then show ?thesis
    by (simp add: game_op_def split_beta rps_of_def rps_plays_cong [OF spin_route_frame(2)])
qed

lemma rps_route_below:
  "\<not> isl (fst (rps_play_route gen rnd t c now d)) \<Longrightarrow> rps_plays (player t d) (today now) d < DAILY_RPS_LIMIT"
  by (rule rps_route_cases [of gen rnd t c now d]; simp add: applyRpsPlay_accepted player_def)

interpretation rps: quota "rps_plays uid day" "game_op gen" "rps_of uid day" DAILY_RPS_LIMIT
  for gen uid day
proof unfold_locales
  fix req :: game_req and d :: db
  show "rps_of uid day (fst (game_op gen req d)) \<Longrightarrow> rps_plays uid day d < DAILY_RPS_LIMIT"
    by (cases req) (auto simp: game_op_def split_beta rps_of_def dest: rps_route_below split: if_splits)
qed (simp_all add: rps_plays_game_op)

text \<open>C14: however the requests of all players to the three games interleave, an account plays at most
  three cards and at most twenty rounds a day, the plays already booked included.\<close>

theorem daily_plays_limited:
  assumes "flip_plays uid day d \<le> 3" and "rps_plays uid day d \<le> 20"
  shows "flip_plays uid day d + length (filter (flip_of uid day) (fst (run_ops (game_op gen) reqs d))) \<le> 3 \<and>
    rps_plays uid day d + length (filter (rps_of uid day) (fst (run_ops (game_op gen) reqs d))) \<le> 20"
  using flips.run_counts [of uid day gen reqs d] flips.run_within_limit [of uid day d gen reqs]
    rps.run_counts [of uid day gen reqs d] rps.run_within_limit [of uid day d gen reqs] assms
  by (simp add: DAILY_FLIP_LIMIT_def DAILY_RPS_LIMIT_def)

lemma sample_flip_played: "fst (game_op (\<lambda>_. []) (FlipReq 0 (Some (TgId ''77'')) (JInt 4) 0) sample_db) = FlipPlayed 1 ''1970-01-01'' 4"
proof -
  have "\<not> isl (fst (flip_draw_route (\<lambda>_. []) 0 (Some (TgId ''77'')) (JInt 4) 0 sample_db))" by code_simp
  moreover have "player (Some (TgId ''77'')) sample_db = 1" "today 0 = ''1970-01-01''" "card_of (JInt 4) = 4" by code_simp+
  ultimately show ?thesis by (simp add: game_op_def split_beta)
qed

theorem daily_plays_limited_witness:
  "fst (run_ops (game_op (\<lambda>_. [])) [FlipReq 0 (Some (TgId ''77'')) (JInt 4) 0] sample_db) = [FlipPlayed 1 ''1970-01-01'' 4] \<and>
   length (filter (flip_of 1 ''1970-01-01'') (fst (run_ops (game_op (\<lambda>_. [])) [FlipReq 0 (Some (TgId ''77'')) (JInt 4) 0] sample_db))) \<le> 3"
proof -
  have "flip_plays 1 ''1970-01-01'' sample_db = 0" "rps_plays 1 ''1970-01-01'' sample_db = 0"
    by (simp_all add: sample_db_def empty_db_def flip_plays_def flip_rows_def rps_plays_def rps_row_at_def)
  then show ?thesis
    using daily_plays_limited [of 1 "''1970-01-01''" sample_db "\<lambda>_. []" "[FlipReq 0 (Some (TgId ''77'')) (JInt 4) 0]"] sample_flip_played
    by (simp add: split_beta)
qed

section \<open>One spin a week, each card once\<close>

definition game_target :: "game_req \<Rightarrow> db \<Rightarrow> (int \<times> string) + (int \<times> string \<times> int)" where
  "game_target req d =
     (case req of
        FlipReq rnd t c now \<Rightarrow> Inr (player t d, today now, card_of c)
      | RpsReq rnd t c now \<Rightarrow> Inl (player t d, [])
      | SpinReq rnd t wk now \<Rightarrow> Inl (player t d, wk))"

definition game_claimed :: "db \<Rightarrow> (int \<times> string) + (int \<times> string \<times> int) \<Rightarrow> bool" where
  "game_claimed d k =
     (case k of Inl s \<Rightarrow> s \<in> lucky_key ` set (d_lucky d) | Inr f \<Rightarrow> f \<in> flip_key ` set (d_flip d))"

definition claims_prize :: "game_event \<Rightarrow> bool" where
  "claims_prize e \<longleftrightarrow> is_spin e \<or> is_flip e"

interpretation prizes: claim_once game_claimed "game_op gen" claims_prize game_target
  for gen
proof unfold_locales
  fix req :: game_req and d :: db and k
  note defs = game_op_def split_beta claims_prize_def is_spin_def is_flip_def game_target_def game_claimed_def
  show "claims_prize (fst (game_op gen req d)) \<Longrightarrow> \<not> game_claimed d (game_target req d)"
    by (cases req) (auto simp: defs dest!: flip_route_player spin_route_fresh split: if_splits)
  show "claims_prize (fst (game_op gen req d)) \<Longrightarrow> game_claimed (snd (game_op gen req d)) (game_target req d)"
  proof (cases req)
    case (FlipReq rnd t c now)
    assume "claims_prize (fst (game_op gen req d))"
    then have "\<not> isl (fst (flip_draw_route gen rnd t c now d))"
      using FlipReq by (auto simp: defs split: if_splits)
    from flip_route_player [OF this] this show ?thesis
      unfolding FlipReq by (simp add: defs flip_route_frame flip_row_of_def)
  qed (auto simp: defs spin_route_frame split: if_splits)
  show "game_claimed d k \<Longrightarrow> game_claimed (snd (game_op gen req d)) k"
    by (cases req; cases k)
      (auto simp: defs flip_route_frame rps_route_frame spin_route_frame)
qed

text \<open>In any run of requests to the games no account wins twice on the wheel in the same week, and
  none turns the same card twice on the same day.\<close>

theorem no_prize_claimed_twice:
  "distinct (accepted_targets claims_prize game_target (game_op gen) reqs d)"
  by (rule prizes.accepted_distinct)

end
