(* ===== verification/DrawProps.thy ===== *)
theory DrawProps
  imports GameProps
begin

text \<open>
  What the games draw, show and book: the weighted draw, the odds of the bot, the seeded board and
  its 32-bit generator, the balance in the replies, and the launch data that names the player.
\<close>

section \<open>The weighted draw\<close>

lemma draw_loop_slices:
  assumes "\<forall>q \<in> set (pre @ p # post). 0 < pz_weight q" and "distinct (pre @ p # post)"
  shows "draw_loop roll (pre @ p # post) = Some p \<longleftrightarrow>
    (of_int (total_weight pre) < roll \<or> pre = []) \<and> roll \<le> of_int (total_weight pre + pz_weight p)"
  using assms
proof (induction pre arbitrary: roll)
  case Nil
  then have "p \<notin> set post" by simp
  then show ?case by (auto simp: Let_def total_weight_def dest: draw_loop_mem)
next
  case (Cons q pre)
  have nn: "0 \<le> total_weight pre"
    using Cons.prems(1) by (auto simp: total_weight_def less_imp_le intro!: sum_list_nonneg)
  have tw: "total_weight (q # pre) = pz_weight q + total_weight pre" by (simp add: total_weight_def)
  have nn': "(0 :: rat) \<le> of_int (total_weight pre)" using nn by simp
  have "q \<noteq> p" using Cons.prems(2) by auto
  show ?case
  proof (cases "roll - of_int (pz_weight q) \<le> 0")
    case True
    then show ?thesis using \<open>q \<noteq> p\<close> nn' by (simp add: Let_def tw)
  next
    case False
    have "(of_int (total_weight pre) < roll - of_int (pz_weight q) \<or> pre = []) \<longleftrightarrow>
        of_int (total_weight (q # pre)) < roll"
      using False by (auto simp: tw) (simp add: total_weight_def)?
    moreover have "draw_loop (roll - of_int (pz_weight q)) (pre @ p # post) = Some p \<longleftrightarrow>
        (of_int (total_weight pre) < roll - of_int (pz_weight q) \<or> pre = []) \<and>
        roll - of_int (pz_weight q) \<le> of_int (total_weight pre + pz_weight p)"
      using Cons.prems by (intro Cons.IH) auto
    ultimately show ?thesis using False by (auto simp: Let_def tw)
  qed
qed

text \<open>For prizes with positive weights the draw is total and proportional: the random numbers
  that draw a prize are exactly those in its slice of the unit interval, whose length is its share
  of the total weight (the first slice includes 0).\<close>

theorem weightedRandom_slices:
  assumes "\<forall>q \<in> set (pre @ p # post). 0 < pz_weight q" and "distinct (pre @ p # post)"
    and "0 \<le> rnd" and "rnd < 1"
  shows "weightedRandom rnd (pre @ p # post) = p \<longleftrightarrow>
    (of_int (total_weight pre) / of_int (total_weight (pre @ p # post)) < rnd \<or> pre = []) \<and>
    rnd \<le> of_int (total_weight pre + pz_weight p) / of_int (total_weight (pre @ p # post))"
proof -
  let ?ps = "pre @ p # post"
  let ?T = "of_int (total_weight ?ps) :: rat"
  have "0 \<le> total_weight pre" "0 \<le> total_weight post" "0 < pz_weight p"
    using assms(1) by (auto simp: total_weight_def less_imp_le intro!: sum_list_nonneg)
  then have "0 < total_weight ?ps" by (simp add: total_weight_def)
  then have T: "0 < ?T" by simp
  have "rnd * ?T \<le> ?T" using assms(3,4) T by (simp add: mult_le_cancel_right1)
  then obtain q where q: "draw_loop (rnd * ?T) ?ps = Some q"
    using draw_loop_total [of "rnd * ?T" ?ps] by auto
  then have "weightedRandom rnd ?ps = p \<longleftrightarrow> draw_loop (rnd * ?T) ?ps = Some p"
    by (simp add: weightedRandom_def draw_at_def)
  also have "\<dots> \<longleftrightarrow> (of_int (total_weight pre) < rnd * ?T \<or> pre = []) \<and>
      rnd * ?T \<le> of_int (total_weight pre + pz_weight p)"
    by (rule draw_loop_slices [OF assms(1,2)])
  finally show ?thesis using T by (simp add: divide_less_eq le_divide_eq)
qed

theorem weightedRandom_slices_witness: "pz_label (weightedRandom (1 / 4) FLIP_PRIZES) = ''small +1GB''"
proof -
  let ?pre = "take 2 FLIP_PRIZES" and ?p = "FLIP_PRIZES ! 2" and ?post = "drop 3 FLIP_PRIZES"
  have "weightedRandom (1 / 4) (?pre @ ?p # ?post) = ?p"
    by (subst weightedRandom_slices) (simp_all add: FLIP_PRIZES_def total_weight_def numeral_3_eq_3)
  then show ?thesis by (simp add: FLIP_PRIZES_def)
qed

section \<open>The seeded generator\<close>

text \<open>The generator's steps are exact in double precision, so keeping the seed as a 32-bit word is
  what the code computes: before the reduction the values stay below 2^53, after it they are the
  products and sums modulo 2^32, and the fraction is in [0, 1).\<close>

theorem seeded_random_exact:
  "uint seed * 1664525 + 1013904223 < 2 ^ 53 \<and> uint seed * 31 + of_char c < 2 ^ 53 \<and>
   uint (next_seed seed) = (uint seed * 1664525 + 1013904223) mod 2 ^ 32 \<and>
   uint (seed_of_text (s @ [c])) = (uint (seed_of_text s) * 31 + of_char c) mod 2 ^ 32 \<and>
   0 \<le> seed_fraction seed \<and> seed_fraction seed < 1"
proof -
  have b: "uint seed < 4294967296" "0 \<le> uint seed" using uint_lt2p [of seed] by simp_all
  have c: "(of_char c :: int) < 256" by (simp add: of_char_def)
  have "uint (next_seed seed) = (uint seed * 1664525 + 1013904223) mod 2 ^ 32"
    by (simp add: next_seed_def uint_word_ariths mod_simps)
  moreover have "uint (seed_of_text (s @ [c])) = (uint (seed_of_text s) * 31 + of_char c) mod 2 ^ 32"
  proof -
    have "(of_char c :: nat) < 2 ^ 32" by (rule less_trans [OF nat_of_char_less_256]) simp
    then have "uint (of_nat (of_char c) :: 32 word) = int (of_char c)"
      by (simp add: unsigned_of_nat take_bit_nat_eq_self)
    then show ?thesis by (simp add: seed_of_text_def uint_word_ariths mod_simps of_nat_of_char)
  qed
  moreover have "0 \<le> seed_fraction seed \<and> seed_fraction seed < 1"
  proof -
    define y where "y = (of_int (uint seed) :: rat)"
    have "y < of_int 4294967296" "of_int 0 \<le> y" unfolding y_def of_int_less_iff of_int_le_iff by (rule b)+
    then show ?thesis unfolding seed_fraction_def y_def [symmetric] by simp
  qed
  ultimately show ?thesis using b c by simp
qed

section \<open>The odds of the bot\<close>

text \<open>For each choice the player wins exactly below one half, draws exactly on the next fifteen
  hundredths and loses otherwise; the bot's choice is one of the three and agrees with the result,
  and the gain is 1, 0 or minus one half.\<close>

theorem rps_odds:
  assumes "choice \<in> {0, 1, 2}"
  shows "(oc_result (resolveOutcome choice roll) = Win \<longleftrightarrow> roll < 1 / 2) \<and>
    (oc_result (resolveOutcome choice roll) = Draw \<longleftrightarrow> 1 / 2 \<le> roll \<and> roll < 65 / 100) \<and>
    oc_sys_choice (resolveOutcome choice roll) \<in> {0, 1, 2} \<and>
    (oc_sys_choice (resolveOutcome choice roll) - choice) mod 3 =
      (case oc_result (resolveOutcome choice roll) of Draw \<Rightarrow> 0 | Win \<Rightarrow> 1 | Lose \<Rightarrow> 2) \<and>
    oc_gb (resolveOutcome choice roll) =
      (case oc_result (resolveOutcome choice roll) of Draw \<Rightarrow> 0 | Win \<Rightarrow> 1 | Lose \<Rightarrow> - 1 / 2)"
  using assms by (auto simp: resolveOutcome_def WIN_RATE_def DRAW_RATE_def Let_def)

theorem rps_odds_witness: "oc_result (resolveOutcome 1 (6 / 10)) = Draw"
  using rps_odds [of 1 "6 / 10"] by simp

section \<open>Quotas\<close>

definition limit_of :: "int \<Rightarrow> db \<Rightarrow> int option" where
  "limit_of uid d = map_option u_traffic_limit (user_by_id d uid)"

definition limits_kept :: "db \<Rightarrow> db \<Rightarrow> bool" where
  "limits_kept d d' \<longleftrightarrow> map u_id (d_users d') = map u_id (d_users d) \<and>
     (\<forall>uid l. limit_of uid d = Some l \<longrightarrow>
        (\<exists>l'. limit_of uid d' = Some l' \<and> (if l < 0 then l' = l else 0 \<le> l')))"

lemma limits_kept_refl: "limits_kept d d"
  by (simp add: limits_kept_def)

lemma limits_kept_trans: "limits_kept d d1 \<Longrightarrow> limits_kept d1 d2 \<Longrightarrow> limits_kept d d2"
  unfolding limits_kept_def by (metis not_less)

lemma limits_kept_same:
  "map u_id (d_users d') = map u_id (d_users d) \<Longrightarrow> (\<And>uid. limit_of uid d' = limit_of uid d) \<Longrightarrow> limits_kept d d'"
  by (simp add: limits_kept_def)

lemma limit_update_flags:
  assumes "\<And>u. u_id (f u) = u_id u" and "\<And>u. u_traffic_limit (f u) = u_traffic_limit u"
  shows "limit_of uid (update_user k f d) = limit_of uid d"
  by (simp add: limit_of_def user_by_id_update_user assms option.map_comp comp_def)

lemma limits_kept_try: "limits_kept d (tryUnfreezeAfterTraffic gen now uid d)"
proof -
  have un: "limit_of k (unfreezeUser gen uid d) = limit_of k d" for k
  proof -
    have "limit_of k (unfreezeUser gen uid d) =
        limit_of k (update_user uid (\<lambda>u. u\<lparr>u_is_frozen := False, u_freeze_reason := None\<rparr>) d)"
      by (simp add: limit_of_def user_by_id_def unfreeze_users)
    also have "\<dots> = limit_of k d" by (rule limit_update_flags) simp_all
    finally show ?thesis .
  qed
  have ids: "map u_id (d_users (unfreezeUser gen uid d)) = map u_id (d_users d)"
    unfolding unfreeze_users by (simp add: update_user_ids)
  have fr: "limit_of k (add_effect e (addAuditLog n w a x i dd)) = limit_of k dd" for k e n w a x i dd
    by (simp add: limit_of_def)
  show ?thesis
    by (auto simp: tryUnfreezeAfterTraffic_def fr un ids intro!: limits_kept_same split: option.split)
qed

lemma limits_kept_quota:
  assumes "user_by_id d uid = Some u" and "0 \<le> u_traffic_limit u"
  shows "limits_kept d (set_quota uid (max 0 b) d)"
proof -
  have "limit_of k (set_quota uid (max 0 b) d) = (if k = uid then Some (max 0 b) else limit_of k d)" for k
    using assms by (auto simp: limit_of_def set_quota_def user_by_id_update_user)
  then show ?thesis
    using assms by (auto simp: limits_kept_def set_quota_def update_user_ids limit_of_def)
qed

lemma limits_kept_users: "d_users d' = d_users d \<Longrightarrow> limits_kept d d'"
  by (rule limits_kept_same) (simp_all add: limit_of_def user_by_id_def)

lemma limits_kept_booked:
  assumes "user_by_id d uid = Some u" and "0 \<le> u_traffic_limit u" and "d_users d' = d_users d"
  shows "limits_kept d (set_quota uid (max 0 b) d')"
  using limits_kept_trans [OF limits_kept_users [OF assms(3)] limits_kept_quota] assms
  by (simp add: user_by_id_def)

lemma limits_kept_flip:
  assumes "user_by_id d (u_id u) = Some u"
  shows "limits_kept d (snd (applyFlipDraw u i p now d))"
  using limits_kept_refl limits_kept_users limits_kept_booked [OF assms]
  by (simp add: applyFlipDraw_def Let_def split: option.split)

lemma limits_kept_rps: "limits_kept d (snd (applyRpsPlay uid day oc d))"
  using limits_kept_refl limits_kept_users limits_kept_booked
  by (simp add: applyRpsPlay_def Let_def split: option.split)

lemma limits_kept_spin: "limits_kept d (snd (applyLuckySpin uid wk p d))"
  using limits_kept_refl limits_kept_users limits_kept_booked
  by (simp add: applyLuckySpin_def Let_def split_beta split: option.split)

lemma limits_kept_op:
  assumes "distinct (map u_id (d_users d))"
  shows "limits_kept d (snd (game_op gen req d))"
proof -
  have u: "user_by_id d (u_id u) = Some u" if "getUserByTelegramId t d = Some u" for t u
    using that assms unfolding getUserByTelegramId_def user_by_id_def
    by (intro find_key_eq) (auto dest: find_Some_mem)
  note steps = limits_kept_refl limits_kept_flip limits_kept_rps limits_kept_spin
    limits_kept_trans [OF limits_kept_flip limits_kept_try] limits_kept_trans [OF limits_kept_rps limits_kept_try]
    limits_kept_trans [OF limits_kept_spin limits_kept_try]
  show ?thesis
  proof (cases req)
    case (FlipReq rnd t c now)
    then show ?thesis
      by (cases rule: flip_route_cases [of gen rnd t c now d]) (auto simp: game_op_def intro!: steps dest!: u)
  next
    case (RpsReq rnd t c now)
    then show ?thesis
      by (cases rule: rps_route_cases [of gen rnd t c now d]) (auto simp: game_op_def intro!: steps)
  next
    case (SpinReq rnd t wk now)
    then show ?thesis
      by (cases rule: spin_route_cases [of gen rnd t wk now d]) (auto simp: game_op_def intro!: steps)
  qed
qed

lemma limits_kept_run:
  "distinct (map u_id (d_users d)) \<Longrightarrow> limits_kept d (snd (run_ops (game_op gen) reqs d))"
proof (induction reqs arbitrary: d)
  case (Cons req reqs)
  have k: "limits_kept d (snd (game_op gen req d))" by (rule limits_kept_op [OF Cons.prems])
  then have "distinct (map u_id (d_users (snd (game_op gen req d))))"
    using Cons.prems by (simp add: limits_kept_def)
  from limits_kept_trans [OF k Cons.IH [OF this]] show ?case by (simp add: Let_def split_beta)
qed (simp add: limits_kept_refl)

text \<open>No sequence of games turns a limited account into an unlimited one, whatever it loses, or
  touches the limit of an unlimited one.\<close>

theorem games_keep_limits_limited:
  assumes "distinct (map u_id (d_users d))" and "limit_of uid d = Some l"
  shows "\<exists>l'. limit_of uid (snd (run_ops (game_op gen) reqs d)) = Some l' \<and>
    (if l < 0 then l' = l else 0 \<le> l')"
  using limits_kept_run [OF assms(1), of gen reqs] assms(2) unfolding limits_kept_def by blast

theorem games_keep_limits_limited_witness:
  "\<exists>l'. limit_of 2 (snd (run_ops (game_op (\<lambda>_. [])) [RpsReq 1 (Some (TgId ''77'')) (JInt 0) 0] sample_db)) = Some l' \<and>
    (if 5 * GB < 0 then l' = 5 * GB else 0 \<le> l')"
  by (rule games_keep_limits_limited) (simp_all add: sample_db_def empty_db_def limit_of_def user_by_id_def)

section \<open>The revealed board\<close>

text \<open>Once the plays of a day are used up the profile shows all nine cards: a played card with the
  prize booked for it, every other card with some prize of the game, marked as not played.\<close>

theorem revealed_board:
  assumes "distinct (map flip_key (d_flip d))" and "3 \<le> flip_plays (u_id u) (today now) d"
    and "\<And>c. c \<in> set (used_cards (u_id u) (today now) d) \<Longrightarrow> 0 \<le> c \<and> c < 9" and "i < 9"
  shows "\<exists>board c. fp_board (getFlipProfileByUser u now d) = Some board \<and> length board = 9 \<and>
    board ! i = Some c \<and>
    (case find (\<lambda>r. flip_key r = (u_id u, today now, int i)) (d_flip d) of
       Some r \<Rightarrow> cd_label c = fl_label r \<and> cd_gb c = fl_gb r \<and> cd_actual c
     | None \<Rightarrow> \<not> cd_actual c \<and> (\<exists>p \<in> set FLIP_PRIZES. cd_label c = pz_label p \<and> cd_gb c = pz_gb p))"
proof -
  let ?rs = "flip_rows (u_id u) (today now) d"
  have dk: "distinct (map flip_key ?rs)" using assms(1) by (simp add: flip_rows_def distinct_map_filter)
  then have inj: "inj_on flip_key (set ?rs)" by (simp only: distinct_map)
  have "inj_on fl_card (set ?rs)"
    by (rule inj_onI, rule inj_onD [OF inj]) (simp_all add: flip_rows_def)
  then have ds: "distinct (map fl_card ?rs)" using dk by (simp only: distinct_map)
  define b where "b = place_records ?rs"
  have b: "length b = 9 \<and> (\<forall>i < 9. b ! i =
      (case find (\<lambda>r. fl_card r = int i) ?rs of Some r \<Rightarrow> Some (actual_card r) | None \<Rightarrow> None))"
    using place_records_spec [OF ds, of 9 "replicate 9 None"] assms(3)
    by (simp add: b_def place_records_def CARD_COUNT_def used_cards_def split: option.split)
  have f: "find (\<lambda>r. fl_card r = int i) ?rs = find (\<lambda>r. flip_key r = (u_id u, today now, int i)) (d_flip d)"
    unfolding flip_rows_def find_filter by (rule arg_cong [of _ _ "\<lambda>P. find P (d_flip d)"]) auto
  let ?board = "fill_board (board_seed (u_id u) (today now)) b"
  have p: "fp_board (getFlipProfileByUser u now d) = Some ?board"
    using assms(2) b by (simp add: getFlipProfileByUser_def Let_def flip_plays_def reveal_board_def b_def
      DAILY_FLIP_LIMIT_def CARD_COUNT_def)
  show ?thesis
  proof (cases "find (\<lambda>r. flip_key r = (u_id u, today now, int i)) (d_flip d)")
    case None
    then have "b ! i = None" using b f assms(4) by simp
    with fill_board_drawn [of i b] b assms(4) None p show ?thesis by fastforce
  next
    case (Some r)
    then have "b ! i = Some (actual_card r)" using b f assms(4) by simp
    with fill_board_keeps [of i b] b assms(4) Some p show ?thesis by (simp add: actual_card_def)
  qed
qed

section \<open>The balance in the replies\<close>

text \<open>The reply to an accepted card shows the quota left before the draw, not after it: the profile
  is computed from the account as it was read before the prize was booked.\<close>

theorem flip_reply_shows_old_balance:
  assumes "flip_draw_route gen rnd (Some t) c now d = (Inr r, d')"
    and "getUserByTelegramId (tg_text t) d = Some u"
  shows "fp_remaining_gb (fr_profile r) = remaining_gb u d"
proof -
  have "game_open (Some t) c 9 d" using flip_route_closed assms(1) by (metis prod.inject sum.distinct(1))
  then obtain i where o: "\<not> in_maintenance d" "0 \<le> i" "i < 9" "c = JInt i" by (auto simp: game_open_def)
  let ?p = "weightedRandom rnd FLIP_PRIZES"
  obtain x d1 where a: "applyFlipDraw u i ?p now d = (x, d1)" by (metis prod.collapse)
  have "d_totals (snd (applyFlipDraw u i ?p now d)) = d_totals d"
    by (simp add: applyFlipDraw_def Let_def split: option.split)
  then have tot: "d_totals d1 = d_totals d" using a by simp
  have rem: "remaining_gb u d' = remaining_gb u d" if "d_totals d' = d_totals d" for d'
    using that by (simp add: remaining_gb_def used_bytes_def)
  have e: "fp_remaining_gb (getFlipProfileByUser u now d') = remaining_gb u d'" for d'
    by (simp add: getFlipProfileByUser_def Let_def)
  note route = flip_route_open [OF o(1-3) assms(2), of gen rnd now, unfolded Let_def a prod.case]
  show ?thesis
  proof (cases x)
    case (Inl er)
    then show ?thesis using assms(1) route unfolding o(4) by simp
  next
    case (Inr q)
    let ?d2 = "if 0 < pz_gb ?p then tryUnfreezeAfterTraffic gen now (u_id u) d1 else d1"
    have "fr_profile r = getFlipProfileByUser u now ?d2"
      using assms(1) route unfolding o(4) Inr by (simp only: sum.case prod.inject sum.inject) auto
    moreover have "d_totals ?d2 = d_totals d" using tot by simp
    ultimately show ?thesis using e [of ?d2] rem [of ?d2] by metis
  qed
qed

section \<open>Launch data\<close>

text \<open>Launch data is only accepted when its hash is the MAC, under the bot's key, of all its other
  fields in order, and the same data is not accepted at two moments more than twenty minutes apart.\<close>

theorem launch_data_authentic:
  assumes "verifyTgInitData hmac ckey json token params nowMs = Some j"
    and "verifyTgInitData hmac ckey json token params laterMs = Some j'"
  shows "(\<exists>h. map_of params ''hash'' = Some h \<and>
      hex_bytes h = hmac (hmac ''WebAppData'' token) (data_check_string ckey params)) \<and>
    \<bar>nowMs div 1000 - laterMs div 1000\<bar> \<le> 1200"
  using assms unfolding verifyTgInitData_def TG_INITDATA_MAX_AGE_SEC_def
  by (auto simp: Let_def split: if_splits option.splits js_num.splits)

theorem launch_data_authentic_witness:
  "hex_bytes ''6162'' = ''ab'' \<and> \<bar>(100000 :: int) div 1000 - 101000 div 1000\<bar> \<le> 1200"
proof -
  let ?ps = "[(''hash'', ''6162''), (''auth_date'', ''100''), (''user'', ''u'')]"
  have v: "verifyTgInitData (\<lambda>k m. ''ab'') (\<lambda>k. k) Some ''t'' ?ps 100000 = Some ''u''"
    "verifyTgInitData (\<lambda>k m. ''ab'') (\<lambda>k. k) Some ''t'' ?ps 101000 = Some ''u''"
    by code_simp+
  show ?thesis using launch_data_authentic [OF v] by simp
qed

lemma today_epoch: "today 0 = ''1970-01-01''"
  by code_simp

text \<open>A database in which account 1 has played three cards on the first day.\<close>

definition sample_flips :: db where
  "sample_flips = sample_db\<lparr>d_flip := map (\<lambda>c. \<lparr>fl_user = 1, fl_date = ''1970-01-01'', fl_card = c,
      fl_label = ''thanks'', fl_bytes = 0, fl_gb = 0\<rparr>) [4, 0, 7]\<rparr>"

theorem revealed_board_witness:
  "\<exists>board. fp_board (getFlipProfileByUser (sample_user 1 3 0) 0 sample_flips) = Some board \<and> length board = 9 \<and>
     map_option cd_actual (board ! 7) = Some True"
proof -
  note ev = sample_flips_def sample_db_def empty_db_def flip_plays_def used_cards_def flip_rows_def today_epoch
  have "\<exists>board c. fp_board (getFlipProfileByUser (sample_user 1 3 0) 0 sample_flips) = Some board \<and> length board = 9 \<and>
    board ! 7 = Some c \<and>
    (case find (\<lambda>r. flip_key r = (u_id (sample_user 1 3 0), today 0, int 7)) (d_flip sample_flips) of
       Some r \<Rightarrow> cd_label c = fl_label r \<and> cd_gb c = fl_gb r \<and> cd_actual c
     | None \<Rightarrow> \<not> cd_actual c \<and> (\<exists>p \<in> set FLIP_PRIZES. cd_label c = pz_label p \<and> cd_gb c = pz_gb p))"
    by (rule revealed_board) (auto simp: ev)
  then show ?thesis by (auto simp: ev)
qed

theorem flip_reply_shows_old_balance_witness:
  "\<exists>r. fst (flip_draw_route (\<lambda>_. []) 0 (Some (TgId ''77'')) (JInt 4) 0 sample_db) = Inr r \<and>
     fp_remaining_gb (fr_profile r) = remaining_gb (sample_user 1 3 0) sample_db"
proof -
  let ?p = "weightedRandom 0 FLIP_PRIZES"
  have u: "getUserByTelegramId (tg_text (TgId ''77'')) sample_db = Some (sample_user 1 3 0)"
    by (simp add: getUserByTelegramId_def sample_db_def)
  have m: "\<not> in_maintenance sample_db"
    by (simp add: in_maintenance_def getSetting_def sample_db_def empty_db_def)
  have "may_flip (sample_user 1 3 0) 4 (today 0) sample_db"
    by (simp add: may_flip_def flip_plays_def used_cards_def flip_rows_def DAILY_FLIP_LIMIT_def sample_db_def empty_db_def)
  then obtain d1 where "applyFlipDraw (sample_user 1 3 0) 4 ?p 0 sample_db = (Inr ?p, d1)"
    using applyFlipDraw_accept(1) by (metis prod.collapse)
  then obtain r d' where h: "flip_draw_route (\<lambda>_. []) 0 (Some (TgId ''77'')) (JInt 4) 0 sample_db = (Inr r, d')"
    using flip_route_open [OF m _ _ u, of 4] by (simp add: Let_def)
  show ?thesis using flip_reply_shows_old_balance [OF h u] h by simp
qed

end
