(* ===== verification/FarmRoutes.thy ===== *)
theory FarmRoutes
  imports FarmFacts Flip
begin

text \<open>
  The routes of the farm (\<open>src/routes/farmGame.js\<close>), after the check of the launch data. Names and
  pictures of the crop are left out of the payload.
\<close>

definition resolveUser :: "tg_ident option \<Rightarrow> db \<Rightarrow> game_error + user" where
  "resolveUser tgUser d =
     (case tgUser of
        None \<Rightarrow> Inl VerifyFailed
      | Some TgNull \<Rightarrow> Inl VerifyFailed
      | Some TgUndefined \<Rightarrow> Inl VerifyFailed
      | Some (TgId t) \<Rightarrow>
          (case getUserByTelegramId t d of
             None \<Rightarrow> Inl NotBound
           | Some u \<Rightarrow> if u_is_blocked u then Inl AccountBlocked else Inr u))"

record plot_view =
  pv_slot :: int
  pv_locked :: bool
  pv_planted :: bool
  pv_mature :: bool
  pv_remaining_sec :: int
  pv_total_sec :: int
  pv_expected_gb :: int

record farm_payload =
  py_group :: int
  py_unlocked :: int
  py_total_plots :: int
  py_seeds :: int
  py_seed_cap :: int
  py_crop_yield :: int
  py_mature_count :: nat
  py_plots :: "plot_view list"

definition plot_view_of :: "plot_info \<Rightarrow> plot_view" where
  "plot_view_of p =
     \<lparr>pv_slot = pi_slot p, pv_locked = pi_locked p, pv_planted = pi_crop p,
      pv_mature = (if pi_crop p then pi_mature p else False),
      pv_remaining_sec = (if pi_crop p then pi_remaining_sec p else 0),
      pv_total_sec = (if pi_crop p then pi_total_sec p else 0),
      pv_expected_gb = (if pi_crop p then pi_expected_gb p else 0)\<rparr>"

definition buildPayload :: "user \<Rightarrow> int \<Rightarrow> db \<Rightarrow> farm_payload" where
  "buildPayload u now d =
     (let st = getState u now d
      in \<lparr>py_group = min (max (u_trust_level u) 0) 3, py_unlocked = fs_unlocked st,
          py_total_plots = TOTAL_PLOTS, py_seeds = fs_seeds st, py_seed_cap = fs_seed_cap st,
          py_crop_yield = crop_yield_gb, py_mature_count = fs_mature_count st,
          py_plots = map plot_view_of (fs_plots st)\<rparr>)"

text \<open>
  An action answers with its own result and the payload of the account read again; the code throws
  if the account is gone, which here is \<open>PlayerVanished\<close>.
\<close>

definition farm_action ::
  "(user \<Rightarrow> db \<Rightarrow> 'r \<times> db) \<Rightarrow> tg_ident option \<Rightarrow> int \<Rightarrow> db \<Rightarrow> (game_error + 'r \<times> farm_payload) \<times> db" where
  "farm_action act tgUser now d =
     (case resolveUser tgUser d of
        Inl e \<Rightarrow> (Inl e, d)
      | Inr u \<Rightarrow>
          (let (r, d1) = act u d
           in case user_by_id d1 (u_id u) of
                None \<Rightarrow> (Inl PlayerVanished, d1)
              | Some u1 \<Rightarrow> (Inr (r, buildPayload u1 now d1), d1)))"

definition farm_state_route :: "tg_ident option \<Rightarrow> int \<Rightarrow> db \<Rightarrow> game_error + farm_payload" where
  "farm_state_route tgUser now d =
     (case resolveUser tgUser d of Inl e \<Rightarrow> Inl e | Inr u \<Rightarrow> Inr (buildPayload u now d))"

definition farm_plant_route ::
  "tg_ident option \<Rightarrow> js_num \<Rightarrow> int \<Rightarrow> db \<Rightarrow> (game_error + (farm_error + int) \<times> farm_payload) \<times> db" where
  "farm_plant_route tgUser slotArg now d = farm_action (\<lambda>u. plant u slotArg now) tgUser now d"

definition farm_harvest_route ::
  "(int \<Rightarrow> string) \<Rightarrow> tg_ident option \<Rightarrow> js_num \<Rightarrow> int \<Rightarrow> db \<Rightarrow>
   (game_error + (farm_error + int) \<times> farm_payload) \<times> db" where
  "farm_harvest_route gen tgUser slotArg now d = farm_action (\<lambda>u. harvest gen u slotArg now) tgUser now d"

definition farm_harvest_all_route ::
  "(int \<Rightarrow> string) \<Rightarrow> tg_ident option \<Rightarrow> int \<Rightarrow> db \<Rightarrow> (game_error + harvest_all \<times> farm_payload) \<times> db" where
  "farm_harvest_all_route gen tgUser now d = farm_action (\<lambda>u. harvestAll gen u now) tgUser now d"

definition farm_visit_route ::
  "(int list \<Rightarrow> int list) \<Rightarrow> tg_ident option \<Rightarrow> int \<Rightarrow> db \<Rightarrow> game_error + farm_visit option" where
  "farm_visit_route shuffle tgUser now d =
     (case resolveUser tgUser d of Inl e \<Rightarrow> Inl e | Inr u \<Rightarrow> Inr (getRandomFarm shuffle u now d))"

definition farm_steal_route ::
  "(int \<Rightarrow> string) \<Rightarrow> tg_ident option \<Rightarrow> js_num \<Rightarrow> js_num \<Rightarrow> int \<Rightarrow> db \<Rightarrow>
   (game_error + (farm_error + nat)) \<times> db" where
  "farm_steal_route gen tgUser victimArg slotArg now d =
     (case resolveUser tgUser d of
        Inl e \<Rightarrow> (Inl e, d)
      | Inr u \<Rightarrow> (let (r, d1) = steal gen u victimArg slotArg now d in (Inr r, d1)))"

end
