(* ===== verification/TrafficRepo.thy ===== *)
theory TrafficRepo
  imports Accounts Contracts
begin

text \<open>
  Traffic accounting (\<open>src/services/repos/trafficRepo.js\<close>): every report is kept raw, added to the
  row of its account, node and day, to the running total of the account and to that of the site.
  A constraint that throws rolls the transaction back, which is \<open>None\<close>. Rows that an \<open>ORDER BY\<close>
  leaves tied come in the order of the table.
\<close>

section \<open>Recording\<close>

definition merge_daily :: "daily_row \<Rightarrow> daily_row \<Rightarrow> daily_row" where
  "merge_daily n x = x\<lparr>da_up := da_up x + da_up n, da_down := da_down x + da_down n\<rparr>"

definition merge_total :: "total_row \<Rightarrow> total_row \<Rightarrow> total_row" where
  "merge_total n x = x\<lparr>ut_up := ut_up x + ut_up n, ut_down := ut_down x + ut_down n\<rparr>"

definition add_site :: "int \<Rightarrow> int \<Rightarrow> (int \<times> int) option \<Rightarrow> (int \<times> int) option" where
  "add_site up down s = (case s of None \<Rightarrow> Some (up, down) | Some (u, w) \<Rightarrow> Some (u + up, w + down))"

definition node_exists :: "int \<Rightarrow> db \<Rightarrow> bool" where
  "node_exists nid d \<longleftrightarrow> nid \<in> n_id ` set (d_nodes d)"

definition recordTraffic :: "int \<Rightarrow> int \<Rightarrow> int \<Rightarrow> int \<Rightarrow> int \<Rightarrow> db \<Rightarrow> db option" where
  "recordTraffic uid nid up down now d =
     (if user_by_id d uid = None \<or> \<not> node_exists nid d then None
      else let day = dateKeyInTimeZone now
           in Some (d\<lparr>d_traffic := d_traffic d @
                        [\<lparr>tr_user = uid, tr_node = nid, tr_up = up, tr_down = down, tr_at = toSqlUtc now\<rparr>],
                      d_daily := upsert daily_key merge_daily
                        \<lparr>da_user = uid, da_node = nid, da_date = day, da_up = up, da_down = down\<rparr> (d_daily d),
                      d_totals := upsert ut_user merge_total
                        \<lparr>ut_user = uid, ut_up = up, ut_down = down\<rparr> (d_totals d),
                      d_site_total := add_site up down (d_site_total d)\<rparr>))"

section \<open>Reading\<close>

definition sum_daily :: "daily_row list \<Rightarrow> int \<times> int" where
  "sum_daily rs = (sum_list (map da_up rs), sum_list (map da_down rs))"

definition getUserTraffic :: "int \<Rightarrow> db \<Rightarrow> int \<times> int" where
  "getUserTraffic uid d =
     (case find (\<lambda>r. ut_user r = uid) (d_totals d) of
        Some r \<Rightarrow> (ut_up r, ut_down r)
      | None \<Rightarrow> sum_daily (filter (\<lambda>r. da_user r = uid) (d_daily d)))"

definition host_of :: "node \<Rightarrow> string" where
  "host_of n = (case n_ssh_host n of None \<Rightarrow> n_host n | Some h \<Rightarrow> h)"

definition getHostTraffic :: "string \<Rightarrow> db \<Rightarrow> int \<times> int" where
  "getHostTraffic sshHost d =
     sum_daily (concat (map (\<lambda>n. filter (\<lambda>r. da_node r = n_id n) (d_daily d))
       (filter (\<lambda>n. host_of n = sshHost) (d_nodes d))))"

definition getGlobalTraffic :: "db \<Rightarrow> int \<times> int" where
  "getGlobalTraffic d = (case d_site_total d of Some t \<Rightarrow> t | None \<Rightarrow> sum_daily (d_daily d))"

definition getTodayTraffic :: "int \<Rightarrow> db \<Rightarrow> int \<times> int" where
  "getTodayTraffic now d = sum_daily (filter (\<lambda>r. da_date r = dateKeyInTimeZone now) (d_daily d))"

text \<open>The days a range names: a keyword, a day in ISO form, or (anything else) every day.\<close>

definition is_iso_day :: "string \<Rightarrow> bool" where
  "is_iso_day s \<longleftrightarrow> (case s of
     [y1, y2, y3, y4, s1, m1, m2, s2, d1, d2] \<Rightarrow>
       is_digits [y1, y2, y3, y4, m1, m2, d1, d2] \<and> s1 = CHR ''-'' \<and> s2 = CHR ''-''
   | _ \<Rightarrow> False)"

definition rangeDateCondition :: "string \<Rightarrow> int \<Rightarrow> string \<Rightarrow> bool" where
  "rangeDateCondition rng now date =
     (if rng = ''today'' then date = dateKeyInTimeZone now
      else if rng = ''7d'' then dateKeyDaysAgo 6 now \<le> date
      else if rng = ''30d'' then dateKeyDaysAgo 29 now \<le> date
      else if rng = ''all'' then True
      else if is_iso_day rng then date = rng
      else True)"

definition desc_by :: "('a \<Rightarrow> 'b :: linorder) \<Rightarrow> 'a list \<Rightarrow> 'a list" where
  "desc_by f xs = rev (sort_key f (rev xs))"

definition users_in_range :: "string \<Rightarrow> int \<Rightarrow> db \<Rightarrow> (user \<times> int \<times> int) list" where
  "users_in_range rng now d =
     filter (\<lambda>(u, up, down). 0 < up + down)
       (map (\<lambda>u. (u, sum_daily (filter (\<lambda>r. da_user r = u_id u \<and> rangeDateCondition rng now (da_date r)) (d_daily d))))
         (d_users d))"

definition getUsersTrafficByRange :: "string \<Rightarrow> nat \<Rightarrow> nat \<Rightarrow> int \<Rightarrow> db \<Rightarrow> (user \<times> int \<times> int) list \<times> nat" where
  "getUsersTrafficByRange rng limit offset now d =
     (page limit offset (desc_by (\<lambda>(u, up, down). up + down) (users_in_range rng now d)),
      length (users_in_range rng now d))"

definition getNodesTrafficByRange :: "string \<Rightarrow> int \<Rightarrow> db \<Rightarrow> (node \<times> int \<times> int) list" where
  "getNodesTrafficByRange rng now d =
     desc_by (\<lambda>(n, up, down). up + down)
       (filter (\<lambda>(n, up, down). 0 < up + down)
         (map (\<lambda>n. (n, sum_daily (filter (\<lambda>r. da_node r = n_id n \<and> rangeDateCondition rng now (da_date r)) (d_daily d))))
           (d_nodes d)))"

text \<open>The totals of the days that occur, in ascending order.\<close>

definition by_date :: "daily_row list \<Rightarrow> (string \<times> int \<times> int) list" where
  "by_date rs = map (\<lambda>day. (day, sum_daily (filter (\<lambda>r. da_date r = day) rs))) (sort (remdups (map da_date rs)))"

definition getTrafficTrend :: "int \<Rightarrow> int \<Rightarrow> db \<Rightarrow> (string \<times> int \<times> int) list" where
  "getTrafficTrend days now d = by_date (filter (\<lambda>r. dateKeyDaysAgo (days - 1) now \<le> da_date r) (d_daily d))"

text \<open>An account's rows, the newest day first, by the name of the node (no name first).\<close>

definition null_key :: "string option \<Rightarrow> string" where
  "null_key n = (case n of None \<Rightarrow> [] | Some s \<Rightarrow> CHR ''.'' # s)"

definition getUserTrafficDaily :: "int \<Rightarrow> int \<Rightarrow> int \<Rightarrow> db \<Rightarrow> (daily_row \<times> string option) list" where
  "getUserTrafficDaily uid days now d =
     desc_by (\<lambda>(r, n). da_date r)
       (sort_key (\<lambda>(r, n). null_key n)
         (map (\<lambda>r. (r, map_option n_name (find (\<lambda>n. n_id n = da_node r) (d_nodes d))))
           (filter (\<lambda>r. da_user r = uid \<and> dateKeyDaysAgo (days - 1) now \<le> da_date r) (d_daily d))))"

definition getUserTrafficDailyAgg :: "int \<Rightarrow> int \<Rightarrow> int \<Rightarrow> db \<Rightarrow> (string \<times> int \<times> int) list" where
  "getUserTrafficDailyAgg uid days now d =
     by_date (filter (\<lambda>r. da_user r = uid \<and> dateKeyDaysAgo (days - 1) now \<le> da_date r) (d_daily d))"

section \<open>Cleaning up\<close>

text \<open>
  \<open>parseInt(n) || dflt\<close>, then at least \<open>least\<close>: a value that is no number, and zero, is the
  default. A negative number is kept and raised to the least value.
\<close>

definition retention :: "int option \<Rightarrow> int \<Rightarrow> int \<Rightarrow> int" where
  "retention n dflt least = max least (case n of None \<Rightarrow> dflt | Some v \<Rightarrow> if v = 0 then dflt else v)"

record cleanup_result =
  cl_raw_deleted :: nat
  cl_daily_deleted :: nat
  cl_raw_days :: int
  cl_daily_days :: int
  cl_daily_cutoff :: string

definition cleanupTrafficHistory :: "int option \<Rightarrow> int option \<Rightarrow> int \<Rightarrow> db \<Rightarrow> cleanup_result \<times> db" where
  "cleanupTrafficHistory rawRetentionDays dailyRetentionDays now d =
     (let rawDays = retention rawRetentionDays 30 1;
          dailyDays = retention dailyRetentionDays 120 30;
          cutoff = dateKeyDaysAgo (dailyDays - 1) now;
          old_raw = (\<lambda>r. tr_at r < toSqlUtc (now - rawDays * 86400000));
          old_daily = (\<lambda>r. da_date r < cutoff)
      in (\<lparr>cl_raw_deleted = count_where old_raw (d_traffic d),
           cl_daily_deleted = count_where old_daily (d_daily d),
           cl_raw_days = rawDays, cl_daily_days = dailyDays, cl_daily_cutoff = cutoff\<rparr>,
          d\<lparr>d_traffic := delete_where old_raw (d_traffic d), d_daily := delete_where old_daily (d_daily d)\<rparr>))"

section \<open>The counters add up\<close>

definition add2 :: "int \<times> int \<Rightarrow> int \<times> int \<Rightarrow> int \<times> int" where
  "add2 a b = (fst a + fst b, snd a + snd b)"

interpretation daily_up: additive_upsert daily_key merge_daily da_up
  by unfold_locales (simp_all add: merge_daily_def)

interpretation daily_down: additive_upsert daily_key merge_daily da_down
  by unfold_locales (simp_all add: merge_daily_def)

interpretation total_up: additive_upsert ut_user merge_total ut_up
  by unfold_locales (simp_all add: merge_total_def)

interpretation total_down: additive_upsert ut_user merge_total ut_down
  by unfold_locales (simp_all add: merge_total_def)

text \<open>The keys of the counters are unique, and the account and site totals agree with each other.\<close>

definition traffic_ok :: "db \<Rightarrow> bool" where
  "traffic_ok d \<longleftrightarrow> distinct (map daily_key (d_daily d)) \<and> distinct (map ut_user (d_totals d))"

lemma traffic_ok_record: "traffic_ok d \<Longrightarrow> recordTraffic uid nid up down now d = Some d' \<Longrightarrow> traffic_ok d'"
  by (auto simp: traffic_ok_def recordTraffic_def Let_def daily_up.distinct_upsert total_up.distinct_upsert
      split: if_splits)

definition user_total :: "int \<Rightarrow> db \<Rightarrow> int \<times> int" where
  "user_total uid d =
     (case find (\<lambda>r. ut_user r = uid) (d_totals d) of Some r \<Rightarrow> (ut_up r, ut_down r) | None \<Rightarrow> (0, 0))"

lemma record_user_total:
  assumes "recordTraffic uid nid up down now d = Some d'"
  shows "user_total k d' = (if k = uid then add2 (user_total k d) (up, down) else user_total k d)"
proof -
  have t: "d_totals d' = upsert ut_user merge_total \<lparr>ut_user = uid, ut_up = up, ut_down = down\<rparr> (d_totals d)"
    using assms by (auto simp: recordTraffic_def Let_def split: if_splits)
  show ?thesis
  proof (cases "k = uid")
    case True
    then show ?thesis
      using total_up.find_upsert_same [of "\<lparr>ut_user = uid, ut_up = up, ut_down = down\<rparr>" "d_totals d"]
      by (simp add: user_total_def add2_def t merge_total_def split: option.split)
  next
    case False
    then show ?thesis by (simp add: user_total_def t total_up.find_upsert_other)
  qed
qed

lemma record_site_total:
  assumes "recordTraffic uid nid up down now d = Some d'" and "d_site_total d = Some s"
  shows "d_site_total d' = Some (add2 s (up, down))"
  using assms by (cases s) (auto simp: add2_def recordTraffic_def add_site_def Let_def split: if_splits)

text \<open>The sum over the days that a predicate on account, node and day selects.\<close>

definition daily_total :: "(int \<times> int \<times> string \<Rightarrow> bool) \<Rightarrow> db \<Rightarrow> int \<times> int" where
  "daily_total Q d = sum_daily (filter (\<lambda>r. Q (daily_key r)) (d_daily d))"

lemma record_daily_total:
  assumes "traffic_ok d" and "recordTraffic uid nid up down now d = Some d'"
  shows "daily_total Q d' =
    (if Q (uid, nid, dateKeyInTimeZone now) then add2 (daily_total Q d) (up, down) else daily_total Q d)"
proof -
  let ?r = "\<lparr>da_user = uid, da_node = nid, da_date = dateKeyInTimeZone now, da_up = up, da_down = down\<rparr>"
  have t: "d_daily d' = upsert daily_key merge_daily ?r (d_daily d)"
    using assms by (auto simp: recordTraffic_def Let_def split: if_splits)
  have k: "distinct (map daily_key (d_daily d))" using assms(1) by (simp add: traffic_ok_def)
  show ?thesis
    using daily_up.sum_upsert_filter [OF k, of "\<lambda>r. Q (daily_key r)" ?r]
      daily_down.sum_upsert_filter [OF k, of "\<lambda>r. Q (daily_key r)" ?r]
    by (simp add: daily_total_def sum_daily_def add2_def t)
qed

lemma record_keeps:
  "recordTraffic uid nid up down now d = Some d' \<Longrightarrow> d_users d' = d_users d \<and> d_nodes d' = d_nodes d"
  by (auto simp: recordTraffic_def Let_def split: if_splits)

end
