(* ===== verification/TrafficProps.thy ===== *)
theory TrafficProps
  imports TrafficRepo CalendarProps AccountFacts Samples
begin

text \<open>
  The properties of traffic accounting: every counter is the sum of the reports that were accepted,
  and cleaning up old rows touches neither the running totals nor the days still shown.
\<close>

section \<open>The books balance\<close>

text \<open>Reports, each with account, node, bytes up and down, and time; one that throws changes nothing.\<close>

type_synonym usage = "int \<times> int \<times> int \<times> int \<times> int"

definition record_one :: "usage \<Rightarrow> db \<Rightarrow> db" where
  "record_one r d =
     (case r of (uid, nid, up, down, now) \<Rightarrow>
        case recordTraffic uid nid up down now d of None \<Rightarrow> d | Some d' \<Rightarrow> d')"

definition record_all :: "usage list \<Rightarrow> db \<Rightarrow> db" where
  "record_all rs d = fold record_one rs d"

definition report_known :: "db \<Rightarrow> usage \<Rightarrow> bool" where
  "report_known d r = (case r of (uid, nid, _) \<Rightarrow> user_by_id d uid \<noteq> None \<and> node_exists nid d)"

definition report_sum :: "usage list \<Rightarrow> int \<times> int" where
  "report_sum rs = (sum_list (map (\<lambda>(_, _, up, _, _). up) rs), sum_list (map (\<lambda>(_, _, _, down, _). down) rs))"

definition report_key :: "usage \<Rightarrow> int \<times> int \<times> string" where
  "report_key r = (case r of (uid, nid, _, _, now) \<Rightarrow> (uid, nid, dateKeyInTimeZone now))"

lemma add2_zero [simp]: "add2 x (0, 0) = x"
  by (simp add: add2_def)

lemma report_sum_simps [simp]:
  "report_sum [] = (0, 0)"
  "report_sum ((uid, nid, up, down, now) # rs) = add2 (up, down) (report_sum rs)"
  by (simp_all add: report_sum_def add2_def)

lemma add2_assoc: "add2 (add2 x y) z = add2 x (add2 y z)"
  by (simp add: add2_def)

lemma record_known:
  "report_known d (uid, nid, up, down, now) \<longleftrightarrow> (\<exists>d'. recordTraffic uid nid up down now d = Some d')"
  by (simp add: report_known_def recordTraffic_def Let_def)

lemma record_one_known:
  assumes "d_users d' = d_users d" and "d_nodes d' = d_nodes d"
  shows "report_known d' r = report_known d r"
  using assms by (simp add: report_known_def user_by_id_def node_exists_def)

lemma record_one_keeps: "d_users (record_one r d) = d_users d \<and> d_nodes (record_one r d) = d_nodes d"
  by (auto simp: record_one_def record_keeps split: prod.split option.split)

lemma record_one_ok: "traffic_ok d \<Longrightarrow> traffic_ok (record_one r d)"
  by (auto simp: record_one_def intro: traffic_ok_record split: prod.split option.split)

lemma record_one_totals:
  assumes "traffic_ok d" and "r = (uid, nid, up, down, now)"
  shows "user_total k (record_one r d) =
      (if report_known d r \<and> uid = k then add2 (user_total k d) (up, down) else user_total k d)"
    and "daily_total Q (record_one r d) =
      (if report_known d r \<and> Q (report_key r) then add2 (daily_total Q d) (up, down) else daily_total Q d)"
    and "d_site_total d = Some s \<Longrightarrow>
      d_site_total (record_one r d) = Some (if report_known d r then add2 s (up, down) else s)"
proof -
  show "user_total k (record_one r d) =
      (if report_known d r \<and> uid = k then add2 (user_total k d) (up, down) else user_total k d)"
  proof (cases "recordTraffic uid nid up down now d")
    case (Some d')
    then show ?thesis using assms record_known record_user_total [OF Some] by (auto simp: record_one_def)
  qed (use assms record_known in \<open>auto simp: record_one_def\<close>)
  show "daily_total Q (record_one r d) =
      (if report_known d r \<and> Q (report_key r) then add2 (daily_total Q d) (up, down) else daily_total Q d)"
  proof (cases "recordTraffic uid nid up down now d")
    case (Some d')
    then show ?thesis
      using assms record_known record_daily_total [OF assms(1) Some] by (auto simp: record_one_def report_key_def)
  qed (use assms record_known in \<open>auto simp: record_one_def\<close>)
  show "d_site_total (record_one r d) = Some (if report_known d r then add2 s (up, down) else s)"
    if "d_site_total d = Some s"
  proof (cases "recordTraffic uid nid up down now d")
    case (Some d')
    then show ?thesis
      using assms record_known record_site_total [OF Some that] by (auto simp: record_one_def)
  qed (use assms record_known that in \<open>auto simp: record_one_def\<close>)
qed

text \<open>C39: after any sequence of reports the running total of an account, the total over any selection
  of accounts, nodes and days, and the total of the site have each grown by exactly the sum of the
  reports they stand for, those about unknown accounts or nodes left out.\<close>

theorem traffic_books_balance:
  assumes "traffic_ok d" and "d_site_total d = Some s"
  shows "user_total k (record_all rs d) =
      add2 (user_total k d) (report_sum (filter (\<lambda>r. report_known d r \<and> fst r = k) rs)) \<and>
    daily_total Q (record_all rs d) =
      add2 (daily_total Q d) (report_sum (filter (\<lambda>r. report_known d r \<and> Q (report_key r)) rs)) \<and>
    d_site_total (record_all rs d) = Some (add2 s (report_sum (filter (report_known d) rs)))"
  using assms
proof (induction rs arbitrary: d s)
  case (Cons r rs)
  obtain uid nid up down now where r: "r = (uid, nid, up, down, now)" by (metis prod_cases5)
  have k: "report_known (record_one r d) x = report_known d x" for x
    using record_one_keeps [of r d] by (intro record_one_known) simp_all
  note one = record_one_totals [OF Cons.prems(1) r]
  note IH = Cons.IH [OF record_one_ok [OF Cons.prems(1)] one(3) [OF Cons.prems(2)], unfolded k]
  have "record_all (r # rs) d = record_all rs (record_one r d)" by (simp add: record_all_def)
  then show ?case
    using IH one(1) [of k] one(2) [of Q] by (auto simp: r add2_assoc)
qed (simp add: record_all_def)

definition sample_traffic :: db where
  "sample_traffic = sample_db\<lparr>d_nodes := [sample_node 5]\<rparr>"

theorem traffic_books_balance_witness:
  "user_total 1 (record_all [(1, 5, 10, 20, 0), (9, 5, 1, 1, 0), (1, 5, 3, 4, 0)] sample_traffic) = (13, 24)"
proof -
  have ok: "traffic_ok sample_traffic" "d_site_total sample_traffic = Some (0, 0)"
    by (simp_all add: traffic_ok_def sample_traffic_def sample_db_def empty_db_def)
  show ?thesis
    using traffic_books_balance [OF ok, of 1 "[(1, 5, 10, 20, 0), (9, 5, 1, 1, 0), (1, 5, 3, 4, 0)]" "\<lambda>_. True"]
    by (simp add: user_total_def report_known_def user_by_id_def node_exists_def add2_def
        sample_traffic_def sample_db_def empty_db_def)
qed

section \<open>Cleaning up\<close>

lemma days_ago_mono:
  assumes "instant_ok (now - m * 86400000)" and "instant_ok (now - n * 86400000)" and "n \<le> m"
  shows "dateKeyDaysAgo m now \<le> dateKeyDaysAgo n now"
proof -
  note ok = instant_day_ok(2) [OF assms(1)] instant_day_ok(2) [OF assms(2)]
  have "local_day (now - m * 86400000) \<le> local_day (now - n * 86400000)"
    using assms(3) unfolding local_day_def ms_per_day_def by (intro zdiv_mono1) simp_all
  moreover have "dateKeyInTimeZone x = date_text (civil_from_days (local_day x))" for x
    by (simp add: dateKeyInTimeZone_def date_text_def)
  ultimately show ?thesis
    using day_text_less [OF ok] day_text_less [OF ok(2,1)] by (simp add: dateKeyDaysAgo_def not_less [symmetric])
qed

text \<open>Cleaning up never changes what an account or the site has used in total, and never takes a
  day out of the views of the last thirty days, whatever retention is configured; the numbers it
  reports are those of the rows that are gone.\<close>

theorem cleanup_keeps_totals_and_recent_days:
  assumes "instant_ok (now - (retention daily 120 30 - 1) * 86400000)" and "instant_ok now"
    and "cleanupTrafficHistory raw daily now d = (r, d')"
  shows "user_total k d' = user_total k d \<and> d_site_total d' = d_site_total d \<and>
    getTrafficTrend 30 now d' = getTrafficTrend 30 now d \<and>
    getUsersTrafficByRange ''30d'' l off now d' = getUsersTrafficByRange ''30d'' l off now d \<and>
    length (d_daily d') + cl_daily_deleted r = length (d_daily d) \<and>
    length (d_traffic d') + cl_raw_deleted r = length (d_traffic d)"
proof -
  let ?n = "retention daily 120 30 - 1"
  let ?old = "\<lambda>x. da_date x < dateKeyDaysAgo ?n now"
  have n: "29 \<le> ?n" by (simp add: retention_def)
  have "instant_ok (now - 29 * 86400000)" using assms(1,2) n unfolding instant_ok_def by auto
  from days_ago_mono [OF assms(1) this n] have m: "dateKeyDaysAgo ?n now \<le> dateKeyDaysAgo 29 now" .
  have d: "d_daily d' = delete_where ?old (d_daily d)" "d_totals d' = d_totals d" "d_site_total d' = d_site_total d"
    "d_users d' = d_users d" "cl_daily_deleted r = count_where ?old (d_daily d)"
    using assms(3) by (auto simp: cleanupTrafficHistory_def Let_def)
  have f: "filter (\<lambda>x. Q x \<and> dateKeyDaysAgo 29 now \<le> da_date x) (d_daily d') =
      filter (\<lambda>x. Q x \<and> dateKeyDaysAgo 29 now \<le> da_date x) (d_daily d)" for Q
    unfolding d(1) delete_where_def filter_filter using m by (intro filter_cong) (auto simp: not_less)
  have len: "length (delete_where P t) + count_where P t = length t" for P and t :: "'r list"
    using sum_length_filter_compl [of P t] by (simp add: delete_where_def count_where_def)
  have "length (d_traffic d') + cl_raw_deleted r = length (d_traffic d)"
    using assms(3) len by (auto simp: cleanupTrafficHistory_def Let_def)
  moreover have "length (d_daily d') + cl_daily_deleted r = length (d_daily d)" unfolding d by (rule len)
  moreover have "getTrafficTrend 30 now d' = getTrafficTrend 30 now d"
    using f [of "\<lambda>_. True"] by (simp add: getTrafficTrend_def)
  moreover have "users_in_range ''30d'' now d' = users_in_range ''30d'' now d"
    using f by (simp add: users_in_range_def rangeDateCondition_def d(4))
  ultimately show ?thesis by (simp add: user_total_def d(2,3) getUsersTrafficByRange_def)
qed

theorem cleanup_keeps_totals_and_recent_days_witness:
  "user_total 1 (snd (cleanupTrafficHistory None (Some 1) 1704067200000 sample_db)) = user_total 1 sample_db"
  using cleanup_keeps_totals_and_recent_days [of 1704067200000 "Some 1" None sample_db
      "fst (cleanupTrafficHistory None (Some 1) 1704067200000 sample_db)"
      "snd (cleanupTrafficHistory None (Some 1) 1704067200000 sample_db)" 1 0 0]
  by (simp add: retention_def instant_ok_def)

end
