(* ===== verification/SubGuard.thy ===== *)
theory SubGuard
  imports Contracts
begin

text \<open>
  The guard of the subscription links (\<open>src/services/subGuard.js\<close>): per token a window with a
  request count, a temporary ban, the addresses and clients seen recently, and a bound on the
  number of tokens remembered; per unknown client a log at most once per period. Regular
  expressions are compiled by the platform: \<open>compile\<close> is \<open>None\<close> for an invalid one.
\<close>

section \<open>Configuration\<close>

text \<open>\<open>toInt\<close> of a value that was given (a text) or not.\<close>

definition toInt :: "string option \<Rightarrow> int \<Rightarrow> int \<Rightarrow> int" where
  "toInt val fallback least =
     (case val of
        None \<Rightarrow> fallback
      | Some s \<Rightarrow> (case js_parse_int s of None \<Rightarrow> fallback | Some n \<Rightarrow> if n < least then least else n))"

definition compileAllowlist ::
  "(string \<Rightarrow> (string \<Rightarrow> bool) option) \<Rightarrow> string \<Rightarrow> string list \<Rightarrow> (string \<Rightarrow> bool) list" where
  "compileAllowlist compile raw defaults =
     (let patterns = (if js_trim raw \<noteq> []
                      then filter (\<lambda>s. s \<noteq> []) (map js_trim (js_split (CHR '','') raw)) else defaults)
      in concat (map (\<lambda>p. if 100 < length p then []
                          else case compile p of None \<Rightarrow> [] | Some re \<Rightarrow> [re]) patterns))"

record guard_settings =
  gs_mode :: "string option"
  gs_token_window :: "string option"
  gs_token_max :: "string option"
  gs_token_ban :: "string option"
  gs_behavior_window :: "string option"
  gs_max_ips :: "string option"
  gs_max_uas :: "string option"
  gs_log_ttl :: "string option"
  gs_max_tokens :: "string option"
  gs_max_logs :: "string option"

record guard_config =
  gc_mode :: string
  gc_token_window :: int
  gc_token_max :: int
  gc_token_ban :: int
  gc_behavior_window :: int
  gc_max_ips :: int
  gc_max_uas :: int
  gc_log_ttl :: int
  gc_max_tokens :: nat
  gc_max_logs :: nat

definition guard_config_of :: "guard_settings \<Rightarrow> guard_config" where
  "guard_config_of s =
     \<lparr>gc_mode = js_lower (case gs_mode s of None \<Rightarrow> ''off'' | Some m \<Rightarrow> if m = [] then ''off'' else m),
      gc_token_window = toInt (gs_token_window s) 60000 1000,
      gc_token_max = toInt (gs_token_max s) 20 1,
      gc_token_ban = toInt (gs_token_ban s) 900000 5000,
      gc_behavior_window = toInt (gs_behavior_window s) 120000 5000,
      gc_max_ips = toInt (gs_max_ips s) 6 2,
      gc_max_uas = toInt (gs_max_uas s) 4 2,
      gc_log_ttl = toInt (gs_log_ttl s) (10 * 60 * 1000) 1000,
      gc_max_tokens = nat (toInt (gs_max_tokens s) 20000 100),
      gc_max_logs = nat (toInt (gs_max_logs s) 10000 100)\<rparr>"

section \<open>State\<close>

record token_state =
  ts_window_start :: int
  ts_count :: int
  ts_blocked_until :: int
  ts_ips :: "(string, int) js_map"
  ts_uas :: "(string, int) js_map"
  ts_updated :: int

record guard =
  gd_tokens :: "(string, token_state) js_map"
  gd_logs :: "(string, int) js_map"

definition empty_guard :: guard where
  "empty_guard = \<lparr>gd_tokens = [], gd_logs = []\<rparr>"

definition new_token_state :: "int \<Rightarrow> token_state" where
  "new_token_state now = \<lparr>ts_window_start = now, ts_count = 0, ts_blocked_until = 0, ts_ips = [], ts_uas = [],
     ts_updated = now\<rparr>"

definition purgeSeenMap :: "(string, int) js_map \<Rightarrow> int \<Rightarrow> int \<Rightarrow> (string, int) js_map" where
  "purgeSeenMap m now window = filter (\<lambda>(k, ts). \<not> window < now - ts) m"

section \<open>Decisions\<close>

datatype guard_reason =
    Ok | UnknownUaObserve | UnknownUa | TokenTemporarilyBlocked | TokenRateLimited | TokenAbuseDetected

definition isUaAllowed :: "guard_config \<Rightarrow> (string \<Rightarrow> bool) list \<Rightarrow> string \<Rightarrow> bool" where
  "isUaAllowed c allow ua \<longleftrightarrow> gc_mode c = ''off'' \<or> (\<exists>re \<in> set allow. re ua)"

definition shouldLogUnknownUa :: "guard_config \<Rightarrow> string \<Rightarrow> string \<Rightarrow> string \<Rightarrow> int \<Rightarrow> guard \<Rightarrow> bool \<times> guard" where
  "shouldLogUnknownUa c token ip ua now g =
     (let key = token @ '':'' @ ip @ '':'' @ ua;
          last = (case js_get (gd_logs g) key of None \<Rightarrow> 0 | Some t \<Rightarrow> t);
          logs = evict (\<lambda>t. t) (gc_max_logs c) (js_set key now (gd_logs g))
      in (last = 0 \<or> gc_log_ttl c < now - last, g\<lparr>gd_logs := logs\<rparr>))"

text \<open>One token: the refusal, if any, and the new state.\<close>

definition check_token :: "guard_config \<Rightarrow> string \<Rightarrow> string \<Rightarrow> int \<Rightarrow> token_state \<Rightarrow> guard_reason option \<times> token_state" where
  "check_token c ip ua now s =
     (if now < ts_blocked_until s then (Some TokenTemporarilyBlocked, s)
      else let s1 = (if gc_token_window c \<le> now - ts_window_start s
                     then s\<lparr>ts_window_start := now, ts_count := 0\<rparr> else s);
               s2 = s1\<lparr>ts_count := ts_count s1 + 1\<rparr>
           in if gc_token_max c < ts_count s2
              then (Some TokenRateLimited, s2\<lparr>ts_blocked_until := now + gc_token_ban c, ts_updated := now\<rparr>)
              else let ips = purgeSeenMap (js_set ip now (ts_ips s2)) now (gc_behavior_window c);
                       uas = purgeSeenMap (js_set ua now (ts_uas s2)) now (gc_behavior_window c);
                       s3 = s2\<lparr>ts_ips := ips, ts_uas := uas\<rparr>
                   in if gc_max_ips c < int (length ips) \<or> gc_max_uas c < int (length uas)
                      then (Some TokenAbuseDetected, s3\<lparr>ts_blocked_until := now + gc_token_ban c, ts_updated := now\<rparr>)
                      else (None, s3\<lparr>ts_updated := now\<rparr>))"

text \<open>The old entries are only trimmed after a request that passes.\<close>

definition checkBehavior :: "guard_config \<Rightarrow> string \<Rightarrow> string \<Rightarrow> string \<Rightarrow> int \<Rightarrow> guard \<Rightarrow> guard_reason option \<times> guard" where
  "checkBehavior c token ip ua now g =
     (let s = (case js_get (gd_tokens g) token of Some s \<Rightarrow> s | None \<Rightarrow> new_token_state now);
          (r, s') = check_token c ip ua now s;
          tokens = js_set token s' (gd_tokens g)
      in (r, g\<lparr>gd_tokens := (if r = None then evict ts_updated (gc_max_tokens c) tokens else tokens)\<rparr>))"

text \<open>A verdict that lets the request pass carries no status, here 0.\<close>

record guard_verdict =
  gv_ok :: bool
  gv_status :: int
  gv_reason :: guard_reason
  gv_should_log :: bool

definition refusal :: "int \<Rightarrow> guard_reason \<Rightarrow> guard_verdict" where
  "refusal status reason = \<lparr>gv_ok = False, gv_status = status, gv_reason = reason, gv_should_log = False\<rparr>"

definition guard_apply ::
  "guard_config \<Rightarrow> (string \<Rightarrow> bool) list \<Rightarrow> string \<Rightarrow> string \<Rightarrow> string \<Rightarrow> int \<Rightarrow> guard \<Rightarrow> guard_verdict \<times> guard" where
  "guard_apply c allow token ua ip now g =
     (let allowed = isUaAllowed c allow ua
      in if \<not> allowed \<and> gc_mode c = ''enforce'' then (refusal 403 UnknownUa, g)
         else let (r, g1) = checkBehavior c token ip (if ua = [] then ''-'' else ua) now g
              in case r of
                   Some reason \<Rightarrow> (refusal 429 reason, g1)
                 | None \<Rightarrow>
                     if allowed then (\<lparr>gv_ok = True, gv_status = 0, gv_reason = Ok, gv_should_log = False\<rparr>, g1)
                     else let (lg, g2) = shouldLogUnknownUa c token ip ua now g1
                          in (\<lparr>gv_ok = True, gv_status = 0, gv_reason = UnknownUaObserve, gv_should_log = lg\<rparr>, g2))"

section \<open>Facts\<close>

text \<open>Storing and then trimming: the caches of the program stay within their capacity.\<close>

definition put_trim :: "('v \<Rightarrow> int) \<Rightarrow> nat \<Rightarrow> 'k \<Rightarrow> 'v \<Rightarrow> ('k, 'v) js_map \<Rightarrow> ('k, 'v) js_map" where
  "put_trim ts cap k v m = evict ts cap (js_set k v m)"

lemma put_trim_keys: "fst ` set (put_trim ts cap k v m) \<subseteq> insert k (fst ` set m)"
proof -
  have "fst ` set (put_trim ts cap k v m) \<subseteq> fst ` set (js_set k v m)"
    unfolding put_trim_def by (rule image_mono) (rule set_evict)
  also have "fst ` set (js_set k v m) = insert k (fst ` set m)"
    by (induction m) auto
  finally show ?thesis .
qed

interpretation trimmed: bounded_cache "put_trim ts cap" cap "\<lambda>_. True" for ts :: "'v \<Rightarrow> int" and cap :: nat
  by unfold_locales (simp_all add: put_trim_def [abs_def] put_trim_keys [unfolded put_trim_def] distinct_evict
      distinct_update length_evict)

definition config_ok :: "guard_config \<Rightarrow> bool" where
  "config_ok c \<longleftrightarrow> 1000 \<le> gc_token_window c \<and> 1 \<le> gc_token_max c \<and> 5000 \<le> gc_token_ban c \<and>
     5000 \<le> gc_behavior_window c \<and> 2 \<le> gc_max_ips c \<and> 2 \<le> gc_max_uas c \<and> 1000 \<le> gc_log_ttl c \<and>
     100 \<le> gc_max_tokens c \<and> 100 \<le> gc_max_logs c"

lemma toInt_least: "least \<le> fallback \<Longrightarrow> least \<le> toInt val fallback least"
  by (auto simp: toInt_def split: option.split)

lemma config_ok_of: "config_ok (guard_config_of s)"
  using toInt_least [of 1000 60000 "gs_token_window s"] toInt_least [of 1 20 "gs_token_max s"]
    toInt_least [of 5000 900000 "gs_token_ban s"] toInt_least [of 5000 120000 "gs_behavior_window s"]
    toInt_least [of 2 6 "gs_max_ips s"] toInt_least [of 2 4 "gs_max_uas s"]
    toInt_least [of 1000 "10 * 60 * 1000" "gs_log_ttl s"] toInt_least [of 100 20000 "gs_max_tokens s"]
    toInt_least [of 100 10000 "gs_max_logs s"]
  by (simp add: config_ok_def guard_config_of_def nat_le_iff le_nat_iff)

lemma purge_length: "length (purgeSeenMap m now w) \<le> length m"
  by (simp add: purgeSeenMap_def)

text \<open>A token seen for the first time passes.\<close>

lemma fresh_token_passes:
  assumes "config_ok c" and "0 \<le> now"
  shows "fst (check_token c ip ua now (new_token_state now)) = None"
proof -
  have "int (length (purgeSeenMap [(x, now)] now w)) \<le> 2" for x w
    using purge_length [of "[(x, now)]" now w] by simp
  then have "\<not> gc_max_ips c < int (length (purgeSeenMap [(ip, now)] now (gc_behavior_window c)))"
    "\<not> gc_max_uas c < int (length (purgeSeenMap [(ua, now)] now (gc_behavior_window c)))"
    using assms(1) unfolding config_ok_def by (meson not_less order_trans)+
  then show ?thesis
    using assms by (simp add: check_token_def new_token_state_def Let_def config_ok_def)
qed

text \<open>A refusal bans the token for the whole period, a blocked token stays blocked.\<close>

lemma check_token_refused:
  assumes "check_token c ip ua now s = (Some r, s')"
  shows "(if r = TokenTemporarilyBlocked then s' = s \<and> now < ts_blocked_until s
          else ts_blocked_until s' = now + gc_token_ban c)"
  using assms by (auto simp: check_token_def Let_def split: if_splits)

lemma check_token_blocked:
  "now < ts_blocked_until s \<Longrightarrow> check_token c ip ua now s = (Some TokenTemporarilyBlocked, s)"
  by (simp add: check_token_def)

lemma check_token_passed:
  assumes "check_token c ip ua now s = (None, s')"
  shows "ts_count s' \<le> gc_token_max c" and "\<not> now < ts_blocked_until s" and
    "(if gc_token_window c \<le> now - ts_window_start s then ts_window_start s' = now \<and> ts_count s' = 1
      else ts_window_start s' = ts_window_start s \<and> ts_count s' = ts_count s + 1)"
  using assms by (auto simp: check_token_def Let_def split: if_splits)

end
