(* ===== verification/GuardProps.thy ===== *)
theory GuardProps
  imports SubGuard
begin

text \<open>
  The properties of the guard: its memory is bounded, and as long as it can remember all tokens in
  use it limits the rate of each token and enforces its bans, however the requests for different
  tokens interleave.
\<close>

section \<open>Runs of requests\<close>

type_synonym guard_req = "string \<times> string \<times> string \<times> int"

definition guard_step ::
  "guard_config \<Rightarrow> (string \<Rightarrow> bool) list \<Rightarrow> guard_req \<Rightarrow> guard \<Rightarrow> guard_verdict \<times> guard" where
  "guard_step c allow r g = (case r of (token, ua, ip, now) \<Rightarrow> guard_apply c allow token ua ip now g)"

definition req_time :: "guard_req \<Rightarrow> int" where
  "req_time r = (case r of (token, ua, ip, now) \<Rightarrow> now)"

section \<open>Bounded memory\<close>

definition guard_bounded :: "guard_config \<Rightarrow> guard \<Rightarrow> bool" where
  "guard_bounded c g \<longleftrightarrow>
     js_keys_distinct (gd_tokens g) \<and> length (gd_tokens g) \<le> gc_max_tokens c \<and>
     js_keys_distinct (gd_logs g) \<and> length (gd_logs g) \<le> gc_max_logs c"

lemma update_length_present: "js_get m k \<noteq> None \<Longrightarrow> length (js_set k v m) = length m"
  by (induction m) auto

lemma checkBehavior_bounded:
  assumes "config_ok c" and "0 \<le> now" and "guard_bounded c g"
  shows "guard_bounded c (snd (checkBehavior c token ip ua now g))"
proof -
  let ?s = "case js_get (gd_tokens g) token of Some s \<Rightarrow> s | None \<Rightarrow> new_token_state now"
  obtain r s' where k: "check_token c ip ua now ?s = (r, s')" by fastforce
  have m: "js_keys_distinct (gd_tokens g)" "length (gd_tokens g) \<le> gc_max_tokens c"
    using assms(3) by (simp_all add: guard_bounded_def)
  have d: "js_keys_distinct (js_set token s' (gd_tokens g))" using m(1) by (rule distinct_update)
  show ?thesis
  proof (cases r)
    case None
    then have "gd_tokens (snd (checkBehavior c token ip ua now g)) =
        put_trim ts_updated (gc_max_tokens c) token s' (gd_tokens g)"
      using k by (simp add: checkBehavior_def Let_def put_trim_def)
    then show ?thesis
      using assms(3) trimmed.put_distinct [OF m(1)] trimmed.put_bounded [OF m TrueI]
      by (simp add: guard_bounded_def checkBehavior_def Let_def split_beta)
  next
    case (Some reason)
    then have "js_get (gd_tokens g) token \<noteq> None"
      using k fresh_token_passes [OF assms(1,2), of ip ua] by (cases "js_get (gd_tokens g) token") auto
    then show ?thesis
      using assms(3) k Some d update_length_present [of "gd_tokens g" token s']
      by (simp add: guard_bounded_def checkBehavior_def Let_def)
  qed
qed

lemma guard_step_bounded:
  assumes "config_ok c" and "0 \<le> req_time r" and "guard_bounded c g"
  shows "guard_bounded c (snd (guard_step c allow r g))"
proof -
  obtain token ua ip now where r: "r = (token, ua, ip, now)" by (metis prod_cases4)
  have b: "guard_bounded c (snd (checkBehavior c token ip (if ua = [] then ''-'' else ua) now g))"
    using checkBehavior_bounded assms by (simp add: r req_time_def)
  have l: "guard_bounded c (snd (shouldLogUnknownUa c token ip ua now g'))" if "guard_bounded c g'" for g'
    using that trimmed.put_distinct [of "gd_logs g'"] trimmed.put_bounded [of "gd_logs g'" "gc_max_logs c"]
    by (simp add: guard_bounded_def shouldLogUnknownUa_def Let_def put_trim_def)
  obtain v g1 where k: "checkBehavior c token ip (if ua = [] then ''-'' else ua) now g = (v, g1)" by fastforce
  have "guard_bounded c g1" using b k by simp
  then show ?thesis
    using assms(3) l unfolding r guard_step_def guard_apply_def Let_def prod.case k
    by (cases v) (simp_all add: split_beta)
qed

text \<open>Whatever requests arrive, and under every configuration, the guard never remembers more
  tokens or unknown clients than its limits say, and each only once.\<close>

theorem guard_memory_bounded:
  assumes "\<forall>r \<in> set reqs. 0 \<le> req_time r"
  shows "guard_bounded (guard_config_of s) (snd (run_ops (guard_step (guard_config_of s) allow) reqs empty_guard))"
proof -
  have "guard_bounded (guard_config_of s) (snd (run_ops (guard_step (guard_config_of s) allow) reqs g))"
    if "guard_bounded (guard_config_of s) g" for g
    using that assms
  proof (induction reqs arbitrary: g)
    case (Cons r reqs)
    then show ?case using guard_step_bounded [OF config_ok_of] by (simp add: Let_def split_beta)
  qed simp
  then show ?thesis by (simp add: guard_bounded_def empty_guard_def)
qed

definition default_settings :: guard_settings where
  "default_settings = \<lparr>gs_mode = None, gs_token_window = None, gs_token_max = None, gs_token_ban = None,
     gs_behavior_window = None, gs_max_ips = None, gs_max_uas = None, gs_log_ttl = None,
     gs_max_tokens = None, gs_max_logs = None\<rparr>"

theorem guard_memory_bounded_witness:
  "guard_bounded (guard_config_of default_settings)
     (snd (run_ops (guard_step (guard_config_of default_settings) []) [(''t'', ''u'', ''i'', 5)] empty_guard))"
  by (rule guard_memory_bounded) (simp add: req_time_def)

section \<open>One token among others\<close>

definition view :: "string \<Rightarrow> guard \<Rightarrow> token_state option" where
  "view token g = js_get (gd_tokens g) token"

definition remembers :: "guard_config \<Rightarrow> string set \<Rightarrow> guard \<Rightarrow> bool" where
  "remembers c K g \<longleftrightarrow> finite K \<and> card K \<le> gc_max_tokens c \<and> fst ` set (gd_tokens g) \<subseteq> K \<and>
     js_keys_distinct (gd_tokens g)"

lemma remembers_no_evict:
  assumes "remembers c K g" and "token \<in> K"
  shows "evict ts (gc_max_tokens c) (js_set token s (gd_tokens g)) = js_set token s (gd_tokens g)"
proof -
  let ?m = "js_set token s (gd_tokens g)"
  have "js_keys_distinct ?m" using assms by (simp add: remembers_def distinct_update)
  moreover have "fst ` set ?m \<subseteq> K" using assms by (auto simp: remembers_def dom_update)
  ultimately have "length ?m \<le> card K"
    using assms(1) card_mono [of K "fst ` set ?m"] distinct_card [of "map fst ?m"]
    by (simp add: remembers_def)
  then show ?thesis using assms(1) by (simp add: evict_def remembers_def)
qed

text \<open>With room for all tokens a request changes the state of its own token only, by \<open>check_token\<close>.\<close>

lemma guard_step_view:
  assumes "remembers c K g" and "token \<in> K"
    and s_def: "s = (case view token g of Some s \<Rightarrow> s | None \<Rightarrow> new_token_state now)"
  shows "remembers c K (snd (guard_step c allow (token, ua, ip, now) g))"
    and "k \<noteq> token \<Longrightarrow> view k (snd (guard_step c allow (token, ua, ip, now) g)) = view k g"
    and "(gv_reason (fst (guard_step c allow (token, ua, ip, now) g)) = UnknownUa \<and>
          \<not> gv_ok (fst (guard_step c allow (token, ua, ip, now) g)) \<and>
          snd (guard_step c allow (token, ua, ip, now) g) = g) \<or>
         (\<exists>ua' r s'. check_token c ip ua' now s = (r, s') \<and>
            view token (snd (guard_step c allow (token, ua, ip, now) g)) = Some s' \<and>
            gv_ok (fst (guard_step c allow (token, ua, ip, now) g)) = (r = None) \<and>
            (\<forall>x. r = Some x \<longrightarrow> gv_reason (fst (guard_step c allow (token, ua, ip, now) g)) = x))"
proof -
  let ?res = "guard_step c allow (token, ua, ip, now) g"
  have logs: "gd_tokens (snd (shouldLogUnknownUa c token ip ua now g')) = gd_tokens g'" for g'
    by (simp add: shouldLogUnknownUa_def Let_def)
  consider (refused) "fst ?res = refusal 403 UnknownUa" "snd ?res = g"
    | (checked) ua' r s' where "check_token c ip ua' now s = (r, s')"
        "gd_tokens (snd ?res) = js_set token s' (gd_tokens g)" "gv_ok (fst ?res) = (r = None)"
        "\<forall>x. r = Some x \<longrightarrow> gv_reason (fst ?res) = x"
  proof (cases "\<not> isUaAllowed c allow ua \<and> gc_mode c = ''enforce''")
    case True
    then show thesis using refused by (simp add: guard_step_def guard_apply_def)
  next
    case False
    let ?ua = "if ua = [] then ''-'' else ua"
    obtain r s' where k: "check_token c ip ?ua now s = (r, s')" by fastforce
    have t: "checkBehavior c token ip ?ua now g = (r, g\<lparr>gd_tokens := js_set token s' (gd_tokens g)\<rparr>)"
      using k remembers_no_evict [OF assms(1,2)]
      by (simp add: checkBehavior_def s_def view_def Let_def)
    have "gd_tokens (snd ?res) = js_set token s' (gd_tokens g) \<and> gv_ok (fst ?res) = (r = None) \<and>
        (\<forall>x. r = Some x \<longrightarrow> gv_reason (fst ?res) = x)"
      using False t logs
      by (cases r) (auto simp: guard_step_def guard_apply_def refusal_def Let_def split_beta)
    then show thesis using checked [OF k] by blast
  qed
  note cases = this
  show "remembers c K (snd ?res)"
    by (rule cases) (use assms in \<open>auto simp: remembers_def distinct_update dom_update\<close>)
  show "k \<noteq> token \<Longrightarrow> view k (snd ?res) = view k g"
    by (rule cases) (simp_all add: view_def update_conv')
  show "(gv_reason (fst ?res) = UnknownUa \<and> \<not> gv_ok (fst ?res) \<and> snd ?res = g) \<or>
      (\<exists>ua' r s'. check_token c ip ua' now s = (r, s') \<and> view token (snd ?res) = Some s' \<and>
         gv_ok (fst ?res) = (r = None) \<and> (\<forall>x. r = Some x \<longrightarrow> gv_reason (fst ?res) = x))"
    by (rule cases) (auto simp: view_def update_conv' refusal_def)
qed


section \<open>The rate of a token\<close>

text \<open>
  How many requests of a token may still pass in the interval that starts at \<open>t0\<close> and is no longer
  than the window: the rest of the window if it was opened in the interval, else the rest of the
  old window and a new one.
\<close>

definition room :: "guard_config \<Rightarrow> int \<Rightarrow> token_state option \<Rightarrow> int" where
  "room c t0 s =
     (case s of
        None \<Rightarrow> gc_token_max c
      | Some s \<Rightarrow>
          (if t0 \<le> ts_window_start s then 0 else gc_token_max c) + gc_token_max c - min (ts_count s) (gc_token_max c))"

definition counts_ok :: "token_state option \<Rightarrow> bool" where
  "counts_ok s = (case s of None \<Rightarrow> True | Some s \<Rightarrow> 0 \<le> ts_count s)"

lemma check_token_room:
  assumes "config_ok c" and "t0 \<le> now" and "now < t0 + gc_token_window c" and "counts_ok v"
    and "check_token c ip ua now (case v of Some s \<Rightarrow> s | None \<Rightarrow> new_token_state now) = (r, s')"
  shows "room c t0 (Some s') + (if r = None then 1 else 0) \<le> room c t0 v" and "counts_ok (Some s')"
proof -
  have m: "1 \<le> gc_token_max c" "0 < gc_token_window c" using assms(1) by (simp_all add: config_ok_def)
  show "room c t0 (Some s') + (if r = None then 1 else 0) \<le> room c t0 v"
    using assms(2-5) m
    by (cases v) (auto simp: check_token_def Let_def room_def counts_ok_def new_token_state_def min_def split: if_splits)
  show "counts_ok (Some s')"
    using assms(4,5)
    by (cases v) (auto simp: check_token_def Let_def counts_ok_def new_token_state_def split: if_splits)
qed

definition passes_of :: "string \<Rightarrow> (guard_req \<times> guard_verdict) list \<Rightarrow> nat" where
  "passes_of token rvs = length (filter (\<lambda>(r, v). fst r = token \<and> gv_ok v) rvs)"

lemma run_room:
  assumes "config_ok c" and "remembers c K g" and "fst ` set reqs \<subseteq> K" and "counts_ok (view token g)"
    and "\<forall>r \<in> set reqs. fst r = token \<longrightarrow> t0 \<le> req_time r \<and> req_time r < t0 + gc_token_window c"
    and "0 \<le> room c t0 (view token g)"
  shows "int (passes_of token (zip reqs (fst (run_ops (guard_step c allow) reqs g)))) \<le> room c t0 (view token g)"
  using assms(2-6)
proof (induction reqs arbitrary: g)
  case (Cons r reqs)
  obtain tok ua ip now where r: "r = (tok, ua, ip, now)" by (metis prod_cases4)
  have tk: "tok \<in> K" using Cons.prems(2) by (simp add: r)
  obtain v g1 where st: "guard_step c allow (tok, ua, ip, now) g = (v, g1)" by fastforce
  note step = guard_step_view [OF Cons.prems(1) tk refl, where allow = allow and ua = ua and ip = ip and now = now, unfolded st fst_conv snd_conv]
  have run: "fst (run_ops (guard_step c allow) (r # reqs) g) = v # fst (run_ops (guard_step c allow) reqs g1)"
    using st by (simp add: r split_beta Let_def)
  have key: "counts_ok (view token g1) \<and> 0 \<le> room c t0 (view token g1) \<and>
      room c t0 (view token g1) + (if tok = token \<and> gv_ok v then 1 else 0) \<le> room c t0 (view token g)"
  proof (cases "tok = token")
    case False
    then show ?thesis using step(2) [of token] Cons.prems(3,5) by simp
  next
    case True
    have t: "t0 \<le> now" "now < t0 + gc_token_window c"
      using Cons.prems(4) True by (auto simp: r req_time_def)
    from step(3) show ?thesis
    proof
      assume "gv_reason v = UnknownUa \<and> \<not> gv_ok v \<and> g1 = g"
      then show ?thesis using Cons.prems(3,5) by simp
    next
      assume "\<exists>ua' x s'. check_token c ip ua' now (case view tok g of Some s \<Rightarrow> s | None \<Rightarrow> new_token_state now) = (x, s') \<and>
        view tok g1 = Some s' \<and> gv_ok v = (x = None) \<and> (\<forall>y. x = Some y \<longrightarrow> gv_reason v = y)"
      then obtain ua' x s' where k: "check_token c ip ua' now
          (case view tok g of Some s \<Rightarrow> s | None \<Rightarrow> new_token_state now) = (x, s')"
        and v: "view tok g1 = Some s'" "gv_ok v = (x = None)" by blast
      have "0 \<le> room c t0 (Some s')" using assms(1) by (auto simp: room_def config_ok_def min_def)
      then show ?thesis
        using check_token_room [OF assms(1) t _ k] Cons.prems(3) v True by simp
    qed
  qed
  have "int (passes_of token (zip reqs (fst (run_ops (guard_step c allow) reqs g1)))) \<le> room c t0 (view token g1)"
    using Cons.IH [of g1] step(1) Cons.prems key by simp
  then show ?case
    unfolding run using key by (cases "tok = token \<and> gv_ok v") (auto simp: passes_of_def r)
qed (simp add: passes_of_def)

text \<open>As long as the guard can remember all tokens in use, a token that is new to it passes at most
  the configured number of times within any interval of the length of the window, and any token at
  most twice that number, whatever other tokens do and in whatever order.\<close>

theorem token_rate_limited:
  assumes "card (fst ` set reqs \<union> fst ` set (gd_tokens g)) \<le> gc_max_tokens (guard_config_of s)"
    and "js_keys_distinct (gd_tokens g)" and "counts_ok (view token g)"
    and "\<forall>r \<in> set reqs. fst r = token \<longrightarrow>
      t0 \<le> req_time r \<and> req_time r < t0 + gc_token_window (guard_config_of s)"
  shows "int (passes_of token (zip reqs (fst (run_ops (guard_step (guard_config_of s) allow) reqs g))))
    \<le> (if view token g = None then 1 else 2) * gc_token_max (guard_config_of s)"
proof -
  let ?c = "guard_config_of s" and ?K = "fst ` set reqs \<union> fst ` set (gd_tokens g)"
  have rem: "remembers ?c ?K g" using assms(1,2) by (simp add: remembers_def)
  have m: "1 \<le> gc_token_max ?c" using config_ok_of [of s] by (simp add: config_ok_def)
  have "0 \<le> room ?c t0 (view token g)"
    using m by (auto simp: room_def split: option.split)
  from run_room [OF config_ok_of rem _ assms(3,4) this, of allow]
  have "int (passes_of token (zip reqs (fst (run_ops (guard_step ?c allow) reqs g)))) \<le> room ?c t0 (view token g)"
    by simp
  also have "\<dots> \<le> (if view token g = None then 1 else 2) * gc_token_max ?c"
    using m assms(3) by (auto simp: room_def counts_ok_def min_def split: option.split)
  finally show ?thesis .
qed

theorem token_rate_limited_witness:
  "int (passes_of ''t'' (zip [(''t'', ''u'', ''i'', 5), (''t'', ''u'', ''i'', 6)]
     (fst (run_ops (guard_step (guard_config_of default_settings) []) [(''t'', ''u'', ''i'', 5), (''t'', ''u'', ''i'', 6)] empty_guard))))
    \<le> 20"
  using token_rate_limited [of "[(''t'', ''u'', ''i'', 5), (''t'', ''u'', ''i'', 6)]" empty_guard default_settings "''t''" 5 "[]"]
  by (simp add: guard_config_of_def toInt_def default_settings_def empty_guard_def view_def counts_ok_def req_time_def)

section \<open>Bans\<close>

definition banned_until :: "string \<Rightarrow> int \<Rightarrow> guard \<Rightarrow> bool" where
  "banned_until token t g = (case view token g of None \<Rightarrow> False | Some s \<Rightarrow> t \<le> ts_blocked_until s)"

lemma run_banned:
  assumes "remembers c K g" and "fst ` set reqs \<subseteq> K" and "banned_until token t g"
    and "\<forall>r \<in> set reqs. fst r = token \<longrightarrow> req_time r < t"
  shows "passes_of token (zip reqs (fst (run_ops (guard_step c allow) reqs g))) = 0"
  using assms
proof (induction reqs arbitrary: g)
  case (Cons r reqs)
  obtain tok ua ip now where r: "r = (tok, ua, ip, now)" by (metis prod_cases4)
  have tk: "tok \<in> K" using Cons.prems(2) by (simp add: r)
  obtain v g1 where st: "guard_step c allow (tok, ua, ip, now) g = (v, g1)" by fastforce
  note step = guard_step_view [OF Cons.prems(1) tk refl, where allow = allow and ua = ua and ip = ip and now = now, unfolded st fst_conv snd_conv]
  have run: "fst (run_ops (guard_step c allow) (r # reqs) g) = v # fst (run_ops (guard_step c allow) reqs g1)"
    using st by (simp add: r split_beta Let_def)
  have key: "banned_until token t g1 \<and> \<not> (tok = token \<and> gv_ok v)"
  proof (cases "tok = token")
    case False
    then show ?thesis using step(2) [of token] Cons.prems(3) by (simp add: banned_until_def)
  next
    case True
    obtain s where s: "view tok g = Some s" "t \<le> ts_blocked_until s"
      using Cons.prems(3) True by (auto simp: banned_until_def split: option.splits)
    have "now < ts_blocked_until s" using Cons.prems(4) s(2) True by (auto simp: r req_time_def)
    then have "check_token c i u now s = (Some TokenTemporarilyBlocked, s)" for i u by (rule check_token_blocked)
    then show ?thesis using step(3) s True Cons.prems(3) by (auto simp: banned_until_def)
  qed
  then show ?case
    unfolding run using Cons.IH [OF step(1)] Cons.prems key by (simp add: passes_of_def r)
qed (simp add: passes_of_def)

text \<open>C40: a token whose request is refused for its rate or for too many addresses or clients gets
  nothing through for the whole ban that follows, whatever other requests come in between, as long
  as all tokens in use, the unknown ones among them, fit the memory of the guard, so that no ban is evicted,
  and the guard is not reloaded with new settings, which empties it.\<close>

theorem ban_holds:
  assumes "card (insert token (fst ` set reqs) \<union> fst ` set (gd_tokens g)) \<le> gc_max_tokens c"
    and "js_keys_distinct (gd_tokens g)"
    and "guard_step c allow (token, ua, ip, now) g = (v, g')"
    and "gv_reason v \<in> {TokenRateLimited, TokenAbuseDetected}"
    and "\<forall>r \<in> set reqs. fst r = token \<longrightarrow> req_time r < now + gc_token_ban c"
  shows "passes_of token (zip reqs (fst (run_ops (guard_step c allow) reqs g'))) = 0"
proof -
  let ?K = "insert token (fst ` set reqs) \<union> fst ` set (gd_tokens g)"
  have rem: "remembers c ?K g" and tk: "token \<in> ?K" using assms(1,2) by (auto simp: remembers_def)
  note step = guard_step_view [OF rem tk refl, where allow = allow and ua = ua and ip = ip and now = now, unfolded assms(3) fst_conv snd_conv]
  obtain ua' r s' where k: "check_token c ip ua' now
      (case view token g of Some s \<Rightarrow> s | None \<Rightarrow> new_token_state now) = (r, s')"
    "view token g' = Some s'" "gv_ok v = (r = None)" "\<forall>x. r = Some x \<longrightarrow> gv_reason v = x"
    using step(3) assms(4) by auto
  have "r \<noteq> None"
  proof
    assume "r = None"
    then have "gv_reason v \<in> {Ok, UnknownUaObserve}"
      using k(3) assms(3)
      by (auto simp: guard_step_def guard_apply_def refusal_def Let_def split_beta split: if_splits option.splits)
    then show False using assms(4) by auto
  qed
  then obtain x where "r = Some x" "gv_reason v = x" using k(4) by blast
  then have "ts_blocked_until s' = now + gc_token_ban c"
    using check_token_refused [of c ip ua' now _ x s'] k(1) assms(4) by (auto split: if_splits)
  then have "banned_until token (now + gc_token_ban c) g'" using k(2) by (simp add: banned_until_def)
  from run_banned [OF step(1) _ this assms(5)] show ?thesis by auto
qed


definition sample_guard :: guard where
  "sample_guard = \<lparr>gd_tokens = [(''t'', \<lparr>ts_window_start = 0, ts_count = 20, ts_blocked_until = 0, ts_ips = [],
     ts_uas = [], ts_updated = 0\<rparr>)], gd_logs = []\<rparr>"

theorem ban_holds_witness:
  "passes_of ''t'' (zip [(''t'', ''u'', ''i'', 900000)] (fst (run_ops (guard_step (guard_config_of default_settings) [])
     [(''t'', ''u'', ''i'', 900000)]
     (snd (guard_step (guard_config_of default_settings) [] (''t'', ''u'', ''i'', 5) sample_guard))))) = 0"
proof -
  let ?c = "guard_config_of default_settings"
  note ev = guard_config_of_def default_settings_def toInt_def sample_guard_def
  have "gc_mode ?c = ''off''" by (simp add: ev js_lower_def js_lower_char_def)
  then have v: "fst (guard_step ?c [] (''t'', ''u'', ''i'', 5) sample_guard) = refusal 429 TokenRateLimited"
    by (simp add: guard_step_def guard_apply_def isUaAllowed_def checkBehavior_def check_token_def ev Let_def)
  show ?thesis
  proof (rule ban_holds [where g = sample_guard and ua = "''u''" and ip = "''i''" and now = 5
        and v = "refusal 429 TokenRateLimited"])
    show "guard_step ?c [] (''t'', ''u'', ''i'', 5) sample_guard =
        (refusal 429 TokenRateLimited, snd (guard_step ?c [] (''t'', ''u'', ''i'', 5) sample_guard))"
      using v by (simp add: prod_eq_iff)
  qed (simp_all add: ev refusal_def req_time_def)
qed

end
