(* ===== verification/InviteProps.thy ===== *)
theory InviteProps
  imports Invites Contracts Samples
begin

text \<open>
  The properties of invitation codes: a run of requests by any number of accounts, registrations
  and clean-ups in any order, the code that registers at most one account, the waiting time
  between two codes of an account, and the agreement of the page with the operation.
\<close>

section \<open>Runs\<close>

datatype invite_op =
    MakeCode int bool "nat \<Rightarrow> string"
  | SweepCodes
  | JoinWith "int \<Rightarrow> string" string string string "string option" string string string

datatype invite_out = Made invite_answer | Swept nat | Joined "repo_error + user"

fun invite_step :: "(string \<Rightarrow> int option) \<Rightarrow> invite_op \<times> int \<Rightarrow> db \<Rightarrow> invite_out \<times> db" where
  "invite_step engine (MakeCode uid adm draw, now) d =
     (let (a, d') = generateInviteCodeForUser engine draw uid adm now d in (Made a, d'))"
| "invite_step engine (SweepCodes, now) d =
     (let (n, d') = cleanupExpiredInviteCodes now d in (Swept n, d'))"
| "invite_step engine (JoinWith gen tok name mail pw disp code ip, now) d =
     (case createInvitedEmailUser gen tok now name mail pw disp code ip d of
        Inl e \<Rightarrow> (Joined (Inl e), d)
      | Inr (u, d') \<Rightarrow> (Joined (Inr u), d'))"

fun join_code :: "invite_op \<times> int \<Rightarrow> db \<Rightarrow> string" where
  "join_code (JoinWith gen tok name mail pw disp code ip, now) d = js_upper (js_trim code)"
| "join_code _ d = []"

fun joined :: "invite_out \<Rightarrow> bool" where
  "joined (Joined (Inr u)) = True"
| "joined _ = False"

section \<open>What the operations do to the table\<close>

definition codes_ok :: "db \<Rightarrow> bool" where
  "codes_ok d \<longleftrightarrow> distinct (map iv_code (d_invites d)) \<and> distinct (map iv_id (d_invites d))"

definition code_used :: "db \<Rightarrow> string \<Rightarrow> bool" where
  "code_used d k \<longleftrightarrow> (\<exists>i \<in> set (d_invites d). iv_code i = k \<and> iv_used_at i \<noteq> None)"

text \<open>The marking of a code by a registration.\<close>

definition mark_row :: "int \<Rightarrow> string \<Rightarrow> int \<Rightarrow> invite_row list \<Rightarrow> invite_row list" where
  "mark_row k stamp w t =
     update_where (\<lambda>j. iv_id j = k \<and> iv_used_at j = None)
       (\<lambda>j. j\<lparr>iv_used_at := Some stamp, iv_used_by := Some w\<rparr>) t"

lemma mark_row_keys [simp]:
  "map iv_code (mark_row k stamp w t) = map iv_code t" "map iv_id (mark_row k stamp w t) = map iv_id t"
  by (simp_all add: mark_row_def map_update_where)

lemma mark_row_keeps_used: "i \<in> set t \<Longrightarrow> iv_used_at i \<noteq> None \<Longrightarrow> i \<in> set (mark_row k stamp w t)"
  unfolding mark_row_def set_update_where by (rule image_eqI [where x = i]) auto

lemma mark_row_marks:
  "i \<in> set t \<Longrightarrow> iv_used_at i = None \<Longrightarrow>
   i\<lparr>iv_used_at := Some stamp, iv_used_by := Some w\<rparr> \<in> set (mark_row (iv_id i) stamp w t)"
  unfolding mark_row_def set_update_where by (rule image_eqI [where x = i]) simp_all

lemma mark_row_rows:
  "i \<in> set (mark_row k stamp w t) \<Longrightarrow>
   \<exists>j \<in> set t. iv_inviter i = iv_inviter j \<and> iv_created_at i = iv_created_at j \<and> iv_expires_at i = iv_expires_at j"
  unfolding mark_row_def set_update_where by force

lemma mark_row_stays:
  "i \<in> set t \<Longrightarrow>
   \<exists>j \<in> set (mark_row k stamp w t). iv_inviter j = iv_inviter i \<and> iv_created_at j = iv_created_at i \<and>
     iv_expires_at j = iv_expires_at i"
  unfolding mark_row_def set_update_where by (rule bexI [OF _ imageI [of i]]) simp_all

lemma pick_code_fresh: "pick_code draw used left n = Some c \<Longrightarrow> c \<notin> used"
  by (induction left arbitrary: n) (auto simp: Let_def split: if_splits)

lemma generate_table:
  assumes "generateInviteCodeForUser engine draw uid adm now d = (a, d')"
  shows "d_invites d' = d_invites d \<or>
    (\<exists>r. d_invites d' = d_invites d @ [r] \<and> iv_inviter r = uid \<and> iv_code r \<notin> iv_code ` set (d_invites d) \<and>
       iv_id r = fresh_id iv_id (d_invites d) \<and> iv_used_at r = None \<and> iv_created_at r = toSqlUtc now)"
  using assms unfolding generateInviteCodeForUser_def Let_def
  by (auto split: option.splits if_splits dest: pick_code_fresh)

lemma generate_made:
  assumes "generateInviteCodeForUser engine draw uid adm now d = (InviteMade a b, d')"
  shows "\<exists>r \<in> set (d_invites d'). iv_inviter r = uid \<and> iv_created_at r = toSqlUtc now \<and>
    (\<not> adm \<longrightarrow> iv_expires_at r = toSqlUtc (now + INVITE_CODE_TTL_MS))"
  using assms unfolding generateInviteCodeForUser_def Let_def
  by (auto split: option.splits if_splits)

lemma signup_keeps_invites:
  "insertEmailUser tok now name mail pw disp d = Inr (r, d') \<Longrightarrow> d_invites d' = d_invites d"
  by (auto simp: insertEmailUser_def insert_user_def Let_def split: if_splits sum.splits option.splits)

lemma join_table:
  assumes "createInvitedEmailUser gen tok now name mail pw disp code ip d = Inr (u, d')"
  obtains i w where "i \<in> set (d_invites d)" and "iv_code i = js_upper (js_trim code)" and "iv_used_at i = None"
    and "d_invites d' = mark_row (iv_id i) (toSqlUtc now) w (d_invites d)"
proof -
  let ?c = "js_upper (js_trim code)"
  obtain i where f: "find (invite_usable ?c (toSqlUtc now)) (d_invites d) = Some i"
    using assms unfolding createInvitedEmailUser_def Let_def by (auto split: if_splits option.splits)
  obtain r d1 where e: "insertEmailUser tok now name mail pw disp d = Inr (r, d1)"
    using assms f unfolding createInvitedEmailUser_def Let_def by (auto split: if_splits sum.splits)
  have "d_invites d' = mark_row (iv_id i) (toSqlUtc now) (u_id (sr_user r)) (d_invites d)"
    using assms f e signup_keeps_invites [OF e]
    by (auto simp: createInvitedEmailUser_def Let_def finish_signup_def mark_row_def split: if_splits)
  then show thesis
    using that find_Some_mem [OF f] unfolding invite_usable_def by blast
qed

lemma join_marks:
  assumes "createInvitedEmailUser gen tok now name mail pw disp code ip d = Inr (u, d')"
  shows "code_used d' (js_upper (js_trim code))"
proof -
  obtain i w where i: "i \<in> set (d_invites d)" "iv_code i = js_upper (js_trim code)" "iv_used_at i = None"
    and t: "d_invites d' = mark_row (iv_id i) (toSqlUtc now) w (d_invites d)"
    using join_table [OF assms] by blast
  show ?thesis
    unfolding code_used_def t by (rule bexI [OF _ mark_row_marks [OF i(1,3)]]) (simp add: i(2))
qed

lemma join_fresh:
  assumes "createInvitedEmailUser gen tok now name mail pw disp code ip d = Inr (u, d')" and "codes_ok d"
  shows "\<not> code_used d (js_upper (js_trim code))"
proof -
  obtain i where i: "i \<in> set (d_invites d)" "iv_code i = js_upper (js_trim code)" "iv_used_at i = None"
    using join_table [OF assms(1)] by blast
  have "j = i" if "j \<in> set (d_invites d)" "iv_code j = iv_code i" for j
    using assms(2) that i(1) unfolding codes_ok_def by (metis inj_on_def distinct_map)
  then show ?thesis unfolding code_used_def using i by metis
qed

text \<open>Every step of a run: rows are only marked, swept when unused, or added with a fresh code.\<close>

lemma step_table:
  assumes "invite_step engine (oper, now) d = (r, d')"
  shows "(\<exists>k w. d_invites d' = mark_row k (toSqlUtc now) w (d_invites d)) \<or>
    d_invites d' = delete_where (expired_invite now) (d_invites d) \<or> d_invites d' = d_invites d \<or>
    (\<exists>r. d_invites d' = d_invites d @ [r] \<and> iv_code r \<notin> iv_code ` set (d_invites d) \<and>
       iv_id r = fresh_id iv_id (d_invites d) \<and> iv_used_at r = None \<and> iv_created_at r = toSqlUtc now)"
proof (cases oper)
  case (MakeCode uid adm draw)
  then show ?thesis
    using assms generate_table [of engine draw uid adm now d] by (auto split: prod.splits)
next
  case SweepCodes
  then show ?thesis using assms by (auto simp: cleanupExpiredInviteCodes_def)
next
  case (JoinWith gen tok name mail pw disp code ip)
  show ?thesis
  proof (cases "createInvitedEmailUser gen tok now name mail pw disp code ip d")
    case (Inr p)
    then obtain u where "createInvitedEmailUser gen tok now name mail pw disp code ip d = Inr (u, d')"
      using assms JoinWith by (cases p) auto
    then show ?thesis by (rule join_table) blast
  qed (use assms JoinWith in simp)
qed

lemma codes_ok_step:
  assumes "codes_ok d"
  shows "codes_ok (snd (invite_step engine req d))"
proof -
  obtain oper now where q: "req = (oper, now)" by fastforce
  obtain r d' where s: "invite_step engine (oper, now) d = (r, d')" by fastforce
  consider k w where "d_invites d' = mark_row k (toSqlUtc now) w (d_invites d)"
    | "d_invites d' = delete_where (expired_invite now) (d_invites d)" | "d_invites d' = d_invites d"
    | r where "d_invites d' = d_invites d @ [r]" "iv_code r \<notin> iv_code ` set (d_invites d)"
        "iv_id r = fresh_id iv_id (d_invites d)"
    using step_table [OF s] by blast
  then have "codes_ok d'" using assms unfolding codes_ok_def by cases (simp_all add: table_keys)
  then show ?thesis by (simp add: q s)
qed

lemma code_used_step:
  assumes "code_used d k"
  shows "code_used (snd (invite_step engine req d)) k"
proof -
  obtain oper now where q: "req = (oper, now)" by fastforce
  obtain r d' where s: "invite_step engine (oper, now) d = (r, d')" by fastforce
  obtain i where i: "i \<in> set (d_invites d)" "iv_code i = k" "iv_used_at i \<noteq> None"
    using assms unfolding code_used_def by blast
  have "i \<in> set (d_invites d')"
    using step_table [OF s] i mark_row_keeps_used [OF i(1,3)] by (elim disjE exE conjE) (simp_all add: expired_invite_def)
  then show ?thesis using i unfolding code_used_def by (auto simp: q s)
qed

interpretation redemptions: guarded_claims codes_ok code_used "invite_step engine" joined join_code
  for engine
proof
  fix d :: db and req :: "invite_op \<times> int"
  obtain oper now where q: "req = (oper, now)" by fastforce
  assume ok: "codes_ok d"
  then show "codes_ok (snd (invite_step engine req d))" by (rule codes_ok_step)
  {
    assume j: "joined (fst (invite_step engine req d))"
    obtain gen tok name mail pw disp code ip where o: "oper = JoinWith gen tok name mail pw disp code ip"
      using j unfolding q by (cases oper) (auto split: prod.splits)
    obtain u d' where c: "createInvitedEmailUser gen tok now name mail pw disp code ip d = Inr (u, d')"
      using j unfolding q o by (auto split: sum.splits)
    show "\<not> code_used d (join_code req d)" using join_fresh [OF c ok] by (simp add: q o)
    show "code_used (snd (invite_step engine req d)) (join_code req d)"
      using join_marks [OF c] by (simp add: q o c)
  }
  fix k
  assume "code_used d k"
  then show "code_used (snd (invite_step engine req d)) k" by (rule code_used_step)
qed

text \<open>C35: in any run of requests for codes, clean-ups and registrations no invitation code
  registers two accounts, even when the clean-up and the random generator bring a code back.\<close>

theorem code_registers_once:
  assumes "codes_ok d"
  shows "distinct (accepted_targets joined join_code (invite_step engine) reqs d)"
  by (rule redemptions.accepted_distinct [OF assms])

text \<open>Two visitors with the code of one row: the first registers, the second does not.\<close>

definition sample_invited :: db where
  "sample_invited = sample_db\<lparr>d_invites := [\<lparr>iv_id = 1, iv_inviter = 1, iv_code = ''ABC'', iv_expires_at = ''9'', iv_used_at = None,
     iv_used_by = None, iv_created_at = ''2024-01-01 00:00:00''\<rparr>]\<rparr>"

definition sample_join :: "string \<Rightarrow> string \<Rightarrow> invite_op \<times> int" where
  "sample_join name mail = (JoinWith (\<lambda>_. ''g'') (''t'' @ name) name mail (Some ''p'') [] ''abc'' [], 0)"

lemma sample_join_code: "join_code (sample_join name mail) d = ''ABC''"
proof -
  have "js_upper (js_trim ''abc'') = ''ABC''" by code_simp
  then show ?thesis by (simp add: sample_join_def)
qed

lemma sample_join_joins: "joined (fst (invite_step (\<lambda>_. None) (sample_join ''new'' ''new@b.c'') sample_invited))"
proof -
  have t: "js_trim ''new'' = ''new''" "js_lower (js_trim ''new@b.c'') = ''new@b.c''" "js_upper (js_trim ''abc'') = ''ABC''" by code_simp+
  have now: "toSqlUtc 0 < ''9''" by code_simp
  have "\<exists>u d'. createInvitedEmailUser (\<lambda>_. ''g'') ''tnew'' 0 ''new'' ''new@b.c'' (Some ''p'') [] ''abc'' [] sample_invited = (Inr (u, d'))"
    by (simp add: createInvitedEmailUser_def invite_usable_def sample_invited_def insertEmailUser_def insert_user_def insert_row_def
        t now truthy_def Let_def count_where_def)
      (simp add: sample_db_def empty_db_def sample_user_def numeral_2_eq_2)
  then show ?thesis by (auto simp: sample_join_def)
qed

theorem code_registers_once_witness:
  "accepted_targets joined join_code (invite_step (\<lambda>_. None)) [sample_join ''new'' ''new@b.c'', sample_join ''two'' ''two@b.c''] sample_invited
     = [''ABC'']"
proof -
  have "codes_ok sample_invited" by (simp add: codes_ok_def sample_invited_def)
  from code_registers_once [OF this, of "\<lambda>_. None" "[sample_join ''new'' ''new@b.c'', sample_join ''two'' ''two@b.c'']"]
  show ?thesis using sample_join_joins by (simp add: sample_join_code Let_def split: if_splits)
qed

section \<open>The waiting time\<close>

lemma order_desc_mset: "mset (order_desc key t) = mset t"
  by (simp add: order_desc_def)

lemma newest_max:
  assumes "newest t = Some l"
  shows "l \<in> set t" and "\<And>i. i \<in> set t \<Longrightarrow> iv_created_at i \<le> iv_created_at l"
proof -
  obtain r where r: "order_desc iv_created_at t = l # r"
    using assms by (auto simp: newest_def split: list.splits)
  then have m: "set t = set (l # r)" by (metis order_desc_mset set_mset_mset)
  then show "l \<in> set t" by simp
  have "sort_key iv_created_at (rev t) = rev (l # r)"
    using arg_cong [OF r, of rev] by (simp add: order_desc_def)
  then have "sorted (map iv_created_at (rev (l # r)))" by (metis sorted_sort_key)
  then show "iv_created_at i \<le> iv_created_at l" if "i \<in> set t" for i
    using that m by (auto simp: sorted_append rev_map [symmetric])
qed

lemma newest_None: "newest t = None \<longleftrightarrow> t = []"
  using order_desc_mset [of iv_created_at t] by (auto simp: newest_def split: list.splits)

text \<open>The codes a run makes for an account on a request that is not an administrator's.\<close>

fun made_for :: "int \<Rightarrow> (invite_op \<times> int) \<times> invite_out \<Rightarrow> bool" where
  "made_for uid ((MakeCode v False draw, now), Made (InviteMade a b)) = (v = uid)"
| "made_for uid _ = False"

lemma made_for_ordinary: "made_for uid ((MakeCode v adm draw, now), w) \<Longrightarrow> v = uid \<and> \<not> adm"
proof (cases w)
  case (Made a)
  then show "made_for uid ((MakeCode v adm draw, now), w) \<Longrightarrow> v = uid \<and> \<not> adm" by (cases a; cases adm) simp_all
qed simp_all

text \<open>While the account waits: the code it made at \<open>t0\<close> is still there, and the stamps are readable.\<close>

definition waiting :: "int \<Rightarrow> int \<Rightarrow> db \<Rightarrow> bool" where
  "waiting uid t0 d \<longleftrightarrow>
     (\<exists>i \<in> set (d_invites d). iv_inviter i = uid \<and> iv_created_at i = toSqlUtc t0 \<and>
        iv_expires_at i = toSqlUtc (t0 + INVITE_CODE_TTL_MS)) \<and>
     (\<forall>i \<in> set (d_invites d). \<exists>t. instant_ok t \<and> iv_created_at i = toSqlUtc t)"

lemma waiting_refuses:
  assumes "waiting uid t0 d" and "instant_ok t0" and "now + 1000 \<le> t0 + INVITE_CODE_TTL_MS"
  shows "\<exists>i s. generateInviteCodeForUser engine draw uid False now d = (InviteRefused i s, d)"
proof -
  obtain r where r: "r \<in> set (d_invites d)" "iv_inviter r = uid" "iv_created_at r = toSqlUtc t0"
    using assms(1) unfolding waiting_def by blast
  let ?rows = "filter (\<lambda>i. iv_inviter i = uid) (d_invites d)"
  have "newest ?rows \<noteq> None" using r by (auto simp: newest_None filter_empty_conv)
  then obtain l where l: "newest ?rows = Some l" by blast
  then have m: "l \<in> set (d_invites d)" "toSqlUtc t0 \<le> iv_created_at l"
    using newest_max(1) [OF l] newest_max(2) [OF l, of r] r by auto
  then obtain t where t: "instant_ok t" "iv_created_at l = toSqlUtc t"
    using assms(1) unfolding waiting_def by blast
  have "t0 div 1000 \<le> t div 1000"
    using m(2) stamps_order [OF assms(2) t(1)] unfolding t(2) by (auto simp: le_less)
  then have "now - t div 1000 * 1000 < INVITE_CODE_TTL_MS" using assms(3) by linarith
  then show ?thesis
    using l stamp_value(1) [OF t(1), of engine]
    by (simp add: generateInviteCodeForUser_def getLatestInviteCodeByUser_def t(2))
qed

lemma waiting_step:
  assumes "waiting uid t0 d" and "instant_ok t0" and "instant_ok (t0 + INVITE_CODE_TTL_MS)"
    and "t0 \<le> now" and "now + 1000 \<le> t0 + INVITE_CODE_TTL_MS"
  shows "waiting uid t0 (snd (invite_step engine (oper, now) d))"
proof -
  obtain r d' where s: "invite_step engine (oper, now) d = (r, d')" by fastforce
  obtain i where i: "i \<in> set (d_invites d)" "iv_inviter i = uid" "iv_created_at i = toSqlUtc t0"
      "iv_expires_at i = toSqlUtc (t0 + INVITE_CODE_TTL_MS)"
    using assms(1) unfolding waiting_def by blast
  have ok: "instant_ok now" using assms(2-5) unfolding instant_ok_def by linarith
  have "now div 1000 < (t0 + INVITE_CODE_TTL_MS) div 1000" using assms(5) by linarith
  then have live: "toSqlUtc now < iv_expires_at i" using stamps_order(1) [OF ok assms(3)] i(4) by simp
  have old: "\<exists>t. instant_ok t \<and> iv_created_at j = toSqlUtc t" if "j \<in> set (d_invites d)" for j
    using assms(1) that unfolding waiting_def by blast
  consider (mark) k w where "d_invites d' = mark_row k (toSqlUtc now) w (d_invites d)"
    | (sweep) "d_invites d' = delete_where (expired_invite now) (d_invites d)" | (same) "d_invites d' = d_invites d"
    | (new) q where "d_invites d' = d_invites d @ [q]" "iv_created_at q = toSqlUtc now"
    using step_table [OF s] by blast
  then have "waiting uid t0 d'"
  proof cases
    case mark
    show ?thesis
      unfolding waiting_def mark using mark_row_stays [OF i(1), of k "toSqlUtc now" w] i(2-4) old
      by (fastforce dest: mark_row_rows)
  next
    case sweep
    then show ?thesis unfolding waiting_def using i live old by (auto simp: expired_invite_def)
  next
    case same
    then show ?thesis using assms(1) unfolding waiting_def by simp
  next
    case new
    then show ?thesis using i old ok unfolding waiting_def by auto
  qed
  then show ?thesis by (simp add: s)
qed

lemma waiting_run:
  assumes "waiting uid t0 d" and "instant_ok t0" and "instant_ok (t0 + INVITE_CODE_TTL_MS)"
    and "\<forall>r \<in> set reqs. t0 \<le> snd r \<and> snd r + 1000 \<le> t0 + INVITE_CODE_TTL_MS"
  shows "\<forall>x \<in> set (zip reqs (fst (run_ops (invite_step engine) reqs d))). \<not> made_for uid x"
  using assms(1,4)
proof (induction reqs arbitrary: d)
  case (Cons req reqs)
  obtain oper now where q: "req = (oper, now)" by fastforce
  have b: "t0 \<le> now" "now + 1000 \<le> t0 + INVITE_CODE_TTL_MS" using Cons.prems(2) by (auto simp: q)
  have "\<not> made_for uid (req, fst (invite_step engine req d))"
  proof (cases oper)
    case (MakeCode v adm draw)
    show ?thesis
    proof (cases "v = uid \<and> \<not> adm")
      case True
      then show ?thesis
        using waiting_refuses [OF Cons.prems(1) assms(2) b(2), of engine draw] by (auto simp: q MakeCode)
    next
      case False
      have "made_for uid ((MakeCode v adm draw, now), w) \<Longrightarrow> v = uid \<and> \<not> adm" for w
        by (rule made_for_ordinary)
      then show ?thesis using False unfolding q MakeCode by blast
    qed
  qed (simp_all add: q)
  moreover have "waiting uid t0 (snd (invite_step engine req d))"
    unfolding q by (rule waiting_step [OF Cons.prems(1) assms(2,3) b])
  ultimately show ?case using Cons by (simp add: Let_def split_beta)
qed simp

text \<open>After a code has been made for an account on an ordinary request, no further ordinary
  request of that account makes another for seven days (less the fraction of a second that the
  stored stamp drops), whatever other requests, clean-ups and registrations come in between.\<close>

theorem invite_waiting_time:
  assumes "generateInviteCodeForUser engine draw uid False t0 d = (InviteMade a b, d')"
    and "\<forall>i \<in> set (d_invites d). \<exists>t. instant_ok t \<and> iv_created_at i = toSqlUtc t"
    and "instant_ok t0" and "instant_ok (t0 + INVITE_CODE_TTL_MS)"
    and "\<forall>r \<in> set reqs. t0 \<le> snd r \<and> snd r + 1000 \<le> t0 + INVITE_CODE_TTL_MS"
  shows "\<forall>x \<in> set (zip reqs (fst (run_ops (invite_step engine) reqs d'))). \<not> made_for uid x"
proof (rule waiting_run [OF _ assms(3,4,5)])
  show "waiting uid t0 d'"
    unfolding waiting_def using generate_made [OF assms(1)] generate_table [OF assms(1)] assms(2,3) by auto
qed

text \<open>Account 2 made a code on 1 January 2024 and has asked again on the next day.\<close>

definition sample_invite_time :: int where "sample_invite_time = 1704067200000"

definition sample_invites :: db where
  "sample_invites = snd (generateInviteCodeForUser (\<lambda>_. None) (\<lambda>_. ''abc'') 2 False sample_invite_time sample_db)"

lemma pick_first: "generateInviteCodeValue (draw n) \<notin> used \<Longrightarrow> 0 < k \<Longrightarrow>
    pick_code draw used k n = Some (generateInviteCodeValue (draw n))"
  by (cases k) simp_all

lemma sample_code: "generateInviteCodeValue ''abc'' = ''ABC''"
  by code_simp

lemma sample_invites_eval:
  "d_invites sample_invites =
     [\<lparr>iv_id = 1, iv_inviter = 2, iv_code = ''ABC'', iv_expires_at = toSqlUtc (sample_invite_time + INVITE_CODE_TTL_MS),
       iv_used_at = None, iv_used_by = None, iv_created_at = toSqlUtc sample_invite_time\<rparr>]"
  "fst (generateInviteCodeForUser (\<lambda>_. None) (\<lambda>_. ''abc'') 2 False sample_invite_time sample_db) =
     InviteMade (getActiveInviteCodeByUser 2 sample_invite_time sample_invites)
       (Some (toSqlUtc (sample_invite_time + INVITE_CODE_TTL_MS)))"
  by (simp_all add: sample_invites_def generateInviteCodeForUser_def getLatestInviteCodeByUser_def sample_db_def
      empty_db_def newest_def order_desc_def user_by_id_def fresh_id_def pick_first sample_code Let_def)

theorem invite_waiting_time_witness:
  "\<not> made_for 2 ((MakeCode 2 False (\<lambda>_. ''xyz''), sample_invite_time + 86400000),
      fst (invite_step (\<lambda>_. None) (MakeCode 2 False (\<lambda>_. ''xyz''), sample_invite_time + 86400000)
        sample_invites))"
proof -
  have made: "generateInviteCodeForUser (\<lambda>_. None) (\<lambda>_. ''abc'') 2 False sample_invite_time sample_db =
      (InviteMade (getActiveInviteCodeByUser 2 sample_invite_time sample_invites)
         (Some (toSqlUtc (sample_invite_time + INVITE_CODE_TTL_MS))), sample_invites)"
    by (rule prod_eqI) (simp_all add: sample_invites_eval, simp add: sample_invites_def)
  have "\<forall>x \<in> set (zip [(MakeCode 2 False (\<lambda>_. ''xyz''), sample_invite_time + 86400000)]
     (fst (run_ops (invite_step (\<lambda>_. None)) [(MakeCode 2 False (\<lambda>_. ''xyz''), sample_invite_time + 86400000)]
       sample_invites))). \<not> made_for 2 x"
    by (rule invite_waiting_time [OF made])
      (simp_all add: sample_db_def empty_db_def sample_invite_time_def instant_ok_def INVITE_CODE_TTL_MS_def)
  then show ?thesis by (simp del: invite_step.simps made_for.simps add: case_prod_beta)
qed

text \<open>The page and the operation agree: an ordinary account may generate a code at exactly the
  moments at which the page offers it, and a refused request names the time that the page shows.\<close>

theorem invite_page_matches_generate:
  assumes "getLatestInviteCodeByUser uid d = Some l" and "iv_created_at l = toSqlUtc t"
    and "instant_ok t" and "instant_ok (t + INVITE_CODE_TTL_MS)"
    and "getInviteGenerateStatusByUser engine uid adm now d = st"
    and "generateInviteCodeForUser engine draw uid adm now d = (a, d')"
  shows "(is_can_generate st \<longleftrightarrow> (\<forall>i s. a \<noteq> InviteRefused i s)) \<and>
    (\<forall>i s. a = InviteRefused i s \<longrightarrow> is_next_at st = Some s)"
proof -
  let ?t = "t div 1000 * 1000"
  have sum: "(t + INVITE_CODE_TTL_MS) div 1000 * 1000 = ?t + INVITE_CODE_TTL_MS"
    using div_mult_self1 [of 1000 t 604800] by (simp add: INVITE_CODE_TTL_MS_def)
  have same: "toSqlUtc (?t + INVITE_CODE_TTL_MS) = toSqlUtc (t + INVITE_CODE_TTL_MS)"
    using stamps_order(2) [of "?t + INVITE_CODE_TTL_MS" "t + INVITE_CODE_TTL_MS"] assms(3,4) sum
    unfolding instant_ok_def INVITE_CODE_TTL_MS_def by linarith
  have vals: "stamp_ms engine (toSqlUtc t) = Some ?t"
    "stamp_ms engine (toSqlUtc (t + INVITE_CODE_TTL_MS)) = Some (?t + INVITE_CODE_TTL_MS)"
    using stamp_value(1) [OF assms(3)] stamp_value(1) [OF assms(4)] by (simp_all add: sum)
  have st: "is_can_generate st = (adm \<or> ?t + INVITE_CODE_TTL_MS \<le> now)"
    "is_next_at st = (if adm then None else Some (toSqlUtc (t + INVITE_CODE_TTL_MS)))"
    using assms(5) [symmetric] by (simp_all add: getInviteGenerateStatusByUser_def assms(1,2) vals same Let_def)
  show ?thesis
  proof (cases "adm \<or> ?t + INVITE_CODE_TTL_MS \<le> now")
    case True
    then have "\<forall>i s. a \<noteq> InviteRefused i s"
      using assms(6) by (auto simp: generateInviteCodeForUser_def assms(1,2) vals Let_def split: option.splits if_splits)
    then show ?thesis using True st by simp
  next
    case False
    then have "\<exists>i. a = InviteRefused i (toSqlUtc (t + INVITE_CODE_TTL_MS))"
      using assms(6) by (auto simp: generateInviteCodeForUser_def assms(1,2) vals same Let_def)
    then show ?thesis using False st by auto
  qed
qed

theorem invite_page_matches_generate_witness:
  "is_can_generate (getInviteGenerateStatusByUser (\<lambda>_. None) 2 False (sample_invite_time + 86400000) sample_invites) \<longleftrightarrow>
     (\<forall>i s. fst (generateInviteCodeForUser (\<lambda>_. None) (\<lambda>_. ''xyz'') 2 False (sample_invite_time + 86400000)
        sample_invites) \<noteq> InviteRefused i s)"
proof -
  have "getLatestInviteCodeByUser 2 sample_invites = Some (hd (d_invites sample_invites))"
    by (simp add: getLatestInviteCodeByUser_def newest_def order_desc_def sample_invites_eval)
  moreover have "iv_created_at (hd (d_invites sample_invites)) = toSqlUtc sample_invite_time"
    by (simp add: sample_invites_eval)
  ultimately show ?thesis
    by (rule invite_page_matches_generate [THEN conjunct1, OF _ _ _ _ refl surjective_pairing])
      (simp_all add: sample_invite_time_def instant_ok_def INVITE_CODE_TTL_MS_def)
qed

end
