(* ===== verification/NodeRepo.thy ===== *)
theory NodeRepo
  imports SettingsRepo
begin

text \<open>
  The nodes (\<open>src/services/repos/nodeRepo.js\<close>): reading with the secret columns decrypted,
  deleting with the rows that cascade, and the new identity after a rotation. The cipher of
  \<open>src/utils/crypto.js\<close> is the parameter \<open>dec\<close> (absent and unreadable texts give \<open>None\<close>).
\<close>

definition decryptNode :: "(string option \<Rightarrow> string option) \<Rightarrow> node \<Rightarrow> node" where
  "decryptNode dec n =
     n\<lparr>n_ssh_password := dec (n_ssh_password n), n_socks5_pass := dec (n_socks5_pass n),
       n_reality_private_key := dec (n_reality_private_key n), n_ss_password := dec (n_ss_password n),
       n_hy2_stats_secret := dec (n_hy2_stats_secret n)\<rparr>"

text \<open>\<open>ORDER BY region, name\<close>, the active nodes first when all are asked for.\<close>

definition by_region_name :: "node list \<Rightarrow> node list" where
  "by_region_name ns = sort_key n_region (sort_key n_name ns)"

definition getAllNodes :: "(string option \<Rightarrow> string option) \<Rightarrow> bool \<Rightarrow> db \<Rightarrow> node list" where
  "getAllNodes dec activeOnly d =
     map (decryptNode dec)
       (if activeOnly then by_region_name (filter n_is_active (d_nodes d))
        else sort_key (\<lambda>n. if n_is_active n then 0 else (1 :: nat)) (by_region_name (d_nodes d)))"

definition getNodeById :: "(string option \<Rightarrow> string option) \<Rightarrow> int \<Rightarrow> db \<Rightarrow> node option" where
  "getNodeById dec i d = map_option (decryptNode dec) (find (\<lambda>n. n_id n = i) (d_nodes d))"

definition getNodeByName :: "(string option \<Rightarrow> string option) \<Rightarrow> string \<Rightarrow> db \<Rightarrow> node option" where
  "getNodeByName dec name d = map_option (decryptNode dec) (find (\<lambda>n. n_name n = js_trim name) (d_nodes d))"

text \<open>The ids come as texts; what does not start with a positive number is dropped.\<close>

definition getNodesByIds :: "(string option \<Rightarrow> string option) \<Rightarrow> string list \<Rightarrow> db \<Rightarrow> node list" where
  "getNodesByIds dec ids d =
     (let wanted = filter (\<lambda>i. 0 < i) (concat (map (\<lambda>s. case js_parse_int s of None \<Rightarrow> [] | Some i \<Rightarrow> [i]) ids))
      in map (decryptNode dec) (filter (\<lambda>n. n_id n \<in> set wanted) (d_nodes d)))"

definition deleteNode :: "int \<Rightarrow> db \<Rightarrow> db" where
  "deleteNode i d =
     d\<lparr>d_nodes := delete_where (\<lambda>n. n_id n = i) (d_nodes d),
       d_uuids := delete_where (\<lambda>r. uu_node r = i) (d_uuids d),
       d_traffic := delete_where (\<lambda>r. tr_node r = i) (d_traffic d),
       d_diagnoses := delete_where (\<lambda>r. dg_node r = i) (d_diagnoses d),
       d_metrics := delete_where (\<lambda>r. me_node r = i) (d_metrics d),
       d_node_white := delete_where (\<lambda>r. na_node r = i) (d_node_white d),
       d_abuse := update_where (\<lambda>r. ab_node r = Some i) (\<lambda>r. r\<lparr>ab_node := None\<rparr>) (d_abuse d)\<rparr>"

definition updateNodeAfterRotation :: "int \<Rightarrow> string \<Rightarrow> int \<Rightarrow> string \<Rightarrow> int \<Rightarrow> db \<Rightarrow> db" where
  "updateNodeAfterRotation i newUuid newPort protocol now d =
     d\<lparr>d_nodes := update_where (\<lambda>n. n_id n = i)
         (\<lambda>n. (if protocol = ''hy2'' then n\<lparr>n_hy2_port := Some newPort\<rparr> else n)
               \<lparr>n_uuid := newUuid, n_port := newPort, n_last_rotated := Some (toSqlUtc now)\<rparr>) (d_nodes d)\<rparr>"

text \<open>
  The fields a new node is made of, and the row they give: \<open>enc\<close> is the cipher, \<open>token\<close> the drawn
  token, names are unique.
\<close>

record new_node =
  nn_name :: string
  nn_host :: string
  nn_port :: int
  nn_uuid :: string
  nn_protocol :: string
  nn_network :: string
  nn_security :: string
  nn_ssh_host :: "string option"
  nn_ssh_port :: int
  nn_ssh_user :: string
  nn_ssh_password :: "string option"
  nn_ssh_key_path :: "string option"
  nn_xray_config_path :: string
  nn_socks5_host :: string
  nn_socks5_port :: int
  nn_socks5_user :: string
  nn_socks5_pass :: "string option"
  nn_is_active :: "bool option"
  nn_region :: string
  nn_remark :: string
  nn_is_manual :: bool
  nn_fail_count :: int
  nn_agent_token :: string
  nn_ip_version :: int
  nn_ss_method :: string
  nn_ss_password :: "string option"
  nn_hy2_port :: int
  nn_hy2_obfs :: string
  nn_hy2_sni :: string
  nn_hy2_up :: int
  nn_hy2_down :: int
  nn_hy2_stats_secret :: "string option"

definition text_or :: "string \<Rightarrow> string \<Rightarrow> string" where
  "text_or s d = (if s = [] then d else s)"

definition text_or_null :: "string \<Rightarrow> string option" where
  "text_or_null s = (if s = [] then None else Some s)"

definition int_or :: "int \<Rightarrow> int \<Rightarrow> int" where
  "int_or i d = (if i = 0 then d else i)"

definition int_or_null :: "int \<Rightarrow> int option" where
  "int_or_null i = (if i = 0 then None else Some i)"

definition sealed :: "(string option \<Rightarrow> string option) \<Rightarrow> string option \<Rightarrow> string option" where
  "sealed enc x = (case enc x of None \<Rightarrow> None | Some s \<Rightarrow> text_or_null s)"

definition node_row :: "(string option \<Rightarrow> string option) \<Rightarrow> string \<Rightarrow> int \<Rightarrow> new_node \<Rightarrow> node" where
  "node_row enc token i n =
     \<lparr>n_id = i, n_name = nn_name n, n_host = nn_host n, n_port = nn_port n, n_uuid = nn_uuid n,
      n_protocol = text_or (nn_protocol n) ''vless'', n_network = Some (text_or (nn_network n) ''tcp''),
      n_security = Some (text_or (nn_security n) ''none''), n_ws_path = Some [], n_allow_insecure = False,
      n_ssh_host = nn_ssh_host n, n_is_active = (case nn_is_active n of None \<Rightarrow> True | Some b \<Rightarrow> b), n_region = nn_region n,
      n_remark = nn_remark n, n_min_level = 0, n_reality_public_key = None, n_reality_short_id = None,
      n_sni = Some ''www.microsoft.com'', n_ip_version = int_or (nn_ip_version n) 4, n_ss_method = text_or_null (nn_ss_method n),
      n_ss_password = sealed enc (nn_ss_password n), n_hy2_port = int_or_null (nn_hy2_port n),
      n_hy2_obfs = text_or_null (nn_hy2_obfs n), n_hy2_sni = text_or_null (nn_hy2_sni n), n_traffic_cap = 0, n_traffic_rate = 1,
      n_ssh_password = sealed enc (nn_ssh_password n), n_socks5_pass = sealed enc (nn_socks5_pass n), n_reality_private_key = None,
      n_hy2_stats_secret = sealed enc (nn_hy2_stats_secret n), n_agent_token = Some (text_or (nn_agent_token n) token),
      n_last_rotated = None, n_is_manual = nn_is_manual n, n_fail_count = nn_fail_count n, n_aws_instance = None, n_last_check = None,
      n_agent_last_report = None, n_ssh_port = int_or (nn_ssh_port n) 22, n_ssh_user = text_or (nn_ssh_user n) ''root'',
      n_ssh_key_path = nn_ssh_key_path n,
      n_xray_config_path = Some (text_or (nn_xray_config_path n) ''/usr/local/etc/xray/config.json''),
      n_socks5_host = text_or_null (nn_socks5_host n), n_socks5_port = int_or (nn_socks5_port n) 1080,
      n_socks5_user = text_or_null (nn_socks5_user n), n_hy2_up = int_or_null (nn_hy2_up n), n_hy2_down = int_or_null (nn_hy2_down n)\<rparr>"

text \<open>\<open>i\<close>: the next number of the table. \<open>None\<close>: the name is taken.\<close>

definition addNode :: "(string option \<Rightarrow> string option) \<Rightarrow> string \<Rightarrow> int \<Rightarrow> new_node \<Rightarrow> db \<Rightarrow> db option" where
  "addNode enc token i n d =
     (if nn_name n \<in> n_name ` set (d_nodes d) then None else Some (d\<lparr>d_nodes := d_nodes d @ [node_row enc token i n]\<rparr>))"

lemma decryptNode_keeps [simp]:
  "n_id (decryptNode dec n) = n_id n" "n_is_active (decryptNode dec n) = n_is_active n"
  "n_protocol (decryptNode dec n) = n_protocol n" "n_min_level (decryptNode dec n) = n_min_level n"
  "n_ip_version (decryptNode dec n) = n_ip_version n" "n_uuid (decryptNode dec n) = n_uuid n"
  "n_name (decryptNode dec n) = n_name n" "n_traffic_rate (decryptNode dec n) = n_traffic_rate n"
  by (simp_all add: decryptNode_def)

lemma set_by_region_name [simp]: "set (by_region_name ns) = set ns"
  by (simp add: by_region_name_def)

lemma set_getAllNodes:
  "set (getAllNodes dec active d) = decryptNode dec ` {n \<in> set (d_nodes d). active \<longrightarrow> n_is_active n}"
  by (simp add: getAllNodes_def)

end
