(* ===== verification/Health.thy ===== *)
theory Health
  imports Stamps NodeRepo TrafficRepo SubAccess
begin

text \<open>
  The health monitor (\<open>src/services/health.js\<close>), first part: its memory, its settings with their
  caches, the buffered writes, the snapshot of the nodes and the partners of a node.

  The module variables are the record \<open>monitor\<close>, together with the database. Environment variables
  are read once, at start: \<open>health_env\<close>, with the cipher of the node secrets, the answer of the agent
  hub whether an agent is connected, and the generator of credentials. A handler runs at one instant
  \<open>now\<close>. Log lines are left out; a remark on a node is an English label in the place of the Chinese
  text. The AWS service is not in the model: asking it for a new address is the effect \<open>SwapIp\<close>, its
  answer an operation of its own.
\<close>

section \<open>Numbers and texts\<close>

text \<open>\<open>parseFloat\<close>: the longest prefix that is a decimal literal (the text Infinity, which it also
  reads, counts as no number).\<close>

definition exponent_prefix :: "string \<Rightarrow> int" where
  "exponent_prefix s =
     (case s of
        [] \<Rightarrow> 0
      | c # rest \<Rightarrow>
          if c = CHR ''e'' \<or> c = CHR ''E'' then
            (let neg = js_starts ''-'' rest; ds = takeWhile is_digit (if neg \<or> js_starts ''+'' rest then drop 1 rest else rest)
             in if neg then - digits_val ds else digits_val ds)
          else 0)"

definition js_parse_float :: "string \<Rightarrow> rat option" where
  "js_parse_float s =
     (let t = js_trim_start s;
          neg = js_starts ''-'' t;
          body = (if neg \<or> js_starts ''+'' t then drop 1 t else t);
          (ip, r1) = split_digits body;
          (fp, r2) = (case r1 of [] \<Rightarrow> ([], []) | c # r \<Rightarrow> if c = CHR ''.'' then split_digits r else ([], r1))
      in if ip = [] \<and> fp = [] then None
         else let v = of_int (digits_val (ip @ fp)) * ten_power (exponent_prefix r2 - int (length fp))
              in Some (if neg then - v else v))"

text \<open>\<open>Math.round\<close>, and \<open>toFixed(n)\<close> of a number that is not negative.\<close>

definition js_round :: "rat \<Rightarrow> int" where
  "js_round x = floor (x + 1 / 2)"

definition to_fixed_text :: "nat \<Rightarrow> rat \<Rightarrow> string" where
  "to_fixed_text n x =
     (let k = floor (10 ^ n * x + 1 / 2) in show_int (k div 10 ^ n) @ ''.'' @ pad_start n (show_int (k mod 10 ^ n)))"

text \<open>A number with at most fifteen decimals as a text: no more decimals than it needs.\<close>

definition js_num_text :: "rat \<Rightarrow> string" where
  "js_num_text x =
     (let places = (case find (\<lambda>k. 10 ^ k * x = of_int (floor (10 ^ k * x))) [0..<16] of None \<Rightarrow> 15 | Some k \<Rightarrow> k);
          digits = to_fixed_text places \<bar>x\<bar>
      in (if x < 0 then ''-'' else []) @ (if places = 0 then show_int (floor \<bar>x\<bar>) else digits))"

text \<open>The first occurrences, as a JavaScript \<open>Set\<close> keeps them.\<close>

definition js_unique :: "'a list \<Rightarrow> 'a list" where
  "js_unique xs = rev (remdups (rev xs))"

text \<open>\<open>new Date().toISOString()\<close> and reading such a text back; other texts go to the engine's parser.\<close>

definition nowUtcIso :: "int \<Rightarrow> string" where
  "nowUtcIso t =
     (let s = iso_sql_of_ms t
      in take 10 s @ ''T'' @ drop 11 s @ ''.'' @ pad_start 3 (show_int (t mod 1000)) @ ''Z'')"

definition js_date_ms :: "(string \<Rightarrow> int option) \<Rightarrow> string \<Rightarrow> int option" where
  "js_date_ms engine s =
     (let ms = take 3 (drop 20 s)
      in if length s = 24 \<and> s ! 10 = CHR ''T'' \<and> s ! 19 = CHR ''.'' \<and> s ! 23 = CHR ''Z'' \<and> is_digits ms
         then (case stamp_ms (\<lambda>_. None) (take 10 s @ '' '' @ take 8 (drop 11 s)) of
                 Some t \<Rightarrow> Some (t + digits_val ms) | None \<Rightarrow> engine s)
         else engine s)"

section \<open>Configuration\<close>

record health_env =
  he_multi_window :: int
  he_multi_min_nodes :: int
  he_multi_cooldown :: int
  he_multi_max_users :: int
  he_multi_threshold :: int
  he_resource_ttl :: int
  he_exceed_ttl :: int
  he_restart_ttl :: int
  he_flush_max :: int
  he_recovery_window :: int
  he_online_ttl :: int
  he_user_window :: int
  he_snapshot_ttl :: int
  he_stale :: int
  he_silence_hours :: rat
  he_active_hours :: rat
  he_dec :: "string option \<Rightarrow> string option"
  he_online :: "int \<Rightarrow> bool"
  he_gen :: "int \<Rightarrow> string"
  he_engine :: "string \<Rightarrow> int option"

definition env_int :: "(string \<Rightarrow> string option) \<Rightarrow> string \<Rightarrow> int \<Rightarrow> int \<Rightarrow> int" where
  "env_int getenv name dflt least =
     max least (case js_parse_int (or_else (getenv name) (show_int dflt)) of
                  None \<Rightarrow> dflt | Some v \<Rightarrow> if v = 0 then dflt else v)"

definition env_hours :: "(string \<Rightarrow> string option) \<Rightarrow> string \<Rightarrow> rat \<Rightarrow> rat" where
  "env_hours getenv name dflt =
     (case getenv name of
        None \<Rightarrow> dflt
      | Some s \<Rightarrow> (case js_parse_float s of None \<Rightarrow> dflt | Some v \<Rightarrow> if v = 0 then dflt else v))"

definition health_config ::
  "(string \<Rightarrow> string option) \<Rightarrow> (string option \<Rightarrow> string option) \<Rightarrow> (int \<Rightarrow> bool) \<Rightarrow> (int \<Rightarrow> string) \<Rightarrow>
   (string \<Rightarrow> int option) \<Rightarrow> health_env" where
  "health_config getenv dec online gen engine =
     \<lparr>he_multi_window = env_int getenv ''USER_MULTI_NODE_WINDOW_MS'' 60000 10000,
      he_multi_min_nodes = env_int getenv ''USER_MULTI_NODE_MIN_NODES'' 3 2,
      he_multi_cooldown = env_int getenv ''USER_MULTI_NODE_ALERT_COOLDOWN_MS'' 600000 60000,
      he_multi_max_users = env_int getenv ''USER_MULTI_NODE_MAX_USERS'' 50000 1000,
      he_multi_threshold = env_int getenv ''USER_MULTI_NODE_TRAFFIC_THRESHOLD_BYTES'' 524288000 0,
      he_resource_ttl = env_int getenv ''RESOURCE_ALERT_SETTINGS_TTL_MS'' 30000 10000,
      he_exceed_ttl = env_int getenv ''TRAFFIC_EXCEED_SETTINGS_TTL_MS'' 30000 10000,
      he_restart_ttl = env_int getenv ''AUTO_RESTART_SETTINGS_TTL_MS'' 30000 10000,
      he_flush_max = env_int getenv ''HEALTH_AUDIT_FLUSH_MAX'' 50 10,
      he_recovery_window = env_int getenv ''NODE_RECOVERY_NOTIFY_WINDOW_MS'' 300000 60000,
      he_online_ttl = env_int getenv ''ONLINE_CACHE_TTL_MS'' 120000 15000,
      he_user_window = env_int getenv ''ONLINE_USER_WINDOW_MS'' 300000 30000,
      he_snapshot_ttl = env_int getenv ''NODE_SNAPSHOT_TTL_MS'' 5000 3000,
      he_stale = env_int getenv ''STALE_AGENT_THRESHOLD_MS'' 180000 60000,
      he_silence_hours = env_hours getenv ''SUDDEN_ZERO_SILENCE_HOURS'' 3,
      he_active_hours = env_hours getenv ''SUDDEN_ZERO_ACTIVE_HOURS'' 12,
      he_dec = dec, he_online = online, he_gen = gen, he_engine = engine\<rparr>"

section \<open>The memory of the monitor\<close>

record resource_settings =
  rst_disk :: rat
  rst_mem :: rat
  rst_load :: rat
  rst_cooldown :: int

record exceed_settings =
  tes_action :: string
  tes_threshold_gb :: rat
  tes_hard_gb :: rat
  tes_freeze :: bool

record restart_settings =
  ars_enabled :: bool
  ars_max :: int

text \<open>What is remembered of an account's use of several machines.\<close>

record usage_entry =
  uce_ts :: int
  uce_bytes :: int
  uce_nodes :: "int list"

record usage =
  ucu_hosts :: "(string, usage_entry) js_map"
  ucu_last_alert :: int
  ucu_updated :: int

record online_row =
  onr_node :: int
  onr_name :: string
  onr_count :: nat

record online_full =
  onf_total :: nat
  onf_users :: "(int \<times> string) list"
  onf_nodes :: "online_row list"
  onf_node_users :: "(int, int list) js_map"
  onf_updated :: "(int, int) js_map"

record monitor =
  hm_fail :: "(int, nat) js_map"
  hm_ipv6 :: "(int, nat) js_map"
  hm_restarts :: "(int, int) js_map"
  hm_resource :: "(int \<times> string, int) js_map"
  hm_usage :: "(int, usage) js_map"
  hm_online :: "online_full option"
  hm_summary :: "(nat \<times> nat) option"
  hm_online_at :: int
  hm_last_seen :: "(int, (int, int) js_map) js_map"
  hm_nodes :: "node list"
  hm_nodes_at :: int
  hm_resource_settings :: "(int \<times> resource_settings) option"
  hm_exceed_settings :: "(int \<times> exceed_settings) option"
  hm_restart_settings :: "(int \<times> restart_settings) option"
  hm_recovery :: "(string, int) js_map"
  hm_audit :: "audit_row list"
  hm_observe :: "observe_row list"
  hm_flush_timer :: bool
  hm_exceeded :: "(string \<times> int \<times> string) list"
  hm_alerted :: "(int, string) js_map"
  hm_capped :: "string list"
  hm_cap_month :: "int option"
  hm_exceed_check :: int
  hm_zero :: "int list"
  hm_sudden :: "string list"
  hm_db :: db

definition start_monitor :: "db \<Rightarrow> monitor" where
  "start_monitor d =
     \<lparr>hm_fail = [], hm_ipv6 = [], hm_restarts = [], hm_resource = [], hm_usage = [], hm_online = None, hm_summary = None,
      hm_online_at = 0, hm_last_seen = [], hm_nodes = [], hm_nodes_at = 0, hm_resource_settings = None,
      hm_exceed_settings = None, hm_restart_settings = None, hm_recovery = [], hm_audit = [], hm_observe = [],
      hm_flush_timer = False, hm_exceeded = [], hm_alerted = [], hm_capped = [], hm_cap_month = None,
      hm_exceed_check = 0, hm_zero = [], hm_sudden = [], hm_db = d\<rparr>"

definition on_db :: "(db \<Rightarrow> db) \<Rightarrow> monitor \<Rightarrow> monitor" where
  "on_db f s = s\<lparr>hm_db := f (hm_db s)\<rparr>"

definition tell :: "string \<Rightarrow> string list \<Rightarrow> monitor \<Rightarrow> monitor" where
  "tell kind args s = on_db (add_effect (Notify kind args)) s"

section \<open>Cached settings\<close>

definition float_or :: "rat \<Rightarrow> string option \<Rightarrow> rat" where
  "float_or dflt raw =
     (case raw of
        None \<Rightarrow> dflt
      | Some s \<Rightarrow> (case js_parse_float s of None \<Rightarrow> dflt | Some v \<Rightarrow> if v = 0 then dflt else v))"

definition fresh :: "int \<Rightarrow> int \<Rightarrow> (int \<times> 'a) option \<Rightarrow> bool" where
  "fresh ttl now c = (case c of None \<Rightarrow> False | Some (ts, v) \<Rightarrow> now - ts < ttl)"

definition read_resource_settings :: "db \<Rightarrow> resource_settings" where
  "read_resource_settings d =
     \<lparr>rst_disk = float_or 90 (getSetting d ''resource_alert_disk''),
      rst_mem = float_or 90 (getSetting d ''resource_alert_mem''),
      rst_load = float_or 2 (getSetting d ''resource_alert_load''),
      rst_cooldown = (case setting_int d ''resource_alert_cooldown'' of None \<Rightarrow> 60 | Some n \<Rightarrow> if 1 \<le> n then n else 60)
        * 60 * 1000\<rparr>"

definition getResourceAlertSettings :: "health_env \<Rightarrow> int \<Rightarrow> monitor \<Rightarrow> resource_settings \<times> monitor" where
  "getResourceAlertSettings e now s =
     (if fresh (he_resource_ttl e) now (hm_resource_settings s) then (snd (the (hm_resource_settings s)), s)
      else let v = read_resource_settings (hm_db s) in (v, s\<lparr>hm_resource_settings := Some (now, v)\<rparr>))"

definition read_exceed_settings :: "db \<Rightarrow> exceed_settings" where
  "read_exceed_settings d =
     \<lparr>tes_action = or_else (getSetting d ''traffic_exceed_action'') ''notify'',
      tes_threshold_gb = float_or 20 (getSetting d ''traffic_exceed_threshold_gb''),
      tes_hard_gb = float_or 50 (getSetting d ''traffic_exceed_hard_limit_gb''),
      tes_freeze = (getSetting d ''auto_freeze_traffic_enabled'' = Some ''true'')\<rparr>"

definition getTrafficExceedSettings :: "health_env \<Rightarrow> int \<Rightarrow> monitor \<Rightarrow> exceed_settings \<times> monitor" where
  "getTrafficExceedSettings e now s =
     (if fresh (he_exceed_ttl e) now (hm_exceed_settings s) then (snd (the (hm_exceed_settings s)), s)
      else let v = read_exceed_settings (hm_db s) in (v, s\<lparr>hm_exceed_settings := Some (now, v)\<rparr>))"

definition read_restart_settings :: "db \<Rightarrow> restart_settings" where
  "read_restart_settings d =
     \<lparr>ars_enabled = (getSetting d ''auto_restart_xray'' \<noteq> Some ''false''),
      ars_max = (case setting_int d ''auto_restart_max'' of None \<Rightarrow> 2 | Some n \<Rightarrow> if n = 0 then 2 else n)\<rparr>"

definition getAutoRestartSettings :: "health_env \<Rightarrow> int \<Rightarrow> monitor \<Rightarrow> restart_settings \<times> monitor" where
  "getAutoRestartSettings e now s =
     (if fresh (he_restart_ttl e) now (hm_restart_settings s) then (snd (the (hm_restart_settings s)), s)
      else let v = read_restart_settings (hm_db s) in (v, s\<lparr>hm_restart_settings := Some (now, v)\<rparr>))"

section \<open>Buffered writes\<close>

text \<open>
  The transaction throws when an observed account no longer exists; then the rows are written one by
  one with the time of the write, and those that throw are dropped.
\<close>

definition flush_one_by_one :: "int \<Rightarrow> audit_row list \<Rightarrow> observe_row list \<Rightarrow> db \<Rightarrow> db" where
  "flush_one_by_one now audits observes d =
     (let d1 = fold (\<lambda>r. addAuditLog now (au_user r) (au_action r) (au_args r) (au_ip r)) audits d
      in fold (\<lambda>r d. if user_by_id d (ob_user r) = None then d
                     else d\<lparr>d_observe := d_observe d @ [r\<lparr>ob_at := toSqlUtc now\<rparr>]\<rparr>) observes d1)"

definition flushBufferedHealthWrites :: "int \<Rightarrow> monitor \<Rightarrow> monitor" where
  "flushBufferedHealthWrites now s =
     (let d = hm_db s;
          d' = (if list_all (\<lambda>r. user_by_id d (ob_user r) \<noteq> None) (hm_observe s)
                then d\<lparr>d_audit := d_audit d @ hm_audit s, d_observe := d_observe d @ hm_observe s\<rparr>
                else flush_one_by_one now (hm_audit s) (hm_observe s) d)
      in s\<lparr>hm_flush_timer := False, hm_audit := [], hm_observe := [], hm_db := d'\<rparr>)"

definition bufferSystemAuditLog :: "health_env \<Rightarrow> int \<Rightarrow> string \<Rightarrow> string list \<Rightarrow> monitor \<Rightarrow> monitor" where
  "bufferSystemAuditLog e now act args s =
     (let rows = hm_audit s @ [\<lparr>au_user = None, au_action = act, au_args = args, au_ip = ''system'', au_at = toSqlUtc now\<rparr>];
          s' = s\<lparr>hm_audit := rows\<rparr>
      in if he_flush_max e \<le> int (length rows) then flushBufferedHealthWrites now s' else s'\<lparr>hm_flush_timer := True\<rparr>)"

definition bufferMultiNodeObserveEvent :: "health_env \<Rightarrow> int \<Rightarrow> observe_row \<Rightarrow> monitor \<Rightarrow> monitor" where
  "bufferMultiNodeObserveEvent e now r s =
     (if ob_user r = 0 \<or> ob_node_count r \<le> 0 then s
      else let rows = hm_observe s @ [r\<lparr>ob_username := take 120 (ob_username r), ob_nodes := take 300 (ob_nodes r), ob_at := toSqlUtc now\<rparr>];
               s' = s\<lparr>hm_observe := rows\<rparr>
           in if he_flush_max e \<le> int (length rows) then flushBufferedHealthWrites now s' else s'\<lparr>hm_flush_timer := True\<rparr>)"

section \<open>The snapshot of the nodes and the partners of a node\<close>

definition getNodeHost :: "node \<Rightarrow> string" where
  "getNodeHost n = js_trim (or_else (n_ssh_host n) (n_host n))"

definition getNodeSnapshot :: "health_env \<Rightarrow> int \<Rightarrow> monitor \<Rightarrow> monitor" where
  "getNodeSnapshot e now s =
     (if hm_nodes s \<noteq> [] \<and> now - hm_nodes_at s < he_snapshot_ttl e then s
      else s\<lparr>hm_nodes := getAllNodes (he_dec e) False (hm_db s), hm_nodes_at := now\<rparr>)"

text \<open>\<open>byId.get(id)\<close> and \<open>byHost.get(host)\<close>; a node's id is unique.\<close>

definition by_id :: "int \<Rightarrow> monitor \<Rightarrow> node option" where
  "by_id i s = find (\<lambda>n. n_id n = i) (hm_nodes s)"

definition by_host :: "string \<Rightarrow> monitor \<Rightarrow> node list" where
  "by_host host s = filter (\<lambda>n. getNodeHost n = host) (hm_nodes s)"

definition getPeerNodes :: "health_env \<Rightarrow> int \<Rightarrow> node \<Rightarrow> monitor \<Rightarrow> node list \<times> monitor" where
  "getPeerNodes e now n s =
     (let host = getNodeHost n
      in if host = [] then ([], s)
         else let s' = getNodeSnapshot e now s
              in (filter (\<lambda>p. n_id p \<noteq> n_id n \<and> n_protocol p \<noteq> n_protocol n) (by_host host s'), s'))"

definition update_node :: "int \<Rightarrow> (node \<Rightarrow> node) \<Rightarrow> db \<Rightarrow> db" where
  "update_node i f d = d\<lparr>d_nodes := update_where (\<lambda>n. n_id n = i) f (d_nodes d)\<rparr>"

definition set_state :: "bool \<Rightarrow> string \<Rightarrow> int \<Rightarrow> node \<Rightarrow> node" where
  "set_state active remark now n = n\<lparr>n_is_active := active, n_remark := remark, n_last_check := Some (toSqlUtc now)\<rparr>"

definition set_report_time :: "int \<Rightarrow> node \<Rightarrow> node" where
  "set_report_time now n = n\<lparr>n_agent_last_report := Some (nowUtcIso now)\<rparr>"

definition updatePeerLastReport :: "node list \<Rightarrow> int \<Rightarrow> monitor \<Rightarrow> monitor" where
  "updatePeerLastReport peers now s = fold (\<lambda>p. on_db (update_node (n_id p) (set_report_time now))) peers s"

definition mirrorPeerState :: "node list \<Rightarrow> bool \<Rightarrow> string \<Rightarrow> int \<Rightarrow> monitor \<Rightarrow> monitor" where
  "mirrorPeerState peers active remark now s =
     fold (\<lambda>p. on_db (update_node (n_id p) (\<lambda>n. set_report_time now (set_state active remark now n)))) peers s"

text \<open>One message of recovery per machine in a while; above a thousand entries the old ones go.\<close>

definition shouldNotifyNodeRecovery :: "health_env \<Rightarrow> node \<Rightarrow> int \<Rightarrow> monitor \<Rightarrow> bool \<times> monitor" where
  "shouldNotifyNodeRecovery e n now s =
     (let host = getNodeHost n;
          key = (if host = [] then show_int (n_id n) else host);
          lastAt = (case js_get (hm_recovery s) key of None \<Rightarrow> 0 | Some t \<Rightarrow> t)
      in if lastAt \<noteq> 0 \<and> now - lastAt < he_recovery_window e then (False, s)
         else let m = js_set key now (hm_recovery s);
                  m' = (if 1000 < length m then filter (\<lambda>x. now - snd x < he_recovery_window e) m else m)
              in (True, s\<lparr>hm_recovery := m'\<rparr>))"

end
