(* ===== verification/HealthTraffic.thy ===== *)
theory HealthTraffic
  imports Health
begin

text \<open>
  The health monitor, second part: booking the traffic an agent reports, the limits of accounts and
  machines that follow from it, and the thresholds of a node's resources.

  A traffic record is the JSON object the node agent sends: \<open>rcd_user\<close> is 0 when it names no account,
  then the account is found by the tag (the first eight characters of a credential; tags are not
  the names of inherited properties). Traffic is counted in whole bytes and rates are exact
  fractions.
\<close>

record traffic_record =
  rcd_user :: int
  rcd_tag :: string
  rcd_proto :: string
  rcd_up :: bool
  rcd_value :: int

section \<open>Whose traffic, at which node\<close>

definition buildTagCache :: "int \<Rightarrow> db \<Rightarrow> (string \<times> int) list" where
  "buildTagCache nid d = rev (map (\<lambda>r. (take 8 (uu_uuid r), uu_user r)) (filter (\<lambda>r. uu_node r = nid) (d_uuids d)))"

definition record_user :: "int \<Rightarrow> db \<Rightarrow> traffic_record \<Rightarrow> int" where
  "record_user nid d r =
     (if rcd_user r \<noteq> 0 then rcd_user r
      else if rcd_tag r = [] then 0
      else case map_of (buildTagCache nid d) (rcd_tag r) of None \<Rightarrow> 0 | Some u \<Rightarrow> u)"

record protocol_map =
  pmap_default :: int
  pmap_vless :: "int option"
  pmap_ss :: "int option"
  pmap_hy2 :: "int option"

definition first_of :: "string \<Rightarrow> node list \<Rightarrow> int option" where
  "first_of protocol ns = map_option n_id (find (\<lambda>n. n_protocol n = protocol) ns)"

definition buildProtocolNodeMap :: "node \<Rightarrow> node list \<Rightarrow> protocol_map" where
  "buildProtocolNodeMap n peers =
     \<lparr>pmap_default = n_id n, pmap_vless = first_of ''vless'' (n # peers), pmap_ss = first_of ''ss'' (n # peers),
      pmap_hy2 = first_of ''hy2'' (n # peers)\<rparr>"

definition resolveTargetNodeId :: "traffic_record \<Rightarrow> protocol_map \<Rightarrow> int" where
  "resolveTargetNodeId r m =
     (let proto = js_lower (rcd_proto r); to = (\<lambda>x. case x of None \<Rightarrow> pmap_default m | Some i \<Rightarrow> i)
      in if proto = ''ss'' then to (pmap_ss m)
         else if proto = ''vless'' \<or> proto = ''v'' then to (pmap_vless m)
         else if proto = ''hy2'' then to (pmap_hy2 m)
         else pmap_default m)"

definition has_protocol :: "traffic_record list \<Rightarrow> bool" where
  "has_protocol rs \<longleftrightarrow> (\<exists>r \<in> set rs. js_lower (rcd_proto r) \<in> {''ss'', ''vless'', ''v'', ''hy2''})"

definition record_target :: "int \<Rightarrow> node \<Rightarrow> node list \<Rightarrow> traffic_record list \<Rightarrow> traffic_record \<Rightarrow> int" where
  "record_target nid n peers rs r =
     (if has_protocol rs then resolveTargetNodeId r (buildProtocolNodeMap n peers) else nid)"

text \<open>The sums by node and account, in the order in which the keys first occur.\<close>

definition add_record :: "int \<Rightarrow> int \<Rightarrow> traffic_record \<Rightarrow> (int \<times> int, int \<times> int) js_map \<Rightarrow> (int \<times> int, int \<times> int) js_map" where
  "add_record target uid r m =
     (let (up, down) = (case js_get m (target, uid) of None \<Rightarrow> (0, 0) | Some t \<Rightarrow> t)
      in js_set (target, uid) (if rcd_up r then (up + rcd_value r, down) else (up, down + rcd_value r)) m)"

definition sum_records :: "int \<Rightarrow> node \<Rightarrow> node list \<Rightarrow> traffic_record list \<Rightarrow> db \<Rightarrow> (int \<times> int, int \<times> int) js_map" where
  "sum_records nid n peers rs d =
     fold (\<lambda>r m. if record_user nid d r = 0 then m else add_record (record_target nid n peers rs r) (record_user nid d r) r m)
       rs []"

section \<open>Limits of accounts\<close>

definition gb_of :: "int \<Rightarrow> rat" where
  "gb_of b = of_int b / of_int GB"

definition checkUserTrafficLimit :: "health_env \<Rightarrow> int \<Rightarrow> int \<Rightarrow> monitor \<Rightarrow> monitor" where
  "checkUserTrafficLimit e uid now s =
     (case user_by_id (hm_db s) uid of
        None \<Rightarrow> s
      | Some u \<Rightarrow>
          if u_traffic_limit u < 0 then s
          else if \<not> isTrafficExceeded uid (hm_db s) then
            (if u_is_frozen u \<and> u_freeze_reason u = Some ''traffic_limit''
             then on_db (\<lambda>d. add_effect EmitSyncAll (add_effect (Notify ''ops'' [''traffic limit lifted'', u_username u])
                    (addAuditLog now None ''traffic_limit_unfreeze'' [u_username u] ''system'' (unfreezeUser (he_gen e) uid d)))) s
             else s)
          else if u_is_frozen u then s
          else on_db (\<lambda>d.
            let d1 = freezeUser uid ''traffic_limit'' d;
                (up, down) = getUserTraffic uid d1;
                usedGb = to_fixed_text 2 (gb_of (up + down));
                limitGb = to_fixed_text 2 (gb_of (u_traffic_limit u))
            in add_effect EmitSyncAll (add_effect (Notify ''ops'' [''traffic limit used up'', u_username u, usedGb, limitGb])
                 (addAuditLog now None ''traffic_limit_freeze'' [u_username u, usedGb, limitGb] ''system'' d1))) s)"

definition today_bytes :: "int \<Rightarrow> int \<Rightarrow> db \<Rightarrow> int" where
  "today_bytes uid now d =
     (let (up, down) = sum_daily (filter (\<lambda>r. da_user r = uid \<and> da_date r = dateKeyInTimeZone now) (d_daily d)) in up + down)"

definition checkUserDailyTrafficAlert :: "int \<Rightarrow> int \<Rightarrow> monitor \<Rightarrow> monitor" where
  "checkUserDailyTrafficAlert uid now s =
     (let d = hm_db s; day = dateKeyInTimeZone now
      in if getSetting d ''traffic_alert_enabled'' \<noteq> Some ''true'' then s
         else case user_by_id d uid of
                None \<Rightarrow> s
              | Some u \<Rightarrow>
                  if \<not> truthy (u_telegram_id u) \<or> u_is_blocked u \<or> u_is_frozen u then s
                  else (case getSetting d ''traffic_alert_threshold_gb'' of
                          None \<Rightarrow> s
                        | Some raw \<Rightarrow>
                            (case js_parse_float raw of
                               None \<Rightarrow> s
                             | Some threshold \<Rightarrow>
                                 if threshold \<le> 0 \<or> gb_of (today_bytes uid now d) < threshold
                                   \<or> js_get (hm_alerted s) uid = Some day then s
                                 else on_db (add_effect (SendToUser (or_else (u_telegram_id u) [])
                                          [''traffic alert'', to_fixed_text 2 (gb_of (today_bytes uid now d))]))
                                        (s\<lparr>hm_alerted := js_set uid day (hm_alerted s)\<rparr>))))"

text \<open>When the message was delivered, the alert is noted in the audit log.\<close>

definition traffic_alert_delivered :: "int \<Rightarrow> rat \<Rightarrow> rat \<Rightarrow> int \<Rightarrow> monitor \<Rightarrow> monitor" where
  "traffic_alert_delivered uid todayGb threshold now s =
     on_db (addAuditLog now (Some uid) ''traffic_alert_notify'' [to_fixed_text 2 todayGb, js_num_text threshold] ''system'') s"

definition cleanupTrafficAlertCache :: "int \<Rightarrow> monitor \<Rightarrow> monitor" where
  "cleanupTrafficAlertCache now s = s\<lparr>hm_alerted := filter (\<lambda>x. snd x = dateKeyInTimeZone now) (hm_alerted s)\<rparr>"

section \<open>Limits of machines\<close>

definition utc_month :: "int \<Rightarrow> int" where
  "utc_month now = (let (y, m, d) = civil_from_days (now div ms_per_day) in y * 12 + (m - 1))"

definition maybeResetTrafficCapNotified :: "int \<Rightarrow> monitor \<Rightarrow> monitor" where
  "maybeResetTrafficCapNotified now s =
     (case hm_cap_month s of
        None \<Rightarrow> s\<lparr>hm_cap_month := Some (utc_month now)\<rparr>
      | Some m \<Rightarrow> if utc_month now = m then s else s\<lparr>hm_capped := [], hm_cap_month := Some (utc_month now)\<rparr>)"

definition REMARK_CAP :: string where "REMARK_CAP = ''traffic cap reached''"

definition ssh_host_of :: "node \<Rightarrow> string" where
  "ssh_host_of n = or_else (n_ssh_host n) (n_host n)"

definition stop_command :: string where
  "stop_command = ''exec systemctl stop xray; systemctl stop hysteria-server''"

definition node_of :: "health_env \<Rightarrow> int \<Rightarrow> monitor \<Rightarrow> node option" where
  "node_of e i s = (case by_id i s of Some n \<Rightarrow> Some n | None \<Rightarrow> getNodeById (he_dec e) i (hm_db s))"

definition stop_machine :: "health_env \<Rightarrow> string \<Rightarrow> int \<Rightarrow> monitor \<Rightarrow> monitor" where
  "stop_machine e host now s =
     (let peers = filter (\<lambda>n. ssh_host_of n = host) (hm_nodes s);
          active = filter n_is_active peers;
          s1 = fold (\<lambda>p. on_db (update_node (n_id p) (\<lambda>n. n\<lparr>n_is_active := False, n_remark := REMARK_CAP\<rparr>))) active s;
          names = js_join '', '' (map n_name active)
      in if active = [] then s1
         else let s2 = tell ''ops'' [''node traffic cap'', host, names]
                         (on_db (addAuditLog now None ''node_traffic_cap'' [names, host] ''system'') s1);
                  agent = n_id (hd peers)
              in if he_online e agent then on_db (add_effect (AgentCommand agent stop_command)) s2 else s2)"

definition checkNodeTrafficCap :: "health_env \<Rightarrow> int \<Rightarrow> int \<Rightarrow> monitor \<Rightarrow> monitor" where
  "checkNodeTrafficCap e nid now s =
     (let s1 = getNodeSnapshot e now s
      in case node_of e nid s1 of
           None \<Rightarrow> s1
         | Some n \<Rightarrow>
             if n_traffic_cap n \<le> 0 \<or> ssh_host_of n \<in> set (hm_capped s1) then s1
             else let (up, down) = getHostTraffic (ssh_host_of n) (hm_db s1)
                  in if up + down < n_traffic_cap n then s1
                     else stop_machine e (ssh_host_of n) now (s1\<lparr>hm_capped := hm_capped s1 @ [ssh_host_of n]\<rparr>))"

section \<open>Booking a report\<close>

text \<open>
  One sum: multiplied with the rate of its node and booked; an account or node that no longer exists
  is skipped. The number of booked sums goes along.
\<close>

definition rate_of :: "health_env \<Rightarrow> int \<Rightarrow> node \<Rightarrow> int \<Rightarrow> monitor \<Rightarrow> rat" where
  "rate_of e nid n target s =
     (if target = nid then n_traffic_rate n
      else case node_of e target s of None \<Rightarrow> 1 | Some t \<Rightarrow> n_traffic_rate t)"

definition book_sum :: "health_env \<Rightarrow> int \<Rightarrow> node \<Rightarrow> int \<Rightarrow> (int \<times> int) \<times> (int \<times> int) \<Rightarrow> nat \<times> monitor \<Rightarrow> nat \<times> monitor" where
  "book_sum e nid n now x acc =
     (case (x, acc) of
        (((target, uid), (up, down)), (k, s)) \<Rightarrow>
          if target = 0 \<or> uid = 0 \<or> (up \<le> 0 \<and> down \<le> 0) then (k, s)
          else let rate = rate_of e nid n target s
               in case recordTraffic uid target (js_round (of_int up * rate)) (js_round (of_int down * rate)) now (hm_db s) of
                    None \<Rightarrow> (k, s)
                  | Some d \<Rightarrow> (Suc k, s\<lparr>hm_db := d\<rparr>))"

definition check_accounts :: "health_env \<Rightarrow> int list \<Rightarrow> int \<Rightarrow> monitor \<Rightarrow> monitor" where
  "check_accounts e uids now s =
     fold (\<lambda>u s. checkUserDailyTrafficAlert u now (checkUserTrafficLimit e u now s)) (js_unique (filter (\<lambda>u. u \<noteq> 0) uids)) s"

text \<open>The node and its partners are those the report found.\<close>

definition saveTrafficRecords ::
  "health_env \<Rightarrow> int \<Rightarrow> traffic_record list \<Rightarrow> node \<Rightarrow> node list \<Rightarrow> int \<Rightarrow> monitor \<Rightarrow> nat \<times> monitor" where
  "saveTrafficRecords e nid rs n peers now s =
     (let totals = sum_records nid n peers rs (hm_db s);
          (k, s1) = fold (book_sum e nid n now) totals (0, s)
      in if k = 0 then (0, s1)
         else (k, check_accounts e (map (\<lambda>x. snd (fst x)) totals) now (checkNodeTrafficCap e nid now s1)))"

section \<open>Daily traffic above the threshold\<close>

text \<open>The accounts whose traffic of the day reaches the threshold, with it.\<close>

definition heavy_users :: "rat \<Rightarrow> string \<Rightarrow> db \<Rightarrow> (user \<times> int) list" where
  "heavy_users thresholdBytes day d =
     concat (map (\<lambda>(uid, rows).
         case user_by_id d uid of
           None \<Rightarrow> []
         | Some u \<Rightarrow> (let (up, down) = sum_daily rows in if thresholdBytes \<le> of_int (up + down) then [(u, up + down)] else []))
       (group_rows da_user (filter (\<lambda>r. da_date r = day) (d_daily d))))"

definition TRAFFIC_CHECK_INTERVAL_MS :: int where "TRAFFIC_CHECK_INTERVAL_MS = 60000"

definition note_heavy_user ::
  "health_env \<Rightarrow> exceed_settings \<Rightarrow> string \<Rightarrow> int \<Rightarrow> user \<times> int \<Rightarrow> bool \<times> monitor \<Rightarrow> bool \<times> monitor" where
  "note_heavy_user e cfg day now x acc =
     (case (x, acc) of
        ((u, amount), (sync, s)) \<Rightarrow>
          let gb = to_fixed_text 2 (gb_of amount);
              notifyKey = (''notified'', u_id u, day);
              freezeKey = (''frozen'', u_id u, day);
              s1 = (if notifyKey \<in> set (hm_exceeded s) then s
                    else tell ''trafficExceed'' [u_username u, show_int amount]
                           (bufferSystemAuditLog e now ''traffic_exceed'' [u_username u, gb]
                             (s\<lparr>hm_exceeded := hm_exceeded s @ [notifyKey]\<rparr>)));
              limit = (if tes_action cfg = ''freeze'' then tes_threshold_gb cfg else tes_hard_gb cfg)
          in if \<not> tes_freeze cfg \<or> freezeKey \<in> set (hm_exceeded s1) \<or> of_int amount < limit * of_int GB then (sync, s1)
             else (True,
               tell ''ops'' [''traffic exceeded'', u_username u, gb, js_num_text limit]
                 (bufferSystemAuditLog e now ''traffic_exceed_freeze'' [u_username u, gb]
                   ((on_db (freezeUser (u_id u) ''traffic'') s1)\<lparr>hm_exceeded := hm_exceeded s1 @ [freezeKey]\<rparr>))))"

definition checkTrafficExceed :: "health_env \<Rightarrow> int \<Rightarrow> monitor \<Rightarrow> monitor" where
  "checkTrafficExceed e now s =
     (if now - hm_exceed_check s < TRAFFIC_CHECK_INTERVAL_MS then s
      else let day = dateKeyInTimeZone now;
               s1 = s\<lparr>hm_exceed_check := now, hm_exceeded := filter (\<lambda>(k, u, dd). dd = day) (hm_exceeded s)\<rparr>;
               (cfg, s2) = getTrafficExceedSettings e now s1;
               (sync, s3) = fold (note_heavy_user e cfg day now)
                              (heavy_users (tes_threshold_gb cfg * of_int GB) day (hm_db s2)) (False, s2)
           in if sync then on_db (add_effect EmitSyncAll) s3 else s3)"

section \<open>Resources of a node\<close>

definition resource_alert :: "health_env \<Rightarrow> int \<Rightarrow> string \<Rightarrow> int \<Rightarrow> int \<Rightarrow> string \<times> string \<Rightarrow> monitor \<Rightarrow> monitor" where
  "resource_alert e nid name cooldown now c s =
     (case c of (kind, shown) \<Rightarrow>
        let lastAt = (case js_get (hm_resource s) (nid, kind) of None \<Rightarrow> 0 | Some t \<Rightarrow> t)
        in if now - lastAt < cooldown then s
           else tell ''ops'' [''resources'', name, kind, shown]
                  (bufferSystemAuditLog e now (''resource_'' @ kind @ ''_high'') [name, kind, shown]
                    (s\<lparr>hm_resource := js_set (nid, kind) now (hm_resource s)\<rparr>)))"

definition above :: "rat option \<Rightarrow> rat \<Rightarrow> bool" where
  "above v limit = (case v of None \<Rightarrow> False | Some x \<Rightarrow> limit < x)"

definition checkResourceThresholds ::
  "health_env \<Rightarrow> int \<Rightarrow> string \<Rightarrow> rat option \<Rightarrow> rat option \<Rightarrow> rat option \<Rightarrow> int \<Rightarrow> monitor \<Rightarrow> monitor" where
  "checkResourceThresholds e nid name disk mem load now s =
     (let (cfg, s1) = getResourceAlertSettings e now s;
          checks =
            (if above disk (rst_disk cfg) then [(''disk'', js_num_text (the disk) @ ''%'')] else []) @
            (if above mem (rst_mem cfg) then [(''mem'', js_num_text (the mem) @ ''%'')] else []) @
            (if above load (rst_load cfg) then [(''load'', to_fixed_text 2 (the load))] else [])
      in fold (resource_alert e nid name (rst_cooldown cfg) now) checks s1)"

end
