(* ===== verification/HealthOnline.thy ===== *)
theory HealthOnline
  imports HealthTraffic
begin

text \<open>
  The health monitor, third part: who is online at which node, and the observation of accounts that use
  several machines at once. An account counts as online at a node while its last traffic there is not
  older than a window.
\<close>

section \<open>The cache of online accounts\<close>

definition empty_full :: online_full where
  "empty_full = \<lparr>onf_total = 0, onf_users = [], onf_nodes = [], onf_node_users = [], onf_updated = []\<rparr>"

definition ensureOnlineCacheFull :: "health_env \<Rightarrow> int \<Rightarrow> monitor \<Rightarrow> online_full \<times> monitor" where
  "ensureOnlineCacheFull e now s =
     (case hm_online s of
        Some f \<Rightarrow>
          if he_online_ttl e < now - hm_online_at s then (empty_full, s\<lparr>hm_online := Some empty_full, hm_online_at := now\<rparr>)
          else (f, s)
      | None \<Rightarrow> (empty_full, s\<lparr>hm_online := Some empty_full, hm_online_at := now\<rparr>))"

text \<open>Reading the cache: an old summary becomes zero, and so do the counts of the nodes.\<close>

definition getOnlineCache :: "health_env \<Rightarrow> int \<Rightarrow> monitor \<Rightarrow> monitor" where
  "getOnlineCache e now s =
     (case hm_summary s of
        None \<Rightarrow> s
      | Some (_, nodes) \<Rightarrow>
          if now - hm_online_at s \<le> he_online_ttl e then s
          else s\<lparr>hm_summary := Some (0, nodes),
                 hm_online := map_option (\<lambda>f. f\<lparr>onf_nodes := map (\<lambda>r. r\<lparr>onr_count := 0\<rparr>) (onf_nodes f), onf_total := 0,
                   onf_users := [], onf_node_users := [], onf_updated := []\<rparr>) (hm_online s)\<rparr>)"

definition upsertOnlineNodeCount :: "int \<Rightarrow> string \<Rightarrow> nat \<Rightarrow> online_row list \<Rightarrow> online_row list" where
  "upsertOnlineNodeCount nid name cnt rows =
     upsert onr_node (\<lambda>n x. x\<lparr>onr_count := onr_count n\<rparr>) \<lparr>onr_node = nid, onr_name = name, onr_count = cnt\<rparr> rows"

definition rebuildOnlineUsersFromNodeMap :: "db \<Rightarrow> online_full \<Rightarrow> online_full" where
  "rebuildOnlineUsersFromNodeMap d f =
     (let us = map (\<lambda>u. (u_id u, u_username u)) (getUsersByIds (concat (map snd (onf_node_users f))) d)
      in f\<lparr>onf_users := us, onf_total := length us\<rparr>)"

definition stale_row :: "health_env \<Rightarrow> int \<Rightarrow> online_full \<Rightarrow> online_row \<Rightarrow> bool" where
  "stale_row e now f r =
     (case js_get (onf_updated f) (onr_node r) of None \<Rightarrow> True | Some t \<Rightarrow> t = 0 \<or> he_online_ttl e < now - t)"

definition pruneStaleOnlineNodeEntries :: "health_env \<Rightarrow> int \<Rightarrow> online_full \<Rightarrow> online_full" where
  "pruneStaleOnlineNodeEntries e now f =
     f\<lparr>onf_node_users := fold (\<lambda>r. js_set (onr_node r) []) (filter (stale_row e now f) (onf_nodes f)) (onf_node_users f),
       onf_nodes := map (\<lambda>r. if stale_row e now f r then r\<lparr>onr_count := 0\<rparr> else r) (onf_nodes f)\<rparr>"

section \<open>Accounts on several machines\<close>

text \<open>Per account: the machines it used in this report, with the nodes and the bytes.\<close>

definition machine_of :: "monitor \<Rightarrow> int \<Rightarrow> string" where
  "machine_of s nid =
     (case by_id nid s of
        None \<Rightarrow> show_int nid
      | Some n \<Rightarrow> let h = ssh_host_of n in if h = [] then show_int nid else h)"

definition note_use :: "string \<Rightarrow> int \<Rightarrow> int \<Rightarrow> int \<Rightarrow> (int, (string, int list \<times> int) js_map) js_map \<Rightarrow>
    (int, (string, int list \<times> int) js_map) js_map" where
  "note_use host nid uid bytes m =
     (let hosts = (case js_get m uid of None \<Rightarrow> [] | Some h \<Rightarrow> h);
          (nids, b) = (case js_get hosts host of None \<Rightarrow> ([], 0) | Some x \<Rightarrow> x)
      in js_set uid (js_set host (js_unique (nids @ [nid]), b + bytes) hosts) m)"

definition current_use ::
  "monitor \<Rightarrow> (int, int list) js_map \<Rightarrow> (int, (int, int) js_map) js_map \<Rightarrow> (int, (string, int list \<times> int) js_map) js_map" where
  "current_use s nodeUsers nodeTraffic =
     fold (\<lambda>(nid, uids) m.
        fold (\<lambda>uid. note_use (machine_of s nid) nid uid
          (case js_get nodeTraffic nid of None \<Rightarrow> 0 | Some t \<Rightarrow> (case js_get t uid of None \<Rightarrow> 0 | Some b \<Rightarrow> b))) uids m)
       nodeUsers []"

definition cleanupConcurrentNodeState :: "health_env \<Rightarrow> int \<Rightarrow> (int, usage) js_map \<Rightarrow> (int, usage) js_map" where
  "cleanupConcurrentNodeState e now m =
     (let m1 = map (\<lambda>(uid, u). (uid, u\<lparr>ucu_hosts := filter (\<lambda>x. now - uce_ts (snd x) \<le> he_multi_window e) (ucu_hosts u)\<rparr>)) m;
          m2 = filter (\<lambda>(uid, u). ucu_hosts u \<noteq> [] \<or> now - ucu_updated u \<le> he_multi_window e) m1
      in evict ucu_updated (nat (he_multi_max_users e)) m2)"

definition merge_use :: "health_env \<Rightarrow> int \<Rightarrow> (string, int list \<times> int) js_map \<Rightarrow> usage \<Rightarrow> usage" where
  "merge_use e now hosts u =
     (let hs = fold (\<lambda>(h, (nids, b)) m.
                  js_set h \<lparr>uce_ts = now, uce_bytes = (case js_get m h of None \<Rightarrow> 0 | Some x \<Rightarrow> uce_bytes x) + b, uce_nodes = nids\<rparr> m)
                 hosts (ucu_hosts u)
      in u\<lparr>ucu_hosts := filter (\<lambda>x. now - uce_ts (snd x) \<le> he_multi_window e) hs, ucu_updated := now\<rparr>)"

definition use_alert :: "health_env \<Rightarrow> int \<Rightarrow> usage \<Rightarrow> bool" where
  "use_alert e now u \<longleftrightarrow>
     he_multi_min_nodes e \<le> int (length (ucu_hosts u)) \<and> he_multi_cooldown e \<le> now - ucu_last_alert u \<and>
     he_multi_threshold e \<le> sum_list (map (\<lambda>x. uce_bytes (snd x)) (ucu_hosts u))"

definition report_use :: "health_env \<Rightarrow> int \<Rightarrow> int \<Rightarrow> usage \<Rightarrow> monitor \<Rightarrow> monitor" where
  "report_use e now uid u s =
     (let name = (case user_by_id (hm_db s) uid of None \<Rightarrow> [] | Some x \<Rightarrow> u_username x);
          hosts = ucu_hosts u;
          bytes = sum_list (map (\<lambda>x. uce_bytes (snd x)) hosts);
          windowSeconds = (he_multi_window e + 500) div 1000;
          nids = concat (map (\<lambda>x. uce_nodes (snd x)) hosts);
          row = \<lparr>ob_user = uid, ob_username = name, ob_node_count = int (length hosts),
                 ob_nodes = js_join '','' (map show_int (take 20 nids)), ob_window = windowSeconds, ob_traffic = bytes, ob_at = []\<rparr>
      in bufferSystemAuditLog e now ''user_multi_node_observe''
           [show_int uid, (if name = [] then ''unknown'' else name), show_int windowSeconds, show_int (int (length hosts)),
            to_fixed_text 1 (of_int bytes / 1048576), js_join '','' (map fst (take 8 hosts))]
           (bufferMultiNodeObserveEvent e now row s))"

definition track_user :: "health_env \<Rightarrow> int \<Rightarrow> int \<times> (string, int list \<times> int) js_map \<Rightarrow> monitor \<Rightarrow> monitor" where
  "track_user e now x s =
     (case x of (uid, hosts) \<Rightarrow>
        let old = (case js_get (hm_usage s) uid of None \<Rightarrow> \<lparr>ucu_hosts = [], ucu_last_alert = 0, ucu_updated = now\<rparr> | Some u \<Rightarrow> u);
            u = merge_use e now hosts old
        in if use_alert e now u
           then report_use e now uid u (s\<lparr>hm_usage := js_set uid (u\<lparr>ucu_last_alert := now\<rparr>) (hm_usage s)\<rparr>)
           else s\<lparr>hm_usage := js_set uid u (hm_usage s)\<rparr>)"

definition trackConcurrentNodeUsage ::
  "health_env \<Rightarrow> (int, int list) js_map \<Rightarrow> (int, (int, int) js_map) js_map \<Rightarrow> int \<Rightarrow> monitor \<Rightarrow> monitor" where
  "trackConcurrentNodeUsage e nodeUsers nodeTraffic now s =
     (if nodeUsers = [] then s
      else let s1 = getNodeSnapshot e now s;
               s2 = fold (track_user e now) (current_use s1 nodeUsers nodeTraffic) s1
           in s2\<lparr>hm_usage := cleanupConcurrentNodeState e now (hm_usage s2)\<rparr>)"

section \<open>A report's accounts\<close>

definition add_online :: "int \<Rightarrow> int \<Rightarrow> (int, int list) js_map \<Rightarrow> (int, int list) js_map" where
  "add_online target uid m = js_set target (js_unique ((case js_get m target of None \<Rightarrow> [] | Some us \<Rightarrow> us) @ [uid])) m"

definition add_bytes :: "int \<Rightarrow> int \<Rightarrow> int \<Rightarrow> (int, (int, int) js_map) js_map \<Rightarrow> (int, (int, int) js_map) js_map" where
  "add_bytes target uid b m =
     (let t = (case js_get m target of None \<Rightarrow> [] | Some t \<Rightarrow> t)
      in js_set target (js_set uid ((case js_get t uid of None \<Rightarrow> 0 | Some x \<Rightarrow> x) + b) t) m)"

definition online_of :: "int \<Rightarrow> node \<Rightarrow> node list \<Rightarrow> traffic_record list \<Rightarrow> db \<Rightarrow>
    (int, int list) js_map \<times> (int, (int, int) js_map) js_map" where
  "online_of nid n peers rs d =
     (let (us, ts) = fold (\<lambda>r (us, ts).
            let uid = record_user nid d r; target = record_target nid n peers rs r
            in if uid = 0 then (us, ts) else (add_online target uid us, add_bytes target uid (rcd_value r) ts)) rs ([], [])
      in if has_protocol rs \<or> peers = [] then (us, ts)
         else let reporterUsers = (case js_get us nid of None \<Rightarrow> [] | Some x \<Rightarrow> x);
                  reporterTraffic = (case js_get ts nid of None \<Rightarrow> [] | Some x \<Rightarrow> x)
              in (fold (\<lambda>p. js_set (n_id p) reporterUsers) peers us, fold (\<lambda>p. js_set (n_id p) reporterTraffic) peers ts))"

definition see_users :: "health_env \<Rightarrow> int \<Rightarrow> int list \<Rightarrow> (int, int) js_map \<Rightarrow> (int, int) js_map" where
  "see_users e now uids seen = filter (\<lambda>x. now - snd x \<le> he_user_window e) (fold (\<lambda>u. js_set u now) uids seen)"

definition track_node :: "health_env \<Rightarrow> int \<Rightarrow> (int, int list) js_map \<Rightarrow> node \<Rightarrow> online_full \<times> monitor \<Rightarrow> online_full \<times> monitor" where
  "track_node e now us n acc =
     (case acc of (f, s) \<Rightarrow>
        let current = (case js_get us (n_id n) of None \<Rightarrow> [] | Some x \<Rightarrow> x);
            seen = see_users e now current (case js_get (hm_last_seen s) (n_id n) of None \<Rightarrow> [] | Some x \<Rightarrow> x);
            online = map fst seen
        in (f\<lparr>onf_node_users := js_set (n_id n) online (onf_node_users f), onf_updated := js_set (n_id n) now (onf_updated f),
              onf_nodes := upsertOnlineNodeCount (n_id n) (n_name n) (length online) (onf_nodes f)\<rparr>,
            s\<lparr>hm_last_seen := js_set (n_id n) seen (hm_last_seen s)\<rparr>))"

definition updateOnlineCache :: "health_env \<Rightarrow> int \<Rightarrow> traffic_record list \<Rightarrow> node \<Rightarrow> node list \<Rightarrow> int \<Rightarrow> monitor \<Rightarrow> monitor" where
  "updateOnlineCache e nid rs n peers now s =
     (let (f, s1) = ensureOnlineCacheFull e now s;
          (us, ts) = online_of nid n peers rs (hm_db s1);
          (f1, s2) = fold (track_node e now us) (n # peers) (f, s1);
          f2 = pruneStaleOnlineNodeEntries e now f1;
          s3 = trackConcurrentNodeUsage e us ts now s2;
          f3 = rebuildOnlineUsersFromNodeMap (hm_db s3) f2
      in s3\<lparr>hm_online := Some f3, hm_summary := Some (onf_total f3, length (onf_nodes f3)), hm_online_at := now\<rparr>)"

end
