(* ===== verification/HealthReport.thy ===== *)
theory HealthReport
  imports HealthOnline
begin

text \<open>
  The health monitor, fourth part: a report of an agent decides the state of its node, and the periodic
  patrols look for silent agents and for nodes without traffic.

  The report is the JSON object of the node agent: of \<open>cnReachable\<close> and \<open>ipv6Reachable\<close> only the values
  false and true (0 and 1) count, everything else is \<open>None\<close>.
\<close>

record agent_report =
  agr_xray :: bool
  agr_hysteria :: bool
  agr_cn :: "bool option"
  agr_ipv6 :: "bool option"
  agr_load :: "rat option"
  agr_mem :: "rat option"
  agr_disk :: "rat option"
  agr_records :: "traffic_record list"

section \<open>The state a report stands for\<close>

definition service_alive :: "node \<Rightarrow> agent_report \<Rightarrow> bool" where
  "service_alive n r = (if n_protocol n = ''hy2'' then agr_hysteria r else agr_xray r)"

definition service_name :: "node \<Rightarrow> string" where
  "service_name n = (if n_protocol n = ''hy2'' then ''Hysteria'' else ''Xray'')"

definition REMARK_BLOCKED :: string where "REMARK_BLOCKED = ''blocked? (Agent)''"
definition REMARK_ZERO :: string where "REMARK_ZERO = ''blocked? (zero traffic)''"
definition REMARK_LOST :: string where "REMARK_LOST = ''Agent lost''"
definition REMARK_IPV6 :: string where "REMARK_IPV6 = ''IPv6 down''"

definition says_blocked :: "string \<Rightarrow> bool" where "says_blocked remark \<longleftrightarrow> js_includes ''blocked?'' remark"
definition says_zero :: "string \<Rightarrow> bool" where "says_zero remark \<longleftrightarrow> js_includes ''zero traffic'' remark"

definition has_traffic :: "agent_report \<Rightarrow> bool" where
  "has_traffic r \<longleftrightarrow> (\<exists>x \<in> set (agr_records r). 0 < rcd_value x)"

definition report_status :: "node \<Rightarrow> agent_report \<Rightarrow> bool \<times> string" where
  "report_status n r =
     (if \<not> service_alive n r then (False, ''down: '' @ service_name n @ '' (Agent)'')
      else if agr_cn r = Some False then (False, REMARK_BLOCKED)
      else if says_zero (n_remark n) then (if has_traffic r then (True, []) else (False, n_remark n))
      else (True, []))"

text \<open>The IPv6 check, only on a node that is up: three failures in a row are reported, so is the recovery.\<close>

definition check_ipv6 :: "health_env \<Rightarrow> node \<Rightarrow> int \<Rightarrow> bool \<times> string \<Rightarrow> agent_report \<Rightarrow> int \<Rightarrow> monitor \<Rightarrow> string \<times> monitor" where
  "check_ipv6 e n nid st r now s =
     (let prev = (case js_get (hm_ipv6 s) nid of None \<Rightarrow> 0 | Some k \<Rightarrow> k)
      in if fst st \<and> agr_ipv6 r = Some False then
           (let s1 = s\<lparr>hm_ipv6 := js_set nid (Suc prev) (hm_ipv6 s)\<rparr>;
                remark = (if snd st = [] then REMARK_IPV6 else snd st @ '' | '' @ REMARK_IPV6)
            in (remark, if Suc prev = 3
                        then tell ''ops'' [''IPv6 down'', n_name n] (bufferSystemAuditLog e now ''node_ipv6_down'' [n_name n] s1)
                        else s1))
         else if agr_ipv6 r = Some True then
           (let s1 = (if 3 \<le> prev
                      then tell ''ops'' [''IPv6 up'', n_name n] (bufferSystemAuditLog e now ''node_ipv6_recovered'' [n_name n] s)
                      else s)
            in (snd st, s1\<lparr>hm_ipv6 := js_set nid 0 (hm_ipv6 s1)\<rparr>))
         else (snd st, s))"

section \<open>Failures in a row\<close>

definition FAIL_THRESHOLD :: nat where "FAIL_THRESHOLD = 3"

definition fail_count :: "monitor \<Rightarrow> int \<Rightarrow> nat" where
  "fail_count s nid = (case js_get (hm_fail s) nid of None \<Rightarrow> 0 | Some k \<Rightarrow> k)"

text \<open>The service is down for the third time: restart it, or report it when that was tried often enough.\<close>

definition try_restart :: "health_env \<Rightarrow> node \<Rightarrow> int \<Rightarrow> string \<Rightarrow> int \<Rightarrow> monitor \<Rightarrow> monitor" where
  "try_restart e n nid remark now s =
     (let (cfg, s1) = getAutoRestartSettings e now s;
          k = (case js_get (hm_restarts s1) nid of None \<Rightarrow> 0 | Some c \<Rightarrow> c) + 1;
          s2 = s1\<lparr>hm_restarts := js_set nid k (hm_restarts s1)\<rparr>;
          cmd = (if n_protocol n = ''hy2'' then ''restart_hysteria'' else ''restart_xray'')
      in if ars_enabled cfg \<and> k \<le> ars_max cfg \<and> he_online e nid then
           (let s3 = tell ''ops'' [''restart'', service_name n, n_name n, show_int k]
                       (bufferSystemAuditLog e now ''xray_auto_restart'' [service_name n, show_int k, show_int (ars_max cfg), n_name n]
                         (on_db (add_effect (AgentCommand nid cmd)) s2))
            in s3\<lparr>hm_fail := js_set nid 0 (hm_fail s3)\<rparr>)
         else tell ''nodeDown'' ([n_name n, remark] @ (if 1 < k then [show_int (k - 1)] else [])) s2)"

definition third_failure :: "health_env \<Rightarrow> node \<Rightarrow> int \<Rightarrow> agent_report \<Rightarrow> string \<Rightarrow> int \<Rightarrow> monitor \<Rightarrow> monitor" where
  "third_failure e n nid r remark now s =
     (let s1 = bufferSystemAuditLog e now (if says_blocked remark then ''node_blocked'' else ''node_xray_down'') [n_name n, remark] s
      in if says_blocked remark \<and> truthy (n_aws_instance n) then
           on_db (add_effect (SwapIp nid))
             (tell ''ops'' [''blocked, swapping the address'', n_name n]
               (bufferSystemAuditLog e now ''auto_swap_ip_start'' [n_name n]
                 (tell ''nodeBlocked'' [n_name n, ''swap''] s1)))
         else if says_blocked remark then tell ''nodeBlocked'' [n_name n, ''manual''] s1
         else if \<not> service_alive n r then try_restart e n nid remark now s1
         else tell ''nodeDown'' [n_name n, remark] s1)"

definition note_recovery :: "health_env \<Rightarrow> node \<Rightarrow> int \<Rightarrow> int \<Rightarrow> monitor \<Rightarrow> monitor" where
  "note_recovery e n nid now s =
     (let s1 = (if FAIL_THRESHOLD \<le> fail_count s nid \<or> \<not> n_is_active n then
                  (let (again, s') = shouldNotifyNodeRecovery e n now (bufferSystemAuditLog e now ''node_recovered'' [n_name n] s)
                   in if again then tell ''nodeUp'' [n_name n] s' else s')
                else s)
      in s1\<lparr>hm_fail := js_set nid 0 (hm_fail s1), hm_restarts := filter (\<lambda>x. fst x \<noteq> nid) (hm_restarts s1)\<rparr>)"

section \<open>A report\<close>

definition save_report :: "health_env \<Rightarrow> int \<Rightarrow> agent_report \<Rightarrow> node \<Rightarrow> node list \<Rightarrow> int \<Rightarrow> monitor \<Rightarrow> monitor" where
  "save_report e nid r n peers now s =
     (let s1 = (if agr_records r = [] then s else snd (saveTrafficRecords e nid (agr_records r) n peers now s))
      in checkTrafficExceed e now (updateOnlineCache e nid (agr_records r) n peers now s1))"

text \<open>A node entered by hand is removed after three failures in a row.\<close>

definition manual_fails :: "node \<Rightarrow> bool \<Rightarrow> int" where
  "manual_fails n status = (if status then 0 else n_fail_count n + 1)"

definition remove_manual :: "health_env \<Rightarrow> node \<Rightarrow> int \<Rightarrow> string \<Rightarrow> int \<Rightarrow> monitor \<Rightarrow> monitor" where
  "remove_manual e n nid remark now s =
     (let fails = show_int (manual_fails n False)
      in tell ''send'' [''manual node removed'', n_name n, n_host n, show_int (n_port n), fails, remark]
           (on_db (deleteNode nid)
             (bufferSystemAuditLog e now ''node_auto_remove_manual'' [n_name n, n_host n, show_int (n_port n), fails] s)))"

text \<open>The second half of a report that changes the node: its state, its partners, its traffic.\<close>

definition apply_report ::
  "health_env \<Rightarrow> int \<Rightarrow> agent_report \<Rightarrow> node \<Rightarrow> node list \<Rightarrow> bool \<Rightarrow> string \<Rightarrow> int \<Rightarrow> monitor \<Rightarrow> monitor" where
  "apply_report e nid r n peers status remark now s =
     (let s1 = on_db (update_node nid (set_state status remark now)) s;
          s2 = mirrorPeerState peers status remark now s1;
          s3 = on_db (update_node nid (set_report_time now)) s2;
          s4 = (if n_is_manual n then on_db (update_node nid (\<lambda>x. x\<lparr>n_fail_count := manual_fails n status\<rparr>)) s3 else s3)
      in if n_is_manual n \<and> \<not> status \<and> 3 \<le> manual_fails n status then remove_manual e n nid remark now s4
         else checkResourceThresholds e nid (n_name n) (agr_disk r) (agr_mem r) (agr_load r) now
                (save_report e nid r n peers now s4))"

definition decide_report ::
  "health_env \<Rightarrow> int \<Rightarrow> agent_report \<Rightarrow> node \<Rightarrow> node list \<Rightarrow> bool \<Rightarrow> string \<Rightarrow> int \<Rightarrow> monitor \<Rightarrow> monitor" where
  "decide_report e nid r n peers status remark now s =
     (if status then apply_report e nid r n peers status remark now (note_recovery e n nid now s)
      else let k = Suc (fail_count s nid);
               s1 = s\<lparr>hm_fail := js_set nid k (hm_fail s)\<rparr>
           in if k = FAIL_THRESHOLD then
                apply_report e nid r n peers status remark now (third_failure e n nid r remark now s1)
              else if k < FAIL_THRESHOLD then
                save_report e nid r n peers now (on_db (update_node nid (set_report_time now)) s1)
              else apply_report e nid r n peers status remark now s1)"

definition updateFromAgentReport :: "health_env \<Rightarrow> int \<Rightarrow> agent_report \<Rightarrow> int \<Rightarrow> monitor \<Rightarrow> monitor" where
  "updateFromAgentReport e nid r now s =
     (let s1 = getNodeSnapshot e now s
      in case node_of e nid s1 of
           None \<Rightarrow> s1
         | Some n \<Rightarrow>
             (let (peers, s2) = getPeerNodes e now n s1;
                  s3 = updatePeerLastReport peers now s2;
                  st = report_status n r;
                  (remark, s4) = check_ipv6 e n nid st r now s3
              in decide_report e nid r n peers (fst st) remark now s4))"

section \<open>The answer of the service that swaps addresses\<close>

datatype swap_answer = Swapped "string option" string | SwapRefused string | SwapThrown string

definition old_address :: "string \<Rightarrow> string option \<Rightarrow> string" where
  "old_address unknown x = or_else x unknown"

text \<open>After a report, after a day without traffic, and after a sudden silence.\<close>

definition report_swapped :: "health_env \<Rightarrow> node \<Rightarrow> swap_answer \<Rightarrow> int \<Rightarrow> monitor \<Rightarrow> monitor" where
  "report_swapped e n a now s =
     (case a of
        Swapped old new \<Rightarrow>
          tell ''ops'' [''swapped'', n_name n, old_address ''unknown'' old, new]
            (bufferSystemAuditLog e now ''auto_swap_ip_ok'' [n_name n, old_address ''?'' old, new] s)
      | SwapRefused err \<Rightarrow>
          tell ''ops'' [''swap failed'', n_name n, err] (bufferSystemAuditLog e now ''auto_swap_ip_fail'' [n_name n, err] s)
      | SwapThrown msg \<Rightarrow>
          tell ''ops'' [''swap error'', n_name n, msg] (bufferSystemAuditLog e now ''auto_swap_ip_fail'' [n_name n, msg] s))"

definition zero_swapped :: "health_env \<Rightarrow> node \<Rightarrow> swap_answer \<Rightarrow> int \<Rightarrow> monitor \<Rightarrow> monitor" where
  "zero_swapped e n a now s =
     (case a of
        Swapped old new \<Rightarrow>
          tell ''ops'' [''swapped'', n_name n, old_address ''?'' old, new]
            (bufferSystemAuditLog e now ''auto_swap_ip_ok'' [n_name n, old_address ''?'' old, new] s)
      | SwapRefused err \<Rightarrow> tell ''ops'' [''swap failed'', n_name n, err] s
      | SwapThrown msg \<Rightarrow> tell ''ops'' [''swap error'', n_name n, msg] s)"

definition sudden_swapped :: "health_env \<Rightarrow> node \<Rightarrow> string \<Rightarrow> swap_answer \<Rightarrow> int \<Rightarrow> monitor \<Rightarrow> monitor" where
  "sudden_swapped e n host a now s =
     (let s' = zero_swapped e n a now s
      in case a of Swapped old new \<Rightarrow> s'\<lparr>hm_sudden := filter (\<lambda>h. h \<noteq> host) (hm_sudden s')\<rparr> | _ \<Rightarrow> s')"

section \<open>Nodes without traffic for a day\<close>

definition node_bytes_on :: "int \<Rightarrow> string list \<Rightarrow> db \<Rightarrow> int" where
  "node_bytes_on nid days d =
     (let (up, down) = sum_daily (filter (\<lambda>r. da_node r = nid \<and> da_date r \<in> set days) (d_daily d)) in up + down)"

definition check_zero_node :: "health_env \<Rightarrow> int \<Rightarrow> node \<Rightarrow> monitor \<Rightarrow> monitor" where
  "check_zero_node e now n s =
     (let days = [iso_day (now div ms_per_day), iso_day ((now - 86400000) div ms_per_day)]
      in if 0 < node_bytes_on (n_id n) days (hm_db s) then s\<lparr>hm_zero := filter (\<lambda>i. i \<noteq> n_id n) (hm_zero s)\<rparr>
         else if n_id n \<in> set (hm_zero s) then s
         else let s1 = bufferSystemAuditLog e now ''node_zero_traffic'' [n_name n] (s\<lparr>hm_zero := hm_zero s @ [n_id n]\<rparr>)
              in if truthy (n_aws_instance n)
                 then on_db (add_effect (SwapIp (n_id n))) (tell ''ops'' [''zero traffic'', n_name n, ''swap''] s1)
                 else tell ''ops'' [''zero traffic'', n_name n, ''manual''] s1)"

definition active_nodes :: "health_env \<Rightarrow> monitor \<Rightarrow> node list" where
  "active_nodes e s = filter n_is_active (getAllNodes (he_dec e) False (hm_db s))"

definition checkZeroTrafficNodes :: "health_env \<Rightarrow> int \<Rightarrow> monitor \<Rightarrow> monitor" where
  "checkZeroTrafficNodes e now s = fold (check_zero_node e now) (active_nodes e s) s"

section \<open>Silent agents\<close>

definition check_stale_node :: "health_env \<Rightarrow> int \<Rightarrow> node \<Rightarrow> monitor \<Rightarrow> monitor" where
  "check_stale_node e now n s =
     (if he_online e (n_id n) then s
      else let (peers, s1) = getPeerNodes e now n s
           in if list_ex (\<lambda>p. he_online e (n_id p)) peers then s1
              else let lastAt = (case n_agent_last_report n of
                                   None \<Rightarrow> None | Some t \<Rightarrow> if t = [] then None else js_date_ms (he_engine e) t)
                   in (case lastAt of
                         None \<Rightarrow> s1
                       | Some t \<Rightarrow>
                           if t = 0 \<or> now - t < he_stale e then s1
                           else let ago = show_int (js_round (of_int (now - t) / 60000));
                                    s2 = on_db (update_node (n_id n) (set_state False REMARK_LOST now)) s1;
                                    s3 = mirrorPeerState peers False REMARK_LOST now s2
                                in tell ''nodeDown'' [n_name n, ''Agent lost'', ago]
                                     (bufferSystemAuditLog e now ''agent_stale'' [n_name n, ago] s3)))"

definition checkStaleAgents :: "health_env \<Rightarrow> int \<Rightarrow> monitor \<Rightarrow> monitor" where
  "checkStaleAgents e now s = fold (check_stale_node e now) (active_nodes e s) s"

section \<open>Machines that fall silent\<close>

definition hours_ago :: "rat \<Rightarrow> int \<Rightarrow> string" where
  "hours_ago hours now = iso_sql_of_ms (floor (of_int now - hours * 3600000))"

definition raw_bytes :: "int \<Rightarrow> (string \<Rightarrow> bool) \<Rightarrow> db \<Rightarrow> int" where
  "raw_bytes nid P d = sum_list (map (\<lambda>r. tr_up r + tr_down r) (filter (\<lambda>r. tr_node r = nid \<and> P (tr_at r)) (d_traffic d)))"

definition host_groups_of :: "node list \<Rightarrow> (string \<times> node list) list" where
  "host_groups_of ns =
     map (\<lambda>h. (h, filter (\<lambda>n. getNodeHost n = h) ns)) (js_unique (filter (\<lambda>h. h \<noteq> []) (map getNodeHost ns)))"

definition recent_bytes :: "health_env \<Rightarrow> int \<Rightarrow> node list \<Rightarrow> db \<Rightarrow> int" where
  "recent_bytes e now ns d = sum_list (map (\<lambda>n. raw_bytes (n_id n) (\<lambda>t. hours_ago (he_silence_hours e) now < t) d) ns)"

definition earlier_bytes :: "health_env \<Rightarrow> int \<Rightarrow> node list \<Rightarrow> db \<Rightarrow> int" where
  "earlier_bytes e now ns d =
     sum_list (map (\<lambda>n. raw_bytes (n_id n)
       (\<lambda>t. hours_ago (he_active_hours e) now < t \<and> t \<le> hours_ago (he_silence_hours e) now) d) ns)"

definition check_silent_host :: "health_env \<Rightarrow> int \<Rightarrow> string \<times> node list \<Rightarrow> monitor \<Rightarrow> monitor" where
  "check_silent_host e now g s =
     (case g of (host, ns) \<Rightarrow>
        if host \<in> set (hm_sudden s) \<or> recent_bytes e now ns (hm_db s) \<noteq> 0 \<or> earlier_bytes e now ns (hm_db s) \<le> 1048576 then s
        else let names = js_join '', '' (map n_name ns);
                 prevMb = to_fixed_text 1 (of_int (earlier_bytes e now ns (hm_db s)) / 1048576);
                 s1 = fold (\<lambda>n. on_db (update_node (n_id n) (set_state False REMARK_ZERO now))) ns
                        (s\<lparr>hm_sudden := hm_sudden s @ [host]\<rparr>);
                 s2 = tell ''ops'' [''sudden silence'', names, host, js_num_text (he_silence_hours e), prevMb]
                        (bufferSystemAuditLog e now ''node_sudden_zero'' [names, js_num_text (he_silence_hours e), prevMb] s1)
             in case find (\<lambda>n. truthy (n_aws_instance n)) ns of
                  None \<Rightarrow> s2
                | Some n \<Rightarrow> on_db (add_effect (SwapIp (n_id n))) s2)"

definition checkSuddenZeroTraffic :: "health_env \<Rightarrow> int \<Rightarrow> monitor \<Rightarrow> monitor" where
  "checkSuddenZeroTraffic e now s =
     (let groups = host_groups_of (active_nodes e s);
          s1 = fold (check_silent_host e now) groups s
      in s1\<lparr>hm_sudden := filter (\<lambda>h. case map_of groups h of
             None \<Rightarrow> False | Some ns \<Rightarrow> recent_bytes e now ns (hm_db s1) \<le> 0) (hm_sudden s1)\<rparr>)"

section \<open>Deleting a node\<close>

definition cleanupNodeState :: "int \<Rightarrow> monitor \<Rightarrow> monitor" where
  "cleanupNodeState nid s =
     (if nid = 0 then s
      else s\<lparr>hm_fail := filter (\<lambda>x. fst x \<noteq> nid) (hm_fail s), hm_ipv6 := filter (\<lambda>x. fst x \<noteq> nid) (hm_ipv6 s),
             hm_last_seen := filter (\<lambda>x. fst x \<noteq> nid) (hm_last_seen s),
             hm_resource := filter (\<lambda>x. fst (fst x) \<noteq> nid) (hm_resource s),
             hm_online := map_option (\<lambda>f. f\<lparr>onf_nodes := filter (\<lambda>r. onr_node r \<noteq> nid) (onf_nodes f),
               onf_node_users := filter (\<lambda>x. fst x \<noteq> nid) (onf_node_users f),
               onf_updated := filter (\<lambda>x. fst x \<noteq> nid) (onf_updated f)\<rparr>) (hm_online s)\<rparr>)"

end
