(* ===== verification/OpsRepo.thy ===== *)
theory OpsRepo
  imports TrafficRepo SubAccess
begin

text \<open>
  Measurements of the nodes (\<open>src/services/repos/metricsRepo.js\<close>), diagnoses, the diary and the
  observed use of several machines (\<open>src/services/repos/opsRepo.js\<close>), and the table of recent requests
  of \<open>src/services/requestMetrics.js\<close>. Rows that an \<open>ORDER BY\<close> leaves tied come in the order of the
  table.
\<close>

section \<open>Measurements\<close>

record metric_input =
  mi_cpu :: "rat option"
  mi_mem :: "rat option"
  mi_disk :: "rat option"
  mi_load :: "rat list"
  mi_rx :: "rat option"
  mi_tx :: "rat option"
  mi_uptime :: "rat option"

definition nth_opt :: "'a list \<Rightarrow> nat \<Rightarrow> 'a option" where
  "nth_opt xs k = (if k < length xs then Some (xs ! k) else None)"

text \<open>A node that does not exist makes the foreign key throw.\<close>

definition recordMetrics :: "int \<Rightarrow> metric_input \<Rightarrow> int \<Rightarrow> db \<Rightarrow> db option" where
  "recordMetrics nid x now d =
     (if \<not> node_exists nid d then None
      else Some (d\<lparr>d_metrics := d_metrics d @
        [\<lparr>me_id = fresh_id me_id (d_metrics d), me_node = nid, me_cpu = mi_cpu x, me_mem = mi_mem x, me_disk = mi_disk x,
          me_load = map (nth_opt (mi_load x)) [0, 1, 2], me_rx = mi_rx x, me_tx = mi_tx x, me_uptime = mi_uptime x,
          me_at = toSqlUtc now\<rparr>]\<rparr>))"

definition getNodeMetrics :: "int \<Rightarrow> string option \<Rightarrow> string option \<Rightarrow> nat \<Rightarrow> db \<Rightarrow> metric_row list" where
  "getNodeMetrics nid since until limit d =
     (let rows = sort_key me_at (filter (\<lambda>r. me_node r = nid
                   \<and> (truthy since \<longrightarrow> the since \<le> me_at r) \<and> (truthy until \<longrightarrow> me_at r \<le> the until)) (d_metrics d))
      in if limit = 0 then rows else take limit rows)"

definition getLatestMetricsAllNodes :: "db \<Rightarrow> metric_row list" where
  "getLatestMetricsAllNodes d =
     filter (\<lambda>r. me_at r = max_text me_at (filter (\<lambda>x. me_node x = me_node r) (d_metrics d))) (d_metrics d)"

definition cleanupMetrics :: "int \<Rightarrow> int \<Rightarrow> db \<Rightarrow> nat \<times> db" where
  "cleanupMetrics retentionDays now d =
     (let old = (\<lambda>r. me_at r < toSqlUtc (now - retentionDays * 86400000))
      in (count_where old (d_metrics d), d\<lparr>d_metrics := delete_where old (d_metrics d)\<rparr>))"

section \<open>Diagnoses\<close>

definition addDiagnosis :: "int \<Rightarrow> string \<Rightarrow> int \<Rightarrow> db \<Rightarrow> (int \<times> db) option" where
  "addDiagnosis nid info now d =
     (if \<not> node_exists nid d then None
      else let i = fresh_id dg_id (d_diagnoses d)
           in Some (i, d\<lparr>d_diagnoses := d_diagnoses d @
                [\<lparr>dg_id = i, dg_node = nid, dg_status = ''pending'', dg_info = info, dg_ai_analysis = None, dg_fix_commands = None,
                  dg_fix_result = None, dg_created_at = toSqlUtc now, dg_resolved_at = None\<rparr>]\<rparr>))"

text \<open>The fields that may be changed; other names in the request are dropped.\<close>

datatype diagnosis_field = DgStatus string | DgAnalysis string | DgCommands string | DgResult string | DgResolved string

fun set_diagnosis_field :: "diagnosis_field \<Rightarrow> diagnosis_row \<Rightarrow> diagnosis_row" where
  "set_diagnosis_field (DgStatus v) r = r\<lparr>dg_status := v\<rparr>"
| "set_diagnosis_field (DgAnalysis v) r = r\<lparr>dg_ai_analysis := Some v\<rparr>"
| "set_diagnosis_field (DgCommands v) r = r\<lparr>dg_fix_commands := Some v\<rparr>"
| "set_diagnosis_field (DgResult v) r = r\<lparr>dg_fix_result := Some v\<rparr>"
| "set_diagnosis_field (DgResolved v) r = r\<lparr>dg_resolved_at := Some v\<rparr>"

definition diagnosis_field_of :: "string \<times> string \<Rightarrow> diagnosis_field option" where
  "diagnosis_field_of kv =
     (case kv of (k, v) \<Rightarrow>
        if k = ''status'' then Some (DgStatus v) else if k = ''ai_analysis'' then Some (DgAnalysis v)
        else if k = ''fix_commands'' then Some (DgCommands v) else if k = ''fix_result'' then Some (DgResult v)
        else if k = ''resolved_at'' then Some (DgResolved v) else None)"

definition updateDiagnosis :: "int \<Rightarrow> (string \<times> string) list \<Rightarrow> db \<Rightarrow> db" where
  "updateDiagnosis i changes d =
     d\<lparr>d_diagnoses := update_where (\<lambda>r. dg_id r = i)
         (\<lambda>r. fold (\<lambda>kv r. case diagnosis_field_of kv of None \<Rightarrow> r | Some f \<Rightarrow> set_diagnosis_field f r) changes r) (d_diagnoses d)\<rparr>"

text \<open>The join with the nodes: a diagnosis with the name and the host of its node.\<close>

definition with_node :: "db \<Rightarrow> diagnosis_row \<Rightarrow> (diagnosis_row \<times> string \<times> string) list" where
  "with_node d r = (case find (\<lambda>n. n_id n = dg_node r) (d_nodes d) of None \<Rightarrow> [] | Some n \<Rightarrow> [(r, n_name n, n_host n)])"

definition getDiagnosis :: "int \<Rightarrow> db \<Rightarrow> (diagnosis_row \<times> string \<times> string) option" where
  "getDiagnosis i d = (case concat (map (with_node d) (filter (\<lambda>r. dg_id r = i) (d_diagnoses d))) of [] \<Rightarrow> None | x # _ \<Rightarrow> Some x)"

definition getAllDiagnoses :: "nat \<Rightarrow> db \<Rightarrow> (diagnosis_row \<times> string \<times> string) list" where
  "getAllDiagnoses limit d = take limit (order_desc (\<lambda>x. dg_created_at (fst x)) (concat (map (with_node d) (d_diagnoses d))))"

section \<open>The diary\<close>

definition addDiaryEntry :: "string \<Rightarrow> string \<Rightarrow> string \<Rightarrow> int \<Rightarrow> db \<Rightarrow> int \<times> db" where
  "addDiaryEntry content mood category now d =
     (let i = fresh_id di_id (d_diary d)
      in (i, d\<lparr>d_diary := d_diary d @
           [\<lparr>di_id = i, di_content = content, di_mood = mood, di_category = category, di_at = toSqlUtc now\<rparr>]\<rparr>))"

definition page_count :: "nat \<Rightarrow> nat \<Rightarrow> nat" where
  "page_count n limit = (n + limit - 1) div limit"

definition getDiaryEntries :: "nat \<Rightarrow> nat \<Rightarrow> db \<Rightarrow> diary_row list \<times> nat \<times> nat" where
  "getDiaryEntries limit offset d =
     (let n = length (d_diary d) in (page limit offset (order_desc di_at (d_diary d)), n, page_count n limit))"

text \<open>The local date of a SQL time stamp.\<close>

definition sql_local_day :: "string \<Rightarrow> string option" where
  "sql_local_day s = map_option dateKeyInTimeZone (parseDateInput (\<lambda>_. None) (DateText s))"

definition getDiaryStats :: "int \<Rightarrow> db \<Rightarrow> nat \<times> nat \<times> string option" where
  "getDiaryStats now d =
     (length (d_diary d), count_where (\<lambda>r. sql_local_day (di_at r) = Some (dateKeyInTimeZone now)) (d_diary d),
      (case sort_key di_at (d_diary d) of [] \<Rightarrow> None | r # _ \<Rightarrow> if di_at r = [] then None else Some (di_at r)))"

section \<open>Accounts on several machines\<close>

text \<open>\<open>Number(x || 0)\<close> of the fields is done by the caller; an absent account throws.\<close>

definition addUserMultiNodeObserveEvent :: "observe_row \<Rightarrow> int \<Rightarrow> db \<Rightarrow> db option" where
  "addUserMultiNodeObserveEvent r now d =
     (if ob_user r = 0 \<or> ob_node_count r \<le> 0 then Some d
      else if user_by_id d (ob_user r) = None then None
      else Some (d\<lparr>d_observe := d_observe d @
        [r\<lparr>ob_username := take 120 (ob_username r), ob_nodes := take 300 (ob_nodes r), ob_at := toSqlUtc now\<rparr>]\<rparr>))"

record observe_overview =
  oo_events :: nat
  oo_users :: nat
  oo_avg_nodes :: rat
  oo_high :: nat
  oo_mid :: nat
  oo_avg_bytes :: int
  oo_max_bytes :: int

definition recent_observe :: "int \<Rightarrow> int \<Rightarrow> db \<Rightarrow> observe_row list" where
  "recent_observe h now d = filter (\<lambda>r. toSqlUtc (now - h * 3600000) \<le> ob_at r) (d_observe d)"

text \<open>\<open>Math.max(least, parseInt(text, 10) || dflt)\<close>.\<close>

definition bounded_int :: "string \<Rightarrow> int \<Rightarrow> int \<Rightarrow> int" where
  "bounded_int s dflt least = max least (case js_parse_int s of None \<Rightarrow> dflt | Some v \<Rightarrow> if v = 0 then dflt else v)"

definition mean :: "int list \<Rightarrow> rat" where
  "mean xs = (if xs = [] then 0 else of_int (sum_list xs) / of_nat (length xs))"

definition getUserMultiNodeObserveOverview :: "string \<Rightarrow> int \<Rightarrow> db \<Rightarrow> observe_overview" where
  "getUserMultiNodeObserveOverview hours now d =
     (let rs = recent_observe (bounded_int hours 24 1) now d
      in \<lparr>oo_events = length rs, oo_users = count_distinct ob_user rs, oo_avg_nodes = round_hundredth (mean (map ob_node_count rs)),
          oo_high = count_where (\<lambda>r. 4 \<le> ob_node_count r) rs, oo_mid = count_where (\<lambda>r. 2 \<le> ob_node_count r \<and> ob_node_count r \<le> 3) rs,
          oo_avg_bytes = floor (mean (map ob_traffic rs) + 1 / 2), oo_max_bytes = fold (\<lambda>r m. max (ob_traffic r) m) rs 0\<rparr>)"

definition getUserMultiNodeObserveEvents :: "string \<Rightarrow> string \<Rightarrow> string \<Rightarrow> int \<Rightarrow> db \<Rightarrow> nat \<times> observe_row list" where
  "getUserMultiNodeObserveEvents hours limit offset now d =
     (let rs = recent_observe (bounded_int hours 24 1) now d
      in (length rs, page (nat (bounded_int limit 20 1)) (nat (bounded_int offset 0 0)) (rev (sort_key ob_at rs))))"

section \<open>Recent requests\<close>

record request_row =
  rqm_ts :: int
  rqm_method :: string
  rqm_path :: string
  rqm_status :: int
  rqm_ms :: int

definition request_config :: "(string \<Rightarrow> string option) \<Rightarrow> int \<times> int \<times> int" where
  "request_config getenv =
     (let env = (\<lambda>name dflt least. max least (case js_parse_int (or_else (getenv name) (show_int dflt)) of
                   None \<Rightarrow> dflt | Some v \<Rightarrow> if v = 0 then dflt else v));
          window = env ''REQUEST_METRICS_WINDOW_MS'' 60000 60000
      in (window, env ''REQUEST_METRICS_RETENTION_MS'' 300000 window, env ''REQUEST_METRICS_TOP_N'' 8 1))"

text \<open>The route as it was declared, else the path, else the address before the question mark.\<close>

definition normalizePath :: "string \<Rightarrow> string \<Rightarrow> string \<Rightarrow> string \<Rightarrow> string" where
  "normalizePath baseUrl routePath path originalUrl =
     (if baseUrl \<noteq> [] \<and> routePath \<noteq> [] then baseUrl @ routePath
      else if routePath \<noteq> [] then routePath
      else if path \<noteq> [] then path
      else let p = hd (js_split CHR ''?'' originalUrl) in if p = [] then ''unknown'' else p)"

definition pruneRequests :: "int \<Rightarrow> int \<Rightarrow> request_row list \<Rightarrow> request_row list" where
  "pruneRequests keep now rs = dropWhile (\<lambda>r. keep < now - rqm_ts r) rs"

definition recordRequest :: "int \<Rightarrow> request_row \<Rightarrow> request_row list \<Rightarrow> request_row list" where
  "recordRequest keep r rs =
     pruneRequests keep (rqm_ts r)
       (rs @ [r\<lparr>rqm_method := js_upper (if rqm_method r = [] then ''GET'' else rqm_method r),
                rqm_path := (if rqm_path r = [] then ''unknown'' else rqm_path r)\<rparr>])"

record route_stat =
  ro_method :: string
  ro_path :: string
  ro_count :: nat
  ro_total :: int
  ro_max :: int
  ro_errors :: nat
  ro_avg :: rat

definition route_stat_of :: "request_row list \<Rightarrow> string \<times> string \<Rightarrow> route_stat" where
  "route_stat_of rs k =
     (let mine = filter (\<lambda>r. (rqm_method r, rqm_path r) = k) rs; tot = sum_list (map rqm_ms mine)
      in \<lparr>ro_method = fst k, ro_path = snd k, ro_count = length mine, ro_total = tot,
          ro_max = fold (\<lambda>r m. max (rqm_ms r) m) mine 0, ro_errors = count_where (\<lambda>r. 400 \<le> rqm_status r) mine,
          ro_avg = (if mine = [] then 0 else round_hundredth (of_int tot / of_nat (length mine)))\<rparr>)"

text \<open>The routes by total time, then number, then longest request, the largest first (a stable sort).\<close>

definition desc_route :: "route_stat list \<Rightarrow> route_stat list" where
  "desc_route = sort_key (\<lambda>r. - ro_total r) \<circ> sort_key (\<lambda>r. - int (ro_count r)) \<circ> sort_key (\<lambda>r. - ro_max r)"

definition getTopRoutes :: "int \<Rightarrow> int \<Rightarrow> nat \<Rightarrow> int \<Rightarrow> request_row list \<Rightarrow> route_stat list \<times> request_row list" where
  "getTopRoutes keep windowMs topN now rs =
     (let kept = pruneRequests keep now rs;
          recent = filter (\<lambda>r. now - rqm_ts r \<le> windowMs) kept;
          keys = rev (remdups (rev (map (\<lambda>r. (rqm_method r, rqm_path r)) recent)))
      in (take topN (desc_route (map (route_stat_of recent) keys)), kept))"

end
