(* ===== verification/AgentHub.thy ===== *)
theory AgentHub
  imports HealthReport OpsRepo NetUtils
begin

text \<open>
  The agent hub (\<open>src/services/agent-ws.js\<close>): the WebSocket connections of the node agents, their
  authentication, reports, commands with their answers, and the timers.

  A connection is a number. The socket library is outside: what it does are the events of the next
  theory. Closing a connection sends the close code; the connection stays known, and may deliver
  messages, until the library reports it closed. A promise of a command is an entry of
  \<open>hb_pending\<close>, its resolution an entry of \<open>hb_answers\<close>. Commands are texts; a node id in a message
  is an integer, or a value that the database driver refuses to bind (an object, a list, a truth
  value); an id sent as a text, or as a list of one element, which the driver binds like its element, is
  left out. An exception that nothing catches, or a signal, ends the process (\<open>gracefulShutdown\<close> in
  \<open>src/app.js\<close>): \<open>hb_exit\<close> is the time at which it exits at the latest, \<open>hb_down\<close> says that it has
  ended.
\<close>

section \<open>State\<close>

record metrics =
  mt_disconnects :: int
  mt_last_disconnect :: "string option"
  mt_last_reconnect :: "string option"
  mt_consecutive :: int

record bandwidth =
  bw_rx_rate :: "rat option"
  bw_tx_rate :: "rat option"
  bw_rx_bytes :: "rat option"
  bw_tx_bytes :: "rat option"

record alert =
  alr_type :: string
  alr_user :: int
  alr_json :: string

record report_msg =
  rm_xray :: "bool option"
  rm_service :: bool
  rm_hysteria :: bool
  rm_cn :: "bool option"
  rm_ipv6 :: "bool option"
  rm_load :: "rat list"
  rm_mem :: "rat option"
  rm_disk :: "rat option"
  rm_records :: "traffic_record list"
  rm_version :: "string option"
  rm_capabilities :: "string option"
  rm_metrics :: "metrics option"
  rm_cpu :: "rat option"
  rm_bandwidth :: "bandwidth option"
  rm_uptime :: "rat option"
  rm_public_ip :: "string option"
  rm_alerts :: "alert list"

record report_data =
  rpd_xray :: bool
  rpd_hysteria :: bool
  rpd_cn :: "bool option"
  rpd_load :: "rat list"
  rpd_mem :: "rat option"
  rpd_disk :: "rat option"
  rpd_cpu :: "rat option"
  rpd_bandwidth :: "bandwidth option"
  rpd_uptime :: "rat option"
  rpd_public_ip :: "string option"
  rpd_at :: string

record agent_entry =
  ae_conn :: nat
  ae_name :: string
  ae_ip :: string
  ae_since :: string
  ae_last_report :: "string option"
  ae_report :: "report_data option"
  ae_version :: "string option"
  ae_capabilities :: "string option"
  ae_metrics :: metrics
  ae_pong :: bool
  ae_metrics_at :: int

record conn =
  co_ip :: string
  co_auth :: bool
  co_node :: int
  co_count :: nat
  co_window :: int
  co_open :: bool

datatype timer = AuthTimer nat | PongTimer int nat | OfflineTimer int | CommandTimer string

datatype answer = Answered bool string | CommandTimeout | AgentGone | HubDown | SendFailed | AgentOffline

datatype frame = AuthOk | PingFrame | CommandFrame string string | CloseFrame int

record hub =
  hb_conns :: "(nat, conn) js_map"
  hb_next :: nat
  hb_agents :: "(int, agent_entry) js_map"
  hb_metrics :: "(int, metrics) js_map"
  hb_pending :: "(string, int) js_map"
  hb_timers :: "(int \<times> timer) list"
  hb_answers :: "(string \<times> answer) list"
  hb_sent :: "(nat \<times> frame) list"
  hb_throttle :: "(int \<times> string \<times> int, int) js_map"
  hb_monitor :: monitor
  hb_down :: bool
  hb_exit :: "int option"

definition start_hub :: "db \<Rightarrow> hub" where
  "start_hub d =
     \<lparr>hb_conns = [], hb_next = 0, hb_agents = [], hb_metrics = [], hb_pending = [], hb_timers = [], hb_answers = [],
      hb_sent = [], hb_throttle = [], hb_monitor = start_monitor d, hb_down = False, hb_exit = None\<rparr>"

definition AUTH_TIMEOUT :: int where "AUTH_TIMEOUT = 10000"
definition PONG_TIMEOUT :: int where "PONG_TIMEOUT = 10000"
definition CMD_TIMEOUT :: int where "CMD_TIMEOUT = 30000"
definition METRICS_STALE_THRESHOLD :: int where "METRICS_STALE_THRESHOLD = 86400000"

abbreviation hub_db :: "hub \<Rightarrow> db" where
  "hub_db h \<equiv> hm_db (hb_monitor h)"

definition on_monitor :: "(monitor \<Rightarrow> monitor) \<Rightarrow> hub \<Rightarrow> hub" where
  "on_monitor f h = h\<lparr>hb_monitor := f (hb_monitor h)\<rparr>"

definition send_frame :: "nat \<Rightarrow> frame \<Rightarrow> hub \<Rightarrow> hub" where
  "send_frame c f h = h\<lparr>hb_sent := hb_sent h @ [(c, f)]\<rparr>"

definition update_conn :: "nat \<Rightarrow> (conn \<Rightarrow> conn) \<Rightarrow> hub \<Rightarrow> hub" where
  "update_conn c f h =
     (case js_get (hb_conns h) c of None \<Rightarrow> h | Some x \<Rightarrow> h\<lparr>hb_conns := js_set c (f x) (hb_conns h)\<rparr>)"

definition close_conn :: "nat \<Rightarrow> int \<Rightarrow> hub \<Rightarrow> hub" where
  "close_conn c code h = send_frame c (CloseFrame code) (update_conn c (\<lambda>x. x\<lparr>co_open := False\<rparr>) h)"

definition clear_timer :: "timer \<Rightarrow> hub \<Rightarrow> hub" where
  "clear_timer t h = h\<lparr>hb_timers := filter (\<lambda>x. snd x \<noteq> t) (hb_timers h)\<rparr>"

definition set_timer :: "int \<Rightarrow> timer \<Rightarrow> hub \<Rightarrow> hub" where
  "set_timer due t h = h\<lparr>hb_timers := hb_timers h @ [(due, t)]\<rparr>"

definition is_open :: "nat \<Rightarrow> hub \<Rightarrow> bool" where
  "is_open c h \<longleftrightarrow> (case js_get (hb_conns h) c of None \<Rightarrow> False | Some x \<Rightarrow> co_open x)"

section \<open>The end of the process\<close>

text \<open>The server stops accepting connections and the process exits when the last one is closed, at the
  latest after five seconds; an uncaught exception waits for the log first. The first call counts.\<close>

definition LOG_DELAY :: int where "LOG_DELAY = 200"
definition EXIT_DELAY :: int where "EXIT_DELAY = 5000"

definition gracefulShutdown :: "int \<Rightarrow> hub \<Rightarrow> hub" where
  "gracefulShutdown now h =
     h\<lparr>hb_exit := Some (case hb_exit h of None \<Rightarrow> now + EXIT_DELAY | Some x \<Rightarrow> min x (now + EXIT_DELAY))\<rparr>"

definition uncaught :: "int \<Rightarrow> hub \<Rightarrow> hub" where
  "uncaught now h = gracefulShutdown (now + LOG_DELAY) h"

definition server_closing :: "int \<Rightarrow> hub \<Rightarrow> bool" where
  "server_closing now h \<longleftrightarrow> (case hb_exit h of None \<Rightarrow> False | Some x \<Rightarrow> x - EXIT_DELAY \<le> now)"

section \<open>Metrics of the connections\<close>

definition new_metrics :: metrics where
  "new_metrics = \<lparr>mt_disconnects = 0, mt_last_disconnect = None, mt_last_reconnect = None, mt_consecutive = 0\<rparr>"

definition getOrCreateMetrics :: "int \<Rightarrow> hub \<Rightarrow> metrics \<times> hub" where
  "getOrCreateMetrics n h =
     (case js_get (hb_metrics h) n of
        Some m \<Rightarrow> (m, h)
      | None \<Rightarrow> (new_metrics, h\<lparr>hb_metrics := js_set n new_metrics (hb_metrics h)\<rparr>))"

definition markDisconnected :: "int \<Rightarrow> int \<Rightarrow> hub \<Rightarrow> hub" where
  "markDisconnected n now h =
     (let (m, h1) = getOrCreateMetrics n h
      in h1\<lparr>hb_metrics := js_set n (m\<lparr>mt_disconnects := mt_disconnects m + 1, mt_consecutive := mt_consecutive m + 1,
              mt_last_disconnect := Some (nowUtcIso now)\<rparr>) (hb_metrics h1)\<rparr>)"

definition stale_metrics :: "health_env \<Rightarrow> int \<Rightarrow> metrics \<Rightarrow> bool" where
  "stale_metrics e now m =
     (let seen = (if truthy (mt_last_disconnect m) then mt_last_disconnect m else mt_last_reconnect m)
      in \<not> truthy seen \<or> (case js_date_ms (he_engine e) (the seen) of None \<Rightarrow> False | Some t \<Rightarrow> METRICS_STALE_THRESHOLD < now - t))"

definition cleanup_metrics :: "health_env \<Rightarrow> int \<Rightarrow> hub \<Rightarrow> hub" where
  "cleanup_metrics e now h =
     h\<lparr>hb_metrics := filter (\<lambda>(n, m). js_get (hb_agents h) n \<noteq> None \<or> \<not> stale_metrics e now m) (hb_metrics h)\<rparr>"

section \<open>Commands\<close>

definition answer_command :: "string \<Rightarrow> answer \<Rightarrow> hub \<Rightarrow> hub" where
  "answer_command i a h =
     (clear_timer (CommandTimer i) h)\<lparr>hb_pending := filter (\<lambda>x. fst x \<noteq> i) (hb_pending h), hb_answers := hb_answers h @ [(i, a)]\<rparr>"

definition cleanupPendingCommands :: "int \<Rightarrow> hub \<Rightarrow> hub" where
  "cleanupPendingCommands n h = fold (\<lambda>i. answer_command i AgentGone) (map fst (filter (\<lambda>x. snd x = n) (hb_pending h))) h"

text \<open>The agent that serves a node: its own, else that of another node of the same machine.\<close>

definition own_agent :: "int \<Rightarrow> hub \<Rightarrow> agent_entry option" where
  "own_agent n h = (case js_get (hb_agents h) n of None \<Rightarrow> None | Some a \<Rightarrow> if is_open (ae_conn a) h then Some a else None)"

definition resolveAgentForNode :: "health_env \<Rightarrow> int \<Rightarrow> hub \<Rightarrow> (agent_entry \<times> int) option" where
  "resolveAgentForNode e n h =
     (case own_agent n h of
        Some a \<Rightarrow> Some (a, n)
      | None \<Rightarrow>
          (case getNodeById (he_dec e) n (hub_db h) of
             None \<Rightarrow> None
           | Some nd \<Rightarrow>
               if ssh_host_of nd = [] then None
               else (case find (\<lambda>p. n_id p \<noteq> n \<and> ssh_host_of p = ssh_host_of nd \<and> own_agent (n_id p) h \<noteq> None)
                            (getAllNodes (he_dec e) False (hub_db h)) of
                       None \<Rightarrow> None
                     | Some p \<Rightarrow> map_option (\<lambda>a. (a, n_id p)) (own_agent (n_id p) h))))"

definition isAgentOnline :: "health_env \<Rightarrow> int \<Rightarrow> hub \<Rightarrow> bool" where
  "isAgentOnline e n h \<longleftrightarrow> resolveAgentForNode e n h \<noteq> None"

definition getAgentReport :: "health_env \<Rightarrow> int \<Rightarrow> hub \<Rightarrow> report_data option" where
  "getAgentReport e n h = (case resolveAgentForNode e n h of None \<Rightarrow> None | Some (a, _) \<Rightarrow> ae_report a)"

text \<open>\<open>i\<close> is the identifier drawn for the command; \<open>fails\<close> says that the socket throws.\<close>

definition sendCommand :: "health_env \<Rightarrow> string \<Rightarrow> bool \<Rightarrow> int \<Rightarrow> string \<Rightarrow> int \<Rightarrow> hub \<Rightarrow> answer option \<times> hub" where
  "sendCommand e i fails n command now h =
     (case resolveAgentForNode e n h of
        None \<Rightarrow> (Some AgentOffline, h)
      | Some (a, _) \<Rightarrow>
          (let h1 = (set_timer (now + CMD_TIMEOUT) (CommandTimer i) h)\<lparr>hb_pending := js_set i n (hb_pending h)\<rparr>
           in if fails then (None, answer_command i SendFailed h1)
              else (None, send_frame (ae_conn a) (CommandFrame i command) h1)))"

section \<open>Authentication\<close>

datatype js_id = IdInt int | IdOther

definition register_agent :: "nat \<Rightarrow> int \<Rightarrow> node \<Rightarrow> string option \<Rightarrow> string option \<Rightarrow> int \<Rightarrow> hub \<Rightarrow> hub" where
  "register_agent c n nd version caps now h =
     (let h1 = (case js_get (hb_agents h) n of
                  None \<Rightarrow> h | Some old \<Rightarrow> if ae_conn old = c then h else close_conn (ae_conn old) 4007 h);
          h2 = update_conn c (\<lambda>x. x\<lparr>co_auth := True, co_node := n\<rparr>) (clear_timer (AuthTimer c) h1);
          (m, h3) = getOrCreateMetrics n h2;
          m' = (if 0 < mt_consecutive m then m\<lparr>mt_last_reconnect := Some (nowUtcIso now), mt_consecutive := 0\<rparr> else m);
          h4 = h3\<lparr>hb_metrics := js_set n m' (hb_metrics h3)\<rparr>;
          ip = (case js_get (hb_conns h) c of None \<Rightarrow> [] | Some x \<Rightarrow> co_ip x);
          a = \<lparr>ae_conn = c, ae_name = n_name nd, ae_ip = ip, ae_since = nowUtcIso now, ae_last_report = None, ae_report = None,
               ae_version = version, ae_capabilities = caps, ae_metrics = m', ae_pong = True, ae_metrics_at = 0\<rparr>;
          h5 = send_frame c AuthOk (h4\<lparr>hb_agents := js_set n a (hb_agents h4)\<rparr>)
      in on_monitor (on_db (addAuditLog now None ''agent_online'' [n_name nd, ip] ''system'')) h5)"

definition handleNormalAuth ::
  "(string \<Rightarrow> string) \<Rightarrow> health_env \<Rightarrow> nat \<Rightarrow> string \<Rightarrow> js_id \<Rightarrow> string option \<Rightarrow> string option \<Rightarrow> int \<Rightarrow> hub \<Rightarrow> hub" where
  "handleNormalAuth sha e c token nid version caps now h =
     (case nid of
        IdOther \<Rightarrow> uncaught now h
      | IdInt n \<Rightarrow>
          if n = 0 then close_conn c 4004 h
          else case getNodeById (he_dec e) n (hub_db h) of
                 None \<Rightarrow> close_conn c 4006 h
               | Some nd \<Rightarrow>
                   if \<not> safeTokenEqual sha token (or_else (n_agent_token nd) []) then close_conn c 4005 h
                   else register_agent c n nd version caps now h)"

definition handleAuth ::
  "(string \<Rightarrow> string) \<Rightarrow> health_env \<Rightarrow> nat \<Rightarrow> string \<Rightarrow> js_id \<Rightarrow> string option \<Rightarrow> string option \<Rightarrow> int \<Rightarrow> hub \<Rightarrow> hub" where
  "handleAuth sha e c token nid version caps now h =
     (if token = [] then close_conn c 4004 h
      else case js_get (hb_conns h) c of
             None \<Rightarrow> h
           | Some x \<Rightarrow> if co_auth x then h else handleNormalAuth sha e c token nid version caps now h)"

section \<open>Correcting the address of a machine\<close>

text \<open>\<open>25[0-5]|2[0-4]\d|1?\d?\d\<close>.\<close>

definition is_octet :: "string \<Rightarrow> bool" where
  "is_octet s \<longleftrightarrow> list_all is_digit s \<and>
     (length s = 1 \<or> length s = 2 \<or> length s = 3 \<and> (hd s = CHR ''1'' \<or> hd s = CHR ''2'' \<and> digits_val s \<le> 255))"

definition is_ipv4 :: "string \<Rightarrow> bool" where
  "is_ipv4 s \<longleftrightarrow> (let ps = js_split CHR ''.'' s in length ps = 4 \<and> list_all is_octet ps)"

definition old_ipv4 :: "node \<Rightarrow> string" where
  "old_ipv4 n = or_else (n_ssh_host n) (if n_ip_version n \<noteq> 6 then n_host n else [])"

definition correct_node :: "string \<Rightarrow> int \<Rightarrow> node \<Rightarrow> db \<Rightarrow> db" where
  "correct_node ip now t d =
     (let isV6 = (n_ip_version t = 6); oldSsh = or_else (n_ssh_host t) []; none = ''(none)'';
          newHost = (\<not> isV6 \<and> (n_host t = [] \<or> is_ipv4 (n_host t)));
          shown = (\<lambda>x. if x = [] then none else x)
      in if \<not> newHost \<and> oldSsh = ip then d
         else add_effect (Notify ''nodeIpChanged'' [n_name t, if oldSsh \<noteq> [] then oldSsh else shown (n_host t), ip])
           (addAuditLog now None ''node_ip_autocorrect''
              (if isV6 then [n_name t, ''management'', shown oldSsh, ip]
               else if newHost then [n_name t, ''public'', shown (n_host t), ip] else [n_name t, ''public''])
              ''agent-report''
             (update_node (n_id t)
               (\<lambda>n. (if newHost then n\<lparr>n_host := ip\<rparr> else n)\<lparr>n_ssh_host := Some ip\<rparr>) d)))"

definition maybeAutoCorrectIp :: "health_env \<Rightarrow> int \<Rightarrow> string option \<Rightarrow> int \<Rightarrow> db \<Rightarrow> db" where
  "maybeAutoCorrectIp e nid publicIp now d =
     (case publicIp of
        None \<Rightarrow> d
      | Some ip \<Rightarrow>
          if \<not> is_ipv4 ip then d
          else case getNodeById (he_dec e) nid d of
                 None \<Rightarrow> d
               | Some n \<Rightarrow>
                   if \<not> is_ipv4 (old_ipv4 n) \<or> old_ipv4 n = ip then d
                   else fold (correct_node ip now)
                     (filter (\<lambda>t. n_id t = nid \<or> or_else (n_ssh_host t) [] = old_ipv4 n) (getAllNodes (he_dec e) False d)) d)"

section \<open>Reports\<close>

definition DB_WRITE_INTERVAL :: int where "DB_WRITE_INTERVAL = 60000"
definition ALERT_INTERVAL :: int where "ALERT_INTERVAL = 300000"

definition xray_alive :: "report_msg \<Rightarrow> bool" where
  "xray_alive r = (case rm_xray r of Some b \<Rightarrow> b | None \<Rightarrow> rm_service r)"

definition health_report :: "report_msg \<Rightarrow> agent_report" where
  "health_report r =
     \<lparr>agr_xray = xray_alive r, agr_hysteria = rm_hysteria r, agr_cn = rm_cn r, agr_ipv6 = rm_ipv6 r,
      agr_load = nth_opt (rm_load r) 0, agr_mem = rm_mem r, agr_disk = rm_disk r, agr_records = rm_records r\<rparr>"

definition report_data_of :: "report_msg \<Rightarrow> int \<Rightarrow> report_data" where
  "report_data_of r now =
     \<lparr>rpd_xray = xray_alive r, rpd_hysteria = rm_hysteria r, rpd_cn = rm_cn r, rpd_load = rm_load r, rpd_mem = rm_mem r,
      rpd_disk = rm_disk r, rpd_cpu = rm_cpu r, rpd_bandwidth = rm_bandwidth r, rpd_uptime = rm_uptime r,
      rpd_public_ip = rm_public_ip r, rpd_at = nowUtcIso now\<rparr>"

definition note_report :: "int \<Rightarrow> report_msg \<Rightarrow> int \<Rightarrow> agent_entry \<Rightarrow> hub \<Rightarrow> hub" where
  "note_report n r now a h =
     (let (m, h1) = getOrCreateMetrics n h;
          m' = (case rm_metrics r of None \<Rightarrow> m | Some x \<Rightarrow> x);
          a' = a\<lparr>ae_last_report := Some (nowUtcIso now), ae_report := Some (report_data_of r now),
                 ae_version := (if truthy (rm_version r) then rm_version r else ae_version a),
                 ae_capabilities := (if rm_capabilities r \<noteq> None then rm_capabilities r else ae_capabilities a), ae_metrics := m'\<rparr>
      in h1\<lparr>hb_metrics := js_set n m' (hb_metrics h1), hb_agents := js_set n a' (hb_agents h1)\<rparr>)"

definition metric_of :: "report_msg \<Rightarrow> metric_input" where
  "metric_of r =
     \<lparr>mi_cpu = rm_cpu r, mi_mem = rm_mem r, mi_disk = rm_disk r, mi_load = rm_load r,
      mi_rx = (case rm_bandwidth r of None \<Rightarrow> None | Some b \<Rightarrow> bw_rx_rate b),
      mi_tx = (case rm_bandwidth r of None \<Rightarrow> None | Some b \<Rightarrow> bw_tx_rate b), mi_uptime = rm_uptime r\<rparr>"

definition store_metrics :: "int \<Rightarrow> report_msg \<Rightarrow> int \<Rightarrow> hub \<Rightarrow> hub" where
  "store_metrics n r now h =
     (case js_get (hb_agents h) n of
        None \<Rightarrow> h
      | Some a \<Rightarrow>
          if now - ae_metrics_at a < DB_WRITE_INTERVAL then h
          else let h1 = h\<lparr>hb_agents := js_set n (a\<lparr>ae_metrics_at := now\<rparr>) (hb_agents h)\<rparr>
               in on_monitor (on_db (\<lambda>d. case recordMetrics n (metric_of r) now d of None \<Rightarrow> d | Some d' \<Rightarrow> d')) h1)"

definition log_abuse :: "int \<Rightarrow> alert \<Rightarrow> int \<Rightarrow> db \<Rightarrow> db" where
  "log_abuse n al now d =
     (let user = (if alr_user al = 0 then None else Some (alr_user al))
      in if \<not> node_exists n d \<or> user \<noteq> None \<and> user_by_id d (the user) = None then d
         else d\<lparr>d_abuse := d_abuse d @ [\<lparr>ab_node = Some n, ab_user = user,
                ab_type = (if alr_type al = [] then ''unknown'' else alr_type al), ab_detail = alr_json al, ab_at = toSqlUtc now\<rparr>]\<rparr>)"

text \<open>One alert: logged, and told unless the same kind was told in the last five minutes.\<close>

definition handle_alert :: "int \<Rightarrow> string \<Rightarrow> int \<Rightarrow> alert \<Rightarrow> hub \<Rightarrow> hub" where
  "handle_alert n name now al h =
     (let h1 = on_monitor (on_db (log_abuse n al now)) h;
          key = (n, alr_type al, alr_user al);
          lastAt = (case js_get (hb_throttle h1) key of None \<Rightarrow> 0 | Some t \<Rightarrow> t)
      in if lastAt = 0 \<or> ALERT_INTERVAL < now - lastAt
         then on_monitor (tell ''abuseAlert'' [name, alr_type al, alr_json al]) (h1\<lparr>hb_throttle := js_set key now (hb_throttle h1)\<rparr>)
         else h1)"

definition handle_alerts :: "health_env \<Rightarrow> int \<Rightarrow> alert list \<Rightarrow> int \<Rightarrow> hub \<Rightarrow> hub" where
  "handle_alerts e n alerts now h =
     (if alerts = [] then h
      else let name = (case getNodeById (he_dec e) n (hub_db h) of None \<Rightarrow> ''Node#'' @ show_int n | Some nd \<Rightarrow> n_name nd);
               h1 = fold (handle_alert n name now) (take 10 alerts) h
           in on_monitor (on_db (addAuditLog now None ''abuse_alert'' [name, show_int (int (length alerts))] ''agent'')) h1)"

text \<open>The commands the health monitor issued, each with an identifier drawn by \<open>ids\<close>.\<close>

definition commands_since :: "db \<Rightarrow> db \<Rightarrow> (int \<times> string) list" where
  "commands_since d d' =
     concat (map (\<lambda>x. case x of AgentCommand n c \<Rightarrow> [(n, c)] | _ \<Rightarrow> []) (drop (length (d_effects d)) (d_effects d')))"

definition issue_commands :: "health_env \<Rightarrow> (nat \<Rightarrow> string) \<Rightarrow> (int \<times> string) list \<Rightarrow> int \<Rightarrow> hub \<Rightarrow> hub" where
  "issue_commands e ids cs now h =
     fold (\<lambda>(i, n, c) h. snd (sendCommand e i False n c now h)) (zip (map ids [0..<length cs]) cs) h"

definition hub_env :: "health_env \<Rightarrow> hub \<Rightarrow> health_env" where
  "hub_env e h = e\<lparr>he_online := (\<lambda>n. isAgentOnline e n h)\<rparr>"

definition run_health_report :: "health_env \<Rightarrow> (nat \<Rightarrow> string) \<Rightarrow> int \<Rightarrow> agent_report \<Rightarrow> int \<Rightarrow> hub \<Rightarrow> hub" where
  "run_health_report e ids n r now h =
     (let h1 = on_monitor (updateFromAgentReport (hub_env e h) n r now) h
      in issue_commands e ids (commands_since (hub_db h) (hub_db h1)) now h1)"

definition handleReport :: "health_env \<Rightarrow> (nat \<Rightarrow> string) \<Rightarrow> int \<Rightarrow> report_msg \<Rightarrow> int \<Rightarrow> hub \<Rightarrow> hub" where
  "handleReport e ids n r now h =
     (case js_get (hb_agents h) n of
        None \<Rightarrow> h
      | Some a \<Rightarrow>
          let h1 = note_report n r now a h;
              h2 = run_health_report e ids n (health_report r) now h1;
              h3 = on_monitor (on_db (maybeAutoCorrectIp e n (rm_public_ip r) now)) h2;
              h4 = store_metrics n r now h3
          in handle_alerts e n (rm_alerts r) now h4)"

section \<open>Messages\<close>

datatype agent_msg =
    MNull
  | MAuth string js_id "string option" "string option"
  | MReport report_msg
  | MResult string bool string
  | MPong
  | MOther

definition handleCmdResult :: "string \<Rightarrow> bool \<Rightarrow> string \<Rightarrow> hub \<Rightarrow> hub" where
  "handleCmdResult i success payload h =
     (if js_get (hb_pending h) i = None then h else answer_command i (Answered success payload) h)"

definition handlePong :: "int \<Rightarrow> hub \<Rightarrow> hub" where
  "handlePong n h =
     (case js_get (hb_agents h) n of
        None \<Rightarrow> h | Some a \<Rightarrow> h\<lparr>hb_agents := js_set n (a\<lparr>ae_pong := True\<rparr>) (hb_agents h)\<rparr>)"

definition handleMessage ::
  "(string \<Rightarrow> string) \<Rightarrow> health_env \<Rightarrow> (nat \<Rightarrow> string) \<Rightarrow> nat \<Rightarrow> agent_msg \<Rightarrow> int \<Rightarrow> hub \<Rightarrow> hub" where
  "handleMessage sha e ids c msg now h =
     (case js_get (hb_conns h) c of
        None \<Rightarrow> h
      | Some x \<Rightarrow>
          (case msg of
             MNull \<Rightarrow> uncaught now h
           | MAuth token nid version caps \<Rightarrow> handleAuth sha e c token nid version caps now h
           | _ \<Rightarrow>
               if \<not> co_auth x then close_conn c 4003 h
               else (case msg of
                       MReport r \<Rightarrow> handleReport e ids (co_node x) r now h
                     | MResult i success payload \<Rightarrow> handleCmdResult i success payload h
                     | MPong \<Rightarrow> handlePong (co_node x) h
                     | _ \<Rightarrow> h)))"

text \<open>A message from the wire; \<open>None\<close> is a text that is not JSON. At most sixty in ten seconds.\<close>

definition count_message :: "int \<Rightarrow> conn \<Rightarrow> conn" where
  "count_message now x =
     (let y = (if 10000 < now - co_window x then x\<lparr>co_count := 0, co_window := now\<rparr> else x) in y\<lparr>co_count := Suc (co_count y)\<rparr>)"

definition on_message ::
  "(string \<Rightarrow> string) \<Rightarrow> health_env \<Rightarrow> (nat \<Rightarrow> string) \<Rightarrow> nat \<Rightarrow> agent_msg option \<Rightarrow> int \<Rightarrow> hub \<Rightarrow> hub" where
  "on_message sha e ids c raw now h =
     (case js_get (hb_conns h) c of
        None \<Rightarrow> h
      | Some x \<Rightarrow>
          let h1 = update_conn c (count_message now) h
          in if 60 < co_count (count_message now x) then close_conn c 4008 h1
             else (case raw of None \<Rightarrow> close_conn c 4002 h1 | Some msg \<Rightarrow> handleMessage sha e ids c msg now h1))"

section \<open>Connections and timers\<close>

definition on_connection :: "string \<Rightarrow> int \<Rightarrow> hub \<Rightarrow> hub" where
  "on_connection ip now h =
     (let c = hb_next h
      in set_timer (now + AUTH_TIMEOUT) (AuthTimer c)
           (h\<lparr>hb_conns := js_set c \<lparr>co_ip = ip, co_auth = False, co_node = 0, co_count = 0, co_window = now, co_open = True\<rparr> (hb_conns h),
              hb_next := Suc c\<rparr>))"

definition drop_agent :: "int \<Rightarrow> int \<Rightarrow> hub \<Rightarrow> hub" where
  "drop_agent n now h =
     cleanupPendingCommands n ((markDisconnected n now h)\<lparr>hb_agents := filter (\<lambda>x. fst x \<noteq> n) (hb_agents h)\<rparr>)"

definition registered :: "nat \<Rightarrow> int \<Rightarrow> hub \<Rightarrow> bool" where
  "registered c n h \<longleftrightarrow> (case js_get (hb_agents h) n of None \<Rightarrow> False | Some a \<Rightarrow> ae_conn a = c)"

definition on_close :: "nat \<Rightarrow> int \<Rightarrow> hub \<Rightarrow> hub" where
  "on_close c now h =
     (case js_get (hb_conns h) c of
        None \<Rightarrow> h
      | Some x \<Rightarrow>
          let h1 = (clear_timer (AuthTimer c) h)\<lparr>hb_conns := filter (\<lambda>y. fst y \<noteq> c) (hb_conns h)\<rparr>
          in if co_node x \<noteq> 0 \<and> registered c (co_node x) h1
             then set_timer (now + 30000) (OfflineTimer (co_node x)) (drop_agent (co_node x) now h1)
             else h1)"

definition auth_timeout :: "nat \<Rightarrow> hub \<Rightarrow> hub" where
  "auth_timeout c h =
     (case js_get (hb_conns h) c of None \<Rightarrow> h | Some x \<Rightarrow> if co_auth x then h else close_conn c 4001 h)"

definition REMARK_GONE :: string where "REMARK_GONE = ''disconnected''"

definition offline_check :: "health_env \<Rightarrow> int \<Rightarrow> int \<Rightarrow> hub \<Rightarrow> hub" where
  "offline_check e n now h =
     (if js_get (hb_agents h) n \<noteq> None then h
      else case getNodeById (he_dec e) n (hub_db h) of
             None \<Rightarrow> h
           | Some nd \<Rightarrow>
               if \<not> n_is_active nd then h
               else on_monitor (\<lambda>s.
                 let s1 = on_db (update_node n (set_state False REMARK_GONE now)) s;
                     (peers, s2) = getPeerNodes e now nd s1;
                     s3 = mirrorPeerState peers False REMARK_GONE now s2
                 in tell ''nodeDown'' [n_name nd, ''Agent gone''] (on_db (addAuditLog now None ''agent_offline'' [n_name nd] ''system'') s3)) h)"

definition pong_timeout :: "int \<Rightarrow> nat \<Rightarrow> int \<Rightarrow> hub \<Rightarrow> hub" where
  "pong_timeout n c now h =
     (case js_get (hb_agents h) n of
        None \<Rightarrow> h
      | Some a \<Rightarrow> if ae_pong a then h else drop_agent n now (update_conn c (\<lambda>x. x\<lparr>co_open := False\<rparr>) h))"

text \<open>The regular ping; \<open>fails\<close> are the connections whose socket throws.\<close>

definition ping_agent :: "nat set \<Rightarrow> int \<Rightarrow> int \<Rightarrow> hub \<Rightarrow> hub" where
  "ping_agent fails now n h =
     (case js_get (hb_agents h) n of
        None \<Rightarrow> h
      | Some a \<Rightarrow>
          if \<not> is_open (ae_conn a) h then drop_agent n now h
          else let h1 = h\<lparr>hb_agents := js_set n (a\<lparr>ae_pong := False\<rparr>) (hb_agents h)\<rparr>
               in if ae_conn a \<in> fails then drop_agent n now h1
                  else set_timer (now + PONG_TIMEOUT) (PongTimer n (ae_conn a)) (send_frame (ae_conn a) PingFrame h1))"

definition ping_tick :: "nat set \<Rightarrow> int \<Rightarrow> hub \<Rightarrow> hub" where
  "ping_tick fails now h = fold (ping_agent fails now) (map fst (hb_agents h)) h"

definition command_timeout :: "string \<Rightarrow> hub \<Rightarrow> hub" where
  "command_timeout i h = answer_command i CommandTimeout h"

fun fire_timer :: "health_env \<Rightarrow> timer \<Rightarrow> int \<Rightarrow> hub \<Rightarrow> hub" where
  "fire_timer e (AuthTimer c) now h = auth_timeout c h"
| "fire_timer e (PongTimer n c) now h = pong_timeout n c now h"
| "fire_timer e (OfflineTimer n) now h = offline_check e n now h"
| "fire_timer e (CommandTimer i) now h = command_timeout i h"

definition shutdown :: "hub \<Rightarrow> hub" where
  "shutdown h =
     (let h1 = fold (\<lambda>a. close_conn (ae_conn a) 1001) (map snd (hb_agents h)) h;
          h2 = fold (\<lambda>i. answer_command i HubDown) (map fst (hb_pending h1)) (h1\<lparr>hb_agents := []\<rparr>)
      in h2\<lparr>hb_down := True\<rparr>)"

section \<open>What the rest of the panel sees\<close>

definition getConnectedAgents :: "hub \<Rightarrow> (int \<times> agent_entry) list" where
  "getConnectedAgents h = filter (\<lambda>(n, a). is_open (ae_conn a) h) (hb_agents h)"

end
