(* ===== verification/HubSteps.thy ===== *)
theory HubSteps
  imports AgentHub
begin

text \<open>
  The agent hub as a state machine: one rule per event of the sockets, the timers, the rest of the
  panel and the clock (milliseconds). A timer fires at its time: the clock does not pass it before. A
  process that is to end does so when its connections are closed or when its last time has come; a run
  stops with it.

  The commands of the hub refine an abstract ledger: a command is issued once, with a deadline, and
  resolved once. Every step of the hub is a sequence of steps of the ledger.
\<close>

section \<open>Steps\<close>

definition used_ids :: "hub \<Rightarrow> string set" where
  "used_ids h = fst ` set (hb_pending h) \<union> fst ` set (hb_answers h)"

definition fresh_ids :: "(nat \<Rightarrow> string) \<Rightarrow> hub \<Rightarrow> bool" where
  "fresh_ids ids h \<longleftrightarrow> inj ids \<and> range ids \<inter> used_ids h = {}"

datatype patrol = ZeroPatrol | StalePatrol | SuddenPatrol | FlushPatrol | CapPatrol | AlertPatrol

fun run_patrol :: "health_env \<Rightarrow> patrol \<Rightarrow> int \<Rightarrow> monitor \<Rightarrow> monitor" where
  "run_patrol e ZeroPatrol now s = checkZeroTrafficNodes e now s"
| "run_patrol e StalePatrol now s = checkStaleAgents e now s"
| "run_patrol e SuddenPatrol now s = checkSuddenZeroTraffic e now s"
| "run_patrol e FlushPatrol now s = flushBufferedHealthWrites now s"
| "run_patrol e CapPatrol now s = maybeResetTrafficCapNotified now s"
| "run_patrol e AlertPatrol now s = cleanupTrafficAlertCache now s"

text \<open>\<open>rest_of_panel\<close>: whatever the other parts of the program do to the shared database.\<close>

inductive hub_step :: "(string \<Rightarrow> string) \<Rightarrow> health_env \<Rightarrow> int \<times> hub \<Rightarrow> int \<times> hub \<Rightarrow> bool"
  for sha :: "string \<Rightarrow> string" and e :: health_env where
  connect: "\<not> hb_down h \<Longrightarrow> \<not> server_closing t h \<Longrightarrow> hub_step sha e (t, h) (t, on_connection ip t h)"
| message: "\<not> hb_down h \<Longrightarrow> fresh_ids ids h \<Longrightarrow> hub_step sha e (t, h) (t, on_message sha e ids c raw t h)"
| closed: "\<not> hb_down h \<Longrightarrow> hub_step sha e (t, h) (t, on_close c t h)"
| pings: "\<not> hb_down h \<Longrightarrow> hub_step sha e (t, h) (t, ping_tick fails t h)"
| fire: "\<not> hb_down h \<Longrightarrow> (d, k) \<in> set (hb_timers h) \<Longrightarrow> d \<le> t \<Longrightarrow>
    hub_step sha e (t, h) (t, fire_timer e k t (h\<lparr>hb_timers := remove1 (d, k) (hb_timers h)\<rparr>))"
| send: "\<not> hb_down h \<Longrightarrow> i \<notin> used_ids h \<Longrightarrow> hub_step sha e (t, h) (t, snd (sendCommand e i fails n cmd t h))"
| patrols: "\<not> hb_down h \<Longrightarrow> hub_step sha e (t, h) (t, on_monitor (run_patrol (hub_env e h) p t) h)"
| rest_of_panel: "\<not> hb_down h \<Longrightarrow> hub_step sha e (t, h) (t, on_monitor (on_db f) h)"
| forget: "\<not> hb_down h \<Longrightarrow> hub_step sha e (t, h) (t, cleanup_metrics e t h)"
| signal: "\<not> hb_down h \<Longrightarrow> hub_step sha e (t, h) (t, gracefulShutdown t h)"
| all_closed: "\<not> hb_down h \<Longrightarrow> server_closing t h \<Longrightarrow> hub_step sha e (t, h) (t, shutdown h)"
| forced: "\<not> hb_down h \<Longrightarrow> hb_exit h = Some t \<Longrightarrow> hub_step sha e (t, h) (t, h\<lparr>hb_down := True\<rparr>)"
| clock: "\<not> hb_down h \<Longrightarrow> t \<le> t' \<Longrightarrow> (\<And>d k. (d, k) \<in> set (hb_timers h) \<Longrightarrow> t' \<le> d) \<Longrightarrow> (\<And>x. hb_exit h = Some x \<Longrightarrow> t' \<le> x) \<Longrightarrow>
    hub_step sha e (t, h) (t', h)"

abbreviation hub_steps :: "(string \<Rightarrow> string) \<Rightarrow> health_env \<Rightarrow> int \<times> hub \<Rightarrow> int \<times> hub \<Rightarrow> bool" where
  "hub_steps sha e \<equiv> (hub_step sha e)\<^sup>*\<^sup>*"

definition hub_reachable :: "(string \<Rightarrow> string) \<Rightarrow> health_env \<Rightarrow> int \<times> hub \<Rightarrow> bool" where
  "hub_reachable sha e s \<longleftrightarrow> (\<exists>t d. hub_steps sha e (t, start_hub d) s)"

section \<open>The ledger of commands\<close>

type_synonym ledger = "(string \<times> int) list \<times> (string \<times> answer) list"

inductive ledger_step :: "int \<Rightarrow> ledger \<Rightarrow> ledger \<Rightarrow> bool" for t :: int where
  issue: "i \<notin> fst ` set opn \<Longrightarrow> i \<notin> fst ` set done_cmds \<Longrightarrow> ledger_step t (opn, done_cmds) (opn @ [(i, t + CMD_TIMEOUT)], done_cmds)"
| resolve: "i \<in> fst ` set opn \<Longrightarrow>
    ledger_step t (opn, done_cmds) (filter (\<lambda>x. fst x \<noteq> i) opn, done_cmds @ [(i, a)])"

inductive_cases ledger_stepE: "ledger_step t (opn, ds) L"

definition ledger_ok :: "ledger \<Rightarrow> bool" where
  "ledger_ok L \<longleftrightarrow> distinct (map fst (fst L)) \<and> distinct (map fst (snd L)) \<and> fst ` set (fst L) \<inter> fst ` set (snd L) = {}"

lemma ledger_step_ok: "ledger_step t L L' \<Longrightarrow> ledger_ok L \<Longrightarrow> ledger_ok L'"
  by (induction rule: ledger_step.induct) (auto simp: ledger_ok_def distinct_map_filter)

lemma ledger_steps_ok: "(ledger_step t)\<^sup>*\<^sup>* L L' \<Longrightarrow> ledger_ok L \<Longrightarrow> ledger_ok L'"
  by (induction rule: rtranclp_induct) (auto dest: ledger_step_ok)

text \<open>An open command stays open with its deadline until it is resolved.\<close>

lemma ledger_step_keeps:
  "ledger_step t L L' \<Longrightarrow> (\<forall>x \<in> set (fst L). x \<in> set (fst L') \<or> fst x \<in> fst ` set (snd L')) \<and>
    set (snd L) \<subseteq> set (snd L')"
  by (induction rule: ledger_step.induct) auto

lemma ledger_steps_keep:
  "(ledger_step t)\<^sup>*\<^sup>* L L' \<Longrightarrow> (\<forall>x \<in> set (fst L). x \<in> set (fst L') \<or> fst x \<in> fst ` set (snd L')) \<and>
    set (snd L) \<subseteq> set (snd L')"
proof (induction rule: rtranclp_induct)
  case (step L1 L2)
  show ?case using ledger_step_keeps [OF step.hyps(2)] step.IH by (meson imageI image_mono order_trans subsetD)
qed simp

lemma ledger_step_deadline:
  "ledger_step t L L' \<Longrightarrow> (\<forall>x \<in> set (fst L). snd x \<le> t + CMD_TIMEOUT) \<Longrightarrow> (\<forall>x \<in> set (fst L'). snd x \<le> t + CMD_TIMEOUT)"
  by (induction rule: ledger_step.induct) auto

lemma ledger_step_floor:
  "ledger_step t L L' \<Longrightarrow> (\<forall>x \<in> set (fst L). t \<le> snd x) \<Longrightarrow> (\<forall>x \<in> set (fst L'). t \<le> snd x)"
  by (induction rule: ledger_step.induct) (auto simp: CMD_TIMEOUT_def)

lemma ledger_steps_floor:
  "(ledger_step t)\<^sup>*\<^sup>* L L' \<Longrightarrow> (\<forall>x \<in> set (fst L). t \<le> snd x) \<Longrightarrow> (\<forall>x \<in> set (fst L'). t \<le> snd x)"
  by (induction rule: rtranclp_induct) (auto dest: ledger_step_floor)

lemma ledger_steps_deadline:
  "(ledger_step t)\<^sup>*\<^sup>* L L' \<Longrightarrow> (\<forall>x \<in> set (fst L). snd x \<le> t + CMD_TIMEOUT) \<Longrightarrow> (\<forall>x \<in> set (fst L'). snd x \<le> t + CMD_TIMEOUT)"
  by (induction rule: rtranclp_induct) (auto dest: ledger_step_deadline)

section \<open>The hub refines the ledger\<close>

definition open_commands :: "(int \<times> timer) list \<Rightarrow> (string \<times> int) list" where
  "open_commands ts = concat (map (\<lambda>(d, k). case k of CommandTimer i \<Rightarrow> [(i, d)] | _ \<Rightarrow> []) ts)"

definition ledger_of :: "hub \<Rightarrow> ledger" where
  "ledger_of h = (open_commands (hb_timers h), hb_answers h)"

definition pending_ok :: "hub \<Rightarrow> bool" where
  "pending_ok h \<longleftrightarrow> fst ` set (hb_pending h) = fst ` set (open_commands (hb_timers h)) \<and> distinct (map fst (hb_pending h))"

definition refines :: "int \<Rightarrow> hub \<Rightarrow> hub \<Rightarrow> bool" where
  "refines t h h' \<longleftrightarrow> (pending_ok h \<longrightarrow> pending_ok h' \<and> (ledger_step t)\<^sup>*\<^sup>* (ledger_of h) (ledger_of h'))"

named_theorems hub_refines \<open>operations of the hub that refine the ledger\<close>

lemma refines_refl [simp]: "refines t h h"
  by (simp add: refines_def)

lemma refines_trans: "refines t a b \<Longrightarrow> refines t b c \<Longrightarrow> refines t a c"
  unfolding refines_def by (meson rtranclp_trans)

lemma refines_frame:
  assumes "hb_pending h' = hb_pending h" and "hb_answers h' = hb_answers h"
    and "open_commands (hb_timers h') = open_commands (hb_timers h)"
  shows "refines t h h'"
  using assms by (simp add: refines_def pending_ok_def ledger_of_def)

lemma refines_fold: "(\<And>x h. refines t h (f x h)) \<Longrightarrow> refines t h (fold f xs h)"
proof (induction xs arbitrary: h)
  case (Cons x xs)
  show ?case using refines_trans [OF Cons.prems [of h x] Cons.IH [OF Cons.prems]] by simp
qed simp

lemma open_commands_simps [simp]:
  "open_commands [] = []"
  "open_commands (x # ts) = (case snd x of CommandTimer i \<Rightarrow> [(i, fst x)] | _ \<Rightarrow> []) @ open_commands ts"
  "open_commands (ts @ us) = open_commands ts @ open_commands us"
  by (auto simp: open_commands_def split: prod.split timer.split)

lemma open_commands_clear:
  "open_commands (filter (\<lambda>x. snd x \<noteq> CommandTimer i) ts) = filter (\<lambda>x. fst x \<noteq> i) (open_commands ts)"
proof (induction ts)
  case (Cons x ts)
  then show ?case by (cases "snd x") auto
qed simp

lemma open_commands_other:
  "(\<And>i. k \<noteq> CommandTimer i) \<Longrightarrow> open_commands (filter (\<lambda>x. snd x \<noteq> k) ts) = open_commands ts"
proof (induction ts)
  case (Cons x ts)
  then show ?case by (cases "snd x") auto
qed simp

lemma open_commands_mem: "(i, d) \<in> set (open_commands ts) \<longleftrightarrow> (d, CommandTimer i) \<in> set ts"
proof (induction ts)
  case (Cons x ts)
  then show ?case by (cases x; cases "snd x") auto
qed simp

lemma refines_answer [hub_refines]:
  assumes "i \<in> fst ` set (hb_pending h)"
  shows "refines t h (answer_command i a h)"
proof -
  have "pending_ok (answer_command i a h)" if "pending_ok h"
    using that by (auto simp: pending_ok_def answer_command_def clear_timer_def open_commands_clear distinct_map_filter image_iff)
  moreover have "ledger_step t (ledger_of h) (ledger_of (answer_command i a h))" if "pending_ok h"
    using that assms
    by (simp add: pending_ok_def answer_command_def clear_timer_def open_commands_clear ledger_of_def ledger_step.resolve)
  ultimately show ?thesis by (auto simp: refines_def)
qed


lemma command_frame [simp]:
  "hb_pending (on_monitor f h) = hb_pending h" "hb_answers (on_monitor f h) = hb_answers h" "hb_timers (on_monitor f h) = hb_timers h"
  "hb_pending (send_frame c fr h) = hb_pending h" "hb_answers (send_frame c fr h) = hb_answers h" "hb_timers (send_frame c fr h) = hb_timers h"
  "hb_pending (update_conn c g h) = hb_pending h" "hb_answers (update_conn c g h) = hb_answers h" "hb_timers (update_conn c g h) = hb_timers h"
  "hb_pending (close_conn c k h) = hb_pending h" "hb_answers (close_conn c k h) = hb_answers h" "hb_timers (close_conn c k h) = hb_timers h"
  "hb_pending (snd (getOrCreateMetrics n h)) = hb_pending h" "hb_answers (snd (getOrCreateMetrics n h)) = hb_answers h"
  "hb_timers (snd (getOrCreateMetrics n h)) = hb_timers h"
  "hb_pending (markDisconnected n t h) = hb_pending h" "hb_answers (markDisconnected n t h) = hb_answers h"
  "hb_timers (markDisconnected n t h) = hb_timers h"
  by (simp_all add: on_monitor_def send_frame_def update_conn_def close_conn_def getOrCreateMetrics_def markDisconnected_def
      split: option.split)

lemma stop_frame [simp]:
  "hb_pending (gracefulShutdown x h) = hb_pending h" "hb_answers (gracefulShutdown x h) = hb_answers h"
  "hb_timers (gracefulShutdown x h) = hb_timers h" "hb_pending (uncaught x h) = hb_pending h"
  "hb_answers (uncaught x h) = hb_answers h" "hb_timers (uncaught x h) = hb_timers h"
  by (simp_all add: gracefulShutdown_def uncaught_def)

lemma report_frame [simp]:
  "hb_pending (note_report n r t a h) = hb_pending h" "hb_answers (note_report n r t a h) = hb_answers h"
  "hb_timers (note_report n r t a h) = hb_timers h"
  "hb_pending (store_metrics n r t h) = hb_pending h" "hb_answers (store_metrics n r t h) = hb_answers h"
  "hb_timers (store_metrics n r t h) = hb_timers h"
  "hb_pending (handle_alert n nm t al h) = hb_pending h" "hb_answers (handle_alert n nm t al h) = hb_answers h"
  "hb_timers (handle_alert n nm t al h) = hb_timers h"
  by (simp_all add: note_report_def store_metrics_def handle_alert_def Let_def split_beta split: option.split)

lemma fold_frame:
  "(\<And>x h. hb_pending (f x h) = hb_pending h) \<Longrightarrow> hb_pending (fold f xs h) = hb_pending h"
  "(\<And>x h. hb_answers (f x h) = hb_answers h) \<Longrightarrow> hb_answers (fold f xs h) = hb_answers h"
  "(\<And>x h. hb_timers (f x h) = hb_timers h) \<Longrightarrow> hb_timers (fold f xs h) = hb_timers h"
  by (induction xs arbitrary: h) simp_all

lemma alerts_frame [simp]:
  "hb_pending (handle_alerts e n as t h) = hb_pending h" "hb_answers (handle_alerts e n as t h) = hb_answers h"
  "hb_timers (handle_alerts e n as t h) = hb_timers h"
  by (simp_all add: handle_alerts_def Let_def fold_frame split: option.split)

lemma register_frame [simp]:
  "hb_pending (register_agent c n nd v caps t h) = hb_pending h" "hb_answers (register_agent c n nd v caps t h) = hb_answers h"
  "open_commands (hb_timers (register_agent c n nd v caps t h)) = open_commands (hb_timers h)"
  by (simp_all add: register_agent_def Let_def split_beta clear_timer_def open_commands_other split: option.split)

lemma answer_command_pending [simp]:
  "hb_pending (answer_command i a h) = filter (\<lambda>x. fst x \<noteq> i) (hb_pending h)"
  by (simp add: answer_command_def)

lemma cleanup_mem:
  "set js \<subseteq> fst ` set (hb_pending h) \<Longrightarrow> distinct js \<Longrightarrow> refines t h (fold (\<lambda>i. answer_command i a) js h)"
proof (induction js arbitrary: h)
  case (Cons i js)
  have "refines t h (answer_command i a h)" using Cons.prems by (intro refines_answer) simp
  moreover have "set js \<subseteq> fst ` set (hb_pending (answer_command i a h))" using Cons.prems by fastforce
  ultimately show ?case using refines_trans Cons by simp
qed simp

lemma refines_cleanup [hub_refines]: "refines t h (cleanupPendingCommands n h)"
proof (cases "pending_ok h")
  case True
  then show ?thesis unfolding cleanupPendingCommands_def
    by (intro cleanup_mem) (auto simp: pending_ok_def distinct_map_filter)
qed (simp add: refines_def)

lemma refines_drop [hub_refines]: "refines t h (drop_agent n now h)"
  unfolding drop_agent_def
  by (rule refines_trans [OF refines_frame refines_cleanup]) simp_all

lemma refines_send [hub_refines]:
  assumes "i \<notin> used_ids h"
  shows "refines t h (snd (sendCommand e i fails n cmd t h))"
proof (cases "resolveAgentForNode e n h")
  case None
  then show ?thesis by (simp add: sendCommand_def)
next
  case (Some a)
  let ?h = "(set_timer (t + CMD_TIMEOUT) (CommandTimer i) h)\<lparr>hb_pending := js_set i n (hb_pending h)\<rparr>"
  have "ledger_step t (ledger_of h) (ledger_of ?h)" if "pending_ok h"
    using that assms
    by (auto simp: pending_ok_def used_ids_def set_timer_def ledger_of_def intro: ledger_step.issue)
  moreover have "pending_ok ?h" if "pending_ok h"
    using that by (auto simp: pending_ok_def set_timer_def dom_update distinct_update)
  ultimately have 1: "refines t h ?h" by (auto simp: refines_def)
  have "i \<in> fst ` set (hb_pending ?h)" by (simp add: dom_update)
  then have 2: "refines t ?h (answer_command i SendFailed ?h)" by (rule refines_answer)
  have 3: "refines t ?h (send_frame c f ?h)" for c f by (rule refines_frame) simp_all
  show ?thesis
    using refines_trans [OF 1 2] refines_trans [OF 1 3] Some by (cases a) (simp add: sendCommand_def Let_def)
qed


lemma answer_used: "used_ids (answer_command i a h) \<subseteq> insert i (used_ids h)"
  by (auto simp: used_ids_def answer_command_def clear_timer_def)

lemma send_used: "used_ids (snd (sendCommand e i fails n cmd t h)) \<subseteq> insert i (used_ids h)"
proof (cases "resolveAgentForNode e n h")
  case (Some a)
  let ?h = "(set_timer (t + CMD_TIMEOUT) (CommandTimer i) h)\<lparr>hb_pending := js_set i n (hb_pending h)\<rparr>"
  have "used_ids ?h = insert i (used_ids h)" by (simp add: used_ids_def dom_update set_timer_def)
  moreover have "used_ids (send_frame c f ?h) = used_ids ?h" for c f by (simp add: used_ids_def)
  ultimately show ?thesis
    using answer_used [of i SendFailed ?h] Some by (cases a) (simp add: sendCommand_def Let_def)
qed (auto simp: sendCommand_def)

lemma refines_issue:
  assumes "distinct (map fst js)" and "fst ` set js \<inter> used_ids h = {}"
  shows "refines t h (fold (\<lambda>(i, n, c) h. snd (sendCommand e i False n c t h)) js h)"
  using assms
proof (induction js arbitrary: h)
  case (Cons x js)
  obtain i n c where x: "x = (i, n, c)" by (cases x)
  let ?h = "snd (sendCommand e i False n c t h)"
  have 1: "refines t h ?h" using Cons.prems by (intro refines_send) (auto simp: x)
  have "fst ` set js \<inter> used_ids ?h = {}" using send_used [of e i False n c t h] Cons.prems by (auto simp: x)
  then show ?case using refines_trans [OF 1 Cons.IH [of ?h]] Cons.prems(1) by (simp add: x)
qed simp

lemma used_frame:
  "hb_pending h' = hb_pending h \<Longrightarrow> hb_answers h' = hb_answers h \<Longrightarrow> used_ids h' = used_ids h"
  by (simp add: used_ids_def)

lemma refines_issue_commands:
  assumes "fresh_ids ids h"
  shows "refines t h (issue_commands e ids cs t h)"
proof -
  have m: "map fst (zip (map ids [0..<length cs]) cs) = map ids [0..<length cs]" by (simp add: map_fst_zip_take)
  have "distinct (map fst (zip (map ids [0..<length cs]) cs))"
    using assms by (simp add: m distinct_map fresh_ids_def inj_on_def)
  moreover have "fst ` set (zip (map ids [0..<length cs]) cs) = set (map ids [0..<length cs])"
    by (simp only: set_map [symmetric] m)
  then have "fst ` set (zip (map ids [0..<length cs]) cs) \<inter> used_ids h = {}"
    using assms by (auto simp: fresh_ids_def)
  ultimately show ?thesis unfolding issue_commands_def by (rule refines_issue)
qed

lemma refines_health: "fresh_ids ids h \<Longrightarrow> refines t h (run_health_report e ids n r t h)"
  unfolding run_health_report_def Let_def
  by (rule refines_trans [OF refines_frame refines_issue_commands]) (simp_all add: fresh_ids_def used_ids_def)

lemma refines_report [hub_refines]: "fresh_ids ids h \<Longrightarrow> refines t h (handleReport e ids n r t h)"
proof (cases "js_get (hb_agents h) n")
  case (Some a)
  assume f: "fresh_ids ids h"
  let ?h1 = "note_report n r t a h"
  have 1: "refines t h ?h1" by (rule refines_frame) simp_all
  have "fresh_ids ids ?h1" using f by (simp add: fresh_ids_def used_ids_def)
  note 2 = refines_health [OF this, of t e n "health_report r"]
  have 3: "refines t x (handle_alerts e n (rm_alerts r) t (store_metrics n r t (on_monitor (on_db (maybeAutoCorrectIp e n (rm_public_ip r) t)) x)))" for x
    by (rule refines_frame) simp_all
  show ?thesis using refines_trans [OF refines_trans [OF 1 2] 3] Some by (simp add: handleReport_def Let_def)
qed (simp add: handleReport_def)

lemma refines_result [hub_refines]: "refines t h (handleCmdResult i ok payload h)"
proof (cases "js_get (hb_pending h) i")
  case (Some n)
  then have "i \<in> fst ` set (hb_pending h)" using map_of_SomeD [OF Some] by force
  then show ?thesis using Some by (simp add: handleCmdResult_def refines_answer)
qed (simp add: handleCmdResult_def)

lemma refines_pong [hub_refines]: "refines t h (handlePong n h)"
  by (rule refines_frame) (simp_all add: handlePong_def split: option.split)

lemma refines_close [hub_refines]: "refines t h (close_conn c k h)"
  by (rule refines_frame) simp_all

lemma refines_auth [hub_refines]: "refines t h (handleAuth sha e c token nid v caps t h)"
  by (rule refines_frame)
    (simp_all add: handleAuth_def handleNormalAuth_def split: option.split js_id.split)

lemma refines_stop [hub_refines]: "refines t h (gracefulShutdown x h)"
  by (rule refines_frame) simp_all

lemma refines_uncaught [hub_refines]: "refines t h (uncaught x h)"
  by (simp add: uncaught_def refines_stop)

lemma refines_down [hub_refines]: "refines t h (h\<lparr>hb_down := True\<rparr>)"
  by (rule refines_frame) simp_all

lemma refines_message: "fresh_ids ids h \<Longrightarrow> refines t h (handleMessage sha e ids c msg t h)"
  by (cases msg) (auto simp: handleMessage_def intro: hub_refines split: option.split)

lemma refines_on_message [hub_refines]:
  assumes "fresh_ids ids h"
  shows "refines t h (on_message sha e ids c raw t h)"
proof (cases "js_get (hb_conns h) c")
  case (Some x)
  let ?h = "update_conn c (count_message t) h"
  have 1: "refines t h ?h" by (rule refines_frame) simp_all
  have "fresh_ids ids ?h" using assms by (simp add: fresh_ids_def used_ids_def)
  then have "refines t ?h (on_message sha e ids c raw t h)"
    using Some by (auto simp: on_message_def Let_def intro: refines_close refines_message split: option.split)
  then show ?thesis by (rule refines_trans [OF 1])
qed (simp add: on_message_def)

lemma refines_timer [hub_refines]: "(\<And>i. k \<noteq> CommandTimer i) \<Longrightarrow> refines t h (set_timer d k h)"
  by (rule refines_frame) (auto simp: set_timer_def split: timer.split)

lemma refines_connection [hub_refines]: "refines t h (on_connection ip now h)"
  unfolding on_connection_def Let_def
  by (rule refines_trans [OF refines_frame refines_timer]) simp_all

lemma refines_on_close [hub_refines]: "refines t h (on_close c now h)"
proof (cases "js_get (hb_conns h) c")
  case (Some x)
  let ?h = "(clear_timer (AuthTimer c) h)\<lparr>hb_conns := filter (\<lambda>y. fst y \<noteq> c) (hb_conns h)\<rparr>"
  have 1: "refines t h ?h" by (rule refines_frame) (simp_all add: clear_timer_def open_commands_other)
  have 2: "refines t ?h (set_timer (now + 30000) (OfflineTimer (co_node x)) (drop_agent (co_node x) now ?h))"
    by (rule refines_trans [OF refines_drop refines_timer]) simp
  show ?thesis using 1 refines_trans [OF 1 2] Some by (simp add: on_close_def Let_def)
qed (simp add: on_close_def)

lemma refines_ping [hub_refines]: "refines t h (ping_tick fails now h)"
  unfolding ping_tick_def
proof (rule refines_fold)
  fix n and h :: hub
  show "refines t h (ping_agent fails now n h)"
  proof (cases "js_get (hb_agents h) n")
    case (Some a)
    let ?h = "h\<lparr>hb_agents := js_set n (a\<lparr>ae_pong := False\<rparr>) (hb_agents h)\<rparr>"
    have 1: "refines t h ?h" by (rule refines_frame) simp_all
    have 2: "refines t ?h (set_timer (now + PONG_TIMEOUT) (PongTimer n (ae_conn a)) (send_frame (ae_conn a) PingFrame ?h))"
      by (rule refines_trans [OF refines_frame refines_timer]) simp_all
    show ?thesis using Some refines_trans [OF 1 refines_drop] refines_trans [OF 1 2]
      by (simp add: ping_agent_def refines_drop Let_def)
  qed (simp add: ping_agent_def)
qed

lemma refines_shutdown [hub_refines]: "refines t h (shutdown h)"
proof -
  let ?h = "fold (\<lambda>a. close_conn (ae_conn a) 1001) (map snd (hb_agents h)) h"
  have 1: "refines t h ?h" by (rule refines_fold) (rule refines_close)
  have 2: "refines t ?h (?h\<lparr>hb_agents := []\<rparr>)" by (rule refines_frame) simp_all
  have 3: "refines t (?h\<lparr>hb_agents := []\<rparr>) (fold (\<lambda>i. answer_command i HubDown) (map fst (hb_pending ?h)) (?h\<lparr>hb_agents := []\<rparr>))"
  proof (cases "pending_ok (?h\<lparr>hb_agents := []\<rparr>)")
    case True
    then show ?thesis by (intro cleanup_mem) (simp_all add: pending_ok_def)
  qed (simp add: refines_def)
  have 4: "refines t x (x\<lparr>hb_down := True\<rparr>)" for x by (rule refines_down)
  show ?thesis unfolding shutdown_def Let_def
    using refines_trans [OF refines_trans [OF 1 2] refines_trans [OF 3 4]] .
qed

lemma filter_remove1: "filter (\<lambda>x. snd x \<noteq> k) (remove1 (d, k) ts) = filter (\<lambda>x. snd x \<noteq> k) ts"
  by (induction ts) auto

lemma open_commands_remove1: "(\<And>i. k \<noteq> CommandTimer i) \<Longrightarrow> open_commands (remove1 (d, k) ts) = open_commands ts"
proof (induction ts)
  case (Cons x ts)
  then show ?case by (cases "x = (d, k)") (auto split: timer.split)
qed simp

lemma refines_fire [hub_refines]:
  assumes "(d, k) \<in> set (hb_timers h)"
  shows "refines t h (fire_timer e k t (h\<lparr>hb_timers := remove1 (d, k) (hb_timers h)\<rparr>))"
proof (cases k)
  case (CommandTimer i)
  let ?h = "h\<lparr>hb_timers := remove1 (d, k) (hb_timers h)\<rparr>"
  have e: "command_timeout i ?h = command_timeout i h"
    by (simp add: command_timeout_def answer_command_def clear_timer_def CommandTimer filter_remove1)
  show ?thesis
  proof (cases "pending_ok h")
    case True
    have "(i, d) \<in> set (open_commands (hb_timers h))" using assms by (simp add: open_commands_mem CommandTimer)
    then have "i \<in> fst ` set (hb_pending h)" using True by (force simp: pending_ok_def)
    then have "refines t h (command_timeout i h)" by (simp add: command_timeout_def refines_answer)
    then show ?thesis by (simp add: CommandTimer e [unfolded CommandTimer])
  qed (simp add: refines_def)
next
  case (PongTimer n c)
  let ?h = "h\<lparr>hb_timers := remove1 (d, k) (hb_timers h)\<rparr>"
  have 1: "refines t h ?h" by (rule refines_frame) (simp_all add: PongTimer open_commands_remove1)
  have 2: "refines t x (update_conn c g x)" for x g by (rule refines_frame) simp_all
  have "refines t ?h (pong_timeout n c t ?h)"
    using refines_trans [OF 2 refines_drop] by (simp add: pong_timeout_def split: option.split)
  then show ?thesis using refines_trans [OF 1] by (simp add: PongTimer)
qed (rule refines_frame; simp add: auth_timeout_def offline_check_def open_commands_remove1 split: option.split)+

lemma refines_monitor [hub_refines]: "refines t h (on_monitor f h)"
  by (rule refines_frame) simp_all

lemma refines_forget [hub_refines]: "refines t h (cleanup_metrics e now h)"
  by (rule refines_frame) (simp_all add: cleanup_metrics_def)

inductive_cases hub_stepE: "hub_step sha e (t, h) (t', h')"

lemma step_refines: "hub_step sha e (t, h) (t', h') \<Longrightarrow> refines t h h'"
  by (elim hub_stepE) (simp_all add: hub_refines)

section \<open>Reachable states\<close>

definition deadlines_ok :: "int \<Rightarrow> hub \<Rightarrow> bool" where
  "deadlines_ok t h \<longleftrightarrow> pending_ok h \<and> ledger_ok (ledger_of h) \<and>
     (\<forall>x \<in> set (fst (ledger_of h)). snd x \<le> t + CMD_TIMEOUT) \<and> (\<forall>x \<in> set (fst (ledger_of h)). t \<le> snd x)"

lemma deadlines_start: "deadlines_ok t (start_hub d)"
  by (simp add: deadlines_ok_def pending_ok_def ledger_ok_def ledger_of_def start_hub_def)

lemma step_time: "hub_step sha e (t, h) (t', h') \<Longrightarrow> t \<le> t'"
  by (elim hub_stepE) simp_all

lemma clock_deadline:
  assumes "hub_step sha e (t, h) (t', h')" and "t \<le> d" and "(i, d) \<in> set (fst (ledger_of h))"
  shows "t' \<le> d"
  using assms by (elim hub_stepE) (auto simp: ledger_of_def open_commands_mem)

lemma step_floor:
  assumes "hub_step sha e (t, h) (t', h')" and "\<forall>x \<in> set (fst (ledger_of h')). t \<le> snd x"
  shows "\<forall>x \<in> set (fst (ledger_of h')). t' \<le> snd x"
proof (cases "t' = t")
  case False
  then have "h' = h" using assms(1) by (elim hub_stepE) simp_all
  then show ?thesis using clock_deadline [OF assms(1)] assms(2) by auto
qed (use assms in simp)

lemma deadlines_step:
  assumes "hub_step sha e (t, h) (t', h')" and "deadlines_ok t h"
  shows "deadlines_ok t' h'"
proof -
  note r = step_refines [OF assms(1)] and o = assms(2) [unfolded deadlines_ok_def]
  have p: "pending_ok h'" and l: "(ledger_step t)\<^sup>*\<^sup>* (ledger_of h) (ledger_of h')" using r o by (simp_all add: refines_def)
  have "\<forall>x \<in> set (fst (ledger_of h')). snd x \<le> t + CMD_TIMEOUT" using ledger_steps_deadline [OF l] o by blast
  then have "\<forall>x \<in> set (fst (ledger_of h')). snd x \<le> t' + CMD_TIMEOUT" using step_time [OF assms(1)] by fastforce
  moreover have "\<forall>x \<in> set (fst (ledger_of h')). t' \<le> snd x"
    by (rule step_floor [OF assms(1)]) (use ledger_steps_floor [OF l] o in blast)
  ultimately show ?thesis using p ledger_steps_ok [OF l] o by (simp add: deadlines_ok_def)
qed

lemma reachable_induct [consumes 1, case_names start step]:
  assumes "hub_reachable sha e (t, h)" and "\<And>t d. P t (start_hub d)"
    and "\<And>t h t' h'. hub_reachable sha e (t, h) \<Longrightarrow> P t h \<Longrightarrow> hub_step sha e (t, h) (t', h') \<Longrightarrow> P t' h'"
  shows "P t h"
proof -
  obtain t0 d where s: "hub_steps sha e (t0, start_hub d) (t, h)" using assms(1) by (auto simp: hub_reachable_def)
  have "P (fst y) (snd y)" if "hub_steps sha e (t0, start_hub d) y" for y
    using that
  proof (induction rule: rtranclp_induct)
    case (step y z)
    have "hub_reachable sha e (fst y, snd y)" using step.hyps(1) by (auto simp: hub_reachable_def)
    then show ?case using assms(3) [of "fst y" "snd y" "fst z" "snd z"] step by simp
  qed (simp add: assms(2))
  from this [OF s] show ?thesis by simp
qed

lemma reachable_step: "hub_reachable sha e s \<Longrightarrow> hub_step sha e s s' \<Longrightarrow> hub_reachable sha e s'"
  unfolding hub_reachable_def by (meson rtranclp.rtrancl_into_rtrancl)

lemma reachable_deadlines: "hub_reachable sha e (t, h) \<Longrightarrow> deadlines_ok t h"
  by (induction rule: reachable_induct) (auto intro: deadlines_start deadlines_step)

text \<open>Until its answer a command keeps its place and its time.\<close>

lemma command_waits:
  assumes "hub_steps sha e (t0, h0) (t, h)" and "deadlines_ok t0 h0" and "t0 \<le> d" and "(i, d) \<in> set (fst (ledger_of h0))"
  shows "deadlines_ok t h \<and> (i \<in> fst ` set (snd (ledger_of h)) \<or> (i, d) \<in> set (fst (ledger_of h)) \<and> t \<le> d)"
  using assms(1)
proof (induction "(t, h)" arbitrary: t h rule: rtranclp_induct)
  case base
  then show ?case using assms by simp
next
  case (step s)
  obtain t1 h1 where s: "s = (t1, h1)" by (cases s)
  note IH = step.hyps(3) [OF s] and st = step.hyps(2) [unfolded s]
  have "(ledger_step t1)\<^sup>*\<^sup>* (ledger_of h1) (ledger_of h)"
    using step_refines [OF st] IH by (simp add: refines_def deadlines_ok_def)
  note k = ledger_steps_keep [OF this]
  have "i \<in> fst ` set (snd (ledger_of h)) \<or> (i, d) \<in> set (fst (ledger_of h)) \<and> t \<le> d"
  proof (cases "i \<in> fst ` set (snd (ledger_of h1))")
    case True
    then show ?thesis using k by blast
  next
    case False
    then have o: "(i, d) \<in> set (fst (ledger_of h1))" "t1 \<le> d" using IH by simp_all
    have "(i, d) \<in> set (fst (ledger_of h)) \<or> i \<in> fst ` set (snd (ledger_of h))"
      using bspec [OF conjunct1 [OF k] o(1)] by simp
    then show ?thesis using clock_deadline [OF st o(2,1)] by blast
  qed
  then show ?case using deadlines_step [OF st] IH by blast
qed

section \<open>The end of the process\<close>

definition end_of :: "hub \<Rightarrow> int option \<times> bool" where
  "end_of h = (hb_exit h, hb_down h)"

lemma end_frame [simp]:
  "end_of (on_monitor f h) = end_of h" "end_of (send_frame c fr h) = end_of h" "end_of (update_conn c g h) = end_of h"
  "end_of (close_conn c k h) = end_of h" "end_of (clear_timer k' h) = end_of h" "end_of (set_timer d k' h) = end_of h"
  "end_of (snd (getOrCreateMetrics n h)) = end_of h" "end_of (markDisconnected n t h) = end_of h" "end_of (answer_command i a h) = end_of h"
  "end_of (h\<lparr>hb_agents := ag\<rparr>) = end_of h" "end_of (h\<lparr>hb_pending := pe\<rparr>) = end_of h" "end_of (h\<lparr>hb_metrics := me\<rparr>) = end_of h"
  "end_of (h\<lparr>hb_conns := co\<rparr>) = end_of h" "end_of (h\<lparr>hb_throttle := th\<rparr>) = end_of h" "end_of (h\<lparr>hb_timers := ts\<rparr>) = end_of h"
  "end_of (h\<lparr>hb_next := nx\<rparr>) = end_of h"
  by (simp_all add: end_of_def on_monitor_def send_frame_def update_conn_def close_conn_def clear_timer_def set_timer_def getOrCreateMetrics_def
      markDisconnected_def answer_command_def split: option.split)

lemma end_fold: "(\<And>x h. end_of (f x h) = end_of h) \<Longrightarrow> end_of (fold f xs h) = end_of h"
  by (induction xs arbitrary: h) simp_all

lemma end_commands [simp]:
  "end_of (cleanupPendingCommands n h) = end_of h" "end_of (drop_agent n t h) = end_of h"
  "end_of (snd (sendCommand e i fails n cmd t h)) = end_of h" "end_of (issue_commands e ids cs t h) = end_of h"
  by (simp_all add: cleanupPendingCommands_def drop_agent_def sendCommand_def issue_commands_def end_fold Let_def split_beta split: option.split)

lemma end_report [simp]:
  "end_of (note_report n r t a h) = end_of h" "end_of (store_metrics n r t h) = end_of h" "end_of (handle_alerts e n as t h) = end_of h"
  "end_of (run_health_report e ids n hr t h) = end_of h"
  by (simp_all add: note_report_def store_metrics_def handle_alerts_def handle_alert_def run_health_report_def end_fold Let_def split_beta
      split: option.split)

lemma end_register [simp]: "end_of (register_agent c n nd v caps t h) = end_of h"
  by (simp add: register_agent_def Let_def split_beta split: option.split)

lemma end_messages [simp]:
  "end_of (handleReport e ids n r t h) = end_of h" "end_of (handleCmdResult i ok payload h) = end_of h" "end_of (handlePong n h) = end_of h"
  by (simp_all add: handleReport_def handleCmdResult_def handlePong_def Let_def split: option.split)

lemma end_timers [simp]:
  "end_of (on_connection ip t h) = end_of h" "end_of (on_close c t h) = end_of h" "end_of (ping_tick fails t h) = end_of h"
  "end_of (cleanup_metrics e t h) = end_of h"
  by (simp_all add: on_connection_def on_close_def ping_tick_def ping_agent_def end_fold cleanup_metrics_def Let_def
      split: option.split)

lemma end_fire [simp]: "end_of (fire_timer e k t h) = end_of h"
  by (cases k) (simp_all add: auth_timeout_def pong_timeout_def offline_check_def command_timeout_def split: option.split)

lemma end_message: "end_of (on_message sha e ids c raw t h) \<in> {end_of h, end_of (uncaught t h)}"
proof (cases "js_get (hb_conns h) c")
  case (Some x)
  have u: "end_of (uncaught t (update_conn c g h)) = end_of (uncaught t h)" for g
    using end_frame(3) [of c g h] by (simp add: uncaught_def gracefulShutdown_def end_of_def)
  have "end_of (handleMessage sha e ids c msg t (update_conn c g h)) \<in> {end_of h, end_of (uncaught t h)}" for msg g
    by (simp add: handleMessage_def handleAuth_def handleNormalAuth_def u split: option.split agent_msg.split js_id.split)
  then show ?thesis using Some by (simp add: on_message_def Let_def split: option.split)
qed (simp add: on_message_def)

text \<open>The time of the exit lies ahead and only comes nearer.\<close>

definition exit_by :: "int \<Rightarrow> hub \<Rightarrow> bool" where
  "exit_by x h \<longleftrightarrow> (\<exists>y. hb_exit h = Some y \<and> y \<le> x)"

lemma exit_by_end: "end_of h' = end_of h \<Longrightarrow> hb_exit h' = hb_exit h \<and> hb_down h' = hb_down h"
  by (simp add: end_of_def)

definition exit_ahead :: "int \<Rightarrow> hub \<Rightarrow> bool" where
  "exit_ahead t h \<longleftrightarrow> (case hb_exit h of None \<Rightarrow> True | Some x \<Rightarrow> t \<le> x)"

lemma step_exit:
  assumes "hub_step sha e (t, h) (t', h')" and "exit_ahead t h"
  shows "exit_ahead t' h' \<and> (exit_by x h \<longrightarrow> exit_by x h')"
proof -
  have same: ?thesis if "end_of h' = end_of h" "t' = t"
    using that assms(2) by (simp add: end_of_def exit_ahead_def exit_by_def)
  have stop: "exit_ahead t (gracefulShutdown y h) \<and> (exit_by x h \<longrightarrow> exit_by x (gracefulShutdown y h))" if "t \<le> y" for y
    using that assms(2) by (auto simp: exit_ahead_def exit_by_def gracefulShutdown_def EXIT_DELAY_def split: option.splits)
  show ?thesis
    using assms(1)
  proof (cases rule: hub_stepE [consumes 1, case_names connect message closed pings fire send patrols rest_of_panel forget signal all_closed forced clock])
    case (message ids c raw)
    have "exit_ahead t (uncaught t h) \<and> (exit_by x h \<longrightarrow> exit_by x (uncaught t h))"
      unfolding uncaught_def by (rule stop) (simp add: LOG_DELAY_def)
    then show ?thesis using end_message [of sha e ids c raw t h] message same by (auto simp: end_of_def exit_ahead_def exit_by_def)
  next
    case all_closed
    have "hb_exit (shutdown h) = hb_exit h"
      using exit_by_end [OF end_fold [of "\<lambda>a. close_conn (ae_conn a) 1001" "map snd (hb_agents h)" h]]
        exit_by_end [OF end_fold [of "\<lambda>i. answer_command i HubDown"]]
      by (simp add: shutdown_def Let_def)
    then show ?thesis using all_closed assms(2) by (simp add: exit_ahead_def exit_by_def)
  next
    case forced
    then show ?thesis using assms(2) by (simp add: exit_ahead_def exit_by_def)
  next
    case clock
    then show ?thesis by (auto simp: exit_ahead_def split: option.split)
  next
    case signal
    then show ?thesis using stop [of t] by simp
  qed (use same in simp_all)
qed

lemma reachable_exit: "hub_reachable sha e (t, h) \<Longrightarrow> exit_ahead t h"
proof (induction rule: reachable_induct)
  case (start t d)
  then show ?case by (simp add: exit_ahead_def start_hub_def)
qed (simp add: step_exit)

lemma steps_exit:
  assumes "hub_steps sha e (t, h) (t', h')" and "exit_ahead t h"
  shows "exit_ahead t' h' \<and> (exit_by x h \<longrightarrow> exit_by x h')"
  using assms(1)
proof (induction "(t', h')" arbitrary: t' h' rule: rtranclp_induct)
  case (step s)
  obtain t1 h1 where "s = (t1, h1)" by (cases s)
  then show ?case using step step_exit [of sha e t1 h1 t' h' x] by simp
qed (simp add: assms(2))

lemma step_down:
  assumes "hub_step sha e (t, h) (t', h')" and "hb_down h \<longrightarrow> hb_exit h \<noteq> None"
  shows "hb_down h' \<longrightarrow> hb_exit h' \<noteq> None"
proof -
  have up: "\<not> hb_down h" using assms(1) by (elim hub_stepE) simp_all
  have same: "\<not> hb_down h'" if "end_of h' = end_of h" using that up by (simp add: end_of_def)
  show ?thesis
    using assms(1)
  proof (cases rule: hub_stepE [consumes 1, case_names connect message closed pings fire send patrols rest_of_panel forget signal all_closed forced clock])
    case (message ids c raw)
    then show ?thesis using end_message [of sha e ids c raw t h] up by (auto simp: end_of_def uncaught_def gracefulShutdown_def)
  next
    case all_closed
    have "hb_exit (shutdown h) = hb_exit h"
      using exit_by_end [OF end_fold [of "\<lambda>a. close_conn (ae_conn a) 1001" "map snd (hb_agents h)" h]]
        exit_by_end [OF end_fold [of "\<lambda>i. answer_command i HubDown"]]
      by (simp add: shutdown_def Let_def)
    then show ?thesis using all_closed by (auto simp: server_closing_def split: option.splits)
  qed (use same up in \<open>simp_all add: gracefulShutdown_def\<close>)
qed

lemma reachable_down: "hub_reachable sha e (t, h) \<Longrightarrow> hb_down h \<Longrightarrow> hb_exit h \<noteq> None"
proof (induction rule: reachable_induct)
  case (start t d)
  then show ?case by (simp add: start_hub_def)
next
  case (step t h t' h')
  then show ?case using step_down [OF step.hyps(2)] by blast
qed

section \<open>The clock can always advance until the process ends\<close>

lemma timers_shrink:
  "length (hb_timers (answer_command i a h)) \<le> length (hb_timers h)"
  by (simp add: answer_command_def clear_timer_def)

lemma timers_fold:
  "(\<And>x h. length (hb_timers (f x h)) \<le> length (hb_timers h)) \<Longrightarrow> length (hb_timers (fold f xs h)) \<le> length (hb_timers h)"
proof (induction xs arbitrary: h)
  case (Cons x xs)
  show ?case using order_trans [OF Cons.IH [OF Cons.prems] Cons.prems] by simp
qed simp

lemma timers_drop: "length (hb_timers (drop_agent n now h)) \<le> length (hb_timers h)"
  unfolding drop_agent_def cleanupPendingCommands_def
  by (rule order_trans [OF timers_fold [OF timers_shrink]]) simp

lemma timers_fire: "length (hb_timers (fire_timer e k now h)) \<le> length (hb_timers h)"
proof (cases k)
  case (PongTimer n c)
  then show ?thesis
    using timers_drop [of n now "update_conn c (\<lambda>x. x\<lparr>co_open := False\<rparr>) h"]
    by (simp add: pong_timeout_def split: option.split)
qed (simp_all add: auth_timeout_def offline_check_def command_timeout_def timers_shrink split: option.split)

lemma fire_keeps_running: "hb_exit (fire_timer e k t h) = hb_exit h \<and> hb_down (fire_timer e k t h) = hb_down h"
  using end_fire [of e k t h] by (simp only: end_of_def prod.inject)

lemma clock_runs:
  "t \<le> T \<Longrightarrow> exit_ahead t h \<Longrightarrow>
    \<exists>t' h'. hub_steps sha e (t, h) (t', h') \<and> t' \<le> T \<and> (t' = T \<or> hb_down h') \<and> (hb_exit h = None \<and> \<not> hb_down h \<longrightarrow> t' = T)"
proof (induction "length (hb_timers h)" arbitrary: t h rule: less_induct)
  case less
  show ?case
  proof (cases "hb_down h")
    case True
    then show ?thesis using less.prems by blast
  next
    case False
    note up = False
    let ?next = "\<lambda>u. t \<le> u \<and> (\<forall>x \<in> set (hb_timers h). u \<le> fst x) \<and> (\<forall>x. hb_exit h = Some x \<longrightarrow> u \<le> x)"
    have go: "hub_step sha e (t, h) (u, h)" if "?next u" for u
      using that up by (intro hub_step.clock) fastforce+
    consider (T) "?next T" | (exit) x where "hb_exit h = Some x" "x < T" "\<forall>y \<in> set (hb_timers h). x \<le> fst y"
      | (due) d k where "(d, k) \<in> set (hb_timers h)" "d < T" "\<forall>y \<in> set (hb_timers h). d \<le> fst y" "\<forall>x. hb_exit h = Some x \<longrightarrow> d \<le> x"
    proof -
      let ?due = "Min (fst ` set (hb_timers h))"
      have le: "?due \<le> fst y" if "y \<in> set (hb_timers h)" for y using that by (intro Min_le) simp_all
      have mem: "\<exists>k. (?due, k) \<in> set (hb_timers h)" if "hb_timers h \<noteq> []"
      proof -
        have "?due \<in> fst ` set (hb_timers h)" using that by (intro Min_in) simp_all
        then show ?thesis by (metis (no_types, lifting) imageE prod.collapse)
      qed
      consider "hb_timers h = []" | "hb_timers h \<noteq> []" by blast
      then show thesis
      proof cases
        case 1
        then show thesis using that(1,2) less.prems(1) by (cases "hb_exit h") force+
      next
        case 2
        obtain k where k: "(?due, k) \<in> set (hb_timers h)" using mem [OF 2] by blast
        have before: "\<forall>y \<in> set (hb_timers h). x \<le> fst y" if "x \<le> ?due" for x using le order_trans [OF that] by blast
        show thesis
        proof (cases "hb_exit h")
          case None
          show thesis
          proof (cases "?due < T")
            case True
            then show thesis using None le by (intro that(3) [OF k]) simp_all
          next
            case False
            then show thesis using before [of T] less.prems(1) None by (intro that(1)) simp
          qed
        next
          case (Some x)
          consider "?due < T \<and> ?due \<le> x" | "x < T \<and> x \<le> ?due" | "T \<le> x \<and> T \<le> ?due" by linarith
          then show thesis
          proof cases
            case 1
            then show thesis using Some le by (intro that(3) [OF k]) simp_all
          next
            case 2
            then show thesis using before [of x] by (intro that(2) [OF Some]) simp_all
          next
            case 3
            then show thesis using before [of T] less.prems(1) Some by (intro that(1)) simp
          qed
        qed
      qed
    qed
    then show ?thesis
    proof cases
      case T
      then show ?thesis using go by blast
    next
      case (exit x)
      have "t \<le> x" using less.prems(2) exit(1) by (simp add: exit_ahead_def)
      then have "hub_step sha e (t, h) (x, h)" using exit by (intro go) auto
      moreover have "hub_step sha e (x, h) (x, h\<lparr>hb_down := True\<rparr>)" using up exit(1) by (rule hub_step.forced)
      ultimately have "hub_steps sha e (t, h) (x, h\<lparr>hb_down := True\<rparr>)" by (meson r_into_rtranclp rtranclp_trans)
      then show ?thesis using exit(1,2) by (intro exI [of _ x] exI [of _ "h\<lparr>hb_down := True\<rparr>"]) simp
    next
      case (due d k)
      let ?t = "max t d" and ?h = "\<lambda>t. fire_timer e k t (h\<lparr>hb_timers := remove1 (d, k) (hb_timers h)\<rparr>)"
      have 1: "hub_steps sha e (t, h) (?t, h)"
      proof (cases "t \<le> d")
        case True
        then show ?thesis using go [of d] due by (auto simp: max_def)
      qed (simp add: max_def)
      have 2: "hub_step sha e (?t, h) (?t, ?h ?t)" using up due(1) by (rule hub_step.fire) simp
      have "exit_ahead ?t h" using less.prems(2) due(4) by (auto simp: exit_ahead_def split: option.splits)
      then have "exit_ahead ?t (?h ?t)" by (rule conjunct1 [OF step_exit [OF 2]])
      moreover have "length (hb_timers (?h ?t)) < length (hb_timers h)"
      proof (rule le_less_trans [OF timers_fire])
        show "length (hb_timers (h\<lparr>hb_timers := remove1 (d, k) (hb_timers h)\<rparr>)) < length (hb_timers h)"
          using length_pos_if_in_set [OF due(1)] due(1) by (simp add: length_remove1 del: length_greater_0_conv)
      qed
      moreover have "?t \<le> T" using less.prems(1) due(2) by simp
      ultimately obtain t' h' where s: "hub_steps sha e (?t, ?h ?t) (t', h')" "t' \<le> T" "t' = T \<or> hb_down h'"
          "hb_exit (?h ?t) = None \<and> \<not> hb_down (?h ?t) \<longrightarrow> t' = T"
        using less.hyps [of "?h ?t" ?t] by blast
      have "hub_steps sha e (t, h) (t', h')" by (rule rtranclp_trans [OF 1 converse_rtranclp_into_rtranclp [OF 2 s(1)]])
      moreover have "hb_exit h = None \<and> \<not> hb_down h \<longrightarrow> t' = T" using s(4) fire_keeps_running by simp
      ultimately show ?thesis using s(2,3) by blast
    qed
  qed
qed

end
