(* ===== verification/HubAgents.thy ===== *)
theory HubAgents
  imports HubSteps
begin

text \<open>
  Who is registered in the hub: every registered agent hangs on an authenticated connection of exactly
  that node. Most operations are \<open>quiet\<close>: they register nobody and change the authentication of no
  connection; the collection \<open>hub_quiet\<close> says which, and a step is quiet, or opens a connection,
  registers an agent or closes a connection.
\<close>

definition same_auth :: "conn option \<Rightarrow> conn option \<Rightarrow> bool" where
  "same_auth x y \<longleftrightarrow> map_option (\<lambda>z. (co_auth z, co_node z)) x = map_option (\<lambda>z. (co_auth z, co_node z)) y"

definition quiet :: "hub \<Rightarrow> hub \<Rightarrow> bool" where
  "quiet h h' \<longleftrightarrow> hb_next h' = hb_next h \<and> (\<forall>c. same_auth (js_get (hb_conns h) c) (js_get (hb_conns h') c)) \<and>
     (\<forall>n. js_get (hb_agents h') n = None \<or>
          map_option ae_conn (js_get (hb_agents h') n) = map_option ae_conn (js_get (hb_agents h) n))"

definition agents_ok :: "hub \<Rightarrow> bool" where
  "agents_ok h \<longleftrightarrow>
     (\<forall>n a. js_get (hb_agents h) n = Some a \<longrightarrow> n \<noteq> 0 \<and>
        map_option (\<lambda>z. (co_auth z, co_node z)) (js_get (hb_conns h) (ae_conn a)) = Some (True, n)) \<and>
     (\<forall>c. js_get (hb_conns h) c \<noteq> None \<longrightarrow> c < hb_next h)"

named_theorems hub_quiet \<open>operations of the hub that register nobody\<close>

lemma quiet_refl [simp]: "quiet h h"
  by (simp add: quiet_def same_auth_def)

lemma quiet_trans: "quiet a b \<Longrightarrow> quiet b c \<Longrightarrow> quiet a c"
  unfolding quiet_def same_auth_def by (metis option.map_disc_iff)

lemma quiet_fold: "(\<And>x h. quiet h (f x h)) \<Longrightarrow> quiet h (fold f xs h)"
proof (induction xs arbitrary: h)
  case (Cons x xs)
  show ?case using quiet_trans [OF Cons.prems [of h x] Cons.IH [OF Cons.prems]] by simp
qed simp

lemma quiet_same:
  "hb_conns h' = hb_conns h \<Longrightarrow> hb_next h' = hb_next h \<Longrightarrow> hb_agents h' = hb_agents h \<Longrightarrow> quiet h h'"
  by (simp add: quiet_def same_auth_def)

lemma quiet_ok:
  assumes "quiet h h'" and "agents_ok h"
  shows "agents_ok h'"
proof -
  let ?f = "map_option (\<lambda>z. (co_auth z, co_node z))"
  have cs: "?f (js_get (hb_conns h') c) = ?f (js_get (hb_conns h) c)" for c
    using assms(1) by (simp add: quiet_def same_auth_def)
  have ag: "map_option ae_conn (js_get (hb_agents h) n) = Some (ae_conn a)" if "js_get (hb_agents h') n = Some a" for n a
  proof -
    have "js_get (hb_agents h') n = None \<or> map_option ae_conn (js_get (hb_agents h') n) = map_option ae_conn (js_get (hb_agents h) n)"
      using assms(1) unfolding quiet_def by blast
    then show ?thesis using that by (metis option.distinct(1) option.simps(9))
  qed
  have nx: "hb_next h' = hb_next h" using assms(1) by (simp add: quiet_def)
  have "n \<noteq> 0 \<and> ?f (js_get (hb_conns h') (ae_conn a)) = Some (True, n)" if "js_get (hb_agents h') n = Some a" for n a
  proof -
    have "map_option ae_conn (js_get (hb_agents h) n) = Some (ae_conn a)" by (rule ag [OF that])
    then obtain b where "js_get (hb_agents h) n = Some b" "ae_conn b = ae_conn a" by auto
    moreover from this have "n \<noteq> 0 \<and> ?f (js_get (hb_conns h) (ae_conn b)) = Some (True, n)"
      using assms(2) unfolding agents_ok_def by blast
    ultimately show ?thesis unfolding cs by simp
  qed
  moreover have "c < hb_next h'" if "js_get (hb_conns h') c \<noteq> None" for c
  proof -
    have "?f (js_get (hb_conns h) c) \<noteq> None" unfolding cs [symmetric] using that by simp
    then have "js_get (hb_conns h) c \<noteq> None" by (metis option.map_disc_iff)
    then show ?thesis using assms(2) by (simp add: agents_ok_def nx)
  qed
  ultimately show ?thesis unfolding agents_ok_def by blast
qed

lemma registered_iff: "registered c n h \<longleftrightarrow> map_option ae_conn (js_get (hb_agents h) n) = Some c"
  by (auto simp: registered_def split: option.split)

lemma quiet_registered:
  assumes "quiet h h'" and "registered c n h'"
  shows "registered c n h"
proof -
  have "js_get (hb_agents h') n = None \<or> map_option ae_conn (js_get (hb_agents h') n) = map_option ae_conn (js_get (hb_agents h) n)"
    using assms(1) unfolding quiet_def by blast
  then show ?thesis using assms(2) unfolding registered_iff by (metis option.distinct(1) option.simps(8))
qed

lemma quiet_monitor [hub_quiet]: "quiet h (on_monitor f h)"
  by (rule quiet_same) (simp_all add: on_monitor_def)

lemma quiet_send [hub_quiet]: "quiet h (send_frame c f h)"
  by (rule quiet_same) (simp_all add: send_frame_def)

lemma quiet_clear [hub_quiet]: "quiet h (clear_timer k h)"
  by (rule quiet_same) (simp_all add: clear_timer_def)

lemma quiet_set_timer [hub_quiet]: "quiet h (set_timer d k h)"
  by (rule quiet_same) (simp_all add: set_timer_def)

lemma quiet_conn:
  "(\<And>x. co_auth (g x) = co_auth x \<and> co_node (g x) = co_node x) \<Longrightarrow> quiet h (update_conn c g h)"
  by (auto simp: quiet_def same_auth_def update_conn_def split: option.split)

lemma quiet_close_conn [hub_quiet]: "quiet h (close_conn c k h)"
  unfolding close_conn_def by (rule quiet_trans [OF quiet_conn quiet_send]) simp

lemma quiet_count [hub_quiet]: "quiet h (update_conn c (count_message t) h)"
  by (rule quiet_conn) (simp add: count_message_def Let_def)

lemma quiet_metrics [hub_quiet]: "quiet h (snd (getOrCreateMetrics n h))"
  by (rule quiet_same) (simp_all add: getOrCreateMetrics_def split: option.split)

lemma quiet_answer [hub_quiet]: "quiet h (answer_command i a h)"
  by (rule quiet_same) (simp_all add: answer_command_def clear_timer_def)

lemma quiet_cleanup: "quiet h (cleanupPendingCommands n h)"
  unfolding cleanupPendingCommands_def by (rule quiet_fold) (rule quiet_answer)

lemma mark_frame [simp]:
  "hb_conns (markDisconnected n t h) = hb_conns h" "hb_next (markDisconnected n t h) = hb_next h"
  "hb_agents (markDisconnected n t h) = hb_agents h"
  by (simp_all add: markDisconnected_def getOrCreateMetrics_def split: option.split)

lemma quiet_drop [hub_quiet]: "quiet h (drop_agent n t h)"
  unfolding drop_agent_def
  by (rule quiet_trans [OF _ quiet_cleanup]) (simp add: quiet_def same_auth_def js_get_remove)

lemma quiet_agent:
  "js_get (hb_agents h) n = Some a \<Longrightarrow> ae_conn b = ae_conn a \<Longrightarrow> quiet h (h\<lparr>hb_agents := js_set n b (hb_agents h)\<rparr>)"
  by (simp add: quiet_def same_auth_def)

lemma quiet_send_command [hub_quiet]: "quiet h (snd (sendCommand e i fails n cmd t h))"
proof (cases "resolveAgentForNode e n h")
  case (Some a)
  let ?h = "(set_timer (t + CMD_TIMEOUT) (CommandTimer i) h)\<lparr>hb_pending := js_set i n (hb_pending h)\<rparr>"
  have "quiet h ?h" by (rule quiet_same) (simp_all add: set_timer_def)
  then show ?thesis using quiet_trans quiet_answer quiet_send Some
    by (cases a) (auto simp: sendCommand_def Let_def)
qed (simp add: sendCommand_def)

lemma quiet_health: "quiet h (run_health_report e ids n r t h)"
  unfolding run_health_report_def issue_commands_def Let_def
  by (rule quiet_trans [OF quiet_monitor quiet_fold]) (auto simp: quiet_send_command split: prod.split)

lemma quiet_note: "js_get (hb_agents h) n = Some a \<Longrightarrow> quiet h (note_report n r t a h)"
  by (auto simp: note_report_def quiet_def same_auth_def getOrCreateMetrics_def Let_def split: option.split)

lemma quiet_store: "quiet h (store_metrics n r t h)"
proof (cases "js_get (hb_agents h) n")
  case (Some a)
  then show ?thesis unfolding store_metrics_def Let_def
    by (auto intro: quiet_trans [OF quiet_agent quiet_monitor])
qed (simp add: store_metrics_def)

lemma quiet_alert: "quiet h (handle_alert n nm t al h)"
  by (rule quiet_same) (simp_all add: handle_alert_def on_monitor_def Let_def split: option.split)

lemma quiet_alerts: "quiet h (handle_alerts e n as t h)"
proof (cases "as = []")
  case False
  then show ?thesis unfolding handle_alerts_def Let_def
    by (simp add: quiet_trans [OF quiet_fold [OF quiet_alert] quiet_monitor])
qed (simp add: handle_alerts_def)

lemma quiet_report [hub_quiet]: "quiet h (handleReport e ids n r t h)"
proof (cases "js_get (hb_agents h) n")
  case (Some a)
  note 1 = quiet_trans [OF quiet_note [OF Some, of r t] quiet_health]
  note 2 = quiet_trans [OF quiet_trans [OF 1 quiet_monitor] quiet_store]
  show ?thesis using quiet_trans [OF 2 quiet_alerts] Some by (simp add: handleReport_def Let_def)
qed (simp add: handleReport_def)

lemma quiet_result [hub_quiet]: "quiet h (handleCmdResult i ok p h)"
  by (simp add: handleCmdResult_def quiet_answer)

lemma quiet_pong [hub_quiet]: "quiet h (handlePong n h)"
  by (auto simp: handlePong_def intro: quiet_agent split: option.split)

lemma quiet_stop [hub_quiet]: "quiet h (gracefulShutdown x h)" "quiet h (uncaught x h)"
  by (rule quiet_same; simp add: uncaught_def gracefulShutdown_def)+

lemma quiet_down [hub_quiet]: "quiet h (h\<lparr>hb_down := True\<rparr>)"
  by (rule quiet_same) simp_all

lemma quiet_ping [hub_quiet]: "quiet h (ping_tick fails t h)"
  unfolding ping_tick_def
proof (rule quiet_fold)
  fix n and h :: hub
  show "quiet h (ping_agent fails t n h)"
  proof (cases "js_get (hb_agents h) n")
    case (Some a)
    have 1: "quiet h (h\<lparr>hb_agents := js_set n (a\<lparr>ae_pong := False\<rparr>) (hb_agents h)\<rparr>)" using Some by (rule quiet_agent) simp
    show ?thesis
      using Some quiet_trans [OF 1 quiet_drop] quiet_trans [OF quiet_trans [OF 1 quiet_send] quiet_set_timer]
      by (simp add: ping_agent_def quiet_drop Let_def)
  qed (simp add: ping_agent_def)
qed

lemma quiet_shutdown [hub_quiet]: "quiet h (shutdown h)"
proof -
  let ?h = "fold (\<lambda>a. close_conn (ae_conn a) 1001) (map snd (hb_agents h)) h"
  have 1: "quiet h ?h" by (rule quiet_fold) (rule quiet_close_conn)
  have 2: "quiet ?h (?h\<lparr>hb_agents := []\<rparr>)" by (simp add: quiet_def same_auth_def)
  have 3: "quiet (?h\<lparr>hb_agents := []\<rparr>) (fold (\<lambda>i. answer_command i HubDown) (map fst (hb_pending ?h)) (?h\<lparr>hb_agents := []\<rparr>))"
    by (rule quiet_fold) (rule quiet_answer)
  have 4: "quiet x (x\<lparr>hb_down := True\<rparr>)" for x by (rule quiet_same) simp_all
  show ?thesis unfolding shutdown_def Let_def using quiet_trans [OF quiet_trans [OF 1 2] quiet_trans [OF 3 4]] .
qed

lemma quiet_fire [hub_quiet]: "quiet h (fire_timer e k t (h\<lparr>hb_timers := ts\<rparr>))"
proof (rule quiet_trans)
  show "quiet h (h\<lparr>hb_timers := ts\<rparr>)" by (rule quiet_same) simp_all
  show "quiet (h\<lparr>hb_timers := ts\<rparr>) (fire_timer e k t (h\<lparr>hb_timers := ts\<rparr>))" (is "quiet ?h _")
  proof (cases k)
    case (PongTimer n c)
    have "quiet ?h (drop_agent n t (update_conn c (\<lambda>x. x\<lparr>co_open := False\<rparr>) ?h))"
      by (rule quiet_trans [OF quiet_conn quiet_drop]) simp
    then show ?thesis by (simp add: PongTimer pong_timeout_def split: option.split)
  qed (simp_all add: auth_timeout_def offline_check_def command_timeout_def hub_quiet split: option.split)
qed

lemma quiet_forget [hub_quiet]: "quiet h (cleanup_metrics e t h)"
  by (rule quiet_same) (simp_all add: cleanup_metrics_def)

section \<open>The other steps\<close>

lemma quiet_handle:
  "quiet h (handleMessage sha e ids c msg t h) \<or>
   (\<exists>x token n v caps nd. js_get (hb_conns h) c = Some x \<and> \<not> co_auth x \<and> msg = MAuth token (IdInt n) v caps \<and> token \<noteq> [] \<and> n \<noteq> 0 \<and>
      getNodeById (he_dec e) n (hub_db h) = Some nd \<and> safeTokenEqual sha token (or_else (n_agent_token nd) []) \<and>
      handleMessage sha e ids c msg t h = register_agent c n nd v caps t h)"
proof (cases "js_get (hb_conns h) c")
  case (Some x)
  show ?thesis
  proof (cases msg)
    case (MAuth token nid v caps)
    show ?thesis
    proof (cases "quiet h (handleMessage sha e ids c msg t h)")
      case False
      then have t: "token \<noteq> []" "\<not> co_auth x"
        using Some MAuth by (auto simp: handleMessage_def handleAuth_def quiet_close_conn split: if_splits)
      then have q: "\<not> quiet h (handleNormalAuth sha e c token nid v caps t h)"
        using False Some MAuth by (simp add: handleMessage_def handleAuth_def)
      then obtain n where n: "nid = IdInt n" by (cases nid) (auto simp: handleNormalAuth_def quiet_stop)
      then have n0: "n \<noteq> 0" using q by (auto simp: handleNormalAuth_def quiet_close_conn)
      then obtain nd where nd: "getNodeById (he_dec e) n (hub_db h) = Some nd"
        using q n by (cases "getNodeById (he_dec e) n (hub_db h)") (auto simp: handleNormalAuth_def quiet_close_conn)
      then have "safeTokenEqual sha token (or_else (n_agent_token nd) [])"
        using q n n0 by (auto simp: handleNormalAuth_def quiet_close_conn split: if_splits)
      then show ?thesis using Some MAuth t n n0 nd by (simp add: handleMessage_def handleAuth_def handleNormalAuth_def)
    qed simp
  qed (use Some in \<open>simp_all add: handleMessage_def hub_quiet\<close>)
qed (simp add: handleMessage_def)

text \<open>The registration of an agent, as the caller of the hub sees it.\<close>

definition admits :: "(string \<Rightarrow> string) \<Rightarrow> health_env \<Rightarrow> int \<Rightarrow> nat \<Rightarrow> string \<Rightarrow> int \<Rightarrow> node \<Rightarrow> hub \<Rightarrow> hub \<Rightarrow> bool" where
  "admits sha e t c token n nd h h' \<longleftrightarrow>
     (\<exists>x v caps. js_get (hb_conns h) c = Some x \<and> \<not> co_auth x \<and> token \<noteq> [] \<and> n \<noteq> 0 \<and>
        getNodeById (he_dec e) n (hub_db h) = Some nd \<and> safeTokenEqual sha token (or_else (n_agent_token nd) []) \<and>
        h' = register_agent c n nd v caps t (update_conn c (count_message t) h))"

lemma update_conn_db [simp]: "hb_monitor (update_conn c g h) = hb_monitor h"
  by (simp add: update_conn_def split: option.split)

lemma quiet_message:
  "quiet h (on_message sha e ids c raw t h) \<or> (\<exists>token n nd. admits sha e t c token n nd h (on_message sha e ids c raw t h))"
proof (cases "js_get (hb_conns h) c")
  case (Some x)
  let ?h = "update_conn c (count_message t) h"
  have q: "quiet h ?h" by (rule quiet_count)
  have m: "on_message sha e ids c raw t h =
      (if 60 < co_count (count_message t x) then close_conn c 4008 ?h
       else case raw of None \<Rightarrow> close_conn c 4002 ?h | Some msg \<Rightarrow> handleMessage sha e ids c msg t ?h)"
    using Some by (simp add: on_message_def Let_def)
  consider (shut) k where "on_message sha e ids c raw t h = close_conn c k ?h"
    | (msg) m where "on_message sha e ids c raw t h = handleMessage sha e ids c m t ?h"
    unfolding m by (cases "60 < co_count (count_message t x)"; cases raw) simp_all
  then show ?thesis
  proof cases
    case shut
    then show ?thesis using quiet_trans [OF q quiet_close_conn] by simp
  next
    case (msg m)
    have x: "js_get (hb_conns ?h) c = Some (count_message t x)" using Some by (simp add: update_conn_def)
    have a: "co_auth (count_message t x) = co_auth x" by (simp add: count_message_def Let_def)
    from quiet_handle [of ?h sha e ids c m t] show ?thesis
    proof
      assume "quiet ?h (handleMessage sha e ids c m t ?h)"
      then show ?thesis using quiet_trans [OF q] msg by simp
    next
      assume "\<exists>y token n v caps nd. js_get (hb_conns ?h) c = Some y \<and> \<not> co_auth y \<and> m = MAuth token (IdInt n) v caps \<and> token \<noteq> [] \<and> n \<noteq> 0 \<and>
        getNodeById (he_dec e) n (hub_db ?h) = Some nd \<and> safeTokenEqual sha token (or_else (n_agent_token nd) []) \<and>
        handleMessage sha e ids c m t ?h = register_agent c n nd v caps t ?h"
      then obtain y token n v caps nd where y: "js_get (hb_conns ?h) c = Some y" "\<not> co_auth y" "token \<noteq> []" "n \<noteq> 0"
        "getNodeById (he_dec e) n (hub_db ?h) = Some nd" "safeTokenEqual sha token (or_else (n_agent_token nd) [])"
        "handleMessage sha e ids c m t ?h = register_agent c n nd v caps t ?h" by blast
      then have "admits sha e t c token n nd h (on_message sha e ids c raw t h)"
        unfolding admits_def msg by (intro exI [of _ x] exI [of _ v] exI [of _ caps]) (use Some x a in simp)
      then show ?thesis by blast
    qed
  qed
qed (simp add: on_message_def)

lemma step_kinds:
  assumes "hub_step sha e (t, h) (t', h')"
  shows "quiet h h' \<or> (\<exists>ip. h' = on_connection ip t h) \<or> (\<exists>c. h' = on_close c t h) \<or>
    (\<exists>c token n nd. admits sha e t c token n nd h h')"
  using assms
proof (cases rule: hub_stepE [consumes 1, case_names connect message closed pings fire send patrols rest_of_panel forget signal all_closed forced clock])
  case (message ids c raw)
  then show ?thesis using quiet_message [of h sha e ids c raw t] by auto
qed (auto intro: hub_quiet)

section \<open>The invariant\<close>

lemma get_update_conn:
  "js_get (hb_conns (update_conn c g h)) d = (if d = c then map_option g (js_get (hb_conns h) c) else js_get (hb_conns h) d)"
  by (auto simp: update_conn_def split: option.split)

lemma get_close_conn:
  "same_auth (js_get (hb_conns h) d) (js_get (hb_conns (close_conn c k h)) d)"
  by (cases "js_get (hb_conns h) c") (auto simp: same_auth_def close_conn_def send_frame_def get_update_conn)

lemma on_connection_ok:
  assumes "agents_ok h"
  shows "agents_ok (on_connection ip t h)"
proof -
  have new: "js_get (hb_conns h) (hb_next h) = None" using assms unfolding agents_ok_def by blast
  have "c \<noteq> hb_next h" if "js_get (hb_agents h) n = Some a" "ae_conn a = c" for n a c
    using assms that new unfolding agents_ok_def by (metis option.map(1) option.distinct(1))
  then show ?thesis using assms
    by (auto simp: agents_ok_def on_connection_def set_timer_def Let_def less_Suc_eq)
qed

lemma on_close_ok:
  assumes "agents_ok h"
  shows "agents_ok (on_close c t h)"
proof (cases "js_get (hb_conns h) c")
  case (Some x)
  let ?h = "(clear_timer (AuthTimer c) h)\<lparr>hb_conns := filter (\<lambda>y. fst y \<noteq> c) (hb_conns h)\<rparr>"
  show ?thesis
  proof (cases "co_node x \<noteq> 0 \<and> registered c (co_node x) ?h")
    case True
    let ?g = "(markDisconnected (co_node x) t ?h)\<lparr>hb_agents := filter (\<lambda>y. fst y \<noteq> co_node x) (hb_agents ?h)\<rparr>"
    have "ae_conn a \<noteq> c" if a: "js_get (hb_agents h) n = Some a" "n \<noteq> co_node x" for n a
      using assms a Some unfolding agents_ok_def by fastforce
    then have "agents_ok ?g" using assms by (auto simp: agents_ok_def js_get_remove clear_timer_def)
    then have "agents_ok (set_timer (t + 30000) (OfflineTimer (co_node x)) (drop_agent (co_node x) t ?h))"
      unfolding drop_agent_def by (intro quiet_ok [OF quiet_trans [OF quiet_cleanup quiet_set_timer]])
    then show ?thesis using Some True by (simp add: on_close_def Let_def)
  next
    case False
    have "ae_conn a \<noteq> c" if a: "js_get (hb_agents h) n = Some a" for n a
    proof
      assume c: "ae_conn a = c"
      then have "co_node x = n" "n \<noteq> 0" using assms a Some unfolding agents_ok_def by fastforce+
      then show False using False a c by (simp add: registered_def clear_timer_def)
    qed
    then have "agents_ok ?h" using assms by (auto simp: agents_ok_def js_get_remove clear_timer_def)
    then show ?thesis using Some False by (auto simp: on_close_def Let_def)
  qed
qed (simp add: on_close_def assms)

lemma register_agent_view:
  "hb_next (register_agent c n nd v caps t h) = hb_next h"
  "map_option ae_conn (js_get (hb_agents (register_agent c n nd v caps t h)) m) =
     (if m = n then Some c else map_option ae_conn (js_get (hb_agents h) m))"
  "map_option (\<lambda>z. (co_auth z, co_node z)) (js_get (hb_conns (register_agent c n nd v caps t h)) d) =
     (if d = c \<and> js_get (hb_conns h) c \<noteq> None then Some (True, n) else map_option (\<lambda>z. (co_auth z, co_node z)) (js_get (hb_conns h) d))"
  by (auto simp: register_agent_def Let_def split_beta on_monitor_def send_frame_def getOrCreateMetrics_def close_conn_def
      clear_timer_def update_conn_def split: option.split)

lemma admits_ok:
  assumes "agents_ok h" and "admits sha e t c token n nd h h'"
  shows "agents_ok h'"
proof -
  let ?g = "update_conn c (count_message t) h"
  obtain x v caps where x: "js_get (hb_conns h) c = Some x" "\<not> co_auth x" "n \<noteq> 0" "h' = register_agent c n nd v caps t ?g"
    using assms(2) unfolding admits_def by blast
  have g: "agents_ok ?g" by (rule quiet_ok [OF quiet_count assms(1)])
  have c: "map_option (\<lambda>z. (co_auth z, co_node z)) (js_get (hb_conns ?g) c) = Some (False, co_node x)"
    using x by (simp add: get_update_conn count_message_def Let_def)
  have "m \<noteq> 0 \<and> map_option (\<lambda>z. (co_auth z, co_node z)) (js_get (hb_conns h') (ae_conn a)) = Some (True, m)"
    if a: "js_get (hb_agents h') m = Some a" for m a
  proof (cases "m = n")
    case True
    have "ae_conn a = c" using register_agent_view(2) [of c n nd v caps t ?g m] a True x(4) by simp
    then show ?thesis using c x(3) True unfolding x(4) register_agent_view by auto
  next
    case False
    have "map_option ae_conn (js_get (hb_agents ?g) m) = Some (ae_conn a)"
      using register_agent_view(2) [of c n nd v caps t ?g m] a False x(4) by simp
    then obtain b where b: "js_get (hb_agents ?g) m = Some b" "ae_conn b = ae_conn a" by auto
    moreover from this have "m \<noteq> 0 \<and> map_option (\<lambda>z. (co_auth z, co_node z)) (js_get (hb_conns ?g) (ae_conn b)) = Some (True, m)"
      using g unfolding agents_ok_def by blast
    ultimately have m: "m \<noteq> 0" "map_option (\<lambda>z. (co_auth z, co_node z)) (js_get (hb_conns ?g) (ae_conn a)) = Some (True, m)" by simp_all
    then have "ae_conn a \<noteq> c" using c by auto
    then show ?thesis using m unfolding x(4) register_agent_view by simp
  qed
  moreover have "d < hb_next h'" if d: "js_get (hb_conns h') d \<noteq> None" for d
  proof -
    have "map_option (\<lambda>z. (co_auth z, co_node z)) (js_get (hb_conns h') d) \<noteq> None" using d by simp
    then have "js_get (hb_conns ?g) d \<noteq> None" unfolding x(4) register_agent_view by (auto split: if_splits)
    then show ?thesis using g by (simp add: x(4) register_agent_view(1) agents_ok_def)
  qed
  ultimately show ?thesis unfolding agents_ok_def by blast
qed

lemma agents_ok_step: "hub_step sha e (t, h) (t', h') \<Longrightarrow> agents_ok h \<Longrightarrow> agents_ok h'"
  by (drule step_kinds) (auto intro: quiet_ok on_connection_ok on_close_ok admits_ok)

lemma agents_ok_start: "agents_ok (start_hub d)"
  by (simp add: agents_ok_def start_hub_def)

lemma reachable_agents: "hub_reachable sha e (t, h) \<Longrightarrow> agents_ok h"
  by (induction rule: reachable_induct) (auto intro: agents_ok_step agents_ok_start)

lemma on_connection_registered: "registered c n (on_connection ip t h) = registered c n h"
  by (simp add: registered_iff on_connection_def set_timer_def Let_def)

lemma on_close_registered: "registered c n (on_close d t h) \<Longrightarrow> registered c n h"
proof (cases "js_get (hb_conns h) d")
  case (Some x)
  let ?h = "(clear_timer (AuthTimer d) h)\<lparr>hb_conns := filter (\<lambda>y. fst y \<noteq> d) (hb_conns h)\<rparr>"
  assume r: "registered c n (on_close d t h)"
  have "registered c n ?h"
  proof (cases "co_node x \<noteq> 0 \<and> registered d (co_node x) ?h")
    case True
    then show ?thesis
      using r Some quiet_registered [OF quiet_trans [OF quiet_drop quiet_set_timer], of c n] by (auto simp: on_close_def Let_def)
  next
    case False
    then show ?thesis using r Some by (auto simp: on_close_def Let_def)
  qed
  then show ?thesis by (simp add: registered_iff clear_timer_def)
qed (simp add: on_close_def)

lemma admits_registered:
  assumes "admits sha e t c token n nd h h'" and "registered d m h'" and "\<not> registered d m h"
  shows "d = c \<and> m = n"
proof -
  obtain v caps where h': "h' = register_agent c n nd v caps t (update_conn c (count_message t) h)"
    using assms(1) unfolding admits_def by blast
  have "\<not> registered d m (update_conn c (count_message t) h)"
    using assms(3) quiet_registered [OF quiet_count] by blast
  then show ?thesis using assms(2) unfolding h' registered_iff register_agent_view by (auto split: if_splits)
qed

end
