(* ===== verification/HealthFacts.thy ===== *)
theory HealthFacts
  imports HealthReport AccountFacts
begin

text \<open>
  Lemmas on the health monitor: which operations leave the accounts, the nodes and the traffic books
  alone, the sums of a report by node and account, and the check of the quotas.
\<close>

section \<open>Frames\<close>

lemma add_audit_frame [simp]:
  "d_users (addAuditLog now u a args ip d) = d_users d" "d_nodes (addAuditLog now u a args ip d) = d_nodes d"
  "d_totals (addAuditLog now u a args ip d) = d_totals d" "d_daily (addAuditLog now u a args ip d) = d_daily d"
  by (simp_all add: addAuditLog_def)

lemma add_effect_frame [simp]:
  "d_users (add_effect x d) = d_users d" "d_nodes (add_effect x d) = d_nodes d"
  "d_totals (add_effect x d) = d_totals d" "d_daily (add_effect x d) = d_daily d"
  by (simp_all add: add_effect_def)

lemma fold_db_frame:
  "(\<And>x d. d_users (f x d) = d_users d) \<Longrightarrow> d_users (fold f xs d) = d_users d"
  "(\<And>x d. d_nodes (f x d) = d_nodes d) \<Longrightarrow> d_nodes (fold f xs d) = d_nodes d"
  "(\<And>x d. d_totals (f x d) = d_totals d) \<Longrightarrow> d_totals (fold f xs d) = d_totals d"
  "(\<And>x d. d_daily (f x d) = d_daily d) \<Longrightarrow> d_daily (fold f xs d) = d_daily d"
  by (induction xs arbitrary: d) simp_all

lemma flush_frame [simp]:
  "d_users (hm_db (flushBufferedHealthWrites now s)) = d_users (hm_db s)"
  "d_nodes (hm_db (flushBufferedHealthWrites now s)) = d_nodes (hm_db s)"
  "d_totals (hm_db (flushBufferedHealthWrites now s)) = d_totals (hm_db s)"
  "d_daily (hm_db (flushBufferedHealthWrites now s)) = d_daily (hm_db s)"
  by (simp_all add: flushBufferedHealthWrites_def flush_one_by_one_def fold_db_frame Let_def)

lemma flush_memory [simp]:
  "hm_fail (flushBufferedHealthWrites now s) = hm_fail s" "hm_capped (flushBufferedHealthWrites now s) = hm_capped s"
  "hm_nodes (flushBufferedHealthWrites now s) = hm_nodes s" "hm_nodes_at (flushBufferedHealthWrites now s) = hm_nodes_at s"
  "hm_zero (flushBufferedHealthWrites now s) = hm_zero s"
  by (simp_all add: flushBufferedHealthWrites_def Let_def)

lemma buffer_frame [simp]:
  "d_users (hm_db (bufferSystemAuditLog e now a args s)) = d_users (hm_db s)"
  "d_nodes (hm_db (bufferSystemAuditLog e now a args s)) = d_nodes (hm_db s)"
  "d_totals (hm_db (bufferSystemAuditLog e now a args s)) = d_totals (hm_db s)"
  "d_daily (hm_db (bufferSystemAuditLog e now a args s)) = d_daily (hm_db s)"
  by (simp_all add: bufferSystemAuditLog_def Let_def)

lemma buffer_memory [simp]:
  "hm_fail (bufferSystemAuditLog e now a args s) = hm_fail s" "hm_capped (bufferSystemAuditLog e now a args s) = hm_capped s"
  "hm_nodes (bufferSystemAuditLog e now a args s) = hm_nodes s" "hm_nodes_at (bufferSystemAuditLog e now a args s) = hm_nodes_at s"
  "hm_zero (bufferSystemAuditLog e now a args s) = hm_zero s"
  by (simp_all add: bufferSystemAuditLog_def Let_def)

lemma on_db_simps [simp]:
  "hm_db (on_db f s) = f (hm_db s)" "hm_fail (on_db f s) = hm_fail s" "hm_capped (on_db f s) = hm_capped s"
  "hm_nodes (on_db f s) = hm_nodes s" "hm_nodes_at (on_db f s) = hm_nodes_at s" "hm_zero (on_db f s) = hm_zero s"
  by (simp_all add: on_db_def)

lemma tell_simps [simp]:
  "d_users (hm_db (tell k args s)) = d_users (hm_db s)" "d_nodes (hm_db (tell k args s)) = d_nodes (hm_db s)"
  "d_totals (hm_db (tell k args s)) = d_totals (hm_db s)" "d_daily (hm_db (tell k args s)) = d_daily (hm_db s)"
  "hm_fail (tell k args s) = hm_fail s" "hm_capped (tell k args s) = hm_capped s" "hm_zero (tell k args s) = hm_zero s"
  "hm_nodes (tell k args s) = hm_nodes s" "hm_nodes_at (tell k args s) = hm_nodes_at s"
  by (simp_all add: tell_def)

lemma snapshot_simps [simp]:
  "hm_db (getNodeSnapshot e now s) = hm_db s" "hm_fail (getNodeSnapshot e now s) = hm_fail s"
  "hm_capped (getNodeSnapshot e now s) = hm_capped s" "hm_zero (getNodeSnapshot e now s) = hm_zero s"
  by (simp_all add: getNodeSnapshot_def)

lemma snapshot_same:
  "\<lbrakk>hm_nodes s' = hm_nodes s; hm_nodes_at s' = hm_nodes_at s; d_nodes (hm_db s') = d_nodes (hm_db s)\<rbrakk> \<Longrightarrow>
    hm_nodes (getNodeSnapshot e now s') = hm_nodes (getNodeSnapshot e now s)"
  by (simp add: getNodeSnapshot_def getAllNodes_def)

lemma settings_simps [simp]:
  "hm_db (snd (getTrafficExceedSettings e now s)) = hm_db s" "hm_db (snd (getAutoRestartSettings e now s)) = hm_db s"
  "hm_db (snd (getResourceAlertSettings e now s)) = hm_db s"
  "hm_fail (snd (getTrafficExceedSettings e now s)) = hm_fail s" "hm_fail (snd (getAutoRestartSettings e now s)) = hm_fail s"
  "hm_fail (snd (getResourceAlertSettings e now s)) = hm_fail s"
  "hm_capped (snd (getTrafficExceedSettings e now s)) = hm_capped s" "hm_capped (snd (getAutoRestartSettings e now s)) = hm_capped s"
  "hm_capped (snd (getResourceAlertSettings e now s)) = hm_capped s"
  by (simp_all add: getTrafficExceedSettings_def getAutoRestartSettings_def getResourceAlertSettings_def Let_def)

section \<open>The quotas of the accounts of a report\<close>

text \<open>An account that has used up its quota is frozen.\<close>

definition quota_kept :: "int \<Rightarrow> monitor \<Rightarrow> bool" where
  "quota_kept uid s \<longleftrightarrow>
     (\<forall>u. user_by_id (hm_db s) uid = Some u \<and> isTrafficExceeded uid (hm_db s) \<longrightarrow> u_is_frozen u)"

lemma exceeded_cong:
  assumes "d_totals d' = d_totals d" and "map_option u_traffic_limit (user_by_id d' uid) = map_option u_traffic_limit (user_by_id d uid)"
  shows "isTrafficExceeded uid d' = isTrafficExceeded uid d"
  using assms by (auto simp: isTrafficExceeded_def used_bytes_def split: option.splits)

lemma unfreeze_by_id:
  "user_by_id (unfreezeUser gen uid d) k =
   (if k = uid then map_option (\<lambda>u. u\<lparr>u_is_frozen := False, u_freeze_reason := None\<rparr>) (user_by_id d k) else user_by_id d k)"
  using user_by_id_update_user [of "\<lambda>u. u\<lparr>u_is_frozen := False, u_freeze_reason := None\<rparr>" uid d k]
  by (simp add: user_by_id_def unfreeze_users)

lemma unfreeze_books [simp]:
  "d_totals (unfreezeUser gen uid d) = d_totals d" "d_nodes (unfreezeUser gen uid d) = d_nodes d" "d_daily (unfreezeUser gen uid d) = d_daily d"
  by (simp_all add: unfreezeUser_def ensureUserHasAllNodeUuids_def update_user_def Let_def split: option.split)

lemma user_by_id_frame [simp]:
  "user_by_id (addAuditLog now u a args ip d) k = user_by_id d k" "user_by_id (add_effect x d) k = user_by_id d k"
  by (simp_all add: user_by_id_def)

lemma limit_check_frame [simp]:
  "d_nodes (hm_db (checkUserTrafficLimit e uid now s)) = d_nodes (hm_db s)"
  "d_totals (hm_db (checkUserTrafficLimit e uid now s)) = d_totals (hm_db s)"
  "d_daily (hm_db (checkUserTrafficLimit e uid now s)) = d_daily (hm_db s)"
  "hm_fail (checkUserTrafficLimit e uid now s) = hm_fail s" "hm_capped (checkUserTrafficLimit e uid now s) = hm_capped s"
  "hm_nodes (checkUserTrafficLimit e uid now s) = hm_nodes s"
  by (simp_all add: checkUserTrafficLimit_def Let_def split_beta split: option.split)

lemma limit_check_other: "k \<noteq> uid \<Longrightarrow> user_by_id (hm_db (checkUserTrafficLimit e uid now s)) k = user_by_id (hm_db s) k"
  by (simp add: checkUserTrafficLimit_def unfreeze_by_id freeze_user_by_id Let_def split_beta split: option.split)

lemma limit_check_limit:
  "map_option u_traffic_limit (user_by_id (hm_db (checkUserTrafficLimit e uid now s)) k) = map_option u_traffic_limit (user_by_id (hm_db s) k)"
  by (cases "k = uid")
    (auto simp: limit_check_other checkUserTrafficLimit_def unfreeze_by_id freeze_user_by_id Let_def split_beta option.map_comp comp_def split: option.split)

lemma limit_check_exceeded [simp]:
  "isTrafficExceeded k (hm_db (checkUserTrafficLimit e uid now s)) = isTrafficExceeded k (hm_db s)"
  by (rule exceeded_cong [OF _ limit_check_limit]) simp

lemma limit_check_keeps: "quota_kept uid (checkUserTrafficLimit e uid now s)"
proof (cases "user_by_id (hm_db s) uid")
  case (Some u)
  show ?thesis
  proof (cases "isTrafficExceeded uid (hm_db s) \<and> 0 \<le> u_traffic_limit u")
    case True
    then have "user_by_id (hm_db (checkUserTrafficLimit e uid now s)) uid =
        Some (if u_is_frozen u then u else u\<lparr>u_is_frozen := True, u_freeze_reason := Some ''traffic_limit''\<rparr>)"
      using Some by (simp add: checkUserTrafficLimit_def freeze_user_by_id Let_def split_beta)
    then show ?thesis by (auto simp: quota_kept_def)
  next
    case False
    then have "\<not> isTrafficExceeded uid (hm_db s)" using Some by (auto simp: isTrafficExceeded_def)
    then show ?thesis by (simp add: quota_kept_def)
  qed
qed (simp add: quota_kept_def checkUserTrafficLimit_def)

lemma quota_kept_cong:
  "\<lbrakk>user_by_id (hm_db s') uid = user_by_id (hm_db s) uid; d_totals (hm_db s') = d_totals (hm_db s)\<rbrakk> \<Longrightarrow> quota_kept uid s' = quota_kept uid s"
  using exceeded_cong [of "hm_db s'" "hm_db s" uid] by (simp add: quota_kept_def)

lemma daily_alert_frame [simp]:
  "d_users (hm_db (checkUserDailyTrafficAlert uid now s)) = d_users (hm_db s)"
  "d_nodes (hm_db (checkUserDailyTrafficAlert uid now s)) = d_nodes (hm_db s)"
  "d_totals (hm_db (checkUserDailyTrafficAlert uid now s)) = d_totals (hm_db s)"
  "d_daily (hm_db (checkUserDailyTrafficAlert uid now s)) = d_daily (hm_db s)"
  "hm_fail (checkUserDailyTrafficAlert uid now s) = hm_fail s" "hm_capped (checkUserDailyTrafficAlert uid now s) = hm_capped s"
  "hm_nodes (checkUserDailyTrafficAlert uid now s) = hm_nodes s"
  by (simp_all add: checkUserDailyTrafficAlert_def Let_def split: option.split)

lemma check_accounts_keeps:
  assumes "uid \<in> set uids" and "uid \<noteq> 0"
  shows "quota_kept uid (check_accounts e uids now s)"
proof -
  let ?f = "\<lambda>u s. checkUserDailyTrafficAlert u now (checkUserTrafficLimit e u now s)"
  have step: "quota_kept uid (?f u s)" if "quota_kept uid s \<or> u = uid" for u s
  proof -
    have "quota_kept uid (checkUserTrafficLimit e u now s)"
    proof (cases "u = uid")
      case True
      then show ?thesis by (simp add: limit_check_keeps)
    next
      case False
      then show ?thesis
        using that quota_kept_cong [of "checkUserTrafficLimit e u now s" uid s] limit_check_other [of uid u e now s] by simp
    qed
    then show ?thesis
      using quota_kept_cong [of "?f u s" uid "checkUserTrafficLimit e u now s"] by (simp add: user_by_id_def)
  qed
  have keep: "quota_kept uid s \<Longrightarrow> quota_kept uid (fold ?f us s)" for us s
    by (induction us arbitrary: s) (simp_all add: step)
  have "uid \<in> set us \<Longrightarrow> quota_kept uid (fold ?f us s)" for us s
    by (induction us arbitrary: s) (auto simp: step intro: keep)
  moreover have "uid \<in> set (js_unique (filter (\<lambda>u. u \<noteq> 0) uids))" using assms by (simp add: js_unique_def)
  ultimately show ?thesis by (simp add: check_accounts_def)
qed

section \<open>The sums of a report\<close>

definition sum_value :: "('k, int \<times> int) js_map \<Rightarrow> 'k \<Rightarrow> int \<times> int" where
  "sum_value m k = (case js_get m k of None \<Rightarrow> (0, 0) | Some v \<Rightarrow> v)"

text \<open>The bytes in one direction of the records with a target and an account.\<close>

definition bytes_of :: "(traffic_record \<Rightarrow> int) \<Rightarrow> (traffic_record \<Rightarrow> int) \<Rightarrow> bool \<Rightarrow> int \<Rightarrow> int \<Rightarrow> traffic_record list \<Rightarrow> int" where
  "bytes_of tgt usr b t u rs = sum_list (map rcd_value (filter (\<lambda>r. rcd_up r = b \<and> tgt r = t \<and> usr r = u) rs))"

lemma bytes_of_simps [simp]:
  "bytes_of tgt usr b t u [] = 0"
  "bytes_of tgt usr b t u (r # rs) = (if rcd_up r = b \<and> tgt r = t \<and> usr r = u then rcd_value r else 0) + bytes_of tgt usr b t u rs"
  by (simp_all add: bytes_of_def)

lemma bytes_of_nonneg: "(\<And>r. r \<in> set rs \<Longrightarrow> 0 \<le> rcd_value r) \<Longrightarrow> 0 \<le> bytes_of tgt usr b t u rs"
  unfolding bytes_of_def by (rule sum_list_nonneg) auto

lemma add_record_value:
  "sum_value (add_record t u r m) k =
    (if k = (t, u) then (if rcd_up r then (fst (sum_value m k) + rcd_value r, snd (sum_value m k))
                         else (fst (sum_value m k), snd (sum_value m k) + rcd_value r))
     else sum_value m k)"
  by (auto simp: sum_value_def add_record_def split: option.split)

lemma add_record_keys: "fst ` set (add_record t u r m) = insert (t, u) (fst ` set m)"
  by (simp add: add_record_def dom_update split_beta)

lemma add_record_distinct: "distinct (map fst m) \<Longrightarrow> distinct (map fst (add_record t u r m))"
  by (simp add: add_record_def distinct_update split_beta)

abbreviation add_sum :: "(traffic_record \<Rightarrow> int) \<Rightarrow> (traffic_record \<Rightarrow> int) \<Rightarrow> traffic_record \<Rightarrow> (int \<times> int, int \<times> int) js_map \<Rightarrow> (int \<times> int, int \<times> int) js_map" where
  "add_sum tgt usr r m \<equiv> (if usr r = 0 then m else add_record (tgt r) (usr r) r m)"

lemma sums_value:
  "u \<noteq> 0 \<Longrightarrow> sum_value (fold (add_sum tgt usr) rs m) (t, u) =
    (fst (sum_value m (t, u)) + bytes_of tgt usr True t u rs, snd (sum_value m (t, u)) + bytes_of tgt usr False t u rs)"
proof (induction rs arbitrary: m)
  case (Cons r rs)
  show ?case using Cons.IH [OF Cons.prems, of "add_sum tgt usr r m"] Cons.prems by (auto simp: add_record_value)
qed simp

lemma sums_distinct: "distinct (map fst m) \<Longrightarrow> distinct (map fst (fold (add_sum tgt usr) rs m))"
  by (induction rs arbitrary: m) (simp_all add: add_record_distinct)

lemma sums_keys:
  "x \<in> set (fold (add_sum tgt usr) rs m) \<Longrightarrow> fst x \<in> fst ` set m \<or> (\<exists>r \<in> set rs. fst x = (tgt r, usr r) \<and> usr r \<noteq> 0)"
proof (induction rs arbitrary: m)
  case (Cons r rs)
  show ?case using Cons.IH [of "add_sum tgt usr r m"] Cons.prems by (auto simp: add_record_keys split: if_splits)
qed auto

text \<open>Adding up a list of sums is adding up over the targets.\<close>

lemma sum_over_targets:
  assumes "distinct (map fst xs)" and "finite T" and "\<And>x. x \<in> set xs \<Longrightarrow> fst (fst x) \<in> T" and "\<And>t. g t (0, 0) = (0 :: int)"
  shows "sum_list (map (\<lambda>x. if snd (fst x) = k then g (fst (fst x)) (snd x) else 0) xs) = (\<Sum>t \<in> T. g t (sum_value xs (t, k)))"
  using assms(1,3)
proof (induction xs)
  case (Cons x xs)
  obtain t u v where x: "x = ((t, u), v)" by (cases x) auto
  have IH: "sum_list (map (\<lambda>x. if snd (fst x) = k then g (fst (fst x)) (snd x) else 0) xs) = (\<Sum>t \<in> T. g t (sum_value xs (t, k)))"
    using Cons by simp
  have v: "sum_value (x # xs) (t', k) = (if u = k \<and> t' = t then v else sum_value xs (t', k))" for t'
    by (simp add: sum_value_def x)
  have "(t, u) \<notin> fst ` set xs" using Cons.prems(1) by (simp add: x)
  then have z: "sum_value xs (t, u) = (0, 0)" by (simp add: sum_value_def map_of_eq_None_iff [symmetric])
  have t: "t \<in> T" using Cons.prems(2) [of x] by (simp add: x)
  show ?case
  proof (cases "u = k")
    case True
    have "(\<Sum>t' \<in> T. g t' (sum_value (x # xs) (t', k))) = g t v + (\<Sum>t' \<in> T - {t}. g t' (sum_value xs (t', k)))"
      using sum.remove [OF assms(2) t, of "\<lambda>t'. g t' (sum_value (x # xs) (t', k))"] True by (simp add: v)
    moreover have "(\<Sum>t' \<in> T. g t' (sum_value xs (t', k))) = (\<Sum>t' \<in> T - {t}. g t' (sum_value xs (t', k)))"
      using sum.remove [OF assms(2) t, of "\<lambda>t'. g t' (sum_value xs (t', k))"] z True assms(4) by simp
    ultimately show ?thesis using IH True by (simp add: x)
  next
    case False
    then show ?thesis using IH by (simp add: x v [unfolded x])
  qed
qed (simp add: sum_value_def assms(4))

section \<open>Booking\<close>

lemma rate_of_cong:
  "hm_nodes s' = hm_nodes s \<Longrightarrow> d_nodes (hm_db s') = d_nodes (hm_db s) \<Longrightarrow> rate_of e nid n t s' = rate_of e nid n t s"
  unfolding rate_of_def node_of_def by_id_def getNodeById_def by (simp cong: option.case_cong)

lemma book_sum_frame:
  assumes "book_sum e nid n now x (k, s) = (k', s')"
  shows "hm_nodes s' = hm_nodes s" "hm_nodes_at s' = hm_nodes_at s" "d_nodes (hm_db s') = d_nodes (hm_db s)" "d_users (hm_db s') = d_users (hm_db s)"
    "hm_capped s' = hm_capped s" "hm_fail s' = hm_fail s"
  using assms by (auto simp: book_sum_def Let_def record_keeps split: prod.splits if_splits option.splits)

lemma js_round_zero [simp]: "js_round 0 = 0"
  by (simp add: js_round_def floor_eq_iff)

lemma book_sum_total:
  assumes "book_sum e nid n now ((t, u), (up, down)) (k, s) = (k', s')" and "user_by_id (hm_db s) uid \<noteq> None" and "uid \<noteq> 0"
    and "u = uid \<Longrightarrow> t \<noteq> 0 \<and> node_exists t (hm_db s) \<and> 0 \<le> up \<and> 0 \<le> down"
  shows "user_total uid (hm_db s') = (if u = uid
     then add2 (user_total uid (hm_db s)) (js_round (of_int up * rate_of e nid n t s), js_round (of_int down * rate_of e nid n t s))
     else user_total uid (hm_db s))"
proof (cases "t = 0 \<or> u = 0 \<or> (up \<le> 0 \<and> down \<le> 0)")
  case True
  then have "s' = s" using assms(1) by (auto simp: book_sum_def)
  moreover have "u = uid \<Longrightarrow> up = 0 \<and> down = 0" using True assms(3,4) by auto
  ultimately show ?thesis by (auto simp: add2_def)
next
  case False
  let ?rec = "recordTraffic u t (js_round (of_int up * rate_of e nid n t s)) (js_round (of_int down * rate_of e nid n t s)) now (hm_db s)"
  show ?thesis
  proof (cases ?rec)
    case None
    then have "s' = s" using assms(1) False by (auto simp: book_sum_def)
    moreover have "u \<noteq> uid" using None assms(2,4) by (auto simp: recordTraffic_def Let_def split: if_splits)
    ultimately show ?thesis by simp
  next
    case (Some d)
    then have "hm_db s' = d" using assms(1) False by (auto simp: book_sum_def)
    then show ?thesis using record_user_total [OF Some, of uid] by auto
  qed
qed

definition rated :: "health_env \<Rightarrow> int \<Rightarrow> node \<Rightarrow> monitor \<Rightarrow> int \<Rightarrow> int \<Rightarrow> int" where
  "rated e nid n s t b = js_round (of_int b * rate_of e nid n t s)"

lemma rated_zero [simp]: "rated e nid n s t 0 = 0"
  by (simp add: rated_def)

lemma book_all_total:
  assumes "user_by_id (hm_db s) uid \<noteq> None" and "uid \<noteq> 0"
    and "\<And>x. x \<in> set xs \<Longrightarrow> snd (fst x) = uid \<Longrightarrow>
      fst (fst x) \<noteq> 0 \<and> node_exists (fst (fst x)) (hm_db s) \<and> 0 \<le> fst (snd x) \<and> 0 \<le> snd (snd x)"
  shows "user_total uid (hm_db (snd (fold (book_sum e nid n now) xs (k, s)))) =
    add2 (user_total uid (hm_db s))
      (sum_list (map (\<lambda>x. if snd (fst x) = uid then rated e nid n s (fst (fst x)) (fst (snd x)) else 0) xs),
       sum_list (map (\<lambda>x. if snd (fst x) = uid then rated e nid n s (fst (fst x)) (snd (snd x)) else 0) xs))"
  using assms
proof (induction xs arbitrary: k s)
  case (Cons x xs)
  obtain t u up down where x: "x = ((t, u), (up, down))" by (cases x) auto
  obtain k1 s1 where s1: "book_sum e nid n now x (k, s) = (k1, s1)" by (cases "book_sum e nid n now x (k, s)")
  note fr = book_sum_frame [OF s1]
  have u1: "user_by_id (hm_db s1) uid \<noteq> None" using Cons.prems(1) by (simp add: user_by_id_def fr)
  have r: "rated e nid n s1 = rated e nid n s"
    using rate_of_cong [of s1 s e nid n] by (intro ext) (simp add: rated_def fr)
  have m: "fst (fst y) \<noteq> 0 \<and> node_exists (fst (fst y)) (hm_db s1) \<and> 0 \<le> fst (snd y) \<and> 0 \<le> snd (snd y)"
    if "y \<in> set xs" "snd (fst y) = uid" for y
    using Cons.prems(3) [of y] that by (simp add: node_exists_def fr)
  have tot: "user_total uid (hm_db s1) = (if u = uid
     then add2 (user_total uid (hm_db s)) (rated e nid n s t up, rated e nid n s t down) else user_total uid (hm_db s))"
    using book_sum_total [OF s1 [unfolded x] Cons.prems(1,2)] Cons.prems(3) [of x] by (simp add: x rated_def)
  have "user_total uid (hm_db (snd (fold (book_sum e nid n now) xs (k1, s1)))) =
    add2 (user_total uid (hm_db s1))
      (sum_list (map (\<lambda>x. if snd (fst x) = uid then rated e nid n s1 (fst (fst x)) (fst (snd x)) else 0) xs),
       sum_list (map (\<lambda>x. if snd (fst x) = uid then rated e nid n s1 (fst (fst x)) (snd (snd x)) else 0) xs))"
    by (rule Cons.IH) (use u1 Cons.prems(2) m in auto)
  moreover have "fold (book_sum e nid n now) (x # xs) (k, s) = fold (book_sum e nid n now) xs (k1, s1)" by (simp add: s1)
  ultimately show ?case unfolding r tot by (simp add: x add2_def)
qed (simp add: add2_def)

lemma stop_machine_books [simp]:
  "d_totals (hm_db (stop_machine e host now s)) = d_totals (hm_db s)" "d_users (hm_db (stop_machine e host now s)) = d_users (hm_db s)"
proof -
  have f: "d_totals (hm_db (fold (\<lambda>p. on_db (update_node (n_id p) g)) ps s)) = d_totals (hm_db s) \<and>
      d_users (hm_db (fold (\<lambda>p. on_db (update_node (n_id p) g)) ps s)) = d_users (hm_db s)" for ps g s
    by (induction ps arbitrary: s) (simp_all add: update_node_def)
  show "d_totals (hm_db (stop_machine e host now s)) = d_totals (hm_db s)" "d_users (hm_db (stop_machine e host now s)) = d_users (hm_db s)"
    by (simp_all add: stop_machine_def Let_def f)
qed

lemma cap_check_books [simp]:
  "d_totals (hm_db (checkNodeTrafficCap e nid now s)) = d_totals (hm_db s)" "d_users (hm_db (checkNodeTrafficCap e nid now s)) = d_users (hm_db s)"
  by (simp_all add: checkNodeTrafficCap_def Let_def split_beta split: option.split)

lemma check_accounts_books [simp]:
  "d_totals (hm_db (check_accounts e us now s)) = d_totals (hm_db s)" "d_nodes (hm_db (check_accounts e us now s)) = d_nodes (hm_db s)"
proof -
  have "d_totals (hm_db (fold (\<lambda>u s. checkUserDailyTrafficAlert u now (checkUserTrafficLimit e u now s)) xs s)) = d_totals (hm_db s) \<and>
    d_nodes (hm_db (fold (\<lambda>u s. checkUserDailyTrafficAlert u now (checkUserTrafficLimit e u now s)) xs s)) = d_nodes (hm_db s)" for xs
    by (induction xs arbitrary: s) simp_all
  then show "d_totals (hm_db (check_accounts e us now s)) = d_totals (hm_db s)" "d_nodes (hm_db (check_accounts e us now s)) = d_nodes (hm_db s)"
    by (simp_all add: check_accounts_def)
qed

lemma check_accounts_limit:
  "map_option u_traffic_limit (user_by_id (hm_db (check_accounts e us now s)) k) = map_option u_traffic_limit (user_by_id (hm_db s) k)"
proof -
  have "map_option u_traffic_limit (user_by_id (hm_db (fold (\<lambda>u s. checkUserDailyTrafficAlert u now (checkUserTrafficLimit e u now s)) xs s)) k) =
    map_option u_traffic_limit (user_by_id (hm_db s) k)" for xs
  proof (induction xs arbitrary: s)
    case (Cons u xs)
    have "user_by_id (hm_db (checkUserDailyTrafficAlert u now x)) k = user_by_id (hm_db x) k" for x by (simp add: user_by_id_def)
    then show ?case using Cons.IH limit_check_limit [of e u now s k] by simp
  qed simp
  then show ?thesis by (simp add: check_accounts_def)
qed

lemma book_users: "d_users (hm_db (snd (fold (book_sum e nid n now) xs acc))) = d_users (hm_db (snd acc))"
proof (induction xs arbitrary: acc)
  case (Cons x xs)
  have "d_users (hm_db (snd (book_sum e nid n now x acc))) = d_users (hm_db (snd acc))"
    using book_sum_frame(4) [of e nid n now x "fst acc" "snd acc"] by (metis prod.collapse)
  then show ?case using Cons.IH by simp
qed simp

lemma save_limit:
  "map_option u_traffic_limit (user_by_id (hm_db (snd (saveTrafficRecords e nid rs n peers now s))) k) =
   map_option u_traffic_limit (user_by_id (hm_db s) k)"
  by (simp add: saveTrafficRecords_def Let_def split_beta check_accounts_limit user_by_id_def [of "hm_db (checkNodeTrafficCap e nid now x)" for x]
      user_by_id_def [of "hm_db (snd (fold f xs acc))" for f xs acc] book_users)
    (simp add: user_by_id_def)

lemma sum_records_add:
  "sum_records nid n peers rs d = fold (add_sum (record_target nid n peers rs) (record_user nid d)) rs []"
  by (simp add: sum_records_def)

lemma save_total:
  "user_total uid (hm_db (snd (saveTrafficRecords e nid rs n peers now s))) =
   user_total uid (hm_db (snd (fold (book_sum e nid n now) (sum_records nid n peers rs (hm_db s)) (0, s))))"
  by (simp add: saveTrafficRecords_def Let_def split_beta user_total_def)

section \<open>Operations that leave nodes and failures alone\<close>

definition calm :: "monitor \<Rightarrow> monitor \<Rightarrow> bool" where
  "calm s s' \<longleftrightarrow> d_nodes (hm_db s') = d_nodes (hm_db s) \<and> hm_fail s' = hm_fail s \<and> hm_capped s' = hm_capped s"

named_theorems health_calm \<open>operations that leave the nodes, the failures and the capped machines alone\<close>

lemma calm_refl [simp]: "calm s s"
  by (simp add: calm_def)

lemma calm_trans: "calm a b \<Longrightarrow> calm b c \<Longrightarrow> calm a c"
  by (simp add: calm_def)

lemma calm_fold: "(\<And>x s. calm s (f x s)) \<Longrightarrow> calm s (fold f xs s)"
proof (induction xs arbitrary: s)
  case (Cons x xs)
  show ?case using calm_trans [OF Cons.prems [of s x] Cons.IH [OF Cons.prems]] by simp
qed simp

lemma calm_buffer [health_calm]: "calm s (bufferSystemAuditLog e now a args s)"
  by (simp add: calm_def)

lemma calm_tell [health_calm]: "calm s (tell k args s)"
  by (simp add: calm_def)

lemma calm_snapshot [health_calm]: "calm s (getNodeSnapshot e now s)"
  by (simp add: calm_def)

lemma calm_observe [health_calm]: "calm s (bufferMultiNodeObserveEvent e now r s)"
  by (simp add: calm_def bufferMultiNodeObserveEvent_def Let_def)

lemma calm_track_user: "calm s (track_user e now x s)"
  by (simp add: calm_def track_user_def report_use_def bufferMultiNodeObserveEvent_def Let_def split: prod.split)

lemma calm_track [health_calm]: "calm s (trackConcurrentNodeUsage e us ts now s)"
proof (cases "us = []")
  case False
  let ?s = "getNodeSnapshot e now s"
  have "calm s (fold (track_user e now) (current_use ?s us ts) ?s)"
    by (rule calm_trans [OF calm_snapshot calm_fold [OF calm_track_user]])
  then show ?thesis using False by (simp add: calm_def trackConcurrentNodeUsage_def Let_def)
qed (simp add: trackConcurrentNodeUsage_def)

lemma calm_online [health_calm]: "calm s (updateOnlineCache e nid rs n peers now s)"
proof -
  have t: "calm (snd acc) (snd (fold (track_node e now us) ns acc))" for us ns acc
  proof (induction ns arbitrary: acc)
    case (Cons m ns)
    have "calm (snd acc) (snd (track_node e now us m acc))" by (simp add: track_node_def calm_def Let_def split: prod.split)
    then show ?case using calm_trans [OF _ Cons.IH] by simp
  qed simp
  have "calm s (snd (ensureOnlineCacheFull e now s))"
    by (simp add: calm_def ensureOnlineCacheFull_def split: option.split)
  note 1 = calm_trans [OF calm_trans [OF this t] calm_track]
  show ?thesis
    unfolding updateOnlineCache_def Let_def split_beta calm_def
    using 1 [unfolded calm_def] by (simp del: fold.simps)
qed

lemma calm_heavy: "calm (snd acc) (snd (note_heavy_user e cfg day now x acc))"
  by (simp add: calm_def note_heavy_user_def Let_def split: prod.split)

lemma calm_exceed [health_calm]: "calm s (checkTrafficExceed e now s)"
proof (cases "now - hm_exceed_check s < TRAFFIC_CHECK_INTERVAL_MS")
  case False
  let ?day = "dateKeyInTimeZone now"
  let ?s1 = "s\<lparr>hm_exceed_check := now, hm_exceeded := filter (\<lambda>(k, u, dd). dd = ?day) (hm_exceeded s)\<rparr>"
  have f: "calm (snd acc) (snd (fold (note_heavy_user e cfg ?day now) xs acc))" for cfg xs acc
  proof (induction xs arbitrary: acc)
    case (Cons x xs)
    show ?case using calm_trans [OF calm_heavy Cons.IH] by simp
  qed simp
  have 1: "calm s (snd (getTrafficExceedSettings e now ?s1))" by (simp add: calm_def)
  have "calm s (snd (fold (note_heavy_user e cfg ?day now) xs (False, snd (getTrafficExceedSettings e now ?s1))))" for cfg xs
    using calm_trans [OF 1 f [of "(False, snd (getTrafficExceedSettings e now ?s1))" cfg xs, simplified]] .
  then show ?thesis using False by (simp add: checkTrafficExceed_def Let_def split_beta calm_def)
qed (simp add: checkTrafficExceed_def)

lemma calm_resources [health_calm]: "calm s (checkResourceThresholds e nid nm disk mem load now s)"
proof -
  have "calm s (resource_alert e nid nm cd now x s)" for cd x s
    by (simp add: calm_def resource_alert_def Let_def split: prod.split)
  note f = calm_fold [of "resource_alert e nid nm cd now" for cd, OF this]
  have 1: "calm s (snd (getResourceAlertSettings e now s))" by (simp add: calm_def)
  show ?thesis unfolding checkResourceThresholds_def Let_def split_beta by (rule calm_trans [OF 1 f])
qed

lemma calm_ipv6 [health_calm]: "calm s (snd (check_ipv6 e n nid st r now s))"
  by (simp add: calm_def check_ipv6_def Let_def)

lemma calm_peers [health_calm]: "calm s (snd (getPeerNodes e now n s))"
  by (simp add: calm_def getPeerNodes_def Let_def)

lemma calm_recovery [health_calm]: "calm s (snd (shouldNotifyNodeRecovery e n now s))"
  by (simp add: calm_def shouldNotifyNodeRecovery_def Let_def)

lemma calm_check_accounts [health_calm]: "calm s (check_accounts e us now s)"
  unfolding check_accounts_def by (rule calm_fold) (simp add: calm_def)

lemma calm_book: "calm s (snd (fold (book_sum e nid n now) xs (k, s)))"
proof (induction xs arbitrary: k s)
  case (Cons x xs)
  obtain k1 s1 where 1: "book_sum e nid n now x (k, s) = (k1, s1)" by (cases "book_sum e nid n now x (k, s)")
  have "calm s s1" using book_sum_frame [OF 1] by (simp add: calm_def)
  then show ?case using calm_trans [OF _ Cons.IH] by (simp add: 1)
qed simp

section \<open>Nodes taken out of service\<close>

text \<open>No node changes its state or remark, except that machines above their traffic cap are stopped.\<close>

definition capped_or_same :: "node \<Rightarrow> node \<Rightarrow> bool" where
  "capped_or_same n m \<longleftrightarrow> n_id m = n_id n \<and>
     (n_is_active m = n_is_active n \<and> n_remark m = n_remark n \<or> \<not> n_is_active m \<and> n_remark m = REMARK_CAP)"

definition stops_capped :: "monitor \<Rightarrow> monitor \<Rightarrow> bool" where
  "stops_capped s s' \<longleftrightarrow> list_all2 capped_or_same (d_nodes (hm_db s)) (d_nodes (hm_db s'))"

lemma stops_capped_refl [simp]: "stops_capped s s"
  by (simp add: stops_capped_def capped_or_same_def list_all2_refl)

lemma stops_capped_trans: "stops_capped a b \<Longrightarrow> stops_capped b c \<Longrightarrow> stops_capped a c"
  unfolding stops_capped_def by (rule list_all2_trans [of capped_or_same capped_or_same]) (auto simp: capped_or_same_def)

lemma stops_capped_calm: "calm s s' \<Longrightarrow> stops_capped s s'"
  by (simp add: stops_capped_def calm_def capped_or_same_def list_all2_refl)

lemma stops_capped_update:
  "(\<And>n. capped_or_same n (f n)) \<Longrightarrow> stops_capped s (on_db (update_node i f) s)"
  by (simp add: stops_capped_def update_node_def update_where_def list_all2_map2 list_all2_refl capped_or_same_def)

lemma stops_capped_fold: "(\<And>x s. stops_capped s (f x s)) \<Longrightarrow> stops_capped s (fold f xs s)"
proof (induction xs arbitrary: s)
  case (Cons x xs)
  show ?case using stops_capped_trans [OF Cons.prems [of s x] Cons.IH [OF Cons.prems]] by simp
qed simp

lemma stop_machine_stops: "stops_capped s (stop_machine e host now s) \<and> hm_fail (stop_machine e host now s) = hm_fail s"
proof -
  let ?f = "\<lambda>p. on_db (update_node (n_id p) (\<lambda>n. n\<lparr>n_is_active := False, n_remark := REMARK_CAP\<rparr>))"
  have f: "stops_capped s (fold ?f ps s)" for ps s
    by (rule stops_capped_fold) (rule stops_capped_update, simp add: capped_or_same_def)
  have g: "hm_fail (fold ?f ps s) = hm_fail s" for ps s by (induction ps arbitrary: s) simp_all
  have r: "stops_capped x y" if "d_nodes (hm_db y) = d_nodes (hm_db x)" for x y
    using that by (simp add: stops_capped_def capped_or_same_def list_all2_refl)
  show ?thesis unfolding stop_machine_def Let_def by (auto simp: g intro: f stops_capped_trans [OF f r])
qed

lemma cap_check_stops:
  "stops_capped s (checkNodeTrafficCap e nid now s) \<and> hm_fail (checkNodeTrafficCap e nid now s) = hm_fail s"
proof -
  have r: "stops_capped s (stop_machine e host now x)" "hm_fail (stop_machine e host now x) = hm_fail s"
    if "hm_db x = hm_db s" "hm_fail x = hm_fail s" for host x
    using stop_machine_stops [of x e host now] that by (simp_all add: stops_capped_def)
  show ?thesis unfolding checkNodeTrafficCap_def Let_def split_beta
    using stops_capped_calm [OF calm_snapshot, of s e now] by (auto intro!: r split: option.split)
qed

lemma save_report_stops:
  "stops_capped s (save_report e nid r n peers now s) \<and> hm_fail (save_report e nid r n peers now s) = hm_fail s"
proof -
  let ?s = "if agr_records r = [] then s else snd (saveTrafficRecords e nid (agr_records r) n peers now s)"
  have 1: "stops_capped s ?s \<and> hm_fail ?s = hm_fail s"
  proof (cases "agr_records r = []")
    case False
    let ?b = "snd (fold (book_sum e nid n now) (sum_records nid n peers (agr_records r) (hm_db s)) (0, s))"
    have b: "calm s ?b" by (rule calm_book)
    note c = cap_check_stops [of ?b e nid now]
    have d: "calm x (check_accounts e us now x)" for x us by (rule calm_check_accounts)
    have "stops_capped s (check_accounts e us now (checkNodeTrafficCap e nid now ?b))" for us
      using stops_capped_trans [OF stops_capped_trans [OF stops_capped_calm [OF b] conjunct1 [OF c]] stops_capped_calm [OF d]] .
    moreover have "hm_fail (check_accounts e us now (checkNodeTrafficCap e nid now ?b)) = hm_fail s" for us
      using b c d [of "checkNodeTrafficCap e nid now ?b" us] by (simp add: calm_def)
    moreover have "hm_fail ?b = hm_fail s" using b by (simp add: calm_def)
    ultimately show ?thesis using stops_capped_calm [OF b] False by (simp add: saveTrafficRecords_def Let_def split_beta)
  qed simp
  have 2: "calm ?s (checkTrafficExceed e now (updateOnlineCache e nid (agr_records r) n peers now ?s))"
    by (rule calm_trans [OF calm_online calm_exceed])
  show ?thesis unfolding save_report_def Let_def
    using stops_capped_trans [OF conjunct1 [OF 1] stops_capped_calm [OF 2]] 1 2 by (simp add: calm_def)
qed

lemma peer_report_stops:
  "stops_capped s (updatePeerLastReport peers now s) \<and> hm_fail (updatePeerLastReport peers now s) = hm_fail s"
proof -
  have "stops_capped s (fold (\<lambda>p. on_db (update_node (n_id p) (set_report_time now))) peers s)"
    by (rule stops_capped_fold) (rule stops_capped_update, simp add: capped_or_same_def set_report_time_def)
  moreover have "hm_fail (fold (\<lambda>p. on_db (update_node (n_id p) (set_report_time now))) peers s) = hm_fail s"
    by (induction peers arbitrary: s) simp_all
  ultimately show ?thesis by (simp add: updatePeerLastReport_def)
qed

text \<open>What the first half of a report leaves to its second half.\<close>

lemma report_prelude:
  assumes "node_of e nid (getNodeSnapshot e now s) = Some n"
  obtains peers remark s' where "updateFromAgentReport e nid r now s = decide_report e nid r n peers (fst (report_status n r)) remark now s'"
    and "stops_capped s s'" and "hm_fail s' = hm_fail s" and "hm_capped s' = hm_capped s"
proof -
  let ?s1 = "getNodeSnapshot e now s"
  let ?p = "getPeerNodes e now n ?s1"
  let ?s3 = "updatePeerLastReport (fst ?p) now (snd ?p)"
  let ?c = "check_ipv6 e n nid (report_status n r) r now ?s3"
  have 1: "calm s (snd ?p)" by (rule calm_trans [OF calm_snapshot calm_peers])
  have 2: "calm ?s3 (snd ?c)" by (rule calm_ipv6)
  have c: "hm_capped (fold (\<lambda>p. on_db (update_node (n_id p) (set_report_time now))) ps x) = hm_capped x" for ps x
    by (induction ps arbitrary: x) simp_all
  have "stops_capped s (snd ?c)"
    using stops_capped_trans [OF stops_capped_trans [OF stops_capped_calm [OF 1] conjunct1 [OF peer_report_stops]] stops_capped_calm [OF 2]] .
  moreover have "hm_fail (snd ?c) = hm_fail s" "hm_capped (snd ?c) = hm_capped s"
    using 1 2 peer_report_stops [of "snd ?p" "fst ?p" now] by (simp_all add: calm_def updatePeerLastReport_def c)
  moreover have "updateFromAgentReport e nid r now s = decide_report e nid r n (fst ?p) (fst (report_status n r)) (fst ?c) now (snd ?c)"
    using assms by (simp add: updateFromAgentReport_def Let_def split_beta)
  ultimately show thesis using that by blast
qed

section \<open>Nodes in service\<close>

definition in_service :: "int \<Rightarrow> monitor \<Rightarrow> bool" where
  "in_service i s \<longleftrightarrow> (\<exists>m \<in> set (d_nodes (hm_db s)). n_id m = i \<and> n_is_active m)"

lemma in_service_calm: "calm s s' \<Longrightarrow> in_service i s' = in_service i s"
  by (simp add: in_service_def calm_def)

lemma in_service_update:
  assumes "\<And>n. n_id (f n) = n_id n \<and> (n_is_active n \<longrightarrow> n_is_active (f n))" and "in_service i s"
  shows "in_service i (on_db (update_node j f) s)"
proof -
  obtain m where m: "m \<in> set (d_nodes (hm_db s))" "n_id m = i" "n_is_active m" using assms(2) by (auto simp: in_service_def)
  have "(if n_id m = j then f m else m) \<in> set (d_nodes (hm_db (on_db (update_node j f) s)))"
    using imageI [OF m(1), of "\<lambda>r. if n_id r = j then f r else r"] by (simp add: update_node_def update_where_def)
  moreover have "n_id (if n_id m = j then f m else m) = i \<and> n_is_active (if n_id m = j then f m else m)" using m assms(1) by simp
  ultimately show ?thesis unfolding in_service_def by blast
qed

lemma in_service_set:
  assumes "i \<in> n_id ` set (d_nodes (hm_db s))"
  shows "in_service i (on_db (update_node i (set_state True remark now)) s)"
proof -
  obtain m where m: "m \<in> set (d_nodes (hm_db s))" "n_id m = i" using assms by blast
  have "set_state True remark now m \<in> set (d_nodes (hm_db (on_db (update_node i (set_state True remark now)) s)))"
    using imageI [OF m(1), of "\<lambda>r. if n_id r = i then set_state True remark now r else r"] m(2) by (simp add: update_node_def update_where_def)
  moreover have "n_id (set_state True remark now m) = i \<and> n_is_active (set_state True remark now m)" using m(2) by (simp add: set_state_def)
  ultimately show ?thesis unfolding in_service_def by blast
qed

lemma stops_capped_ids: "stops_capped s s' \<Longrightarrow> map n_id (d_nodes (hm_db s')) = map n_id (d_nodes (hm_db s))"
  unfolding stops_capped_def by (induction rule: list_all2_induct) (simp_all add: capped_or_same_def)

lemma stops_capped_exists: "stops_capped s s' \<Longrightarrow> n_id ` set (d_nodes (hm_db s')) = n_id ` set (d_nodes (hm_db s))"
  by (drule stops_capped_ids, drule arg_cong [of _ _ set]) simp

lemma mirror_up:
  "in_service i s \<Longrightarrow> in_service i (mirrorPeerState peers True remark now s)"
  "hm_capped (mirrorPeerState peers a remark now s) = hm_capped s" "hm_fail (mirrorPeerState peers a remark now s) = hm_fail s"
proof -
  let ?f = "\<lambda>a p. on_db (update_node (n_id p) (\<lambda>n. set_report_time now (set_state a remark now n)))"
  have f: "in_service i s \<Longrightarrow> in_service i (fold (?f True) peers s)" for s
  proof (induction peers arbitrary: s)
    case (Cons p ps)
    have "in_service i (?f True p s)"
      using Cons.prems by (intro in_service_update) (simp_all add: set_report_time_def set_state_def)
    then show ?case using Cons.IH by simp
  qed simp
  have "hm_capped (fold (?f a) peers s) = hm_capped s \<and> hm_fail (fold (?f a) peers s) = hm_fail s" for s by (induction peers arbitrary: s) simp_all
  then show "in_service i s \<Longrightarrow> in_service i (mirrorPeerState peers True remark now s)"
    "hm_capped (mirrorPeerState peers a remark now s) = hm_capped s" "hm_fail (mirrorPeerState peers a remark now s) = hm_fail s"
    using f by (simp_all add: mirrorPeerState_def)
qed

lemma recovery_frame:
  "d_nodes (hm_db (note_recovery e n nid now s)) = d_nodes (hm_db s)" "hm_capped (note_recovery e n nid now s) = hm_capped s"
  "js_get (hm_fail (note_recovery e n nid now s)) nid = Some 0"
proof -
  note c = calm_recovery [unfolded calm_def]
  show "d_nodes (hm_db (note_recovery e n nid now s)) = d_nodes (hm_db s)" "hm_capped (note_recovery e n nid now s) = hm_capped s"
    "js_get (hm_fail (note_recovery e n nid now s)) nid = Some 0"
    by (simp_all add: note_recovery_def Let_def split_beta c)
qed

lemma apply_healthy:
  assumes "nid \<in> n_id ` set (d_nodes (hm_db s))" and "agr_records r = []"
  shows "in_service nid (apply_report e nid r n peers True remark now s) \<and>
    hm_capped (apply_report e nid r n peers True remark now s) = hm_capped s \<and>
    hm_fail (apply_report e nid r n peers True remark now s) = hm_fail s"
proof -
  let ?s1 = "on_db (update_node nid (set_state True remark now)) s"
  let ?s2 = "mirrorPeerState peers True remark now ?s1"
  let ?s3 = "on_db (update_node nid (set_report_time now)) ?s2"
  let ?s4 = "if n_is_manual n then on_db (update_node nid (\<lambda>x. x\<lparr>n_fail_count := manual_fails n True\<rparr>)) ?s3 else ?s3"
  have "in_service nid ?s2" by (rule mirror_up(1) [OF in_service_set [OF assms(1)]])
  then have 3: "in_service nid ?s3" by (intro in_service_update) (simp_all add: set_report_time_def)
  then have "in_service nid ?s4" by (auto intro: in_service_update)
  moreover have "hm_capped ?s4 = hm_capped s" "hm_fail ?s4 = hm_fail s" by (simp_all add: mirror_up)
  moreover have c: "calm x (checkResourceThresholds e nid (n_name n) (agr_disk r) (agr_mem r) (agr_load r) now (save_report e nid r n peers now x))" for x
    unfolding save_report_def Let_def using assms(2) calm_trans [OF calm_trans [OF calm_online calm_exceed] calm_resources] by simp
  moreover have "apply_report e nid r n peers True remark now s =
      checkResourceThresholds e nid (n_name n) (agr_disk r) (agr_mem r) (agr_load r) now (save_report e nid r n peers now ?s4)"
    by (simp add: apply_report_def Let_def)
  ultimately show ?thesis using in_service_calm [OF c, of nid ?s4] c [of ?s4, unfolded calm_def] by simp
qed

lemma healthy_report:
  assumes "node_of e nid (getNodeSnapshot e now s) = Some n" and "fst (report_status n r)" and "agr_records r = []"
    and "nid \<in> n_id ` set (d_nodes (hm_db s))"
  shows "in_service nid (updateFromAgentReport e nid r now s) \<and> hm_capped (updateFromAgentReport e nid r now s) = hm_capped s \<and>
    fail_count (updateFromAgentReport e nid r now s) nid = 0"
proof -
  obtain peers remark s' where u: "updateFromAgentReport e nid r now s = decide_report e nid r n peers (fst (report_status n r)) remark now s'"
    "stops_capped s s'" "hm_capped s' = hm_capped s"
    by (rule report_prelude [OF assms(1), of r])
  let ?s = "note_recovery e n nid now s'"
  have "nid \<in> n_id ` set (d_nodes (hm_db ?s))" using assms(4) stops_capped_exists [OF u(2)] by (simp add: recovery_frame)
  note a = apply_healthy [OF this assms(3), of e n peers remark now]
  show ?thesis using a assms(2) u(1,3) by (simp add: decide_report_def recovery_frame fail_count_def)
qed

end
