(* ===== verification/HealthProps.thy ===== *)
theory HealthProps
  imports HealthFacts CalendarProps Samples
begin

text \<open>
  The properties of the health monitor: a report's bytes are booked once with the rate of the node, the
  accounts it names keep their quota, a node is taken out of service only after three failures, and
  what the limits of machines and the patrols do.
\<close>

section \<open>A sample\<close>

definition sample_health :: health_env where
  "sample_health = health_config (\<lambda>_. None) (\<lambda>x. x) (\<lambda>_. False) (\<lambda>_. ''u'') (\<lambda>_. None)"

lemma sample_health_dec [simp]: "he_dec sample_health = (\<lambda>x. x)"
  by (simp add: sample_health_def health_config_def)

definition sample_monitor :: monitor where
  "sample_monitor = start_monitor (sample_db\<lparr>d_nodes := [sample_node 5]\<rparr>)"

definition sample_record :: "int \<Rightarrow> traffic_record" where
  "sample_record b = \<lparr>rcd_user = 2, rcd_tag = [], rcd_proto = ''vless'', rcd_up = True, rcd_value = b\<rparr>"

lemma sample_monitor_simps [simp]:
  "d_users (hm_db sample_monitor) = [sample_user 1 3 0, sample_user 2 0 (5 * GB)]" "d_nodes (hm_db sample_monitor) = [sample_node 5]"
  "d_totals (hm_db sample_monitor) = []" "d_daily (hm_db sample_monitor) = []" "hm_nodes sample_monitor = []" "hm_fail sample_monitor = []"
  "hm_capped sample_monitor = []" "hm_zero sample_monitor = []"
  by (simp_all add: sample_monitor_def start_monitor_def sample_db_def empty_db_def)

lemma sample_record_simps [simp]:
  "record_user 5 d (sample_record b) = 2" "rcd_value (sample_record b) = b" "rcd_up (sample_record b)"
  "record_target 5 (sample_node 5) [] [sample_record b] (sample_record b) = 5"
  by (simp_all add: record_user_def sample_record_def record_target_def resolveTargetNodeId_def buildProtocolNodeMap_def first_of_def Let_def)

section \<open>Traffic of a report\<close>

text \<open>C4: a report raises the total of an account by the bytes of its records at each node, summed up, multiplied
  with the rate of that node and rounded once, in both directions; whatever else the report leads to.\<close>

theorem reported_bytes_booked_once:
  assumes "user_by_id (hm_db s) uid \<noteq> None" and "uid \<noteq> 0" and "\<And>r. r \<in> set rs \<Longrightarrow> 0 \<le> rcd_value r"
    and "\<And>r. r \<in> set rs \<Longrightarrow> record_user nid (hm_db s) r = uid \<Longrightarrow>
      record_target nid n peers rs r \<noteq> 0 \<and> node_exists (record_target nid n peers rs r) (hm_db s)"
  shows "user_total uid (hm_db (snd (saveTrafficRecords e nid rs n peers now s))) =
    (fst (user_total uid (hm_db s)) + (\<Sum>t \<in> record_target nid n peers rs ` set rs.
       js_round (of_int (bytes_of (record_target nid n peers rs) (record_user nid (hm_db s)) True t uid rs) * rate_of e nid n t s)),
     snd (user_total uid (hm_db s)) + (\<Sum>t \<in> record_target nid n peers rs ` set rs.
       js_round (of_int (bytes_of (record_target nid n peers rs) (record_user nid (hm_db s)) False t uid rs) * rate_of e nid n t s)))"
proof -
  let ?tgt = "record_target nid n peers rs" and ?usr = "record_user nid (hm_db s)"
  let ?xs = "sum_records nid n peers rs (hm_db s)"
  have v: "sum_value ?xs (t, uid) = (bytes_of ?tgt ?usr True t uid rs, bytes_of ?tgt ?usr False t uid rs)" for t
    using sums_value [OF assms(2), where tgt = ?tgt and usr = ?usr and rs = rs and m = "[]" and t = t]
    by (simp add: sum_records_add sum_value_def)
  have d: "distinct (map fst ?xs)" unfolding sum_records_add by (rule sums_distinct) simp
  have k: "\<exists>r \<in> set rs. fst x = (?tgt r, ?usr r)" if "x \<in> set ?xs" for x
    using sums_keys [where x = x and tgt = ?tgt and usr = ?usr and rs = rs and m = "[]"] that by (auto simp: sum_records_add)
  have b: "0 \<le> fst (snd x) \<and> 0 \<le> snd (snd x)" if "x \<in> set ?xs" "snd (fst x) = uid" for x
  proof -
    have "snd x = sum_value ?xs (fst x)" using map_of_is_SomeI [OF d, of "fst x" "snd x"] that(1) by (simp add: sum_value_def)
    then have "snd x = (bytes_of ?tgt ?usr True (fst (fst x)) uid rs, bytes_of ?tgt ?usr False (fst (fst x)) uid rs)"
      using v [of "fst (fst x)"] that(2) by (metis prod.collapse)
    then show ?thesis using bytes_of_nonneg [OF assms(3)] by simp
  qed
  have m: "fst (fst x) \<noteq> 0 \<and> node_exists (fst (fst x)) (hm_db s) \<and> 0 \<le> fst (snd x) \<and> 0 \<le> snd (snd x)"
    if "x \<in> set ?xs" "snd (fst x) = uid" for x
    using k [OF that(1)] b [OF that] that(2) assms(4) by fastforce
  have T: "fst (fst x) \<in> ?tgt ` set rs" if "x \<in> set ?xs" for x using k [OF that] by force
  have "user_total uid (hm_db (snd (fold (book_sum e nid n now) ?xs (0, s)))) =
    add2 (user_total uid (hm_db s))
      (sum_list (map (\<lambda>x. if snd (fst x) = uid then rated e nid n s (fst (fst x)) (fst (snd x)) else 0) ?xs),
       sum_list (map (\<lambda>x. if snd (fst x) = uid then rated e nid n s (fst (fst x)) (snd (snd x)) else 0) ?xs))"
    by (rule book_all_total) (use assms(1,2) m in auto)
  moreover have "sum_list (map (\<lambda>x. if snd (fst x) = uid then rated e nid n s (fst (fst x)) (fst (snd x)) else 0) ?xs) =
      (\<Sum>t \<in> ?tgt ` set rs. rated e nid n s t (fst (sum_value ?xs (t, uid))))"
    by (rule sum_over_targets [OF d]) (use T in auto)
  moreover have "sum_list (map (\<lambda>x. if snd (fst x) = uid then rated e nid n s (fst (fst x)) (snd (snd x)) else 0) ?xs) =
      (\<Sum>t \<in> ?tgt ` set rs. rated e nid n s t (snd (sum_value ?xs (t, uid))))"
    by (rule sum_over_targets [OF d]) (use T in auto)
  ultimately show ?thesis by (simp add: save_total v add2_def rated_def)
qed

theorem reported_bytes_booked_once_witness:
  "user_total 2 (hm_db (snd (saveTrafficRecords sample_health 5 [sample_record 100] (sample_node 5) [] 0 sample_monitor))) = (100, 0)"
  using reported_bytes_booked_once [of sample_monitor 2 "[sample_record 100]" 5 "sample_node 5" "[]" sample_health 0]
  by (simp add: user_by_id_def node_exists_def user_total_def rate_of_def js_round_def floor_eq_iff)

text \<open>C20: after a report of traffic that booked anything, every account it named that has used up its quota is
  frozen. (A report that books nothing checks no account.)\<close>

theorem report_enforces_quota:
  assumes "fst (saveTrafficRecords e nid rs n peers now s) \<noteq> 0"
    and "r \<in> set rs" and "record_user nid (hm_db s) r = uid" and "uid \<noteq> 0"
    and "user_by_id (hm_db (snd (saveTrafficRecords e nid rs n peers now s))) uid = Some u"
    and "isTrafficExceeded uid (hm_db (snd (saveTrafficRecords e nid rs n peers now s)))"
  shows "u_is_frozen u"
proof -
  let ?tgt = "record_target nid n peers rs" and ?usr = "record_user nid (hm_db s)"
  let ?xs = "sum_records nid n peers rs (hm_db s)"
  have key: "(?tgt r, uid) \<in> fst ` set (fold (add_sum ?tgt ?usr) qs m)" if "r \<in> set qs \<or> (?tgt r, uid) \<in> fst ` set m" for qs m
    using that
  proof (induction qs arbitrary: m)
    case (Cons q qs)
    have "r \<in> set qs \<or> (?tgt r, uid) \<in> fst ` set (add_sum ?tgt ?usr q m)" using Cons.prems assms(3,4) by (auto simp: add_record_keys)
    then show ?case using Cons.IH by simp
  qed simp
  have "uid \<in> set (map (\<lambda>x. snd (fst x)) ?xs)"
    using key [of rs "[]"] assms(2) unfolding sum_records_add by force
  note c = check_accounts_keeps [OF this assms(4)]
  have "quota_kept uid (snd (saveTrafficRecords e nid rs n peers now s))"
    using assms(1) c unfolding saveTrafficRecords_def Let_def split_beta by (auto split: if_splits)
  then show ?thesis using assms(5,6) by (simp add: quota_kept_def)
qed

lemma sample_booked:
  "fst (saveTrafficRecords sample_health 5 [sample_record (6 * GB)] (sample_node 5) [] 0 sample_monitor) = 1"
  by (simp add: saveTrafficRecords_def sum_records_def add_record_def book_sum_def rate_of_def recordTraffic_def user_by_id_def node_exists_def
      js_round_def floor_eq_iff Let_def split: prod.split)

lemma sample_exceeded:
  "isTrafficExceeded 2 (hm_db (snd (saveTrafficRecords sample_health 5 [sample_record (6 * GB)] (sample_node 5) [] 0 sample_monitor)))"
  "user_by_id (hm_db (snd (saveTrafficRecords sample_health 5 [sample_record (6 * GB)] (sample_node 5) [] 0 sample_monitor))) 2 \<noteq> None"
proof -
  let ?s = "snd (saveTrafficRecords sample_health 5 [sample_record (6 * GB)] (sample_node 5) [] 0 sample_monitor)"
  have l: "map_option u_traffic_limit (user_by_id (hm_db ?s) 2) = Some (5 * GB)" by (simp only: save_limit) (simp add: user_by_id_def)
  have "user_total 2 (hm_db ?s) = (6 * GB, 0)"
    by (simp only: save_total) (simp add: sum_records_def add_record_def book_sum_def rate_of_def recordTraffic_def user_by_id_def node_exists_def
        js_round_def floor_eq_iff user_total_def upsert_def Let_def split: prod.split)
  then have "used_bytes 2 (hm_db ?s) = 6 * GB" by (auto simp: user_total_def used_bytes_def split: option.splits)
  then show "isTrafficExceeded 2 (hm_db ?s)" "user_by_id (hm_db ?s) 2 \<noteq> None" using l by (auto simp: isTrafficExceeded_def)
qed

theorem report_enforces_quota_witness:
  "\<exists>u. user_by_id (hm_db (snd (saveTrafficRecords sample_health 5 [sample_record (6 * GB)] (sample_node 5) [] 0 sample_monitor))) 2 = Some u \<and> u_is_frozen u"
proof -
  obtain u where "user_by_id (hm_db (snd (saveTrafficRecords sample_health 5 [sample_record (6 * GB)] (sample_node 5) [] 0 sample_monitor))) 2 = Some u"
    using sample_exceeded(2) by blast
  then show ?thesis
    using report_enforces_quota [OF _ _ _ _ _ sample_exceeded(1), of "sample_record (6 * GB)" u] sample_booked by simp
qed

section \<open>Nodes in and out of service\<close>

text \<open>An unhealthy report takes no node out of service unless it is at least the third in a row: before,
  it changes the state of no node (except that machines above their traffic cap are stopped) and only
  counts the failure.\<close>

theorem two_failures_keep_node:
  assumes "node_of e nid (getNodeSnapshot e now s) = Some n" and "\<not> fst (report_status n r)" and "fail_count s nid < 2"
  shows "stops_capped s (updateFromAgentReport e nid r now s) \<and>
    fail_count (updateFromAgentReport e nid r now s) nid = Suc (fail_count s nid)"
proof -
  obtain peers remark s' where u: "updateFromAgentReport e nid r now s = decide_report e nid r n peers (fst (report_status n r)) remark now s'"
    "stops_capped s s'" "hm_fail s' = hm_fail s"
    by (rule report_prelude [OF assms(1), of r])
  let ?k = "Suc (fail_count s nid)"
  let ?s2 = "on_db (update_node nid (set_report_time now)) (s'\<lparr>hm_fail := js_set nid ?k (hm_fail s')\<rparr>)"
  have "stops_capped s' ?s2"
    by (simp add: stops_capped_def update_node_def update_where_def list_all2_map2 list_all2_refl capped_or_same_def set_report_time_def)
  moreover have "updateFromAgentReport e nid r now s = save_report e nid r n peers now ?s2"
    using assms(2,3) u(1,3) by (simp add: decide_report_def fail_count_def FAIL_THRESHOLD_def Let_def)
  moreover note save_report_stops [of ?s2 e nid r n peers now]
  ultimately show ?thesis using u(2) stops_capped_trans by (auto simp: fail_count_def)
qed

definition sample_report :: "bool \<Rightarrow> agent_report" where
  "sample_report up = \<lparr>agr_xray = up, agr_hysteria = False, agr_cn = None, agr_ipv6 = None, agr_load = None, agr_mem = None, agr_disk = None,
     agr_records = []\<rparr>"

lemma sample_status: "fst (report_status (sample_node 5) (sample_report up)) = up"
  by (simp add: report_status_def service_alive_def sample_report_def says_zero_def js_starts_def sample_node_def)

lemma sample_snapshot: "hm_nodes (getNodeSnapshot sample_health t sample_monitor) = [sample_node 5]"
  by (simp add: getNodeSnapshot_def getAllNodes_def by_region_name_def decryptNode_def)

lemma sample_known: "node_of sample_health 5 (getNodeSnapshot sample_health t sample_monitor) = Some (sample_node 5)"
  by (simp add: node_of_def by_id_def sample_snapshot)

theorem two_failures_keep_node_witness:
  "fail_count (updateFromAgentReport sample_health 5 (sample_report False) 9 sample_monitor) 5 = 1"
  using two_failures_keep_node [OF sample_known, of "sample_report False" 9] sample_status by (simp add: fail_count_def)

text \<open>The traffic cap of a machine lasts until the next report: a healthy report puts the stopped node back
  into service, the machine stays noted as capped, and while it is noted the check of the cap does
  nothing more for it.\<close>

theorem capped_node_back_in_service:
  assumes "node_of e nid (getNodeSnapshot e now s) = Some n" and "fst (report_status n r)" and "agr_records r = []"
    and "nid \<in> n_id ` set (d_nodes (hm_db s))" and "ssh_host_of n \<in> set (hm_capped s)"
    and "node_of e nid (getNodeSnapshot e t s') = Some m" and "ssh_host_of m = ssh_host_of n"
    and "hm_capped s' = hm_capped (updateFromAgentReport e nid r now s)"
  shows "in_service nid (updateFromAgentReport e nid r now s) \<and> hm_db (checkNodeTrafficCap e nid t s') = hm_db s'"
  using healthy_report [OF assms(1-4)] assms(5-8) by (simp add: checkNodeTrafficCap_def Let_def)

theorem capped_node_back_in_service_witness:
  "in_service 5 (updateFromAgentReport sample_health 5 (sample_report True) 9 (sample_monitor\<lparr>hm_capped := [''h'']\<rparr>))"
proof -
  let ?s = "sample_monitor\<lparr>hm_capped := [''h'']\<rparr>"
  have k: "node_of sample_health 5 (getNodeSnapshot sample_health t ?s) = Some (sample_node 5)" for t
    by (simp add: node_of_def by_id_def getNodeSnapshot_def getAllNodes_def by_region_name_def decryptNode_def)
  have h: "ssh_host_of (sample_node 5) = ''h''" by (simp add: ssh_host_of_def or_else_def sample_node_def)
  let ?s' = "?s\<lparr>hm_capped := hm_capped (updateFromAgentReport sample_health 5 (sample_report True) 9 ?s)\<rparr>"
  have k': "node_of sample_health 5 (getNodeSnapshot sample_health 9 ?s') = Some (sample_node 5)"
    by (simp add: node_of_def by_id_def getNodeSnapshot_def getAllNodes_def by_region_name_def decryptNode_def)
  show ?thesis
    using capped_node_back_in_service [OF k _ _ _ _ k', of "sample_report True" 9] h sample_status by (simp add: sample_report_def)
qed

section \<open>Nodes without traffic\<close>

lemma utc_days_before:
  assumes "instant_ok now" and "ms_per_day \<le> now" and "57600000 \<le> now mod ms_per_day"
  shows "dateKeyInTimeZone now \<notin> {iso_day (now div ms_per_day), iso_day ((now - 86400000) div ms_per_day)}"
proof -
  have l: "local_day now = now div ms_per_day + 1"
  proof -
    have "now + 28800000 = 86400000 * (now div 86400000 + 1) + (now mod 86400000 - 57600000)" by (simp add: algebra_simps)
    moreover have "now mod 86400000 < 86400000" by simp
    ultimately show ?thesis
      using int_div_pos_eq [of "now + 28800000" 86400000 "now div 86400000 + 1" "now mod 86400000 - 57600000"] assms(3)
      by (simp add: local_day_def shanghai_offset_def ms_per_day_def)
  qed
  have y: "(now - 86400000) div ms_per_day = now div ms_per_day - 1" unfolding ms_per_day_def by linarith
  have ok: "day_ok (local_day now)" "day_ok (now div ms_per_day)" by (rule instant_day_ok [OF assms(1)])+
  have "1 \<le> now div ms_per_day" using assms(2) unfolding ms_per_day_def by linarith
  then have ok': "day_ok (now div ms_per_day - 1)" using ok(2) by (simp add: day_ok_def)
  have k: "dateKeyInTimeZone now = date_text (civil_from_days (local_day now))" by (simp add: dateKeyInTimeZone_def date_text_def split_beta)
  have "Some (local_day now) \<noteq> Some (now div ms_per_day)" "Some (local_day now) \<noteq> Some (now div ms_per_day - 1)" using l by simp_all
  then show ?thesis
    unfolding k y iso_day_text [OF ok(2)] iso_day_text [OF ok']
    using parse_iso_day_text [OF ok(1)] parse_iso_day_text [OF ok(2)] parse_iso_day_text [OF ok'] by auto
qed

text \<open>From 16:00 UTC on the patrol for nodes without traffic does not see the traffic of the present day: a
  node whose traffic was all booked under the present local day, however much it is, is reported as
  without traffic, and with a cloud instance its address is exchanged.\<close>

theorem zero_patrol_misses_today:
  assumes "instant_ok now" and "ms_per_day \<le> now" and "57600000 \<le> now mod ms_per_day"
    and "\<And>r. r \<in> set (d_daily (hm_db s)) \<Longrightarrow> da_node r = n_id n \<Longrightarrow> da_date r = dateKeyInTimeZone now"
    and "n_id n \<notin> set (hm_zero s)" and "truthy (n_aws_instance n)"
  shows "n_id n \<in> set (hm_zero (check_zero_node e now n s)) \<and>
    SwapIp (n_id n) \<in> set (d_effects (hm_db (check_zero_node e now n s)))"
proof -
  let ?days = "[iso_day (now div ms_per_day), iso_day ((now - 86400000) div ms_per_day)]"
  have "filter (\<lambda>r. da_node r = n_id n \<and> da_date r \<in> set ?days) (d_daily (hm_db s)) = []"
    using assms(4) utc_days_before [OF assms(1-3)] by (auto simp: filter_empty_conv)
  then have "node_bytes_on (n_id n) ?days (hm_db s) = 0" unfolding node_bytes_on_def by (simp only:) (simp add: sum_daily_def)
  then show ?thesis using assms(5,6) by (simp add: check_zero_node_def Let_def) (simp add: add_effect_def)
qed

definition sample_cloud_node :: node where
  "sample_cloud_node = (sample_node 5)\<lparr>n_aws_instance := Some ''i''\<rparr>"

theorem zero_patrol_misses_today_witness:
  "SwapIp 5 \<in> set (d_effects (hm_db (check_zero_node sample_health 144000000 sample_cloud_node
     (sample_monitor\<lparr>hm_db := sample_db\<lparr>d_daily := [\<lparr>da_user = 2, da_node = 5, da_date = dateKeyInTimeZone 144000000, da_up = 0, da_down = 9 * GB\<rparr>]\<rparr>\<rparr>))))"
proof -
  have n: "n_id sample_cloud_node = 5" "truthy (n_aws_instance sample_cloud_node)" by (simp_all add: sample_cloud_node_def truthy_def)
  show ?thesis
    using zero_patrol_misses_today [of 144000000 "sample_monitor\<lparr>hm_db := sample_db\<lparr>d_daily := [\<lparr>da_user = 2, da_node = 5,
      da_date = dateKeyInTimeZone 144000000, da_up = 0, da_down = 9 * GB\<rparr>]\<rparr>\<rparr>" sample_cloud_node sample_health]
    by (simp add: n instant_ok_def ms_per_day_def)
qed

end
