(* ===== verification/HubProps.thy ===== *)
theory HubProps
  imports HubAgents HealthProps Contracts
begin

text \<open>
  The properties of the agent hub: its commands refine the ledger and are answered exactly once and in
  time, an agent registers only with the token of its node, what is registered belongs to an
  authenticated connection, the messages of a connection are limited, and one message ends the process.
\<close>

section \<open>Commands\<close>

lemma running: "end_of h = (None, False) \<Longrightarrow> \<not> hb_down h \<and> \<not> server_closing t h"
  by (simp add: end_of_def server_closing_def)

lemma start_running [simp]: "end_of (start_hub d) = (None, False)"
  by (simp add: end_of_def start_hub_def)

definition sample_hub :: hub where
  "sample_hub = snd (sendCommand sample_health ''c1'' False 5 ''restart_xray'' 0
     (on_message (\<lambda>x. x) sample_health (\<lambda>k. replicate k CHR ''x'') 0 (Some (MAuth ''a'' (IdInt 5) None None)) 0
       (on_connection ''1.2.3.4'' 0 (start_hub (sample_db\<lparr>d_nodes := [sample_node 5]\<rparr>)))))"

lemma sample_hub_facts:
  "hub_reachable (\<lambda>x. x) sample_health (0, sample_hub)" "js_get (hb_pending sample_hub) ''c1'' = Some 5"
  "registered 0 5 sample_hub" "\<not> hb_down sample_hub" "hb_exit sample_hub = None"
proof -
  let ?d = "sample_db\<lparr>d_nodes := [sample_node 5]\<rparr>"
  let ?h1 = "on_connection ''1.2.3.4'' 0 (start_hub ?d)"
  let ?m = "on_message (\<lambda>x. x) sample_health (\<lambda>k. replicate k CHR ''x'') 0 (Some (MAuth ''a'' (IdInt 5) None None)) 0"
  have d: "getNodeById (\<lambda>x. x) 5 (hm_db (start_monitor ?d)) = Some (sample_node 5)"
    by (simp add: getNodeById_def start_monitor_def decryptNode_def)
  have tok: "or_else (n_agent_token (sample_node 5)) [] = ''a''" by (simp add: sample_node_def or_else_def)
  have m: "?m ?h1 = register_agent 0 5 (sample_node 5) None None 0 (update_conn 0 (count_message 0) ?h1)"
    using d tok
    by (simp add: on_message_def handleMessage_def handleAuth_def handleNormalAuth_def on_connection_def start_hub_def set_timer_def
        update_conn_def count_message_def safeTokenEqual_def Let_def)
  have fresh: "fresh_ids (\<lambda>k. replicate k CHR ''x'') ?h1"
    by (auto simp: fresh_ids_def used_ids_def on_connection_def start_hub_def set_timer_def inj_def Let_def dest: arg_cong [of _ _ length])
  have u: "''c1'' \<notin> used_ids (?m ?h1)"
    unfolding m by (simp add: used_ids_def on_connection_def start_hub_def set_timer_def Let_def)
  have up: "end_of ?h1 = (None, False)" "end_of (?m ?h1) = (None, False)" "end_of sample_hub = (None, False)"
    by (simp_all add: sample_hub_def m [simplified])
  have 1: "hub_step (\<lambda>x. x) sample_health (0, start_hub ?d) (0, ?h1)"
    using running [OF start_running, of ?d 0] by (intro hub_step.connect) simp_all
  have 2: "hub_step (\<lambda>x. x) sample_health (0, ?h1) (0, ?m ?h1)" using running [OF up(1)] fresh by (intro hub_step.message) simp_all
  have 3: "hub_step (\<lambda>x. x) sample_health (0, ?m ?h1) (0, sample_hub)"
    unfolding sample_hub_def using running [OF up(2)] u by (intro hub_step.send) simp_all
  show "\<not> hb_down sample_hub" "hb_exit sample_hub = None" using up(3) by (simp_all add: end_of_def)
  show "hub_reachable (\<lambda>x. x) sample_health (0, sample_hub)"
    unfolding hub_reachable_def using 1 2 3 by (meson rtranclp.rtrancl_into_rtrancl rtranclp.rtrancl_refl)
  have a: "own_agent 5 (?m ?h1) \<noteq> None" "registered 0 5 (?m ?h1)"
    unfolding m
    by (simp_all add: own_agent_def registered_def register_agent_def on_connection_def start_hub_def set_timer_def update_conn_def
        clear_timer_def getOrCreateMetrics_def on_monitor_def send_frame_def is_open_def count_message_def Let_def)
  then obtain ag where ag: "own_agent 5 (?m ?h1) = Some ag" by blast
  show "js_get (hb_pending sample_hub) ''c1'' = Some 5" "registered 0 5 sample_hub"
    using a(2) unfolding sample_hub_def sendCommand_def resolveAgentForNode_def
    by (simp_all add: ag set_timer_def send_frame_def Let_def registered_def)
qed

text \<open>C3: every step of the hub does to its commands what the ledger allows: a command is issued once with
  the deadline of thirty seconds, and resolved once; the pending commands are exactly those open in the
  ledger, each with its timer.\<close>

theorem hub_refines_ledger:
  assumes "hub_reachable sha e (t, h)" and "hub_step sha e (t, h) (t', h')"
  shows "(ledger_step t)\<^sup>*\<^sup>* (ledger_of h) (ledger_of h') \<and> ledger_ok (ledger_of h') \<and>
    fst ` set (hb_pending h') = fst ` set (fst (ledger_of h'))"
proof -
  have "pending_ok h" "deadlines_ok t' h'"
    using reachable_deadlines [OF assms(1)] deadlines_step [OF assms(2)] by (simp_all add: deadlines_ok_def)
  then show ?thesis using step_refines [OF assms(2)] by (simp add: refines_def deadlines_ok_def pending_ok_def ledger_of_def)
qed

theorem hub_refines_ledger_witness:
  "(ledger_step 0)\<^sup>*\<^sup>* (ledger_of sample_hub) (ledger_of (on_close 0 0 sample_hub)) \<and> ledger_ok (ledger_of (on_close 0 0 sample_hub)) \<and>
    fst ` set (hb_pending (on_close 0 0 sample_hub)) = fst ` set (fst (ledger_of (on_close 0 0 sample_hub)))"
  by (rule hub_refines_ledger [OF sample_hub_facts(1) hub_step.closed [OF sample_hub_facts(4)]])





section \<open>Agents\<close>

text \<open>C8: an agent becomes registered for a node by one event only: a message of a connection not yet
  authenticated that carries the token of this very node, and no other agent is registered by it.\<close>

theorem agent_needs_token:
  assumes "hub_step sha e (t, h) (t', h')" and "registered c n h'" and "\<not> registered c n h"
    and "\<And>x y. sha x = sha y \<Longrightarrow> x = y"
  shows "\<exists>x nd token v caps. js_get (hb_conns h) c = Some x \<and> \<not> co_auth x \<and> n \<noteq> 0 \<and> getNodeById (he_dec e) n (hub_db h) = Some nd \<and>
    token \<noteq> [] \<and> n_agent_token nd = Some token \<and> h' = register_agent c n nd v caps t (update_conn c (count_message t) h)"
proof -
  have "\<not> quiet h h'" using assms(2,3) quiet_registered by blast
  moreover have "h' \<noteq> on_connection ip t h" "h' \<noteq> on_close d t h" for ip d
    using assms(2,3) on_connection_registered on_close_registered by blast+
  ultimately obtain d token m nd where a: "admits sha e t d token m nd h h'" using step_kinds [OF assms(1)] by blast
  then have a: "admits sha e t c token n nd h h'" using admits_registered [OF a assms(2,3)] by simp
  then obtain x v caps where x: "js_get (hb_conns h) c = Some x" "\<not> co_auth x" "token \<noteq> []" "n \<noteq> 0"
    "getNodeById (he_dec e) n (hub_db h) = Some nd" "safeTokenEqual sha token (or_else (n_agent_token nd) [])"
    "h' = register_agent c n nd v caps t (update_conn c (count_message t) h)"
    unfolding admits_def by blast
  have "token = or_else (n_agent_token nd) []" using x(6) assms(4) by (simp add: safeTokenEqual_def)
  then have "n_agent_token nd = Some token" using x(3) by (auto simp: or_else_def split: option.splits if_splits)
  then show ?thesis using x by blast
qed

definition authenticating_hub :: hub where
  "authenticating_hub = on_connection ''1.2.3.4'' 0 (start_hub (sample_db\<lparr>d_nodes := [sample_node 5]\<rparr>))"

lemma authenticating_facts:
  "hub_step (\<lambda>x. x) sample_health (0, authenticating_hub)
     (0, on_message (\<lambda>x. x) sample_health (\<lambda>k. replicate k CHR ''x'') 0 (Some (MAuth ''a'' (IdInt 5) None None)) 0 authenticating_hub)"
  "registered 0 5 (on_message (\<lambda>x. x) sample_health (\<lambda>k. replicate k CHR ''x'') 0 (Some (MAuth ''a'' (IdInt 5) None None)) 0 authenticating_hub)"
  "\<not> registered 0 5 authenticating_hub"
proof -
  have "fresh_ids (\<lambda>k. replicate k CHR ''x'') authenticating_hub"
    by (auto simp: authenticating_hub_def fresh_ids_def used_ids_def on_connection_def start_hub_def set_timer_def inj_def Let_def
        dest: arg_cong [of _ _ length])
  moreover have "end_of authenticating_hub = (None, False)" by (simp add: authenticating_hub_def)
  ultimately show "hub_step (\<lambda>x. x) sample_health (0, authenticating_hub)
     (0, on_message (\<lambda>x. x) sample_health (\<lambda>k. replicate k CHR ''x'') 0 (Some (MAuth ''a'' (IdInt 5) None None)) 0 authenticating_hub)"
    using running by (intro hub_step.message) blast+
  have d: "getNodeById (\<lambda>x. x) 5 (hm_db (start_monitor (sample_db\<lparr>d_nodes := [sample_node 5]\<rparr>))) = Some (sample_node 5)"
    by (simp add: getNodeById_def start_monitor_def decryptNode_def)
  have tok: "or_else (n_agent_token (sample_node 5)) [] = ''a''" by (simp add: sample_node_def or_else_def)
  show "registered 0 5 (on_message (\<lambda>x. x) sample_health (\<lambda>k. replicate k CHR ''x'') 0 (Some (MAuth ''a'' (IdInt 5) None None)) 0 authenticating_hub)"
    using d tok
    by (simp add: on_message_def handleMessage_def handleAuth_def handleNormalAuth_def authenticating_hub_def on_connection_def start_hub_def
        set_timer_def update_conn_def count_message_def safeTokenEqual_def registered_iff register_agent_view Let_def)
  show "\<not> registered 0 5 authenticating_hub"
    by (simp add: authenticating_hub_def registered_iff on_connection_def start_hub_def set_timer_def Let_def)
qed

theorem agent_needs_token_witness:
  "\<exists>x nd token. js_get (hb_conns authenticating_hub) 0 = Some x \<and> \<not> co_auth x \<and>
    getNodeById (\<lambda>x. x) 5 (hub_db authenticating_hub) = Some nd \<and> n_agent_token nd = Some token"
  using agent_needs_token [OF authenticating_facts] by auto

text \<open>At every moment each registered agent hangs on one connection known to the hub, authenticated for
  exactly its node; so one connection never serves two nodes.\<close>

theorem registered_is_authenticated:
  assumes "hub_reachable sha e (t, h)" and "registered c n h"
  shows "n \<noteq> 0 \<and> (\<exists>x. js_get (hb_conns h) c = Some x \<and> co_auth x \<and> co_node x = n) \<and> {m. registered c m h} = {n}"
proof -
  have ok: "m \<noteq> 0 \<and> (\<exists>x. js_get (hb_conns h) c = Some x \<and> co_auth x \<and> co_node x = m)" if "registered c m h" for m
    using reachable_agents [OF assms(1)] that unfolding agents_ok_def registered_iff by fastforce
  moreover have "m = n" if "registered c m h" for m using ok [OF that] ok [OF assms(2)] by auto
  then have "{m. registered c m h} = {n}" using assms(2) by blast
  then show ?thesis using ok [OF assms(2)] by blast
qed

theorem registered_is_authenticated_witness:
  "\<exists>x. js_get (hb_conns sample_hub) 0 = Some x \<and> co_auth x \<and> co_node x = 5"
  using registered_is_authenticated [OF sample_hub_facts(1,3)] by blast

section \<open>Messages\<close>




text \<open>C30: One new connection, without any token, and one message, the JSON text null, end the process: no run goes on
  for longer than five seconds and two tenths after it, and every run can only be continued to the end of the
  process, with whatever commands are still open.\<close>

theorem null_message_ends_process:
  assumes "hub_reachable sha e (t, h)"
    and "hub_steps sha e (t, on_message sha e ids (hb_next h) (Some MNull) t (on_connection ip t h)) (t', h')"
  shows "t' \<le> t + 5200 \<and> (\<exists>t'' h''. hub_steps sha e (t', h') (t'', h'') \<and> t'' \<le> t + 5200 \<and> hb_down h'')"
proof -
  let ?h = "on_message sha e ids (hb_next h) (Some MNull) t (on_connection ip t h)"
  let ?c = "update_conn (hb_next h) (count_message t) (on_connection ip t h)"
  have h: "?h = uncaught t ?c"
    by (simp add: on_message_def on_connection_def handleMessage_def set_timer_def update_conn_def count_message_def Let_def)
  have "exit_ahead t ?c" using reachable_exit [OF assms(1)] exit_by_end [of ?c h] by (simp add: exit_ahead_def)
  then have a: "exit_ahead t ?h" and b: "exit_by (t + 5200) ?h"
    by (auto simp: h uncaught_def gracefulShutdown_def exit_ahead_def exit_by_def LOG_DELAY_def EXIT_DELAY_def split: option.splits)
  then have e: "exit_ahead t' h'" "exit_by (t + 5200) h'" using steps_exit [OF assms(2)] by blast+
  then obtain x where x: "hb_exit h' = Some x" "t' \<le> x" "x \<le> t + 5200" by (auto simp: exit_ahead_def exit_by_def)
  obtain t'' h'' where s: "hub_steps sha e (t', h') (t'', h'')" "t'' = x + 1 \<or> hb_down h''"
    using clock_runs [of t' "x + 1" h' sha e] e(1) x(2) by auto
  have "exit_ahead t'' h''" "exit_by x h''" using steps_exit [OF s(1) e(1), of x] x(1) by (auto simp: exit_by_def)
  then have "t'' \<le> x" by (auto simp: exit_ahead_def exit_by_def)
  then show ?thesis using s x by force
qed

theorem null_message_ends_process_witness:
  "\<exists>t h. hub_steps (\<lambda>x. x) sample_health (0, on_message (\<lambda>x. x) sample_health (\<lambda>k. []) (hb_next sample_hub) (Some MNull) 0 (on_connection ''6.6.6.6'' 0 sample_hub))
     (t, h) \<and> t \<le> 5200 \<and> hb_down h"
  using null_message_ends_process [OF sample_hub_facts(1) rtranclp.rtrancl_refl, of "\<lambda>k. []" "''6.6.6.6''"] by auto

text \<open>The gate of the messages of one connection.\<close>

definition message_gate :: "int \<Rightarrow> conn \<Rightarrow> bool \<times> conn" where
  "message_gate now x = (co_count (count_message now x) \<le> 60, count_message now x)"

interpretation messages: budget "\<lambda>_. True" "\<lambda>x. 60 - co_count x + (if T \<le> co_window x then 0 else 60)" message_gate
  "\<lambda>_ ok. ok" "\<lambda>t. T \<le> t \<and> t \<le> T + 10000" for T :: int
  by unfold_locales (auto simp: message_gate_def count_message_def Let_def)

text \<open>Of one connection at most 120 messages are handled within any ten seconds; every other one
  closes it and changes nothing else.\<close>

theorem messages_rate_limited:
  assumes "\<And>t. t \<in> set ts \<Longrightarrow> T \<le> t \<and> t \<le> T + 10000"
  shows "length (filter id (fst (run_ops message_gate ts x))) \<le> 120 \<and>
    (\<not> fst (message_gate t y) \<and> js_get (hb_conns h) c = Some y \<longrightarrow>
       on_message sha e ids c raw t h = close_conn c 4008 (update_conn c (count_message t) h))"
proof -
  have f: "length (filter (\<lambda>x. snd x) (zip ts (fst (run_ops message_gate ts x)))) = length (filter id (fst (run_ops message_gate ts x)))" for x
    by (induction ts arbitrary: x) (auto simp: Let_def split_beta)
  have "length (filter id (fst (run_ops message_gate ts x))) \<le> 60 - co_count x + (if T \<le> co_window x then 0 else 60)"
    using messages.run_spends [of ts T x] assms by (simp add: f)
  then have "length (filter id (fst (run_ops message_gate ts x))) \<le> 120" by (auto split: if_splits)
  then show ?thesis by (simp add: on_message_def message_gate_def Let_def)
qed

theorem messages_rate_limited_witness:
  "length (filter id (fst (run_ops message_gate (replicate 500 7)
     \<lparr>co_ip = [], co_auth = True, co_node = 5, co_count = 0, co_window = 0, co_open = True\<rparr>))) \<le> 120"
  using messages_rate_limited [of "replicate 500 7" 0] by simp

end
