(* ===== verification/NodeStats.thy ===== *)
theory NodeStats
  imports AgentHub
begin

text \<open>
  The node agent (\<open>src/node-agent/agent.js\<close>), first part: what it measures and reports.

  The agent runs beside the proxies on a machine. The files, commands and servers it reads are
  parameters: their texts, or for JSON the value parsed from it. Its reports are the messages
  of the hub.
\<close>

section \<open>Texts\<close>

text \<open>\<open>s.split(/[..]+/)\<close>: the parts between runs of separators.\<close>

function split_runs :: "(char \<Rightarrow> bool) \<Rightarrow> string \<Rightarrow> string list" where
  "split_runs P s =
     (case dropWhile (\<lambda>c. \<not> P c) s of
        [] \<Rightarrow> [takeWhile (\<lambda>c. \<not> P c) s]
      | c # rest \<Rightarrow> takeWhile (\<lambda>c. \<not> P c) s # split_runs P (dropWhile P rest))"
  by pat_completeness auto

lemma split_runs_shrinks: "dropWhile (\<lambda>c. \<not> P c) s = c # rest \<Longrightarrow> length (dropWhile P rest) < length s"
  using length_dropWhile_le [of P rest] length_dropWhile_le [of "\<lambda>c. \<not> P c" s] by simp

termination split_runs
  by (relation "measure (\<lambda>(P, s). length s)") (auto intro: split_runs_shrinks)

declare split_runs.simps [simp del]

definition lines :: "string \<Rightarrow> string list" where
  "lines s = js_split (char_of (10 :: nat)) s"

definition strip :: "string \<Rightarrow> string \<Rightarrow> string option" where
  "strip p s = (if js_starts p s then Some (drop (length p) s) else None)"

text \<open>\<open>+x.toFixed(1)\<close>.\<close>

definition tenths :: "rat \<Rightarrow> rat" where
  "tenths x = (if x < 0 then - of_int (js_round (- 10 * x)) / 10 else of_int (js_round (10 * x)) / 10)"

section \<open>Traffic of the proxies\<close>

text \<open>
  The name of a counter: \<open>user>>>u-7-v@p>>>traffic>>>uplink\<close> and the older forms. The part after
  the account's number tells the protocol.
\<close>

definition direction_of :: "string \<Rightarrow> bool option" where
  "direction_of s =
     (if s = ''>>>traffic>>>uplink'' then Some True else if s = ''>>>traffic>>>downlink'' then Some False else None)"

definition proto_suffix :: "string \<Rightarrow> string \<times> string" where
  "proto_suffix s =
     (case strip ''-s'' s of Some r \<Rightarrow> (''ss'', r) | None \<Rightarrow> (case strip ''-v'' s of Some r \<Rightarrow> (''vless'', r) | None \<Rightarrow> ([], s)))"

definition new_stat_name :: "string \<Rightarrow> (string \<times> string \<times> bool) option" where
  "new_stat_name name =
     (case strip ''user>>>u-'' name of
        None \<Rightarrow> None
      | Some r \<Rightarrow>
          let (ds, r1) = split_digits r; (proto, r2) = proto_suffix r1
          in if ds = [] \<or> proto = [] then None
             else case strip ''@p'' r2 of None \<Rightarrow> None | Some r3 \<Rightarrow> map_option (\<lambda>up. (ds, proto, up)) (direction_of r3))"

definition old_stat_name :: "string \<Rightarrow> (string \<times> string \<times> bool) option" where
  "old_stat_name name =
     (case strip ''user>>>'' name of
        None \<Rightarrow> None
      | Some r \<Rightarrow>
          (case (case strip ''user-'' r of Some x \<Rightarrow> Some x | None \<Rightarrow> strip ''u-'' r) of
             None \<Rightarrow> None
           | Some r0 \<Rightarrow>
               let (ds, r1) = split_digits r0; (proto, r2) = proto_suffix r1;
                   r3 = (case strip ''@panel'' r2 of Some x \<Rightarrow> x | None \<Rightarrow> (case strip ''@p'' r2 of Some x \<Rightarrow> x | None \<Rightarrow> r2))
               in if ds = [] then None else map_option (\<lambda>up. (ds, proto, up)) (direction_of r3)))"

definition record_by_name :: "string \<Rightarrow> string \<Rightarrow> traffic_record option" where
  "record_by_name name rawValue =
     (case (case new_stat_name name of Some x \<Rightarrow> Some x | None \<Rightarrow> old_stat_name name) of
        None \<Rightarrow> None
      | Some (ds, proto, up) \<Rightarrow>
          let userId = digits_val ds; value = (case js_parse_int rawValue of None \<Rightarrow> 0 | Some v \<Rightarrow> v)
          in if userId = 0 \<or> value \<le> 0 then None
             else Some \<lparr>rcd_user = userId, rcd_tag = [], rcd_proto = proto, rcd_up = up, rcd_value = value\<rparr>)"

text \<open>The text form of the counters: \<open>name:\s*"([^"]+)"\s*value:\s*(\d+)\<close>, wherever it occurs.\<close>

definition stat_at :: "string \<Rightarrow> ((string \<times> string) \<times> string) option" where
  "stat_at s =
     (case strip ''name:'' s of
        None \<Rightarrow> None
      | Some r \<Rightarrow>
          (case dropWhile js_space r of
             [] \<Rightarrow> None
           | q # r1 \<Rightarrow>
               let name = takeWhile (\<lambda>c. c \<noteq> CHR 0x22) r1; r2 = dropWhile (\<lambda>c. c \<noteq> CHR 0x22) r1
               in if q \<noteq> CHR 0x22 \<or> name = [] \<or> r2 = [] then None
                  else case strip ''value:'' (dropWhile js_space (tl r2)) of
                         None \<Rightarrow> None
                       | Some r3 \<Rightarrow>
                           let (ds, r4) = split_digits (dropWhile js_space r3)
                           in if ds = [] then None else Some ((name, ds), r4)))"

lemma strip_length: "strip p s = Some r \<Longrightarrow> length r + length p = length s"
  by (auto simp: strip_def js_starts_def split: if_splits dest: arg_cong [of _ _ length])

lemma split_digits_length: "split_digits s = (ds, r) \<Longrightarrow> length r \<le> length s"
  by (auto simp: split_digits_def length_dropWhile_le)

lemma stat_at_shrinks: "stat_at s = Some (x, r) \<Longrightarrow> length r < length s"
proof -
  assume a: "stat_at s = Some (x, r)"
  obtain r0 where r0: "strip ''name:'' s = Some r0" using a by (auto simp: stat_at_def split: option.splits)
  obtain q r1 where r1: "dropWhile js_space r0 = q # r1" using a r0 by (auto simp: stat_at_def split: list.splits)
  let ?r2 = "dropWhile (\<lambda>c. c \<noteq> CHR 0x22) r1"
  obtain r3 where r3: "strip ''value:'' (dropWhile js_space (tl ?r2)) = Some r3"
    using a r0 r1 by (auto simp: stat_at_def Let_def split: if_splits option.splits)
  have "split_digits (dropWhile js_space r3) = (snd x, r)"
    using a r0 r1 r3 by (auto simp: stat_at_def Let_def split: if_splits prod.splits)
  then have "length r \<le> length r3" using split_digits_length length_dropWhile_le [of js_space r3] le_trans by blast
  also have "length r3 \<le> length (tl ?r2)" using strip_length [OF r3] length_dropWhile_le [of js_space "tl ?r2"] by simp
  also have "length (tl ?r2) \<le> length r1" using length_dropWhile_le [of "\<lambda>c. c \<noteq> CHR 0x22" r1] by simp
  also have "length r1 < length (dropWhile js_space r0)" using r1 by simp
  also have "length (dropWhile js_space r0) \<le> length s" using strip_length [OF r0] length_dropWhile_le [of js_space r0] by simp
  finally show ?thesis .
qed

function scan_stats :: "string \<Rightarrow> (string \<times> string) list" where
  "scan_stats s =
     (case stat_at s of
        Some (x, r) \<Rightarrow> x # scan_stats r
      | None \<Rightarrow> (case s of [] \<Rightarrow> [] | c # t \<Rightarrow> scan_stats t))"
  by pat_completeness auto

termination scan_stats
  by (relation "measure length") (auto dest: stat_at_shrinks)

declare scan_stats.simps [simp del]

text \<open>The output of the query, parsed as JSON: a list of counters, something else, or no JSON.\<close>

datatype json_stats = StatList "(string \<times> string) list" | NoStatList | NotJson

definition records_of :: "(string \<times> string) list \<Rightarrow> traffic_record list" where
  "records_of stats = concat (map (\<lambda>(name, v). case record_by_name name v of None \<Rightarrow> [] | Some r \<Rightarrow> [r]) stats)"

definition getXrayTraffic :: "(string \<Rightarrow> json_stats) \<Rightarrow> bool \<times> string \<Rightarrow> traffic_record list" where
  "getXrayTraffic parse res =
     (case res of (ok, out) \<Rightarrow>
        if \<not> ok \<or> out = [] then []
        else case parse out of StatList stats \<Rightarrow> records_of stats | NoStatList \<Rightarrow> [] | NotJson \<Rightarrow> records_of (scan_stats out))"

text \<open>Hysteria names its accounts \<open>u-7-h\<close> or \<open>u-7-h@p\<close>; per account the bytes sent and received.\<close>

definition hy2_user :: "string \<Rightarrow> int option" where
  "hy2_user email =
     (case strip ''u-'' email of
        None \<Rightarrow> None
      | Some r \<Rightarrow> (let (ds, t) = split_digits r in if ds \<noteq> [] \<and> (t = ''-h'' \<or> t = ''-h@p'') then Some (digits_val ds) else None))"

definition hy2_record :: "int \<Rightarrow> bool \<Rightarrow> int \<Rightarrow> traffic_record list" where
  "hy2_record uid up v =
     (if 0 < v then [\<lparr>rcd_user = uid, rcd_tag = [], rcd_proto = ''hy2'', rcd_up = up, rcd_value = v\<rparr>] else [])"

definition getHysteriaTraffic :: "(string \<times> int \<times> int) list option \<Rightarrow> traffic_record list" where
  "getHysteriaTraffic answer =
     (case answer of
        None \<Rightarrow> []
      | Some data \<Rightarrow>
          concat (map (\<lambda>(email, tx, rx). case hy2_user email of
              None \<Rightarrow> [] | Some uid \<Rightarrow> hy2_record uid True rx @ hy2_record uid False tx) data))"

section \<open>The memory of the agent\<close>

text \<open>Alerts wait for the next report; times are milliseconds.\<close>

datatype agent_alert =
    ConnAlert int int int string
  | SpikeAlert int rat int rat string

record node_agent =
  na_cpu :: "(rat \<times> rat) option"
  na_net :: "(int \<times> int \<times> int) option"
  na_hy2 :: "(string, int) js_map"
  na_hy2_at :: int
  na_alerts :: "agent_alert list"
  na_ip :: string
  na_ip_at :: int
  na_metrics :: metrics

definition start_agent :: node_agent where
  "start_agent = \<lparr>na_cpu = None, na_net = None, na_hy2 = [], na_hy2_at = 0, na_alerts = [], na_ip = [], na_ip_at = 0,
     na_metrics = new_metrics\<rparr>"

section \<open>Load of the machine\<close>

text \<open>
  The text of \<open>/proc/stat\<close> and \<open>/proc/net/dev\<close>; \<open>None\<close> when reading fails. The columns of the first
  line of \<open>/proc/stat\<close> are numbers, at least four of them.
\<close>

definition cpu_columns :: "string \<Rightarrow> rat list option" where
  "cpu_columns raw =
     (case find (js_starts ''cpu '') (lines raw) of
        None \<Rightarrow> None
      | Some l \<Rightarrow> Some (map (\<lambda>x. case js_number x of None \<Rightarrow> 0 | Some v \<Rightarrow> v) (tl (split_runs js_space (js_trim l)))))"

definition getCpuUsage :: "string option \<Rightarrow> node_agent \<Rightarrow> rat option \<times> node_agent" where
  "getCpuUsage stat a =
     (case (case stat of None \<Rightarrow> None | Some raw \<Rightarrow> cpu_columns raw) of
        None \<Rightarrow> (None, a)
      | Some parts \<Rightarrow>
          let idle = parts ! 3 + (if 4 < length parts then parts ! 4 else 0); total = sum_list parts;
              a' = a\<lparr>na_cpu := Some (idle, total)\<rparr>
          in (case na_cpu a of
                None \<Rightarrow> (None, a')
              | Some (idle0, total0) \<Rightarrow>
                  if total - total0 \<le> 0 then (None, a')
                  else (Some (tenths ((1 - (idle - idle0) / (total - total0)) * 100)), a')))"

text \<open>The bytes received and sent over all interfaces but the loopback.\<close>

definition int_or_zero :: "string \<Rightarrow> int" where
  "int_or_zero s = (case js_parse_int s of None \<Rightarrow> 0 | Some v \<Rightarrow> v)"

definition net_bytes :: "string \<Rightarrow> int \<times> int" where
  "net_bytes raw =
     fold (\<lambda>l (rx, tx).
         let parts = split_runs (\<lambda>c. c = CHR '':'' \<or> js_space c) (js_trim l)
         in if length parts < 10 \<or> parts ! 0 = ''lo'' then (rx, tx)
            else (rx + int_or_zero (parts ! 1), tx + int_or_zero (parts ! 9)))
       (drop 2 (lines raw)) (0, 0)"

definition no_rate :: bandwidth where
  "no_rate = \<lparr>bw_rx_rate = Some 0, bw_tx_rate = Some 0, bw_rx_bytes = None, bw_tx_bytes = None\<rparr>"

definition byte_rate :: "int \<Rightarrow> int \<Rightarrow> rat" where
  "byte_rate bytes ms = of_int (max 0 (js_round (of_int bytes / (of_int ms / 1000))))"

definition getNetworkBandwidth :: "string option \<Rightarrow> int \<Rightarrow> node_agent \<Rightarrow> bandwidth \<times> node_agent" where
  "getNetworkBandwidth dev now a =
     (case dev of
        None \<Rightarrow> (no_rate, a)
      | Some raw \<Rightarrow>
          let (rx, tx) = net_bytes raw; a' = a\<lparr>na_net := Some (rx, tx, now)\<rparr>
          in (case na_net a of
                None \<Rightarrow> (no_rate, a')
              | Some (rx0, tx0, t0) \<Rightarrow>
                  if now - t0 \<le> 0 then (no_rate, a)
                  else (\<lparr>bw_rx_rate = Some (byte_rate (rx - rx0) (now - t0)), bw_tx_rate = Some (byte_rate (tx - tx0) (now - t0)),
                         bw_rx_bytes = Some (of_int rx), bw_tx_bytes = Some (of_int tx)\<rparr>, a')))"

text \<open>\<open>df\<close>'s line: the used share of the disk. Memory in bytes, total and free.\<close>

definition getDiskUsage :: "bool \<times> string \<Rightarrow> rat option" where
  "getDiskUsage res =
     (case res of (ok, out) \<Rightarrow>
        if \<not> ok \<or> out = [] then None
        else let parts = split_runs js_space out in if length parts < 4 then None else js_parse_float (parts ! 3))"

definition memory_percent :: "rat \<Rightarrow> rat \<Rightarrow> rat" where
  "memory_percent tot free = tenths ((1 - free / tot) * 100)"

section \<open>Reachability and the public address\<close>

definition checkChinaReachable :: "bool list \<Rightarrow> bool" where
  "checkChinaReachable results \<longleftrightarrow> 2 \<le> length (filter id results)"

text \<open>The interfaces: family, internal, address.\<close>

definition hasGlobalIPv6 :: "(string \<times> bool \<times> string) list \<Rightarrow> bool" where
  "hasGlobalIPv6 ifaces \<longleftrightarrow>
     list_ex (\<lambda>(family, internal, addr). family = ''IPv6'' \<and> \<not> internal \<and> \<not> js_starts ''fe80'' addr) ifaces"

definition checkIPv6Reachable :: "bool \<Rightarrow> (string \<times> bool \<times> string) list \<Rightarrow> bool \<Rightarrow> bool option" where
  "checkIPv6Reachable enabled ifaces probe = (if \<not> enabled \<or> \<not> hasGlobalIPv6 ifaces then None else Some probe)"

definition PUBLIC_IP_CACHE_MS :: int where "PUBLIC_IP_CACHE_MS = 5 * 60 * 1000"

text \<open>An answer of an address service: its status and trimmed body.\<close>

definition address_from :: "(int \<times> string) option \<Rightarrow> string option" where
  "address_from r = (case r of None \<Rightarrow> None | Some (status, body) \<Rightarrow> if status = 200 \<and> is_ipv4 body then Some body else None)"

definition getPublicIp :: "(int \<times> string) option \<Rightarrow> (int \<times> string) option \<Rightarrow> int \<Rightarrow> node_agent \<Rightarrow> string option \<times> node_agent" where
  "getPublicIp aws ipify now a =
     (if na_ip a \<noteq> [] \<and> now - na_ip_at a < PUBLIC_IP_CACHE_MS then (Some (na_ip a), a)
      else case (case address_from aws of Some ip \<Rightarrow> Some ip | None \<Rightarrow> address_from ipify) of
             None \<Rightarrow> (None, a)
           | Some ip \<Rightarrow> (Some ip, a\<lparr>na_ip := ip, na_ip_at := now\<rparr>))"

section \<open>Watching the connections\<close>

definition CONN_ALERT_THRESHOLD :: int where "CONN_ALERT_THRESHOLD = 100"

text \<open>The accounts whose transfer since the last look is above 200 Mbit/s.\<close>

definition spike_of :: "node_agent \<Rightarrow> int \<Rightarrow> string \<times> int \<times> int \<Rightarrow> agent_alert list" where
  "spike_of a now entry =
     (case entry of (email, tx, rx) \<Rightarrow>
        case hy2_user email of
          None \<Rightarrow> []
        | Some uid \<Rightarrow>
            let dt = (of_int (now - na_hy2_at a) / 1000 :: rat);
                delta = tx + rx - (case js_get (na_hy2 a) email of None \<Rightarrow> 0 | Some t \<Rightarrow> t);
                rateMbps = of_int delta / dt * 8 / (1024 * 1024)
            in if delta \<le> 0 \<or> rateMbps \<le> 200 then []
               else [SpikeAlert uid (tenths rateMbps) delta (tenths dt) (nowUtcIso now)])"

definition detectHy2TrafficSpike :: "(string \<times> int \<times> int) list option \<Rightarrow> int \<Rightarrow> node_agent \<Rightarrow> agent_alert list \<times> node_agent" where
  "detectHy2TrafficSpike answer now a =
     (case answer of
        None \<Rightarrow> ([], a)
      | Some data \<Rightarrow>
          let dtSec = (if 0 < na_hy2_at a then of_int (now - na_hy2_at a) / 1000 else (0 :: rat));
              alerts = (if 0 < dtSec \<and> dtSec < 60 then concat (map (spike_of a now) data) else [])
          in (alerts, a\<lparr>na_hy2 := fold (\<lambda>(email, tx, rx). js_set email (tx + rx)) data [], na_hy2_at := now\<rparr>))"

definition conn_count :: "bool \<times> string \<Rightarrow> int" where
  "conn_count res = (case res of (ok, out) \<Rightarrow> if \<not> ok then 0 else int_or_zero out)"

definition monitorConnections ::
  "bool \<times> string \<Rightarrow> bool \<times> string \<Rightarrow> (string \<times> int \<times> int) list option \<Rightarrow> int \<Rightarrow> node_agent \<Rightarrow> node_agent" where
  "monitorConnections hy2 xray answer now a =
     (let hy2Conns = conn_count hy2; xrayConns = conn_count xray;
          (spikes, a1) = detectHy2TrafficSpike answer now a;
          high = (if CONN_ALERT_THRESHOLD < hy2Conns + xrayConns
                  then [ConnAlert (hy2Conns + xrayConns) hy2Conns xrayConns (nowUtcIso now)] else []);
          queue = na_alerts a1 @ high @ spikes
      in a1\<lparr>na_alerts := (if 50 < length queue then drop (length queue - 50) queue else queue)\<rparr>)"

text \<open>The access log keeps its last 2000 lines.\<close>

definition CONN_LOG_MAX_SIZE :: nat where "CONN_LOG_MAX_SIZE = 10 * 1024 * 1024"

definition rotateConnLog :: "string option \<Rightarrow> string option" where
  "rotateConnLog file =
     (case file of
        None \<Rightarrow> None
      | Some content \<Rightarrow>
          if length content \<le> CONN_LOG_MAX_SIZE then Some content
          else let ls = lines content in Some (js_join [char_of (10 :: nat)] (drop (length ls - 2000) ls)))"

section \<open>The report\<close>

text \<open>What the outside answers while a report is put together.\<close>

record readings =
  rdg_stat :: "string option"
  rdg_dev :: "string option"
  rdg_xray :: string
  rdg_hysteria :: string
  rdg_stats :: "bool \<times> string"
  rdg_hy2 :: "(string \<times> int \<times> int) list option"
  rdg_china :: "bool list"
  rdg_ipv6 :: "bool option"
  rdg_disk :: "bool \<times> string"
  rdg_aws :: "(int \<times> string) option"
  rdg_ipify :: "(int \<times> string) option"
  rdg_load :: "rat list"
  rdg_total_mem :: rat
  rdg_free_mem :: rat
  rdg_uptime :: rat

fun wire_alert :: "(agent_alert \<Rightarrow> string) \<Rightarrow> agent_alert \<Rightarrow> alert" where
  "wire_alert json (ConnAlert n h x at') = \<lparr>alr_type = ''high_conn_count'', alr_user = 0, alr_json = json (ConnAlert n h x at')\<rparr>"
| "wire_alert json (SpikeAlert u r d w at') = \<lparr>alr_type = ''traffic_spike'', alr_user = u, alr_json = json (SpikeAlert u r d w at')\<rparr>"

text \<open>
  \<open>up\<close>: whether the socket is open; otherwise \<open>sendMsg\<close> drops the message. The proxies reset
  their counters when they are read.
\<close>

definition report ::
  "(string \<Rightarrow> json_stats) \<Rightarrow> (agent_alert \<Rightarrow> string) \<Rightarrow> string \<Rightarrow> string \<Rightarrow> bool \<Rightarrow> readings \<Rightarrow> int \<Rightarrow> node_agent \<Rightarrow>
   report_msg option \<times> node_agent" where
  "report parse json version caps up r now a =
     (let (cpu, a1) = getCpuUsage (rdg_stat r) a;
          (net, a2) = getNetworkBandwidth (rdg_dev r) now a1;
          (ip, a3) = getPublicIp (rdg_aws r) (rdg_ipify r) now a2;
          msg = \<lparr>rm_xray = Some (rdg_xray r = ''active''), rm_service = False, rm_hysteria = (rdg_hysteria r = ''active''),
                 rm_cn = Some (checkChinaReachable (rdg_china r)), rm_ipv6 = rdg_ipv6 r, rm_load = rdg_load r,
                 rm_mem = Some (memory_percent (rdg_total_mem r) (rdg_free_mem r)), rm_disk = getDiskUsage (rdg_disk r),
                 rm_records = getXrayTraffic parse (rdg_stats r) @ getHysteriaTraffic (rdg_hy2 r),
                 rm_version = Some version, rm_capabilities = Some caps, rm_metrics = Some (na_metrics a3), rm_cpu = cpu,
                 rm_bandwidth = Some net, rm_uptime = Some (rdg_uptime r), rm_public_ip = ip,
                 rm_alerts = map (wire_alert json) (na_alerts a3)\<rparr>
      in (if up then Some msg else None, a3\<lparr>na_alerts := []\<rparr>))"

text \<open>\<open>selfHeal\<close>: the commands run for the proxies whose configuration exists but that are not active.\<close>

definition selfHeal :: "bool \<Rightarrow> string \<Rightarrow> bool \<Rightarrow> string \<Rightarrow> string list" where
  "selfHeal xrayConfig xray hy2Config hysteria =
     (if xrayConfig \<and> xray \<noteq> ''active'' then [''systemctl restart xray''] else []) @
     (if hy2Config \<and> hysteria \<noteq> ''active'' then [''systemctl restart hysteria-server''] else [])"

end
