(* ===== verification/NodeCommands.thy ===== *)
theory NodeCommands
  imports NodeStats
begin

text \<open>
  The node agent (\<open>src/node-agent/agent.js\<close>), second part: the commands of the panel.

  A command is answered with what it did to the machine, in order, and the reply. The results of the
  shell, of the download and of the JSON parser are parameters.
\<close>

section \<open>The gate of \<open>exec\<close>\<close>

definition EXEC_WHITELIST_EXACT :: "string list" where
  "EXEC_WHITELIST_EXACT =
     [''systemctl restart xray'', ''systemctl stop xray'', ''systemctl start xray'', ''systemctl status xray'', ''systemctl is-active xray'',
      ''systemctl restart hysteria-server'', ''systemctl stop hysteria-server'', ''systemctl start hysteria-server'',
      ''systemctl status hysteria-server'', ''systemctl is-active hysteria-server'', ''uptime'', ''top -bn1'', ''ip addr'', ''ip -6 addr'',
      ''ip route'', ''cat /usr/local/etc/xray/config.json'', ''cat /etc/hysteria/config.yaml'', ''free -m'', ''free -h'', ''conntrack -C'']"

definition EXEC_WHITELIST_PREFIX :: "string list" where
  "EXEC_WHITELIST_PREFIX =
     [''xray api statsquery '', ''xray api stats '', ''df -h'', ''df -B1'', ''df -B1 '', ''df -h '', ''ping -c '', ''ps aux'', ''ss -tnp'', ''ss -tnp '']"

text \<open>\<open>/[|;&`<>]|\$\(|\r|\n/\<close>.\<close>

definition dangerous_char :: "char \<Rightarrow> bool" where
  "dangerous_char c \<longleftrightarrow> c \<in> set ''|;&`<>'' \<or> c = CHR 0x0D \<or> c = CHR 0x0A"

definition is_dangerous :: "string \<Rightarrow> bool" where
  "is_dangerous cmd \<longleftrightarrow> list_ex dangerous_char cmd \<or> js_includes ''$('' cmd"

text \<open>\<open>/https?:\/\/[^\s"']+/g\<close>.\<close>

definition url_char :: "char \<Rightarrow> bool" where
  "url_char c \<longleftrightarrow> \<not> js_space c \<and> c \<noteq> CHR 0x22 \<and> c \<noteq> CHR 0x27"

definition url_at :: "string \<Rightarrow> (string \<times> string) option" where
  "url_at s =
     (case (case strip ''http://'' s of Some r \<Rightarrow> Some (''http://'', r) | None \<Rightarrow> map_option (Pair ''https://'') (strip ''https://'' s)) of
        None \<Rightarrow> None
      | Some (scheme, r) \<Rightarrow>
          if takeWhile url_char r = [] then None else Some (scheme @ takeWhile url_char r, dropWhile url_char r))"

lemma url_at_shrinks:
  assumes "url_at s = Some (u, r)"
  shows "length r < length s"
proof -
  obtain scheme r0 where r0: "strip scheme s = Some r0" "scheme \<noteq> []" "r = dropWhile url_char r0"
    using assms by (auto simp: url_at_def split: option.splits if_splits)
  then show ?thesis using strip_length [OF r0(1)] length_dropWhile_le [of url_char r0] by (cases scheme) auto
qed

function extractCommandUrls :: "string \<Rightarrow> string list" where
  "extractCommandUrls s =
     (case url_at s of
        Some (u, r) \<Rightarrow> u # extractCommandUrls r
      | None \<Rightarrow> (case s of [] \<Rightarrow> [] | c # t \<Rightarrow> extractCommandUrls t))"
  by pat_completeness auto

termination extractCommandUrls
  by (relation "measure length") (auto dest: url_at_shrinks)

declare extractCommandUrls.simps [simp del]

text \<open>The configuration; \<open>host\<close> reads the host name of an address, \<open>None\<close> when it is malformed.\<close>

record agent_config =
  cf_server :: string
  cf_token :: string
  cf_node :: int
  cf_whitelist :: bool

definition safe_hosts :: "(string \<Rightarrow> string option) \<Rightarrow> agent_config \<Rightarrow> string list" where
  "safe_hosts host cfg = (case host (cf_server cfg) of None \<Rightarrow> [] | Some h \<Rightarrow> if h = [] then [] else [js_lower h]) @ [''vip.vip.sd'']"

datatype exec_refusal = NoCommand | Dangerous | NotWhitelisted string | ForbiddenHost string

definition forbidden_url :: "(string \<Rightarrow> string option) \<Rightarrow> agent_config \<Rightarrow> string \<Rightarrow> bool" where
  "forbidden_url host cfg u \<longleftrightarrow> (case host u of None \<Rightarrow> True | Some h \<Rightarrow> js_lower h \<notin> set (safe_hosts host cfg))"

definition exec_refused :: "(string \<Rightarrow> string option) \<Rightarrow> agent_config \<Rightarrow> string \<Rightarrow> exec_refusal option" where
  "exec_refused host cfg command =
     (if command = [] then Some NoCommand
      else let cmd = js_trim command
           in if is_dangerous cmd then Some Dangerous
              else if cf_whitelist cfg \<and> cmd \<notin> set EXEC_WHITELIST_EXACT \<and> \<not> list_ex (\<lambda>p. js_starts p cmd) EXEC_WHITELIST_PREFIX
              then Some (NotWhitelisted (take 80 cmd))
              else if js_starts ''curl '' cmd \<or> js_starts ''wget '' cmd
              then map_option ForbiddenHost (find (forbidden_url host cfg) (extractCommandUrls cmd))
              else None)"

section \<open>Downloads\<close>

text \<open>
  One answer of a server: a redirection, a status other than 200, the content, or a failure of the
  connection. Every request carries the agent's token; \<open>fst\<close> of the result are the addresses asked.
\<close>

datatype http_answer = HttpRedirect string | HttpStatus int | HttpContent string | HttpFailure string

function httpGet :: "(string \<Rightarrow> http_answer) \<Rightarrow> string \<Rightarrow> nat \<Rightarrow> string list \<times> (string + string)" where
  "httpGet net url redirects =
     (if 5 < redirects then ([], Inl ''Too many redirects'')
      else case net url of
             HttpRedirect location \<Rightarrow> (let (asked, r) = httpGet net location (redirects + 1) in (url # asked, r))
           | HttpStatus n \<Rightarrow> ([url], Inl (''HTTP '' @ show_int n))
           | HttpContent body \<Rightarrow> ([url], Inr body)
           | HttpFailure msg \<Rightarrow> ([url], Inl msg))"
  by pat_completeness auto

termination httpGet
  by (relation "measure (\<lambda>(net, url, k). 6 - k)") auto

declare httpGet.simps [simp del]

definition drop_end :: "string \<Rightarrow> string \<Rightarrow> string" where
  "drop_end p s = (if js_starts (rev p) (rev s) then take (length s - length p) s else s)"

definition swap_start :: "string \<Rightarrow> string \<Rightarrow> string \<Rightarrow> string" where
  "swap_start p q s = (case strip p s of None \<Rightarrow> s | Some r \<Rightarrow> q @ r)"

definition updateUrl :: "agent_config \<Rightarrow> string" where
  "updateUrl cfg =
     swap_start ''ws:'' ''http:'' (swap_start ''wss:'' ''https:'' (drop_end ''/ws/agent'' (cf_server cfg))) @ ''/api/agent/download''"

section \<open>Commands\<close>

text \<open>The configuration a command carries: absent, an object (with or without the sections of a
  configuration; the text it is written as), another value, or a text that is no JSON.\<close>

datatype json_config = ConfigMissing | ConfigObject bool bool string | ConfigOther | ConfigNoJson string

datatype command =
    CmdPing
  | CmdRestartXray
  | CmdRestartHysteria
  | CmdUpdateHy2 "string option"
  | CmdUpdateConfig json_config
  | CmdExec string int
  | CmdSelfUpdate string
  | CmdUnknown string

text \<open>What the agent does on its machine. \<open>Failed d\<close> is a file operation that was tried and failed; a failing
  write may leave a part of its text.\<close>

datatype deed =
    Ran string int
  | Copied string string
  | MadeDir string
  | Wrote string string
  | Renamed string string
  | MadeExecutable string
  | Asked string
  | Exits
  | Failed deed

record run_result =
  rr_ok :: bool
  rr_stdout :: string
  rr_stderr :: string
  rr_code :: "int option"

datatype reply =
    PongReply
  | Done bool "string option"
  | Output bool string string "int option"
  | Updated

definition HY2_CONFIG_PATH :: string where "HY2_CONFIG_PATH = ''/etc/hysteria/config.yaml''"
definition XRAY_CONFIG_PATH :: string where "XRAY_CONFIG_PATH = ''/usr/local/etc/xray/config.json''"
definition AGENT_PATH :: string where "AGENT_PATH = ''/opt/vless-agent/agent.js''"

text \<open>The world of a command: results of the shell, existing files, the error of a file operation
  (\<open>None\<close> when it succeeds), downloads, the hash, hosts.\<close>

record world =
  wd_run :: "string \<Rightarrow> run_result"
  wd_exists :: "string \<Rightarrow> bool"
  wd_fault :: "deed \<Rightarrow> string option"
  wd_net :: "string \<Rightarrow> http_answer"
  wd_sha :: "string \<Rightarrow> string"
  wd_host :: "string \<Rightarrow> string option"

definition ran :: "world \<Rightarrow> string \<Rightarrow> deed list \<times> reply" where
  "ran w cmd =
     (let r = wd_run w cmd in ([Ran cmd 15000], Done (rr_ok r) (if rr_ok r then None else Some (rr_stderr r))))"

text \<open>File operations one after the other, up to the first that fails, with its error.\<close>

fun perform :: "world \<Rightarrow> deed list \<Rightarrow> deed list \<times> string option" where
  "perform w [] = ([], None)"
| "perform w (d # ds) =
     (case wd_fault w d of
        Some e \<Rightarrow> ([Failed d], Some e)
      | None \<Rightarrow> let (rest, e) = perform w ds in (d # rest, e))"

text \<open>The error of a copy is only logged.\<close>

definition backup :: "world \<Rightarrow> string \<Rightarrow> deed list" where
  "backup w path = (if wd_exists w path then fst (perform w [Copied path (path @ ''.bak'')]) else [])"

text \<open>The file operations of an update, then the restart of the service; an error is the reply.\<close>

definition perform_and_run :: "world \<Rightarrow> deed list \<Rightarrow> string \<Rightarrow> deed list \<times> reply" where
  "perform_and_run w ds cmd =
     (case perform w ds of
        (dones, Some e) \<Rightarrow> (dones, Done False (Some e))
      | (dones, None) \<Rightarrow> let (rs, r) = ran w cmd in (dones @ rs, r))"

definition failed :: "string \<Rightarrow> deed list \<times> reply" where
  "failed msg = ([], Done False (Some msg))"

definition exec_error :: "exec_refusal \<Rightarrow> string" where
  "exec_error r =
     (case r of
        NoCommand \<Rightarrow> ''no command''
      | Dangerous \<Rightarrow> ''dangerous characters''
      | NotWhitelisted c \<Rightarrow> ''not whitelisted: '' @ c
      | ForbiddenHost u \<Rightarrow> ''host not whitelisted: '' @ u)"

definition self_update :: "world \<Rightarrow> agent_config \<Rightarrow> string \<Rightarrow> deed list \<times> reply" where
  "self_update w cfg sha256 =
     (let (asked, res) = httpGet (wd_net w) (updateUrl cfg) 0; gets = map Asked asked
      in case res of
           Inl msg \<Rightarrow> (gets, Done False (Some msg))
         | Inr code \<Rightarrow>
             if sha256 \<noteq> [] \<and> wd_sha w code \<noteq> sha256 then (gets, Done False (Some ''SHA-256''))
             else case perform w [Wrote (AGENT_PATH @ ''.tmp'') code, Renamed (AGENT_PATH @ ''.tmp'') AGENT_PATH, MadeExecutable AGENT_PATH] of
                    (ds, Some e) \<Rightarrow> (gets @ ds, Done False (Some e))
                  | (ds, None) \<Rightarrow> (gets @ ds @ [Exits], Updated))"

definition update_config :: "world \<Rightarrow> json_config \<Rightarrow> deed list \<times> reply" where
  "update_config w c =
     (case c of
        ConfigMissing \<Rightarrow> failed ''no config''
      | ConfigNoJson msg \<Rightarrow> failed msg
      | ConfigOther \<Rightarrow> failed ''config is no object''
      | ConfigObject inbounds outbounds txt \<Rightarrow>
          if \<not> inbounds \<and> \<not> outbounds then failed ''neither inbounds nor outbounds''
          else let (ds, r) = perform_and_run w [Wrote XRAY_CONFIG_PATH txt] ''systemctl restart xray''
               in (backup w XRAY_CONFIG_PATH @ ds, r))"

definition update_hy2_config :: "world \<Rightarrow> string option \<Rightarrow> deed list \<times> reply" where
  "update_hy2_config w c =
     (if \<not> truthy c then failed ''no config''
      else if \<not> js_includes ''listen:'' (the c) then failed ''not a hysteria config''
      else let (ds, r) = perform_and_run w [MadeDir ''/etc/hysteria'', Wrote HY2_CONFIG_PATH (the c)] ''systemctl restart hysteria-server''
           in (backup w HY2_CONFIG_PATH @ ds, r))"

definition exec_command :: "world \<Rightarrow> agent_config \<Rightarrow> string \<Rightarrow> int \<Rightarrow> deed list \<times> reply" where
  "exec_command w cfg cmd timeout =
     (case exec_refused (wd_host w) cfg cmd of
        Some e \<Rightarrow> failed (exec_error e)
      | None \<Rightarrow>
          let r = wd_run w (js_trim cmd)
          in ([Ran (js_trim cmd) (min (if timeout = 0 then 30000 else timeout) 120000)], Output (rr_ok r) (rr_stdout r) (rr_stderr r) (rr_code r)))"

fun handleCommand :: "world \<Rightarrow> agent_config \<Rightarrow> command \<Rightarrow> deed list \<times> reply" where
  "handleCommand w cfg CmdPing = ([], PongReply)"
| "handleCommand w cfg CmdRestartXray = ran w ''systemctl restart xray''"
| "handleCommand w cfg CmdRestartHysteria = ran w ''systemctl restart hysteria-server''"
| "handleCommand w cfg (CmdUpdateHy2 c) = update_hy2_config w c"
| "handleCommand w cfg (CmdUpdateConfig c) = update_config w c"
| "handleCommand w cfg (CmdExec cmd timeout) = exec_command w cfg cmd timeout"
| "handleCommand w cfg (CmdSelfUpdate sha256) = self_update w cfg sha256"
| "handleCommand w cfg (CmdUnknown t) = failed (''unknown command: '' @ t)"

text \<open>The texts of the hub's commands, as the agent reads them.\<close>

definition read_command :: "string \<Rightarrow> command" where
  "read_command s =
     (if s = ''restart_xray'' then CmdRestartXray
      else if s = ''restart_hysteria'' then CmdRestartHysteria
      else case strip ''exec '' s of Some c \<Rightarrow> CmdExec c 0 | None \<Rightarrow> CmdUnknown s)"

end
