(* ===== verification/NodeLink.thy ===== *)
theory NodeLink
  imports NodeCommands
begin

text \<open>
  The node agent (\<open>src/node-agent/agent.js\<close>), third part: keeping the connection to the panel.

  Sockets are numbered in the order of their creation. \<open>lk_ws\<close> is the variable \<open>ws\<close>: the socket
  that sends. A socket that was destroyed by the agent itself reports no close. Times are
  milliseconds; \<open>jitter\<close> is the random part of a delay, below 1000.
\<close>

datatype sock = Connecting | Opened | Gone

record link =
  lk_socks :: "(nat, sock) js_map"
  lk_next :: nat
  lk_ws :: "nat option"
  lk_delay :: int
  lk_timers :: "int list"
  lk_heartbeat :: bool
  lk_active :: int
  lk_metrics :: metrics

definition sock_state :: "nat \<Rightarrow> link \<Rightarrow> sock" where
  "sock_state n s = (case js_get (lk_socks s) n of None \<Rightarrow> Gone | Some x \<Rightarrow> x)"

definition set_sock :: "nat \<Rightarrow> sock \<Rightarrow> link \<Rightarrow> link" where
  "set_sock n x s = s\<lparr>lk_socks := js_set n x (lk_socks s)\<rparr>"

text \<open>\<open>connect\<close>: a new socket becomes \<open>ws\<close>.\<close>

definition connect :: "link \<Rightarrow> link" where
  "connect s = (set_sock (lk_next s) Connecting s)\<lparr>lk_ws := Some (lk_next s), lk_next := Suc (lk_next s)\<rparr>"

definition start_link :: "int \<Rightarrow> link" where
  "start_link now =
     connect \<lparr>lk_socks = [], lk_next = 0, lk_ws = None, lk_delay = 1000, lk_timers = [], lk_heartbeat = False, lk_active = now,
       lk_metrics = new_metrics\<rparr>"

definition cleanup :: "link \<Rightarrow> link" where
  "cleanup s = s\<lparr>lk_heartbeat := False, lk_ws := None\<rparr>"

definition scheduleReconnect :: "int \<Rightarrow> int \<Rightarrow> link \<Rightarrow> link" where
  "scheduleReconnect jitter now s =
     s\<lparr>lk_timers := lk_timers s @ [now + lk_delay s + jitter], lk_delay := min (lk_delay s * 2) 60000\<rparr>"

definition on_open :: "nat \<Rightarrow> int \<Rightarrow> link \<Rightarrow> link" where
  "on_open n now s =
     (let m = lk_metrics s;
          m' = (if 0 < mt_consecutive m then m\<lparr>mt_last_reconnect := Some (nowUtcIso now), mt_consecutive := 0\<rparr> else m)
      in (set_sock n Opened s)\<lparr>lk_delay := 1000, lk_active := now, lk_metrics := m', lk_heartbeat := True\<rparr>)"

text \<open>The socket that sends: \<open>sendMsg\<close> drops the message when there is none or it is not open.\<close>

definition sends_on :: "link \<Rightarrow> nat option" where
  "sends_on s = (case lk_ws s of None \<Rightarrow> None | Some n \<Rightarrow> if sock_state n s = Opened then Some n else None)"

definition on_lost :: "int \<Rightarrow> int \<Rightarrow> nat \<Rightarrow> link \<Rightarrow> link" where
  "on_lost jitter now n s =
     (let m = lk_metrics s;
          m' = m\<lparr>mt_disconnects := mt_disconnects m + 1, mt_consecutive := mt_consecutive m + 1, mt_last_disconnect := Some (nowUtcIso now)\<rparr>
      in scheduleReconnect jitter now (cleanup ((set_sock n Gone s)\<lparr>lk_metrics := m'\<rparr>)))"

text \<open>A handshake that the server refuses destroys the socket without a close.\<close>

definition handshake_failed :: "nat \<Rightarrow> link \<Rightarrow> link" where
  "handshake_failed n s = set_sock n Gone s"

definition reconnect_timer :: "int \<Rightarrow> link \<Rightarrow> link" where
  "reconnect_timer due s = connect (s\<lparr>lk_timers := remove1 due (lk_timers s)\<rparr>)"

definition watchdog :: "int \<Rightarrow> link \<Rightarrow> link" where
  "watchdog now s =
     (if sends_on s \<noteq> None then s\<lparr>lk_active := now\<rparr>
      else if now - lk_active s \<le> 120000 then s
      else let s1 = s\<lparr>lk_active := now\<rparr>;
               s2 = (case lk_ws s1 of None \<Rightarrow> s1 | Some n \<Rightarrow> set_sock n Gone s1)
           in connect ((cleanup s2)\<lparr>lk_delay := 1000\<rparr>))"

section \<open>Runs\<close>

text \<open>A timer fires at its time; the watchdog looks every thirty seconds, at any moment for the model.\<close>

inductive link_step :: "int \<times> link \<Rightarrow> int \<times> link \<Rightarrow> bool" where
  opens: "sock_state n s = Connecting \<Longrightarrow> link_step (t, s) (t, on_open n t s)"
| lost: "sock_state n s \<noteq> Gone \<Longrightarrow> 0 \<le> j \<Longrightarrow> j < 1000 \<Longrightarrow> link_step (t, s) (t, on_lost j t n s)"
| refused: "sock_state n s = Connecting \<Longrightarrow> link_step (t, s) (t, handshake_failed n s)"
| timer: "d \<in> set (lk_timers s) \<Longrightarrow> d \<le> t \<Longrightarrow> link_step (t, s) (t, reconnect_timer d s)"
| watch: "link_step (t, s) (t, watchdog t s)"
| clock: "t \<le> t' \<Longrightarrow> (\<And>d. d \<in> set (lk_timers s) \<Longrightarrow> t' \<le> d) \<Longrightarrow> link_step (t, s) (t', s)"

inductive_cases link_stepE: "link_step (t, s) (t', s')"

definition link_reachable :: "int \<times> link \<Rightarrow> bool" where
  "link_reachable x \<longleftrightarrow> (\<exists>t. link_step\<^sup>*\<^sup>* (t, start_link t) x)"

lemma link_induct [consumes 1, case_names start step]:
  assumes "link_reachable (t, s)" and "\<And>t. P t (start_link t)"
    and "\<And>t s t' s'. P t s \<Longrightarrow> link_step (t, s) (t', s') \<Longrightarrow> P t' s'"
  shows "P t s"
proof -
  obtain t0 where r: "link_step\<^sup>*\<^sup>* (t0, start_link t0) (t, s)" using assms(1) by (auto simp: link_reachable_def)
  have "P (fst y) (snd y)" if "link_step\<^sup>*\<^sup>* (t0, start_link t0) y" for y
    using that
  proof (induction rule: rtranclp_induct)
    case (step y z)
    then show ?case using assms(3) [of "fst y" "snd y" "fst z" "snd z"] by simp
  qed (simp add: assms(2))
  from this [OF r] show ?thesis by simp
qed

text \<open>The delay stays between one second and a minute, every timer is due within the delay and a second
  more, and without a socket there is always a timer: the agent never gives up.\<close>

definition link_ok :: "int \<Rightarrow> link \<Rightarrow> bool" where
  "link_ok t s \<longleftrightarrow> 1000 \<le> lk_delay s \<and> lk_delay s \<le> 60000 \<and> (\<forall>d \<in> set (lk_timers s). d < t + 61000) \<and>
     (lk_ws s = None \<longrightarrow> lk_timers s \<noteq> []) \<and> lk_active s \<le> t"

lemma link_ok_start: "link_ok t (start_link t)"
  by (simp add: link_ok_def start_link_def connect_def set_sock_def)

lemma link_ok_step:
  assumes "link_step (t, s) (t', s')" and "link_ok t s"
  shows "link_ok t' s'"
  using assms(1)
proof (cases rule: link_step.cases)
  case (timer d)
  have "set (remove1 d (lk_timers s)) \<subseteq> set (lk_timers s)" by (rule set_remove1_subset)
  then show ?thesis using timer assms(2) by (auto simp: link_ok_def reconnect_timer_def connect_def set_sock_def)
next
  case clock
  then show ?thesis using assms(2) by (fastforce simp: link_ok_def)
next
  case watch
  then show ?thesis using assms(2)
    by (auto simp: link_ok_def watchdog_def connect_def set_sock_def cleanup_def Let_def split: option.split)
qed (use assms(2) in \<open>auto simp: link_ok_def on_open_def on_lost_def handshake_failed_def set_sock_def scheduleReconnect_def cleanup_def
    Let_def\<close>)

lemma link_reachable_ok: "link_reachable (t, s) \<Longrightarrow> link_ok t s"
  by (induction rule: link_induct) (auto intro: link_ok_start link_ok_step)

end
