(* ===== verification/AgentSocket.thy ===== *)
theory AgentSocket
  imports Prelude "HOL-Library.Word"
begin

text \<open>
  The WebSocket client of the node agent (\<open>src/node-agent/agent.js\<close>): the frames it writes and reads
  (\<open>sendWsFrame\<close>, \<open>parseWsFrame\<close>) and what \<open>createRawWs\<close> does with the bytes as they arrive.

  Buffers are lists of bytes. The 64-bit length is read exactly; JavaScript rounds it above
  \<open>2^53\<close>, a length no buffer reaches.
\<close>

unbundle bit_operations_syntax

type_synonym byte = "8 word"

section \<open>Frames\<close>

record ws_frame =
  wf_fin :: bool
  wf_opcode :: byte
  wf_payload :: "byte list"
  wf_total :: nat

definition readUIntBE :: "byte list \<Rightarrow> nat" where
  "readUIntBE bs = foldl (\<lambda>n b. n * 256 + unat b) 0 bs"

definition writeUIntBE :: "nat \<Rightarrow> nat \<Rightarrow> byte list" where
  "writeUIntBE k n = map (\<lambda>i. of_nat (n div 256 ^ i)) (rev [0..<k])"

definition xor_mask :: "byte list \<Rightarrow> byte list \<Rightarrow> byte list" where
  "xor_mask m bs = map (\<lambda>i. bs ! i XOR m ! (i mod 4)) [0..<length bs]"

text \<open>The length of the payload and where the header without the mask ends.\<close>

definition frame_length :: "byte list \<Rightarrow> (nat \<times> nat) option" where
  "frame_length buf =
     (let payloadLen = unat (buf ! 1 AND 0x7F)
      in if payloadLen = 126 then (if length buf < 4 then None else Some (readUIntBE (take 2 (drop 2 buf)), 4))
         else if payloadLen = 127 then (if length buf < 10 then None else Some (readUIntBE (take 8 (drop 2 buf)), 10))
         else Some (payloadLen, 2))"

definition parseWsFrame :: "byte list \<Rightarrow> ws_frame option" where
  "parseWsFrame buf =
     (if length buf < 2 then None
      else case frame_length buf of
             None \<Rightarrow> None
           | Some (payloadLen, offset0) \<Rightarrow>
               (let masked = (buf ! 1 AND 0x80 \<noteq> 0);
                    offset = (if masked then offset0 + 4 else offset0)
                in if length buf < offset + payloadLen then None
                   else let raw = take payloadLen (drop offset buf);
                            payload = (if masked then xor_mask (take 4 (drop (offset - 4) buf)) raw else raw)
                        in Some \<lparr>wf_fin = (buf ! 0 AND 0x80 \<noteq> 0), wf_opcode = buf ! 0 AND 0x0F, wf_payload = payload,
                                 wf_total = offset + payloadLen\<rparr>))"

definition sendWsFrame :: "byte list \<Rightarrow> byte \<Rightarrow> byte list \<Rightarrow> byte list" where
  "sendWsFrame key opcode payload =
     (let n = length payload;
          header = (if n < 126 then [0x80 OR opcode, 0x80 OR of_nat n]
                    else if n < 65536 then [0x80 OR opcode, 0x80 OR 126] @ writeUIntBE 2 n
                    else [0x80 OR opcode, 0x80 OR 127] @ writeUIntBE 8 n)
      in header @ key @ xor_mask key payload)"

section \<open>The connection\<close>

text \<open>What the client tells its owner, and what it writes to the socket.\<close>

datatype ws_event = WsOpen | WsMessage "byte list" | WsClose nat | WsHandshakeFailed | WsPong "byte list"

record ws_client =
  wc_upgraded :: bool
  wc_closed :: bool
  wc_buffer :: "byte list"
  wc_fragments :: "byte list option"

definition new_client :: ws_client where
  "new_client = \<lparr>wc_upgraded = False, wc_closed = False, wc_buffer = [], wc_fragments = None\<rparr>"

text \<open>One frame; a control frame between the fragments of a message leaves them alone.\<close>

definition close_code :: "byte list \<Rightarrow> nat" where
  "close_code payload = (if 2 \<le> length payload then readUIntBE (take 2 payload) else 1000)"

definition handle_frame :: "ws_frame \<Rightarrow> ws_client \<Rightarrow> ws_event list \<times> ws_client" where
  "handle_frame f c =
     (if wf_opcode f = 1 \<or> wf_opcode f = 2 then
        (if wf_fin f then ([WsMessage (wf_payload f)], c) else ([], c\<lparr>wc_fragments := Some (wf_payload f)\<rparr>))
      else if wf_opcode f = 0 then
        (case wc_fragments c of
           None \<Rightarrow> ([], c)
         | Some chunks \<Rightarrow>
             if wf_fin f then ([WsMessage (chunks @ wf_payload f)], c\<lparr>wc_fragments := None\<rparr>)
             else ([], c\<lparr>wc_fragments := Some (chunks @ wf_payload f)\<rparr>))
      else if wf_opcode f = 8 then ([WsClose (close_code (wf_payload f))], c\<lparr>wc_closed := True\<rparr>)
      else if wf_opcode f = 9 then ([WsPong (wf_payload f)], c)
      else ([], c))"

lemma parse_total:
  assumes "parseWsFrame buf = Some f"
  shows "2 \<le> wf_total f" "wf_total f \<le> length buf"
  using assms by (auto simp: parseWsFrame_def frame_length_def Let_def split: if_splits option.splits prod.splits)

function drain :: "ws_client \<Rightarrow> ws_event list \<times> ws_client" where
  "drain c =
     (if wc_closed c then ([], c)
      else case parseWsFrame (wc_buffer c) of
             None \<Rightarrow> ([], c)
           | Some f \<Rightarrow>
               (let (es, c1) = handle_frame f (c\<lparr>wc_buffer := drop (wf_total f) (wc_buffer c)\<rparr>);
                    (es', c2) = drain c1
                in (es @ es', c2)))"
  by pat_completeness auto

lemma handle_frame_buffer [simp]: "wc_buffer (snd (handle_frame f c)) = wc_buffer c"
  by (simp add: handle_frame_def split: option.split)

lemma drain_shrinks:
  assumes "parseWsFrame (wc_buffer c) = Some f" and "(es, c1) = handle_frame f (c\<lparr>wc_buffer := drop (wf_total f) (wc_buffer c)\<rparr>)"
  shows "length (wc_buffer c1) < length (wc_buffer c)"
proof -
  have "c1 = snd (handle_frame f (c\<lparr>wc_buffer := drop (wf_total f) (wc_buffer c)\<rparr>))" using assms(2) by (metis snd_conv)
  then show ?thesis using parse_total [OF assms(1)] by simp
qed

termination drain
  by (relation "measure (\<lambda>c. length (wc_buffer c))") (auto intro: drain_shrinks)

declare drain.simps [simp del]

text \<open>The end of the header of the server's answer, and whether the answer is the expected one.\<close>

definition CRLF2 :: "byte list" where "CRLF2 = [13, 10, 13, 10]"
definition STATUS_101 :: "byte list" where "STATUS_101 = [49, 48, 49]"

fun find_bytes :: "byte list \<Rightarrow> byte list \<Rightarrow> nat option" where
  "find_bytes p [] = (if p = [] then Some 0 else None)"
| "find_bytes p (b # bs) = (if take (length p) (b # bs) = p then Some 0 else map_option Suc (find_bytes p bs))"

text \<open>The callback of the socket's data.\<close>

definition on_data :: "byte list \<Rightarrow> ws_client \<Rightarrow> ws_event list \<times> ws_client" where
  "on_data chunk c =
     (if wc_closed c then ([], c)
      else let c1 = c\<lparr>wc_buffer := wc_buffer c @ chunk\<rparr>
           in if wc_upgraded c then drain c1
              else (case find_bytes CRLF2 (wc_buffer c1) of
                      None \<Rightarrow> ([], c1)
                    | Some idx \<Rightarrow>
                        if find_bytes STATUS_101 (take idx (wc_buffer c1)) = None
                        then ([WsHandshakeFailed], c1\<lparr>wc_closed := True\<rparr>)
                        else let (es, c2) = drain (c1\<lparr>wc_upgraded := True, wc_buffer := drop (idx + 4) (wc_buffer c1)\<rparr>)
                             in (WsOpen # es, c2)))"

section \<open>Lengths and masks\<close>

lemma writeUIntBE_length [simp]: "length (writeUIntBE k n) = k"
  by (simp add: writeUIntBE_def)

lemma writeUIntBE_Suc: "writeUIntBE (Suc k) n = of_nat (n div 256 ^ k) # writeUIntBE k n"
  by (simp add: writeUIntBE_def)

lemma foldl_write:
  "foldl (\<lambda>n b. n * 256 + unat (b :: byte)) a (writeUIntBE k n) = a * 256 ^ k + n mod 256 ^ k"
proof (induction k arbitrary: a)
  case 0
  then show ?case by (simp add: writeUIntBE_def)
next
  case (Suc k)
  have u: "unat (of_nat (n div 256 ^ k) :: byte) = n div 256 ^ k mod 256" by (simp add: unat_of_nat)
  have "n mod 256 ^ Suc k = 256 ^ k * (n div 256 ^ k mod 256) + n mod 256 ^ k"
    using mod_mult2_eq [of n "256 ^ k" 256] by (simp add: mult.commute)
  then show ?case using Suc.IH by (simp add: writeUIntBE_Suc u algebra_simps)
qed

lemma read_write: "n < 256 ^ k \<Longrightarrow> readUIntBE (writeUIntBE k n) = n"
  by (simp add: readUIntBE_def foldl_write)

lemma xor_mask_length [simp]: "length (xor_mask m bs) = length bs"
  by (simp add: xor_mask_def)

lemma xor_mask_twice [simp]: "xor_mask m (xor_mask m bs) = bs"
  by (rule nth_equalityI) (simp_all add: xor_mask_def xor.assoc)

lemma header_bits:
  "(0x80 OR x) AND 0x80 \<noteq> (0 :: byte)" "(0x80 OR x) AND 0x0F = x AND (0x0F :: byte)"
proof -
  have "(0x80 OR x) AND 0x80 = (0x80 :: byte)" by (simp add: word_ao_absorbs)
  then show "(0x80 OR x) AND 0x80 \<noteq> (0 :: byte)" by simp
  show "(0x80 OR x) AND 0x0F = x AND (0x0F :: byte)" by (simp add: bit.conj_disj_distrib2)
qed

lemma header_length: "n < 128 \<Longrightarrow> unat ((0x80 OR of_nat n) AND (0x7F :: byte)) = n"
proof -
  assume n: "n < 128"
  have m: "(0x7F :: byte) = mask 7" by (simp add: mask_eq_exp_minus_1)
  have "(0x80 OR of_nat n) AND (0x7F :: byte) = of_nat n AND 0x7F" by (simp add: bit.conj_disj_distrib2)
  also have "unat \<dots> = unat (take_bit 7 (of_nat n :: byte))" by (simp add: m take_bit_eq_mask)
  also have "\<dots> = take_bit 7 (n mod 256)" by (simp only: unsigned_take_bit_eq unat_of_nat) simp
  also have "\<dots> = n" using n by (simp add: take_bit_eq_mod)
  finally show ?thesis .
qed

section \<open>Writing and reading a frame\<close>

abbreviation frame_header :: "byte \<Rightarrow> nat \<Rightarrow> byte list" where
  "frame_header opcode n \<equiv>
     (if n < 126 then [0x80 OR opcode, 0x80 OR of_nat n]
      else if n < 65536 then [0x80 OR opcode, 0x80 OR 126] @ writeUIntBE 2 n
      else [0x80 OR opcode, 0x80 OR 127] @ writeUIntBE 8 n)"

lemma send_split: "sendWsFrame key opcode payload = frame_header opcode (length payload) @ key @ xor_mask key payload"
  by (simp add: sendWsFrame_def)

lemma send_length: "length key = 4 \<Longrightarrow> length (sendWsFrame key opcode payload) = length (frame_header opcode (length payload)) + 4 + length payload"
  by (simp add: send_split)

lemma frame_length_header:
  assumes "n < 2 ^ 64"
  shows "frame_length (frame_header opcode n @ rest) = Some (n, length (frame_header opcode n))"
proof -
  have c: "unat ((0x80 OR 126) AND (0x7F :: byte)) = 126" "unat ((0x80 OR 127) AND (0x7F :: byte)) = 127" by simp_all
  consider "n < 126" | "126 \<le> n" "n < 65536" | "65536 \<le> n" by linarith
  then show ?thesis
  proof cases
    case 1
    then show ?thesis using header_length [of n] by (simp add: frame_length_def)
  next
    case 2
    have "readUIntBE (writeUIntBE 2 n) = n" using 2 by (intro read_write) simp
    then show ?thesis using 2 c by (simp add: frame_length_def)
  next
    case 3
    have "readUIntBE (writeUIntBE 8 n) = n" using assms by (intro read_write) simp
    then show ?thesis using 3 c by (simp add: frame_length_def)
  qed
qed

lemma parse_send:
  assumes "length key = 4" and "opcode AND 0x0F = opcode" and "length payload < 2 ^ 64"
  shows "parseWsFrame (sendWsFrame key opcode payload @ rest) =
    Some \<lparr>wf_fin = True, wf_opcode = opcode, wf_payload = payload, wf_total = length (sendWsFrame key opcode payload)\<rparr>"
proof -
  let ?h = "frame_header opcode (length payload)"
  let ?buf = "?h @ key @ xor_mask key payload @ rest"
  have b: "?buf ! 0 = 0x80 OR opcode" "\<exists>x. ?buf ! 1 = 0x80 OR x" "2 \<le> length ?buf"
    by (auto intro: exI [of _ 126] exI [of _ 127])
  then have m: "?buf ! 1 AND 0x80 \<noteq> 0" "?buf ! 0 AND 0x80 \<noteq> 0" "?buf ! 0 AND 0x0F = opcode"
    using header_bits assms(2) by auto
  have l: "frame_length ?buf = Some (length payload, length ?h)" by (rule frame_length_header [OF assms(3)])
  have "parseWsFrame ?buf =
    Some \<lparr>wf_fin = True, wf_opcode = opcode, wf_payload = payload, wf_total = length ?h + 4 + length payload\<rparr>"
    unfolding parseWsFrame_def l using m b(3) assms(1) by (simp add: Let_def del: append_Cons split del: if_split)
  then show ?thesis by (simp add: send_split assms(1))
qed

section \<open>More bytes do not change what was read\<close>

lemma frame_length_append:
  "2 \<le> length buf \<Longrightarrow> frame_length buf = Some y \<Longrightarrow> frame_length (buf @ x) = Some y"
  by (auto simp: frame_length_def nth_append Let_def split: if_splits)

lemma frame_length_offset: "frame_length buf = Some (n, off) \<Longrightarrow> 2 \<le> off"
  by (auto simp: frame_length_def Let_def split: if_splits)

lemma parse_append:
  assumes "parseWsFrame buf = Some f"
  shows "parseWsFrame (buf @ x) = Some f"
proof -
  have 2: "2 \<le> length buf" using assms by (auto simp: parseWsFrame_def split: if_splits)
  obtain n off where l: "frame_length buf = Some (n, off)" using assms 2 by (auto simp: parseWsFrame_def split: option.splits)
  note l' = frame_length_append [OF 2 l, of x] and o = frame_length_offset [OF l]
  have i: "(buf @ x) ! 0 = buf ! 0" "(buf @ x) ! 1 = buf ! 1" using 2 by (auto simp: nth_append)
  let ?off = "if buf ! 1 AND 0x80 \<noteq> 0 then off + 4 else off"
  have e: "?off + n \<le> length buf" using assms 2 l by (auto simp: parseWsFrame_def Let_def split: if_splits)
  then have t: "take n (drop ?off (buf @ x)) = take n (drop ?off buf)" "take 4 (drop (?off - 4) (buf @ x)) = take 4 (drop (?off - 4) buf) \<or> buf ! 1 AND 0x80 = 0"
    by auto
  show ?thesis using assms 2 t e unfolding parseWsFrame_def l l' i by (auto simp: Let_def split: if_splits)
qed

lemma parse_prefix:
  assumes "length key = 4" and "opcode AND 0x0F = opcode" and "length payload < 2 ^ 64" and "k < length (sendWsFrame key opcode payload)"
  shows "parseWsFrame (take k (sendWsFrame key opcode payload)) = None"
proof (rule ccontr)
  let ?m = "sendWsFrame key opcode payload"
  assume "\<not> ?thesis"
  then obtain f where f: "parseWsFrame (take k ?m) = Some f" by blast
  have "parseWsFrame (take k ?m @ drop k ?m) = Some f" by (rule parse_append [OF f])
  then have "wf_total f = length ?m" using parse_send [OF assms(1-3), of "[]"] by simp
  then show False using parse_total(2) [OF f] assms(4) by simp
qed

text \<open>Two results agree when they show the same events and, unless the connection is closed, the same state.\<close>

definition agree :: "ws_event list \<times> ws_client \<Rightarrow> ws_event list \<times> ws_client \<Rightarrow> bool" where
  "agree x y \<longleftrightarrow> fst x = fst y \<and> wc_closed (snd x) = wc_closed (snd y) \<and> (wc_closed (snd x) \<or> snd x = snd y)"

definition and_then :: "ws_event list \<times> ws_client \<Rightarrow> (ws_client \<Rightarrow> ws_event list \<times> ws_client) \<Rightarrow> ws_event list \<times> ws_client" where
  "and_then x k = (let (es, c) = x; (es', c') = k c in (es @ es', c'))"

abbreviation more :: "byte list \<Rightarrow> ws_client \<Rightarrow> ws_client" where
  "more x c \<equiv> c\<lparr>wc_buffer := wc_buffer c @ x\<rparr>"

lemma handle_frame_more: "handle_frame f (more x c) = (fst (handle_frame f c), more x (snd (handle_frame f c)))"
  by (simp add: handle_frame_def split: option.split)

lemma drain_closed: "wc_closed c \<Longrightarrow> drain c = ([], c)"
  by (simp add: drain.simps)

lemma drain_more: "agree (drain (more x c)) (and_then (drain c) (\<lambda>d. drain (more x d)))"
proof (induction c rule: drain.induct)
  case (1 c)
  show ?case
  proof (cases "wc_closed c")
    case True
    then show ?thesis by (simp add: drain_closed agree_def and_then_def)
  next
    case open': False
    show ?thesis
    proof (cases "parseWsFrame (wc_buffer c)")
      case None
      then show ?thesis using open' by (simp add: drain.simps [of c] agree_def and_then_def split_beta)
    next
      case (Some f)
      let ?c = "c\<lparr>wc_buffer := drop (wf_total f) (wc_buffer c)\<rparr>"
      obtain es c1 where h: "handle_frame f ?c = (es, c1)" by (cases "handle_frame f ?c")
      have IH: "agree (drain (more x c1)) (and_then (drain c1) (\<lambda>d. drain (more x d)))"
        by (rule "1.IH" [OF open' Some h [symmetric] refl])
      have "more x c\<lparr>wc_buffer := drop (wf_total f) (wc_buffer c @ x)\<rparr> = more x ?c" using parse_total [OF Some] by simp
      then have "handle_frame f (more x c\<lparr>wc_buffer := drop (wf_total f) (wc_buffer (more x c))\<rparr>) = (es, more x c1)"
        using handle_frame_more [where f = f and x = x and c = ?c] h by simp
      then have 1: "drain (more x c) = (es @ fst (drain (more x c1)), snd (drain (more x c1)))"
        using open' parse_append [OF Some, of x] drain.simps [of "more x c"] by (simp add: split_beta)
      have 2: "drain c = (es @ fst (drain c1), snd (drain c1))" using open' Some h drain.simps [of c] by (simp add: split_beta)
      show ?thesis using IH unfolding 1 2 by (auto simp: agree_def and_then_def split_beta)
    qed
  qed
qed

lemma find_bytes_append:
  assumes "find_bytes p s = Some i"
  shows "find_bytes p (s @ x) = Some i \<and> i + length p \<le> length s"
  using assms
proof (induction s arbitrary: i)
  case (Cons b s)
  show ?case
  proof (cases "take (length p) (b # s) = p")
    case True
    then have l: "length p \<le> length (b # s)" by (metis length_take min.cobounded1)
    then have "take (length p) (b # s @ x) = p" using True by (metis append_Cons append_take_drop_id take_all_iff take_append append_Nil2 diff_is_0_eq take0)
    then show ?thesis using True Cons.prems l by auto
  next
    case False
    then obtain j where j: "find_bytes p s = Some j" "i = Suc j" using Cons.prems by auto
    note IH = Cons.IH [OF j(1)]
    have "take (length p) (b # s @ x) = take (length p) (b # s)" using IH by (cases p) auto
    then show ?thesis using False IH j(2) by simp
  qed
next
  case Nil
  then show ?case by (cases x) (simp_all split: if_splits)
qed

text \<open>How the bytes are cut into chunks makes no difference.\<close>

lemma agree_cons: "agree a b \<Longrightarrow> agree (e # fst a, snd a) (e # fst b, snd b)"
  by (auto simp: agree_def)

lemma on_data_more: "agree (on_data (a @ b) c) (and_then (on_data a c) (on_data b))"
proof (cases "wc_closed c")
  case True
  then show ?thesis by (simp add: on_data_def agree_def and_then_def)
next
  case open': False
  have up: "on_data b d = drain (more b d)" if "wc_upgraded d" "\<not> wc_closed d" for d
    using that by (simp add: on_data_def Let_def)
  have keep: "wc_upgraded (snd (drain d)) = wc_upgraded d" for d
  proof (induction d rule: drain.induct)
    case (1 d)
    have h: "wc_upgraded (snd (handle_frame f x)) = wc_upgraded x" for f x by (simp add: handle_frame_def split: option.split)
    show ?case
    proof (cases "wc_closed d \<or> parseWsFrame (wc_buffer d) = None")
      case True
      then show ?thesis by (auto simp: drain.simps [of d] split: option.splits)
    next
      case False
      then obtain f where f: "parseWsFrame (wc_buffer d) = Some f" by blast
      obtain es d1 where d1: "handle_frame f (d\<lparr>wc_buffer := drop (wf_total f) (wc_buffer d)\<rparr>) = (es, d1)"
        by (cases "handle_frame f (d\<lparr>wc_buffer := drop (wf_total f) (wc_buffer d)\<rparr>)")
      have "wc_upgraded (snd (drain d1)) = wc_upgraded d1" using False f d1 by (intro "1.IH") auto
      moreover have "wc_upgraded d1 = wc_upgraded d" using h [of f "d\<lparr>wc_buffer := drop (wf_total f) (wc_buffer d)\<rparr>"] d1 by simp
      ultimately show ?thesis using False f d1 by (simp add: drain.simps [of d] split_beta)
    qed
  qed
  have drained: "agree (drain (more b d)) (and_then (drain d) (on_data b))" if "wc_upgraded d" for d
  proof (cases "wc_closed (snd (drain d))")
    case True
    then show ?thesis using drain_more [where x = b and c = d] by (auto simp: and_then_def split_beta agree_def drain_closed on_data_def)
  next
    case False
    then show ?thesis using drain_more [where x = b and c = d] up [of "snd (drain d)"] keep [of d] that by (simp add: and_then_def split_beta)
  qed
  show ?thesis
  proof (cases "wc_upgraded c")
    case True
    have "more (a @ b) c = more b (more a c)" by simp
    then show ?thesis using drained [of "more a c"] True open' by (simp add: on_data_def Let_def)
  next
    case False
    show ?thesis
    proof (cases "find_bytes CRLF2 (wc_buffer c @ a)")
      case None
      then show ?thesis using open' False by (simp add: on_data_def agree_def and_then_def split_beta Let_def)
    next
      case (Some i)
      note f = find_bytes_append [OF Some, of b]
      have l: "i + 4 \<le> length (wc_buffer c @ a)" using f by (simp add: CRLF2_def)
      have f': "find_bytes CRLF2 (wc_buffer c @ a @ b) = Some i" using f by simp
      have t: "take i (wc_buffer c @ a @ b) = take i (wc_buffer c @ a)" using l by (simp add: take_append)
      let ?d = "c\<lparr>wc_upgraded := True, wc_buffer := drop (i + 4) (wc_buffer c @ a)\<rparr>"
      have m: "c\<lparr>wc_upgraded := True, wc_buffer := drop (i + 4) (wc_buffer c @ a @ b)\<rparr> = more b ?d" using l by simp
      show ?thesis
      proof (cases "find_bytes STATUS_101 (take i (wc_buffer c @ a)) = None")
        case True
        then have "on_data (a @ b) c = ([WsHandshakeFailed], more (a @ b) c\<lparr>wc_closed := True\<rparr>)"
          using open' False f' t by (simp add: on_data_def Let_def del: take_append)
        moreover have "on_data a c = ([WsHandshakeFailed], more a c\<lparr>wc_closed := True\<rparr>)"
          using open' False Some True by (simp add: on_data_def Let_def del: take_append)
        ultimately show ?thesis by (simp add: agree_def and_then_def on_data_def)
      next
        case ok: False
        have "on_data (a @ b) c = (WsOpen # fst (drain (more b ?d)), snd (drain (more b ?d)))"
          using open' False f' t ok m by (simp add: on_data_def Let_def split_beta del: take_append drop_append)
        moreover have "on_data a c = (WsOpen # fst (drain ?d), snd (drain ?d))"
          using open' False Some ok by (simp add: on_data_def Let_def split_beta)
        ultimately show ?thesis using drained [of ?d] by (auto simp: agree_def and_then_def split_beta)
      qed
    qed
  qed
qed

fun feed :: "byte list list \<Rightarrow> ws_client \<Rightarrow> ws_event list \<times> ws_client" where
  "feed [] c = ([], c)"
| "feed (x # xs) c = and_then (on_data x c) (feed xs)"

lemma feed_closed: "wc_closed c \<Longrightarrow> feed xs c = ([], c)"
  by (induction xs) (simp_all add: on_data_def and_then_def)

lemma feed_concat: "agree (on_data (concat (x # xs)) c) (feed (x # xs) c)"
proof (induction xs arbitrary: x c)
  case Nil
  then show ?case by (simp add: agree_def and_then_def split_beta)
next
  case (Cons y xs)
  let ?d = "snd (on_data x c)"
  have 1: "agree (on_data (x @ concat (y # xs)) c) (and_then (on_data x c) (on_data (concat (y # xs))))" by (rule on_data_more)
  have 2: "agree (on_data (concat (y # xs)) ?d) (feed (y # xs) ?d)" by (rule Cons.IH)
  have f: "feed (x # y # xs) c = (fst (on_data x c) @ fst (feed (y # xs) ?d), snd (feed (y # xs) ?d))"
    by (simp only: feed.simps(2) [of x]) (simp add: and_then_def split_beta)
  show ?case unfolding f using 1 2 by (auto simp: agree_def and_then_def split_beta simp del: feed.simps)
qed

text \<open>A stream of complete messages, on a connection that is up.\<close>

definition up_client :: ws_client where
  "up_client = \<lparr>wc_upgraded = True, wc_closed = False, wc_buffer = [], wc_fragments = None\<rparr>"

abbreviation stream_of :: "(byte list \<times> byte list) list \<Rightarrow> byte list" where
  "stream_of kps \<equiv> concat (map (\<lambda>(k, p). sendWsFrame k 1 p) kps)"

lemma parse_nil: "parseWsFrame [] = None"
  by (simp add: parseWsFrame_def)

lemma drain_stream:
  assumes "\<And>k p. (k, p) \<in> set kps \<Longrightarrow> length k = 4 \<and> length p < 2 ^ 64"
  shows "drain (up_client\<lparr>wc_buffer := stream_of kps\<rparr>) = (map (\<lambda>x. WsMessage (snd x)) kps, up_client)"
  using assms
proof (induction kps)
  case Nil
  have "up_client\<lparr>wc_buffer := []\<rparr> = up_client" by (simp add: up_client_def)
  then show ?case by (simp add: drain.simps [of up_client]) (simp add: up_client_def parse_nil)
next
  case (Cons kp kps)
  obtain k p where kp: "kp = (k, p)" by (cases kp)
  let ?f = "sendWsFrame k 1 p"
  let ?c = "up_client\<lparr>wc_buffer := ?f @ stream_of kps\<rparr>"
  have "length k = 4" "length p < 2 ^ 64" using Cons.prems [of k p] by (simp_all add: kp)
  then have ps: "parseWsFrame (wc_buffer ?c) = Some \<lparr>wf_fin = True, wf_opcode = 1, wf_payload = p, wf_total = length ?f\<rparr>"
    using parse_send [of k 1 p "stream_of kps"] by simp
  have "drain ?c = and_then ([WsMessage p], up_client\<lparr>wc_buffer := stream_of kps\<rparr>) drain"
    using ps by (simp add: drain.simps [of ?c] handle_frame_def and_then_def) (simp add: up_client_def)
  moreover have "drain (up_client\<lparr>wc_buffer := stream_of kps\<rparr>) = (map (\<lambda>x. WsMessage (snd x)) kps, up_client)"
    by (rule Cons.IH) (use Cons.prems in auto)
  ultimately show ?case by (simp add: kp and_then_def)
qed

end
