(* ===== verification/NodeProps.thy ===== *)
theory NodeProps
  imports NodeLink AgentSocket HealthProps
begin

text \<open>
  Properties of the node agent: its WebSocket client, the gate in front of the shell, downloads and
  the life of the connection. The constants at the end of a name \<open>sample\<close> serve the witnesses.
\<close>

section \<open>The WebSocket client\<close>

text \<open>C27: A frame the client writes is read back by the reader of frames, whatever follows it: the same
  opcode and payload, of the length written; from any shorter part of it nothing is read.\<close>

theorem frame_round_trip:
  assumes "length key = 4" and "opcode AND 0x0F = opcode" and "length payload < 2 ^ 64"
  shows "parseWsFrame (sendWsFrame key opcode payload @ rest) =
      Some \<lparr>wf_fin = True, wf_opcode = opcode, wf_payload = payload, wf_total = length (sendWsFrame key opcode payload)\<rparr> \<and>
    (\<forall>k < length (sendWsFrame key opcode payload). parseWsFrame (take k (sendWsFrame key opcode payload)) = None)"
  using parse_send [OF assms] parse_prefix [OF assms] by blast

theorem frame_round_trip_witness:
  "parseWsFrame (sendWsFrame [1, 2, 3, 4] 1 [104, 105] @ [129]) =
      Some \<lparr>wf_fin = True, wf_opcode = 1, wf_payload = [104, 105], wf_total = 8\<rparr> \<and>
    parseWsFrame (take 7 (sendWsFrame [1, 2, 3, 4] 1 [104, 105])) = None"
proof -
  have l: "length (sendWsFrame [1, 2, 3, 4] 1 [104, 105]) = 8" by (simp add: sendWsFrame_def)
  have "length [1, 2, 3, 4 :: byte] = 4" "1 AND 0x0F = (1 :: byte)" "length [104, 105 :: byte] < 2 ^ 64" by simp_all
  note r = frame_round_trip [OF this, of "[129]", unfolded l]
  show ?thesis using r by simp
qed

text \<open>C16: However the bytes of the panel are cut into pieces on their way, the client reports the same
  events as if they had come at once, and unless it closed the connection it is in the same state.\<close>

theorem cut_makes_no_difference:
  assumes "xs \<noteq> []"
  shows "fst (feed xs c) = fst (on_data (concat xs) c) \<and>
    (wc_closed (snd (feed xs c)) \<longleftrightarrow> wc_closed (snd (on_data (concat xs) c))) \<and>
    (\<not> wc_closed (snd (feed xs c)) \<longrightarrow> snd (feed xs c) = snd (on_data (concat xs) c))"
proof -
  obtain y ys where "xs = y # ys" using assms by (cases xs) auto
  then show ?thesis using feed_concat [of y ys c] by (auto simp: agree_def)
qed

text \<open>Two messages, cut in the middle of each.\<close>

theorem cut_makes_no_difference_witness:
  "fst (feed [[129], [1, 65, 129, 2], [66, 67]] up_client) = [WsMessage [65], WsMessage [66, 67]]"
proof -
  have "on_data (concat [[129], [1, 65, 129, 2], [66, 67]]) up_client = ([WsMessage [65], WsMessage [66, 67]], up_client)"
    by (simp add: on_data_def up_client_def drain.simps parseWsFrame_def frame_length_def handle_frame_def)
  then show ?thesis using cut_makes_no_difference [of "[[129], [1, 65, 129, 2], [66, 67]]" up_client] by simp
qed

section \<open>The shell\<close>




lemma ran_deeds: "fst (ran w c) = [Ran c 15000]"
  by (simp add: ran_def Let_def)


lemma perform_mem: "d \<in> set (fst (perform w ds)) \<Longrightarrow> d \<in> set ds \<or> (\<exists>e \<in> set ds. d = Failed e)"
  by (induction ds) (auto simp: split_beta split: option.splits)

lemma perform_and_run_mem:
  "d \<in> set (fst (perform_and_run w ds c)) \<Longrightarrow> d \<in> set (fst (perform w ds)) \<or> d = Ran c 15000"
  using ran_deeds [of w c] by (auto simp: perform_and_run_def split_beta split: prod.splits option.splits)



definition sample_world :: world where
  "sample_world = \<lparr>wd_run = (\<lambda>_. \<lparr>rr_ok = True, rr_stdout = [], rr_stderr = [], rr_code = Some 0\<rparr>), wd_exists = (\<lambda>_. True), wd_fault = (\<lambda>_. None),
     wd_net = (\<lambda>u. HttpContent ''code''), wd_sha = (\<lambda>_. ''abc''), wd_host = (\<lambda>u. Some ''panel.example'')\<rparr>"

definition sample_config :: agent_config where
  "sample_config = \<lparr>cf_server = ''wss://panel.example/ws/agent'', cf_token = ''t'', cf_node = 7, cf_whitelist = True\<rparr>"


lemma httpGet_asks:
  "length (fst (httpGet net url k)) \<le> 6 - k \<and>
    (\<forall>body. snd (httpGet net url k) = Inr body \<longrightarrow> (\<exists>u \<in> set (fst (httpGet net url k)). net u = HttpContent body))"
proof (induction net url k rule: httpGet.induct)
  case (1 net url k)
  show ?case
  proof (cases "5 < k")
    case True
    then show ?thesis by (simp add: httpGet.simps)
  next
    case False
    show ?thesis
    proof (cases "net url")
      case (HttpRedirect location)
      then show ?thesis using False 1 [OF False HttpRedirect] by (auto simp: httpGet.simps [of net url] split_beta)
    qed (use False in \<open>simp_all add: httpGet.simps [of net url]\<close>)
  qed
qed

definition written :: "world \<Rightarrow> agent_config \<Rightarrow> command \<Rightarrow> string \<Rightarrow> string \<Rightarrow> bool" where
  "written w cfg cmd path body \<longleftrightarrow>
     path = XRAY_CONFIG_PATH \<and> (\<exists>i ob. (i \<or> ob) \<and> cmd = CmdUpdateConfig (ConfigObject i ob body)) \<or>
     path = HY2_CONFIG_PATH \<and> cmd = CmdUpdateHy2 (Some body) \<and> js_includes ''listen:'' body \<or>
     path = AGENT_PATH @ ''.tmp'' \<and>
       (\<exists>h. cmd = CmdSelfUpdate h \<and> (\<exists>u \<in> set (fst (httpGet (wd_net w) (updateUrl cfg) 0)). wd_net w u = HttpContent body) \<and>
         (h \<noteq> [] \<longrightarrow> wd_sha w body = h))"

definition asked :: "deed list \<Rightarrow> string list" where
  "asked ds = concat (map (\<lambda>d. case d of Asked u \<Rightarrow> [u] | _ \<Rightarrow> []) ds)"

text \<open>The operations that only touch the machine ask no server.\<close>

definition file_deed :: "deed \<Rightarrow> bool" where
  "file_deed d \<longleftrightarrow> (case d of Asked u \<Rightarrow> False | _ \<Rightarrow> True)"

lemma asked_simps [simp]:
  "asked (map Asked us) = us" "asked (ds @ es) = asked ds @ asked es" "asked [] = []"
  "file_deed d \<Longrightarrow> asked (d # ds) = asked ds"
  by (simp_all add: asked_def comp_def file_deed_def split: deed.splits)

lemma asked_none: "list_all file_deed ds \<Longrightarrow> asked ds = []"
  by (induction ds) simp_all

lemma perform_file_deeds: "list_all file_deed ds \<Longrightarrow> list_all file_deed (fst (perform w ds))"
  by (induction ds) (auto simp: split_beta file_deed_def split: option.split)

lemma asks_in_parts:
  "asked (backup w path) = []" "asked (fst (failed msg)) = []" "list_all file_deed ds \<Longrightarrow> asked (fst (perform w ds)) = []"
  "asked (fst (ran w c)) = []" "list_all file_deed ds \<Longrightarrow> asked (fst (perform_and_run w ds c)) = []"
proof -
  show p: "list_all file_deed ds \<Longrightarrow> asked (fst (perform w ds)) = []" for ds by (rule asked_none [OF perform_file_deeds])
  show "asked (backup w path) = []" using p [of "[Copied path (path @ ''.bak'')]"] by (simp add: backup_def file_deed_def)
  show "asked (fst (failed msg)) = []" by (simp add: failed_def)
  show r: "asked (fst (ran w c)) = []" by (simp add: ran_deeds asked_def)
  show "list_all file_deed ds \<Longrightarrow> asked (fst (perform_and_run w ds c)) = []"
    using p [of ds] r by (auto simp: perform_and_run_def split_beta split: prod.split option.split)
qed

lemma asks_little: "length (asked (fst (handleCommand w cfg cmd))) \<le> 6"
proof (cases cmd)
  case (CmdSelfUpdate h)
  let ?fs = "\<lambda>code. [Wrote (AGENT_PATH @ ''.tmp'') code, Renamed (AGENT_PATH @ ''.tmp'') AGENT_PATH, MadeExecutable AGENT_PATH]"
  have "length (fst (httpGet (wd_net w) (updateUrl cfg) 0)) \<le> 6" using httpGet_asks [of "wd_net w" _ 0] by simp
  moreover have "asked (fst (perform w (?fs code))) = []" for code by (rule asks_in_parts(3)) (simp add: file_deed_def)
  ultimately show ?thesis using CmdSelfUpdate
    by (simp add: self_update_def split_beta Let_def file_deed_def del: perform.simps split: sum.split option.split)
next
  case (CmdUpdateConfig k)
  have "list_all file_deed [Wrote XRAY_CONFIG_PATH t]" for t by (simp add: file_deed_def)
  then show ?thesis using CmdUpdateConfig asks_in_parts by (auto simp: update_config_def split_beta split: json_config.split)
next
  case (CmdUpdateHy2 k)
  have "list_all file_deed [MadeDir ''/etc/hysteria'', Wrote HY2_CONFIG_PATH t]" for t by (simp add: file_deed_def)
  then show ?thesis using CmdUpdateHy2 asks_in_parts by (auto simp: update_hy2_config_def split_beta)
next
  case (CmdExec x t)
  then show ?thesis using asks_in_parts by (auto simp: exec_command_def Let_def file_deed_def split: option.split)
qed (simp_all add: asks_in_parts)

text \<open>A deed that writes, wholly or in part.\<close>

definition writes :: "deed \<Rightarrow> string \<Rightarrow> string \<Rightarrow> bool" where
  "writes d path body \<longleftrightarrow> d = Wrote path body \<or> d = Failed (Wrote path body)"

lemma no_write_in:
  "writes d p x \<Longrightarrow> d \<notin> set (backup w path)" "writes d p x \<Longrightarrow> d \<notin> set (fst (failed msg))"
  "writes d p x \<Longrightarrow> d \<notin> set (fst (ran w c))" "writes d p x \<Longrightarrow> d \<notin> set (map Asked us)" "\<not> writes (Ran c ms) p x" "\<not> writes Exits p x"
  by (auto simp: backup_def failed_def ran_deeds writes_def split: option.splits if_splits)

lemma self_update_written:
  assumes "d \<in> set (fst (self_update w cfg h))" and "writes d path body"
  shows "written w cfg (CmdSelfUpdate h) path body"
proof -
  let ?fs = "\<lambda>code. [Wrote (AGENT_PATH @ ''.tmp'') code, Renamed (AGENT_PATH @ ''.tmp'') AGENT_PATH, MadeExecutable AGENT_PATH]"
  obtain us res where g: "httpGet (wd_net w) (updateUrl cfg) 0 = (us, res)" by (cases "httpGet (wd_net w) (updateUrl cfg) 0")
  obtain code where code: "res = Inr code" "h \<noteq> [] \<longrightarrow> wd_sha w code = h"
    "d \<in> set (fst (perform w (?fs code)))"
    using assms(1) g no_write_in(4) [OF assms(2)] no_write_in(6) assms(2)
    by (cases res) (auto simp: self_update_def Let_def simp del: perform.simps split: if_splits prod.splits option.splits)
  then have "path = AGENT_PATH @ ''.tmp''" "body = code" using perform_mem assms(2) by (fastforce simp: writes_def)+
  then show ?thesis using httpGet_asks [of "wd_net w" "updateUrl cfg" 0] g code by (auto simp: written_def)
qed

text \<open>The deed that tries a file operation.\<close>

definition tried :: "world \<Rightarrow> deed \<Rightarrow> deed" where
  "tried w d = (if wd_fault w d = None then d else Failed d)"

lemma backup_first: "wd_exists w path \<Longrightarrow> tried w (Copied path (path @ ''.bak'')) \<in> set (backup w path)"
  by (auto simp: backup_def tried_def split: option.split)

lemma update_writes:
  assumes "d \<in> set (backup w path @ fst (perform_and_run w ds c))" and "writes d p body"
  shows "d \<in> set (fst (perform w ds))" "wd_exists w path \<Longrightarrow>
    \<exists>pre post. backup w path @ fst (perform_and_run w ds c) = pre @ d # post \<and> tried w (Copied path (path @ ''.bak'')) \<in> set pre"
proof -
  have in_rest: "d \<in> set (fst (perform_and_run w ds c))" using assms no_write_in(1) by auto
  then show "d \<in> set (fst (perform w ds))" using perform_and_run_mem [of d w ds c] assms(2) no_write_in(5) by blast
  obtain a b where "fst (perform_and_run w ds c) = a @ d # b" using split_list [OF in_rest] by blast
  then show "\<exists>pre post. backup w path @ fst (perform_and_run w ds c) = pre @ d # post \<and> tried w (Copied path (path @ ''.bak'')) \<in> set pre"
    if "wd_exists w path" using backup_first [OF that] by (intro exI [of _ "backup w path @ a"] exI [of _ b]) simp
qed

text \<open>C17: A command writes a file of the machine, wholly or in part, only as an update says: the configuration of
  xray with inbounds or outbounds, the configuration of hysteria with its address, or the next text of the agent
  with what a server sent in answer to one of at most six requests and, when the panel gave its hash, with that
  hash. Before a configuration that exists is overwritten, its copy is tried; a copy that fails does not stop
  the update.\<close>

theorem files_written_as_told:
  assumes "d \<in> set (fst (handleCommand w cfg cmd))" and "writes d path body"
  shows "written w cfg cmd path body \<and> length (asked (fst (handleCommand w cfg cmd))) \<le> 6 \<and>
    (path \<noteq> AGENT_PATH @ ''.tmp'' \<and> wd_exists w path \<longrightarrow>
      (\<exists>pre post. fst (handleCommand w cfg cmd) = pre @ d # post \<and> tried w (Copied path (path @ ''.bak'')) \<in> set pre))"
proof (cases cmd)
  case (CmdUpdateConfig k)
  obtain i ob t where k: "k = ConfigObject i ob t" "i \<or> ob"
    using CmdUpdateConfig assms no_write_in(2) [OF assms(2)] by (auto simp: update_config_def split_beta split: json_config.splits if_splits)
  have h: "fst (handleCommand w cfg cmd) = backup w XRAY_CONFIG_PATH @ fst (perform_and_run w [Wrote XRAY_CONFIG_PATH t] ''systemctl restart xray'')"
    using CmdUpdateConfig k by (auto simp: update_config_def split_beta)
  note u = update_writes [OF assms(1) [unfolded h] assms(2)]
  have p: "path = XRAY_CONFIG_PATH" "body = t" using perform_mem [OF u(1)] assms(2) by (auto simp: writes_def)
  have "written w cfg cmd path body" using k p CmdUpdateConfig by (auto simp: written_def)
  then show ?thesis using asks_little [of w cfg cmd] u(2) unfolding h p(1) by blast
next
  case (CmdUpdateHy2 k)
  obtain t where k: "k = Some t" "js_includes ''listen:'' t"
    using CmdUpdateHy2 assms no_write_in(2) [OF assms(2)] by (auto simp: update_hy2_config_def split_beta truthy_def split: if_splits)
  have h: "fst (handleCommand w cfg cmd) =
      backup w HY2_CONFIG_PATH @ fst (perform_and_run w [MadeDir ''/etc/hysteria'', Wrote HY2_CONFIG_PATH t] ''systemctl restart hysteria-server'')"
    using CmdUpdateHy2 k assms no_write_in(2) [OF assms(2)] by (simp add: update_hy2_config_def split_beta split: if_splits)
  note u = update_writes [OF assms(1) [unfolded h] assms(2)]
  have p: "path = HY2_CONFIG_PATH" "body = t" using perform_mem [OF u(1)] assms(2) by (auto simp: writes_def)
  have "written w cfg cmd path body" using k p CmdUpdateHy2 by (auto simp: written_def)
  then show ?thesis using asks_little [of w cfg cmd] u(2) unfolding h p(1) by blast
next
  case (CmdSelfUpdate h)
  then have w: "written w cfg cmd path body" using assms self_update_written [of d w cfg h path body] by simp
  then have "path = AGENT_PATH @ ''.tmp''" using CmdSelfUpdate by (simp add: written_def)
  then show ?thesis using w asks_little [of w cfg cmd] by blast
next
  case (CmdExec x t)
  then show ?thesis using assms no_write_in by (auto simp: exec_command_def Let_def split: option.splits)
qed (use assms no_write_in in \<open>auto simp: writes_def\<close>)

theorem files_written_as_told_witness:
  "Wrote HY2_CONFIG_PATH ''listen: :443'' \<in>
      set (fst (handleCommand (sample_world\<lparr>wd_fault := (\<lambda>d. if d = Copied HY2_CONFIG_PATH (HY2_CONFIG_PATH @ ''.bak'') then Some ''EIO'' else None)\<rparr>)
        sample_config (CmdUpdateHy2 (Some ''listen: :443'')))) \<and>
   written (sample_world\<lparr>wd_fault := (\<lambda>d. if d = Copied HY2_CONFIG_PATH (HY2_CONFIG_PATH @ ''.bak'') then Some ''EIO'' else None)\<rparr>)
     sample_config (CmdUpdateHy2 (Some ''listen: :443'')) HY2_CONFIG_PATH ''listen: :443''"
proof -
  let ?w = "sample_world\<lparr>wd_fault := (\<lambda>d. if d = Copied HY2_CONFIG_PATH (HY2_CONFIG_PATH @ ''.bak'') then Some ''EIO'' else None)\<rparr>"
  have "js_includes ''listen:'' ''listen: :443''" by code_simp
  then have d: "Wrote HY2_CONFIG_PATH ''listen: :443'' \<in> set (fst (handleCommand ?w sample_config (CmdUpdateHy2 (Some ''listen: :443''))))"
    by (simp add: update_hy2_config_def perform_and_run_def truthy_def sample_world_def split_beta)
  have "writes (Wrote HY2_CONFIG_PATH ''listen: :443'') HY2_CONFIG_PATH ''listen: :443''" by (simp add: writes_def)
  from files_written_as_told [OF d this] d show ?thesis by blast
qed

definition only_stops :: "monitor \<Rightarrow> monitor \<Rightarrow> bool" where
  "only_stops s s' \<longleftrightarrow>
     (\<exists>new. d_effects (hm_db s') = d_effects (hm_db s) @ new \<and> (\<forall>a c. AgentCommand a c \<in> set new \<longrightarrow> c = stop_command))"

lemma only_stops_refl: "d_effects (hm_db s') = d_effects (hm_db s) \<Longrightarrow> only_stops s s'"
  by (simp add: only_stops_def)

lemma only_stops_trans:
  assumes "only_stops a b" and "only_stops b c"
  shows "only_stops a c"
proof -
  obtain x y where "d_effects (hm_db b) = d_effects (hm_db a) @ x" "\<forall>n k. AgentCommand n k \<in> set x \<longrightarrow> k = stop_command"
    "d_effects (hm_db c) = d_effects (hm_db b) @ y" "\<forall>n k. AgentCommand n k \<in> set y \<longrightarrow> k = stop_command"
    using assms by (auto simp: only_stops_def)
  then show ?thesis by (auto simp: only_stops_def intro!: exI [of _ "x @ y"])
qed

lemma stop_machine_commands: "only_stops s (stop_machine e host now s)"
proof -
  let ?f = "\<lambda>p. on_db (update_node (n_id p) (\<lambda>n. n\<lparr>n_is_active := False, n_remark := REMARK_CAP\<rparr>))"
  have f: "d_effects (hm_db (fold ?f ps s)) = d_effects (hm_db s)" for ps s
    by (induction ps arbitrary: s) (simp_all add: on_db_def update_node_def)
  have o: "hm_db (on_db g x) = g (hm_db x)" for g x by (simp add: on_db_def)
  show ?thesis unfolding stop_machine_def Let_def only_stops_def by (auto simp: tell_def f o add_effect_def addAuditLog_def)
qed

lemma cap_commands: "only_stops s (checkNodeTrafficCap e nid now s)"
proof -
  have "only_stops s (stop_machine e host now x)" if "d_effects (hm_db x) = d_effects (hm_db s)" for host x
    by (rule only_stops_trans [OF only_stops_refl [OF that] stop_machine_commands])
  then show ?thesis by (auto simp: checkNodeTrafficCap_def Let_def split_beta split: option.split intro!: only_stops_refl)
qed

lemma stop_command_dangerous: "handleCommand w cfg (read_command stop_command) = ([], Done False (Some ''dangerous characters''))"
  by (simp add: read_command_def stop_command_def strip_def js_starts_def exec_command_def exec_refused_def js_trim_def js_space_def
      is_dangerous_def dangerous_char_def exec_error_def failed_def)

text \<open>C19: The command that stops a machine over its traffic cap chains two commands, so every agent refuses
  it and its proxies go on: what the cap sends is never carried out.\<close>

theorem cap_stop_refused:
  assumes "d_effects (hm_db (checkNodeTrafficCap e nid now s)) = d_effects (hm_db s) @ sent" and "AgentCommand a c \<in> set sent"
  shows "handleCommand w cfg (read_command c) = ([], Done False (Some ''dangerous characters''))"
proof -
  have "c = stop_command" using cap_commands [of s e nid now] assms by (auto simp: only_stops_def)
  then show ?thesis by (simp only: stop_command_dangerous)
qed

definition capped_monitor :: monitor where
  "capped_monitor = start_monitor (sample_db\<lparr>d_nodes := [sample_node 5\<lparr>n_traffic_cap := 1\<rparr>],
     d_daily := [\<lparr>da_user = 2, da_node = 5, da_date = ''1970-01-01'', da_up = 1, da_down = 1\<rparr>]\<rparr>)"

lemma capped_monitor_simps [simp]:
  "d_nodes (hm_db capped_monitor) = [sample_node 5\<lparr>n_traffic_cap := 1\<rparr>]" "hm_nodes capped_monitor = []" "hm_capped capped_monitor = []"
  "d_daily (hm_db capped_monitor) = [\<lparr>da_user = 2, da_node = 5, da_date = ''1970-01-01'', da_up = 1, da_down = 1\<rparr>]"
  by (simp_all add: capped_monitor_def start_monitor_def)

theorem cap_stop_refused_witness:
  "handleCommand sample_world sample_config (read_command ''exec systemctl stop xray; systemctl stop hysteria-server'') = ([], Done False (Some ''dangerous characters'')) \<and>
   AgentCommand 5 ''exec systemctl stop xray; systemctl stop hysteria-server'' \<in>
     set (d_effects (hm_db (checkNodeTrafficCap (sample_health\<lparr>he_online := \<lambda>_. True\<rparr>) 5 9 capped_monitor)))"
proof -
  let ?e = "sample_health\<lparr>he_online := \<lambda>_. True\<rparr>" and ?n = "sample_node 5\<lparr>n_traffic_cap := 1\<rparr>"
  have dec: "he_dec ?e = (\<lambda>x. x)" by simp
  have n: "hm_nodes (getNodeSnapshot ?e 9 capped_monitor) = [?n]"
    by (simp add: getNodeSnapshot_def getAllNodes_def by_region_name_def decryptNode_def dec)
  have d: "d_effects (hm_db (checkNodeTrafficCap ?e 5 9 capped_monitor)) = d_effects (hm_db capped_monitor) @
      [Notify ''ops'' [''node traffic cap'', ''h'', ''n''], AgentCommand 5 stop_command]"
    using n
    by (simp add: Let_def checkNodeTrafficCap_def node_of_def by_id_def getHostTraffic_def sum_daily_def host_of_def ssh_host_of_def or_else_def
        stop_machine_def tell_def on_db_def add_effect_def addAuditLog_def update_node_def js_join_def update_where_def
        sample_node_def)
  show ?thesis using cap_stop_refused [OF d, of 5 stop_command] d by (simp add: stop_command_def)
qed

section \<open>The connection to the panel\<close>

text \<open>C25: The agent never gives up: at every moment of every run the delay before the next attempt is between
  one second and a minute, every attempt is due within sixty-one seconds, without a socket an attempt is
  pending, and two minutes later the watchdog finds a working connection or starts a new one.\<close>

theorem agent_never_gives_up:
  assumes "link_reachable (t, s)"
  shows "1000 \<le> lk_delay s \<and> lk_delay s \<le> 60000 \<and> (\<forall>d \<in> set (lk_timers s). d < t + 61000) \<and>
    (lk_ws s = None \<longrightarrow> lk_timers s \<noteq> []) \<and>
    (t + 120000 < T \<longrightarrow> sends_on s \<noteq> None \<or>
       lk_ws (watchdog T s) = Some (lk_next s) \<and> sock_state (lk_next s) (watchdog T s) = Connecting)"
proof -
  have ok: "link_ok t s" by (rule link_reachable_ok [OF assms])
  have "lk_ws (watchdog T s) = Some (lk_next s) \<and> sock_state (lk_next s) (watchdog T s) = Connecting"
    if "t + 120000 < T" "sends_on s = None"
    using ok that by (simp add: link_ok_def watchdog_def connect_def set_sock_def cleanup_def sock_state_def Let_def split: option.split)
  then show ?thesis using ok by (auto simp: link_ok_def)
qed

lemma link_start: "link_reachable (t, start_link t)"
  by (auto simp: link_reachable_def)

lemma link_go: "link_reachable x \<Longrightarrow> link_step x y \<Longrightarrow> link_reachable y"
  unfolding link_reachable_def by (meson rtranclp.rtrancl_into_rtrancl)

text \<open>An attempt that fails at once: the next is due a second later.\<close>

theorem agent_never_gives_up_witness:
  "link_reachable (5, on_lost 0 5 0 (start_link 5)) \<and> lk_timers (on_lost 0 5 0 (start_link 5)) \<noteq> []"
proof -
  have "sock_state 0 (start_link 5) \<noteq> Gone" by (simp add: start_link_def connect_def set_sock_def sock_state_def)
  then have r: "link_reachable (5, on_lost 0 5 0 (start_link 5))" by (intro link_go [OF link_start [of 5]] link_step.lost) simp_all
  have "lk_ws (on_lost 0 5 0 (start_link 5)) = None" by (simp add: on_lost_def cleanup_def scheduleReconnect_def Let_def)
  then show ?thesis using agent_never_gives_up [OF r] r by blast
qed

text \<open>Two open sockets, of which the agent uses the newer.\<close>

definition two_open :: "nat \<Rightarrow> nat \<Rightarrow> link \<Rightarrow> bool" where
  "two_open n m s \<longleftrightarrow>
     n < m \<and> m < lk_next s \<and> sock_state n s = Opened \<and> sock_state m s = Opened \<and> lk_ws s = Some m"

text \<open>When the agent has two open connections, the end of the older one takes the newer one out of use
  although it is open; the attempt made next leads to two open connections again, however often the
  panel ends the older one.\<close>

theorem late_close_flaps:
  assumes "two_open n m s"
  shows "sends_on (on_lost j t n s) = None \<and> sock_state m (on_lost j t n s) = Opened \<and>
    two_open m (lk_next s) (on_open (lk_next s) t' (reconnect_timer d (on_lost j t n s)))"
  using assms
  by (simp add: two_open_def sends_on_def on_lost_def cleanup_def scheduleReconnect_def set_sock_def sock_state_def on_open_def
      reconnect_timer_def connect_def Let_def js_get_set)

text \<open>The first attempt hangs for two minutes and then fails; the watchdog and the pending attempt both connect.\<close>

definition sample_hang :: link where
  "sample_hang = watchdog 120001 (on_lost 0 120001 0 (start_link 0))"

definition sample_two :: link where
  "sample_two = on_open 2 121001 (reconnect_timer 121001 (on_open 1 120001 sample_hang))"

lemmas link_simps = start_link_def connect_def set_sock_def on_lost_def cleanup_def scheduleReconnect_def watchdog_def sends_on_def on_open_def
  reconnect_timer_def sock_state_def Let_def

lemma sample_two_reachable: "link_reachable (121001, sample_two)"
proof -
  have "link_reachable (120001, start_link 0)"
    by (rule link_go [OF link_start [of 0]], rule link_step.clock) (simp_all add: start_link_def connect_def set_sock_def)
  then have "link_reachable (120001, on_lost 0 120001 0 (start_link 0))"
    by (rule link_go, intro link_step.lost) (simp_all add: link_simps)
  then have h: "link_reachable (120001, sample_hang)" unfolding sample_hang_def by (rule link_go, intro link_step.watch)
  then have "link_reachable (120001, on_open 1 120001 sample_hang)"
    by (rule link_go, intro link_step.opens) (simp add: sample_hang_def link_simps)
  then have "link_reachable (121001, on_open 1 120001 sample_hang)"
    by (rule link_go, intro link_step.clock) (simp_all add: sample_hang_def link_simps)
  then have "link_reachable (121001, reconnect_timer 121001 (on_open 1 120001 sample_hang))"
    by (rule link_go, intro link_step.timer) (simp_all add: sample_hang_def link_simps)
  then show ?thesis unfolding sample_two_def
    by (rule link_go, intro link_step.opens) (simp add: sample_hang_def link_simps)
qed

theorem late_close_flaps_witness:
  "link_reachable (121001, sample_two) \<and> two_open 1 2 sample_two \<and> sends_on (on_lost 0 121002 1 sample_two) = None"
proof -
  have "two_open 1 2 sample_two" by (simp add: two_open_def sample_two_def sample_hang_def link_simps)
  then show ?thesis using late_close_flaps [of 1 2 sample_two 0 121002] sample_two_reachable by blast
qed

end
