(* ===== verification/Regions.thy ===== *)
theory Regions
  imports NetUtils
begin

text \<open>
  Names of regions and nodes (\<open>src/utils/regions.js\<close>, \<open>src/utils/names.js\<close>) and the
  recognition of a server's region (\<open>src/services/deploy.js\<close>).

  Texts outside ASCII are the bytes of their UTF-8 form, given by their code points. The answers of the
  name service and of the two services on the web are parameters.
\<close>

text \<open>The UTF-8 form of a code point and of a text; a flag is written with two regional indicators.\<close>

definition utf8 :: "nat \<Rightarrow> string" where
  "utf8 n =
     (if n < 0x80 then [char_of n]
      else if n < 0x800 then [char_of (0xC0 + n div 0x40), char_of (0x80 + n mod 0x40)]
      else if n < 0x10000 then [char_of (0xE0 + n div 0x1000), char_of (0x80 + n div 0x40 mod 0x40), char_of (0x80 + n mod 0x40)]
      else [char_of (0xF0 + n div 0x40000), char_of (0x80 + n div 0x1000 mod 0x40), char_of (0x80 + n div 0x40 mod 0x40),
            char_of (0x80 + n mod 0x40)])"

definition utf :: "nat list \<Rightarrow> string" where
  "utf ns = concat (map utf8 ns)"

definition flag :: "string \<Rightarrow> string" where
  "flag country = utf (map (\<lambda>c. 0x1F1E6 + of_char c - 65) country)"

section \<open>Tables\<close>

definition REGION_EMOJI :: "(string \<times> string) list" where
  "REGION_EMOJI = [
     (''singapore'', flag ''SG''), (utf [0x65B0, 0x52A0, 0x5761], flag ''SG''), (''tokyo'', flag ''JP''), (''japan'', flag ''JP''),
     (''osaka'', flag ''JP''), (''chiyoda'', flag ''JP''), (utf [0x4E1C, 0x4EAC], flag ''JP''), (utf [0x5927, 0x962A], flag ''JP''),
     (utf [0x5343, 0x4EE3, 0x7530], flag ''JP''), (utf [0x65E5, 0x672C], flag ''JP''), (''seoul'', flag ''KR''),
     (''korea'', flag ''KR''), (utf [0x9996, 0x5C14], flag ''KR''), (utf [0x97E9, 0x56FD], flag ''KR''), (''hong kong'', flag ''HK''),
     (''hongkong'', flag ''HK''), (utf [0x9999, 0x6E2F], flag ''HK''), (''taiwan'', flag ''TW''), (''taipei'', flag ''TW''),
     (utf [0x53F0, 0x6E7E], flag ''TW''), (utf [0x53F0, 0x5317], flag ''TW''), (''mumbai'', flag ''IN''), (''india'', flag ''IN''),
     (utf [0x5B5F, 0x4E70], flag ''IN''), (utf [0x5370, 0x5EA6], flag ''IN''), (''sydney'', flag ''AU''), (''australia'', flag ''AU''),
     (utf [0x6089, 0x5C3C], flag ''AU''), (utf [0x6FB3, 0x5927, 0x5229, 0x4E9A], flag ''AU''), (''london'', flag ''GB''),
     (''uk'', flag ''GB''), (''united kingdom'', flag ''GB''), (utf [0x4F26, 0x6566], flag ''GB''), (utf [0x82F1, 0x56FD], flag ''GB''),
     (''frankfurt'', flag ''DE''), (''germany'', flag ''DE''), (utf [0x6CD5, 0x5170, 0x514B, 0x798F], flag ''DE''),
     (utf [0x5FB7, 0x56FD], flag ''DE''), (''paris'', flag ''FR''), (''france'', flag ''FR''), (utf [0x5DF4, 0x9ECE], flag ''FR''),
     (utf [0x6CD5, 0x56FD], flag ''FR''), (''amsterdam'', flag ''NL''), (''netherlands'', flag ''NL''),
     (utf [0x963F, 0x59C6, 0x65AF, 0x7279, 0x4E39], flag ''NL''), (utf [0x8377, 0x5170], flag ''NL''), (''virginia'', flag ''US''),
     (''ohio'', flag ''US''), (''oregon'', flag ''US''), (''california'', flag ''US''), (''portland'', flag ''US''),
     (''minkler'', flag ''US''), (''ashburn'', flag ''US''), (''san jose'', flag ''US''), (''santa clara'', flag ''US''),
     (''los angeles'', flag ''US''), (utf [0x6D1B, 0x6749, 0x77F6], flag ''US''), (''us'', flag ''US''),
     (''united states'', flag ''US''), (''america'', flag ''US''), (utf [0x7F8E, 0x56FD], flag ''US''),
     (utf [0x5F17, 0x5409, 0x5C3C, 0x4E9A], flag ''US''), (utf [0x4FC4, 0x4EA5, 0x4FC4], flag ''US''),
     (utf [0x4FC4, 0x52D2, 0x5188], flag ''US''), (utf [0x6CE2, 0x7279, 0x5170], flag ''US''),
     (utf [0x660E, 0x514B, 0x52D2], flag ''US''), (utf [0x963F, 0x4EC0, 0x672C], flag ''US''),
     (utf [0x5723, 0x4F55, 0x585E], flag ''US''), (utf [0x5723, 0x514B, 0x62C9, 0x62C9], flag ''US''), (''vietnam'', flag ''VN''),
     (''hanoi'', flag ''VN''), (''ho chi minh'', flag ''VN''), (''ho chi minh city'', flag ''VN''), (''da nang'', flag ''VN''),
     (utf [0x8D8A, 0x5357], flag ''VN''), (utf [0x6CB3, 0x5185], flag ''VN''), (utf [0x80E1, 0x5FD7, 0x660E], flag ''VN''),
     (utf [0x5C98, 0x6E2F], flag ''VN''), (''canada'', flag ''CA''), (''toronto'', flag ''CA''),
     (utf [0x52A0, 0x62FF, 0x5927], flag ''CA''), (utf [0x591A, 0x4F26, 0x591A], flag ''CA''), (''brazil'', flag ''BR''),
     (''s'' @ utf [0xE3] @ ''o paulo'', flag ''BR''), (''sao paulo'', flag ''BR''), (utf [0x5DF4, 0x897F], flag ''BR''),
     (utf [0x5723, 0x4FDD, 0x7F57], flag ''BR''), (''jakarta'', flag ''ID''), (''indonesia'', flag ''ID''),
     (utf [0x96C5, 0x52A0, 0x8FBE], flag ''ID''), (utf [0x5370, 0x5C3C], flag ''ID''),
     (utf [0x5370, 0x5EA6, 0x5C3C, 0x897F, 0x4E9A], flag ''ID''), (''bangkok'', flag ''TH''), (''thailand'', flag ''TH''),
     (utf [0x66FC, 0x8C37], flag ''TH''), (utf [0x6CF0, 0x56FD], flag ''TH''), (''kuala lumpur'', flag ''MY''),
     (''malaysia'', flag ''MY''), (utf [0x5409, 0x9686, 0x5761], flag ''MY''), (utf [0x9A6C, 0x6765, 0x897F, 0x4E9A], flag ''MY''),
     (''manila'', flag ''PH''), (''philippines'', flag ''PH''), (utf [0x9A6C, 0x5C3C, 0x62C9], flag ''PH''),
     (utf [0x83F2, 0x5F8B, 0x5BBE], flag ''PH''), (''dubai'', flag ''AE''), (utf [0x8FEA, 0x62DC], flag ''AE''),
     (''bahrain'', flag ''BH''), (utf [0x5DF4, 0x6797], flag ''BH''), (''stockholm'', flag ''SE''), (''sweden'', flag ''SE''),
     (utf [0x65AF, 0x5FB7, 0x54E5, 0x5C14, 0x6469], flag ''SE''), (utf [0x745E, 0x5178], flag ''SE''), (''dublin'', flag ''IE''),
     (''ireland'', flag ''IE''), (utf [0x90FD, 0x67CF, 0x6797], flag ''IE''), (utf [0x7231, 0x5C14, 0x5170], flag ''IE''),
     (''milan'', flag ''IT''), (''italy'', flag ''IT''), (utf [0x7C73, 0x5170], flag ''IT''),
     (utf [0x610F, 0x5927, 0x5229], flag ''IT''), (''zurich'', flag ''CH''), (''switzerland'', flag ''CH''),
     (utf [0x82CF, 0x9ECE, 0x4E16], flag ''CH''), (utf [0x745E, 0x58EB], flag ''CH''), (''warsaw'', flag ''PL''),
     (''poland'', flag ''PL''), (utf [0x534E, 0x6C99], flag ''PL''), (utf [0x6CE2, 0x5170], flag ''PL''), (''cape town'', flag ''ZA''),
     (''south africa'', flag ''ZA''), (utf [0x5F00, 0x666E, 0x6566], flag ''ZA''), (utf [0x5357, 0x975E], flag ''ZA'')]"

definition CITY_CN :: "(string \<times> string) list" where
  "CITY_CN = [
     (''singapore'', utf [0x65B0, 0x52A0, 0x5761]), (''tokyo'', utf [0x4E1C, 0x4EAC]), (''osaka'', utf [0x5927, 0x962A]),
     (''chiyoda'', utf [0x5343, 0x4EE3, 0x7530]), (''chiyoda city'', utf [0x5343, 0x4EE3, 0x7530]), (''seoul'', utf [0x9996, 0x5C14]),
     (''hong kong'', utf [0x9999, 0x6E2F]), (''hongkong'', utf [0x9999, 0x6E2F]), (''taipei'', utf [0x53F0, 0x5317]),
     (''mumbai'', utf [0x5B5F, 0x4E70]), (''sydney'', utf [0x6089, 0x5C3C]), (''london'', utf [0x4F26, 0x6566]),
     (''frankfurt'', utf [0x6CD5, 0x5170, 0x514B, 0x798F]), (''paris'', utf [0x5DF4, 0x9ECE]),
     (''amsterdam'', utf [0x963F, 0x59C6, 0x65AF, 0x7279, 0x4E39]), (''virginia'', utf [0x5F17, 0x5409, 0x5C3C, 0x4E9A]),
     (''ohio'', utf [0x4FC4, 0x4EA5, 0x4FC4]), (''oregon'', utf [0x4FC4, 0x52D2, 0x5188]),
     (''california'', utf [0x52A0, 0x5229, 0x798F, 0x5C3C, 0x4E9A]), (''los angeles'', utf [0x6D1B, 0x6749, 0x77F6]),
     (''portland'', utf [0x6CE2, 0x7279, 0x5170]), (''minkler'', utf [0x660E, 0x514B, 0x52D2]),
     (''ashburn'', utf [0x963F, 0x4EC0, 0x672C]), (''san jose'', utf [0x5723, 0x4F55, 0x585E]),
     (''santa clara'', utf [0x5723, 0x514B, 0x62C9, 0x62C9]), (''s'' @ utf [0xE3] @ ''o paulo'', utf [0x5723, 0x4FDD, 0x7F57]),
     (''toronto'', utf [0x591A, 0x4F26, 0x591A]), (''jakarta'', utf [0x96C5, 0x52A0, 0x8FBE]), (''bangkok'', utf [0x66FC, 0x8C37]),
     (''kuala lumpur'', utf [0x5409, 0x9686, 0x5761]), (''manila'', utf [0x9A6C, 0x5C3C, 0x62C9]), (''dubai'', utf [0x8FEA, 0x62DC]),
     (''stockholm'', utf [0x65AF, 0x5FB7, 0x54E5, 0x5C14, 0x6469]), (''dublin'', utf [0x90FD, 0x67CF, 0x6797]),
     (''milan'', utf [0x7C73, 0x5170]), (''zurich'', utf [0x82CF, 0x9ECE, 0x4E16]), (''warsaw'', utf [0x534E, 0x6C99]),
     (''cape town'', utf [0x5F00, 0x666E, 0x6566]), (''bahrain'', utf [0x5DF4, 0x6797]), (''hanoi'', utf [0x6CB3, 0x5185]),
     (''ho chi minh'', utf [0x80E1, 0x5FD7, 0x660E]), (''ho chi minh city'', utf [0x80E1, 0x5FD7, 0x660E]),
     (''da nang'', utf [0x5C98, 0x6E2F])]"

definition BEAUTIFUL_NAMES :: "string list" where
  "BEAUTIFUL_NAMES = [
     utf [0x6C5F, 0x5C71, 0x5982, 0x753B], utf [0x82B1, 0x597D, 0x6708, 0x5706], utf [0x6625, 0x98CE, 0x5316, 0x96E8],
     utf [0x4E91, 0x6DE1, 0x98CE, 0x8F7B], utf [0x661F, 0x6CB3, 0x7480, 0x74A8], utf [0x78A7, 0x6D77, 0x9752, 0x5929],
     utf [0x660E, 0x6708, 0x6E05, 0x98CE], utf [0x7D2B, 0x6C14, 0x4E1C, 0x6765], utf [0x98CE, 0x82B1, 0x96EA, 0x6708],
     utf [0x6C34, 0x5929, 0x4E00, 0x8272], utf [0x5C71, 0x9AD8, 0x6C34, 0x957F], utf [0x9E1F, 0x8BED, 0x82B1, 0x9999],
     utf [0x6625, 0x6696, 0x82B1, 0x5F00], utf [0x79CB, 0x9AD8, 0x6C14, 0x723D], utf [0x98CE, 0x548C, 0x65E5, 0x4E3D],
     utf [0x6708, 0x660E, 0x661F, 0x7A00], utf [0x6843, 0x7EA2, 0x67F3, 0x7EFF], utf [0x5929, 0x6717, 0x6C14, 0x6E05],
     utf [0x70DF, 0x6CE2, 0x6D69, 0x6E3A], utf [0x9526, 0x7EE3, 0x6CB3, 0x5C71], utf [0x7389, 0x6811, 0x4E34, 0x98CE],
     utf [0x91D1, 0x78A7, 0x8F89, 0x714C], utf [0x6D41, 0x6C34, 0x6F7A, 0x6F7A], utf [0x767D, 0x4E91, 0x82CD, 0x72D7],
     utf [0x843D, 0x971E, 0x5B64, 0x9E5C], utf [0x957F, 0x98CE, 0x4E07, 0x91CC], utf [0x6D77, 0x9614, 0x5929, 0x7A7A],
     utf [0x96E8, 0x8FC7, 0x5929, 0x6674], utf [0x6668, 0x66E6, 0x5FAE, 0x9732], utf [0x66AE, 0x8272, 0x82CD, 0x832B],
     utf [0x7E41, 0x82B1, 0x4F3C, 0x9526], utf [0x7EFF, 0x6C34, 0x9752, 0x5C71], utf [0x94F6, 0x88C5, 0x7D20, 0x88F9],
     utf [0x4E07, 0x7D2B, 0x5343, 0x7EA2], utf [0x5C42, 0x6797, 0x5C3D, 0x67D3], utf [0x5929, 0x9AD8, 0x4E91, 0x6DE1],
     utf [0x6CE2, 0x5149, 0x7CBC, 0x7CBC], utf [0x6708, 0x767D, 0x98CE, 0x6E05], utf [0x971E, 0x5149, 0x4E07, 0x9053],
     utf [0x745E, 0x96EA, 0x4E30, 0x5E74], utf [0x9F99, 0x817E, 0x864E, 0x8DC3], utf [0x51E4, 0x821E, 0x4E5D, 0x5929],
     utf [0x9E4F, 0x7A0B, 0x4E07, 0x91CC], utf [0x4E00, 0x5E06, 0x98CE, 0x987A], utf [0x5982, 0x9C7C, 0x5F97, 0x6C34],
     utf [0x767E, 0x82B1, 0x9F50, 0x653E], utf [0x67F3, 0x6697, 0x82B1, 0x660E], utf [0x66F2, 0x5F84, 0x901A, 0x5E7D],
     utf [0x6E05, 0x98CE, 0x5F90, 0x6765], utf [0x6C34, 0x6CE2, 0x4E0D, 0x5174], utf [0x671D, 0x971E, 0x6EE1, 0x5929],
     utf [0x5915, 0x9633, 0x5982, 0x8840], utf [0x677E, 0x6D9B, 0x9635, 0x9635], utf [0x7AF9, 0x5F71, 0x5A46, 0x5A11],
     utf [0x6885, 0x5F00, 0x4E94, 0x798F], utf [0x5170, 0x5FC3, 0x8559, 0x8D28], utf [0x7434, 0x745F, 0x548C, 0x9E23],
     utf [0x4E66, 0x9999, 0x95E8, 0x7B2C], utf [0x753B, 0x610F, 0x8BD7, 0x60C5], utf [0x68CB, 0x9022, 0x5BF9, 0x624B],
     utf [0x9AD8, 0x5C71, 0x6D41, 0x6C34], utf [0x9633, 0x6625, 0x767D, 0x96EA], utf [0x7A7A, 0x8C37, 0x5E7D, 0x5170],
     utf [0x6CA7, 0x6D77, 0x660E, 0x73E0], utf [0x5929, 0x6DAF, 0x6D77, 0x89D2], utf [0x4E16, 0x5916, 0x6843, 0x6E90],
     utf [0x84EC, 0x83B1, 0x4ED9, 0x5883], utf [0x7476, 0x6C60, 0x4ED9, 0x9601], utf [0x9752, 0x4E91, 0x76F4, 0x4E0A],
     utf [0x6276, 0x6447, 0x4E07, 0x91CC], utf [0x4E58, 0x98CE, 0x7834, 0x6D6A], utf [0x62AB, 0x661F, 0x6234, 0x6708],
     utf [0x8E0F, 0x96EA, 0x5BFB, 0x6885], utf [0x671B, 0x6708, 0x6000, 0x8FDC], utf [0x4E34, 0x98CE, 0x542C, 0x96E8],
     utf [0x6795, 0x77F3, 0x6F31, 0x6D41], utf [0x4E91, 0x84B8, 0x971E, 0x851A], utf [0x6C14, 0x8C61, 0x4E07, 0x5343],
     utf [0x6D69, 0x7136, 0x6B63, 0x6C14], utf [0x5149, 0x98CE, 0x9701, 0x6708], utf [0x6668, 0x5149, 0x71B9, 0x5FAE],
     utf [0x6697, 0x9999, 0x6D6E, 0x52A8], utf [0x758F, 0x5F71, 0x6A2A, 0x659C], utf [0x6C34, 0x843D, 0x77F3, 0x51FA],
     utf [0x98CE, 0x5377, 0x6B8B, 0x4E91], utf [0x96EA, 0x6620, 0x7EA2, 0x6885], utf [0x6708, 0x7167, 0x677E, 0x6797],
     utf [0x971C, 0x67D3, 0x67AB, 0x7EA2], utf [0x6F6E, 0x8D77, 0x6F6E, 0x843D], utf [0x4E91, 0x5F00, 0x96FE, 0x6563],
     utf [0x6625, 0x610F, 0x76CE, 0x7136], utf [0x79CB, 0x6C34, 0x4F0A, 0x4EBA], utf [0x5929, 0x6E05, 0x5730, 0x5B81],
     utf [0x98CE, 0x8F7B, 0x4E91, 0x6DE1], utf [0x65E5, 0x6696, 0x98CE, 0x548C], utf [0x6708, 0x6717, 0x661F, 0x758F],
     utf [0x78A7, 0x6CE2, 0x8361, 0x6F3E], utf [0x7FE0, 0x7AF9, 0x5E7D, 0x5F84], utf [0x7EA2, 0x53F6, 0x6EE1, 0x5C71],
     utf [0x767D, 0x9E6D, 0x7FE9, 0x7FE9], utf [0x7D2B, 0x70DF, 0x7F2D, 0x7ED5], utf [0x91D1, 0x98CE, 0x9001, 0x723D],
     utf [0x94F6, 0x6CB3, 0x5012, 0x6302], utf [0x7389, 0x9732, 0x751F, 0x51C9], utf [0x677E, 0x98CE, 0x6C34, 0x6708],
     utf [0x6885, 0x96EA, 0x4E89, 0x6625], utf [0x5170, 0x4EAD, 0x5E8F, 0x66F2], utf [0x7AF9, 0x62A5, 0x5E73, 0x5B89],
     utf [0x9E64, 0x821E, 0x957F, 0x7A7A], utf [0x9E70, 0x51FB, 0x82CD, 0x7A79], utf [0x71D5, 0x5F52, 0x5DE2, 0x6696],
     utf [0x83BA, 0x6B4C, 0x71D5, 0x821E], utf [0x6843, 0x6E90, 0x95EE, 0x6D25], utf [0x674F, 0x96E8, 0x68A8, 0x4E91],
     utf [0x8377, 0x5858, 0x6708, 0x8272], utf [0x83CA, 0x5F84, 0x79CB, 0x6DF1], utf [0x98CE, 0x541F, 0x96EA, 0x821E],
     utf [0x4E91, 0x5F52, 0x8FDC, 0x5CAB], utf [0x6708, 0x6302, 0x758F, 0x6850], utf [0x971E, 0x6620, 0x6C5F, 0x697C],
     utf [0x96C1, 0x8FC7, 0x7559, 0x58F0], utf [0x6CC9, 0x9E23, 0x5E7D, 0x8C37], utf [0x9732, 0x51DD, 0x79CB, 0x8349],
     utf [0x70DF, 0x9501, 0x91CD, 0x697C], utf [0x661F, 0x5782, 0x5E73, 0x91CE], utf [0x96EA, 0x6EE1, 0x7FA4, 0x5C71],
     utf [0x98CE, 0x8FC7, 0x7AF9, 0x6797], utf [0x96E8, 0x6DA6, 0x9752, 0x82D4], utf [0x6674, 0x5DDD, 0x5386, 0x5386],
     utf [0x82B3, 0x8349, 0x840B, 0x840B], utf [0x53E4, 0x9053, 0x897F, 0x98CE], utf [0x957F, 0x4EAD, 0x77ED, 0x4EAD],
     utf [0x6E14, 0x821F, 0x5531, 0x665A], utf [0x7267, 0x7B1B, 0x6A2A, 0x5439], utf [0x6A35, 0x6B4C, 0x5165, 0x4E91],
     utf [0x8015, 0x8BFB, 0x4F20, 0x5BB6], utf [0x51CC, 0x4E91, 0x58EE, 0x5FD7], utf [0x7834, 0x6653, 0x4E1C, 0x98CE],
     utf [0x65ED, 0x65E5, 0x521D, 0x5347], utf [0x7693, 0x6708, 0x5F53, 0x7A7A], utf [0x6D41, 0x8424, 0x70B9, 0x70B9],
     utf [0x8749, 0x9E23, 0x590F, 0x591C], utf [0x86D9, 0x58F0, 0x5341, 0x91CC], utf [0x9E4A, 0x6865, 0x76F8, 0x4F1A],
     utf [0x6625, 0x6C5F, 0x82B1, 0x6708], utf [0x79CB, 0x5C71, 0x7EA2, 0x53F6], utf [0x590F, 0x8377, 0x6620, 0x65E5],
     utf [0x51AC, 0x6885, 0x50B2, 0x96EA], utf [0x70DF, 0x96E8, 0x697C, 0x53F0], utf [0x98CE, 0x5E06, 0x8FDC, 0x5F71],
     utf [0x5B64, 0x821F, 0x84D1, 0x7B20], utf [0x91CE, 0x6E21, 0x65E0, 0x4EBA], utf [0x9752, 0x706F, 0x53E4, 0x5377],
     utf [0x7D20, 0x7434, 0x6A2A, 0x819D], utf [0x8336, 0x70DF, 0x8885, 0x8885], utf [0x58A8, 0x9999, 0x76C8, 0x8896],
     utf [0x4E91, 0x6DF1, 0x4E0D, 0x77E5], utf [0x6C34, 0x8FDC, 0x5C71, 0x9065], utf [0x5929, 0x9645, 0x5F52, 0x5E06],
     utf [0x5CB8, 0x82B7, 0x6C40, 0x5170], utf [0x98DE, 0x7011, 0x6D41, 0x6CC9], utf [0x5371, 0x5D16, 0x52B2, 0x677E],
     utf [0x5E7D, 0x7BC1, 0x72EC, 0x5750], utf [0x77F3, 0x5F84, 0x659C, 0x9633], utf [0x6653, 0x98CE, 0x6B8B, 0x6708],
     utf [0x66AE, 0x96E8, 0x6F47, 0x6F47], utf [0x671D, 0x9732, 0x6676, 0x83B9], utf [0x591C, 0x96EA, 0x521D, 0x9701],
     utf [0x9E3F, 0x96C1, 0x4F20, 0x4E66], utf [0x9526, 0x9CA4, 0x8DC3, 0x6CE2], utf [0x767D, 0x9E25, 0x6D6E, 0x6C34],
     utf [0x9752, 0x9E1F, 0x6BB7, 0x52E4], utf [0x7389, 0x58F6, 0x51B0, 0x5FC3], utf [0x91D1, 0x6A3D, 0x6E05, 0x9152],
     utf [0x94F6, 0x674F, 0x98D8, 0x9EC4], utf [0x7FE0, 0x67CF, 0x51CC, 0x971C], utf [0x4E39, 0x67AB, 0x8FCE, 0x79CB],
     utf [0x7D2B, 0x85E4, 0x82B1, 0x67B6], utf [0x78A7, 0x8377, 0x8FDE, 0x5929], utf [0x82CD, 0x677E, 0x7FE0, 0x67CF],
     utf [0x6E05, 0x6EAA, 0x77F3, 0x4E0A], utf [0x660E, 0x6E56, 0x79CB, 0x6C34], utf [0x8FDC, 0x5C71, 0x542B, 0x9EDB],
     utf [0x8FD1, 0x6C34, 0x697C, 0x53F0], utf [0x98CE, 0x6E05, 0x6708, 0x6717], utf [0x96EA, 0x9701, 0x5929, 0x6674],
     utf [0x96E8, 0x540E, 0x5F69, 0x8679], utf [0x4E91, 0x7834, 0x5929, 0x5F00], utf [0x6625, 0x5C71, 0x5982, 0x7B11],
     utf [0x79CB, 0x6708, 0x65E0, 0x8FB9], utf [0x590F, 0x6728, 0x9634, 0x9634], utf [0x51AC, 0x9633, 0x6696, 0x7167],
     utf [0x5F52, 0x4E91, 0x6D1E, 0x5929], utf [0x6816, 0x971E, 0x665A, 0x7167], utf [0x5E73, 0x6E56, 0x79CB, 0x6708],
     utf [0x65AD, 0x6865, 0x6B8B, 0x96EA], utf [0x66F2, 0x9662, 0x98CE, 0x8377], utf [0x67F3, 0x6D6A, 0x95FB, 0x83BA],
     utf [0x53CC, 0x5CF0, 0x63D2, 0x4E91], utf [0x5357, 0x5C4F, 0x665A, 0x949F]]"

definition AWS_REGION_TO_GEO :: "(string \<times> string \<times> string) list" where
  "AWS_REGION_TO_GEO = [
     (''us-east-1'', ''Ashburn'', ''United States''), (''us-east-2'', ''Columbus'', ''United States''),
     (''us-west-1'', ''San Jose'', ''United States''), (''us-west-2'', ''Portland'', ''United States''),
     (''ca-central-1'', ''Toronto'', ''Canada''), (''ca-west-1'', ''Calgary'', ''Canada''),
     (''mx-central-1'', ''Mexico City'', ''Mexico''), (''sa-east-1'', ''S'' @ utf [0xE3] @ ''o Paulo'', ''Brazil''),
     (''eu-west-1'', ''Dublin'', ''Ireland''), (''eu-west-2'', ''London'', ''United Kingdom''), (''eu-west-3'', ''Paris'', ''France''),
     (''eu-central-1'', ''Frankfurt'', ''Germany''), (''eu-central-2'', ''Zurich'', ''Switzerland''),
     (''eu-north-1'', ''Stockholm'', ''Sweden''), (''eu-south-1'', ''Milan'', ''Italy''), (''eu-south-2'', ''Spain'', ''Spain''),
     (''ap-east-1'', ''Hong Kong'', ''Hong Kong''), (''ap-east-2'', ''Taipei'', ''Taiwan''), (''ap-northeast-1'', ''Tokyo'', ''Japan''),
     (''ap-northeast-2'', ''Seoul'', ''Korea''), (''ap-northeast-3'', ''Osaka'', ''Japan''),
     (''ap-southeast-1'', ''Singapore'', ''Singapore''), (''ap-southeast-2'', ''Sydney'', ''Australia''),
     (''ap-southeast-3'', ''Jakarta'', ''Indonesia''), (''ap-southeast-4'', ''Melbourne'', ''Australia''),
     (''ap-southeast-5'', ''Kuala Lumpur'', ''Malaysia''), (''ap-southeast-7'', ''Bangkok'', ''Thailand''),
     (''ap-south-1'', ''Mumbai'', ''India''), (''ap-south-2'', ''Hyderabad'', ''India''), (''me-south-1'', ''Bahrain'', ''Bahrain''),
     (''me-central-1'', ''Dubai'', ''United Arab Emirates''), (''il-central-1'', ''Tel Aviv'', ''Israel''),
     (''af-south-1'', ''Cape Town'', ''South Africa'')]"

text \<open>The first entry whose key occurs in the text decides.\<close>

definition first_key :: "(string \<times> string) list \<Rightarrow> string \<Rightarrow> string option" where
  "first_key table text = map_option snd (find (\<lambda>(k, v). js_includes k (js_lower text)) table)"

definition getRegionEmoji :: "string \<Rightarrow> string" where
  "getRegionEmoji text = (case first_key REGION_EMOJI text of Some v \<Rightarrow> v | None \<Rightarrow> utf [0x1F310])"

definition UNKNOWN_CN :: string where "UNKNOWN_CN = utf [0x672A, 0x77E5]"

definition getCityCN :: "string \<Rightarrow> string" where
  "getCityCN city = (case first_key CITY_CN city of Some v \<Rightarrow> v | None \<Rightarrow> if city = [] then UNKNOWN_CN else city)"

section \<open>The region of a server\<close>

record geo =
  ge_city :: string
  ge_region :: string
  ge_country :: string
  ge_city_cn :: string
  ge_emoji :: string

definition getRegionEmojiFromGeo :: "string \<Rightarrow> string \<Rightarrow> string" where
  "getRegionEmojiFromGeo city country = getRegionEmoji (city @ '' '' @ country)"

definition located :: "string \<Rightarrow> string \<Rightarrow> string \<Rightarrow> geo" where
  "located city region country =
     \<lparr>ge_city = city, ge_region = region, ge_country = country, ge_city_cn = getCityCN city,
      ge_emoji = getRegionEmojiFromGeo city country\<rparr>"

definition unknown_geo :: geo where
  "unknown_geo =
     \<lparr>ge_city = ''Unknown'', ge_region = [], ge_country = [], ge_city_cn = UNKNOWN_CN, ge_emoji = utf [0x1F310]\<rparr>"

text \<open>\<open>/\.([a-z]{2}-[a-z]+-\d)\.compute\.amazonaws\.com$/\<close> on a host name: the label before the ending.\<close>

definition lower_letter :: "char \<Rightarrow> bool" where
  "lower_letter c \<longleftrightarrow> CHR ''a'' \<le> c \<and> c \<le> CHR ''z''"

definition aws_label :: "string \<Rightarrow> bool" where
  "aws_label s =
     (case js_split (CHR ''-'') s of
        [a, b, [d]] \<Rightarrow> length a = 2 \<and> list_all lower_letter a \<and> b \<noteq> [] \<and> list_all lower_letter b \<and> is_digit d
      | _ \<Rightarrow> False)"

definition aws_region_of :: "string \<Rightarrow> string option" where
  "aws_region_of h =
     (case rev (js_split (CHR ''.'') h) of
        a # b # c # l # _ # _ \<Rightarrow> if a = ''com'' \<and> b = ''amazonaws'' \<and> c = ''compute'' \<and> aws_label l then Some l else None
      | _ \<Rightarrow> None)"

text \<open>\<open>None\<close>: the look-up failed or took longer than three seconds.\<close>

definition detectRegionByAwsPtr :: "string list option \<Rightarrow> geo option" where
  "detectRegionByAwsPtr hostnames =
     (case hostnames of
        None \<Rightarrow> None
      | Some hs \<Rightarrow>
          map_option (\<lambda>(city, country). located city city country)
            (case concat (map (\<lambda>h. case aws_region_of h of
                None \<Rightarrow> []
              | Some r \<Rightarrow> (case map_of AWS_REGION_TO_GEO r of None \<Rightarrow> [] | Some g \<Rightarrow> [g])) hs) of
               [] \<Rightarrow> None
             | g # _ \<Rightarrow> Some g))"

text \<open>
  The answers: of ip-api city, region and country when its status says success, of ipinfo the same
  when it names a city. A private address is not looked up.
\<close>

definition detectRegion ::
  "string list option \<Rightarrow> (string \<times> string \<times> string) option \<Rightarrow> (string \<times> string \<times> string) option \<Rightarrow> string \<Rightarrow> geo" where
  "detectRegion ptr ipapi ipinfo ip =
     (if ip = [] \<or> isPrivateOrLoopback ip then unknown_geo
      else case detectRegionByAwsPtr ptr of
             Some g \<Rightarrow> g
           | None \<Rightarrow>
               (case ipapi of
                  Some (city, region, country) \<Rightarrow> located city region country
                | None \<Rightarrow>
                    (case ipinfo of
                       Some (city, region, country) \<Rightarrow> if city \<noteq> [] then located city region country else unknown_geo
                     | None \<Rightarrow> unknown_geo)))"

text \<open>The shown place of a server with a home connection is that of the connection, when it is known.\<close>

definition resolveDeployGeo :: "(string \<Rightarrow> geo) \<Rightarrow> string \<Rightarrow> string \<Rightarrow> geo \<times> bool" where
  "resolveDeployGeo detect host socks5_host =
     (let g = detect host
      in if socks5_host = [] then (g, False)
         else let g' = detect socks5_host
              in (if ge_city g' \<noteq> [] \<and> ge_city g' \<noteq> ''Unknown'' \<and> ge_city_cn g' \<noteq> UNKNOWN_CN then g' else g, True))"

end
