(* ===== verification/XrayConfig.thy ===== *)
theory XrayConfig
  imports UuidRepo NodeRepo Regions
begin

text \<open>
  The configurations of the proxies and who is in them (\<open>src/services/deploy.js\<close>): the builders for
  xray and Hysteria 2, the search for the partner on the same machine and the synchronisation of a
  node.

  Of an xray configuration the model keeps what differs: the inbounds (for vless the address listened
  on, when one is given), the outbounds and the routing rules; the sections \<open>log\<close>, \<open>stats\<close>, \<open>api\<close> and \<open>policy\<close> are the same constants in all of them. A
  Hysteria configuration is its text.
\<close>

section \<open>Names of the accounts\<close>

text \<open>\<open>u-<id>\<close>, the protocol's suffix and \<open>@p\<close>; the id is the account's number.\<close>

definition safe_char :: "char \<Rightarrow> bool" where
  "safe_char c \<longleftrightarrow> is_digit c \<or> lower_letter (js_lower_char c) \<or> c \<in> set ''_-''"

definition proto_mark :: "string \<Rightarrow> string" where
  "proto_mark protocol =
     (if protocol = ''vless'' then ''-v'' else if protocol = ''ss'' then ''-s'' else if protocol = ''hy2'' then ''-h'' else [])"

definition makeEmail :: "int \<Rightarrow> string \<Rightarrow> string" where
  "makeEmail userId protocol =
     (let safe = take 24 (filter safe_char (show_int userId))
      in ''u-'' @ (if safe = [] then ''0'' else safe) @ proto_mark protocol @ ''@p'')"

section \<open>Outbounds\<close>

datatype outbound =
    SocksOut string int "(string \<times> string) option"
  | FreedomOut
  | BlackholeOut

definition buildOutboundsBySocks :: "string option \<Rightarrow> int \<Rightarrow> string option \<Rightarrow> string option \<Rightarrow> outbound list" where
  "buildOutboundsBySocks host port user pass =
     (if truthy host
      then [SocksOut (the host) (if port = 0 then 1080 else port) (if truthy user then Some (the user, or_else pass []) else None), FreedomOut]
      else [FreedomOut, BlackholeOut])"

text \<open>Everything leaves through the socks server when it is the first outbound.\<close>

definition socks_first :: "outbound list \<Rightarrow> bool" where
  "socks_first outs \<longleftrightarrow> (case outs of SocksOut h p u # _ \<Rightarrow> True | _ \<Rightarrow> False)"

section \<open>xray\<close>

record reality =
  rl_private :: string
  rl_sni :: string
  rl_short :: "string option"

record vless_client =
  vc_id :: string
  vc_email :: string
  vc_flow :: bool

record ss_client =
  sc_password :: string
  sc_email :: string

datatype inbound =
    VlessIn "string option" int "vless_client list" "reality option"
  | SsIn int "(ss_client \<times> string) list"
  | ApiIn

record xray_config =
  xf_inbounds :: "inbound list"
  xf_outbounds :: "outbound list"
  xf_all_socks :: bool

definition with_flow :: "reality option \<Rightarrow> vless_client list \<Rightarrow> vless_client list" where
  "with_flow r cs = (if r = None then cs else map (\<lambda>c. c\<lparr>vc_flow := True\<rparr>) cs)"

definition buildXrayConfig :: "int \<Rightarrow> vless_client list \<Rightarrow> outbound list \<Rightarrow> reality option \<Rightarrow> xray_config" where
  "buildXrayConfig port clients outs r =
     \<lparr>xf_inbounds = [VlessIn None port (with_flow r clients) r, ApiIn], xf_outbounds = outs, xf_all_socks = socks_first outs\<rparr>"

definition ss_inbound :: "int \<Rightarrow> ss_client list \<Rightarrow> string \<Rightarrow> inbound" where
  "ss_inbound port clients ssMethod = SsIn port (map (\<lambda>c. (c, ssMethod)) clients)"

definition buildSsXrayConfig :: "int \<Rightarrow> ss_client list \<Rightarrow> string \<Rightarrow> outbound list \<Rightarrow> xray_config" where
  "buildSsXrayConfig port clients ssMethod outs =
     (let finals = (if outs \<noteq> [] then outs else [FreedomOut, BlackholeOut])
      in \<lparr>xf_inbounds = [ss_inbound port clients ssMethod, ApiIn], xf_outbounds = finals, xf_all_socks = socks_first finals\<rparr>)"

definition buildDualXrayConfig ::
  "int \<Rightarrow> int \<Rightarrow> vless_client list \<Rightarrow> ss_client list \<Rightarrow> string \<Rightarrow> outbound list \<Rightarrow> reality option \<Rightarrow> xray_config" where
  "buildDualXrayConfig vlessPort ssPort vlessClients ssClients ssMethod outs r =
     \<lparr>xf_inbounds = [VlessIn (Some ''0.0.0.0'') vlessPort (with_flow r vlessClients) r, ss_inbound ssPort ssClients ssMethod, ApiIn],
      xf_outbounds = outs, xf_all_socks = socks_first outs\<rparr>"

section \<open>Hysteria 2\<close>

definition yamlEscape :: "string \<Rightarrow> string" where
  "yamlEscape s =
     concat (map (\<lambda>c. if c = CHR 0x5C then [CHR 0x5C, CHR 0x5C] else if c = CHR 0x22 then [CHR 0x5C, CHR 0x22] else [c]) s)"

definition quoted :: "string \<Rightarrow> string" where
  "quoted s = CHR 0x22 # yamlEscape s @ [CHR 0x22]"

text \<open>The part of a name before the first \<open>@\<close>; the suffix goes up to the end of the line.\<close>

definition before_at :: "string \<Rightarrow> string" where
  "before_at s = takeWhile (\<lambda>c. c \<noteq> CHR ''@'') s"

record hy2_opts =
  ho_stats_secret :: string
  ho_obfs :: "string option"
  ho_socks_host :: "string option"
  ho_socks_port :: int
  ho_socks_user :: "string option"
  ho_socks_pass :: "string option"

definition hy2_acl :: "string list" where
  "hy2_acl =
     [''    - reject(10.0.0.0/8)'', ''    - reject(172.16.0.0/12)'', ''    - reject(192.168.0.0/16)'', ''    - reject(169.254.0.0/16)'',
      ''    - reject(127.0.0.0/8)'', ''    - reject(100.64.0.0/10)'', ''    - reject(all, tcp/23)'', ''    - reject(all, tcp/25)'',
      ''    - reject(all, udp/25)'', ''    - reject(all, tcp/135)'', ''    - reject(all, tcp/139)'', ''    - reject(all, tcp/445)'',
      ''    - reject(all, udp/137)'', ''    - reject(all, udp/138)'']"

definition hy2_user_line :: "ss_client \<Rightarrow> string" where
  "hy2_user_line u = ''    '' @ quoted (before_at (sc_email u)) @ '': '' @ quoted (sc_password u)"

definition hy2_socks :: "hy2_opts \<Rightarrow> string list" where
  "hy2_socks p =
     (if \<not> truthy (ho_socks_host p) then []
      else [''outbounds:'', ''  - name: socks5out'', ''    type: socks5'', ''    socks5:'',
            ''      addr: '' @ [CHR 0x22] @ yamlEscape (the (ho_socks_host p)) @ '':'' @
              show_int (if ho_socks_port p = 0 then 1080 else ho_socks_port p) @ [CHR 0x22]] @
           (if truthy (ho_socks_user p)
            then [''      username: '' @ quoted (the (ho_socks_user p)), ''      password: '' @ quoted (or_else (ho_socks_pass p) [])]
            else []) @
           [[]])"

definition hy2_lines :: "string \<Rightarrow> int \<Rightarrow> ss_client list \<Rightarrow> hy2_opts \<Rightarrow> string list" where
  "hy2_lines drawnSecret port users p =
     [''listen: :'' @ show_int port, [], ''tls:'', ''  cert: /etc/hysteria/cert.pem'', ''  key: /etc/hysteria/key.pem'', [], ''auth:'',
      ''  type: userpass'', ''  userpass:''] @
     map hy2_user_line users @ [[]] @
     (if truthy (ho_obfs p)
      then [''obfs:'', ''  type: salamander'', ''  salamander:'', ''    password: '' @ quoted (the (ho_obfs p)), []] else []) @
     [''sniff:'', ''  enable: true'', ''  timeout: 2s'', [], ''acl:'', ''  inline:''] @ hy2_acl @
     [if truthy (ho_socks_host p) then ''    - socks5out(all)'' else ''    - direct(all)'', [], ''masquerade:'', ''  type: proxy'', ''  proxy:'',
      ''    url: https://www.bing.com'', ''    rewriteHost: true'', []] @
     hy2_socks p @
     [''trafficStats:'', ''  listen: 127.0.0.1:7653'',
      ''  secret: '' @ [CHR 0x22] @ (if ho_stats_secret p = [] then drawnSecret else ho_stats_secret p) @ [CHR 0x22], []]"

definition buildHy2Config :: "string \<Rightarrow> int \<Rightarrow> ss_client list \<Rightarrow> hy2_opts \<Rightarrow> string" where
  "buildHy2Config drawnSecret port users p = js_join [CHR 0x0A] (hy2_lines drawnSecret port users p)"

section \<open>The configuration of a node\<close>

text \<open>The partner: the other of vless and ss on the same machine, among the active nodes.\<close>

definition ssh_machine :: "node \<Rightarrow> string" where
  "ssh_machine n = or_else (n_ssh_host n) (n_host n)"

definition findPeerNode :: "(string option \<Rightarrow> string option) \<Rightarrow> node \<Rightarrow> db \<Rightarrow> node option" where
  "findPeerNode dec n d =
     (if n_protocol n = ''hy2'' then None
      else let target = (if n_protocol n = ''vless'' then ''ss'' else ''vless'')
           in find (\<lambda>m. n_id m \<noteq> n_id n \<and> ssh_machine m = ssh_machine n \<and> n_protocol m = target) (getAllNodes dec True d))"

definition vless_clients :: "int \<Rightarrow> db \<Rightarrow> vless_client list" where
  "vless_clients nid d =
     map (\<lambda>(r, name). \<lparr>vc_id = uu_uuid r, vc_email = makeEmail (uu_user r) ''vless'', vc_flow = False\<rparr>) (getNodeAllUserUuids nid d)"

definition ss_clients :: "string \<Rightarrow> int \<Rightarrow> db \<Rightarrow> ss_client list" where
  "ss_clients protocol nid d =
     map (\<lambda>(r, name). \<lparr>sc_password = uu_uuid r, sc_email = makeEmail (uu_user r) protocol\<rparr>) (getNodeAllUserUuids nid d)"

definition outbounds_of :: "node \<Rightarrow> outbound list" where
  "outbounds_of n = buildOutboundsBySocks (n_socks5_host n) (n_socks5_port n) (n_socks5_user n) (n_socks5_pass n)"

definition reality_of :: "node \<Rightarrow> reality option" where
  "reality_of n =
     (if truthy (n_reality_private_key n)
      then Some \<lparr>rl_private = the (n_reality_private_key n), rl_sni = or_else (n_sni n) ''www.microsoft.com'', rl_short = n_reality_short_id n\<rparr>
      else None)"

definition ss_method_of :: "node \<Rightarrow> string" where
  "ss_method_of n = or_else (n_ss_method n) ''aes-256-gcm''"

datatype pushed = XrayPush xray_config | Hy2Push string

definition hy2_opts_of :: "string \<Rightarrow> node \<Rightarrow> hy2_opts" where
  "hy2_opts_of secret n =
     \<lparr>ho_stats_secret = secret, ho_obfs = n_hy2_obfs n, ho_socks_host = n_socks5_host n, ho_socks_port = n_socks5_port n,
      ho_socks_user = n_socks5_user n, ho_socks_pass = n_socks5_pass n\<rparr>"

text \<open>
  \<open>syncNodeConfig\<close>: what is pushed for a node, and the database with the secret of the statistics
  when one had to be drawn.
\<close>

definition ss_push :: "(string option \<Rightarrow> string option) \<Rightarrow> node \<Rightarrow> db \<Rightarrow> xray_config" where
  "ss_push dec n d =
     (let clients = ss_clients ''ss'' (n_id n) d
      in case findPeerNode dec n d of
           Some p \<Rightarrow>
             if vless_clients (n_id p) d \<noteq> []
             then buildDualXrayConfig (n_port p) (n_port n) (vless_clients (n_id p) d) clients (ss_method_of n) (outbounds_of p) (reality_of p)
             else buildSsXrayConfig (n_port n) clients (ss_method_of n) (outbounds_of n)
         | None \<Rightarrow> buildSsXrayConfig (n_port n) clients (ss_method_of n) (outbounds_of n))"

definition vless_push :: "(string option \<Rightarrow> string option) \<Rightarrow> node \<Rightarrow> db \<Rightarrow> xray_config" where
  "vless_push dec n d =
     (let clients = vless_clients (n_id n) d
      in case findPeerNode dec n d of
           Some p \<Rightarrow>
             if ss_clients ''ss'' (n_id p) d \<noteq> []
             then buildDualXrayConfig (n_port n) (n_port p) clients (ss_clients ''ss'' (n_id p) d) (ss_method_of p) (outbounds_of n) (reality_of n)
             else buildXrayConfig (n_port n) clients (outbounds_of n) (reality_of n)
         | None \<Rightarrow> buildXrayConfig (n_port n) clients (outbounds_of n) (reality_of n))"

definition syncNodeConfig ::
  "(string option \<Rightarrow> string option) \<Rightarrow> (string option \<Rightarrow> string option) \<Rightarrow> string \<Rightarrow> node \<Rightarrow> db \<Rightarrow> pushed \<times> db" where
  "syncNodeConfig enc dec drawn n d =
     (if n_protocol n = ''hy2'' then
        (let secret = or_else (n_hy2_stats_secret n) drawn;
             d1 = (if truthy (n_hy2_stats_secret n) then d
                   else d\<lparr>d_nodes := update_where (\<lambda>m. n_id m = n_id n) (\<lambda>m. m\<lparr>n_hy2_stats_secret := sealed enc (Some drawn)\<rparr>) (d_nodes d)\<rparr>);
             port = (case n_hy2_port n of None \<Rightarrow> n_port n | Some p \<Rightarrow> if p = 0 then n_port n else p)
         in (Hy2Push (buildHy2Config drawn port (ss_clients ''hy2'' (n_id n) d) (hy2_opts_of secret n)), d1))
      else if n_protocol n = ''ss'' then (XrayPush (ss_push dec n d), d)
      else (XrayPush (vless_push dec n d), d))"

end
