(* ===== verification/Deploy.thy ===== *)
theory Deploy
  imports XrayConfig CalendarProps
begin

text \<open>
  Names of new nodes and the pushes (\<open>src/services/deploy.js\<close>): a free name, inserting one or two
  nodes under it, pushing a configuration by the agent or over SSH, and the synchronisation of all
  nodes with its delay.

  A draw of \<open>Math.random\<close> is a rational in \<open>[0, 1)\<close>.
\<close>

section \<open>Names\<close>

definition drawn_of :: "rat \<Rightarrow> string list \<Rightarrow> string" where
  "drawn_of r xs = xs ! nat \<lfloor>r * of_nat (length xs)\<rfloor>"

definition numbered :: "string \<Rightarrow> nat \<Rightarrow> string" where
  "numbered base k = base @ '' ('' @ show_nat k @ '')''"

lemma show_nat_inj: "show_nat i = show_nat j \<Longrightarrow> i = j"
  by (metis show_nat_value of_nat_eq_iff)

lemma numbered_inj: "inj (numbered base)"
  by (auto simp: inj_def numbered_def dest: show_nat_inj)

lemma finite_taken: "finite {j. k \<le> j \<and> numbered base j \<in> set taken}"
proof (rule finite_subset)
  show "{j. k \<le> j \<and> numbered base j \<in> set taken} \<subseteq> numbered base -` set taken" by auto
  show "finite (numbered base -` set taken)" by (rule finite_vimageI [OF finite_set numbered_inj])
qed

text \<open>The loop over the numbers ends: each taken number is one of finitely many names.\<close>

function free_number :: "string \<Rightarrow> string list \<Rightarrow> nat \<Rightarrow> nat" where
  "free_number base taken k = (if numbered base k \<in> set taken then free_number base taken (k + 1) else k)"
  by pat_completeness auto

termination free_number
proof (relation "measure (\<lambda>(base, taken, k). card {j. k \<le> j \<and> numbered base j \<in> set taken})")
  fix base taken k
  assume t: "numbered base k \<in> set taken"
  have "{j. k + 1 \<le> j \<and> numbered base j \<in> set taken} \<subset> {j. k \<le> j \<and> numbered base j \<in> set taken}"
  proof (rule psubsetI)
    show "{j. k + 1 \<le> j \<and> numbered base j \<in> set taken} \<subseteq> {j. k \<le> j \<and> numbered base j \<in> set taken}" by auto
    have "k \<in> {j. k \<le> j \<and> numbered base j \<in> set taken}" "k \<notin> {j. k + 1 \<le> j \<and> numbered base j \<in> set taken}" using t by simp_all
    then show "{j. k + 1 \<le> j \<and> numbered base j \<in> set taken} \<noteq> {j. k \<le> j \<and> numbered base j \<in> set taken}" by blast
  qed
  then show "((base, taken, k + 1), base, taken, k) \<in> measure (\<lambda>(base, taken, k). card {j. k \<le> j \<and> numbered base j \<in> set taken})"
    using psubset_card_mono [OF finite_taken] by simp
qed simp

declare free_number.simps [simp del]

lemma free_number_free: "numbered base (free_number base taken k) \<notin> set taken"
  by (induction base taken k rule: free_number.induct) (subst free_number.simps, simp)

definition generateNodeName :: "geo \<Rightarrow> string list \<Rightarrow> rat \<Rightarrow> string" where
  "generateNodeName g names r =
     (let prefix = ge_emoji g @ '' '' @ ge_city_cn g;
          taken = filter (\<lambda>n. n \<noteq> []) (map js_trim names);
          available = filter (\<lambda>w. prefix @ ''-'' @ w \<notin> set taken) BEAUTIFUL_NAMES
      in if available \<noteq> [] then prefix @ ''-'' @ drawn_of r available
         else let base = prefix @ ''-'' @ drawn_of r BEAUTIFUL_NAMES in numbered base (free_number base taken 2))"

text \<open>
  At most eight attempts, each with its own draw; only a taken name leads to another attempt.
  \<open>None\<close>: every attempt met a taken name and the error is raised.
\<close>

type_synonym cipher = "string option \<Rightarrow> string option"

fun insert_named :: "cipher \<Rightarrow> cipher \<Rightarrow> string \<Rightarrow> int \<Rightarrow> (string \<Rightarrow> new_node) \<Rightarrow> geo \<Rightarrow> rat list \<Rightarrow> db \<Rightarrow> (string \<times> db) option" where
  "insert_named enc dec token i mk g [] d = None"
| "insert_named enc dec token i mk g (r # rs) d =
     (let name = generateNodeName g (map n_name (getAllNodes dec False d)) r
      in case addNode enc token i (mk name) d of
           Some d' \<Rightarrow> Some (name, d')
         | None \<Rightarrow> insert_named enc dec token i mk g rs d)"

definition insertNodeWithGeneratedName ::
  "cipher \<Rightarrow> cipher \<Rightarrow> string \<Rightarrow> int \<Rightarrow> (string \<Rightarrow> new_node) \<Rightarrow> geo \<Rightarrow> rat list \<Rightarrow> db \<Rightarrow> (string \<times> db) option" where
  "insertNodeWithGeneratedName enc dec token i mk g draws d = insert_named enc dec token i mk g (take 8 draws) d"

text \<open>Two nodes in one transaction: when the second name is taken the first node is not inserted either.\<close>

definition ss_name :: "string \<Rightarrow> string" where
  "ss_name vlessName = vlessName @ utf [0x2076]"

fun insert_pair ::
  "cipher \<Rightarrow> cipher \<Rightarrow> string \<times> string \<Rightarrow> int \<times> int \<Rightarrow> (string \<Rightarrow> new_node) \<Rightarrow> (string \<Rightarrow> new_node) \<Rightarrow> geo \<Rightarrow> rat list \<Rightarrow> db \<Rightarrow> (string \<times> db) option"
where
  "insert_pair enc dec tokens ids mkv mks g [] d = None"
| "insert_pair enc dec tokens ids mkv mks g (r # rs) d =
     (let name = generateNodeName g (map n_name (getAllNodes dec False d)) r
      in case (case addNode enc (fst tokens) (fst ids) (mkv name) d of
                 None \<Rightarrow> None | Some d1 \<Rightarrow> addNode enc (snd tokens) (snd ids) (mks (ss_name name)) d1) of
           Some d' \<Rightarrow> Some (name, d')
         | None \<Rightarrow> insert_pair enc dec tokens ids mkv mks g rs d)"

definition insertDualNodesWithGeneratedName ::
  "cipher \<Rightarrow> cipher \<Rightarrow> string \<times> string \<Rightarrow> int \<times> int \<Rightarrow> (string \<Rightarrow> new_node) \<Rightarrow> (string \<Rightarrow> new_node) \<Rightarrow> geo \<Rightarrow> rat list \<Rightarrow> db \<Rightarrow> (string \<times> db) option"
where
  "insertDualNodesWithGeneratedName enc dec tokens ids mkv mks g draws d = insert_pair enc dec tokens ids mkv mks g (take 8 draws) d"

section \<open>Connecting\<close>

datatype ssh_auth = KeyFile string | SshPassword string | NoSshAuth

text \<open>Host, port, user and how to authenticate.\<close>

definition buildSshConnectOpts ::
  "string option \<Rightarrow> string \<Rightarrow> int \<Rightarrow> string \<Rightarrow> string option \<Rightarrow> string option \<Rightarrow> string \<times> int \<times> string \<times> ssh_auth" where
  "buildSshConnectOpts ssh_host host port user key_path password =
     (or_else ssh_host host, if port = 0 then 22 else port, if user = [] then ''root'' else user,
      if truthy key_path then KeyFile (the key_path) else if truthy password then SshPassword (the password) else NoSshAuth)"

section \<open>Pushing\<close>

text \<open>
  What the outside does with a push: whether an agent is connected and what its command answers
  (\<open>None\<close> when it raises), and over SSH the output after the restart (\<open>None\<close> when anything raises).
\<close>

record route_to =
  rt_online :: bool
  rt_agent :: "bool option"
  rt_ssh :: "string option"

datatype carried = ByAgent | BySsh string

definition over_ssh :: "string \<Rightarrow> route_to \<Rightarrow> bool \<times> carried list" where
  "over_ssh path o' = (case rt_ssh o' of None \<Rightarrow> False | Some out \<Rightarrow> js_trim out = ''OK'', [BySsh path])"

definition push_to :: "string \<Rightarrow> route_to \<Rightarrow> bool \<times> carried list" where
  "push_to path o' =
     (if rt_online o'
      then if rt_agent o' = Some True then (True, [ByAgent])
           else (let (ok, cs) = over_ssh path o' in (ok, ByAgent # cs))
      else over_ssh path o')"

definition pushConfigToNode :: "node \<Rightarrow> route_to \<Rightarrow> bool \<times> carried list" where
  "pushConfigToNode n = push_to (or_else (n_xray_config_path n) ''/usr/local/etc/xray/config.json'')"

definition pushHy2ConfigToNode :: "node \<Rightarrow> route_to \<Rightarrow> bool \<times> carried list" where
  "pushHy2ConfigToNode n = push_to ''/etc/hysteria/config.yaml''"

definition push_config :: "node \<Rightarrow> pushed \<Rightarrow> route_to \<Rightarrow> bool \<times> carried list" where
  "push_config n p = (case p of XrayPush c \<Rightarrow> pushConfigToNode n | Hy2Push t \<Rightarrow> pushHy2ConfigToNode n)"

text \<open>
  All active nodes, five at a time; a node that raises counts as failed (\<open>None\<close>). The configurations
  come from the database as it is when the turn of the node comes; other requests may change it
  between two batches (\<open>during\<close>).
\<close>

definition sync_one ::
  "cipher \<Rightarrow> cipher \<Rightarrow> (int \<Rightarrow> string) \<Rightarrow> (int \<Rightarrow> route_to option) \<Rightarrow> node \<Rightarrow> db \<times> (int \<times> pushed) list \<times> bool list \<Rightarrow>
   db \<times> (int \<times> pushed) list \<times> bool list" where
  "sync_one enc dec draw to n acc =
     (case acc of (d, ps, oks) \<Rightarrow>
        let (p, d') = syncNodeConfig enc dec (draw (n_id n)) n d
        in (d', ps @ [(n_id n, p)], oks @ [case to (n_id n) of None \<Rightarrow> False | Some o' \<Rightarrow> fst (push_config n p o')]))"

fun sync_batches ::
  "cipher \<Rightarrow> cipher \<Rightarrow> (int \<Rightarrow> string) \<Rightarrow> (int \<Rightarrow> route_to option) \<Rightarrow> (db \<Rightarrow> db) \<Rightarrow> node list list \<Rightarrow>
   db \<times> (int \<times> pushed) list \<times> bool list \<Rightarrow> db \<times> (int \<times> pushed) list \<times> bool list" where
  "sync_batches enc dec draw to during [] acc = acc"
| "sync_batches enc dec draw to during (b # bs) acc =
     (case fold (sync_one enc dec draw to) b acc of (d, ps, oks) \<Rightarrow> sync_batches enc dec draw to during bs (during d, ps, oks))"

function chunks :: "nat \<Rightarrow> 'a list \<Rightarrow> 'a list list" where
  "chunks k xs = (if xs = [] \<or> k = 0 then [] else take k xs # chunks k (drop k xs))"
  by pat_completeness auto

termination chunks
  by (relation "measure (\<lambda>(k, xs). length xs)") auto

declare chunks.simps [simp del]

definition syncAllNodesConfigImpl ::
  "cipher \<Rightarrow> cipher \<Rightarrow> (int \<Rightarrow> string) \<Rightarrow> (int \<Rightarrow> route_to option) \<Rightarrow> (db \<Rightarrow> db) \<Rightarrow> int \<Rightarrow> db \<Rightarrow>
   (nat \<times> nat) \<times> (int \<times> pushed) list \<times> db" where
  "syncAllNodesConfigImpl enc dec draw to during now d =
     (case sync_batches enc dec draw to during (chunks 5 (getAllNodes dec True d)) (d, [], []) of
        (d1, ps, oks) \<Rightarrow>
          let success = length (filter id oks); failures = length (filter Not oks)
          in ((success, failures), ps,
              if 0 < failures then addAuditLog now None ''config_sync'' [show_nat success, show_nat failures] ''system'' d1 else d1))"

text \<open>The delay: each call starts the three seconds again; all waiting calls get the result of one synchronisation.\<close>

record debounce =
  db_due :: "int option"
  db_waiting :: "nat list"

definition syncAllNodesConfigDebounced :: "nat \<Rightarrow> int \<Rightarrow> debounce \<Rightarrow> debounce" where
  "syncAllNodesConfigDebounced caller now s = s\<lparr>db_due := Some (now + 3000), db_waiting := db_waiting s @ [caller]\<rparr>"

definition debounce_timer :: "debounce \<Rightarrow> nat list \<times> debounce" where
  "debounce_timer s = (db_waiting s, s\<lparr>db_due := None, db_waiting := []\<rparr>)"

end
