(* ===== verification/DeployRun.thy ===== *)
theory DeployRun
  imports Deploy
begin

text \<open>
  The deployment of a node over SSH (\<open>src/services/deploy.js\<close>): inserting the row, installing the
  proxy, writing its configuration, starting it and installing the agent, for the four kinds of nodes.

  What the machine answers to each command is a parameter; every one of them may raise, with a message.
  A deployment is a run on the database and what it has written on the machine; an error keeps the
  changes made before it. The texts of remarks and errors are shortened; of an audit text the model keeps
  the name and what the deployment knows of address and ports.
\<close>

section \<open>Runs\<close>

record deployment =
  dy_db :: db
  dy_written :: "pushed list"
  dy_agents :: "(string \<times> string \<times> int \<times> bool) list"

type_synonym 'a run = "deployment \<Rightarrow> (string + 'a) \<times> deployment"

definition and_next :: "'a run \<Rightarrow> ('a \<Rightarrow> 'b run) \<Rightarrow> 'b run" where
  "and_next m k s = (case m s of (Inl e, s') \<Rightarrow> (Inl e, s') | (Inr x, s') \<Rightarrow> k x s')"

definition answer_of :: "string + 'a \<Rightarrow> 'a run" where
  "answer_of r s = (r, s)"

definition raising :: "string \<Rightarrow> 'a run" where
  "raising e s = (Inl e, s)"

definition change_db :: "(db \<Rightarrow> db) \<Rightarrow> unit run" where
  "change_db f s = (Inr (), s\<lparr>dy_db := f (dy_db s)\<rparr>)"

definition from_db :: "(db \<Rightarrow> 'a) \<Rightarrow> 'a run" where
  "from_db f s = (Inr (f (dy_db s)), s)"

definition writing :: "pushed \<Rightarrow> string + unit \<Rightarrow> unit run" where
  "writing p r s = (case r of Inl e \<Rightarrow> (Inl e, s) | Inr _ \<Rightarrow> (Inr (), s\<lparr>dy_written := dy_written s @ [p]\<rparr>))"

section \<open>Answers of the machine\<close>

record install_result =
  ir_code :: "int option"
  ir_stdout :: string
  ir_stderr :: string

text \<open>Connecting also stands for the kernel setting that follows; the file is written after its directory is made.\<close>

record machine =
  mc_connect :: "string \<times> int \<times> string \<times> ssh_auth \<Rightarrow> string + unit"
  mc_ipv6 :: "string + string"
  mc_install :: "string + install_result"
  mc_keys :: "string + string"
  mc_write :: "string + unit"
  mc_firewall :: "string + unit"
  mc_start :: "string + string \<times> string"
  mc_agent :: bool

text \<open>Runs of white space become one blank.\<close>

fun squeeze :: "string \<Rightarrow> string" where
  "squeeze [] = []"
| "squeeze (c # s) =
     (if js_space c then (case s of [] \<Rightarrow> '' '' | x # t \<Rightarrow> if js_space x then squeeze s else CHR '' '' # squeeze s) else c # squeeze s)"

definition install_detail :: "install_result \<Rightarrow> string" where
  "install_detail r =
     (let merged = squeeze (js_trim (ir_stderr r @ [CHR 0x0A] @ ir_stdout r))
      in if merged = [] then ''no output'' else drop (length merged - 400) merged)"

definition formatInstallError :: "string \<Rightarrow> install_result \<Rightarrow> string" where
  "formatInstallError what r =
     what @ '' install failed(code='' @ (case ir_code r of None \<Rightarrow> ''unknown'' | Some c \<Rightarrow> show_int c) @ ''): '' @ install_detail r"

definition assertInstallOk :: "install_result \<Rightarrow> unit run" where
  "assertInstallOk r =
     (if ir_code r \<noteq> Some 0 \<or> \<not> js_includes ''INSTALL_OK'' (ir_stdout r) then raising (formatInstallError ''xray'' r)
      else answer_of (Inr ()))"

definition assert_hy2_install :: "install_result \<Rightarrow> unit run" where
  "assert_hy2_install r =
     (if \<not> js_includes ''HY2_INSTALL_OK'' (ir_stdout r) then raising (formatInstallError ''hysteria'' r) else answer_of (Inr ()))"

text \<open>The keys in the output of \<open>xray x25519\<close>.\<close>

fun search :: "(string \<Rightarrow> 'a option) \<Rightarrow> string \<Rightarrow> 'a option" where
  "search f [] = f []"
| "search f (c # s) = (case f (c # s) of Some x \<Rightarrow> Some x | None \<Rightarrow> search f s)"

definition starts_with :: "string \<Rightarrow> string \<Rightarrow> string option" where
  "starts_with p s = (if js_starts p s then Some (drop (length p) s) else None)"

definition key_after :: "string \<Rightarrow> string option" where
  "key_after s = (let k = takeWhile (\<lambda>c. \<not> js_space c) (js_trim_start s) in if k = [] then None else Some k)"

definition key_label :: "string \<Rightarrow> string \<Rightarrow> string option" where
  "key_label word s =
     (case starts_with word s of
        None \<Rightarrow> None
      | Some r \<Rightarrow> (let t = js_trim_start r in if js_starts ''Key:'' t \<or> js_starts ''key:'' t then key_after (drop 4 t) else None))"

definition password_label :: "string \<Rightarrow> string option" where
  "password_label s =
     (case starts_with ''Password'' s of
        None \<Rightarrow> None
      | Some r \<Rightarrow>
          (let t = js_trim_start r;
               u = (if js_starts ''('' t
                    then (case dropWhile (\<lambda>c. c \<noteq> CHR '')'') (tl t) of [] \<Rightarrow> [] | _ # v \<Rightarrow> v) else t)
           in if js_starts '':'' u then key_after (tl u) else None))"

definition read_keys :: "string \<Rightarrow> (string \<times> string) option" where
  "read_keys out =
     (case (search (key_label ''Private'') out, case search (key_label ''Public'') out of Some k \<Rightarrow> Some k | None \<Rightarrow> search password_label out) of
        (Some priv, Some pub) \<Rightarrow> Some (priv, pub)
      | _ \<Rightarrow> None)"

section \<open>The request\<close>

record deploy_info =
  di_host :: string
  di_ssh_host :: "string option"
  di_port :: int
  di_user :: string
  di_password :: "string option"
  di_key_path :: "string option"
  di_socks_host :: string
  di_socks_port :: string
  di_socks_user :: string
  di_socks_pass :: "string option"
  di_ss_method :: string
  di_hy2_obfs :: string
  di_hy2_up :: string
  di_hy2_down :: string
  di_by :: "int option"

definition int_text_or :: "int \<Rightarrow> string \<Rightarrow> int" where
  "int_text_or dflt s = (case js_parse_int s of None \<Rightarrow> dflt | Some i \<Rightarrow> if i = 0 then dflt else i)"

text \<open>What is drawn for a deployment (\<open>de_uuid\<close> is also the drawn default password of Hysteria), the ciphers, settings of the environment and the answers about the place.\<close>

record deploy_env =
  de_enc :: cipher
  de_dec :: cipher
  de_tokens :: "string \<times> string"
  de_ids :: "int \<times> int"
  de_draws :: "rat list"
  de_uuid :: string
  de_ports :: "int \<times> int"
  de_secret :: string
  de_short_id :: string
  de_gen :: "int \<Rightarrow> int \<Rightarrow> string"
  de_detect :: "string \<Rightarrow> geo"
  de_ws_url :: string
  de_now :: int

definition NO_UUID :: string where "NO_UUID = ''00000000-0000-0000-0000-000000000000''"
definition REMARK_DEPLOYING :: string where "REMARK_DEPLOYING = ''deploying...''"
definition REMARK_HOME :: string where "REMARK_HOME = ''home landing''"

definition base_node :: "deploy_info \<Rightarrow> geo \<Rightarrow> int \<Rightarrow> string \<Rightarrow> new_node" where
  "base_node i g port name =
     \<lparr>nn_name = name, nn_host = di_host i, nn_port = port, nn_uuid = NO_UUID, nn_protocol = [], nn_network = [], nn_security = [],
      nn_ssh_host = Some (di_host i), nn_ssh_port = int_or (di_port i) 22, nn_ssh_user = text_or (di_user i) ''root'',
      nn_ssh_password = di_password i, nn_ssh_key_path = di_key_path i, nn_xray_config_path = [], nn_socks5_host = di_socks_host i,
      nn_socks5_port = int_text_or 1080 (di_socks_port i), nn_socks5_user = di_socks_user i, nn_socks5_pass = di_socks_pass i,
      nn_is_active = Some False, nn_region = ge_emoji g @ '' '' @ ge_city_cn g, nn_remark = REMARK_DEPLOYING, nn_is_manual = False,
      nn_fail_count = 0, nn_agent_token = [], nn_ip_version = 0, nn_ss_method = [], nn_ss_password = None, nn_hy2_port = 0,
      nn_hy2_obfs = [], nn_hy2_sni = [], nn_hy2_up = 0, nn_hy2_down = 0, nn_hy2_stats_secret = None\<rparr>"

definition place_of :: "deploy_env \<Rightarrow> deploy_info \<Rightarrow> geo" where
  "place_of e i = fst (resolveDeployGeo (de_detect e) (di_host i) (di_socks_host i))"

definition ss_method_for :: "deploy_info \<Rightarrow> string" where
  "ss_method_for i = text_or (di_ss_method i) ''aes-256-gcm''"

section \<open>Steps\<close>

definition connecting :: "machine \<Rightarrow> deploy_info \<Rightarrow> unit run" where
  "connecting m i =
     answer_of (mc_connect m (buildSshConnectOpts (di_ssh_host i) (di_host i) (di_port i) (di_user i) (di_key_path i) (di_password i)))"

definition set_node :: "int \<Rightarrow> (node \<Rightarrow> node) \<Rightarrow> db \<Rightarrow> db" where
  "set_node i f d = d\<lparr>d_nodes := update_where (\<lambda>n. n_id n = i) f (d_nodes d)\<rparr>"

text \<open>The address of the second protocol of the machine.\<close>

definition finding_ipv6 :: "machine \<Rightarrow> int \<Rightarrow> unit run" where
  "finding_ipv6 m nid =
     and_next (answer_of (mc_ipv6 m)) (\<lambda>out.
       if js_trim out = [] then raising ''no IPv6 address'' else change_db (set_node nid (\<lambda>n. n\<lparr>n_host := js_trim out\<rparr>)))"

definition making_keys :: "deploy_env \<Rightarrow> machine \<Rightarrow> int \<Rightarrow> reality option run" where
  "making_keys e m nid =
     and_next (from_db (\<lambda>d. getSetting d ''deploy_use_reality'')) (\<lambda>use.
       if use = Some ''0'' then answer_of (Inr None)
       else and_next (answer_of (mc_keys m)) (\<lambda>out.
         case read_keys out of
           None \<Rightarrow> raising ''no Reality keys''
         | Some (priv, pub) \<Rightarrow>
             and_next
               (change_db (set_node nid (\<lambda>n. n\<lparr>n_reality_private_key := sealed (de_enc e) (Some priv), n_reality_public_key := Some pub,
                  n_reality_short_id := Some (de_short_id e), n_sni := Some ''www.microsoft.com''\<rparr>)))
               (\<lambda>_. answer_of (Inr (Some \<lparr>rl_private = priv, rl_sni = ''www.microsoft.com'', rl_short = Some (de_short_id e)\<rparr>)))))"

text \<open>Without an entitled account a default client is let in.\<close>

definition vless_or_default :: "string \<Rightarrow> int \<Rightarrow> db \<Rightarrow> vless_client list" where
  "vless_or_default uuid nid d =
     (case vless_clients nid d of [] \<Rightarrow> [\<lparr>vc_id = uuid, vc_email = ''default@panel'', vc_flow = False\<rparr>] | cs \<Rightarrow> cs)"

definition ss_or_default :: "string \<Rightarrow> string \<Rightarrow> int \<Rightarrow> db \<Rightarrow> ss_client list" where
  "ss_or_default protocol secret nid d =
     (case ss_clients protocol nid d of [] \<Rightarrow> [\<lparr>sc_password = secret, sc_email = ''default@panel''\<rparr>] | cs \<Rightarrow> cs)"

definition request_outbounds :: "deploy_info \<Rightarrow> outbound list" where
  "request_outbounds i =
     buildOutboundsBySocks (Some (di_socks_host i)) (int_text_or 1080 (di_socks_port i)) (Some (di_socks_user i)) (di_socks_pass i)"

definition installing :: "machine \<Rightarrow> (install_result \<Rightarrow> unit run) \<Rightarrow> unit run" where
  "installing m check = and_next (answer_of (mc_install m)) check"

text \<open>The file of the agent's configuration: server, token, node, and whether IPv6 is watched.\<close>

definition installAgentOnNode :: "deploy_env \<Rightarrow> machine \<Rightarrow> int \<Rightarrow> deployment \<Rightarrow> deployment" where
  "installAgentOnNode e m nid s =
     (case getNodeById (de_dec e) nid (dy_db s) of
        None \<Rightarrow> s
      | Some n \<Rightarrow>
          if \<not> truthy (n_agent_token n) \<or> de_ws_url e = [] \<or> \<not> mc_agent m then s
          else s\<lparr>dy_agents := dy_agents s @
                   [(de_ws_url e, the (n_agent_token n), nid, n_protocol n = ''ss'' \<or> findPeerNode (de_dec e) n (dy_db s) \<noteq> None)]\<rparr>)"

text \<open>The end: the nodes go into service only when the machine says so; the audit log and the notice in every case.\<close>

definition note_deploy :: "deploy_env \<Rightarrow> deploy_info \<Rightarrow> string \<Rightarrow> string list \<Rightarrow> string \<Rightarrow> string list \<Rightarrow> db \<Rightarrow> db" where
  "note_deploy e i action args name notice d =
     add_effect (Notify ''deploy'' (name # notice)) (addAuditLog (de_now e) (di_by i) action args ''system'' d)"

definition all_nodes :: "int list \<Rightarrow> (node \<Rightarrow> node) \<Rightarrow> db \<Rightarrow> db" where
  "all_nodes ids f d = fold (\<lambda>i. set_node i f) ids d"

definition deploy_failed :: "deploy_env \<Rightarrow> deploy_info \<Rightarrow> string \<Rightarrow> int list \<Rightarrow> string \<Rightarrow> string \<Rightarrow> deployment \<Rightarrow> deployment" where
  "deploy_failed e i action ids name msg s =
     s\<lparr>dy_db := note_deploy e i (action @ ''_fail'') [name, msg] name [''failed'', msg]
        (all_nodes ids (\<lambda>n. n\<lparr>n_remark := ''failed: '' @ msg\<rparr>) (dy_db s))\<rparr>"

definition deploy_started :: "deploy_env \<Rightarrow> machine \<Rightarrow> deploy_info \<Rightarrow> string \<Rightarrow> int list \<Rightarrow> string \<Rightarrow> string list \<Rightarrow> deployment \<Rightarrow> deployment" where
  "deploy_started e m i action ids name args s =
     installAgentOnNode e m (hd ids)
       (s\<lparr>dy_db := note_deploy e i action (name # args) name (''done'' # args)
          (all_nodes ids (\<lambda>n. n\<lparr>n_is_active := True, n_remark := (if di_socks_host i = [] then [] else REMARK_HOME)\<rparr>) (dy_db s))\<rparr>)"

definition finish_deploy ::
  "deploy_env \<Rightarrow> machine \<Rightarrow> deploy_info \<Rightarrow> string \<Rightarrow> int list \<Rightarrow> string \<Rightarrow> string list \<Rightarrow> (string + string \<times> string) \<times> deployment \<Rightarrow> deployment" where
  "finish_deploy e m i action ids name args r =
     (case r of
        (Inl msg, s) \<Rightarrow> deploy_failed e i action ids name msg s
      | (Inr (out, err), s) \<Rightarrow>
          if js_includes ''DEPLOY_OK'' out then deploy_started e m i action ids name args s
          else deploy_failed e i action ids name (take 200 (if err = [] then out else err)) s)"

definition write_and_start :: "machine \<Rightarrow> pushed \<Rightarrow> (string \<times> string) run" where
  "write_and_start m p =
     and_next (writing p (mc_write m)) (\<lambda>_. and_next (answer_of (mc_firewall m)) (\<lambda>_. answer_of (mc_start m)))"

section \<open>The four kinds\<close>

text \<open>\<open>None\<close>: no free name was found, the error goes to the caller and nothing has changed.\<close>

definition start_of :: "db \<Rightarrow> deployment" where
  "start_of d = \<lparr>dy_db = d, dy_written = [], dy_agents = []\<rparr>"

definition vless_node :: "deploy_env \<Rightarrow> deploy_info \<Rightarrow> string \<Rightarrow> new_node" where
  "vless_node e i name = (base_node i (place_of e i) (fst (de_ports e)) name)\<lparr>nn_uuid := de_uuid e\<rparr>"

definition vless_steps :: "deploy_env \<Rightarrow> machine \<Rightarrow> deploy_info \<Rightarrow> int \<Rightarrow> (string \<times> string) run" where
  "vless_steps e m i nid =
     and_next (connecting m i) (\<lambda>_.
     and_next (installing m assertInstallOk) (\<lambda>_.
     and_next (making_keys e m nid) (\<lambda>r.
     and_next (from_db (vless_or_default (de_uuid e) nid)) (\<lambda>clients.
     write_and_start m (XrayPush (buildXrayConfig (fst (de_ports e)) clients (request_outbounds i) r))))))"

definition deployNode :: "deploy_env \<Rightarrow> machine \<Rightarrow> deploy_info \<Rightarrow> db \<Rightarrow> deployment option" where
  "deployNode e m i d =
     (let nid = fst (de_ids e)
      in case insertNodeWithGeneratedName (de_enc e) (de_dec e) (fst (de_tokens e)) nid (vless_node e i) (place_of e i) (de_draws e) d of
           None \<Rightarrow> None
         | Some (name, d1) \<Rightarrow>
             Some (finish_deploy e m i ''node_deploy'' [nid] name [di_host i, show_int (fst (de_ports e))]
               (vless_steps e m i nid (start_of (ensureAllUsersHaveUuid (de_gen e nid) nid d1)))))"

definition ss_node :: "deploy_env \<Rightarrow> deploy_info \<Rightarrow> int \<Rightarrow> string \<Rightarrow> new_node" where
  "ss_node e i port name =
     (base_node i (place_of e i) port name)\<lparr>nn_protocol := ''ss'', nn_ip_version := 6, nn_ss_method := ss_method_for i,
        nn_ss_password := Some (de_secret e)\<rparr>"

definition ss_steps :: "deploy_env \<Rightarrow> machine \<Rightarrow> deploy_info \<Rightarrow> int \<Rightarrow> (string \<times> string) run" where
  "ss_steps e m i nid =
     and_next (connecting m i) (\<lambda>_.
     and_next (finding_ipv6 m nid) (\<lambda>_.
     and_next (installing m assertInstallOk) (\<lambda>_.
     and_next (change_db (ensureAllUsersHaveUuid (de_gen e nid) nid)) (\<lambda>_.
     and_next (from_db (ss_or_default ''ss'' (de_secret e) nid)) (\<lambda>clients.
     write_and_start m (XrayPush (buildSsXrayConfig (fst (de_ports e)) clients (ss_method_for i) (request_outbounds i))))))))"

definition deploySsNode :: "deploy_env \<Rightarrow> machine \<Rightarrow> deploy_info \<Rightarrow> db \<Rightarrow> deployment option" where
  "deploySsNode e m i d =
     (let nid = fst (de_ids e)
      in case insertNodeWithGeneratedName (de_enc e) (de_dec e) (fst (de_tokens e)) nid (ss_node e i (fst (de_ports e))) (place_of e i)
                (de_draws e) d of
           None \<Rightarrow> None
         | Some (name, d1) \<Rightarrow>
             Some (finish_deploy e m i ''node_deploy_ss'' [nid] name [show_int (fst (de_ports e))] (ss_steps e m i nid (start_of d1))))"

definition dual_vless_node :: "deploy_env \<Rightarrow> deploy_info \<Rightarrow> string \<Rightarrow> new_node" where
  "dual_vless_node e i name = (vless_node e i name)\<lparr>nn_protocol := ''vless'', nn_ip_version := 4\<rparr>"

definition dual_steps :: "deploy_env \<Rightarrow> machine \<Rightarrow> deploy_info \<Rightarrow> int \<Rightarrow> int \<Rightarrow> (string \<times> string) run" where
  "dual_steps e m i vid sid =
     and_next (connecting m i) (\<lambda>_.
     and_next (finding_ipv6 m sid) (\<lambda>_.
     and_next (installing m assertInstallOk) (\<lambda>_.
     and_next (making_keys e m vid) (\<lambda>r.
     and_next (from_db (vless_or_default (de_uuid e) vid)) (\<lambda>vclients.
     and_next (from_db (ss_or_default ''ss'' (de_secret e) sid)) (\<lambda>sclients.
     write_and_start m (XrayPush (buildDualXrayConfig (fst (de_ports e)) (snd (de_ports e)) vclients sclients (ss_method_for i)
       (request_outbounds i) r))))))))"

definition deployDualNode :: "deploy_env \<Rightarrow> machine \<Rightarrow> deploy_info \<Rightarrow> db \<Rightarrow> deployment option" where
  "deployDualNode e m i d =
     (let (vid, sid) = de_ids e
      in case insertDualNodesWithGeneratedName (de_enc e) (de_dec e) (de_tokens e) (vid, sid) (dual_vless_node e i)
                (ss_node e i (snd (de_ports e))) (place_of e i) (de_draws e) d of
           None \<Rightarrow> None
         | Some (name, d1) \<Rightarrow>
             let d2 = ensureAllUsersHaveUuid (de_gen e sid) sid (ensureAllUsersHaveUuid (de_gen e vid) vid d1)
             in Some (finish_deploy e m i ''node_deploy_dual'' [vid, sid] name [show_int (fst (de_ports e)), show_int (snd (de_ports e))]
                  (dual_steps e m i vid sid (start_of d2))))"

definition hy2_node :: "deploy_env \<Rightarrow> deploy_info \<Rightarrow> string \<Rightarrow> new_node" where
  "hy2_node e i name =
     (base_node i (place_of e i) (fst (de_ports e)) name)\<lparr>nn_protocol := ''hy2'', nn_ip_version := 4, nn_hy2_port := fst (de_ports e),
        nn_hy2_obfs := di_hy2_obfs i, nn_hy2_sni := ''bing.com'', nn_hy2_up := int_text_or 100 (di_hy2_up i),
        nn_hy2_down := int_text_or 100 (di_hy2_down i), nn_hy2_stats_secret := Some (de_secret e)\<rparr>"

definition hy2_steps :: "deploy_env \<Rightarrow> machine \<Rightarrow> deploy_info \<Rightarrow> int \<Rightarrow> (string \<times> string) run" where
  "hy2_steps e m i nid =
     and_next (connecting m i) (\<lambda>_.
     and_next (installing m assert_hy2_install) (\<lambda>_.
     and_next (from_db (ss_or_default ''hy2'' (de_uuid e) nid)) (\<lambda>users.
     write_and_start m (Hy2Push (buildHy2Config (de_secret e) (fst (de_ports e)) users
       \<lparr>ho_stats_secret = de_secret e, ho_obfs = Some (di_hy2_obfs i), ho_socks_host = Some (di_socks_host i),
        ho_socks_port = int_text_or 1080 (di_socks_port i), ho_socks_user = Some (di_socks_user i), ho_socks_pass = di_socks_pass i\<rparr>)))))"

definition deployHy2Node :: "deploy_env \<Rightarrow> machine \<Rightarrow> deploy_info \<Rightarrow> db \<Rightarrow> deployment option" where
  "deployHy2Node e m i d =
     (let nid = fst (de_ids e)
      in case insertNodeWithGeneratedName (de_enc e) (de_dec e) (fst (de_tokens e)) nid (hy2_node e i) (place_of e i) (de_draws e) d of
           None \<Rightarrow> None
         | Some (name, d1) \<Rightarrow>
             Some (finish_deploy e m i ''node_deploy_hy2'' [nid] name [di_host i, show_int (fst (de_ports e))]
               (hy2_steps e m i nid (start_of (ensureAllUsersHaveUuid (de_gen e nid) nid d1)))))"

end
