(* ===== verification/XrayProps.thy ===== *)
theory XrayProps
  imports XrayConfig NodeStats CalendarProps Samples
begin

text \<open>
  Properties of the pushed configurations: whose credentials are in them, that the two nodes of one
  machine are pushed the same, and that the names of the accounts come back in the reports of the
  node agent.
\<close>

section \<open>Credentials\<close>

text \<open>The rows that count for a node: of accounts that are neither blocked nor frozen and high enough.\<close>

definition entitled_rows :: "int \<Rightarrow> db \<Rightarrow> uuid_row set" where
  "entitled_rows nid d =
     {r \<in> set (d_uuids d). uu_node r = nid \<and>
        (\<exists>u n. user_by_id d (uu_user r) = Some u \<and> \<not> u_is_blocked u \<and> \<not> u_is_frozen u \<and>
           find (\<lambda>n. n_id n = nid) (d_nodes d) = Some n \<and> n_min_level n \<le> u_trust_level u)}"

lemma node_rows_iff:
  "(r, name) \<in> set (getNodeAllUserUuids i d) \<longleftrightarrow>
     r \<in> set (d_uuids d) \<and> uu_node r = i \<and>
     (\<exists>u n. user_by_id d (uu_user r) = Some u \<and> find (\<lambda>n. n_id n = i) (d_nodes d) = Some n \<and>
        \<not> u_is_blocked u \<and> \<not> u_is_frozen u \<and> n_min_level n \<le> u_trust_level u \<and> name = u_username u)"
proof -
  have e: "getNodeAllUserUuids i d = concat (map (\<lambda>x. case (user_by_id d (uu_user x), find (\<lambda>n. n_id n = uu_node x) (d_nodes d)) of
      (Some u, Some n) \<Rightarrow> if uu_node x = i \<and> \<not> u_is_blocked u \<and> \<not> u_is_frozen u \<and> n_min_level n \<le> u_trust_level u then [(x, u_username u)] else []
    | _ \<Rightarrow> []) (d_uuids d))" by (rule getNodeAllUserUuids_def)
  have c: "(r, name) \<in> set (case (user_by_id d (uu_user x), find (\<lambda>n. n_id n = uu_node x) (d_nodes d)) of
      (Some u, Some n) \<Rightarrow> if uu_node x = i \<and> \<not> u_is_blocked u \<and> \<not> u_is_frozen u \<and> n_min_level n \<le> u_trust_level u then [(x, u_username u)] else []
    | _ \<Rightarrow> []) \<longleftrightarrow> x = r \<and> uu_node r = i \<and>
     (\<exists>u n. user_by_id d (uu_user r) = Some u \<and> find (\<lambda>n. n_id n = i) (d_nodes d) = Some n \<and>
        \<not> u_is_blocked u \<and> \<not> u_is_frozen u \<and> n_min_level n \<le> u_trust_level u \<and> name = u_username u)" for x
    by (cases "user_by_id d (uu_user x)"; cases "find (\<lambda>n. n_id n = uu_node x) (d_nodes d)") auto
  show ?thesis unfolding e set_concat set_map by (simp only: UN_iff image_iff bex_simps c) blast
qed

lemma set_entitled: "fst ` set (getNodeAllUserUuids nid d) = entitled_rows nid d"
proof -
  have "x \<in> fst ` set (getNodeAllUserUuids nid d) \<longleftrightarrow> (\<exists>name. (x, name) \<in> set (getNodeAllUserUuids nid d))" for x by force
  then show ?thesis unfolding node_rows_iff entitled_rows_def by blast
qed

lemma set_clients:
  "vc_id ` set (vless_clients nid d) = uu_uuid ` entitled_rows nid d" "sc_password ` set (ss_clients p nid d) = uu_uuid ` entitled_rows nid d"
  "vc_id ` set (with_flow r cs) = vc_id ` set cs"
proof -
  have "vc_id ` set (vless_clients nid d) = uu_uuid ` fst ` set (getNodeAllUserUuids nid d)"
    "sc_password ` set (ss_clients p nid d) = uu_uuid ` fst ` set (getNodeAllUserUuids nid d)"
    by (auto simp: vless_clients_def ss_clients_def image_image split_beta)
  then show "vc_id ` set (vless_clients nid d) = uu_uuid ` entitled_rows nid d"
    "sc_password ` set (ss_clients p nid d) = uu_uuid ` entitled_rows nid d" by (simp_all only: set_entitled)
  show "vc_id ` set (with_flow r cs) = vc_id ` set cs" by (simp add: with_flow_def image_image)
qed

lemma no_clients: "vless_clients nid d = [] \<longleftrightarrow> entitled_rows nid d = {}" "ss_clients p nid d = [] \<longleftrightarrow> entitled_rows nid d = {}"
  using set_entitled [of nid d] by (auto simp: vless_clients_def ss_clients_def)

text \<open>What lets an account in: the ids of vless, the passwords of ss.\<close>

fun vless_ids :: "inbound \<Rightarrow> string set" where
  "vless_ids (VlessIn l p cs r) = vc_id ` set cs"
| "vless_ids (SsIn p cs) = {}"
| "vless_ids ApiIn = {}"

fun ss_passwords :: "inbound \<Rightarrow> string set" where
  "ss_passwords (SsIn p cs) = (\<lambda>x. sc_password (fst x)) ` set cs"
| "ss_passwords (VlessIn l p cs r) = {}"
| "ss_passwords ApiIn = {}"

definition lets_in :: "xray_config \<Rightarrow> string set \<times> string set" where
  "lets_in c = (\<Union> (vless_ids ` set (xf_inbounds c)), \<Union> (ss_passwords ` set (xf_inbounds c)))"

lemma lets_in_simps [simp]:
  "lets_in (buildXrayConfig p vs os r) = (vc_id ` set vs, {})"
  "lets_in (buildSsXrayConfig p cs m os) = ({}, sc_password ` set cs)"
  "lets_in (buildDualXrayConfig p q vs cs m os r) = (vc_id ` set vs, sc_password ` set cs)"
  by (simp_all add: lets_in_def buildXrayConfig_def buildSsXrayConfig_def buildDualXrayConfig_def ss_inbound_def set_clients image_image Let_def)

definition partner_rows :: "(string option \<Rightarrow> string option) \<Rightarrow> node \<Rightarrow> db \<Rightarrow> uuid_row set" where
  "partner_rows dec n d = (case findPeerNode dec n d of None \<Rightarrow> {} | Some p \<Rightarrow> entitled_rows (n_id p) d)"

lemma lets_in_push:
  "lets_in (vless_push dec n d) = (uu_uuid ` entitled_rows (n_id n) d, uu_uuid ` partner_rows dec n d)"
  "lets_in (ss_push dec n d) = (uu_uuid ` partner_rows dec n d, uu_uuid ` entitled_rows (n_id n) d)"
  by (auto simp: vless_push_def ss_push_def partner_rows_def Let_def set_clients no_clients split: option.split)

text \<open>C5: The configuration pushed for a vless node lets in exactly the credentials of the accounts entitled to
  this node, and through the partner on the same machine exactly those entitled to the partner; so an
  account that is blocked, frozen or too low is shut out by the next synchronisation, and every other
  one with a credential is let in. For an ss node it is the same with the roles exchanged.\<close>

theorem pushed_credentials_entitled:
  assumes "syncNodeConfig enc dec drawn n d = (XrayPush c, d')"
  shows "d' = d \<and> n_protocol n \<noteq> ''hy2'' \<and>
    lets_in c = (if n_protocol n = ''ss'' then (uu_uuid ` partner_rows dec n d, uu_uuid ` entitled_rows (n_id n) d)
                 else (uu_uuid ` entitled_rows (n_id n) d, uu_uuid ` partner_rows dec n d))"
  using assms by (auto simp: syncNodeConfig_def Let_def lets_in_push split: if_splits)

definition sample_pair :: db where
  "sample_pair = sample_db\<lparr>
     d_nodes := [sample_node 5, sample_node 6\<lparr>n_protocol := ''ss'', n_min_level := 1, n_name := ''m''\<rparr>],
     d_uuids := [\<lparr>uu_id = 1, uu_user = 1, uu_node = 5, uu_uuid = ''a''\<rparr>, \<lparr>uu_id = 2, uu_user = 2, uu_node = 5, uu_uuid = ''b''\<rparr>,
                 \<lparr>uu_id = 3, uu_user = 1, uu_node = 6, uu_uuid = ''c''\<rparr>, \<lparr>uu_id = 4, uu_user = 2, uu_node = 6, uu_uuid = ''e''\<rparr>]\<rparr>"

lemma sample_pair_simps [simp]:
  "d_nodes sample_pair = [sample_node 5, sample_node 6\<lparr>n_protocol := ''ss'', n_min_level := 1, n_name := ''m''\<rparr>]"
  "user_by_id sample_pair 1 = Some (sample_user 1 3 0)" "user_by_id sample_pair 2 = Some (sample_user 2 0 (5 * GB))"
  "d_uuids sample_pair =
     [\<lparr>uu_id = 1, uu_user = 1, uu_node = 5, uu_uuid = ''a''\<rparr>, \<lparr>uu_id = 2, uu_user = 2, uu_node = 5, uu_uuid = ''b''\<rparr>,
      \<lparr>uu_id = 3, uu_user = 1, uu_node = 6, uu_uuid = ''c''\<rparr>, \<lparr>uu_id = 4, uu_user = 2, uu_node = 6, uu_uuid = ''e''\<rparr>]"
  by (simp_all add: sample_pair_def sample_db_def user_by_id_def)

lemma sample_pair_entitled: "uu_uuid ` entitled_rows 5 sample_pair = {''a'', ''b''}" "uu_uuid ` entitled_rows 6 sample_pair = {''c''}"
proof -
  have "map (\<lambda>x. uu_uuid (fst x)) (getNodeAllUserUuids 5 sample_pair) = [''a'', ''b'']"
    "map (\<lambda>x. uu_uuid (fst x)) (getNodeAllUserUuids 6 sample_pair) = [''c'']" by (simp_all add: getNodeAllUserUuids_def)
  then have "set (map (\<lambda>x. uu_uuid (fst x)) (getNodeAllUserUuids 5 sample_pair)) = {''a'', ''b''}"
    "set (map (\<lambda>x. uu_uuid (fst x)) (getNodeAllUserUuids 6 sample_pair)) = {''c''}" by (simp_all only:) simp_all
  then show "uu_uuid ` entitled_rows 5 sample_pair = {''a'', ''b''}" "uu_uuid ` entitled_rows 6 sample_pair = {''c''}"
    unfolding set_entitled [symmetric] by (simp_all only: set_map image_image)
qed

lemma sample_pair_partner:
  "findPeerNode (\<lambda>x. x) (sample_node 5) sample_pair = Some (sample_node 6\<lparr>n_protocol := ''ss'', n_min_level := 1, n_name := ''m''\<rparr>)"
  "findPeerNode (\<lambda>x. x) (sample_node 6\<lparr>n_protocol := ''ss'', n_min_level := 1, n_name := ''m''\<rparr>) sample_pair = Some (sample_node 5)"
  by (simp_all add: findPeerNode_def getAllNodes_def by_region_name_def decryptNode_def sample_node_def ssh_machine_def or_else_def)

theorem pushed_credentials_entitled_witness:
  "\<exists>c. syncNodeConfig (\<lambda>x. x) (\<lambda>x. x) ''z'' (sample_node 5) sample_pair = (XrayPush c, sample_pair) \<and>
    lets_in c = ({''a'', ''b''}, {''c''})"
proof -
  obtain c where c: "syncNodeConfig (\<lambda>x. x) (\<lambda>x. x) ''z'' (sample_node 5) sample_pair = (XrayPush c, sample_pair)"
    by (simp add: syncNodeConfig_def)
  show ?thesis using pushed_credentials_entitled [OF c] c sample_pair_partner(1)
    by (simp add: partner_rows_def sample_pair_entitled)
qed

text \<open>C22: Two nodes that are partners of each other are pushed configurations that let in the same credentials,
  and the very same configuration when both have an entitled account: the order of the two pushes,
  which write the same file of the same machine, does not matter.\<close>

theorem partners_push_same:
  assumes "findPeerNode dec v d = Some s" and "findPeerNode dec s d = Some v" and "n_protocol v = ''vless''"
  shows "lets_in (vless_push dec v d) = lets_in (ss_push dec s d) \<and>
    (entitled_rows (n_id v) d \<noteq> {} \<and> entitled_rows (n_id s) d \<noteq> {} \<longrightarrow>
      syncNodeConfig enc dec x v d = syncNodeConfig enc dec y s d)"
proof -
  have s: "n_protocol s = ''ss''" using assms(1,3) by (auto simp: findPeerNode_def find_Some_iff Let_def)
  have "lets_in (vless_push dec v d) = lets_in (ss_push dec s d)" unfolding lets_in_push by (simp add: partner_rows_def assms)
  moreover have "syncNodeConfig enc dec x v d = syncNodeConfig enc dec y s d"
    if "entitled_rows (n_id v) d \<noteq> {}" "entitled_rows (n_id s) d \<noteq> {}"
    using that assms s by (simp add: syncNodeConfig_def vless_push_def ss_push_def no_clients Let_def)
  ultimately show ?thesis by blast
qed

theorem partners_push_same_witness:
  "syncNodeConfig (\<lambda>x. x) (\<lambda>x. x) ''z'' (sample_node 5) sample_pair =
   syncNodeConfig (\<lambda>x. x) (\<lambda>x. x) ''y'' (sample_node 6\<lparr>n_protocol := ''ss'', n_min_level := 1, n_name := ''m''\<rparr>) sample_pair"
proof -
  have e: "entitled_rows 5 sample_pair \<noteq> {}" "entitled_rows 6 sample_pair \<noteq> {}" by (metis sample_pair_entitled(1) image_empty insert_not_empty, metis sample_pair_entitled(2) image_empty insert_not_empty)
  show ?thesis by (rule mp [OF conjunct2 [OF partners_push_same [OF sample_pair_partner sample_node_sel(3)]]]) (simp add: e)
qed

section \<open>Names of the accounts\<close>

lemma safe_digit: "is_digit c \<Longrightarrow> safe_char c"
  by (simp add: safe_char_def)

lemma email_of:
  assumes "0 < i" and "length (show_int i) \<le> 24"
  shows "makeEmail i p = ''u-'' @ show_int i @ proto_mark p @ ''@p''"
proof -
  have d: "list_all is_digit (show_int i)" using show_nat_value [of "nat i"] assms(1) by (simp add: show_int_def)
  then have "filter safe_char (show_int i) = show_int i" by (auto simp: list_all_iff safe_digit intro: filter_True)
  moreover have "show_int i \<noteq> []" using show_nat_length_pos [of "nat i"] assms(1) by (auto simp: show_int_def)
  ultimately show ?thesis using assms(2) by (simp add: makeEmail_def Let_def)
qed

lemma split_show:
  assumes "0 < i" and "rest \<noteq> [] \<longrightarrow> \<not> is_digit (hd rest)"
  shows "split_digits (show_int i @ rest) = (show_int i, rest)" "digits_val (show_int i) = i" "show_int i \<noteq> []"
proof -
  have d: "list_all is_digit (show_int i)" and v: "digits_val (show_int i) = i"
    using show_nat_value [of "nat i"] assms(1) by (simp_all add: show_int_def)
  have "takeWhile is_digit rest = []" "dropWhile is_digit rest = rest" using assms(2) by (cases rest; simp)+
  then show "split_digits (show_int i @ rest) = (show_int i, rest)"
    using d by (simp add: split_digits_def list_all_iff takeWhile_append dropWhile_append)
  show "digits_val (show_int i) = i" by (rule v)
  show "show_int i \<noteq> []" using show_nat_length_pos [of "nat i"] assms(1) by (auto simp: show_int_def)
qed

lemma parse_show:
  assumes "0 < v"
  shows "js_parse_int (show_int v) = Some v"
proof -
  note s = split_show [OF assms, of "[]"]
  have t: "takeWhile is_digit (show_int v) = show_int v" using s(1) by (simp add: split_digits_def)
  obtain c cs where c: "show_int v = c # cs" using s(3) by (cases "show_int v") auto
  have d: "is_digit c" using t unfolding c by (cases "is_digit c") auto
  then have n: "c \<noteq> CHR ''-''" "c \<noteq> CHR ''+''" "\<not> js_space c" by (auto simp: is_digit_def js_space_def Let_def)
  then have "js_trim_start (show_int v) = show_int v" by (simp add: js_trim_start_def c)
  then show ?thesis using n t s(2,3) by (simp add: js_parse_int_def js_starts_def c)
qed

lemma strip_append [simp]: "strip p (p @ r) = Some r"
  by (simp add: strip_def js_starts_def)

definition counter_name :: "string \<Rightarrow> bool \<Rightarrow> string" where
  "counter_name email up = ''user>>>'' @ email @ (if up then ''>>>traffic>>>uplink'' else ''>>>traffic>>>downlink'')"

text \<open>C26: The name the panel gives an account in a configuration comes back from the counters: the node agent
  reads xray's counter of a vless or ss name as traffic of this account, protocol and direction, and
  the name in a Hysteria configuration as this account.\<close>

theorem counters_name_accounts:
  assumes "0 < i" and "length (show_int i) \<le> 24" and "p = ''vless'' \<or> p = ''ss''" and "0 < v"
  shows "record_by_name (counter_name (makeEmail i p) up) (show_int v) =
      Some \<lparr>rcd_user = i, rcd_tag = [], rcd_proto = p, rcd_up = up, rcd_value = v\<rparr> \<and>
    hy2_user (before_at (makeEmail i ''hy2'')) = Some i"
proof -
  let ?dir = "if up then ''>>>traffic>>>uplink'' else ''>>>traffic>>>downlink''"
  have n: "counter_name (makeEmail i p) up = ''user>>>u-'' @ show_int i @ proto_mark p @ ''@p'' @ ?dir"
    by (simp add: counter_name_def email_of [OF assms(1,2)])
  have m: "proto_suffix (proto_mark p @ ''@p'' @ r) = (p, ''@p'' @ r)" "\<not> is_digit (hd (proto_mark p @ ''@p'' @ r))" for r
    using assms(3) by (auto simp: proto_suffix_def proto_mark_def strip_def js_starts_def is_digit_def)
  have s: "split_digits (show_int i @ proto_mark p @ ''@p'' @ ?dir) = (show_int i, proto_mark p @ ''@p'' @ ?dir)"
    by (rule split_show(1) [OF assms(1)]) (use m(2) in blast)
  have dir: "direction_of ?dir = Some up" by (simp add: direction_of_def)
  have "strip ''user>>>u-'' (''user>>>u-'' @ show_int i @ proto_mark p @ ''@p'' @ ?dir) = Some (show_int i @ proto_mark p @ ''@p'' @ ?dir)"
    by (rule strip_append)
  then have "new_stat_name (counter_name (makeEmail i p) up) = Some (show_int i, p, up)"
    unfolding n new_stat_name_def
    using s m(1) [of ?dir] split_show(3) [OF assms(1), of "[]"] strip_append [of "''@p''" ?dir] dir assms(3) by (auto simp: Let_def)
  moreover have "js_parse_int (show_int v) = Some v" by (rule parse_show [OF assms(4)])
  ultimately have 1: "record_by_name (counter_name (makeEmail i p) up) (show_int v) =
      Some \<lparr>rcd_user = i, rcd_tag = [], rcd_proto = p, rcd_up = up, rcd_value = v\<rparr>"
    using assms split_show(2) [OF assms(1), of "[]"] by (simp add: record_by_name_def)
  have d: "list_all is_digit (show_int i)" using show_nat_value [of "nat i"] assms(1) by (simp add: show_int_def)
  have "c \<noteq> CHR ''@''" if "c \<in> set (''u-'' @ show_int i @ ''-h'')" for c
    using that d by (auto simp: list_all_iff is_digit_def)
  then have "before_at (makeEmail i ''hy2'') = ''u-'' @ show_int i @ ''-h''"
    unfolding before_at_def email_of [OF assms(1,2)]
    using takeWhile_append2 [of "''u-'' @ show_int i @ ''-h''" "\<lambda>c. c \<noteq> CHR ''@''" "''@p''"] by (simp add: proto_mark_def)
  moreover have "split_digits (show_int i @ ''-h'') = (show_int i, ''-h'')" by (rule split_show(1) [OF assms(1)]) (simp add: is_digit_def)
  ultimately have "hy2_user (before_at (makeEmail i ''hy2'')) = Some i"
    using split_show(2,3) [OF assms(1), of "[]"] strip_append [of "''u-''" "show_int i @ ''-h''"] by (simp add: hy2_user_def)
  with 1 show ?thesis by blast
qed

theorem counters_name_accounts_witness:
  "record_by_name (counter_name ''u-7-v@p'' True) ''40'' =
      Some \<lparr>rcd_user = 7, rcd_tag = [], rcd_proto = ''vless'', rcd_up = True, rcd_value = 40\<rparr> \<and>
   hy2_user (before_at (makeEmail 7 ''hy2'')) = Some 7"
proof -
  have n: "show_int 7 = ''7''" "show_int 40 = ''40''" by code_simp+
  have e: "makeEmail 7 ''vless'' = ''u-7-v@p''" by code_simp
  show ?thesis using counters_name_accounts [of 7 "''vless''" 40 True] unfolding e n by simp
qed

section \<open>Quoted texts\<close>

text \<open>A reader of a double-quoted text: up to the next quotation mark that is not escaped.\<close>

fun read_quoted :: "string \<Rightarrow> (string \<times> string) option" where
  "read_quoted [] = None"
| "read_quoted (c # s) =
     (if c = CHR 0x22 then Some ([], s)
      else if c = CHR 0x5C then (case s of [] \<Rightarrow> None | x # t \<Rightarrow> map_option (\<lambda>(y, r). (x # y, r)) (read_quoted t))
      else map_option (\<lambda>(y, r). (c # y, r)) (read_quoted s))"

text \<open>Whatever a credential, an address or a password holds, the reader of a quoted text gets it back
  unchanged and goes on where it ends: no value breaks out of its quotation marks.\<close>

theorem yaml_escape_round_trip:
  "\<exists>s'. quoted s @ rest = CHR 0x22 # s' \<and> read_quoted s' = Some (s, rest)"
proof -
  have "read_quoted (yamlEscape s @ CHR 0x22 # rest) = Some (s, rest)"
    by (induction s) (simp_all add: yamlEscape_def)
  then show ?thesis by (simp add: quoted_def)
qed

end
