(* ===== verification/DeployProps.thy ===== *)
theory DeployProps
  imports DeployRun XrayProps
begin

text \<open>
  Properties of deployments: a new node gets a free name at the first attempt, and a machine goes into
  service only with the configuration of its entitled accounts.
\<close>

section \<open>Names\<close>

lemma high_byte: "128 \<le> (n :: nat) \<Longrightarrow> n < 256 \<Longrightarrow> \<not> js_space (char_of n)"
  by (simp add: js_space_def Let_def)

lemma utf8_last:
  assumes "0x80 \<le> n"
  shows "utf8 n \<noteq> [] \<and> \<not> js_space (last (utf8 n))"
proof -
  have "last (utf8 n) = char_of (0x80 + n mod 0x40)" using assms by (simp add: utf8_def)
  moreover have "n mod 0x40 < 0x40" by simp
  then have "0x80 + n mod 0x40 < 256" by linarith
  ultimately show ?thesis using high_byte [of "0x80 + n mod 0x40"] by (simp add: utf8_def)
qed

lemma utf_last: "ns \<noteq> [] \<Longrightarrow> 0x80 \<le> last ns \<Longrightarrow> utf ns \<noteq> [] \<and> \<not> js_space (last (utf ns))"
proof (induction ns)
  case (Cons n ns)
  then show ?case using utf8_last [of n] by (cases "ns = []") (simp_all add: utf_def)
qed simp

lemma utf_hd:
  assumes "0x10000 \<le> n" and "n < 0x40000"
  shows "utf (n # ns) \<noteq> [] \<and> \<not> js_space (hd (utf (n # ns)))"
  using assms high_byte [of 240] by (simp add: utf_def utf8_def)

lemma flag_hd: "flag (c # cs) \<noteq> [] \<and> \<not> js_space (hd (flag (c # cs)))"
proof -
  have "(of_char c :: nat) < 256" by (rule nat_of_char_less_256)
  then have "(0x10000 :: nat) \<le> 0x1F1E6 + of_char c - 65" "0x1F1E6 + of_char c - 65 < (0x40000 :: nat)" by linarith+
  from utf_hd [OF this, of "map (\<lambda>c. 0x1F1E6 + of_char c - 65) cs"] show ?thesis by (simp add: flag_def)
qed

lemma names_end: "list_all (\<lambda>w. w \<noteq> [] \<and> \<not> js_space (last w)) BEAUTIFUL_NAMES" "BEAUTIFUL_NAMES \<noteq> []"
  unfolding BEAUTIFUL_NAMES_def by (simp_all add: utf_last)

lemma flags_start: "list_all (\<lambda>x. snd x \<noteq> [] \<and> \<not> js_space (hd (snd x))) REGION_EMOJI"
  unfolding REGION_EMOJI_def by (simp add: flag_hd)

lemma emoji_start: "getRegionEmoji t \<noteq> [] \<and> \<not> js_space (hd (getRegionEmoji t))"
proof (cases "first_key REGION_EMOJI t")
  case None
  then show ?thesis using utf_hd [of "0x1F310" "[]"] by (simp add: getRegionEmoji_def)
next
  case (Some v)
  then obtain k where "(k, v) \<in> set REGION_EMOJI" by (auto simp: first_key_def find_Some_iff) (metis nth_mem prod.collapse)
  then show ?thesis using flags_start Some by (auto simp: list_all_iff getRegionEmoji_def)
qed

lemma detect_emoji: "ge_emoji (detectRegion ptr a b ip) \<noteq> [] \<and> \<not> js_space (hd (ge_emoji (detectRegion ptr a b ip)))"
proof -
  have l: "ge_emoji (located c r k) \<noteq> [] \<and> \<not> js_space (hd (ge_emoji (located c r k)))" for c r k
    using emoji_start by (simp add: located_def getRegionEmojiFromGeo_def)
  have u: "ge_emoji unknown_geo \<noteq> [] \<and> \<not> js_space (hd (ge_emoji unknown_geo))"
    using utf_hd [of "0x1F310" "[]"] by (simp add: unknown_geo_def)
  have p: "ge_emoji g \<noteq> [] \<and> \<not> js_space (hd (ge_emoji g))" if "detectRegionByAwsPtr ptr = Some g" for g
    using that l by (auto simp: detectRegionByAwsPtr_def split: option.splits list.splits)
  show ?thesis unfolding detectRegion_def using l u p by (auto split: option.split)
qed

lemma trim_same: "s \<noteq> [] \<Longrightarrow> \<not> js_space (hd s) \<Longrightarrow> \<not> js_space (last s) \<Longrightarrow> js_trim s = s"
proof -
  assume a: "s \<noteq> []" "\<not> js_space (hd s)" "\<not> js_space (last s)"
  have "dropWhile js_space s = s" using a(1,2) by (cases s) simp_all
  moreover have "dropWhile js_space (rev s) = rev s" using a(1,3) by (cases "rev s") (auto simp: hd_rev [symmetric])
  ultimately show ?thesis by (simp add: js_trim_def)
qed

lemma drawn_in: "xs \<noteq> [] \<Longrightarrow> 0 \<le> r \<Longrightarrow> r < 1 \<Longrightarrow> drawn_of r xs \<in> set xs"
proof -
  assume a: "xs \<noteq> []" "0 \<le> r" "r < 1"
  have "r * of_nat (length xs) < 1 * of_nat (length xs)" using a by (intro mult_strict_right_mono) simp_all
  then have "\<lfloor>r * of_nat (length xs)\<rfloor> < int (length xs)" by (simp add: floor_less_iff)
  moreover have "0 \<le> \<lfloor>r * of_nat (length xs)\<rfloor>" using a by simp
  ultimately show ?thesis unfolding drawn_of_def by (intro nth_mem) linarith
qed

lemma generated_shape:
  assumes "ge_emoji g \<noteq> [] \<and> \<not> js_space (hd (ge_emoji g))" and "0 \<le> r" and "r < 1"
  shows "js_trim (generateNodeName g names r) = generateNodeName g names r" "generateNodeName g names r \<notin> set names"
proof -
  let ?prefix = "ge_emoji g @ '' '' @ ge_city_cn g" and ?taken = "filter (\<lambda>n. n \<noteq> []) (map js_trim names)"
  let ?free = "filter (\<lambda>w. ?prefix @ ''-'' @ w \<notin> set ?taken) BEAUTIFUL_NAMES"
  let ?name = "generateNodeName g names r"
  obtain tail where tail: "?name = ?prefix @ tail" "tail \<noteq> []" "\<not> js_space (last tail)" and not_taken: "?name \<notin> set ?taken"
  proof (cases "?free = []")
    case False
    have w: "drawn_of r ?free \<in> set ?free" by (rule drawn_in [OF False assms(2,3)])
    have n: "?name = ?prefix @ ''-'' @ drawn_of r ?free" using False by (simp add: generateNodeName_def Let_def)
    have "drawn_of r ?free \<noteq> []" "\<not> js_space (last (drawn_of r ?free))" using w names_end(1) by (auto simp: list_all_iff)
    moreover have "?name \<notin> set ?taken" using w unfolding n by simp
    ultimately show thesis using that [of "''-'' @ drawn_of r ?free"] n by simp
  next
    case True
    let ?base = "?prefix @ ''-'' @ drawn_of r BEAUTIFUL_NAMES"
    have n: "?name = numbered ?base (free_number ?base ?taken 2)" using True by (simp add: generateNodeName_def Let_def)
    show thesis
    proof (rule that [of "''-'' @ drawn_of r BEAUTIFUL_NAMES @ '' ('' @ show_nat (free_number ?base ?taken 2) @ '')''"])
      show "?name \<notin> set ?taken" unfolding n by (rule free_number_free)
    qed (simp_all add: n numbered_def js_space_def)
  qed
  have "hd ?name = hd (ge_emoji g)" "last ?name = last tail" "?name \<noteq> []" using assms(1) tail(2) unfolding tail(1) by auto
  then show t: "js_trim ?name = ?name" using assms(1) tail(3) by (intro trim_same) simp_all
  show "?name \<notin> set names"
  proof
    assume "?name \<in> set names"
    then have "js_trim ?name \<in> js_trim ` set names" by (rule imageI)
    then have "?name \<in> set ?taken" using t \<open>?name \<noteq> []\<close> by simp
    with not_taken show False by contradiction
  qed
qed

lemma all_names: "set (map n_name (getAllNodes dec False d)) = n_name ` set (d_nodes d)"
  using set_getAllNodes [of dec False d] by (simp add: image_image)

text \<open>C28: Whatever the place of a server is found to be and whatever names are taken, the search for a name ends,
  the name is taken by no node, and the node is inserted under it at the first attempt.\<close>

theorem new_node_name_free:
  assumes "0 \<le> r" and "r < 1" and "\<And>name. nn_name (mk name) = name" and "g = detectRegion ptr a b ip"
  shows "\<exists>name. name \<notin> n_name ` set (d_nodes d) \<and>
    insertNodeWithGeneratedName enc dec token i mk g (r # rs) d =
      Some (name, d\<lparr>d_nodes := d_nodes d @ [node_row enc token i (mk name)]\<rparr>)"
proof -
  let ?name = "generateNodeName g (map n_name (getAllNodes dec False d)) r"
  have "?name \<notin> set (map n_name (getAllNodes dec False d))"
    using generated_shape(2) [OF detect_emoji assms(1,2)] assms(4) by blast
  then have free: "?name \<notin> n_name ` set (d_nodes d)" unfolding all_names .
  then show ?thesis using assms(3) by (intro exI [of _ ?name]) (simp add: insertNodeWithGeneratedName_def addNode_def Let_def)
qed

definition sample_info :: deploy_info where
  "sample_info = \<lparr>di_host = ''8.8.8.8'', di_ssh_host = None, di_port = 0, di_user = [], di_password = Some ''pw'', di_key_path = None,
     di_socks_host = [], di_socks_port = [], di_socks_user = [], di_socks_pass = None, di_ss_method = [], di_hy2_obfs = [],
     di_hy2_up = [], di_hy2_down = [], di_by = None\<rparr>"

theorem new_node_name_free_witness:
  "\<exists>name. name \<notin> n_name ` set (d_nodes sample_pair) \<and>
    insertNodeWithGeneratedName (\<lambda>x. x) (\<lambda>x. x) ''t'' 7 (base_node sample_info (detectRegion None None None ''8.8.8.8'') 1) (detectRegion None None None ''8.8.8.8'')
      [1 / 2] sample_pair =
    Some (name, sample_pair\<lparr>d_nodes := d_nodes sample_pair @
      [node_row (\<lambda>x. x) ''t'' 7 (base_node sample_info (detectRegion None None None ''8.8.8.8'') 1 name)]\<rparr>)"
  by (rule new_node_name_free) (simp_all add: base_node_def)

section \<open>Runs\<close>

text \<open>What a deployment leaves alone: accounts, credentials, every other node, and of its own nodes the
  number, the level and, before the end, the state.\<close>

definition node_kept :: "int set \<Rightarrow> bool \<Rightarrow> node \<Rightarrow> node \<Rightarrow> bool" where
  "node_kept ids active n n' \<longleftrightarrow> n_id n' = n_id n \<and> n_min_level n' = n_min_level n \<and> n_protocol n' = n_protocol n \<and> (active \<longrightarrow> n_is_active n' = n_is_active n) \<and>
     (n_id n \<notin> ids \<longrightarrow> n' = n)"

definition kept :: "int set \<Rightarrow> bool \<Rightarrow> db \<Rightarrow> db \<Rightarrow> bool" where
  "kept ids active d d' \<longleftrightarrow> d_users d' = d_users d \<and> d_uuids d' = d_uuids d \<and> list_all2 (node_kept ids active) (d_nodes d) (d_nodes d')"

lemma kept_refl [simp]: "kept ids a d d"
  by (simp add: kept_def node_kept_def list_all2_refl)

lemma kept_trans: "kept ids a d d' \<Longrightarrow> kept ids a d' d'' \<Longrightarrow> kept ids a d d''"
  unfolding kept_def
  by (auto intro: list_all2_trans [of "node_kept ids a" "node_kept ids a"] simp: node_kept_def)

lemma kept_set_node:
  assumes "i \<in> ids" and "\<And>n. n_id (f n) = n_id n \<and> n_min_level (f n) = n_min_level n \<and> n_protocol (f n) = n_protocol n \<and> (a \<longrightarrow> n_is_active (f n) = n_is_active n)"
  shows "kept ids a d (set_node i f d)"
  using assms by (auto simp: kept_def set_node_def update_where_def list_all2_map2 node_kept_def intro!: list_all2_refl)

lemma kept_weaken: "kept ids True d d' \<Longrightarrow> kept ids a d d'"
  unfolding kept_def by (auto elim!: list_all2_mono simp: node_kept_def)

lemma kept_note [simp]: "kept ids a d (note_deploy e i act args name no d') \<longleftrightarrow> kept ids a d d'"
  by (simp add: kept_def note_deploy_def addAuditLog_def add_effect_def)

lemma kept_find:
  assumes "kept ids a d d'"
  shows "rel_option (node_kept ids a) (find (\<lambda>n. n_id n = nid) (d_nodes d)) (find (\<lambda>n. n_id n = nid) (d_nodes d'))"
proof -
  have "list_all2 (node_kept ids a) (d_nodes d) (d_nodes d')" using assms by (simp add: kept_def)
  then show ?thesis by (induction rule: list_all2_induct) (auto simp: node_kept_def)
qed

lemma kept_users: "kept ids a d d' \<Longrightarrow> user_by_id d' u = user_by_id d u"
  by (simp add: kept_def user_by_id_def)

lemma kept_rows:
  assumes "kept ids a d d'"
  shows "getNodeAllUserUuids nid d' = getNodeAllUserUuids nid d"
proof -
  let ?f = "\<lambda>d r. case (user_by_id d (uu_user r), find (\<lambda>n. n_id n = uu_node r) (d_nodes d)) of
       (Some u, Some n) \<Rightarrow>
         if uu_node r = nid \<and> \<not> u_is_blocked u \<and> \<not> u_is_frozen u \<and> n_min_level n \<le> u_trust_level u then [(r, u_username u)] else []
     | _ \<Rightarrow> []"
  have "?f d' = ?f d"
  proof
    show "?f d' r = ?f d r" for r
      using kept_find [OF assms, of "uu_node r"] kept_users [OF assms, of "uu_user r"]
      by (auto simp: rel_option_iff node_kept_def split: option.splits)
  qed
  moreover have "d_uuids d' = d_uuids d" using assms by (simp add: kept_def)
  ultimately have "map (?f d') (d_uuids d') = map (?f d) (d_uuids d)" by (rule arg_cong2 [where f = map])
  then show ?thesis by (simp only: getNodeAllUserUuids_def)
qed

lemma kept_entitled: "kept ids a d d' \<Longrightarrow> entitled_rows nid d' = entitled_rows nid d"
  by (simp add: set_entitled [symmetric] kept_rows)

text \<open>A run that keeps what a deployment leaves alone.\<close>

definition tame :: "int set \<Rightarrow> 'a run \<Rightarrow> bool" where
  "tame ids m \<longleftrightarrow> (\<forall>s. kept ids True (dy_db s) (dy_db (snd (m s))))"

lemma tame_next: "tame ids m \<Longrightarrow> (\<And>x. tame ids (k x)) \<Longrightarrow> tame ids (and_next m k)"
proof -
  assume a: "tame ids m" "\<And>x. tame ids (k x)"
  have "kept ids True (dy_db s) (dy_db (snd (and_next m k s)))" for s
  proof (cases "m s")
    case (Pair r s')
    then have 1: "kept ids True (dy_db s) (dy_db s')" using a(1) unfolding tame_def by (metis snd_conv)
    show ?thesis
    proof (cases r)
      case (Inr x)
      have "kept ids True (dy_db s') (dy_db (snd (k x s')))" using a(2) by (simp add: tame_def)
      then show ?thesis using kept_trans [OF 1] by (simp add: and_next_def Pair Inr)
    qed (simp add: and_next_def Pair 1)
  qed
  then show ?thesis by (simp add: tame_def)
qed

lemma tame_simps [simp]: "tame ids (answer_of r)" "tame ids (raising e)" "tame ids (from_db f)" "tame ids (writing p u)"
  by (simp_all add: tame_def answer_of_def raising_def from_db_def writing_def split: sum.split)

lemma tame_change: "(\<And>d. kept ids True d (f d)) \<Longrightarrow> tame ids (change_db f)"
  by (simp add: tame_def change_db_def)

lemma tame_steps:
  "tame ids (connecting m i)" "tame ids (installing m assertInstallOk)" "tame ids (write_and_start m p)"
  "nid \<in> ids \<Longrightarrow> tame ids (finding_ipv6 m nid)" "nid \<in> ids \<Longrightarrow> tame ids (making_keys e m nid)"
  unfolding connecting_def installing_def write_and_start_def finding_ipv6_def making_keys_def assertInstallOk_def
  by (auto intro!: tame_next tame_change kept_set_node split: if_splits option.split prod.split)

lemma tame_dual: "tame {v, w} (dual_steps e m i v w)"
  unfolding dual_steps_def by (intro tame_next tame_steps tame_simps) simp_all

text \<open>What a run that succeeded has done: the file is written and the machine has answered the start.\<close>

lemma next_Inr:
  assumes "and_next m k s = (Inr x, s')"
  obtains y s1 where "m s = (Inr y, s1)" "k y s1 = (Inr x, s')"
  using assms by (auto simp: and_next_def split: prod.splits sum.splits)

lemma answer_Inr: "answer_of r s = (Inr x, s') \<longleftrightarrow> r = Inr x \<and> s' = s"
  by (auto simp: answer_of_def)

lemma from_db_Inr: "from_db f s = (Inr x, s') \<longleftrightarrow> x = f (dy_db s) \<and> s' = s"
  by (auto simp: from_db_def)

lemma written_step:
  "connecting m i s = (r, s') \<Longrightarrow> dy_written s' = dy_written s" "installing m assertInstallOk s = (q, s') \<Longrightarrow> dy_written s' = dy_written s"
  "finding_ipv6 m nid s = (q, s') \<Longrightarrow> dy_written s' = dy_written s" "making_keys e m nid s = (k, s') \<Longrightarrow> dy_written s' = dy_written s"
  unfolding connecting_def installing_def finding_ipv6_def making_keys_def assertInstallOk_def
  by (auto simp: and_next_def answer_of_def raising_def change_db_def from_db_def split: sum.splits if_splits option.splits prod.splits)

lemma write_and_start_Inr:
  assumes "write_and_start m p s = (Inr x, s')"
  shows "mc_start m = Inr x" "dy_written s' = dy_written s @ [p]" "dy_db s' = dy_db s"
  using assms by (auto simp: write_and_start_def and_next_def writing_def answer_of_def split: sum.splits prod.splits)

lemma or_single: "(case xs of [] \<Rightarrow> [y] | c # cs \<Rightarrow> c # cs) = (if xs = [] then [y] else xs)"
  by (cases xs) simp_all

lemma default_ids:
  "vc_id ` set (vless_or_default u nid d) = (if entitled_rows nid d = {} then {u} else uu_uuid ` entitled_rows nid d)"
  "sc_password ` set (ss_or_default p u nid d) = (if entitled_rows nid d = {} then {u} else uu_uuid ` entitled_rows nid d)"
proof -
  have "vless_or_default u nid d = (if vless_clients nid d = [] then [\<lparr>vc_id = u, vc_email = ''default@panel'', vc_flow = False\<rparr>] else vless_clients nid d)"
    "ss_or_default p u nid d = (if ss_clients p nid d = [] then [\<lparr>sc_password = u, sc_email = ''default@panel''\<rparr>] else ss_clients p nid d)"
    unfolding vless_or_default_def ss_or_default_def by (rule or_single)+
  then show "vc_id ` set (vless_or_default u nid d) = (if entitled_rows nid d = {} then {u} else uu_uuid ` entitled_rows nid d)"
    "sc_password ` set (ss_or_default p u nid d) = (if entitled_rows nid d = {} then {u} else uu_uuid ` entitled_rows nid d)"
    by (simp_all add: no_clients set_clients)
qed

lemma dual_steps_Inr:
  assumes "dual_steps e m i v w s = (Inr x, s')"
  shows "mc_start m = Inr x \<and> (\<exists>c. dy_written s' = dy_written s @ [XrayPush c] \<and>
    lets_in c = (if entitled_rows v (dy_db s') = {} then {de_uuid e} else uu_uuid ` entitled_rows v (dy_db s'),
      if entitled_rows w (dy_db s') = {} then {de_secret e} else uu_uuid ` entitled_rows w (dy_db s')))"
proof -
  obtain a1 s1 where 1: "connecting m i s = (Inr a1, s1)"
    and r1: "and_next (finding_ipv6 m w) (\<lambda>_. and_next (installing m assertInstallOk) (\<lambda>_. and_next (making_keys e m v) (\<lambda>r.
      and_next (from_db (vless_or_default (de_uuid e) v)) (\<lambda>vclients. and_next (from_db (ss_or_default ''ss'' (de_secret e) w)) (\<lambda>sclients.
      write_and_start m (XrayPush (buildDualXrayConfig (fst (de_ports e)) (snd (de_ports e)) vclients sclients (ss_method_for i)
       (request_outbounds i) r))))))) s1 = (Inr x, s')"
    using assms unfolding dual_steps_def by (rule next_Inr)
  obtain a2 s2 where 2: "finding_ipv6 m w s1 = (Inr a2, s2)"
    and r2: "and_next (installing m assertInstallOk) (\<lambda>_. and_next (making_keys e m v) (\<lambda>r.
      and_next (from_db (vless_or_default (de_uuid e) v)) (\<lambda>vclients. and_next (from_db (ss_or_default ''ss'' (de_secret e) w)) (\<lambda>sclients.
      write_and_start m (XrayPush (buildDualXrayConfig (fst (de_ports e)) (snd (de_ports e)) vclients sclients (ss_method_for i)
       (request_outbounds i) r)))))) s2 = (Inr x, s')"
    using r1 by (rule next_Inr)
  obtain a3 s3 where 3: "installing m assertInstallOk s2 = (Inr a3, s3)"
    and r3: "and_next (making_keys e m v) (\<lambda>r.
      and_next (from_db (vless_or_default (de_uuid e) v)) (\<lambda>vclients. and_next (from_db (ss_or_default ''ss'' (de_secret e) w)) (\<lambda>sclients.
      write_and_start m (XrayPush (buildDualXrayConfig (fst (de_ports e)) (snd (de_ports e)) vclients sclients (ss_method_for i)
       (request_outbounds i) r))))) s3 = (Inr x, s')"
    using r2 by (rule next_Inr)
  obtain r s4 where 4: "making_keys e m v s3 = (Inr r, s4)"
    and r4: "and_next (from_db (vless_or_default (de_uuid e) v)) (\<lambda>vclients. and_next (from_db (ss_or_default ''ss'' (de_secret e) w)) (\<lambda>sclients.
      write_and_start m (XrayPush (buildDualXrayConfig (fst (de_ports e)) (snd (de_ports e)) vclients sclients (ss_method_for i)
       (request_outbounds i) r)))) s4 = (Inr x, s')"
    using r3 by (rule next_Inr)
  let ?c = "buildDualXrayConfig (fst (de_ports e)) (snd (de_ports e)) (vless_or_default (de_uuid e) v (dy_db s4))
    (ss_or_default ''ss'' (de_secret e) w (dy_db s4)) (ss_method_for i) (request_outbounds i) r"
  have f: "write_and_start m (XrayPush ?c) s4 = (Inr x, s')" using r4 by (simp add: and_next_def from_db_def)
  have "dy_written s4 = dy_written s" using written_step(1) [OF 1] written_step(3) [OF 2] written_step(2) [OF 3] written_step(4) [OF 4] by simp
  then show ?thesis using write_and_start_Inr [OF f] by (simp add: default_ids)
qed

lemma added_two:
  assumes "(case addNode enc t v x d of None \<Rightarrow> None | Some d1 \<Rightarrow> addNode enc u w y d1) = Some d'"
    and "nn_is_active x = Some False" and "nn_is_active y = Some False"
  shows "\<exists>a b. d' = d\<lparr>d_nodes := d_nodes d @ [a, b]\<rparr> \<and> n_id a = v \<and> n_id b = w \<and> \<not> n_is_active a \<and> \<not> n_is_active b"
proof -
  have "d' = d\<lparr>d_nodes := d_nodes d @ [node_row enc t v x, node_row enc u w y]\<rparr>"
    using assms(1) by (auto simp: addNode_def split: option.splits if_splits)
  moreover have "n_id (node_row enc t v x) = v" "n_id (node_row enc u w y) = w"
    "\<not> n_is_active (node_row enc t v x)" "\<not> n_is_active (node_row enc u w y)" using assms(2,3) by (simp_all add: node_row_def)
  ultimately show ?thesis by blast
qed

lemma inserted_pair:
  assumes "insert_pair enc dec tokens (v, w) mkv mks g draws d = Some (name, d1)"
    and "\<And>x. nn_is_active (mkv x) = Some False" and "\<And>x. nn_is_active (mks x) = Some False"
  shows "\<exists>a b. d1 = d\<lparr>d_nodes := d_nodes d @ [a, b]\<rparr> \<and> n_id a = v \<and> n_id b = w \<and> \<not> n_is_active a \<and> \<not> n_is_active b"
  using assms(1)
proof (induction draws)
  case (Cons r rs)
  let ?name = "generateNodeName g (map n_name (getAllNodes dec False d)) r"
  let ?two = "case addNode enc (fst tokens) v (mkv ?name) d of None \<Rightarrow> None | Some d1 \<Rightarrow> addNode enc (snd tokens) w (mks (ss_name ?name)) d1"
  have s: "insert_pair enc dec tokens (v, w) mkv mks g (r # rs) d =
    (case ?two of None \<Rightarrow> insert_pair enc dec tokens (v, w) mkv mks g rs d | Some d' \<Rightarrow> Some (?name, d'))"
    by (simp only: insert_pair.simps Let_def fst_conv snd_conv)
  show ?case
  proof (cases ?two)
    case None
    show ?thesis by (rule Cons.IH) (use Cons.prems in \<open>simp only: s None option.case\<close>)
  next
    case (Some d')
    have "d' = d1" using Cons.prems by (simp only: s Some option.case) simp
    then show ?thesis using added_two [OF _ assms(2,3)] Some by blast
  qed
qed simp

lemma ensure_nodes [simp]: "d_nodes (ensureAllUsersHaveUuid gen nid d) = d_nodes d"
  by (simp add: ensureAllUsersHaveUuid_def Let_def)

lemma kept_fold:
  assumes "set ids \<subseteq> I" and "kept I a d d'"
    and "\<And>n. n_id (f n) = n_id n \<and> n_min_level (f n) = n_min_level n \<and> n_protocol (f n) = n_protocol n \<and> (a \<longrightarrow> n_is_active (f n) = n_is_active n)"
  shows "kept I a d (fold (\<lambda>j. set_node j f) ids d')"
  using assms(1,2)
proof (induction ids arbitrary: d')
  case (Cons j ids)
  have "kept I a d' (set_node j f d')" by (rule kept_set_node) (use Cons.prems assms(3) in simp_all)
  then have "kept I a d (set_node j f d')" by (rule kept_trans [OF Cons.prems(2)])
  then show ?case using Cons.IH [of "set_node j f d'"] Cons.prems(1) by simp
qed simp

lemma finish_keeps:
  assumes "set ids \<subseteq> I" and "kept I True d (dy_db (snd r))"
  shows "kept I False d (dy_db (finish_deploy e m i action ids name args r))"
    "(\<And>x y. r \<noteq> (Inr (x, y), snd r) \<or> \<not> js_includes ''DEPLOY_OK'' x) \<Longrightarrow> kept I True d (dy_db (finish_deploy e m i action ids name args r))"
    "dy_written (finish_deploy e m i action ids name args r) = dy_written (snd r)"
proof -
  have f: "kept I a d (fold (\<lambda>j. set_node j f) ids d')"
    if "kept I a d d'" "\<And>n. n_id (f n) = n_id n \<and> n_min_level (f n) = n_min_level n \<and> n_protocol (f n) = n_protocol n \<and> (a \<longrightarrow> n_is_active (f n) = n_is_active n)" for a f d'
    using assms(1) that by (rule kept_fold)
  have a: "dy_db (installAgentOnNode e m j s) = dy_db s" "dy_written (installAgentOnNode e m j s) = dy_written s" for j s
    by (simp_all add: installAgentOnNode_def Let_def split: option.split)
  obtain q s where r: "r = (q, s)" by (cases r)
  have k: "kept I b d (dy_db s)" for b using assms(2) r kept_weaken by simp
  have bad: "kept I b d (dy_db (deploy_failed e i action ids name msg s))" for msg b
    unfolding deploy_failed_def by (simp add: all_nodes_def) (rule f [OF k], simp)
  have good: "kept I False d (dy_db (deploy_started e m i action ids name args s))"
    unfolding deploy_started_def by (simp add: all_nodes_def a) (intro conjI impI f [OF k]; simp)
  show "kept I False d (dy_db (finish_deploy e m i action ids name args r))"
    unfolding finish_deploy_def r using bad good by (auto split: sum.split)
  show "kept I True d (dy_db (finish_deploy e m i action ids name args r))"
    if "\<And>x y. r \<noteq> (Inr (x, y), snd r) \<or> \<not> js_includes ''DEPLOY_OK'' x"
    using that bad unfolding finish_deploy_def r by (auto split: sum.split)
  show "dy_written (finish_deploy e m i action ids name args r) = dy_written (snd r)"
    unfolding finish_deploy_def r by (auto simp: deploy_failed_def deploy_started_def a split: sum.split)
qed

lemma kept_new:
  assumes "kept {v, w} a d2 d'" and "d_nodes d2 = ns @ [x, y]" and "v \<notin> n_id ` set ns" and "w \<notin> n_id ` set ns"
  shows "\<exists>x' y'. d_nodes d' = ns @ [x', y'] \<and> node_kept {v, w} a x x' \<and> node_kept {v, w} a y y'"
proof -
  have "list_all2 (node_kept {v, w} a) (ns @ [x, y]) (d_nodes d')" using assms(1,2) by (simp add: kept_def)
  then obtain ns' x' y' where n: "d_nodes d' = ns' @ [x', y']" "list_all2 (node_kept {v, w} a) ns ns'" "node_kept {v, w} a x x'" "node_kept {v, w} a y y'"
    by (auto simp: list_all2_append1 list_all2_Cons1)
  from n(2) have "list_all2 (=) ns ns'"
    by (rule list.rel_mono_strong) (use assms(3,4) in \<open>auto simp: node_kept_def\<close>)
  then have "ns' = ns" by (simp add: list.rel_eq)
  then show ?thesis using n by blast
qed

text \<open>C10: Deploying the two nodes of a machine, while no other request changes the database, adds exactly two rows and changes no other; and one of the two is in
  service only if the machine has answered the start with success and the one file written on it lets in
  exactly the credentials of the accounts entitled to the two nodes, or the drawn default where there is none.\<close>

theorem dual_deployment_sound:
  assumes "deployDualNode e m i d = Some s" and "de_ids e = (v, w)"
    and "v \<notin> n_id ` set (d_nodes d)" and "w \<notin> n_id ` set (d_nodes d)"
  shows "\<exists>x y. d_nodes (dy_db s) = d_nodes d @ [x, y] \<and> n_id x = v \<and> n_id y = w \<and>
    (n_is_active x \<or> n_is_active y \<longrightarrow>
      (\<exists>out err c. mc_start m = Inr (out, err) \<and> js_includes ''DEPLOY_OK'' out \<and> dy_written s = [XrayPush c] \<and>
        lets_in c = (if entitled_rows v (dy_db s) = {} then {de_uuid e} else uu_uuid ` entitled_rows v (dy_db s),
          if entitled_rows w (dy_db s) = {} then {de_secret e} else uu_uuid ` entitled_rows w (dy_db s))))"
proof -
  obtain name d1 where ins: "insert_pair (de_enc e) (de_dec e) (de_tokens e) (v, w) (dual_vless_node e i)
      (ss_node e i (snd (de_ports e))) (place_of e i) (take 8 (de_draws e)) d = Some (name, d1)"
    and s: "s = finish_deploy e m i ''node_deploy_dual'' [v, w] name [show_int (fst (de_ports e)), show_int (snd (de_ports e))]
      (dual_steps e m i v w (start_of (ensureAllUsersHaveUuid (de_gen e w) w (ensureAllUsersHaveUuid (de_gen e v) v d1))))"
    using assms(1) by (auto simp: deployDualNode_def insertDualNodesWithGeneratedName_def assms(2) split: option.splits)
  let ?d2 = "ensureAllUsersHaveUuid (de_gen e w) w (ensureAllUsersHaveUuid (de_gen e v) v d1)"
  obtain r t where rt: "dual_steps e m i v w (start_of ?d2) = (r, t)" by (cases "dual_steps e m i v w (start_of ?d2)")
  obtain a b where ab: "d_nodes ?d2 = d_nodes d @ [a, b]" "n_id a = v" "n_id b = w" "\<not> n_is_active a" "\<not> n_is_active b"
    using inserted_pair [OF ins] by (auto simp: dual_vless_node_def vless_node_def ss_node_def base_node_def)
  have k: "kept {v, w} True ?d2 (dy_db t)" using tame_dual [of v w e m i] rt unfolding tame_def by (metis snd_conv start_of_def deployment.select_convs(1))
  have kr: "kept {v, w} True ?d2 (dy_db (snd (r, t)))" and ids: "set [v, w] \<subseteq> {v, w}" using k by simp_all
  note keeps = finish_keeps [OF ids kr, of e m i "''node_deploy_dual''" name "[show_int (fst (de_ports e)), show_int (snd (de_ports e))]"]
  have ks: "kept {v, w} False ?d2 (dy_db s)" using keeps(1) unfolding s rt .
  obtain x y where xy: "d_nodes (dy_db s) = d_nodes d @ [x, y]" "n_id x = v" "n_id y = w"
    using kept_new [OF ks ab(1) assms(3,4)] ab(2,3) by (auto simp: node_kept_def)
  have "\<exists>out err c. mc_start m = Inr (out, err) \<and> js_includes ''DEPLOY_OK'' out \<and> dy_written s = [XrayPush c] \<and>
      lets_in c = (if entitled_rows v (dy_db s) = {} then {de_uuid e} else uu_uuid ` entitled_rows v (dy_db s),
        if entitled_rows w (dy_db s) = {} then {de_secret e} else uu_uuid ` entitled_rows w (dy_db s))"
    if active: "n_is_active x \<or> n_is_active y"
  proof -
    have "\<exists>out err. r = Inr (out, err) \<and> js_includes ''DEPLOY_OK'' out"
    proof (rule ccontr)
      assume no: "\<not> ?thesis"
      have "kept {v, w} True ?d2 (dy_db s)" unfolding s rt by (rule keeps(2)) (use no in auto)
      from kept_new [OF this ab(1) assms(3,4)] xy(1) ab(4,5) active show False by (auto simp: node_kept_def)
    qed
    then obtain out err where o': "r = Inr (out, err)" "js_includes ''DEPLOY_OK'' out" by blast
    have "entitled_rows j (dy_db s) = entitled_rows j (dy_db t)" for j using kept_entitled [OF ks] kept_entitled [OF k] by simp
    moreover have "dy_written s = dy_written t" using keeps(3) unfolding s rt by simp
    moreover obtain c where "mc_start m = Inr (out, err)" "dy_written t = [XrayPush c]"
      "lets_in c = (if entitled_rows v (dy_db t) = {} then {de_uuid e} else uu_uuid ` entitled_rows v (dy_db t),
        if entitled_rows w (dy_db t) = {} then {de_secret e} else uu_uuid ` entitled_rows w (dy_db t))"
      using dual_steps_Inr [OF rt [unfolded o'(1)]] unfolding start_of_def by auto
    ultimately show ?thesis using o'(2) by (intro exI [of _ out] exI [of _ err] exI [of _ c] conjI) (simp_all only:)
  qed
  then show ?thesis using xy by blast
qed

definition sample_env :: deploy_env where
  "sample_env = \<lparr>de_enc = (\<lambda>x. x), de_dec = (\<lambda>x. x), de_tokens = (''t'', ''u''), de_ids = (7, 8), de_draws = [1 / 2], de_uuid = ''d'',
     de_ports = (2000, 3000), de_secret = ''p'', de_short_id = ''ab'', de_gen = (\<lambda>n u. ''x''), de_detect = (\<lambda>h. detectRegion None None None h),
     de_ws_url = ''wss:panel'', de_now = 0\<rparr>"

definition sample_machine :: machine where
  "sample_machine = \<lparr>mc_connect = (\<lambda>x. Inr ()), mc_ipv6 = Inr ''2001:db8::1'',
     mc_install = Inr \<lparr>ir_code = Some 0, ir_stdout = ''INSTALL_OK'', ir_stderr = []\<rparr>, mc_keys = Inr ''PrivateKey: k Public key: q'',
     mc_write = Inr (), mc_firewall = Inr (), mc_start = Inr (''DEPLOY_OK'', []), mc_agent = True\<rparr>"

lemma sample_keys: "read_keys ''PrivateKey: k Public key: q'' = Some (''k'', ''q'')"
  by code_simp

lemma sample_answers: "js_includes ''INSTALL_OK'' ''INSTALL_OK''" "js_includes ''DEPLOY_OK'' ''DEPLOY_OK''"
  "js_trim ''2001:db8::1'' = ''2001:db8::1''"
  by (simp_all add: js_starts_def js_trim_def js_space_def Let_def)

lemma sample_steps:
  "\<exists>t. dual_steps sample_env sample_machine sample_info 7 8 (start_of d) = (Inr (''DEPLOY_OK'', []), t)"
  by (simp add: dual_steps_def and_next_def answer_of_def raising_def change_db_def from_db_def writing_def connecting_def finding_ipv6_def
    installing_def making_keys_def assertInstallOk_def write_and_start_def sample_machine_def sample_answers sample_keys start_of_def del: js_includes.simps)

lemma sample_insert:
  "\<exists>name d1. insertDualNodesWithGeneratedName (\<lambda>x. x) (\<lambda>x. x) t (7, 8) (dual_vless_node sample_env sample_info) (ss_node sample_env sample_info p)
     (place_of sample_env sample_info) [1 / 2] sample_pair = Some (name, d1)"
proof -
  have e: "ge_emoji (place_of sample_env sample_info) \<noteq> [] \<and> \<not> js_space (hd (ge_emoji (place_of sample_env sample_info)))"
    using detect_emoji by (simp add: place_of_def sample_env_def resolveDeployGeo_def Let_def)
  let ?name = "generateNodeName (place_of sample_env sample_info) (map n_name (getAllNodes (\<lambda>x. x) False sample_pair)) (1 / 2)"
  have "?name \<notin> set (map n_name (getAllNodes (\<lambda>x. x) False sample_pair))" by (rule generated_shape(2) [OF e]) simp_all
  then have n: "?name \<notin> n_name ` set (d_nodes sample_pair)" by (simp only: all_names not_False_eq_True)
  have l: "length (ss_name x) = length x + 3" for x by (simp add: ss_name_def utf_def utf8_def)
  have "ss_name ?name \<noteq> ?name" using l [of ?name] by (metis add_eq_self_zero zero_neq_numeral)
  moreover have "length z = 1" if "z \<in> n_name ` set (d_nodes sample_pair)" for z using that by (auto simp: sample_node_def)
  then have "ss_name ?name \<notin> n_name ` set (d_nodes sample_pair)" using l [of ?name] by fastforce
  ultimately show ?thesis using n
    by (simp add: insertDualNodesWithGeneratedName_def addNode_def dual_vless_node_def vless_node_def ss_node_def base_node_def node_row_def Let_def del: sample_pair_simps)
qed

lemma active_step:
  assumes "n \<in> set (d_nodes (set_node j f d))" and "n_id n \<in> insert j A"
    and "\<And>n. n \<in> set (d_nodes d) \<Longrightarrow> n_id n \<in> A \<Longrightarrow> n_is_active n" and "\<And>n. n_id (f n) = n_id n \<and> n_is_active (f n)"
  shows "n_is_active n"
  using assms by (auto simp: set_node_def update_where_def split: if_splits)

lemma started_active:
  assumes "js_includes ''DEPLOY_OK'' out" and "n \<in> set (d_nodes (dy_db (finish_deploy e m i act [v, w] name args (Inr (out, err), t))))"
    and "n_id n = v \<or> n_id n = w"
  shows "n_is_active n"
proof -
  let ?f = "\<lambda>n. n\<lparr>n_is_active := True, n_remark := (if di_socks_host i = [] then [] else REMARK_HOME)\<rparr>"
  have a: "dy_db (installAgentOnNode e m j s) = dy_db s" for j s
    by (simp add: installAgentOnNode_def Let_def split: option.split)
  have n: "n \<in> set (d_nodes (set_node w ?f (set_node v ?f (dy_db t))))"
    using assms(1,2) by (simp add: finish_deploy_def deploy_started_def a note_deploy_def addAuditLog_def add_effect_def all_nodes_def)
  have v: "n_is_active k" if "k \<in> set (d_nodes (set_node v ?f (dy_db t)))" "n_id k \<in> {v}" for k
    by (rule active_step [OF that]) simp_all
  show ?thesis by (rule active_step [OF n, of "{v}"]) (use assms(3) v in auto)
qed

theorem dual_deployment_sound_witness:
  "\<exists>s c x y. deployDualNode sample_env sample_machine sample_info sample_pair = Some s \<and> d_nodes (dy_db s) = d_nodes sample_pair @ [x, y] \<and>
    n_id x = 7 \<and> n_id y = 8 \<and> n_is_active x \<and> dy_written s = [XrayPush c] \<and>
    lets_in c = (if entitled_rows 7 (dy_db s) = {} then {''d''} else uu_uuid ` entitled_rows 7 (dy_db s),
      if entitled_rows 8 (dy_db s) = {} then {''p''} else uu_uuid ` entitled_rows 8 (dy_db s))"
proof -
  have e: "de_ids sample_env = (7, 8)" "de_enc sample_env = (\<lambda>x. x)" "de_dec sample_env = (\<lambda>x. x)" "de_draws sample_env = [1 / 2]"
    "de_uuid sample_env = ''d''" "de_secret sample_env = ''p''" by (simp_all add: sample_env_def)
  obtain name d1 where ins: "insertDualNodesWithGeneratedName (\<lambda>x. x) (\<lambda>x. x) (de_tokens sample_env) (7, 8) (dual_vless_node sample_env sample_info)
      (ss_node sample_env sample_info (snd (de_ports sample_env))) (place_of sample_env sample_info) [1 / 2] sample_pair = Some (name, d1)"
    using sample_insert by blast
  let ?d2 = "ensureAllUsersHaveUuid (de_gen sample_env 8) 8 (ensureAllUsersHaveUuid (de_gen sample_env 7) 7 d1)"
  obtain t where t: "dual_steps sample_env sample_machine sample_info 7 8 (start_of ?d2) = (Inr (''DEPLOY_OK'', []), t)"
    using sample_steps by blast
  obtain s args where s: "deployDualNode sample_env sample_machine sample_info sample_pair = Some s"
    "s = finish_deploy sample_env sample_machine sample_info ''node_deploy_dual'' [7, 8] name args (Inr (''DEPLOY_OK'', []), t)"
    unfolding deployDualNode_def e by (simp add: ins t)
  have f: "7 \<notin> n_id ` set (d_nodes sample_pair)" "8 \<notin> n_id ` set (d_nodes sample_pair)" by auto
  obtain x y where xy: "d_nodes (dy_db s) = d_nodes sample_pair @ [x, y]" "n_id x = 7" "n_id y = 8"
    and c: "n_is_active x \<or> n_is_active y \<longrightarrow> (\<exists>out err c. mc_start sample_machine = Inr (out, err) \<and> js_includes ''DEPLOY_OK'' out \<and>
      dy_written s = [XrayPush c] \<and>
      lets_in c = (if entitled_rows 7 (dy_db s) = {} then {de_uuid sample_env} else uu_uuid ` entitled_rows 7 (dy_db s),
        if entitled_rows 8 (dy_db s) = {} then {de_secret sample_env} else uu_uuid ` entitled_rows 8 (dy_db s)))"
    using dual_deployment_sound [OF s(1) e(1) f] by blast
  have "x \<in> set (d_nodes (dy_db s))" using xy(1) by simp
  then have "n_is_active x" unfolding s(2) by (rule started_active [OF sample_answers(2)]) (simp add: xy(2))
  then show ?thesis using s(1) xy c unfolding e by blast
qed

end
