(* ===== verification/Rotate.thy ===== *)
theory Rotate
  imports Deploy Accounts NetUtils
begin

text \<open>
  The rotation of ports, credentials and subscription links (\<open>src/services/rotate.js\<close>) and the
  list of accounts an agent fetches for its node (\<open>src/routes/agentApi.js\<close>).

  Drawn are the ports (\<open>ports\<close>, of a node in a range), the credentials (\<open>gen\<close>, for a level and
  a row), the secrets of Hysteria nodes (\<open>secret\<close>) and the links (\<open>token\<close>). Other requests may
  change the database while a push is under way (\<open>during\<close>, after each node). A date is an ISO day; any other text is no date.
\<close>

section \<open>Due dates\<close>

text \<open>The days since a remembered date; nothing is due when one of the two is no date.\<close>

definition START_DATE :: string where "START_DATE = ''2000-01-01''"

definition days_since :: "string \<Rightarrow> string option \<Rightarrow> int option" where
  "days_since day before =
     (case (parse_iso_day day, parse_iso_day (or_else before START_DATE)) of (Some t, Some l) \<Rightarrow> Some (t - l) | _ \<Rightarrow> None)"

definition due :: "string \<Rightarrow> string option \<Rightarrow> int \<Rightarrow> bool" where
  "due day before days \<longleftrightarrow> 0 < days \<and> (case days_since day before of None \<Rightarrow> False | Some k \<Rightarrow> days \<le> k)"

section \<open>Ports\<close>

definition port_rotate_days :: "db \<Rightarrow> int" where
  "port_rotate_days d = (case getSetting d ''port_rotate_days'' of None \<Rightarrow> 1 | Some s \<Rightarrow> (case js_parse_int s of None \<Rightarrow> 1 | Some i \<Rightarrow> i))"

definition port_setting :: "string \<Rightarrow> int \<Rightarrow> db \<Rightarrow> int" where
  "port_setting key dflt d =
     (case getSetting d key of None \<Rightarrow> dflt | Some s \<Rightarrow> (case js_parse_int s of None \<Rightarrow> dflt | Some i \<Rightarrow> if i = 0 then dflt else i))"

text \<open>\<open>crypto.randomInt\<close> raises on an empty range and on one of more than 48 bits.\<close>

definition randomPort :: "(int \<Rightarrow> int \<Rightarrow> int) \<Rightarrow> int \<Rightarrow> int \<Rightarrow> int option" where
  "randomPort draw lo hi = (if lo < hi + 1 \<and> hi + 1 - lo < 2 ^ 48 then Some (draw lo hi) else None)"

text \<open>\<open>None\<close>: the draw raised; the nodes before it have their new port.\<close>

fun rotate_ports :: "(int \<Rightarrow> int \<Rightarrow> int \<Rightarrow> int) \<Rightarrow> int \<Rightarrow> node list \<Rightarrow> db \<Rightarrow> bool \<times> db" where
  "rotate_ports ports now [] d = (True, d)"
| "rotate_ports ports now (n # ns) d =
     (case randomPort (ports (n_id n)) (port_setting ''rotate_port_min'' 10000 d) (port_setting ''rotate_port_max'' 60000 d) of
        None \<Rightarrow> (False, d)
      | Some p \<Rightarrow> rotate_ports ports now ns (updateNodeAfterRotation (n_id n) (n_uuid n) p (n_protocol n) now d))"

section \<open>Credentials\<close>

datatype group_outcome = Skipped | Waiting | Redrawn nat

definition last_uuid_key :: "int \<Rightarrow> string" where
  "last_uuid_key level = ''group_'' @ show_int level @ ''_last_uuid_rotate''"

definition rotate_group ::
  "(int \<Rightarrow> int \<Rightarrow> string) \<Rightarrow> string \<Rightarrow> int list \<Rightarrow> group_reset \<Rightarrow> (int \<times> group_outcome) list \<times> db \<Rightarrow> (int \<times> group_outcome) list \<times> db" where
  "rotate_group gen day ids g acc =
     (case acc of (os, d) \<Rightarrow>
        let l = gr_level g
        in if gr_uuid_days g \<le> 0 then (os @ [(l, Skipped)], d)
           else if due day (getSetting d (last_uuid_key l)) (gr_uuid_days g)
           then let (count, d1) = rotateUserNodeUuidsByNodeIdsAndLevels (gen l) ids [l] d
                in (os @ [(l, Redrawn count)], setSetting (last_uuid_key l) day d1)
           else (os @ [(l, Waiting)], d))"

definition redrawn_count :: "(int \<times> group_outcome) list \<Rightarrow> nat" where
  "redrawn_count os = sum_list (map (\<lambda>(l, x). case x of Redrawn c \<Rightarrow> c | _ \<Rightarrow> 0) os)"

section \<open>The rotation\<close>

record rotation_draws =
  rd_ports :: "int \<Rightarrow> int \<Rightarrow> int \<Rightarrow> int"
  rd_uuids :: "int \<Rightarrow> int \<Rightarrow> string"
  rd_secret :: "int \<Rightarrow> string"
  rd_token :: "int \<Rightarrow> string"

definition automatic_nodes :: "cipher \<Rightarrow> db \<Rightarrow> node list" where
  "automatic_nodes dec d = filter (\<lambda>n. \<not> n_is_manual n) (getAllNodes dec True d)"

text \<open>Up to the pushes: whether the ports were changed and what became of the groups; \<open>None\<close> when a draw raised.\<close>

definition rotate_rows :: "cipher \<Rightarrow> rotation_draws \<Rightarrow> int \<Rightarrow> db \<Rightarrow> (bool \<times> (int \<times> group_outcome) list) option \<times> db" where
  "rotate_rows dec r now d =
     (let nodes = automatic_nodes dec d; day = dateKeyInTimeZone now;
          ported = due day (getSetting d ''last_port_rotate'') (port_rotate_days d);
          (ok, d1) = (if ported then rotate_ports (rd_ports r) now nodes d else (True, d))
      in if \<not> ok then (None, d1)
         else let d2 = (if ported then setSetting ''last_port_rotate'' day d1 else d1);
                  (os, d3) = fold (rotate_group (rd_uuids r) day (map n_id nodes)) (getGroupResetConfig d2) ([], d2)
              in (Some (ported, os), d3))"

text \<open>One node after the other; a node that is gone by then counts as failed.\<close>

fun push_nodes ::
  "cipher \<Rightarrow> cipher \<Rightarrow> (int \<Rightarrow> string) \<Rightarrow> (int \<Rightarrow> route_to option) \<Rightarrow> (int \<Rightarrow> db \<Rightarrow> db) \<Rightarrow> int list \<Rightarrow>
   db \<times> (int \<times> pushed) list \<times> bool list \<Rightarrow> db \<times> (int \<times> pushed) list \<times> bool list" where
  "push_nodes enc dec secret to during [] acc = acc"
| "push_nodes enc dec secret to during (i # is) (d, ps, oks) =
     push_nodes enc dec secret to during is
       (case (case getNodeById dec i d of
                None \<Rightarrow> (d, ps, oks @ [False])
              | Some n \<Rightarrow> sync_one enc dec secret to n (d, ps, oks)) of
          (d1, ps1, oks1) \<Rightarrow> (during i d1, ps1, oks1))"

record rotation =
  ro_success :: nat
  ro_failed :: nat
  ro_uuids :: nat
  ro_ports :: bool
  ro_tokens :: nat
  ro_pushes :: "(int \<times> pushed) list"

definition rotateCore ::
  "cipher \<Rightarrow> cipher \<Rightarrow> rotation_draws \<Rightarrow> (int \<Rightarrow> route_to option) \<Rightarrow> (int \<Rightarrow> db \<Rightarrow> db) \<Rightarrow> int \<Rightarrow> db \<Rightarrow> rotation option \<times> db" where
  "rotateCore enc dec r to during now d =
     (case rotate_rows dec r now d of
        (None, d1) \<Rightarrow> (None, d1)
      | (Some (ported, os), d1) \<Rightarrow>
          (case push_nodes enc dec (rd_secret r) to during (map n_id (automatic_nodes dec d)) (d1, [], []) of
             (d2, ps, oks) \<Rightarrow>
               (Some \<lparr>ro_success = length (filter id oks), ro_failed = length (filter Not oks), ro_uuids = redrawn_count os,
                  ro_ports = ported, ro_tokens = 0, ro_pushes = ps\<rparr>, d2)))"

section \<open>Links\<close>

definition shouldResetToken :: "user \<Rightarrow> string \<Rightarrow> int \<Rightarrow> bool" where
  "shouldResetToken u day subDays \<longleftrightarrow> due day (u_last_token_reset u) subDays"

definition group_of :: "user \<Rightarrow> nat" where
  "group_of u = nat (min (max (u_trust_level u) 0) 3)"

definition sub_days_of :: "group_reset list \<Rightarrow> user \<Rightarrow> int" where
  "sub_days_of cfg u = gr_sub_days (cfg ! group_of u)"

definition reset_link :: "(int \<Rightarrow> string) \<Rightarrow> string \<Rightarrow> user \<Rightarrow> db \<Rightarrow> db" where
  "reset_link token day u d =
     update_user (u_id u) (\<lambda>x. x\<lparr>u_last_token_reset := Some day\<rparr>) (snd (resetSubToken (token (u_id u)) (u_id u) d))"

definition note_rotation :: "int \<Rightarrow> string \<Rightarrow> string list \<Rightarrow> rotation \<Rightarrow> db \<Rightarrow> db" where
  "note_rotation now action extra c d =
     add_effect (Notify ''rotate'' [show_nat (ro_success c), show_nat (ro_failed c), show_nat (ro_uuids c), show_nat (ro_tokens c)])
       (addAuditLog now None action
          ([show_nat (ro_success c), show_nat (ro_failed c), if ro_ports c then ''done'' else ''skipped'', show_nat (ro_uuids c)] @ extra) ''system'' d)"

text \<open>Link resets: the links of each group that were reset, and the accounts that are never reset.\<close>

definition rotateAll ::
  "cipher \<Rightarrow> cipher \<Rightarrow> rotation_draws \<Rightarrow> (int \<Rightarrow> route_to option) \<Rightarrow> (int \<Rightarrow> db \<Rightarrow> db) \<Rightarrow> int \<Rightarrow> int \<Rightarrow> db \<Rightarrow> rotation option \<times> db" where
  "rotateAll enc dec r to during now later d =
     (case rotateCore enc dec r to during now d of
        (None, d1) \<Rightarrow> (None, d1)
      | (Some core, d1) \<Rightarrow>
          let day = dateKeyInTimeZone later; users = map fst (getAllUsers d1); cfg = getGroupResetConfig d1;
              hit = filter (\<lambda>u. shouldResetToken u day (sub_days_of cfg u)) users;
              d2 = fold (reset_link (rd_token r) day) hit d1;
              c = core\<lparr>ro_tokens := length hit\<rparr>;
              per_group = map (\<lambda>g. show_nat (length (filter (\<lambda>u. int (group_of u) = gr_level g) hit))) cfg;
              never = length (filter (\<lambda>u. sub_days_of cfg u \<le> 0) users)
          in (Some c, note_rotation later ''auto_rotate'' (show_nat (length hit) # per_group @ [show_nat never]) c d2))"

definition rotateManual ::
  "cipher \<Rightarrow> cipher \<Rightarrow> rotation_draws \<Rightarrow> (int \<Rightarrow> route_to option) \<Rightarrow> (int \<Rightarrow> db \<Rightarrow> db) \<Rightarrow> int \<Rightarrow> int \<Rightarrow> db \<Rightarrow> rotation option \<times> db" where
  "rotateManual enc dec r to during now later d =
     (case rotateCore enc dec r to during now d of
        (None, d1) \<Rightarrow> (None, d1)
      | (Some core, d1) \<Rightarrow> (Some core, note_rotation later ''manual_rotate'' [] core d1))"

section \<open>The accounts of a node\<close>

definition bearer_token :: "string option \<Rightarrow> string" where
  "bearer_token h =
     (let auth = (case h of None \<Rightarrow> [] | Some a \<Rightarrow> a) in if js_starts ''Bearer '' auth then js_trim (drop 7 auth) else [])"

definition token_candidates :: "string \<Rightarrow> db \<Rightarrow> (int \<times> string) list" where
  "token_candidates token d =
     concat (map (\<lambda>n. case n_agent_token n of None \<Rightarrow> [] | Some t \<Rightarrow> if length t = length token then [(n_id n, t)] else []) (d_nodes d))"

definition resolveNodeIdByAgentToken :: "(string \<Rightarrow> string) \<Rightarrow> string \<Rightarrow> db \<Rightarrow> int option" where
  "resolveNodeIdByAgentToken sha token d =
     (if token = [] then None else map_option fst (find (\<lambda>(i, t). safeTokenEqual sha token t) (token_candidates token d)))"

datatype agent_reply = Unauthorized | Forbidden | AgentFile | NodeUsers int "(int \<times> string \<times> string) list"

definition agent_download :: "(string \<Rightarrow> string) \<Rightarrow> string option \<Rightarrow> db \<Rightarrow> agent_reply" where
  "agent_download sha h d =
     (let token = bearer_token h
      in if token = [] then Unauthorized
         else if \<not> list_ex (\<lambda>(i, t). safeTokenEqual sha token t) (token_candidates token d) then Forbidden
         else AgentFile)"

definition agent_users :: "(string \<Rightarrow> string) \<Rightarrow> (int \<Rightarrow> int \<Rightarrow> string) \<Rightarrow> string option \<Rightarrow> db \<Rightarrow> agent_reply \<times> db" where
  "agent_users sha gen h d =
     (let token = bearer_token h
      in if token = [] then (Unauthorized, d)
         else case resolveNodeIdByAgentToken sha token d of
                None \<Rightarrow> (Forbidden, d)
              | Some i \<Rightarrow>
                  let d1 = ensureAllUsersHaveUuid (gen i) i d
                  in (NodeUsers i (map (\<lambda>(r, name). (uu_user r, uu_uuid r, name)) (getNodeAllUserUuids i d1)), d1))"

end
