(* ===== verification/RotateProps.thy ===== *)
theory RotateProps
  imports Rotate DeployProps
begin

text \<open>
  Properties of the rotation: which credentials are redrawn, that a second rotation of the day redraws
  none, that the nodes are pushed what is left in the database, and who is on the list of an agent.
\<close>

section \<open>Credentials\<close>

text \<open>The group of the account of a credential, and whether it is due.\<close>

definition level_at :: "db \<Rightarrow> uuid_row \<Rightarrow> int option" where
  "level_at d x = map_option u_trust_level (user_by_id d (uu_user x))"

definition group_due :: "db \<Rightarrow> string \<Rightarrow> group_reset \<Rightarrow> bool" where
  "group_due d day g \<longleftrightarrow> due day (getSetting d (last_uuid_key (gr_level g))) (gr_uuid_days g)"

definition owner_due :: "db \<Rightarrow> string \<Rightarrow> group_reset list \<Rightarrow> uuid_row \<Rightarrow> bool" where
  "owner_due d day gs x \<longleftrightarrow> (\<exists>g \<in> set gs. level_at d x = Some (gr_level g) \<and> group_due d day g)"

definition redraw :: "(int \<Rightarrow> int \<Rightarrow> string) \<Rightarrow> int set \<Rightarrow> (uuid_row \<Rightarrow> bool) \<Rightarrow> db \<Rightarrow> uuid_row \<Rightarrow> uuid_row" where
  "redraw gen ids P d x = (if uu_node x \<in> ids \<and> P x then x\<lparr>uu_uuid := gen (the (level_at d x)) (uu_id x)\<rparr> else x)"

lemma redraw_sel [simp]: "uu_id (redraw gen ids P d x) = uu_id x" "uu_user (redraw gen ids P d x) = uu_user x"
  "uu_node (redraw gen ids P d x) = uu_node x"
  by (simp_all add: redraw_def)

lemma redraw_not: "\<not> P x \<Longrightarrow> redraw gen ids P d x = x"
  by (simp add: redraw_def)

lemma show_int_inj: "show_int i = show_int j \<Longrightarrow> 0 \<le> i \<Longrightarrow> 0 \<le> j \<Longrightarrow> i = j"
  by (auto simp: show_int_nat dest: show_nat_inj)

lemma group_keys: "last_uuid_key i = last_uuid_key j \<Longrightarrow> 0 \<le> i \<Longrightarrow> 0 \<le> j \<Longrightarrow> i = j"
  by (auto simp: last_uuid_key_def intro: show_int_inj)

lemma levels_by_users: "d_users d' = d_users d \<Longrightarrow> level_at d' = level_at d"
  by (simp add: level_at_def user_by_id_def fun_eq_iff)

lemma rotate_group_step:
  assumes "rotate_group gen day ids g (os, d) = (os', d')" and "distinct (map uu_id (d_uuids d))"
  shows "d_uuids d' = map (redraw gen (set ids) (\<lambda>x. level_at d x = Some (gr_level g) \<and> group_due d day g) d) (d_uuids d)"
    "d_users d' = d_users d" "d_nodes d' = d_nodes d"
    "d_settings d' = (if group_due d day g then d_settings (setSetting (last_uuid_key (gr_level g)) day d) else d_settings d)"
proof -
  let ?P = "\<lambda>r. uu_node r \<in> set ids \<and> (case user_by_id d (uu_user r) of None \<Rightarrow> False | Some u \<Rightarrow> u_trust_level u \<in> set [gr_level g])"
  have all: "d_uuids d' = map (redraw gen (set ids) (\<lambda>x. level_at d x = Some (gr_level g) \<and> group_due d day g) d) (d_uuids d) \<and>
    d_users d' = d_users d \<and> d_nodes d' = d_nodes d \<and>
    d_settings d' = (if group_due d day g then d_settings (setSetting (last_uuid_key (gr_level g)) day d) else d_settings d)"
  proof (cases "group_due d day g")
    case False
    then have "d' = d" using assms(1) by (auto simp: rotate_group_def group_due_def Let_def split: if_splits)
    moreover have "redraw gen (set ids) (\<lambda>x. level_at d x = Some (gr_level g) \<and> group_due d day g) d = (\<lambda>x. x)"
      using False by (simp add: redraw_def fun_eq_iff)
    ultimately show ?thesis using False by simp
  next
    case True
    then have "0 < gr_uuid_days g" by (simp add: group_due_def due_def)
    then have d': "d' = setSetting (last_uuid_key (gr_level g)) day (snd (rotateUserNodeUuidsByNodeIdsAndLevels (gen (gr_level g)) ids [gr_level g] d))"
      using assms(1) True by (auto simp: rotate_group_def group_due_def Let_def split: prod.splits)
    show ?thesis
    proof (cases "ids = []")
      case True
      then show ?thesis using \<open>group_due d day g\<close> d'
        by (simp add: rotateUserNodeUuidsByNodeIdsAndLevels_def setSetting_def redraw_def cong: map_cong)
    next
      case False
      have "(if ?P x then x\<lparr>uu_uuid := gen (gr_level g) (uu_id x)\<rparr> else x) =
          redraw gen (set ids) (\<lambda>x. level_at d x = Some (gr_level g) \<and> group_due d day g) d x" for x
        using \<open>group_due d day g\<close> by (auto simp: redraw_def level_at_def split: option.splits)
      then show ?thesis using False \<open>group_due d day g\<close> d' rotate_where_uuids [OF assms(2), of ?P "gen (gr_level g)"]
        by (simp add: rotateUserNodeUuidsByNodeIdsAndLevels_def setSetting_def cong: map_cong)
    qed
  qed
  then show "d_uuids d' = map (redraw gen (set ids) (\<lambda>x. level_at d x = Some (gr_level g) \<and> group_due d day g) d) (d_uuids d)"
    "d_users d' = d_users d" "d_nodes d' = d_nodes d"
    "d_settings d' = (if group_due d day g then d_settings (setSetting (last_uuid_key (gr_level g)) day d) else d_settings d)"
    by blast+
qed

lemma rotate_groups:
  assumes "fold (rotate_group gen day ids) gs (os, d) = (os', d')" and "distinct (map uu_id (d_uuids d))"
    and "distinct (map gr_level gs)" and "\<And>g. g \<in> set gs \<Longrightarrow> 0 \<le> gr_level g"
  shows "d_uuids d' = map (redraw gen (set ids) (owner_due d day gs) d) (d_uuids d) \<and> d_users d' = d_users d \<and> d_nodes d' = d_nodes d"
  using assms
proof (induction gs arbitrary: os d)
  case Nil
  then show ?case by (simp add: redraw_def owner_due_def cong: map_cong)
next
  case (Cons g gs)
  obtain o1 d1 where 1: "rotate_group gen day ids g (os, d) = (o1, d1)" by (cases "rotate_group gen day ids g (os, d)")
  note s = rotate_group_step [OF 1 Cons.prems(2)]
  have dist: "distinct (map uu_id (d_uuids d1))" using Cons.prems(2) by (simp add: s(1) comp_def)
  have rest: "fold (rotate_group gen day ids) gs (o1, d1) = (os', d')" using Cons.prems(1) 1 by simp
  have ih: "d_uuids d' = map (redraw gen (set ids) (owner_due d1 day gs) d1) (d_uuids d1) \<and> d_users d' = d_users d1 \<and> d_nodes d' = d_nodes d1"
    using Cons.IH [OF rest dist] Cons.prems(3,4) by simp
  have lv: "level_at d1 = level_at d" by (rule levels_by_users [OF s(2)])
  have fresh: "gr_level g \<notin> gr_level ` set gs" using Cons.prems(3) by simp
  have gd: "group_due d1 day h = group_due d day h" if h: "h \<in> set gs" for h
  proof -
    have "gr_level h \<noteq> gr_level g" using fresh h by (metis imageI)
    then have "last_uuid_key (gr_level h) \<noteq> last_uuid_key (gr_level g)" using group_keys Cons.prems(4) h by (metis list.set_intros)
    then have "getSetting d1 (last_uuid_key (gr_level h)) = getSetting d (last_uuid_key (gr_level h))"
      using s(4) getSetting_setSetting [of "last_uuid_key (gr_level g)" day d] by (auto simp: getSetting_def split: if_splits)
    then show ?thesis by (simp add: group_due_def)
  qed
  have od: "owner_due d1 day gs x = owner_due d day gs x" for x using gd by (auto simp: owner_due_def lv)
  have none: "\<not> owner_due d day gs x" if "level_at d x = Some (gr_level g)" for x
    using that fresh unfolding owner_due_def by (metis imageI option.inject)
  have "redraw gen (set ids) (owner_due d1 day gs) d1 (redraw gen (set ids) (\<lambda>x. level_at d x = Some (gr_level g) \<and> group_due d day g) d x) =
      redraw gen (set ids) (owner_due d day (g # gs)) d x" for x
  proof (cases "uu_node x \<in> set ids \<and> level_at d x = Some (gr_level g) \<and> group_due d day g")
    case True
    let ?y = "x\<lparr>uu_uuid := gen (gr_level g) (uu_id x)\<rparr>"
    have "level_at d ?y = level_at d x" by (simp add: level_at_def)
    then have n: "\<not> owner_due d1 day gs ?y" using none [of ?y] True od by simp
    have "redraw gen (set ids) (\<lambda>x. level_at d x = Some (gr_level g) \<and> group_due d day g) d x = ?y" using True by (simp add: redraw_def)
    moreover have "redraw gen (set ids) (owner_due d day (g # gs)) d x = ?y" using True by (simp add: redraw_def owner_due_def)
    ultimately show ?thesis using redraw_not [where P = "owner_due d1 day gs", OF n] by simp
  next
    case False
    then have "redraw gen (set ids) (\<lambda>x. level_at d x = Some (gr_level g) \<and> group_due d day g) d x = x" by (auto simp: redraw_def)
    moreover have "uu_node x \<in> set ids \<Longrightarrow> owner_due d day (g # gs) x = owner_due d day gs x" using False by (auto simp: owner_due_def)
    ultimately show ?thesis using od by (auto simp: redraw_def lv)
  qed
  then show ?case using ih s by (simp add: comp_def)
qed

lemma rotate_ports_keeps:
  assumes "rotate_ports ports now ns d = (ok, d')"
  shows "d_uuids d' = d_uuids d \<and> d_users d' = d_users d \<and> d_settings d' = d_settings d \<and>
    map n_id (d_nodes d') = map n_id (d_nodes d)"
  using assms
proof (induction ns arbitrary: d)
  case (Cons n ns)
  have u: "d_uuids (updateNodeAfterRotation i u p r t d) = d_uuids d \<and> d_users (updateNodeAfterRotation i u p r t d) = d_users d \<and>
    d_settings (updateNodeAfterRotation i u p r t d) = d_settings d \<and> map n_id (d_nodes (updateNodeAfterRotation i u p r t d)) = map n_id (d_nodes d)"
    for i u p r t by (simp add: updateNodeAfterRotation_def update_where_def comp_def cong: map_cong)
  show ?case using Cons.prems Cons.IH u by (auto split: option.splits)
qed simp

lemma config_by_settings:
  assumes "\<And>i. getSetting d' (''group_'' @ show_nat i @ ''_uuid_days'') = getSetting d (''group_'' @ show_nat i @ ''_uuid_days'')"
    and "\<And>i. getSetting d' (''group_'' @ show_nat i @ ''_sub_days'') = getSetting d (''group_'' @ show_nat i @ ''_sub_days'')"
  shows "getGroupResetConfig d' = getGroupResetConfig d"
proof -
  have "group_setting d' i ''_uuid_days'' = group_setting d i ''_uuid_days''" "group_setting d' i ''_sub_days'' = group_setting d i ''_sub_days''" for i
    unfolding group_setting_def assms(1) assms(2) by (rule refl)+
  then show ?thesis unfolding getGroupResetConfig_def by presburger
qed

lemma config_key [simp]: "''group_'' @ s @ ''_uuid_days'' \<noteq> last_uuid_key l" "''group_'' @ s @ ''_sub_days'' \<noteq> last_uuid_key l"
  "''port_rotate_days'' \<noteq> last_uuid_key l" "''last_port_rotate'' \<noteq> last_uuid_key l"
proof -
  show "''group_'' @ s @ ''_uuid_days'' \<noteq> last_uuid_key l" "''group_'' @ s @ ''_sub_days'' \<noteq> last_uuid_key l"
    by (rule notI, drule arg_cong [where f = last], simp add: last_uuid_key_def)+
  show "''port_rotate_days'' \<noteq> last_uuid_key l" "''last_port_rotate'' \<noteq> last_uuid_key l" by (simp_all add: last_uuid_key_def)
qed

lemma port_key [simp]:
  "(''group_'' @ s = ''last_port_rotate'') = False" "(''last_port_rotate'' = ''group_'' @ s) = False"
  "(last_uuid_key l = ''last_port_rotate'') = False"
  by (simp_all add: last_uuid_key_def)

lemma levels_ok: "distinct (map gr_level (getGroupResetConfig d))" "g \<in> set (getGroupResetConfig d) \<Longrightarrow> 0 \<le> gr_level g"
  by (auto simp: getGroupResetConfig_def)

text \<open>The parts of a rotation up to the pushes.\<close>

lemma rotate_rows_parts:
  assumes "rotate_rows dec r now d = (Some (ported, os), d')"
  obtains d2 where "d_uuids d2 = d_uuids d" "d_users d2 = d_users d" "map n_id (d_nodes d2) = map n_id (d_nodes d)"
    "getGroupResetConfig d2 = getGroupResetConfig d" "\<And>l. getSetting d2 (last_uuid_key l) = getSetting d (last_uuid_key l)"
    "fold (rotate_group (rd_uuids r) (dateKeyInTimeZone now) (map n_id (automatic_nodes dec d))) (getGroupResetConfig d) ([], d2) = (os, d')"
    "ported = due (dateKeyInTimeZone now) (getSetting d ''last_port_rotate'') (port_rotate_days d)"
    "\<And>k. getSetting d2 k = (if ported \<and> k = ''last_port_rotate'' then Some (dateKeyInTimeZone now) else getSetting d k)"
proof -
  let ?day = "dateKeyInTimeZone now" and ?nodes = "automatic_nodes dec d"
  let ?ported = "due ?day (getSetting d ''last_port_rotate'') (port_rotate_days d)"
  obtain ok d1 where 1: "(if ?ported then rotate_ports (rd_ports r) now ?nodes d else (True, d)) = (ok, d1)" by (metis surj_pair)
  let ?d2 = "if ?ported then setSetting ''last_port_rotate'' ?day d1 else d1"
  have p: "ported = ?ported" and f: "fold (rotate_group (rd_uuids r) ?day (map n_id ?nodes)) (getGroupResetConfig ?d2) ([], ?d2) = (os, d')"
    using assms 1 by (auto simp: rotate_rows_def Let_def split: if_splits prod.splits)
  have k: "d_uuids d1 = d_uuids d \<and> d_users d1 = d_users d \<and> d_settings d1 = d_settings d \<and> map n_id (d_nodes d1) = map n_id (d_nodes d)"
    using 1 rotate_ports_keeps by (auto split: if_splits)
  then have g: "getSetting ?d2 x = (if ported \<and> x = ''last_port_rotate'' then Some ?day else getSetting d x)" for x
    using p getSetting_setSetting [of "''last_port_rotate''" ?day d1 x] by (auto simp: getSetting_def)
  have c: "getGroupResetConfig ?d2 = getGroupResetConfig d" by (rule config_by_settings) (simp_all add: g)
  show thesis
    by (rule that [of ?d2]) (use k c g f p in \<open>auto simp: setSetting_def\<close>)
qed

text \<open>C18: A rotation redraws exactly the credentials at automatic nodes in service of the accounts whose group is
  due, one draw each; every other credential, and who has one where, stays as it is.\<close>

theorem rotation_redraws_due:
  assumes "rotate_rows dec r now d = (Some (ported, os), d')" and "distinct (map uu_id (d_uuids d))"
  shows "d_users d' = d_users d \<and>
    d_uuids d' = map (redraw (rd_uuids r) (n_id ` set (automatic_nodes dec d))
      (owner_due d (dateKeyInTimeZone now) (getGroupResetConfig d)) d) (d_uuids d)"
proof -
  obtain d2 where d2: "d_uuids d2 = d_uuids d" "d_users d2 = d_users d"
    "\<And>l. getSetting d2 (last_uuid_key l) = getSetting d (last_uuid_key l)"
    and f: "fold (rotate_group (rd_uuids r) (dateKeyInTimeZone now) (map n_id (automatic_nodes dec d))) (getGroupResetConfig d) ([], d2) = (os, d')"
    by (rule rotate_rows_parts [OF assms(1)]) blast
  have "owner_due d2 day gs = owner_due d day gs" "level_at d2 = level_at d" for day gs
    using d2(3) levels_by_users [OF d2(2)] by (simp_all add: owner_due_def group_due_def fun_eq_iff)
  moreover have "redraw gen ids P d2 = redraw gen ids P d" for gen ids P
    using levels_by_users [OF d2(2)] by (simp add: redraw_def fun_eq_iff)
  ultimately show ?thesis using rotate_groups [OF f] assms(2) d2(1,2) levels_ok by simp
qed

definition sample_draws :: rotation_draws where
  "sample_draws = \<lparr>rd_ports = (\<lambda>i lo hi. lo), rd_uuids = (\<lambda>l i. ''new''), rd_secret = (\<lambda>i. ''s''), rd_token = (\<lambda>u. ''link'')\<rparr>"

lemma sample_day: "dateKeyInTimeZone 1704067200000 = ''2024-01-01''" "parse_iso_day ''2024-01-01'' = Some 19723" "parse_iso_day START_DATE = Some 10957"
  by code_simp+

lemma sample_settings [simp]: "d_settings sample_pair = []" "d_settings (setSetting k v d) = AList.update k v (d_settings d)"
  by (simp_all add: sample_pair_def sample_db_def empty_db_def setSetting_def)

lemma sample_config:
  "getGroupResetConfig sample_pair = map (\<lambda>i. \<lparr>gr_level = int i, gr_uuid_days = fst (GROUP_RESET_DEFAULTS ! i), gr_sub_days = snd (GROUP_RESET_DEFAULTS ! i)\<rparr>) [0, 1, 2, 3]"
  by (simp add: getGroupResetConfig_def group_setting_def getSetting_def)

lemma sample_rotation: "\<exists>ported os d'. rotate_rows (\<lambda>x. x) sample_draws 1704067200000 sample_pair = (Some (ported, os), d')"
proof -
  have p: "fst (rotate_ports (rd_ports sample_draws) t ns d) = True" if "d_settings d = []" for t ns d
    using that
    by (induction ns arbitrary: d) (auto simp: randomPort_def port_setting_def getSetting_def updateNodeAfterRotation_def)
  then obtain d1 where q: "rotate_ports (rd_ports sample_draws) 1704067200000 (automatic_nodes (\<lambda>x. x) sample_pair) sample_pair = (True, d1)"
    by (metis prod.collapse sample_settings(1))
  show ?thesis by (auto simp: rotate_rows_def Let_def q split: prod.splits)
qed

theorem rotation_redraws_due_witness:
  "\<exists>ported os d'. rotate_rows (\<lambda>x. x) sample_draws 1704067200000 sample_pair = (Some (ported, os), d') \<and>
    map uu_uuid (d_uuids d') = [''a'', ''new'', ''c'', ''new'']"
proof -
  obtain ported os d' where r: "rotate_rows (\<lambda>x. x) sample_draws 1704067200000 sample_pair = (Some (ported, os), d')"
    using sample_rotation by blast
  have ids: "n_id ` set (automatic_nodes (\<lambda>x. x) sample_pair) = {5, 6}"
    by (auto simp: automatic_nodes_def getAllNodes_def by_region_name_def sample_node_def decryptNode_def image_iff)
  have g: "owner_due sample_pair ''2024-01-01'' (getGroupResetConfig sample_pair) x \<longleftrightarrow> uu_user x = 2" if "x \<in> set (d_uuids sample_pair)" for x
    using that by (auto simp: owner_due_def sample_config GROUP_RESET_DEFAULTS_def level_at_def group_due_def due_def days_since_def
        getSetting_def sample_day or_else_def)
  have "d_uuids d' = map (redraw (rd_uuids sample_draws) {5, 6} (owner_due sample_pair ''2024-01-01'' (getGroupResetConfig sample_pair)) sample_pair) (d_uuids sample_pair)"
    using rotation_redraws_due [OF r] unfolding ids sample_day by simp
  then have "map uu_uuid (d_uuids d') = [''a'', ''new'', ''c'', ''new'']"
    using g by (simp add: redraw_def sample_draws_def)
  with r show ?thesis by (intro exI conjI)
qed

section \<open>Once a day\<close>

lemma due_same_day: "parse_iso_day day = Some z \<Longrightarrow> \<not> due day (Some day) k"
  by (auto simp: due_def days_since_def or_else_def parse_iso_day_def split: option.splits list.splits)

lemma rotate_groups_done:
  assumes "fold (rotate_group gen day ids) gs (os, d) = (os', d')" and "distinct (map uu_id (d_uuids d))"
    and "distinct (map gr_level gs)" and "\<And>g. g \<in> set gs \<Longrightarrow> 0 \<le> gr_level g" and "parse_iso_day day = Some z"
  shows "(\<forall>g\<in>set gs. \<not> group_due d' day g) \<and>
    (\<forall>k. k \<notin> last_uuid_key ` gr_level ` set gs \<longrightarrow> getSetting d' k = getSetting d k)"
  using assms
proof (induction gs arbitrary: os d)
  case (Cons g gs)
  obtain o1 d1 where 1: "rotate_group gen day ids g (os, d) = (o1, d1)" by (cases "rotate_group gen day ids g (os, d)")
  note s = rotate_group_step [OF 1 Cons.prems(2)]
  have dist: "distinct (map uu_id (d_uuids d1))" using Cons.prems(2) by (simp add: s(1) comp_def)
  have rest: "fold (rotate_group gen day ids) gs (o1, d1) = (os', d')" using Cons.prems(1) 1 by simp
  have ih: "(\<forall>g\<in>set gs. \<not> group_due d' day g) \<and> (\<forall>k. k \<notin> last_uuid_key ` gr_level ` set gs \<longrightarrow> getSetting d' k = getSetting d1 k)"
    using Cons.IH [OF rest dist] Cons.prems(3,4,5) by simp
  have set1: "getSetting d1 k = (if group_due d day g \<and> k = last_uuid_key (gr_level g) then Some day else getSetting d k)" for k
    using s(4) getSetting_setSetting [of "last_uuid_key (gr_level g)" day d k] by (auto simp: getSetting_def)
  have "last_uuid_key (gr_level g) \<notin> last_uuid_key ` gr_level ` set gs"
  proof
    assume "last_uuid_key (gr_level g) \<in> last_uuid_key ` gr_level ` set gs"
    then obtain h where "h \<in> set gs" "last_uuid_key (gr_level g) = last_uuid_key (gr_level h)" by auto
    then have "gr_level g = gr_level h" using group_keys Cons.prems(4) by (metis list.set_intros)
    then show False using \<open>h \<in> set gs\<close> Cons.prems(3) by simp
  qed
  then have "getSetting d' (last_uuid_key (gr_level g)) = getSetting d1 (last_uuid_key (gr_level g))" using ih by blast
  then have "\<not> group_due d' day g" using due_same_day [OF Cons.prems(5)] unfolding group_due_def set1 by (simp add: group_due_def)
  then show ?case using ih set1 by auto
qed simp


lemma sync_kept:
  assumes "syncNodeConfig enc dec x n d = (p, d')"
  shows "kept UNIV True d d'" "d_settings d' = d_settings d"
proof -
  have "d' = d \<or> (\<exists>y. d' = set_node (n_id n) (\<lambda>m. m\<lparr>n_hy2_stats_secret := y\<rparr>) d)"
    using assms by (auto simp: syncNodeConfig_def set_node_def Let_def split: if_splits)
  then show "kept UNIV True d d'" "d_settings d' = d_settings d"
    by (auto simp: set_node_def intro!: kept_set_node [unfolded set_node_def])
qed

lemma push_settings:
  assumes "push_nodes enc dec secret to during is (d, ps, oks) = (d', ps', oks')" and "\<And>i d. d_settings (during i d) = d_settings d"
  shows "d_settings d' = d_settings d"
  using assms(1)
proof (induction "is" arbitrary: d ps oks)
  case (Cons i js)
  show ?case
  proof (cases "getNodeById dec i d")
    case None
    then show ?thesis using Cons.prems Cons.IH assms(2) by simp
  next
    case (Some n)
    obtain p d1 where "syncNodeConfig enc dec (secret (n_id n)) n d = (p, d1)" by (cases "syncNodeConfig enc dec (secret (n_id n)) n d")
    then show ?thesis using Cons.prems Cons.IH assms(2) Some sync_kept(2) by (fastforce simp: sync_one_def)
  qed
qed simp

lemma rotateCore_parts:
  assumes "rotateCore enc dec r to during now d = (Some c, d')"
  obtains ported os d1 oks where "rotate_rows dec r now d = (Some (ported, os), d1)"
    "push_nodes enc dec (rd_secret r) to during (map n_id (automatic_nodes dec d)) (d1, [], []) = (d', ro_pushes c, oks)"
    "ro_ports c = ported" "ro_uuids c = redrawn_count os"
  using assms by (auto simp: rotateCore_def split: prod.splits option.splits)










section \<open>Pushes\<close>

text \<open>The pushes of a rotation and the states of the database in which they are made up.\<close>

fun push_moments :: "cipher \<Rightarrow> cipher \<Rightarrow> (int \<Rightarrow> string) \<Rightarrow> (int \<Rightarrow> db \<Rightarrow> db) \<Rightarrow> int list \<Rightarrow> db \<Rightarrow> (int \<times> db) list" where
  "push_moments enc dec secret during [] d = []"
| "push_moments enc dec secret during (i # is) d =
     (i, d) # push_moments enc dec secret during is
       (during i (case getNodeById dec i d of None \<Rightarrow> d | Some n \<Rightarrow> snd (syncNodeConfig enc dec (secret i) n d)))"

text \<open>A push for a node lets in the credentials that are entitled to it and to its partner.\<close>

definition push_now :: "cipher \<Rightarrow> db \<Rightarrow> int \<Rightarrow> pushed \<Rightarrow> bool" where
  "push_now dec d i p \<longleftrightarrow>
     (\<exists>n. getNodeById dec i d = Some n \<and>
        (case p of
           XrayPush c \<Rightarrow> n_protocol n \<noteq> ''hy2'' \<and>
             lets_in c = (if n_protocol n = ''ss'' then (uu_uuid ` partner_rows dec n d, uu_uuid ` entitled_rows i d)
                          else (uu_uuid ` entitled_rows i d, uu_uuid ` partner_rows dec n d))
         | Hy2Push t \<Rightarrow> n_protocol n = ''hy2'' \<and> (\<exists>a port opts. t = buildHy2Config a port (ss_clients ''hy2'' i d) opts)))"

text \<open>A push of a node that holds the credentials the database has for it.\<close>

definition push_of :: "db \<Rightarrow> int \<Rightarrow> pushed \<Rightarrow> bool" where
  "push_of d i p \<longleftrightarrow>
     (\<exists>n. find (\<lambda>m. n_id m = i) (d_nodes d) = Some n \<and>
        (case p of
           XrayPush c \<Rightarrow> n_protocol n \<noteq> ''hy2'' \<and>
             (if n_protocol n = ''ss'' then snd (lets_in c) else fst (lets_in c)) = uu_uuid ` entitled_rows i d
         | Hy2Push t \<Rightarrow> n_protocol n = ''hy2'' \<and> (\<exists>a port opts. t = buildHy2Config a port (ss_clients ''hy2'' i d) opts)))"

lemma push_of_kept: "kept UNIV True d d' \<Longrightarrow> push_of d i p \<Longrightarrow> push_of d' i p"
proof -
  assume k: "kept UNIV True d d'" and p: "push_of d i p"
  obtain n where n: "find (\<lambda>m. n_id m = i) (d_nodes d) = Some n" using p by (auto simp: push_of_def)
  obtain n' where n': "find (\<lambda>m. n_id m = i) (d_nodes d') = Some n'" "n_protocol n' = n_protocol n"
    using kept_find [OF k, of i] n by (auto simp: rel_option_iff node_kept_def split: option.splits)
  show ?thesis using p n n' kept_rows [OF k] kept_entitled [OF k] by (auto simp: push_of_def ss_clients_def split: pushed.splits)
qed

lemma sync_push_of:
  assumes "syncNodeConfig enc dec x n d = (p, d')" and "getNodeById dec i d = Some n"
  shows "push_of d i p" "n_id n = i"
proof -
  obtain m where m: "find (\<lambda>m. n_id m = i) (d_nodes d) = Some m" "n = decryptNode dec m" using assms(2) by (auto simp: getNodeById_def)
  then show i: "n_id n = i" by (auto simp: find_Some_iff)
  show "push_of d i p" using assms(1) m i
    by (auto simp: push_of_def syncNodeConfig_def lets_in_push Let_def split: if_splits) (intro exI, rule refl)+
qed

lemma sync_push_now:
  assumes "syncNodeConfig enc dec x n d = (p, d')" and "getNodeById dec i d = Some n"
  shows "push_now dec d i p"
proof -
  have "n_id n = i" using assms(2) by (auto simp: getNodeById_def find_Some_iff)
  then show ?thesis using assms
    by (auto simp: push_now_def syncNodeConfig_def lets_in_push Let_def split: if_splits) (intro exI, rule refl)+
qed

lemma push_nodes_now:
  assumes "push_nodes enc dec secret to during is (d, ps, oks) = (d', ps', oks')"
  shows "\<exists>new. ps' = ps @ new \<and> list_all2 (\<lambda>(i, s) (j, p). j = i \<and> push_now dec s i p)
    (filter (\<lambda>(i, s). getNodeById dec i s \<noteq> None) (push_moments enc dec secret during is d)) new"
  using assms
proof (induction "is" arbitrary: d ps oks)
  case (Cons i js)
  show ?case
  proof (cases "getNodeById dec i d")
    case None
    then show ?thesis using Cons.prems Cons.IH by auto
  next
    case (Some n)
    then have id: "n_id n = i" by (auto simp: getNodeById_def find_Some_iff)
    obtain p d1 where sync: "syncNodeConfig enc dec (secret i) n d = (p, d1)" by (cases "syncNodeConfig enc dec (secret i) n d")
    obtain ok where rest: "push_nodes enc dec secret to during js (during i d1, ps @ [(i, p)], oks @ [ok]) = (d', ps', oks')"
      using Cons.prems Some sync id by (auto simp: sync_one_def)
    from Cons.IH [OF rest] obtain new where "ps' = (ps @ [(i, p)]) @ new"
      "list_all2 (\<lambda>(i, s) (j, p). j = i \<and> push_now dec s i p)
        (filter (\<lambda>(i, s). getNodeById dec i s \<noteq> None) (push_moments enc dec secret during js (during i d1))) new" by blast
    then show ?thesis using Some sync sync_push_now [OF sync Some] by (intro exI [of _ "(i, p) # new"]) simp
  qed
qed simp

lemma push_nodes_hold:
  assumes "push_nodes enc dec secret to during is (d, ps, oks) = (d', ps', oks')" and "set is \<subseteq> n_id ` set (d_nodes d)"
    and "\<And>i s. kept UNIV True s (during i s)"
  shows "kept UNIV True d d' \<and> (\<exists>new. ps' = ps @ new \<and> map fst new = is \<and> (\<forall>x \<in> set new. push_of d' (fst x) (snd x)))"
  using assms
proof (induction "is" arbitrary: d ps oks)
  case (Cons i js)
  have "find (\<lambda>n. n_id n = i) (d_nodes d) \<noteq> None" using Cons.prems(2) by (auto simp: find_None_iff)
  then obtain n where n: "getNodeById dec i d = Some n" by (auto simp: getNodeById_def)
  obtain p d1 where sync: "syncNodeConfig enc dec (secret (n_id n)) n d = (p, d1)" by (cases "syncNodeConfig enc dec (secret (n_id n)) n d")
  note k = sync_kept(1) [OF sync] and h = sync_push_of [OF sync n]
  obtain ok where rest: "push_nodes enc dec secret to during js (during i d1, ps @ [(i, p)], oks @ [ok]) = (d', ps', oks')"
    using Cons.prems(1) n sync h(2) by (auto simp: sync_one_def)
  note k = kept_trans [OF k assms(3) [of d1 i]]
  have "list_all2 (node_kept UNIV True) (d_nodes d) (d_nodes (during i d1))" using k by (simp add: kept_def)
  then have "map n_id (d_nodes (during i d1)) = map n_id (d_nodes d)" by (induction rule: list_all2_induct) (simp_all add: node_kept_def)
  then have "n_id ` set (d_nodes (during i d1)) = n_id ` set (d_nodes d)" by (metis set_map)
  then have "set js \<subseteq> n_id ` set (d_nodes (during i d1))" using Cons.prems(2) by simp
  from Cons.IH [OF rest this assms(3)] obtain new where new: "kept UNIV True (during i d1) d'" "ps' = (ps @ [(i, p)]) @ new" "map fst new = js"
    "\<forall>x \<in> set new. push_of d' (fst x) (snd x)" by blast
  have "push_of d' i p" by (rule push_of_kept [OF new(1) push_of_kept [OF k h(1)]])
  then show ?case using new kept_trans [OF k new(1)] by (intro conjI exI [of _ "(i, p) # new"]) auto
qed simp

text \<open>C7: A rotation pushes the automatic nodes one after the other, and other requests change the database while a push
  is under way. Every node that is still there when its turn comes is pushed, and what is pushed lets in exactly
  the credentials that are entitled to it and to its partner in the database of that moment. When the requests in
  between leave accounts, credentials and the nodes' levels, protocols and states alone, every automatic node in
  service is pushed, with the credentials that the rotation leaves in the database.\<close>

theorem rotation_pushes_what_stays:
  assumes "rotateCore enc dec r to during now d = (Some c, d')" and "rotate_rows dec r now d = (x, d1)"
    and "distinct (map uu_id (d_uuids d))"
  shows "list_all2 (\<lambda>(i, s) (j, p). j = i \<and> push_now dec s i p)
      (filter (\<lambda>(i, s). getNodeById dec i s \<noteq> None)
        (push_moments enc dec (rd_secret r) during (map n_id (automatic_nodes dec d)) d1)) (ro_pushes c) \<and>
    ((\<forall>i s. kept UNIV True s (during i s)) \<longrightarrow>
       map fst (ro_pushes c) = map n_id (automatic_nodes dec d) \<and> (\<forall>(i, p) \<in> set (ro_pushes c). push_of d' i p))"
proof -
  obtain ported os e oks where parts: "rotate_rows dec r now d = (Some (ported, os), e)"
    "push_nodes enc dec (rd_secret r) to during (map n_id (automatic_nodes dec d)) (e, [], []) = (d', ro_pushes c, oks)"
    by (rule rotateCore_parts [OF assms(1)]) blast
  then have rows: "rotate_rows dec r now d = (Some (ported, os), d1)"
    and push: "push_nodes enc dec (rd_secret r) to during (map n_id (automatic_nodes dec d)) (d1, [], []) = (d', ro_pushes c, oks)"
    using assms(2) by simp_all
  obtain d2 where d2: "d_uuids d2 = d_uuids d" "map n_id (d_nodes d2) = map n_id (d_nodes d)"
    "fold (rotate_group (rd_uuids r) (dateKeyInTimeZone now) (map n_id (automatic_nodes dec d))) (getGroupResetConfig d) ([], d2) = (os, d1)"
    by (rule rotate_rows_parts [OF rows]) blast
  have dist: "distinct (map uu_id (d_uuids d2))" using d2(1) assms(3) by simp
  have "d_nodes d1 = d_nodes d2" using rotate_groups [OF d2(3) dist levels_ok(1) levels_ok(2) [of _ d]] by simp
  then have "n_id ` set (d_nodes d1) = n_id ` set (d_nodes d)" using d2(2) by (metis set_map)
  moreover have "n_id ` set (automatic_nodes dec d) \<subseteq> n_id ` set (d_nodes d)"
    by (auto simp: automatic_nodes_def set_getAllNodes)
  ultimately have "set (map n_id (automatic_nodes dec d)) \<subseteq> n_id ` set (d_nodes d1)" by simp
  note hold = push_nodes_hold [OF push this]
  show ?thesis using push_nodes_now [OF push] hold by fastforce
qed

theorem rotation_pushes_what_stays_witness:
  "\<exists>c d'. rotateCore (\<lambda>x. x) (\<lambda>x. x) sample_draws (\<lambda>i. None) (\<lambda>i d. d) 1704067200000 sample_pair = (Some c, d') \<and>
    set (map fst (ro_pushes c)) = {5, 6}"
proof -
  obtain c d' where c: "rotateCore (\<lambda>x. x) (\<lambda>x. x) sample_draws (\<lambda>i. None) (\<lambda>i d. d) 1704067200000 sample_pair = (Some c, d')"
    using sample_rotation by (fastforce simp: rotateCore_def split: prod.splits)
  obtain x d1 where "rotate_rows (\<lambda>x. x) sample_draws 1704067200000 sample_pair = (x, d1)" by fastforce
  from rotation_pushes_what_stays [OF c this] have "map fst (ro_pushes c) = map n_id (automatic_nodes (\<lambda>x. x) sample_pair)"
    by simp
  moreover have "n_id ` set (automatic_nodes (\<lambda>x. x) sample_pair) = {5, 6}"
    by (auto simp: automatic_nodes_def getAllNodes_def by_region_name_def sample_node_def decryptNode_def image_iff)
  ultimately have "set (map fst (ro_pushes c)) = {5, 6}" by (simp only: set_map)
  with c show ?thesis by (intro exI conjI)
qed

section \<open>Links\<close>

lemma fold_reset_link:
  "d_users (fold (reset_link token day) us d) =
     map (\<lambda>u. if u_id u \<in> u_id ` set us then u\<lparr>u_sub_token := token (u_id u), u_last_token_reset := Some day\<rparr> else u) (d_users d)"
proof (induction us arbitrary: d)
  case (Cons v us)
  have "d_users (reset_link token day v d) =
      map (\<lambda>u. if u_id u = u_id v then u\<lparr>u_sub_token := token (u_id u), u_last_token_reset := Some day\<rparr> else u) (d_users d)"
    by (auto simp: reset_link_def resetSubToken_def update_user_def update_where_def)
  then show ?case using Cons.IH by (auto simp: comp_def)
qed simp

lemma core_keeps:
  assumes "rotateCore enc dec r to (\<lambda>i d. d) now d = (Some c, d1)" and "distinct (map uu_id (d_uuids d))" and "instant_ok now"
  shows "d_users d1 = d_users d" "getGroupResetConfig d1 = getGroupResetConfig d"
proof -
  obtain ported os e oks where rows: "rotate_rows dec r now d = (Some (ported, os), e)"
    and push: "push_nodes enc dec (rd_secret r) to (\<lambda>i d. d) (map n_id (automatic_nodes dec d)) (e, [], []) = (d1, ro_pushes c, oks)"
    by (rule rotateCore_parts [OF assms(1)]) blast
  obtain d0 where d0: "d_uuids d0 = d_uuids d" "d_users d0 = d_users d" "map n_id (d_nodes d0) = map n_id (d_nodes d)"
    "fold (rotate_group (rd_uuids r) (dateKeyInTimeZone now) (map n_id (automatic_nodes dec d))) (getGroupResetConfig d) ([], d0) = (os, e)"
    "\<And>k. getSetting d0 k = (if ported \<and> k = ''last_port_rotate'' then Some (dateKeyInTimeZone now) else getSetting d k)"
    by (rule rotate_rows_parts [OF rows]) blast
  have dist: "distinct (map uu_id (d_uuids d0))" using assms(2) d0(1) by simp
  have parse: "parse_iso_day (dateKeyInTimeZone now) = Some (local_day now)"
    using parse_iso_day_text [OF instant_day_ok(2) [OF assms(3)]] by (simp add: dateKeyInTimeZone_def date_text_def split_beta)
  note g = rotate_groups [OF d0(4) dist levels_ok(1) levels_ok(2) [of _ d]]
  have "n_id ` set (d_nodes e) = n_id ` set (d_nodes d)" using g d0(3) by (metis set_map)
  then have "set (map n_id (automatic_nodes dec d)) \<subseteq> n_id ` set (d_nodes e)" by (auto simp: automatic_nodes_def set_getAllNodes)
  then have "kept UNIV True e d1" using push_nodes_hold [OF push _ kept_refl] by blast
  then show "d_users d1 = d_users d" using g d0(2) by (simp add: kept_def)
  have same: "getSetting e k = getSetting d0 k" if "k \<notin> last_uuid_key ` gr_level ` set (getGroupResetConfig d)" for k
    using rotate_groups_done [OF d0(4) dist levels_ok(1) levels_ok(2) [of _ d] parse] that by simp
  have "d_settings d1 = d_settings e" using push_settings [OF push] by simp
  then have s: "getSetting d1 k = getSetting d k" if "\<And>l. k \<noteq> last_uuid_key l" "k \<noteq> ''last_port_rotate''" for k
    using same [of k] that d0(5) [of k] by (auto simp: getSetting_def)
  show "getGroupResetConfig d1 = getGroupResetConfig d"
    by (rule config_by_settings) (rule s; simp only: config_key port_key not_False_eq_True)+
qed

text \<open>C21: The nightly rotation gives a new link, and notes the day, to exactly the accounts whose group is due by their
  own last reset; every other account keeps its link, and nothing else of an account changes.\<close>

theorem links_reset_when_due:
  assumes "rotateAll enc dec r to (\<lambda>i d. d) now later d = (Some c, d')" and "distinct (map u_id (d_users d))"
    and "distinct (map uu_id (d_uuids d))" and "instant_ok now"
  shows "d_users d' = map (\<lambda>u. if shouldResetToken u (dateKeyInTimeZone later) (sub_days_of (getGroupResetConfig d) u)
      then u\<lparr>u_sub_token := rd_token r (u_id u), u_last_token_reset := Some (dateKeyInTimeZone later)\<rparr> else u) (d_users d)"
proof -
  let ?day = "dateKeyInTimeZone later"
  obtain core d1 where core: "rotateCore enc dec r to (\<lambda>i d. d) now d = (Some core, d1)"
    using assms(1) by (auto simp: rotateAll_def split: prod.splits option.splits)
  note k = core_keeps [OF core assms(3,4)]
  let ?hit = "filter (\<lambda>u. shouldResetToken u ?day (sub_days_of (getGroupResetConfig d) u)) (map fst (getAllUsers d1))"
  have d': "d_users d' = d_users (fold (reset_link (rd_token r) ?day) ?hit d1)"
    using assms(1) core by (auto simp: rotateAll_def note_rotation_def k(2) Let_def)
  have "set (map fst (getAllUsers d1)) = set (d_users d)" by (simp add: getAllUsers_def with_total_def image_image k(1))
  then have "u_id u \<in> u_id ` set ?hit \<longleftrightarrow> shouldResetToken u ?day (sub_days_of (getGroupResetConfig d) u)" if "u \<in> set (d_users d)" for u
    using that assms(2) by (auto simp: distinct_map dest: inj_onD)
  then show ?thesis unfolding d' fold_reset_link k(1) by (intro map_cong) simp_all
qed

theorem links_reset_when_due_witness:
  "\<exists>c d'. rotateAll (\<lambda>x. x) (\<lambda>x. x) sample_draws (\<lambda>i. None) (\<lambda>i d. d) 1704067200000 1704067200000 sample_pair = (Some c, d') \<and>
    map u_last_token_reset (d_users d') = [None, Some ''2024-01-01'']"
proof -
  obtain core d1 where "rotateCore (\<lambda>x. x) (\<lambda>x. x) sample_draws (\<lambda>i. None) (\<lambda>i d. d) 1704067200000 sample_pair = (Some core, d1)"
    using sample_rotation by (fastforce simp: rotateCore_def split: prod.splits)
  then obtain c d' where c: "rotateAll (\<lambda>x. x) (\<lambda>x. x) sample_draws (\<lambda>i. None) (\<lambda>i d. d) 1704067200000 1704067200000 sample_pair = (Some c, d')"
    by (auto simp: rotateAll_def Let_def)
  have u: "d_users sample_pair = [sample_user 1 3 0, sample_user 2 0 (5 * GB)]" by (simp add: sample_pair_def sample_db_def)
  have n: "u_last_token_reset (sample_user i l g) = None" for i l g by (simp add: sample_user_def)
  have ok: "instant_ok 1704067200000" by (simp add: instant_ok_def)
  have "map u_last_token_reset (d_users d') = [None, Some ''2024-01-01'']"
    using links_reset_when_due [OF c _ _ ok]
    by (simp add: u n shouldResetToken_def sub_days_of_def group_of_def sample_config GROUP_RESET_DEFAULTS_def due_def days_since_def sample_day or_else_def)
  with c show ?thesis by (intro exI conjI)
qed

section \<open>The list of an agent\<close>

lemma ensure_all:
  assumes "wf_uuids d"
  shows "d_users (ensureAllUsersHaveUuid gen i d) = d_users d" "wf_uuids (ensureAllUsersHaveUuid gen i d)"
    "u \<in> set (d_users d) \<Longrightarrow> \<not> u_is_frozen u \<Longrightarrow> \<not> u_is_blocked u \<Longrightarrow>
      \<exists>r \<in> set (d_uuids (ensureAllUsersHaveUuid gen i d)). uu_user r = u_id u \<and> uu_node r = i"
proof -
  let ?us = "filter (\<lambda>u. \<not> u_is_frozen u \<and> \<not> u_is_blocked u) (d_users d)"
  let ?t = "fold (\<lambda>u t. ensure_uuid (u_id u) i (gen (u_id u)) t) ?us (d_uuids d)"
  have e: "ensureAllUsersHaveUuid gen i d = d\<lparr>d_uuids := ?t\<rparr>" by (simp add: ensureAllUsersHaveUuid_def Let_def)
  show "d_users (ensureAllUsersHaveUuid gen i d) = d_users d" unfolding e by simp
  show "wf_uuids (ensureAllUsersHaveUuid gen i d)" using assms unfolding e wf_uuids_def by (simp add: fold_ensure(3,4))
  show "\<exists>r \<in> set (d_uuids (ensureAllUsersHaveUuid gen i d)). uu_user r = u_id u \<and> uu_node r = i"
    if "u \<in> set (d_users d)" "\<not> u_is_frozen u" "\<not> u_is_blocked u"
  proof -
    have "(u_id u, i) \<in> uuid_key ` set ?t" unfolding fold_ensure(1) using that by auto
    then show ?thesis unfolding e by auto
  qed
qed

text \<open>C13: The list of accounts goes only to the bearer of a token of a node. Its entries are exactly the credentials
  that the database then has at this node for accounts that may use it, each under its own account and name;
  every account that may use the node is on it, once; and credentials that existed before stay.\<close>

theorem agent_gets_entitled:
  assumes "agent_users sha gen h d = (NodeUsers i us, d')" and "distinct (map n_id (d_nodes d))" and "wf_uuids d"
  shows "\<exists>n. n \<in> set (d_nodes d) \<and> n_id n = i \<and> safeTokenEqual sha (bearer_token h) (or_else (n_agent_token n) []) \<and>
    (\<forall>u. user_by_id d (u_id u) = Some u \<and> \<not> u_is_blocked u \<and> \<not> u_is_frozen u \<longrightarrow>
      (n_min_level n \<le> u_trust_level u \<longleftrightarrow> (\<exists>!c. (u_id u, c, u_username u) \<in> set us))) \<and>
    (\<forall>k c name. (k, c, name) \<in> set us \<longleftrightarrow>
      (\<exists>row u. row \<in> set (d_uuids d') \<and> uu_node row = i \<and> uu_user row = k \<and> uu_uuid row = c \<and> user_by_id d k = Some u \<and>
        \<not> u_is_blocked u \<and> \<not> u_is_frozen u \<and> n_min_level n \<le> u_trust_level u \<and> name = u_username u)) \<and>
    set (d_uuids d) \<subseteq> set (d_uuids d') \<and> d_users d' = d_users d"
proof -
  let ?d = "ensureAllUsersHaveUuid (gen i) i d"
  have r: "resolveNodeIdByAgentToken sha (bearer_token h) d = Some i"
    and us: "us = map (\<lambda>(r, name). (uu_user r, uu_uuid r, name)) (getNodeAllUserUuids i ?d)" and d': "d' = ?d"
    using assms(1) by (auto simp: agent_users_def Let_def split: if_splits option.splits)
  obtain t where t: "(i, t) \<in> set (token_candidates (bearer_token h) d)" "safeTokenEqual sha (bearer_token h) t"
    using r by (auto simp: resolveNodeIdByAgentToken_def find_Some_iff split: if_splits) (metis nth_mem)
  then obtain n where n: "n \<in> set (d_nodes d)" "n_id n = i" "n_agent_token n = Some t"
    by (auto simp: token_candidates_def split: option.splits if_splits)
  have find: "find (\<lambda>m. n_id m = i) (d_nodes ?d) = Some n"
    using find_key_eq [OF assms(2) n(1)] n(2) by simp
  note e = ensure_all [where gen = "gen i" and i = i, OF assms(3)]
  have ub: "user_by_id ?d k = user_by_id d k" for k by (simp add: user_by_id_def e(1))
  have mem: "(k, c, name) \<in> set us \<longleftrightarrow>
      (\<exists>r u. r \<in> set (d_uuids ?d) \<and> uu_node r = i \<and> uu_user r = k \<and> uu_uuid r = c \<and> user_by_id d k = Some u \<and>
        \<not> u_is_blocked u \<and> \<not> u_is_frozen u \<and> n_min_level n \<le> u_trust_level u \<and> name = u_username u)" for k c name
  proof -
    have "(k, c, name) \<in> set us \<longleftrightarrow> (\<exists>r. (r, name) \<in> set (getNodeAllUserUuids i ?d) \<and> uu_user r = k \<and> uu_uuid r = c)"
      unfolding us by force
    then show ?thesis unfolding node_rows_iff ub find by auto
  qed
  have one: "r = r'" if "r \<in> set (d_uuids ?d)" "r' \<in> set (d_uuids ?d)" "uu_user r = uu_user r'" "uu_node r = i" "uu_node r' = i" for r r'
    using e(2) that unfolding wf_uuids_def by (auto simp: distinct_map dest: inj_onD)
  have "n_min_level n \<le> u_trust_level u \<longleftrightarrow> (\<exists>!c. (u_id u, c, u_username u) \<in> set us)"
    if u: "user_by_id d (u_id u) = Some u" "\<not> u_is_blocked u" "\<not> u_is_frozen u" for u
  proof
    assume l: "n_min_level n \<le> u_trust_level u"
    obtain r where r: "r \<in> set (d_uuids ?d)" "uu_user r = u_id u" "uu_node r = i"
      using e(3) u user_by_id_SomeD [OF u(1)] by blast
    show "\<exists>!c. (u_id u, c, u_username u) \<in> set us"
    proof (rule ex1I)
      show "(u_id u, uu_uuid r, u_username u) \<in> set us" using r u l unfolding mem by blast
      show "c = uu_uuid r" if "(u_id u, c, u_username u) \<in> set us" for c
        using that one [OF _ r(1)] r(2,3) unfolding mem by metis
    qed
  next
    assume "\<exists>!c. (u_id u, c, u_username u) \<in> set us"
    then show "n_min_level n \<le> u_trust_level u" using u(1) unfolding mem by auto
  qed
  note ent = this
  have "set (d_uuids d) \<subseteq> set (d_uuids ?d)" by (simp add: ensureAllUsersHaveUuid_def Let_def fold_ensure(2))
  note stay = this
  have tok: "safeTokenEqual sha (bearer_token h) (or_else (n_agent_token n) [])" using n(3) t(2) by (simp add: or_else_def)
  show ?thesis unfolding d'
  proof (rule exI [of _ n], intro conjI allI impI)
    show "n_min_level n \<le> u_trust_level u \<longleftrightarrow> (\<exists>!c. (u_id u, c, u_username u) \<in> set us)"
      if "user_by_id d (u_id u) = Some u \<and> \<not> u_is_blocked u \<and> \<not> u_is_frozen u" for u
      using that ent by blast
  qed (fact n(1) n(2) tok mem stay e(1))+
qed

theorem agent_gets_entitled_witness:
  "\<exists>us d'. agent_users (\<lambda>s. s) (\<lambda>i u. ''z'') (Some ''Bearer t'') (sample_pair\<lparr>d_nodes := [sample_node 5\<lparr>n_agent_token := Some ''t''\<rparr>]\<rparr>) = (NodeUsers 5 us, d') \<and>
    (1, ''a'', ''alice'') \<in> set us \<and> (1, ''z'', ''alice'') \<notin> set us"
proof -
  let ?d = "sample_pair\<lparr>d_nodes := [sample_node 5\<lparr>n_agent_token := Some ''t''\<rparr>]\<rparr>"
  let ?u = "sample_user 1 3 0"
  have b: "bearer_token (Some ''Bearer t'') = ''t''" by code_simp
  obtain us d' where a: "agent_users (\<lambda>s. s) (\<lambda>i u. ''z'') (Some ''Bearer t'') ?d = (NodeUsers 5 us, d')"
    by (simp add: agent_users_def b resolveNodeIdByAgentToken_def token_candidates_def safeTokenEqual_def Let_def)
  have w: "wf_uuids ?d" "distinct (map n_id (d_nodes ?d))" by (simp_all add: wf_uuids_def)
  have u: "user_by_id ?d 1 = Some ?u" using sample_pair_simps(2) by (simp add: user_by_id_def)
  have f: "u_id ?u = 1" "u_username ?u = ''alice''" "\<not> u_is_blocked ?u" "\<not> u_is_frozen ?u" "u_trust_level ?u = 3"
    by (simp_all add: sample_user_def)
  obtain n where n: "n \<in> set (d_nodes ?d)"
    and one: "\<forall>u. user_by_id ?d (u_id u) = Some u \<and> \<not> u_is_blocked u \<and> \<not> u_is_frozen u \<longrightarrow>
      (n_min_level n \<le> u_trust_level u \<longleftrightarrow> (\<exists>!c. (u_id u, c, u_username u) \<in> set us))"
    and mem: "\<forall>k c name. (k, c, name) \<in> set us \<longleftrightarrow>
      (\<exists>row u. row \<in> set (d_uuids d') \<and> uu_node row = 5 \<and> uu_user row = k \<and> uu_uuid row = c \<and> user_by_id ?d k = Some u \<and>
        \<not> u_is_blocked u \<and> \<not> u_is_frozen u \<and> n_min_level n \<le> u_trust_level u \<and> name = u_username u)"
    and stay: "set (d_uuids ?d) \<subseteq> set (d_uuids d')"
    using agent_gets_entitled [OF a w(2,1)] by blast
  have l: "n_min_level n \<le> 3" using n by (simp add: sample_node_def)
  have "\<lparr>uu_id = 1, uu_user = 1, uu_node = 5, uu_uuid = ''a''\<rparr> \<in> set (d_uuids d')" using stay by simp
  then have "(1, ''a'', ''alice'') \<in> set us"
    by (intro mem [rule_format, THEN iffD2] exI [of _ "\<lparr>uu_id = 1, uu_user = 1, uu_node = 5, uu_uuid = ''a''\<rparr>"] exI [of _ ?u])
      (simp add: u f l)
  moreover have "\<exists>!c. (1, c, ''alice'') \<in> set us" using one [rule_format, of ?u] u f l by simp
  ultimately have "(1, ''z'', ''alice'') \<notin> set us" using list.inject char.inject by blast
  with a \<open>(1, ''a'', ''alice'') \<in> set us\<close> show ?thesis by (intro exI conjI)
qed

end
