(* ===== verification/NodeUpdate.thy ===== *)
theory NodeUpdate
  imports NodeRepo
begin

text \<open>
  The general update of a node (\<open>updateNode\<close> in \<open>src/services/repos/nodeRepo.js\<close>): a list of
  columns with values, of which only the columns on the list of the function are written, the secret
  ones encrypted. The columns of the AWS account, of the group and of the tags are on the list, but
  not in the rows of the model.
\<close>

datatype column_value = TextV string | IntV int | RatV rat | FlagV bool | NullV

definition NODE_COLUMNS :: "string list" where
  "NODE_COLUMNS =
     [''name'', ''host'', ''port'', ''uuid'', ''network'', ''security'', ''ws_path'', ''allow_insecure'', ''ssh_host'', ''ssh_port'', ''ssh_user'',
      ''ssh_password'', ''ssh_key_path'', ''region'', ''remark'', ''is_active'', ''last_check'', ''last_rotated'', ''socks5_host'', ''socks5_port'',
      ''socks5_user'', ''socks5_pass'', ''min_level'', ''reality_private_key'', ''reality_public_key'', ''reality_short_id'', ''sni'',
      ''aws_instance_id'', ''aws_type'', ''aws_region'', ''aws_account_id'', ''is_manual'', ''fail_count'', ''agent_last_report'', ''agent_token'',
      ''group_name'', ''tags'', ''ss_method'', ''ss_password'', ''ip_version'', ''hy2_port'', ''hy2_obfs'', ''hy2_sni'', ''hy2_up_mbps'',
      ''hy2_down_mbps'', ''hy2_stats_secret'', ''traffic_cap'']"

definition opt_text :: "column_value \<Rightarrow> string option" where
  "opt_text v = (case v of TextV s \<Rightarrow> Some s | _ \<Rightarrow> None)"

definition plain_text :: "column_value \<Rightarrow> string" where
  "plain_text v = (case v of TextV s \<Rightarrow> s | _ \<Rightarrow> [])"

definition opt_int :: "column_value \<Rightarrow> int option" where
  "opt_int v = (case v of IntV i \<Rightarrow> Some i | FlagV b \<Rightarrow> Some (if b then 1 else 0) | _ \<Rightarrow> None)"

definition plain_int :: "column_value \<Rightarrow> int" where
  "plain_int v = (case opt_int v of None \<Rightarrow> 0 | Some i \<Rightarrow> i)"

definition plain_rat :: "column_value \<Rightarrow> rat" where
  "plain_rat v = (case v of RatV r \<Rightarrow> r | _ \<Rightarrow> of_int (plain_int v))"

definition flag_of :: "column_value \<Rightarrow> bool" where
  "flag_of v \<longleftrightarrow> plain_int v \<noteq> 0"

type_synonym column_cipher = "string option \<Rightarrow> string option"

definition set_identity :: "string \<Rightarrow> column_value \<Rightarrow> node \<Rightarrow> node" where
  "set_identity k v n =
     (if k = ''name'' then n\<lparr>n_name := plain_text v\<rparr>
      else if k = ''host'' then n\<lparr>n_host := plain_text v\<rparr>
      else if k = ''port'' then n\<lparr>n_port := plain_int v\<rparr>
      else if k = ''uuid'' then n\<lparr>n_uuid := plain_text v\<rparr>
      else if k = ''network'' then n\<lparr>n_network := opt_text v\<rparr>
      else if k = ''security'' then n\<lparr>n_security := opt_text v\<rparr>
      else if k = ''ws_path'' then n\<lparr>n_ws_path := opt_text v\<rparr>
      else if k = ''allow_insecure'' then n\<lparr>n_allow_insecure := flag_of v\<rparr>
      else if k = ''region'' then n\<lparr>n_region := plain_text v\<rparr>
      else if k = ''remark'' then n\<lparr>n_remark := plain_text v\<rparr>
      else if k = ''is_active'' then n\<lparr>n_is_active := flag_of v\<rparr>
      else if k = ''last_check'' then n\<lparr>n_last_check := opt_text v\<rparr>
      else if k = ''last_rotated'' then n\<lparr>n_last_rotated := opt_text v\<rparr>
      else if k = ''min_level'' then n\<lparr>n_min_level := plain_int v\<rparr>
      else if k = ''sni'' then n\<lparr>n_sni := opt_text v\<rparr>
      else if k = ''aws_instance_id'' then n\<lparr>n_aws_instance := opt_text v\<rparr>
      else if k = ''is_manual'' then n\<lparr>n_is_manual := flag_of v\<rparr>
      else if k = ''fail_count'' then n\<lparr>n_fail_count := plain_int v\<rparr>
      else if k = ''agent_last_report'' then n\<lparr>n_agent_last_report := opt_text v\<rparr>
      else if k = ''agent_token'' then n\<lparr>n_agent_token := opt_text v\<rparr>
      else if k = ''ip_version'' then n\<lparr>n_ip_version := plain_int v\<rparr>
      else if k = ''traffic_cap'' then n\<lparr>n_traffic_cap := plain_int v\<rparr>
      else if k = ''protocol'' then n\<lparr>n_protocol := plain_text v\<rparr>
      else if k = ''traffic_rate'' then n\<lparr>n_traffic_rate := plain_rat v\<rparr>
      else n)"

definition set_access :: "column_cipher \<Rightarrow> string \<Rightarrow> column_value \<Rightarrow> node \<Rightarrow> node" where
  "set_access enc k v n =
     (if k = ''ssh_host'' then n\<lparr>n_ssh_host := opt_text v\<rparr>
      else if k = ''ssh_port'' then n\<lparr>n_ssh_port := plain_int v\<rparr>
      else if k = ''ssh_user'' then n\<lparr>n_ssh_user := plain_text v\<rparr>
      else if k = ''ssh_password'' then n\<lparr>n_ssh_password := sealed enc (opt_text v)\<rparr>
      else if k = ''ssh_key_path'' then n\<lparr>n_ssh_key_path := opt_text v\<rparr>
      else if k = ''socks5_host'' then n\<lparr>n_socks5_host := opt_text v\<rparr>
      else if k = ''socks5_port'' then n\<lparr>n_socks5_port := plain_int v\<rparr>
      else if k = ''socks5_user'' then n\<lparr>n_socks5_user := opt_text v\<rparr>
      else if k = ''socks5_pass'' then n\<lparr>n_socks5_pass := sealed enc (opt_text v)\<rparr>
      else if k = ''reality_private_key'' then n\<lparr>n_reality_private_key := sealed enc (opt_text v)\<rparr>
      else if k = ''reality_public_key'' then n\<lparr>n_reality_public_key := opt_text v\<rparr>
      else if k = ''reality_short_id'' then n\<lparr>n_reality_short_id := opt_text v\<rparr>
      else if k = ''ss_method'' then n\<lparr>n_ss_method := opt_text v\<rparr>
      else if k = ''ss_password'' then n\<lparr>n_ss_password := sealed enc (opt_text v)\<rparr>
      else if k = ''hy2_port'' then n\<lparr>n_hy2_port := opt_int v\<rparr>
      else if k = ''hy2_obfs'' then n\<lparr>n_hy2_obfs := opt_text v\<rparr>
      else if k = ''hy2_sni'' then n\<lparr>n_hy2_sni := opt_text v\<rparr>
      else if k = ''hy2_up_mbps'' then n\<lparr>n_hy2_up := opt_int v\<rparr>
      else if k = ''hy2_down_mbps'' then n\<lparr>n_hy2_down := opt_int v\<rparr>
      else if k = ''hy2_stats_secret'' then n\<lparr>n_hy2_stats_secret := sealed enc (opt_text v)\<rparr>
      else n)"

definition set_column :: "column_cipher \<Rightarrow> string \<times> column_value \<Rightarrow> node \<Rightarrow> node" where
  "set_column enc c n = set_access enc (fst c) (snd c) (set_identity (fst c) (snd c) n)"

definition set_columns :: "column_cipher \<Rightarrow> (string \<times> column_value) list \<Rightarrow> node \<Rightarrow> node" where
  "set_columns enc cs n = fold (set_column enc) cs n"

text \<open>\<open>None\<close>: the new name is the one of another node.\<close>

definition updateNode :: "column_cipher \<Rightarrow> int \<Rightarrow> (string \<times> column_value) list \<Rightarrow> db \<Rightarrow> db option" where
  "updateNode enc i cs d =
     (let safe = filter (\<lambda>c. fst c \<in> set NODE_COLUMNS) cs;
          nodes = update_where (\<lambda>n. n_id n = i) (set_columns enc safe) (d_nodes d)
      in if safe = [] then Some d
         else if (\<exists>c \<in> set safe. fst c = ''name'') \<and> \<not> distinct (map n_name nodes) then None
         else Some (d\<lparr>d_nodes := nodes\<rparr>))"

section \<open>Facts\<close>

lemma set_column_id [simp]: "n_id (set_column enc c n) = n_id n"
  by (simp add: set_column_def set_access_def set_identity_def)

lemma set_columns_id [simp]: "n_id (set_columns enc cs n) = n_id n"
  unfolding set_columns_def by (induction cs arbitrary: n) simp_all

text \<open>Neither the protocol nor the rate is among the columns that an update may write.\<close>

lemma NODE_COLUMNS_fixed: "''protocol'' \<notin> set NODE_COLUMNS" "''traffic_rate'' \<notin> set NODE_COLUMNS"
  by (simp_all add: NODE_COLUMNS_def)

lemma set_column_fixed:
  "fst c \<noteq> ''protocol'' \<Longrightarrow> n_protocol (set_column enc c n) = n_protocol n"
  "fst c \<noteq> ''traffic_rate'' \<Longrightarrow> n_traffic_rate (set_column enc c n) = n_traffic_rate n"
  by (simp_all add: set_column_def set_access_def set_identity_def)

lemma set_columns_fixed:
  assumes "\<forall>c \<in> set cs. fst c \<in> set NODE_COLUMNS"
  shows "n_protocol (set_columns enc cs n) = n_protocol n" "n_traffic_rate (set_columns enc cs n) = n_traffic_rate n"
proof -
  have "n_protocol (set_columns enc cs n) = n_protocol n \<and> n_traffic_rate (set_columns enc cs n) = n_traffic_rate n"
    using assms unfolding set_columns_def
  proof (induction cs arbitrary: n)
    case (Cons c cs)
    then have "fst c \<noteq> ''protocol''" "fst c \<noteq> ''traffic_rate''" using NODE_COLUMNS_fixed by auto
    then show ?case using Cons by (simp add: set_column_fixed)
  qed simp
  then show "n_protocol (set_columns enc cs n) = n_protocol n" "n_traffic_rate (set_columns enc cs n) = n_traffic_rate n" by blast+
qed

lemma set_columns_name:
  "\<forall>c \<in> set cs. fst c \<noteq> ''name'' \<Longrightarrow> n_name (set_columns enc cs n) = n_name n"
  unfolding set_columns_def
  by (induction cs arbitrary: n) (simp_all add: set_column_def set_access_def set_identity_def)

lemma updateNode_keeps:
  assumes "updateNode enc i cs d = Some d'"
  shows "map n_id (d_nodes d') = map n_id (d_nodes d)" "map n_protocol (d_nodes d') = map n_protocol (d_nodes d)"
    "map n_traffic_rate (d_nodes d') = map n_traffic_rate (d_nodes d)" "d_users d' = d_users d" "d_uuids d' = d_uuids d"
    "d_settings d' = d_settings d"
  using assms by (auto simp: updateNode_def Let_def update_where_def set_columns_fixed split: if_splits)

lemma updateNode_names:
  assumes "updateNode enc i cs d = Some d'" and "distinct (map n_name (d_nodes d))"
  shows "distinct (map n_name (d_nodes d'))"
proof -
  let ?safe = "filter (\<lambda>c. fst c \<in> set NODE_COLUMNS) cs"
  show ?thesis
  proof (cases "\<exists>c \<in> set ?safe. fst c = ''name''")
    case True
    then show ?thesis using assms by (auto simp: updateNode_def Let_def split: if_splits)
  next
    case False
    then have "n_name (set_columns enc ?safe n) = n_name n" for n using set_columns_name by blast
    then have "map n_name (update_where (\<lambda>n. n_id n = i) (set_columns enc ?safe) (d_nodes d)) = map n_name (d_nodes d)"
      by (simp add: update_where_def)
    then show ?thesis using assms by (auto simp: updateNode_def Let_def split: if_splits)
  qed
qed

end
