(* ===== verification/AdminNodes.thy ===== *)
theory AdminNodes
  imports NodeUpdate DeployRun HealthReport
begin

text \<open>
  The routes by which an administrator manages nodes and agents (\<open>src/routes/admin/adminNodes.js\<close>,
  \<open>src/routes/admin/adminAgents.js\<close>). A deployment is started and not waited for: the handler
  returns the jobs it starts. Numbers typed with a fraction are exact; the drawn ids, tokens and
  credentials are parameters. The group and the tags of a node are not in the rows of the model.
\<close>

section \<open>Requests and replies\<close>

record admin_call =
  ac_actor :: int
  ac_ip :: string
  ac_now :: int

text \<open>\<open>Raised\<close>: the statement raised and the error handler answers.\<close>

datatype admin_reply = Fail int | Redirect string | Okay | Created int | Told bool "string option" | NodeInfo "int \<times> rat \<times> int \<times> bool \<times> string \<times> string \<times> bool" | Raised

definition admin_log :: "admin_call \<Rightarrow> string \<Rightarrow> string list \<Rightarrow> db \<Rightarrow> db" where
  "admin_log c act args d = addAuditLog (ac_now c) (Some (ac_actor c)) act args (ac_ip c) d"

text \<open>What \<open>parseFloat\<close> reads at the start of a text.\<close>

datatype float_num = Num rat | Infinite bool | NotNum

definition too_big :: rat where "too_big = 2 ^ 1024"

definition js_float :: "string \<Rightarrow> float_num" where
  "js_float s =
     (let t = js_trim_start s; neg = js_starts ''-'' t
      in if js_starts ''Infinity'' (if neg \<or> js_starts ''+'' t then drop 1 t else t) then Infinite (\<not> neg)
         else case js_parse_float s of
                None \<Rightarrow> NotNum
              | Some x \<Rightarrow> if too_big \<le> x then Infinite True else if x \<le> - too_big then Infinite False else Num x)"

section \<open>Deploying\<close>

record deploy_form =
  df_host :: string
  df_ssh_port :: string
  df_ssh_user :: string
  df_ssh_password :: string
  df_ss_method :: string
  df_socks5_host :: string
  df_socks5_port :: string
  df_socks5_user :: string
  df_socks5_pass :: string
  df_vless :: bool
  df_ss :: bool
  df_hy2 :: bool

definition ssh_info :: "admin_call \<Rightarrow> deploy_form \<Rightarrow> deploy_info" where
  "ssh_info c f =
     \<lparr>di_host = df_host f, di_ssh_host = None, di_port = int_text_or 22 (df_ssh_port f), di_user = text_or (df_ssh_user f) ''root'',
      di_password = Some (df_ssh_password f), di_key_path = None, di_socks_host = df_socks5_host f,
      di_socks_port = show_int (int_text_or 1080 (df_socks5_port f)), di_socks_user = df_socks5_user f,
      di_socks_pass = text_or_null (df_socks5_pass f), di_ss_method = text_or (df_ss_method f) ''aes-256-gcm'', di_hy2_obfs = [],
      di_hy2_up = [], di_hy2_down = [], di_by = Some (ac_actor c)\<rparr>"

datatype deploy_job = JobVless deploy_info | JobSs deploy_info | JobDual deploy_info | JobHy2 deploy_info

text \<open>The node that already is at an address.\<close>

definition at_address :: "cipher \<Rightarrow> string \<Rightarrow> db \<Rightarrow> node option" where
  "at_address dec host d = find (\<lambda>n. n_ssh_host n = Some (js_trim host) \<or> n_host n = js_trim host) (getAllNodes dec False d)"

definition deploy_checks :: "(string \<Rightarrow> bool) \<Rightarrow> cipher \<Rightarrow> admin_call \<Rightarrow> deploy_form \<Rightarrow> db \<Rightarrow> (string \<times> db) option" where
  "deploy_checks isIP dec c f d =
     (if df_host f = [] \<or> df_ssh_password f = [] then Some (''/admin#nodes'', d)
      else if \<not> isValidHost isIP (Some (df_host f)) then Some (''/admin?msg=invalid_host#nodes'', d)
      else case at_address dec (df_host f) d of
             Some n \<Rightarrow> Some (''/admin?msg=dup#nodes'', admin_log c ''node_deploy_dup'' [df_host f, n_name n] d)
           | None \<Rightarrow> None)"

definition deploy_smart ::
  "(string \<Rightarrow> bool) \<Rightarrow> cipher \<Rightarrow> admin_call \<Rightarrow> deploy_form \<Rightarrow> db \<Rightarrow> admin_reply \<times> deploy_job list \<times> db" where
  "deploy_smart isIP dec c f d =
     (case deploy_checks isIP dec c f d of
        Some (url, d1) \<Rightarrow> (Redirect url, [], d1)
      | None \<Rightarrow>
          if \<not> df_vless f \<and> \<not> df_ss f \<and> \<not> df_hy2 f then (Redirect ''/admin#nodes'', [], d)
          else let i = ssh_info c f;
                   (hs, d1) = (if df_hy2 f then ([JobHy2 i], admin_log c ''node_deploy_hy2_start'' [df_host f] d) else ([], d));
                   (js, d2) = (if df_vless f \<and> df_ss f then ([JobDual i], admin_log c ''node_deploy_dual_start'' [df_host f] d1)
                               else if df_vless f then ([JobVless i], admin_log c ''node_deploy_start'' [df_host f] d1)
                               else if df_ss f then ([JobSs i], admin_log c ''node_deploy_ss_start'' [df_host f] d1)
                               else ([], d1))
               in (Redirect ''/admin?msg=deploying#nodes'', hs @ js, d2))"

definition deploy_route ::
  "string \<Rightarrow> (deploy_info \<Rightarrow> deploy_job) \<Rightarrow> (string \<Rightarrow> bool) \<Rightarrow> cipher \<Rightarrow> admin_call \<Rightarrow> deploy_form \<Rightarrow> db \<Rightarrow>
   admin_reply \<times> deploy_job list \<times> db" where
  "deploy_route action job isIP dec c f d =
     (case deploy_checks isIP dec c f d of
        Some (url, d1) \<Rightarrow> (Redirect url, [], d1)
      | None \<Rightarrow> (Redirect ''/admin?msg=deploying#nodes'', [job (ssh_info c f)], admin_log c action [df_host f] d))"

definition deploy_dual where "deploy_dual = deploy_route ''node_deploy_dual_start'' JobDual"
definition deploy_ss where "deploy_ss = deploy_route ''node_deploy_ss_start'' JobSs"
definition deploy_vless where "deploy_vless = deploy_route ''node_deploy_start'' JobVless"

section \<open>Deleting\<close>

definition DELETE_STOP :: string where
  "DELETE_STOP = ''exec systemctl stop xray; systemctl disable xray; systemctl stop hysteria-server; systemctl disable hysteria-server; systemctl stop vless-agent; systemctl disable vless-agent''"

text \<open>How the machine is told to stop; whatever comes of it, the node is deleted afterwards.\<close>

datatype stop_way = StopByAgent int string | StopBySsh ssh_auth string | NoStop

definition stop_way_of :: "(int \<Rightarrow> bool) \<Rightarrow> node \<Rightarrow> stop_way" where
  "stop_way_of online n =
     (if online (n_id n) then StopByAgent (n_id n) DELETE_STOP
      else if truthy (n_ssh_password n) \<or> truthy (n_ssh_key_path n)
      then StopBySsh (if truthy (n_ssh_key_path n) then KeyFile (the (n_ssh_key_path n)) else SshPassword (the (n_ssh_password n))) DELETE_STOP
      else NoStop)"

text \<open>The request is answered at once. The node it named, with the way its machine is being told to stop, is
  deleted when that has come to an end, in \<open>delete_done\<close>.\<close>

definition delete_node :: "cipher \<Rightarrow> (int \<Rightarrow> bool) \<Rightarrow> string \<Rightarrow> db \<Rightarrow> admin_reply \<times> (node \<times> stop_way) option" where
  "delete_node dec online idText d =
     (case parseIntId idText of
        None \<Rightarrow> (Fail 400, None)
      | Some i \<Rightarrow> (Redirect ''/admin#nodes'', map_option (\<lambda>n. (n, stop_way_of online n)) (getNodeById dec i d)))"

definition delete_done :: "admin_call \<Rightarrow> node \<Rightarrow> monitor \<Rightarrow> monitor" where
  "delete_done c n s =
     on_db (admin_log c ''node_delete'' [n_name n]) (cleanupNodeState (n_id n) (on_db (deleteNode (n_id n)) s))"

section \<open>Changing\<close>

definition findDuplicateNodeName :: "cipher \<Rightarrow> string \<Rightarrow> int option \<Rightarrow> db \<Rightarrow> node option" where
  "findDuplicateNodeName dec name exclude d =
     (if js_trim name = [] then None
      else case getNodeByName dec (js_trim name) d of
             None \<Rightarrow> None
           | Some n \<Rightarrow> if exclude = Some (n_id n) then None else Some n)"

text \<open>An update that leaves the name alone cannot raise.\<close>

definition write_columns :: "cipher \<Rightarrow> int \<Rightarrow> (string \<times> column_value) list \<Rightarrow> db \<Rightarrow> db" where
  "write_columns enc i cs d = (case updateNode enc i cs d of None \<Rightarrow> d | Some d' \<Rightarrow> d')"

record basic_form =
  bf_host :: string
  bf_name :: string
  bf_rate :: string
  bf_insecure :: bool

text \<open>The nodes that take over a new address: those of the same machine that were not added by hand.\<close>

definition follows :: "node \<Rightarrow> node \<Rightarrow> bool" where
  "follows old n \<longleftrightarrow> n_id n \<noteq> n_id old \<and> \<not> n_is_manual n \<and> (n_ssh_host n = n_ssh_host old \<or> n_ssh_host n = Some (n_host old))"

definition follow :: "cipher \<Rightarrow> admin_call \<Rightarrow> node \<Rightarrow> string \<Rightarrow> node \<Rightarrow> db \<Rightarrow> db" where
  "follow enc c old host p d =
     admin_log c ''node_update_basic'' [n_name p, host]
       (write_columns enc (n_id p)
          ((''ssh_host'', TextV host) # (if n_ip_version p \<noteq> 6 \<and> n_host p = n_host old then [(''host'', TextV host)] else [])) d)"

definition updateNodeBasicInfo ::
  "(string \<Rightarrow> bool) \<Rightarrow> cipher \<Rightarrow> cipher \<Rightarrow> admin_call \<Rightarrow> string \<Rightarrow> basic_form \<Rightarrow> db \<Rightarrow> admin_reply \<times> db" where
  "updateNodeBasicInfo isIP enc dec c idText f d =
     (case parseIntId idText of
        None \<Rightarrow> (Fail 400, d)
      | Some i \<Rightarrow>
          (let host = js_trim (bf_host f); name = js_trim (bf_name f)
           in if host = [] \<or> \<not> isValidHost isIP (Some host) then (Fail 400, d)
              else if name = [] then (Fail 400, d)
              else case findDuplicateNodeName dec name (Some i) d of
                     Some n \<Rightarrow> (Redirect ''/admin?msg=dup_name#nodes'', admin_log c ''node_update_name_dup'' [name, show_int (n_id n)] d)
                   | None \<Rightarrow>
                       (case getNodeById dec i d of
                          None \<Rightarrow> (Redirect ''/admin#nodes'', d)
                        | Some n \<Rightarrow>
                            (case updateNode enc (n_id n) [(''name'', TextV name), (''host'', TextV host), (''ssh_host'', TextV host)] d of
                               None \<Rightarrow> (Raised, d)
                             | Some d1 \<Rightarrow>
                                 let d2 = (case js_float (bf_rate f) of
                                             Num r \<Rightarrow> if 0 \<le> r then write_columns enc (n_id n) [(''traffic_rate'', RatV r)] d1 else d1
                                           | Infinite up \<Rightarrow> if up then write_columns enc (n_id n) [(''traffic_rate'', RatV too_big)] d1 else d1
                                           | NotNum \<Rightarrow> d1);
                                     d3 = (if n_is_manual n then write_columns enc (n_id n) [(''allow_insecure'', FlagV (bf_insecure f))] d2 else d2);
                                     d4 = admin_log c ''node_update_basic'' [n_name n, n_host n, name, host] d3
                                 in (Redirect ''/admin#nodes'',
                                     if n_is_manual n then d4
                                     else fold (follow enc c n host) (filter (follows n) (getAllNodes dec False d4)) d4)))))"

definition node_info :: "cipher \<Rightarrow> string \<Rightarrow> db \<Rightarrow> admin_reply" where
  "node_info dec idText d =
     (case parseIntId idText of
        None \<Rightarrow> Fail 400
      | Some i \<Rightarrow>
          (case getNodeById dec i d of
             None \<Rightarrow> Fail 404
           | Some n \<Rightarrow> NodeInfo (n_traffic_cap n, n_traffic_rate n, n_id n, n_is_manual n, or_else (n_agent_token n) [],
               or_else (n_ws_path n) [], n_allow_insecure n)))"

definition MAX_NODE_TRAFFIC_TB :: rat where "MAX_NODE_TRAFFIC_TB = 10000"

definition cap_bytes :: "string \<Rightarrow> int" where
  "cap_bytes s =
     (let tb = (case js_float (text_or s ''0'') of Num r \<Rightarrow> if r < 0 then 0 else min r MAX_NODE_TRAFFIC_TB | _ \<Rightarrow> 0)
      in js_round (tb * 1099511627776))"

definition host_key :: "node \<Rightarrow> string" where
  "host_key n = or_else (n_ssh_host n) (n_host n)"

definition set_traffic_cap :: "cipher \<Rightarrow> cipher \<Rightarrow> admin_call \<Rightarrow> string \<Rightarrow> string \<Rightarrow> db \<Rightarrow> admin_reply \<times> db" where
  "set_traffic_cap enc dec c idText capTb d =
     (case parseIntId idText of
        None \<Rightarrow> (Fail 400, d)
      | Some i \<Rightarrow>
          let cap = cap_bytes capTb; d1 = write_columns enc i [(''traffic_cap'', IntV cap)] d;
              (name, d2) = (case getNodeById dec i d1 of
                 None \<Rightarrow> ([], d1)
               | Some n \<Rightarrow>
                   (n_name n, fold (\<lambda>m. write_columns enc (n_id m) [(''traffic_cap'', IntV cap)])
                      (filter (\<lambda>m. n_id m \<noteq> i \<and> host_key m = host_key n) (getAllNodes dec False d1)) d1))
          in (Okay, admin_log c ''node_traffic_cap'' [name, text_or capTb ''0''] d2))"

definition update_level :: "cipher \<Rightarrow> cipher \<Rightarrow> admin_call \<Rightarrow> string \<Rightarrow> string \<Rightarrow> db \<Rightarrow> admin_reply \<times> db" where
  "update_level enc dec c idText levelText d =
     (case parseIntId idText of
        None \<Rightarrow> (Fail 400, d)
      | Some i \<Rightarrow>
          (let level = int_text_or 0 levelText
           in (Okay,
               case getNodeById dec i d of
                 None \<Rightarrow> d
               | Some n \<Rightarrow>
                   add_effect (EmitSyncNode i)
                     (admin_log c ''node_update_level'' [n_name n, show_int level]
                        (write_columns enc (n_id n) [(''min_level'', IntV (max 0 (min 3 level)))] d)))))"

definition restart_xray :: "cipher \<Rightarrow> (int \<Rightarrow> bool) \<Rightarrow> (int \<Rightarrow> string \<Rightarrow> bool \<times> string option) \<Rightarrow> admin_call \<Rightarrow> string \<Rightarrow> db \<Rightarrow> admin_reply \<times> db" where
  "restart_xray dec online answer c idText d =
     (case parseIntId idText of
        None \<Rightarrow> (Fail 400, d)
      | Some i \<Rightarrow>
          (case getNodeById dec i d of
             None \<Rightarrow> (Fail 404, d)
           | Some n \<Rightarrow>
               if \<not> online (n_id n) then (Told False (Some ''agent offline''), d)
               else let hy2 = n_protocol n = ''hy2''; (ok, err) = answer (n_id n) (if hy2 then ''restart_hysteria'' else ''restart_xray'')
                    in (Told ok err, admin_log c ''restart_xray'' [if hy2 then ''Hysteria'' else ''Xray'', n_name n] d)))"

definition update_group :: "cipher \<Rightarrow> cipher \<Rightarrow> admin_call \<Rightarrow> string \<Rightarrow> string \<Rightarrow> string \<Rightarrow> db \<Rightarrow> admin_reply \<times> db" where
  "update_group enc dec c idText grp tags d =
     (case parseIntId idText of
        None \<Rightarrow> (Fail 400, d)
      | Some i \<Rightarrow>
          (case getNodeById dec i d of
             None \<Rightarrow> (Fail 404, d)
           | Some n \<Rightarrow>
               (Okay, admin_log c ''node_update_group'' [n_name n, grp, tags]
                  (write_columns enc i [(''group_name'', TextV (js_trim grp)), (''tags'', TextV (js_trim tags))] d))))"

record ss_form =
  sf_protocol :: string
  sf_ip_version :: "string option"
  sf_method :: string
  sf_password :: "string option"

definition update_ss :: "cipher \<Rightarrow> cipher \<Rightarrow> admin_call \<Rightarrow> string \<Rightarrow> ss_form \<Rightarrow> db \<Rightarrow> admin_reply \<times> db" where
  "update_ss enc dec c idText f d =
     (case parseIntId idText of
        None \<Rightarrow> (Fail 400, d)
      | Some i \<Rightarrow>
          (case getNodeById dec i d of
             None \<Rightarrow> (Fail 404, d)
           | Some n \<Rightarrow>
               (Okay, admin_log c ''node_update_ss'' [n_name n, sf_protocol f, case sf_ip_version f of None \<Rightarrow> ''undefined'' | Some v \<Rightarrow> v]
                  (write_columns enc i
                     ((if sf_protocol f = [] then [] else [(''protocol'', TextV (sf_protocol f))]) @
                      (case sf_ip_version f of None \<Rightarrow> [] | Some v \<Rightarrow> [(''ip_version'', IntV (int_text_or 4 v))]) @
                      (if sf_method f = [] then [] else [(''ss_method'', TextV (sf_method f))]) @
                      (case sf_password f of None \<Rightarrow> [] | Some p \<Rightarrow> [(''ss_password'', TextV p)])) d))))"

record manual_form =
  mf_name :: string
  mf_host :: string
  mf_port :: string
  mf_protocol :: string
  mf_ip_version :: string
  mf_region :: string
  mf_ss_method :: string
  mf_ss_password :: string
  mf_network :: string
  mf_security :: string
  mf_sni :: "string option"
  mf_ws_path :: "string option"
  mf_insecure :: bool

definition manual_protocol :: "manual_form \<Rightarrow> string" where
  "manual_protocol f = (if mf_protocol f = ''ss'' then ''ss'' else if mf_protocol f = ''hy2'' then ''hy2'' else ''vless'')"

definition manual_node :: "string \<Rightarrow> int \<Rightarrow> manual_form \<Rightarrow> new_node" where
  "manual_node uuid port f =
     (let vless = manual_protocol f = ''vless'';
          net = (if mf_network f \<in> {''ws'', ''grpc'', ''tcp''} then mf_network f else ''tcp'');
          sec = (if mf_security f \<in> {''tls'', ''none''} then mf_security f else ''none'')
      in \<lparr>nn_name = js_trim (mf_name f), nn_host = js_trim (mf_host f), nn_port = port, nn_uuid = uuid, nn_protocol = manual_protocol f,
          nn_network = (if vless then net else ''tcp''), nn_security = (if vless then sec else ''none''),
          nn_ssh_host = None, nn_ssh_port = 0, nn_ssh_user = [], nn_ssh_password = None, nn_ssh_key_path = None, nn_xray_config_path = [],
          nn_socks5_host = [], nn_socks5_port = 0, nn_socks5_user = [], nn_socks5_pass = None, nn_is_active = None,
          nn_region = js_trim (mf_region f), nn_remark = [], nn_is_manual = True, nn_fail_count = 0, nn_agent_token = [],
          nn_ip_version = (if js_parse_int (mf_ip_version f) = Some 6 then 6 else 4), nn_ss_method = [], nn_ss_password = None,
          nn_hy2_port = 0, nn_hy2_obfs = [], nn_hy2_sni = [], nn_hy2_up = 0, nn_hy2_down = 0, nn_hy2_stats_secret = None\<rparr>)"

definition manual_columns :: "manual_form \<Rightarrow> (string \<times> column_value) list" where
  "manual_columns f =
     (if manual_protocol f = ''ss'' then [(''ss_method'', TextV (text_or (mf_ss_method f) ''aes-256-gcm'')), (''ss_password'', TextV (mf_ss_password f))]
      else if manual_protocol f = ''vless''
      then (''allow_insecure'', FlagV (mf_insecure f)) #
           (case mf_sni f of None \<Rightarrow> [] | Some s \<Rightarrow> [(''sni'', TextV (js_trim s))]) @
           (case mf_ws_path f of None \<Rightarrow> [] | Some s \<Rightarrow> [(''ws_path'', TextV (js_trim s))])
      else [])"

text \<open>\<open>i\<close>, \<open>uuid\<close> and \<open>token\<close> are drawn.\<close>

definition add_manual :: "(string \<Rightarrow> bool) \<Rightarrow> cipher \<Rightarrow> cipher \<Rightarrow> string \<Rightarrow> string \<Rightarrow> int \<Rightarrow> admin_call \<Rightarrow> manual_form \<Rightarrow> db \<Rightarrow> admin_reply \<times> db" where
  "add_manual isIP enc dec uuid token i c f d =
     (if mf_name f = [] \<or> mf_host f = [] \<or> mf_port f = [] then (Fail 400, d)
      else if \<not> isValidHost isIP (Some (js_trim (mf_host f))) then (Fail 400, d)
      else if findDuplicateNodeName dec (js_trim (mf_name f)) None d \<noteq> None then (Fail 400, d)
      else case js_parse_int (mf_port f) of
             None \<Rightarrow> (Fail 400, d)
           | Some p \<Rightarrow>
               if p < 1 \<or> 65535 < p then (Fail 400, d)
               else case addNode enc token i (manual_node uuid p f) d of
                      None \<Rightarrow> (Raised, d)
                    | Some d1 \<Rightarrow>
                        (Created i, admin_log c ''node_add_manual'' [mf_name f, manual_protocol f] (write_columns enc i (manual_columns f) d1)))"

section \<open>Agents\<close>

definition ALLOWED_COMMAND_TYPES :: "string list" where
  "ALLOWED_COMMAND_TYPES = [''ping'', ''restart_xray'', ''update_config'', ''self_update'']"

text \<open>The command is passed on with all that the administrator has put into it.\<close>

definition agent_command :: "(int \<Rightarrow> string \<Rightarrow> bool \<times> string option) \<Rightarrow> admin_call \<Rightarrow> string \<Rightarrow> string option \<Rightarrow> db \<Rightarrow> admin_reply \<times> db" where
  "agent_command answer c idText type d =
     (case parseIntId idText of
        None \<Rightarrow> (Fail 400, d)
      | Some i \<Rightarrow>
          if \<not> truthy type then (Fail 400, d)
          else if the type \<notin> set ALLOWED_COMMAND_TYPES then (Fail 403, d)
          else let (ok, err) = answer i (the type)
               in (Told ok err, admin_log c ''agent_command'' [show_int i, the type] d))"

definition regenerate_tokens :: "cipher \<Rightarrow> cipher \<Rightarrow> (int \<Rightarrow> string) \<Rightarrow> admin_call \<Rightarrow> db \<Rightarrow> nat \<times> db" where
  "regenerate_tokens enc dec draw c d =
     (let nodes = getAllNodes dec False d;
          d1 = fold (\<lambda>n. write_columns enc (n_id n) [(''agent_token'', TextV (draw (n_id n)))]) nodes d
      in (length nodes, admin_log c ''agent_token_regen'' [show_nat (length nodes)] d1))"

end
