(* ===== verification/AdminNodeProps.thy ===== *)
theory AdminNodeProps
  imports AdminNodes DeployProps NodeProps
begin

text \<open>
  Properties of the administrator's routes for nodes: the names of nodes stay distinct, what a request
  can never change, the common cap of a machine, and what the deletion of a node leaves running.
\<close>

section \<open>Requests\<close>

record node_env =
  ne_isIP :: "string \<Rightarrow> bool"
  ne_enc :: cipher
  ne_dec :: cipher
  ne_online :: "int \<Rightarrow> bool"
  ne_answer :: "int \<Rightarrow> string \<Rightarrow> bool \<times> string option"

datatype node_request =
  Basic string basic_form
| Cap string string
| Level string string
| Group string string string
| Ss string ss_form
| Manual string string int manual_form
| Restart string
| Tell string "string option"
| Delete string
| Tokens "int \<Rightarrow> string"
| Smart deploy_form

fun serve_node :: "node_env \<Rightarrow> admin_call \<Rightarrow> node_request \<Rightarrow> db \<Rightarrow> db" where
  "serve_node e c (Basic i f) d = snd (updateNodeBasicInfo (ne_isIP e) (ne_enc e) (ne_dec e) c i f d)"
| "serve_node e c (Cap i s) d = snd (set_traffic_cap (ne_enc e) (ne_dec e) c i s d)"
| "serve_node e c (Level i s) d = snd (update_level (ne_enc e) (ne_dec e) c i s d)"
| "serve_node e c (Group i g t) d = snd (update_group (ne_enc e) (ne_dec e) c i g t d)"
| "serve_node e c (Ss i f) d = snd (update_ss (ne_enc e) (ne_dec e) c i f d)"
| "serve_node e c (Manual uuid token i f) d = snd (add_manual (ne_isIP e) (ne_enc e) (ne_dec e) uuid token i c f d)"
| "serve_node e c (Restart i) d = snd (restart_xray (ne_dec e) (ne_online e) (ne_answer e) c i d)"
| "serve_node e c (Tell i t) d = snd (agent_command (ne_answer e) c i t d)"
| "serve_node e c (Delete i) d = d"
| "serve_node e c (Tokens draw) d = snd (regenerate_tokens (ne_enc e) (ne_dec e) draw c d)"
| "serve_node e c (Smart f) d = snd (snd (deploy_smart (ne_isIP e) (ne_dec e) c f d))"

fun to_delete :: "node_env \<Rightarrow> admin_call \<Rightarrow> node_request \<Rightarrow> db \<Rightarrow> (admin_call \<times> node) list" where
  "to_delete e c (Delete i) d = (case snd (delete_node (ne_dec e) (ne_online e) i d) of None \<Rightarrow> [] | Some (n, way) \<Rightarrow> [(c, n)])"
| "to_delete e c _ d = []"

text \<open>
  The table of nodes while the panel runs: the database, every number that a row ever had (the numbers of the
  table are never given twice), and the nodes whose deletion has been asked for and not yet done. Beside the
  requests the steps are all that writes the table: the end of a deletion, a row inserted by a deployment that
  runs in the background, an update or a deletion by another part of the panel, a new port of the nightly
  rotation, and anything that leaves the rows alone but for the time of the agent's last report.
\<close>

record node_world =
  nw_db :: db
  nw_used :: "int set"
  nw_leaving :: "(admin_call \<times> node) list"

inductive node_run :: "node_env \<Rightarrow> db \<Rightarrow> node_world \<Rightarrow> bool" for e d where
  start: "n_id ` set (d_nodes d) \<subseteq> used \<Longrightarrow> node_run e d \<lparr>nw_db = d, nw_used = used, nw_leaving = []\<rparr>"
| request: "node_run e d w \<Longrightarrow> (\<And>uuid token i f. q = Manual uuid token i f \<Longrightarrow> i \<notin> nw_used w) \<Longrightarrow>
    d1 = serve_node e c q (nw_db w) \<Longrightarrow>
    node_run e d (w\<lparr>nw_db := d1, nw_used := nw_used w \<union> n_id ` set (d_nodes d1),
      nw_leaving := nw_leaving w @ to_delete e c q (nw_db w)\<rparr>)"
| deleted: "node_run e d w \<Longrightarrow> (c, n) \<in> set (nw_leaving w) \<Longrightarrow> hm_db s = nw_db w \<Longrightarrow>
    node_run e d (w\<lparr>nw_db := hm_db (delete_done c n s)\<rparr>)"
| inserted: "node_run e d w \<Longrightarrow> i \<notin> nw_used w \<Longrightarrow> addNode enc token i nn (nw_db w) = Some d1 \<Longrightarrow>
    node_run e d (w\<lparr>nw_db := d1, nw_used := insert i (nw_used w)\<rparr>)"
| updated: "node_run e d w \<Longrightarrow> updateNode enc i cs (nw_db w) = Some d1 \<Longrightarrow> node_run e d (w\<lparr>nw_db := d1\<rparr>)"
| removed: "node_run e d w \<Longrightarrow> node_run e d (w\<lparr>nw_db := deleteNode i (nw_db w)\<rparr>)"
| rotated: "node_run e d w \<Longrightarrow> node_run e d (w\<lparr>nw_db := updateNodeAfterRotation i uuid port protocol t (nw_db w)\<rparr>)"
| elsewhere: "node_run e d w \<Longrightarrow>
    list_all2 (\<lambda>m n. n = m\<lparr>n_agent_last_report := n_agent_last_report n\<rparr>) (d_nodes (nw_db w)) (d_nodes d1) \<Longrightarrow>
    node_run e d (w\<lparr>nw_db := d1\<rparr>)"

section \<open>Names and rates\<close>

definition names_ok :: "db \<Rightarrow> bool" where
  "names_ok d \<longleftrightarrow> distinct (map n_id (d_nodes d)) \<and> distinct (map n_name (d_nodes d))"

abbreviation traits :: "node \<Rightarrow> int \<times> string \<times> rat" where
  "traits n \<equiv> (n_id n, n_protocol n, n_traffic_rate n)"

text \<open>What an update keeps.\<close>

definition steady :: "db \<Rightarrow> db \<Rightarrow> bool" where
  "steady d d' \<longleftrightarrow> map traits (d_nodes d') = map traits (d_nodes d) \<and> (names_ok d \<longrightarrow> names_ok d')"

named_theorems steady_intros

lemma steady_refl [steady_intros]: "steady d d" by (simp add: steady_def)

lemma steady_trans: "steady d1 d2 \<Longrightarrow> steady d2 d3 \<Longrightarrow> steady d1 d3" by (simp add: steady_def)

lemma steady_log [steady_intros]: "steady d d' \<Longrightarrow> steady d (admin_log c act args d')"
  by (simp add: steady_def admin_log_def names_ok_def)

lemma steady_effect [steady_intros]: "steady d d' \<Longrightarrow> steady d (add_effect x d')"
  by (simp add: steady_def names_ok_def)

lemma steady_update:
  assumes "updateNode enc i cs d = Some d'"
  shows "steady d d'"
proof -
  have "map traits (d_nodes d') = map traits (d_nodes d)"
    using updateNode_keeps(1-3) [OF assms] by (simp add: list_eq_iff_nth_eq)
  then show ?thesis using updateNode_keeps(1) [OF assms] updateNode_names [OF assms] by (simp add: steady_def names_ok_def)
qed

lemma steady_write [steady_intros]: "steady d d' \<Longrightarrow> steady d (write_columns enc i cs d')"
  by (auto simp: write_columns_def steady_refl intro: steady_trans steady_update split: option.split)

lemma steady_fold [steady_intros]:
  assumes "steady d d'" and "\<And>x d. steady d (f x d)"
  shows "steady d (fold f xs d')"
  using assms(1)
proof (induction xs arbitrary: d')
  case (Cons x xs)
  then show ?case using steady_trans [OF Cons.prems assms(2)] by simp
qed simp

lemma steady_follow [steady_intros]: "steady d (follow enc c old host p d)"
  unfolding follow_def by (intro steady_intros)

lemma steady_basic: "steady d (snd (updateNodeBasicInfo isIP enc dec c i f d))"
  unfolding updateNodeBasicInfo_def Let_def
  by (auto split: option.split float_num.split intro!: steady_intros dest: steady_update)

lemma steady_requests:
  "steady d (snd (set_traffic_cap enc dec c i s d))" "steady d (snd (update_level enc dec c i s d))"
  "steady d (snd (update_group enc dec c i g t d))" "steady d (snd (update_ss enc dec c i sf d))"
  "steady d (snd (restart_xray dec online answer c i d))" "steady d (snd (agent_command answer c i ty d))"
  "steady d (snd (regenerate_tokens enc dec draw c d))" "steady d (snd (snd (deploy_smart isIP dec c df d)))"
  by (auto simp: set_traffic_cap_def update_level_def update_group_def update_ss_def restart_xray_def agent_command_def
      regenerate_tokens_def deploy_smart_def deploy_checks_def Let_def split_beta split: option.split intro!: steady_intros)

lemma steady_rotated: "steady d (updateNodeAfterRotation i uuid port protocol t d)"
proof -
  let ?f = "\<lambda>n. if n_id n = i then (if protocol = ''hy2'' then n\<lparr>n_hy2_port := Some port\<rparr> else n)
      \<lparr>n_uuid := uuid, n_port := port, n_last_rotated := Some (toSqlUtc t)\<rparr> else n"
  have f: "n_id (?f n) = n_id n" "n_name (?f n) = n_name n" "n_protocol (?f n) = n_protocol n" "n_traffic_rate (?f n) = n_traffic_rate n" for n
    by simp_all
  have "d_nodes (updateNodeAfterRotation i uuid port protocol t d) = map ?f (d_nodes d)"
    by (simp add: updateNodeAfterRotation_def update_where_def)
  then show ?thesis unfolding steady_def names_ok_def by (simp only: map_map comp_def f) blast
qed

lemma steady_elsewhere:
  assumes "list_all2 (\<lambda>m n. n = m\<lparr>n_agent_last_report := n_agent_last_report n\<rparr>) (d_nodes d) (d_nodes d')"
  shows "steady d d'"
proof -
  have keep: "n_name n = n_name m \<and> traits n = traits m" if "n = m\<lparr>n_agent_last_report := x\<rparr>" for m n x
    using that by (cases m) simp
  have "map n_name ns' = map n_name ns \<and> map traits ns' = map traits ns"
    if "list_all2 (\<lambda>m n. n = m\<lparr>n_agent_last_report := n_agent_last_report n\<rparr>) ns ns'" for ns ns'
    using that by (induction rule: list_all2_induct) (auto dest!: keep)
  then have m: "map n_name (d_nodes d') = map n_name (d_nodes d)" "map traits (d_nodes d') = map traits (d_nodes d)"
    using assms by blast+
  have "map n_id (d_nodes d') = map n_id (d_nodes d)" using arg_cong [OF m(2), of "map fst"] by (simp add: comp_def)
  then show ?thesis using m by (simp add: steady_def names_ok_def)
qed

text \<open>What a deletion keeps.\<close>

definition fewer :: "db \<Rightarrow> db \<Rightarrow> bool" where
  "fewer d d' \<longleftrightarrow> set (d_nodes d') \<subseteq> set (d_nodes d) \<and> (names_ok d \<longrightarrow> names_ok d')"

lemma fewer_rows: "fewer d (deleteNode i d)"
  by (auto simp: fewer_def deleteNode_def names_ok_def delete_where_def distinct_map_filter)

lemma fewer_done: "fewer (hm_db s) (hm_db (delete_done c n s))"
  using fewer_rows [of "hm_db s" "n_id n"]
  by (auto simp: fewer_def delete_done_def on_db_def admin_log_def cleanupNodeState_def names_ok_def)

lemma manual_protocol_some: "manual_protocol f \<noteq> []"
  by (simp add: manual_protocol_def)

lemma addNode_rows:
  assumes "addNode enc token i nn d = Some d1"
  shows "d_nodes d1 = d_nodes d @ [node_row enc token i nn]" "names_ok d \<Longrightarrow> i \<notin> n_id ` set (d_nodes d) \<Longrightarrow> names_ok d1"
    "traits (node_row enc token i nn) = (i, text_or (nn_protocol nn) ''vless'', 1)"
  using assms by (auto simp: addNode_def names_ok_def node_row_def split: if_splits)

lemma add_manual_rows:
  "map traits (d_nodes (snd (add_manual isIP enc dec uuid token i c f d)))
     \<in> {map traits (d_nodes d), map traits (d_nodes d) @ [(i, manual_protocol f, 1)]} \<and>
   (names_ok d \<and> i \<notin> n_id ` set (d_nodes d) \<longrightarrow> names_ok (snd (add_manual isIP enc dec uuid token i c f d)))"
proof -
  let ?log = "\<lambda>d1. admin_log c ''node_add_manual'' [mf_name f, manual_protocol f] (write_columns enc i (manual_columns f) d1)"
  have new: "map traits (d_nodes (?log d1)) = map traits (d_nodes d) @ [(i, manual_protocol f, 1)] \<and>
      (names_ok d \<and> i \<notin> n_id ` set (d_nodes d) \<longrightarrow> names_ok (?log d1))"
    if "addNode enc token i (manual_node uuid p f) d = Some d1" for p d1
  proof -
    have rows: "d_nodes d1 = d_nodes d @ [node_row enc token i (manual_node uuid p f)]"
      and name: "nn_name (manual_node uuid p f) \<notin> n_name ` set (d_nodes d)"
      using that by (auto simp: addNode_def split: if_splits)
    have "traits (node_row enc token i (manual_node uuid p f)) = (i, manual_protocol f, 1)"
      by (simp add: node_row_def manual_node_def Let_def text_or_def manual_protocol_some)
    moreover have "n_name (node_row enc token i (manual_node uuid p f)) = nn_name (manual_node uuid p f)"
      "n_id (node_row enc token i (manual_node uuid p f)) = i"
      by (simp_all add: node_row_def)
    moreover have "steady d1 (?log d1)" by (intro steady_intros)
    ultimately show ?thesis using rows name by (auto simp: steady_def names_ok_def)
  qed
  show ?thesis
    by (cases "fst (add_manual isIP enc dec uuid token i c f d)")
      (auto simp: add_manual_def dest!: new split: option.splits if_splits)
qed

lemma steady_serve:
  assumes "\<And>uuid token i f. q \<noteq> Manual uuid token i f"
  shows "steady d (serve_node e c q d)"
  by (cases q) (use assms in \<open>simp_all add: steady_basic steady_requests steady_refl\<close>)

text \<open>The rows of a run: every number is noted, names and numbers are distinct if they were, a row with a number of
  the start has kept protocol and rate, every other one has the rate of a new row.\<close>

definition rows_ok :: "db \<Rightarrow> node_world \<Rightarrow> bool" where
  "rows_ok d w \<longleftrightarrow> n_id ` set (d_nodes (nw_db w)) \<subseteq> nw_used w \<and> n_id ` set (d_nodes d) \<subseteq> nw_used w \<and>
     (names_ok d \<longrightarrow> names_ok (nw_db w)) \<and>
     (\<forall>x \<in> traits ` set (d_nodes (nw_db w)).
        if fst x \<in> n_id ` set (d_nodes d) then x \<in> traits ` set (d_nodes d) else snd (snd x) = 1)"

lemma ids_traits: "n_id ` set ns = fst ` traits ` set ns"
  by (simp add: image_image)

lemma rows_ok_steady:
  assumes "rows_ok d w" and "steady (nw_db w) (nw_db w')" and "nw_used w \<subseteq> nw_used w'"
  shows "rows_ok d w'"
proof -
  have "traits ` set (d_nodes (nw_db w')) = traits ` set (d_nodes (nw_db w))"
    using assms(2) by (simp only: steady_def set_map [symmetric])
  note tr = this
  have ids: "n_id ` set (d_nodes (nw_db w')) = n_id ` set (d_nodes (nw_db w))" unfolding ids_traits tr by (rule refl)
  have "names_ok d \<longrightarrow> names_ok (nw_db w')" using assms(1,2) by (simp add: rows_ok_def steady_def)
  then show ?thesis using assms(1,3) unfolding rows_ok_def ids tr by blast
qed

lemma rows_ok_fewer:
  assumes "rows_ok d w" and "fewer (nw_db w) (nw_db w')" and "nw_used w \<subseteq> nw_used w'"
  shows "rows_ok d w'"
  using assms unfolding rows_ok_def fewer_def by blast

lemma rows_ok_added:
  assumes "rows_ok d w" and "map traits (d_nodes (nw_db w')) = map traits (d_nodes (nw_db w)) @ [(i, p, 1)]"
    and "i \<notin> nw_used w" and "insert i (nw_used w) \<subseteq> nw_used w'"
    and "names_ok (nw_db w) \<and> i \<notin> n_id ` set (d_nodes (nw_db w)) \<longrightarrow> names_ok (nw_db w')"
  shows "rows_ok d w'"
proof -
  have rows: "traits ` set (d_nodes (nw_db w')) = insert (i, p, 1) (traits ` set (d_nodes (nw_db w)))"
    using arg_cong [OF assms(2), of set] by (simp only: set_map set_append list.set Un_insert_right Un_empty_right)
  have new: "i \<notin> n_id ` set (d_nodes d)" "i \<notin> n_id ` set (d_nodes (nw_db w))" using assms(1,3) by (auto simp: rows_ok_def)
  have "n_id ` set (d_nodes (nw_db w')) = insert i (n_id ` set (d_nodes (nw_db w)))"
    unfolding ids_traits rows by simp
  then show ?thesis using assms new unfolding rows_ok_def rows by auto
qed

lemma run_rows: "node_run e d w \<Longrightarrow> rows_ok d w"
proof (induction rule: node_run.induct)
  case (start used)
  then show ?case by (auto simp: rows_ok_def)
next
  case (request w q d1 c)
  let ?w = "w\<lparr>nw_db := d1, nw_used := nw_used w \<union> n_id ` set (d_nodes d1), nw_leaving := nw_leaving w @ to_delete e c q (nw_db w)\<rparr>"
  show ?case
  proof (cases "\<exists>uuid token i f. q = Manual uuid token i f")
    case False
    then have "steady (nw_db w) d1" using steady_serve request.hyps(3) by blast
    then show ?thesis by (intro rows_ok_steady [OF request.IH]) auto
  next
    case True
    then obtain uuid token i f where q: "q = Manual uuid token i f" by blast
    note new = request.hyps(2) [OF q]
    have d1: "d1 = snd (add_manual (ne_isIP e) (ne_enc e) (ne_dec e) uuid token i c f (nw_db w))" using request.hyps(3) q by simp
    note rows = add_manual_rows [of "ne_isIP e" "ne_enc e" "ne_dec e" uuid token i c f "nw_db w", folded d1]
    show ?thesis
    proof (cases "map traits (d_nodes d1) = map traits (d_nodes (nw_db w))")
      case True
      have "i \<notin> n_id ` set (d_nodes (nw_db w))" using new request.IH by (auto simp: rows_ok_def)
      then have "steady (nw_db w) d1" using True rows by (simp add: steady_def)
      then show ?thesis by (intro rows_ok_steady [OF request.IH]) auto
    next
      case False
      then have r: "map traits (d_nodes d1) = map traits (d_nodes (nw_db w)) @ [(i, manual_protocol f, 1)]" using rows by blast
      have "(i, manual_protocol f, 1) \<in> set (map traits (d_nodes d1))" unfolding r by simp
      then have "i \<in> n_id ` set (d_nodes d1)" by auto
      then show ?thesis using new rows r by (intro rows_ok_added [OF request.IH]) auto
    qed
  qed
next
  case (deleted w c n s)
  then show ?case using fewer_done [of s c n] by (intro rows_ok_fewer [OF deleted.IH]) auto
next
  case (inserted w i enc token nn d1)
  note a = addNode_rows [OF inserted.hyps(3)]
  show ?case using inserted.hyps(2) a
    by (intro rows_ok_added [OF inserted.IH, where i = i and p = "text_or (nn_protocol nn) ''vless''"]) auto
next
  case (updated w enc i cs d1)
  then show ?case by (intro rows_ok_steady [OF updated.IH]) (auto intro: steady_update)
next
  case (removed w i)
  then show ?case by (intro rows_ok_fewer [OF removed.IH]) (auto intro: fewer_rows)
next
  case (rotated w i uuid port protocol t)
  then show ?case by (intro rows_ok_steady [OF rotated.IH]) (auto intro: steady_rotated)
next
  case (elsewhere w d1)
  then show ?case by (intro rows_ok_steady [OF elsewhere.IH]) (auto intro: steady_elsewhere)
qed

lemma run_names: "node_run e d w \<Longrightarrow> names_ok d \<Longrightarrow> names_ok (nw_db w)"
  using run_rows by (auto simp: rows_ok_def)

text \<open>A name that has been looked up in vain is taken without complaint.\<close>

lemma trim_trim: "js_trim (js_trim s) = js_trim s"
proof (cases "js_trim s = []")
  case False
  let ?t = "dropWhile js_space s" and ?u = "dropWhile js_space (rev (dropWhile js_space s))"
  have u: "js_trim s = rev ?u" by (simp add: js_trim_def)
  with False have "?u \<noteq> []" by simp
  then have last: "\<not> js_space (last (js_trim s))" using hd_dropWhile [of js_space "rev ?t"] by (simp add: u last_rev)
  have "?t = rev ?u @ rev (takeWhile js_space (rev ?t))"
    by (metis rev_append rev_rev_ident takeWhile_dropWhile_id)
  then have "?t \<noteq> [] \<and> hd (js_trim s) = hd ?t" using \<open>?u \<noteq> []\<close> by (metis Nil_is_append_conv hd_append2 rev_is_Nil_conv u)
  then have "\<not> js_space (hd (js_trim s))" using hd_dropWhile [of js_space s] by simp
  then show ?thesis using trim_same False last by simp
next
  case True
  have "js_trim [] = []" by (simp add: js_trim_def)
  then show ?thesis by (simp only: True)
qed

lemma find_taken:
  assumes "findDuplicateNodeName dec name x d = None" and "js_trim name = name" and "name \<noteq> []" and "names_ok d"
    and "n \<in> set (d_nodes d)" and "n_name n = name"
  shows "x = Some (n_id n)"
proof -
  have "find (\<lambda>n. n_name n = name) (d_nodes d) \<noteq> None" using assms(5,6) by (auto simp: find_None_iff)
  then obtain m where m: "find (\<lambda>n. n_name n = name) (d_nodes d) = Some m" by blast
  then have "m \<in> set (d_nodes d)" "n_name m = name" by (auto simp: find_Some_iff)
  then have "m = n" using assms(4-6) by (auto simp: names_ok_def distinct_map inj_on_def)
  then show ?thesis using assms(1-3) m by (auto simp: findDuplicateNodeName_def getNodeByName_def split: if_splits)
qed

lemma distinct_rename:
  assumes "distinct (map n_name ns)" and "distinct (map n_id ns)" and "\<And>n. n \<in> set ns \<Longrightarrow> n_id n \<noteq> i \<Longrightarrow> n_name n \<noteq> name"
    and "\<And>n. n_name (f n) = name"
  shows "distinct (map n_name (update_where (\<lambda>n. n_id n = i) f ns))"
proof -
  let ?g = "\<lambda>n. n_name (if n_id n = i then f n else n)"
  have "distinct ns" using assms(1) by (simp add: distinct_map)
  moreover have "m = n" if "m \<in> set ns" "n \<in> set ns" "?g m = ?g n" for m n
  proof (cases "n_id m = n_id n")
    case True
    then show ?thesis using that assms(2) by (auto simp: distinct_map inj_on_def)
  next
    case False
    then have "n_name m = n_name n" using that assms(3,4) by (metis (full_types))
    then show ?thesis using that assms(1) by (auto simp: distinct_map inj_on_def)
  qed
  ultimately have "distinct (map ?g ns)" by (simp add: distinct_map inj_on_def)
  then show ?thesis by (simp add: update_where_def comp_def)
qed

lemma rename_works:
  assumes "findDuplicateNodeName dec name (Some i) d = None" and "js_trim name = name" and "name \<noteq> []" and "names_ok d"
  shows "updateNode enc i [(''name'', TextV name), (''host'', TextV h), (''ssh_host'', TextV h)] d \<noteq> None"
proof -
  have "distinct (map n_name (update_where (\<lambda>n. n_id n = i)
      (set_columns enc [(''name'', TextV name), (''host'', TextV h), (''ssh_host'', TextV h)]) (d_nodes d)))"
    using assms(4) find_taken [OF assms(1-4)]
    by (intro distinct_rename [where name = name])
      (auto simp: names_ok_def set_columns_def set_column_def set_access_def set_identity_def plain_text_def)
  then show ?thesis by (simp add: updateNode_def NODE_COLUMNS_def)
qed

text \<open>C15: Whatever requests the administrator makes, and whatever deployments, deletions, rotations and updates run
  beside them, the numbers and the names of the nodes stay distinct, so that renaming a node never fails in the
  database, and adding one by hand only does for a blank name.\<close>

theorem node_names_distinct:
  assumes "node_run e d w" and "names_ok d"
  shows "distinct (map n_id (d_nodes (nw_db w))) \<and> distinct (map n_name (d_nodes (nw_db w))) \<and>
    fst (updateNodeBasicInfo (ne_isIP e) (ne_enc e) (ne_dec e) c idText f (nw_db w)) \<noteq> Raised \<and>
    (js_trim (mf_name g) \<noteq> [] \<longrightarrow> fst (add_manual (ne_isIP e) (ne_enc e) (ne_dec e) uuid token i c g (nw_db w)) \<noteq> Raised)"
proof -
  let ?d = "nw_db w"
  have ok: "names_ok ?d" by (rule run_names [OF assms])
  have basic: "fst (updateNodeBasicInfo (ne_isIP e) (ne_enc e) (ne_dec e) c idText f ?d) \<noteq> Raised"
  proof -
    have "updateNode (ne_enc e) (n_id n) [(''name'', TextV (js_trim (bf_name f))), (''host'', TextV h), (''ssh_host'', TextV h)] ?d \<noteq> None"
      if "findDuplicateNodeName (ne_dec e) (js_trim (bf_name f)) (Some j) ?d = None" "js_trim (bf_name f) \<noteq> []"
        "getNodeById (ne_dec e) j ?d = Some n" for j n h
    proof -
      have "n_id n = j" using that(3) by (auto simp: getNodeById_def find_Some_iff)
      then show ?thesis using rename_works [OF _ trim_trim that(2) ok] that(1) by simp
    qed
    note no_clash = this
    have "updateNode (ne_enc e) (n_id n) [(''name'', TextV (js_trim (bf_name f))), (''host'', TextV h), (''ssh_host'', TextV h)] ?d = None
        \<Longrightarrow> findDuplicateNodeName (ne_dec e) (js_trim (bf_name f)) (Some j) ?d = None \<Longrightarrow> js_trim (bf_name f) \<noteq> []
        \<Longrightarrow> getNodeById (ne_dec e) j ?d = Some n \<Longrightarrow> False" for j n h
      using no_clash by blast
    then show ?thesis by (auto simp: updateNodeBasicInfo_def Let_def simp del: not_None_eq split: option.split)
  qed
  have manual: "fst (add_manual (ne_isIP e) (ne_enc e) (ne_dec e) uuid token i c g ?d) \<noteq> Raised" if "js_trim (mf_name g) \<noteq> []"
  proof -
    have "addNode (ne_enc e) token i (manual_node uuid p g) ?d \<noteq> None"
      if "findDuplicateNodeName (ne_dec e) (js_trim (mf_name g)) None ?d = None" for p
    proof -
      have "js_trim (mf_name g) \<notin> n_name ` set (d_nodes ?d)"
        using find_taken [OF that trim_trim \<open>js_trim (mf_name g) \<noteq> []\<close> ok] by fastforce
      then show ?thesis by (simp add: addNode_def manual_node_def Let_def)
    qed
    then show ?thesis by (auto simp: add_manual_def simp del: not_None_eq split: option.split)
  qed
  show ?thesis using ok basic manual by (simp add: names_ok_def)
qed

definition sample_node_env :: node_env where
  "sample_node_env = \<lparr>ne_isIP = \<lambda>_. False, ne_enc = \<lambda>x. x, ne_dec = \<lambda>x. x, ne_online = \<lambda>_. False, ne_answer = \<lambda>_ _. (True, None)\<rparr>"

definition sample_admin_call :: admin_call where
  "sample_admin_call = \<lparr>ac_actor = 1, ac_ip = ''9.9.9.9'', ac_now = 1000\<rparr>"

definition half_rate :: basic_form where
  "half_rate = \<lparr>bf_host = ''h'', bf_name = ''n'', bf_rate = ''0.5'', bf_insecure = False\<rparr>"

definition one_node :: db where "one_node = sample_db\<lparr>d_nodes := [sample_node 5]\<rparr>"

lemma one_node_ok [simp]: "names_ok one_node" "d_nodes one_node = [sample_node 5]"
  by (simp_all add: one_node_def names_ok_def)

theorem node_names_distinct_witness:
  "fst (updateNodeBasicInfo (ne_isIP sample_node_env) (ne_enc sample_node_env) (ne_dec sample_node_env) sample_admin_call ''5'' half_rate one_node) \<noteq> Raised"
proof -
  have "node_run sample_node_env one_node \<lparr>nw_db = one_node, nw_used = {5}, nw_leaving = []\<rparr>" by (rule node_run.start) simp
  from node_names_distinct [OF this one_node_ok(1), of sample_admin_call "''5''" half_rate] show ?thesis by (simp only: node_world.simps) blast
qed

text \<open>C23: The rate and the protocol of a node never change: whatever the administrator's forms send, and whatever
  else writes the table, a node that was there keeps both as long as it exists, and a node added since has the
  default rate. The rate that the form of a node sends is written nowhere.\<close>

theorem rates_never_change:
  assumes "node_run e d w" and "n \<in> set (d_nodes (nw_db w))"
  shows "if n_id n \<in> n_id ` set (d_nodes d)
    then \<exists>m \<in> set (d_nodes d). n_id m = n_id n \<and> n_protocol m = n_protocol n \<and> n_traffic_rate m = n_traffic_rate n
    else n_traffic_rate n = 1"
  using run_rows [OF assms(1)] imageI [OF assms(2), of traits] unfolding rows_ok_def by fastforce

text \<open>A node of rate three, whose form sends one half.\<close>

definition triple_node :: db where "triple_node = sample_db\<lparr>d_nodes := [sample_node 5\<lparr>n_traffic_rate := 3\<rparr>]\<rparr>"

theorem rates_never_change_witness:
  "fst (updateNodeBasicInfo (ne_isIP sample_node_env) (ne_enc sample_node_env) (ne_dec sample_node_env) sample_admin_call ''5'' half_rate triple_node)
     = Redirect ''/admin#nodes'' \<and>
   map n_traffic_rate (d_nodes (serve_node sample_node_env sample_admin_call (Basic ''5'' half_rate) triple_node)) = [3]"
proof -
  let ?d = "serve_node sample_node_env sample_admin_call (Basic ''5'' half_rate) triple_node"
  have rows: "d_nodes triple_node = [sample_node 5\<lparr>n_traffic_rate := 3\<rparr>]" by (simp add: triple_node_def)
  have start: "node_run sample_node_env triple_node \<lparr>nw_db = triple_node, nw_used = {5}, nw_leaving = []\<rparr>"
    by (rule node_run.start) (simp add: rows)
  obtain w where run: "node_run sample_node_env triple_node w" and w: "nw_db w = ?d"
    using node_run.request [OF start, of "Basic ''5'' half_rate" ?d sample_admin_call] by fastforce
  have "map traits (d_nodes ?d) = map traits (d_nodes triple_node)"
    using steady_basic [of triple_node] unfolding steady_def serve_node.simps by blast
  from arg_cong [OF this, of "map fst"] have "map n_id (d_nodes ?d) = [5]" by (simp add: comp_def rows del: serve_node.simps)
  then obtain n where n: "d_nodes ?d = [n]" "n_id n = 5" by auto
  have "n_traffic_rate n = 3" using rates_never_change [OF run, of n] n rows by (simp add: w)
  moreover have "fst (updateNodeBasicInfo (ne_isIP sample_node_env) (ne_enc sample_node_env) (ne_dec sample_node_env) sample_admin_call ''5'' half_rate triple_node)
     = Redirect ''/admin#nodes''" by code_simp
  ultimately show ?thesis using n by simp
qed

section \<open>The cap of a machine\<close>

lemma cap_column:
  "write_columns enc i [(''traffic_cap'', IntV x)] d =
     d\<lparr>d_nodes := update_where (\<lambda>n. n_id n = i) (n_traffic_cap_update (\<lambda>_. x)) (d_nodes d)\<rparr>"
proof -
  have "set_columns enc [(''traffic_cap'', IntV x)] = n_traffic_cap_update (\<lambda>_. x)"
    by (rule ext) (simp add: set_columns_def set_column_def set_access_def set_identity_def plain_int_def opt_int_def)
  then show ?thesis by (simp add: write_columns_def updateNode_def NODE_COLUMNS_def)
qed

lemma caps_of:
  "d_nodes (fold (\<lambda>m. write_columns enc (n_id m) [(''traffic_cap'', IntV x)]) ms d) =
     update_where (\<lambda>n. n_id n \<in> n_id ` set ms) (n_traffic_cap_update (\<lambda>_. x)) (d_nodes d)"
  by (induction ms arbitrary: d) (auto simp: cap_column update_where_def)

lemma cap_bytes_range: "0 \<le> cap_bytes s \<and> cap_bytes s \<le> 10000 * 1099511627776"
proof -
  let ?tb = "case js_float (text_or s ''0'') of Num r \<Rightarrow> if r < 0 then 0 else min r MAX_NODE_TRAFFIC_TB | _ \<Rightarrow> 0"
  have "0 \<le> ?tb" "?tb \<le> 10000" by (auto simp: MAX_NODE_TRAFFIC_TB_def split: float_num.split)
  then show ?thesis by (simp add: cap_bytes_def Let_def js_round_def le_floor_iff floor_le_iff)
qed

text \<open>A cap is set for the machine: exactly the nodes with the address of the named node get it, and it is
  between zero and ten thousand terabytes whatever has been typed.\<close>

theorem cap_set_for_machine:
  assumes "parseIntId idText = Some (n_id n)" and "n \<in> set (d_nodes d)" and "distinct (map n_id (d_nodes d))"
    and "set_traffic_cap enc dec c idText capTb d = (r, d')"
  shows "d_nodes d' = update_where (\<lambda>m. host_key m = host_key n) (n_traffic_cap_update (\<lambda>_. cap_bytes capTb)) (d_nodes d) \<and>
    0 \<le> cap_bytes capTb \<and> cap_bytes capTb \<le> 10000 * 1099511627776"
proof -
  let ?x = "cap_bytes capTb" and ?d1 = "write_columns enc (n_id n) [(''traffic_cap'', IntV (cap_bytes capTb))] d"
  let ?ns1 = "update_where (\<lambda>m. n_id m = n_id n) (n_traffic_cap_update (\<lambda>_. ?x)) (d_nodes d)"
  have ns1: "d_nodes ?d1 = ?ns1" by (simp add: cap_column)
  have same: "host_key (n_traffic_cap_update g m) = host_key m" "host_key (decryptNode dec m) = host_key m" for g m
    by (simp_all add: host_key_def decryptNode_def)
  have ids: "map n_id ?ns1 = map n_id (d_nodes d)" by (simp add: update_where_def)
  let ?n1 = "n_traffic_cap_update (\<lambda>_. ?x) n"
  have "?n1 \<in> set ?ns1" using assms(2) by (auto simp: update_where_def)
  then have "find (\<lambda>m. n_id m = n_id n) ?ns1 = Some ?n1"
    by (intro find_key_eq) (simp_all add: ids assms(3))
  then have found: "getNodeById dec (n_id n) ?d1 = Some (decryptNode dec ?n1)" by (simp add: getNodeById_def ns1)
  let ?peers = "filter (\<lambda>m. n_id m \<noteq> n_id n \<and> host_key m = host_key n) (getAllNodes dec False ?d1)"
  have peers: "set ?peers = decryptNode dec ` {k \<in> set ?ns1. n_id k \<noteq> n_id n \<and> host_key k = host_key n}"
    by (simp only: set_filter set_getAllNodes ns1) (auto simp: same)
  have "d_nodes d' = update_where (\<lambda>m. n_id m \<in> n_id ` set ?peers) (n_traffic_cap_update (\<lambda>_. ?x)) ?ns1"
    using assms(1,4) found by (auto simp: set_traffic_cap_def Let_def admin_log_def caps_of ns1 same)
  also have "\<dots> = update_where (\<lambda>m. host_key m = host_key n) (n_traffic_cap_update (\<lambda>_. ?x)) (d_nodes d)"
  proof -
    have "n_id m = n_id n \<or> n_id m \<in> n_id ` set ?peers \<longleftrightarrow> host_key m = host_key n" if "m \<in> set (d_nodes d)" for m
    proof (cases "n_id m = n_id n")
      case True
      then have "m = n" using that assms(2,3) by (auto simp: distinct_map inj_on_def)
      then show ?thesis by simp
    next
      case False
      then have here: "m \<in> set ?ns1" using that by (auto simp: update_where_def)
      have only: "k = m" if "k \<in> set ?ns1" "n_id k = n_id m" for k
        using that here assms(3) by (auto simp: ids [symmetric] distinct_map inj_on_def simp del: set_map)
      have "n_id m \<in> n_id ` set ?peers \<longleftrightarrow> (\<exists>k \<in> set ?ns1. n_id k = n_id m \<and> host_key k = host_key n)"
        unfolding peers using False by (auto simp: image_iff)
      also have "\<dots> \<longleftrightarrow> host_key m = host_key n" using here only by blast
      finally show ?thesis using False by simp
    qed
    then show ?thesis by (auto simp: update_where_def)
  qed
  finally show ?thesis using cap_bytes_range by simp
qed

theorem cap_set_for_machine_witness:
  "d_nodes (serve_node sample_node_env sample_admin_call (Cap ''5'' ''1e9'') one_node) = [sample_node 5\<lparr>n_traffic_cap := 10995116277760000\<rparr>]"
proof -
  have "parseIntId ''5'' = Some (n_id (sample_node 5))" by code_simp
  moreover have "cap_bytes ''1e9'' = 10995116277760000" by code_simp
  ultimately show ?thesis
    using cap_set_for_machine [of "''5''" "sample_node 5" one_node "ne_enc sample_node_env" "ne_dec sample_node_env" sample_admin_call "''1e9''"]
    by (cases "set_traffic_cap (ne_enc sample_node_env) (ne_dec sample_node_env) sample_admin_call ''5'' ''1e9'' one_node") (simp add: update_where_def)
qed

section \<open>Deletion\<close>

lemma delete_stop_dangerous: "handleCommand w cfg (read_command DELETE_STOP) = ([], Done False (Some ''dangerous characters''))"
  by (simp add: read_command_def DELETE_STOP_def strip_def js_starts_def exec_command_def exec_refused_def js_trim_def js_space_def
      is_dangerous_def dangerous_char_def exec_error_def failed_def)

text \<open>When the agent of a deleted node is connected, the machine is told to stop by that agent alone, the agent
  refuses the command and starts nothing, and then the row of the node is gone: its proxies go on.\<close>

theorem deleted_node_goes_on:
  assumes "delete_node dec online idText d = (r, Some (n, way))" and "parseIntId idText = Some i" and "online i"
  shows "way = StopByAgent i DELETE_STOP \<and> handleCommand w cfg (read_command DELETE_STOP) = ([], Done False (Some ''dangerous characters'')) \<and>
    i \<notin> n_id ` set (d_nodes (hm_db (delete_done c n s)))"
proof -
  have "n_id n = i" "way = stop_way_of online n" using assms(1,2) by (auto simp: delete_node_def getNodeById_def find_Some_iff)
  then show ?thesis using assms(3)
    by (auto simp: delete_done_def on_db_def cleanupNodeState_def stop_way_of_def admin_log_def deleteNode_def delete_where_def delete_stop_dangerous)
qed

theorem deleted_node_goes_on_witness:
  "snd (delete_node (ne_dec sample_node_env) (\<lambda>_. True) ''5'' one_node) = Some (sample_node 5, StopByAgent 5 DELETE_STOP)"
proof -
  have p: "parseIntId ''5'' = Some 5" by code_simp
  have "getNodeById (ne_dec sample_node_env) 5 one_node = Some (sample_node 5)"
    by (simp add: getNodeById_def sample_node_env_def decryptNode_def)
  then have d: "delete_node (ne_dec sample_node_env) (\<lambda>_. True) ''5'' one_node =
      (Redirect ''/admin#nodes'', Some (sample_node 5, stop_way_of (\<lambda>_. True) (sample_node 5)))" by (simp add: delete_node_def p)
  from deleted_node_goes_on [OF d p] show ?thesis by (simp add: d)
qed

end
