(* ===== verification/MiddlewareProps.thy ===== *)
theory MiddlewareProps
  imports Middleware Contracts Samples CalendarProps
begin

text \<open>
  The properties of the middleware: state-changing requests need the session's token, the
  operations interface needs its key, the last activity is written at most once in five minutes,
  a sign-in starts from a new session, errors do not leak, and an address cannot multiply its
  limiter keys.
\<close>

section \<open>Tokens\<close>

text \<open>A state-changing request passes exactly when it carries the session's token where the code
  looks for it: in the header for JSON requests, else in the body or, when the body has none, in
  the header; without a token in the session nothing passes. (The hash does not collide on the
  texts compared.)\<close>

theorem forged_requests_refused:
  assumes "\<And>tok x. ss_csrf s = Some tok \<Longrightarrow> header = Some x \<or> body = Some x \<Longrightarrow> sha x = sha tok \<Longrightarrow> x = tok"
    and "meth \<notin> {''GET'', ''HEAD'', ''OPTIONS''}"
  shows "csrfProtection sha meth isJson header body s = Proceed \<longleftrightarrow>
    (\<exists>tok. ss_csrf s = Some tok \<and> tok \<noteq> [] \<and>
       (if isJson \<or> body = None \<or> body = Some [] then header else body) = Some tok)"
proof (cases "truthy (ss_csrf s)")
  case True
  then obtain tok where t: "ss_csrf s = Some tok" "tok \<noteq> []" by (auto simp: truthy_def)
  have "safeTokenEqual sha x tok \<longleftrightarrow> x = tok" if "header = Some x \<or> body = Some x" for x
    using safeTokenEqual_iff [of sha x tok] assms(1) [OF t(1) that] t(2) by auto
  then show ?thesis
    using t assms(2) by (cases header; cases body) (auto simp: csrfProtection_def truthy_def Let_def)
next
  case False
  then show ?thesis using assms(2) by (auto simp: csrfProtection_def truthy_def)
qed

theorem forged_requests_refused_witness:
  "csrfProtection id ''POST'' True (Some ''ab'') None \<lparr>ss_user = Some 1, ss_csrf = Some ''ac''\<rparr> \<noteq> Proceed"
  using forged_requests_refused [of "\<lparr>ss_user = Some 1, ss_csrf = Some ''ac''\<rparr>" "Some ''ab''" None id "''POST''" True]
  by simp

text \<open>The operations interface answers exactly to requests whose bearer token is the configured
  key, and to none while no key is configured.\<close>

theorem ops_key_required:
  assumes "\<And>k x. key = Some k \<Longrightarrow> authorization = Some x \<Longrightarrow> sha (js_trim (drop 7 x)) = sha k \<Longrightarrow>
      js_trim (drop 7 x) = k"
  shows "opsAuth sha key authorization = Proceed \<longleftrightarrow>
    (\<exists>k x. key = Some k \<and> k \<noteq> [] \<and> authorization = Some x \<and> js_starts ''Bearer '' x \<and> js_trim (drop 7 x) = k)"
proof (cases "truthy key")
  case True
  then obtain k where k: "key = Some k" "k \<noteq> []" by (auto simp: truthy_def)
  have "safeTokenEqual sha (js_trim (drop 7 x)) k \<longleftrightarrow> js_trim (drop 7 x) = k" if "authorization = Some x" for x
    using safeTokenEqual_iff [of sha "js_trim (drop 7 x)" k] assms [OF k(1) that] k(2) by auto
  moreover have "js_starts ''Bearer '' x \<Longrightarrow> x \<noteq> []" for x by (auto simp: js_starts_def)
  ultimately show ?thesis
    using k by (cases authorization) (auto simp: opsAuth_def truthy_def Let_def)
next
  case False
  then show ?thesis by (auto simp: opsAuth_def truthy_def)
qed

theorem ops_key_required_witness:
  "opsAuth id (Some ''key'') (Some ''Bearer  key '') = Proceed"
proof -
  have "js_trim (drop 7 ''Bearer  key '') = ''key''" "js_starts ''Bearer '' ''Bearer  key ''"
    by code_simp+
  then show ?thesis
    using ops_key_required [of "Some ''key''" "Some ''Bearer  key ''" id] by simp
qed

section \<open>Activity\<close>

definition auth_step :: "auth_req \<times> int \<Rightarrow> activity \<times> db \<Rightarrow> gate \<times> activity \<times> db" where
  "auth_step q st = requireAuth (fst q) (snd q) st"

lemma cleanup_keeps_fresh:
  assumes "js_keys_distinct (ac_cache a)" and "map_of (ac_cache a) uid = Some t" and "now \<le> t + 300000"
    and "length (ac_cache a) \<le> LAST_ACTIVE_CACHE_MAX_ENTRIES"
  shows "js_keys_distinct (ac_cache (cleanupLastActiveCache now a)) \<and>
    map_of (ac_cache (cleanupLastActiveCache now a)) uid = Some t \<and>
    length (ac_cache (cleanupLastActiveCache now a)) \<le> length (ac_cache a)"
proof (cases "now - ac_last_cleanup a < 60000")
  case True
  then show ?thesis using assms by (simp add: cleanupLastActiveCache_def)
next
  case False
  let ?f = "filter (\<lambda>e. \<not> LAST_ACTIVE_CACHE_TTL_MS < now - snd e) (ac_cache a)"
  have l: "length ?f \<le> length (ac_cache a)" "length ?f \<le> LAST_ACTIVE_CACHE_MAX_ENTRIES"
    using length_filter_le order_trans [OF length_filter_le assms(4)] by blast+
  have "ac_cache (cleanupLastActiveCache now a) = ?f"
    unfolding cleanupLastActiveCache_def evict_def using False l(2) by (simp add: cleanupLastActiveCache_def evict_def)
  moreover have "(uid, t) \<in> set ?f"
    using assms(3) map_of_SomeD [OF assms(2)] by (simp add: LAST_ACTIVE_CACHE_TTL_MS_def)
  moreover have "js_keys_distinct ?f" using assms(1) by (simp add: distinct_map_filter)
  ultimately show ?thesis using l by simp
qed

lemma auth_step_fresh:
  assumes "js_keys_distinct (ac_cache a)" and "map_of (ac_cache a) uid = Some t"
    and "now \<le> t + 300000" and "length (ac_cache a) < LAST_ACTIVE_CACHE_MAX_ENTRIES"
    and "auth_step (r, now) (a, d) = (g, a', d')"
  shows "js_keys_distinct (ac_cache a') \<and> map_of (ac_cache a') uid = Some t \<and>
    length (ac_cache a') \<le> Suc (length (ac_cache a)) \<and> user_by_id d' uid = user_by_id d uid"
proof -
  note c = cleanup_keeps_fresh [OF assms(1-3) less_imp_le [OF assms(4)]]
  have up: "length (AList.update k v m) \<le> Suc (length m)" for k :: int and v :: int and m
    by (induction m) (auto split: prod.split)
  show ?thesis
  proof (cases "ar_user r")
    case None
    then show ?thesis using assms by (auto simp: auth_step_def requireAuth_def)
  next
    case (Some u)
    let ?c = "cleanupLastActiveCache now a"
    show ?thesis
    proof (cases "ar_authenticated r \<and> \<not> u_is_blocked u \<and> u_id u \<noteq> uid")
      case True
      have "length (AList.update (u_id u) now (ac_cache ?c)) \<le> Suc (length (ac_cache a))"
        using up [of "u_id u" now "ac_cache ?c"] c by simp
      then show ?thesis
        using True Some assms(5) c
        by (auto simp: auth_step_def requireAuth_def Let_def update_conv' distinct_update split: if_splits)
    next
      case False
      then show ?thesis
        using Some assms(1,2,3,5) c by (auto simp: auth_step_def requireAuth_def Let_def split: if_splits)
    qed
  qed
qed

text \<open>Once the last activity of an account has been noted, no request in the following five
  minutes writes its row again, whatever other accounts do meanwhile, as long as the cache does
  not overflow.\<close>

theorem last_login_throttled:
  assumes "js_keys_distinct (ac_cache a)" and "map_of (ac_cache a) uid = Some t"
    and "length (ac_cache a) + length reqs \<le> LAST_ACTIVE_CACHE_MAX_ENTRIES"
    and "\<forall>q \<in> set reqs. snd q \<le> t + 300000"
  shows "user_by_id (snd (snd (run_ops auth_step reqs (a, d)))) uid = user_by_id d uid"
  using assms
proof (induction reqs arbitrary: a d)
  case (Cons q reqs)
  obtain r now where q: "q = (r, now)" by fastforce
  obtain g a' d' where s: "auth_step (r, now) (a, d) = (g, a', d')" by (metis prod_cases3)
  have "js_keys_distinct (ac_cache a') \<and> map_of (ac_cache a') uid = Some t \<and>
    length (ac_cache a') \<le> Suc (length (ac_cache a)) \<and> user_by_id d' uid = user_by_id d uid"
    using Cons.prems by (intro auth_step_fresh [OF _ _ _ _ s]) (auto simp: q)
  then show ?case using Cons.IH [of a' d'] Cons.prems by (simp add: q s Let_def split_beta)
qed simp

theorem last_login_throttled_witness:
  "user_by_id (snd (snd (run_ops auth_step
      [(\<lparr>ar_session = None, ar_user = Some (sample_user 1 3 0), ar_authenticated = True\<rparr>, 1200000)]
      (\<lparr>ac_cache = [(1, 1000000)], ac_last_cleanup = 0\<rparr>, sample_db)))) 1 = user_by_id sample_db 1"
  by (rule last_login_throttled [where t = 1000000]) (simp_all add: LAST_ACTIVE_CACHE_MAX_ENTRIES_def)

section \<open>Signing in\<close>

text \<open>A sign-in continues in the store's new session: the next request with it is the account that
  signed in, and state-changing requests are refused until a token has been drawn for that new
  session, the token of the old one included.\<close>

theorem login_starts_new_session:
  assumes "getUserById (u_id u) d = Some u" and "u_id u \<noteq> 0" and "ss_csrf fresh = None"
    and "meth \<notin> {''GET'', ''HEAD'', ''OPTIONS''}"
  shows "\<exists>s'. ar_session (logIn (Some fresh) u r) = Some s' \<and> setupAuth s' d = logIn (Some fresh) u r \<and>
    csrfProtection sha meth isJson header body s' \<noteq> Proceed"
  using assms by (simp add: logIn_def setupAuth_def csrfProtection_def truthy_def)

theorem login_starts_new_session_witness:
  "\<exists>s'. ar_session (logIn (Some \<lparr>ss_user = None, ss_csrf = None\<rparr>) (sample_user 1 3 0)
        \<lparr>ar_session = None, ar_user = None, ar_authenticated = False\<rparr>) = Some s' \<and>
     csrfProtection id ''POST'' False None (Some ''old'') s' \<noteq> Proceed"
  using login_starts_new_session [of "sample_user 1 3 0" sample_db "\<lparr>ss_user = None, ss_csrf = None\<rparr>" "''POST''"
      "\<lparr>ar_session = None, ar_user = None, ar_authenticated = False\<rparr>" id False None "Some ''old''"]
  by (auto simp: sample_db_def empty_db_def getUserById_def user_by_id_def)

section \<open>Errors and limits\<close>

fun reply_status :: "error_reply \<Rightarrow> int" where
  "reply_status PassedOn = 0"
| "reply_status (JsonError s m c) = s"
| "reply_status (ErrorPage s m) = s"
| "reply_status (PlainErrorPage s h m) = s"

fun reply_text :: "error_reply \<Rightarrow> error_text option" where
  "reply_text PassedOn = None"
| "reply_text (JsonError s m c) = Some m"
| "reply_text (ErrorPage s m) = m"
| "reply_text (PlainErrorPage s h m) = Some m"

text \<open>Whatever status an error carries, the answer has a status from 400 to 599, and an internal
  error (status 500) never shows the message of the error.\<close>

theorem errors_do_not_leak:
  "400 \<le> reply_status (errorHandler False views path accept e) \<and>
   reply_status (errorHandler False views path accept e) \<le> 599 \<and>
   (reply_status (errorHandler False views path accept e) \<noteq> 500 \<or>
    reply_text (errorHandler False views path accept e) = Some ServerError)"
proof -
  have b: "400 \<le> normalizeHttpStatus s \<and> normalizeHttpStatus s \<le> 599" for s
    by (simp add: normalizeHttpStatus_def split: option.split)
  show ?thesis
    using b [of "case er_status e of Some s \<Rightarrow> s
        | None \<Rightarrow> (case er_status_code e of Some s \<Rightarrow> s | None \<Rightarrow> ''500'')"]
    by (auto simp: errorHandler_def Let_def)
qed

theorem errors_do_not_leak_witness:
  "reply_text (errorHandler False True ''/x'' None
     \<lparr>er_status = None, er_status_code = None, er_message = ''secret'', er_code = None\<rparr>) = Some ServerError"
proof -
  have "normalizeHttpStatus ''500'' = 500" by code_simp
  then have "reply_status (errorHandler False True ''/x'' None
     \<lparr>er_status = None, er_status_code = None, er_message = ''secret'', er_code = None\<rparr>) = 500"
    by (simp add: errorHandler_def is_api_def js_starts_def)
  then show ?thesis
    using errors_do_not_leak [of True "''/x''" None
        "\<lparr>er_status = None, er_status_code = None, er_message = ''secret'', er_code = None\<rparr>"] by blast
qed

lemma digit_bounds: "is_digit c \<Longrightarrow> 0 \<le> digit_val c \<and> digit_val c \<le> 9"
  by (auto simp: is_digit_def digit_val_def Let_def)

lemma digit_val_inj: "digit_val c = digit_val c' \<Longrightarrow> c = c'"
  by (simp add: digit_val_def of_char_eq_iff)

text \<open>Texts of digits of the same length stand for different numbers.\<close>

lemma digits_val_inj:
  "list_all is_digit a \<Longrightarrow> list_all is_digit b \<Longrightarrow> length a = length b \<Longrightarrow> digits_val a = digits_val b \<Longrightarrow> a = b"
proof (induction a arbitrary: b rule: rev_induct)
  case (snoc c a)
  obtain b' c' where b: "b = b' @ [c']" using snoc.prems(3) by (cases b rule: rev_cases) auto
  have d: "is_digit c" "is_digit c'" using snoc.prems(1,2) by (simp_all add: b)
  have v: "10 * digits_val a + digit_val c = 10 * digits_val b' + digit_val c'"
    using snoc.prems(4) by (simp add: b digits_val_snoc)
  then have "digits_val a = digits_val b'" and "digit_val c = digit_val c'"
    using digit_bounds [OF d(1)] digit_bounds [OF d(2)] by presburger+
  then show ?case using snoc.IH [of b'] snoc.prems(1-3) digit_val_inj by (auto simp: b)
qed simp

lemma same_id_texts:
  "finite {r. tg_id_text r \<and> same_tg_id r x} \<and> card {r. tg_id_text r \<and> same_tg_id r x} \<le> 20"
proof -
  let ?S = "{r. tg_id_text r \<and> same_tg_id r x}"
  have inj: "inj_on length ?S"
    by (rule inj_onI) (auto simp: tg_id_text_def same_tg_id_def intro: digits_val_inj split: option.splits)
  have sub: "length ` ?S \<subseteq> {1..20}" by (auto simp: tg_id_text_def Suc_le_eq)
  then have "finite (length ` ?S)" by (rule finite_subset) simp
  then have fin: "finite ?S" using finite_imageD [OF _ inj] by blast
  have "card ?S = card (length ` ?S)" by (rule card_image [OF inj, symmetric])
  also have "\<dots> \<le> card {1..20 :: nat}" by (rule card_mono [OF _ sub]) simp
  finally show ?thesis using fin by simp
qed

text \<open>One address has at most twenty limiter keys at a game for every account, plus one, whatever
  account ids it sends: an id counts as a text, but the accounts are compared by its number.\<close>

theorem limiter_keys_bounded:
  "finite {game_limit_key ip t d | t. True} \<and> card {game_limit_key ip t d | t. True} \<le> 20 * length (d_users d) + 1"
proof -
  define named where "named = (\<lambda>u :: user. {r. tg_id_text r \<and> same_tg_id r (u_telegram_id u)})"
  define texts where "texts = (\<Union>u \<in> set (d_users d). named u)"
  let ?keys = "insert (''ip:'' @ ip) ((\<lambda>r. ''ip:'' @ ip @ ''|tg:'' @ r) ` texts)"
  have n: "finite (named u) \<and> card (named u) \<le> 20" for u using same_id_texts by (simp add: named_def)
  have fin: "finite texts" unfolding texts_def using n by simp
  have "card texts \<le> (\<Sum>u \<in> set (d_users d). card (named u))"
    unfolding texts_def by (rule card_UN_le) simp
  also have "\<dots> \<le> (\<Sum>u \<in> set (d_users d). 20)" by (rule sum_mono) (use n in simp)
  also have "\<dots> \<le> 20 * length (d_users d)" using card_length [of "d_users d"] by simp
  finally have "card ((\<lambda>r. ''ip:'' @ ip @ ''|tg:'' @ r) ` texts) \<le> 20 * length (d_users d)"
    using card_image_le [OF fin, of "\<lambda>r. ''ip:'' @ ip @ ''|tg:'' @ r"] by linarith
  then have c: "card ?keys \<le> 20 * length (d_users d) + 1"
    using card_insert_le_m1 fin card_insert_if [of "(\<lambda>r. ''ip:'' @ ip @ ''|tg:'' @ r) ` texts" "''ip:'' @ ip"]
    by (simp split: if_splits)
  have "game_limit_key ip t d \<in> ?keys" for t
  proof (cases "tg_id_text (js_trim t) \<and> (\<exists>u \<in> set (d_users d). same_tg_id (js_trim t) (u_telegram_id u))")
    case True
    then have "js_trim t \<in> texts" by (auto simp: texts_def named_def)
    then show ?thesis using True by (auto simp: game_limit_key_def Let_def list_ex_iff)
  next
    case False
    then show ?thesis by (auto simp: game_limit_key_def Let_def list_ex_iff)
  qed
  then have sub: "{game_limit_key ip t d | t. True} \<subseteq> ?keys" by blast
  have "finite ?keys" using fin by simp
  then show ?thesis using card_mono [OF _ sub] finite_subset [OF sub] c by linarith
qed

lemma js_trim_digits:
  assumes "list_all is_digit s"
  shows "js_trim s = s"
proof -
  have n: "\<not> js_space c" if "is_digit c" for c using that by (auto simp: js_space_def is_digit_def Let_def)
  have "dropWhile js_space t = t" if "list_all is_digit t" for t using that n by (cases t) simp_all
  then show ?thesis using assms by (simp add: js_trim_def list_all_rev)
qed

text \<open>An account's limiter key is not unique: with a leading zero the same account gets a second
  key, so the requests of one account are counted apart.\<close>

theorem leading_zero_splits_limit:
  assumes "u \<in> set (d_users d)" and "u_telegram_id u = Some t" and "tg_id_text t" and "length t < 20"
  shows "game_limit_key ip t d = ''ip:'' @ ip @ ''|tg:'' @ t \<and>
    game_limit_key ip (CHR ''0'' # t) d = ''ip:'' @ ip @ ''|tg:0'' @ t"
proof -
  have z: "is_digit (CHR ''0'')" "digit_val (CHR ''0'') = 0" by (simp_all add: is_digit_def digit_val_def)
  have t: "tg_id_text (CHR ''0'' # t)" using assms(3,4) z by (simp add: tg_id_text_def)
  have v: "digits_val (CHR ''0'' # t) = digits_val t" by (simp add: digits_val_def z)
  have "same_tg_id t (u_telegram_id u)" and "same_tg_id (CHR ''0'' # t) (u_telegram_id u)"
    using assms(2,3) v by (simp_all add: same_tg_id_def)
  then have "list_ex (\<lambda>u. same_tg_id t (u_telegram_id u)) (d_users d)"
    and "list_ex (\<lambda>u. same_tg_id (CHR ''0'' # t) (u_telegram_id u)) (d_users d)"
    using assms(1) by (auto simp: list_ex_iff)
  moreover have "js_trim t = t" and "js_trim (CHR ''0'' # t) = CHR ''0'' # t"
    using assms(3) t by (auto intro: js_trim_digits simp: tg_id_text_def)
  ultimately show ?thesis using assms(3) t by (simp add: game_limit_key_def)
qed

theorem leading_zero_splits_limit_witness:
  "game_limit_key ''1'' ''77'' sample_db \<noteq> game_limit_key ''1'' ''077'' sample_db"
  using leading_zero_splits_limit [of "sample_user 1 3 0" sample_db "''77''" "''1''"]
  by (simp add: sample_db_def tg_id_text_def is_digit_def)

end
