(* ===== verification/Agents.thy ===== *)
theory Agents
  imports UuidRepo NetUtils
begin

text \<open>
  Which nodes count as online when several share a host (\<open>src/utils/agentMap.js\<close>) and the helpers of
  the subscription routes (\<open>src/utils/routeHelpers.js\<close>).
\<close>

section \<open>Agents that serve several nodes\<close>

definition group_host :: "node \<Rightarrow> string" where
  "group_host n = js_trim (or_else (n_ssh_host n) (n_host n))"

text \<open>The nodes by host, in the order of the nodes; nodes without a host are left out.\<close>

definition add_to_group :: "node \<Rightarrow> (string, int list) js_map \<Rightarrow> (string, int list) js_map" where
  "add_to_group n groups =
     (let host = group_host n
      in if host = [] then groups
         else let g = (case js_get groups host of None \<Rightarrow> [] | Some ids \<Rightarrow> ids)
              in js_set host (g @ [n_id n]) groups)"

definition host_groups :: "node list \<Rightarrow> (string, int list) js_map" where
  "host_groups nodes = fold add_to_group nodes []"

text \<open>One group: its nodes without an agent get the agent of its first connected node.\<close>

definition share_agent :: "int list \<Rightarrow> (int, 'a) js_map \<Rightarrow> (int, 'a) js_map" where
  "share_agent grp m =
     (if length grp < 2 then m
      else case find (\<lambda>i. js_get m i \<noteq> None) grp of
             None \<Rightarrow> m
           | Some c \<Rightarrow>
               if c = 0 then m
               else (case js_get m c of
                       None \<Rightarrow> m
                     | Some agent \<Rightarrow>
                         fold (\<lambda>i m. if js_get m i = None then js_set i agent m else m) grp m))"

definition buildAgentMap :: "(int \<times> 'a) list \<Rightarrow> node list \<Rightarrow> (int, 'a) js_map" where
  "buildAgentMap agents nodes =
     fold (\<lambda>(h, g). share_agent g) (host_groups nodes) (fold (\<lambda>(i, a). js_set i a) agents [])"

definition buildOnlineAgentSet :: "(int \<times> 'a) list \<Rightarrow> node list \<Rightarrow> int list" where
  "buildOnlineAgentSet agents nodes =
     (let online = remdups (map fst agents);
          hosts = map group_host (filter (\<lambda>n. group_host n \<noteq> [] \<and> n_id n \<in> set online) nodes)
      in fold (\<lambda>n acc. if group_host n \<noteq> [] \<and> n_id n \<notin> set acc \<and> group_host n \<in> set hosts
                        then acc @ [n_id n] else acc) nodes online)"

section \<open>Helpers of the subscription routes\<close>

definition canUserAccessNode :: "user \<Rightarrow> node \<Rightarrow> bool" where
  "canUserAccessNode u n \<longleftrightarrow> n_min_level n \<le> u_trust_level u"

text \<open>
  The credentials of an account by node: the stored ones, and for every listed node that has none
  a new one, drawn from \<open>gen\<close> by node.
\<close>

definition fill_uuid :: "(int \<Rightarrow> string) \<Rightarrow> int \<Rightarrow> node \<Rightarrow> (int, string) js_map \<times> db \<Rightarrow> (int, string) js_map \<times> db" where
  "fill_uuid gen uid n s =
     (case s of (m, d) \<Rightarrow>
        if js_get m (n_id n) = None
        then let (row, d1) = getUserNodeUuid (gen (n_id n)) uid (n_id n) d
             in (if uu_uuid row = [] then m else js_set (n_id n) (uu_uuid row) m, d1)
        else (m, d))"

definition getUserNodeUuidMap :: "(int \<Rightarrow> string) \<Rightarrow> int \<Rightarrow> node list \<Rightarrow> db \<Rightarrow> (int, string) js_map \<times> db" where
  "getUserNodeUuidMap gen uid nodes d =
     (let m = fold (\<lambda>r m. if uu_uuid r = [] then m else js_set (uu_node r) (uu_uuid r) m) (getUserAllNodeUuids uid d) []
      in fold (fill_uuid gen uid) nodes (m, d))"

text \<open>The address of a subscription, before its signature is appended.\<close>

definition sub_path :: "string \<Rightarrow> string" where
  "sub_path scope = (if scope = ''sub6'' then ''/sub6/'' else if scope = ''subhy2'' then ''/subhy2/''
     else if scope = ''suball'' then ''/suball/'' else ''/sub/'')"

definition buildSubUrl :: "(string \<Rightarrow> string \<Rightarrow> string \<Rightarrow> string) \<Rightarrow> string \<Rightarrow> string \<Rightarrow> string \<Rightarrow> string \<Rightarrow> string" where
  "buildSubUrl appendSignature protocol host token scope =
     appendSignature (protocol @ ''://'' @ host @ sub_path scope @ token) token scope"

definition readSubSignatureFromQuery :: "header \<Rightarrow> string" where
  "readSubSignatureFromQuery raw = (case raw of NoHeader \<Rightarrow> [] | HText s \<Rightarrow> s | HList [] \<Rightarrow> [] | HList (x # _) \<Rightarrow> x)"

end
