(* ===== verification/Subscription.thy ===== *)
theory Subscription
  imports SubAccess SubGuard Agents NodeRepo Accounts TrafficRepo
begin

text \<open>
  The subscription routes (\<open>src/routes/subscription.js\<close>) with their helpers: signature, guard,
  cache of one minute, automatic reset of a link that too many clients use, the choice of the
  nodes and the accounting of every request. What leaves the program is kept as data: the
  configuration text is the node list, the traffic figures and the generator that prints them
  (\<open>src/utils/vless.js\<close>). The platform's MAC, hash, cipher and random values, and the compiled
  client patterns, are fields of the environment.
\<close>

section \<open>Environment, requests, replies\<close>

record sub_env =
  en_hmac :: "string \<Rightarrow> string \<Rightarrow> string"
  en_sha :: "string \<Rightarrow> string"
  en_sign :: sign_env
  en_guard :: guard_config
  en_allow :: "(string \<Rightarrow> bool) list"
  en_decrypt :: "string option \<Rightarrow> string option"
  en_reset_limit :: "string option"

text \<open>A request with the random values it would use: a new token, new credentials.\<close>

record sub_request =
  sq_token :: string
  sq_sig :: header
  sq_ua :: string
  sq_ip :: string
  sq_type :: "string option"
  sq_new_token :: string
  sq_new_uuid :: "int \<Rightarrow> string"

datatype sub_route = Sub | Sub6 | SubHy2 | SubAll

fun route_name :: "sub_route \<Rightarrow> string" where
  "route_name Sub = ''sub''" | "route_name Sub6 = ''sub6''"
| "route_name SubHy2 = ''subhy2''" | "route_name SubAll = ''suball''"

fun cache_prefix :: "sub_route \<Rightarrow> string" where
  "cache_prefix Sub = []" | "cache_prefix Sub6 = ''v6:''"
| "cache_prefix SubHy2 = ''hy2:''" | "cache_prefix SubAll = ''all:''"

fun node_filter :: "sub_route \<Rightarrow> node \<Rightarrow> bool" where
  "node_filter Sub n \<longleftrightarrow> n_protocol n \<noteq> ''ss'' \<and> n_protocol n \<noteq> ''hy2''"
| "node_filter Sub6 n \<longleftrightarrow> n_ip_version n = 6 \<and> n_protocol n = ''ss''"
| "node_filter SubHy2 n \<longleftrightarrow> n_protocol n = ''hy2''"
| "node_filter SubAll n \<longleftrightarrow> n_protocol n \<noteq> ''ss''"

text \<open>The routes whose credential replaces the node's own \<open>uuid\<close>; the others set \<open>userPassword\<close>.\<close>

fun uuid_field :: "sub_route \<Rightarrow> bool" where
  "uuid_field Sub = True" | "uuid_field Sub6 = False" | "uuid_field SubHy2 = False" | "uuid_field SubAll = True"

fun audit_action :: "sub_route \<Rightarrow> string" where
  "audit_action Sub = ''sub_fetch''" | "audit_action Sub6 = ''sub6_fetch''"
| "audit_action SubHy2 = ''subhy2_fetch''" | "audit_action SubAll = ''suball_fetch''"

text \<open>A node of a configuration: the row, the rate shown after its name, the credential.\<close>

record sub_node =
  sn_node :: node
  sn_rate :: "rat option"
  sn_uuid :: string
  sn_user_password :: "string option"
  sn_user_id :: int

record traffic_info =
  ti_upload :: int
  ti_download :: int
  ti_total :: int

text \<open>
  What \<open>cfg.generators[clientType] || cfg.generators.default\<close> finds: an own property, or one that
  the object inherits.
\<close>

datatype generator = GenClash | GenSingbox | GenSurge | GenDefault | GenConstructor | GenToString | GenThrows

definition inherited_names :: "string list" where
  "inherited_names = [''__defineGetter__'', ''__defineSetter__'', ''hasOwnProperty'', ''__lookupGetter__'',
     ''__lookupSetter__'', ''isPrototypeOf'', ''propertyIsEnumerable'', ''valueOf'', ''__proto__'', ''toLocaleString'']"

definition generator_of :: "string \<Rightarrow> generator" where
  "generator_of t =
     (if t = ''clash'' then GenClash else if t = ''singbox'' then GenSingbox else if t = ''surge'' then GenSurge
      else if t = ''constructor'' then GenConstructor else if t = ''toString'' then GenToString
      else if t \<in> set inherited_names then GenThrows else GenDefault)"

text \<open>
  A body: a configuration printed by the route's generator, the node rows themselves (what the
  object constructor returns for them), or the text of an object.
\<close>

datatype sub_body =
    Config sub_route generator "sub_node list" traffic_info
  | RawNodes "sub_node list"
  | ObjectText

record sub_headers =
  sh_content :: string
  sh_info :: traffic_info
  sh_interval :: bool

datatype sub_reply =
    SubDenied int string
  | SubServed sub_headers sub_body
  | SubCrashed

record cache_entry =
  ce_headers :: sub_headers
  ce_body :: sub_body
  ce_ts :: int

record sub_state =
  sb_db :: db
  sb_guard :: guard
  sb_cache :: "(string, cache_entry) js_map"
  sb_abuse :: "(int, int) js_map"

section \<open>Helpers\<close>

definition SUB_CACHE_TTL :: int where "SUB_CACHE_TTL = 60000"
definition SUB_CACHE_MAX_ENTRIES :: nat where "SUB_CACHE_MAX_ENTRIES = 2000"
definition ABUSE_CACHE_TTL_MS :: int where "ABUSE_CACHE_TTL_MS = 3600000"
definition ABUSE_CACHE_MAX_ENTRIES :: nat where "ABUSE_CACHE_MAX_ENTRIES = 5000"

definition detectClient :: "string \<Rightarrow> string" where
  "detectClient ua0 =
     (if ua0 = [] then ''v2ray''
      else let ua = js_lower ua0
           in if js_includes ''surge'' ua \<or> js_includes ''surfboard'' ua then ''surge''
              else if js_includes ''clash'' ua \<or> js_includes ''mihomo'' ua \<or> js_includes ''stash'' ua then ''clash''
              else if js_includes ''sing-box'' ua \<or> js_includes ''singbox'' ua \<or> js_includes ''sfi'' ua \<or>
                js_includes ''sfa'' ua then ''singbox''
              else ''v2ray'')"

definition client_type :: "sub_request \<Rightarrow> string" where
  "client_type q = or_else (sq_type q) (detectClient (sq_ua q))"

fun sign_reason_text :: "sign_reason \<Rightarrow> string" where
  "sign_reason_text SignatureOff = ''signature_off''"
| "sign_reason_text SecretMissing = ''signature_secret_missing''"
| "sign_reason_text SecretMissingObserve = ''signature_secret_missing_observe''"
| "sign_reason_text SignatureOk = ''signature_ok''"
| "sign_reason_text SignatureInvalid = ''signature_invalid''"
| "sign_reason_text SignatureInvalidObserve = ''signature_invalid_observe''"

fun guard_reason_text :: "guard_reason \<Rightarrow> string" where
  "guard_reason_text Ok = ''ok''"
| "guard_reason_text UnknownUaObserve = ''unknown_ua_observe''"
| "guard_reason_text UnknownUa = ''unknown_ua''"
| "guard_reason_text TokenTemporarilyBlocked = ''token_temporarily_blocked''"
| "guard_reason_text TokenRateLimited = ''token_rate_limited''"
| "guard_reason_text TokenAbuseDetected = ''token_abuse_detected''"

definition resolveSubUserIdByToken :: "string \<Rightarrow> db \<Rightarrow> int option" where
  "resolveSubUserIdByToken token d =
     (case getUserBySubToken token d of None \<Rightarrow> None | Some u \<Rightarrow> if u_id u = 0 then None else Some (u_id u))"

text \<open>Logging a request; what cannot be logged is ignored.\<close>

definition logSubAccessEventSafe ::
  "sub_route \<Rightarrow> sub_request \<Rightarrow> int option \<Rightarrow> string \<Rightarrow> string \<Rightarrow> int \<Rightarrow> int \<Rightarrow> db \<Rightarrow> db" where
  "logSubAccessEventSafe route q uid result reason status now d =
     (case logSubAccessEvent
        \<lparr>ei_user = uid, ei_token = take 8 (sq_token q), ei_route = route_name route, ei_result = result,
         ei_reason = default_text reason ''ok'', ei_ip = sq_ip q, ei_ua = sq_ua q, ei_client = client_type q,
         ei_status = Some (if status = 0 then 200 else status)\<rparr> now d of
        Some d' \<Rightarrow> d' | None \<Rightarrow> d)"

definition getAutoResetUa24hLimit :: "string option \<Rightarrow> db \<Rightarrow> int" where
  "getAutoResetUa24hLimit env d =
     toPosInt (case getSetting d ''guard_auto_reset_ua_24h_limit'' of
                 Some s \<Rightarrow> s | None \<Rightarrow> (case env of Some s \<Rightarrow> s | None \<Rightarrow> ''0'')) 0 0 (Some 20)"

text \<open>The reset, if one is due: nothing, or the state after it.\<close>

definition enforceUaAutoReset :: "string option \<Rightarrow> sub_request \<Rightarrow> user \<Rightarrow> int \<Rightarrow> db \<Rightarrow> db option" where
  "enforceUaAutoReset env q u now d =
     (let limit = getAutoResetUa24hLimit env d
      in if u_id u = 0 \<or> limit \<le> 0 then None
         else let uaCount = countDistinctSubAccessUas (u_id u) 24 now d
              in if int uaCount \<le> limit then None
                 else let (newToken, d1) = resetSubToken (sq_new_token q) (u_id u) d;
                          (n, d2) = rotateUserAllNodeUuids (sq_new_uuid q) (u_id u) d1;
                          d3 = clearSubAccessWindow (u_id u) ''24'' now d2;
                          old = (if take 8 (u_sub_token u) = [] then ''-'' else take 8 (u_sub_token u));
                          d4 = addAuditLog now (Some (u_id u)) ''sub_token_auto_reset_ua''
                                 [u_username u, show_nat uaCount, show_int limit, old, take 8 newToken, show_nat n, sq_ip q]
                                 (sq_ip q) d3
                      in Some (add_effect EmitSyncAll
                           (add_effect (Notify ''ops'' [u_username u, show_nat uaCount, show_int limit, show_nat n, sq_ip q]) d4)))"

text \<open>The oldest entry: the first of those with the least time stamp.\<close>

fun oldest_entry :: "(string, cache_entry) js_map \<Rightarrow> (string \<times> cache_entry) option" where
  "oldest_entry [] = None"
| "oldest_entry (e # m) =
     (case oldest_entry m of
        None \<Rightarrow> Some e
      | Some f \<Rightarrow> if ce_ts (snd f) < ce_ts (snd e) then Some f else Some e)"

definition setSubCache :: "string \<Rightarrow> cache_entry \<Rightarrow> (string, cache_entry) js_map \<Rightarrow> (string, cache_entry) js_map" where
  "setSubCache key entry m =
     (let m' = (if js_get m key = None \<and> SUB_CACHE_MAX_ENTRIES \<le> length m
                then (case oldest_entry m of
                        None \<Rightarrow> m
                      | Some f \<Rightarrow> if fst f = [] then m else filter (\<lambda>e. fst e \<noteq> fst f) m)
                else m)
      in js_set key entry m')"

definition cleanupAbuseCache :: "int \<Rightarrow> (int, int) js_map \<Rightarrow> (int, int) js_map" where
  "cleanupAbuseCache now m =
     evict (\<lambda>t. t) ABUSE_CACHE_MAX_ENTRIES (filter (\<lambda>e. \<not> ABUSE_CACHE_TTL_MS < now - snd e) m)"

definition applySubGuards :: "sub_env \<Rightarrow> sub_request \<Rightarrow> int \<Rightarrow> sub_state \<Rightarrow> guard_verdict \<times> sub_state" where
  "applySubGuards env q now st =
     (let (v, g) = guard_apply (en_guard env) (en_allow env) (sq_token q) (sq_ua q) (sq_ip q) now (sb_guard st);
          d = (if gv_reason v = UnknownUaObserve \<and> gv_should_log v
               then addAuditLog now None ''sub_unknown_ua'' [take 180 (sq_ua q), take 8 (sq_token q), sq_ip q] (sq_ip q) (sb_db st)
               else sb_db st)
      in (v, st\<lparr>sb_guard := g, sb_db := d\<rparr>))"

text \<open>The note about a link that is used from many addresses, at most once an hour.\<close>

definition note_abuse :: "user \<Rightarrow> int \<Rightarrow> sub_state \<Rightarrow> sub_state" where
  "note_abuse u now st =
     (let ips = getSubAccessIPs (u_id u) 24 now (sb_db st);
          abuse = cleanupAbuseCache now (sb_abuse st);
          last = (case js_get abuse (u_id u) of None \<Rightarrow> 0 | Some t \<Rightarrow> t)
      in if 20 \<le> length ips \<and> 3600000 < now - last
         then st\<lparr>sb_abuse := cleanupAbuseCache now (js_set (u_id u) now abuse),
                 sb_db := add_effect (Notify ''abuse'' [u_username u, show_nat (length ips)]) (sb_db st)\<rparr>
         else st\<lparr>sb_abuse := abuse\<rparr>)"

section \<open>Serving a configuration\<close>

definition cache_key :: "sub_route \<Rightarrow> string \<Rightarrow> string \<Rightarrow> string" where
  "cache_key route token clientType = cache_prefix route @ token @ '':'' @ clientType"

definition sub_node_of :: "sub_route \<Rightarrow> user \<Rightarrow> (int, string) js_map \<Rightarrow> node \<Rightarrow> sub_node" where
  "sub_node_of route u m n =
     (let cred = (case js_get m (n_id n) of None \<Rightarrow> [] | Some c \<Rightarrow> c)
      in \<lparr>sn_node = n, sn_rate = (if n_traffic_rate n = 1 then None else Some (n_traffic_rate n)),
          sn_uuid = (if uuid_field route then cred else n_uuid n),
          sn_user_password = (if \<not> uuid_field route \<or> route = SubAll \<and> n_protocol n = ''hy2'' then Some cred else None),
          sn_user_id = u_id u\<rparr>)"

definition build_body :: "sub_route \<Rightarrow> string \<Rightarrow> sub_node list \<Rightarrow> traffic_info \<Rightarrow> sub_body option" where
  "build_body route clientType nodes info =
     (case generator_of clientType of
        GenConstructor \<Rightarrow> Some (RawNodes nodes)
      | GenToString \<Rightarrow> Some ObjectText
      | GenThrows \<Rightarrow> None
      | g \<Rightarrow> Some (Config route g nodes info))"

definition exceeded :: "user \<Rightarrow> int \<times> int \<Rightarrow> bool" where
  "exceeded u t \<longleftrightarrow> 0 \<le> u_traffic_limit u \<and> u_traffic_limit u \<le> fst t + snd t"

definition serve_subscription ::
  "sub_env \<Rightarrow> sub_route \<Rightarrow> sub_request \<Rightarrow> user \<Rightarrow> string \<Rightarrow> int \<Rightarrow> sub_state \<Rightarrow> sub_reply \<times> sub_state" where
  "serve_subscription env route q u allowReason now st =
     (let raw = filter (\<lambda>n. node_filter route n \<and> canUserAccessNode u n) (getAllNodes (en_decrypt env) True (sb_db st));
          (m, d1) = getUserNodeUuidMap (sq_new_uuid q) (u_id u) raw (sb_db st);
          nodes = map (sub_node_of route u m) raw;
          traffic = getUserTraffic (u_id u) d1;
          over = exceeded u traffic;
          d2 = addAuditLog now (Some (u_id u)) (audit_action route) [client_type q, sq_ip q] (sq_ip q) d1;
          info = \<lparr>ti_upload = fst traffic, ti_download = snd traffic,
                  ti_total = (if 0 \<le> u_traffic_limit u then u_traffic_limit u else 1125899906842624)\<rparr>;
          reason = (if allowReason = ''ok'' then (if over then ''ok_exceeded'' else ''ok'')
                    else allowReason @ (if over then ''_exceeded'' else []))
      in case build_body route (client_type q) (if over then [] else nodes) info of
           None \<Rightarrow> (SubCrashed, st\<lparr>sb_db := d2\<rparr>)
         | Some body \<Rightarrow>
             (let headers = \<lparr>sh_content = (if client_type q = ''clash'' then ''text/yaml''
                                         else if client_type q = ''singbox'' then ''application/json'' else ''text/plain''),
                             sh_info = info, sh_interval = (client_type q = ''clash'')\<rparr>
              in (SubServed headers body,
                  st\<lparr>sb_cache := setSubCache (cache_key route (sq_token q) (client_type q))
                       \<lparr>ce_headers = headers, ce_body = body, ce_ts = now\<rparr> (sb_cache st),
                     sb_db := logSubAccessEventSafe route q (Some (u_id u)) ''allow'' reason 200 now d2\<rparr>)))"

section \<open>The handler\<close>

definition allow_reason :: "sign_verdict \<Rightarrow> guard_verdict \<Rightarrow> string" where
  "allow_reason sv gv =
     (if gv_reason gv \<noteq> Ok then guard_reason_text (gv_reason gv)
      else if sv_reason sv \<notin> {SignatureOk, SignatureOff} then sign_reason_text (sv_reason sv) else ''ok'')"

definition deny ::
  "sub_route \<Rightarrow> sub_request \<Rightarrow> int option \<Rightarrow> string \<Rightarrow> int \<Rightarrow> int \<Rightarrow> sub_state \<Rightarrow> sub_reply \<times> sub_state" where
  "deny route q uid reason status now st =
     (SubDenied status reason,
      st\<lparr>sb_db := logSubAccessEventSafe route q uid ''deny'' reason status now (sb_db st)\<rparr>)"

text \<open>After the checks of the link and the cache: the account's own checks, then its configuration.\<close>

definition handle_account ::
  "sub_env \<Rightarrow> sub_route \<Rightarrow> sub_request \<Rightarrow> string \<Rightarrow> int \<Rightarrow> sub_state \<Rightarrow> sub_reply \<times> sub_state" where
  "handle_account env route q reason now st =
     (case getUserBySubToken (sq_token q) (sb_db st) of
        None \<Rightarrow> deny route q None ''invalid_token'' 403 now st
      | Some u \<Rightarrow>
          (case logSubAccess (u_id u) (sq_ip q) (sq_ua q) now (sb_db st) of
             None \<Rightarrow> (SubCrashed, st)
           | Some d \<Rightarrow>
               (case enforceUaAutoReset (en_reset_limit env) q u now d of
                  Some d' \<Rightarrow> deny route q (Some (u_id u)) ''token_auto_reset_ua'' 403 now (st\<lparr>sb_db := d'\<rparr>)
                | None \<Rightarrow>
                    serve_subscription env route q u reason now (note_abuse u now (st\<lparr>sb_db := d\<rparr>)))))"

text \<open>A cached configuration of less than a minute is sent again, if the link still belongs to an
  account; else the entry is dropped.\<close>

definition handle_cached ::
  "sub_env \<Rightarrow> sub_route \<Rightarrow> sub_request \<Rightarrow> string \<Rightarrow> int \<Rightarrow> sub_state \<Rightarrow> sub_reply \<times> sub_state" where
  "handle_cached env route q reason now st =
     (let key = cache_key route (sq_token q) (client_type q)
      in case js_get (sb_cache st) key of
           None \<Rightarrow> handle_account env route q reason now st
         | Some e \<Rightarrow>
             if \<not> now - ce_ts e < SUB_CACHE_TTL then handle_account env route q reason now st
             else (case getUserBySubToken (sq_token q) (sb_db st) of
                     None \<Rightarrow> handle_account env route q reason now
                               (st\<lparr>sb_cache := filter (\<lambda>x. fst x \<noteq> key) (sb_cache st)\<rparr>)
                   | Some u \<Rightarrow>
                       (case logSubAccess (u_id u) (sq_ip q) (sq_ua q) now (sb_db st) of
                          None \<Rightarrow> (SubCrashed, st)
                        | Some d \<Rightarrow>
                            (SubServed (ce_headers e) (ce_body e),
                             st\<lparr>sb_db := logSubAccessEventSafe route q (Some (u_id u)) ''allow''
                                  (if reason = ''ok'' then ''ok_cache'' else reason @ ''_cache'') 200 now d\<rparr>))))"

definition handleSubscription ::
  "sub_env \<Rightarrow> sub_route \<Rightarrow> sub_request \<Rightarrow> int \<Rightarrow> sub_state \<Rightarrow> sub_reply \<times> sub_state" where
  "handleSubscription env route q now st =
     (let sv = verifySignature (en_hmac env) (en_sha env) (en_sign env) (sq_token q)
                 (readSubSignatureFromQuery (sq_sig q)) (route_name route);
          uid = resolveSubUserIdByToken (sq_token q)
      in if \<not> sv_ok sv
         then deny route q (uid (sb_db st)) (sign_reason_text (sv_reason sv)) (sv_status sv) now st
         else let st1 = (if sv_should_log sv
                         then st\<lparr>sb_db := addAuditLog now None (route_name route @ ''_sig_observe'')
                                [take 8 (sq_token q), sq_ip q] (sq_ip q) (sb_db st)\<rparr>
                         else st)
              in if js_trim (sq_ua q) = [] then deny route q (uid (sb_db st1)) ''empty_ua'' 403 now st1
                 else let (gv, st2) = applySubGuards env q now st1
                      in if \<not> gv_ok gv
                         then deny route q (uid (sb_db st2)) (guard_reason_text (gv_reason gv)) (gv_status gv) now st2
                         else handle_cached env route q (allow_reason sv gv) now st2)"

text \<open>The picture of a subscription address: the text that is encoded.\<close>

definition makeQrHandler :: "(string \<Rightarrow> string \<Rightarrow> string \<Rightarrow> string) \<Rightarrow> string \<Rightarrow> string \<Rightarrow> user \<Rightarrow> string \<Rightarrow> string" where
  "makeQrHandler appendSignature protocol host u route = buildSubUrl appendSignature protocol host (u_sub_token u) route"

end
