(* ===== verification/SubProps.thy ===== *)
theory SubProps
  imports Subscription Samples
begin

text \<open>
  The properties of the subscription routes: who is served which nodes with which credentials,
  the one event per request, the automatic reset, and the bounded cache.
\<close>

section \<open>Logging\<close>

lemma token_user_known:
  assumes "getUserBySubToken t d = Some u"
  shows "user_by_id d (u_id u) \<noteq> None" and "u \<in> set (d_users d)" and "u_sub_token u = t"
    and "\<not> u_is_blocked u" and "\<not> u_is_frozen u"
  using find_Some_mem [OF assms [unfolded getUserBySubToken_def]]
  by (auto simp: user_by_id_def find_None_iff)

lemma result_texts: "js_lower ''allow'' = ''allow''" "js_lower ''deny'' = ''deny''"
  by code_simp+

definition reply_event :: "sub_request \<Rightarrow> string \<Rightarrow> int \<Rightarrow> sub_event_row \<Rightarrow> bool" where
  "reply_event q result status row \<longleftrightarrow>
     ev_result row = result \<and> ev_status row = status \<and> ev_ip row = take 64 (sq_ip q) \<and>
     ev_token row = take 8 (sq_token q)"

lemma logged_event:
  assumes "\<And>n. uid = Some n \<Longrightarrow> user_by_id d n \<noteq> None" and "result \<in> {''allow'', ''deny''}" and "status \<noteq> 0"
  shows "\<exists>row. logSubAccessEventSafe route q uid result reason status now d =
      d\<lparr>d_sub_events := d_sub_events d @ [row]\<rparr> \<and> reply_event q result status row"
proof -
  define i where "i = \<lparr>ei_user = uid, ei_token = take 8 (sq_token q), ei_route = route_name route, ei_result = result,
    ei_reason = default_text reason ''ok'', ei_ip = sq_ip q, ei_ua = sq_ua q, ei_client = client_type q,
    ei_status = Some (if status = 0 then 200 else status)\<rparr>"
  have "ev_user (event_row i now) \<noteq> None \<Longrightarrow> user_by_id d (the (ev_user (event_row i now))) \<noteq> None"
    using assms(1) by (cases uid) (auto simp: event_row_def i_def Let_def)
  then have "logSubAccessEventSafe route q uid result reason status now d =
      d\<lparr>d_sub_events := d_sub_events d @ [event_row i now]\<rparr>"
    unfolding logSubAccessEventSafe_def i_def [symmetric] by (auto simp: logSubAccessEvent_def Let_def)
  moreover have "js_lower (default_text result ''allow'') = result"
    using assms(2) result_texts by (auto simp: default_text_def)
  then have "reply_event q result status (event_row i now)"
    using assms(2,3) by (auto simp: reply_event_def event_row_def i_def toSafeText_def Let_def)
  ultimately show ?thesis by blast
qed

lemma deny_logged:
  assumes "deny route q uid reason status now st = (reply, st')"
    and "\<And>n. uid = Some n \<Longrightarrow> user_by_id (sb_db st) n \<noteq> None" and "status \<noteq> 0"
  shows "reply = SubDenied status reason \<and> (\<exists>row. reply_event q ''deny'' status row \<and>
    d_sub_events (sb_db st') = d_sub_events (sb_db st) @ [row] \<and> d_users (sb_db st') = d_users (sb_db st) \<and>
    sb_cache st' = sb_cache st)"
  using assms logged_event [of uid "sb_db st" "''deny''" status route q reason now] by (auto simp: deny_def)

lemma log_access_frame:
  assumes "logSubAccess uid ip ua now d = Some d'"
  shows "d_users d' = d_users d" and "d_sub_events d' = d_sub_events d" and "d_nodes d' = d_nodes d"
    and "d_totals d' = d_totals d" and "d_daily d' = d_daily d" and "d_uuids d' = d_uuids d" and "d_settings d' = d_settings d"
  using assms by (auto simp: logSubAccess_def split: if_splits)

lemma note_abuse_frame [simp]:
  "d_users (sb_db (note_abuse u now st)) = d_users (sb_db st)"
  "d_sub_events (sb_db (note_abuse u now st)) = d_sub_events (sb_db st)"
  "d_nodes (sb_db (note_abuse u now st)) = d_nodes (sb_db st)"
  "d_totals (sb_db (note_abuse u now st)) = d_totals (sb_db st)"
  "d_daily (sb_db (note_abuse u now st)) = d_daily (sb_db st)"
  "sb_cache (note_abuse u now st) = sb_cache st"
  by (simp_all add: note_abuse_def Let_def)

section \<open>Credentials\<close>

definition owns_uuid :: "int \<Rightarrow> db \<Rightarrow> int \<Rightarrow> string \<Rightarrow> bool" where
  "owns_uuid uid d i c \<longleftrightarrow> (\<exists>r \<in> set (d_uuids d). uu_user r = uid \<and> uu_node r = i \<and> uu_uuid r = c)"

lemma stored_uuid_map:
  assumes "\<forall>r \<in> set rows. uu_user r = uid \<and> r \<in> set (d_uuids d)"
    and "js_get (fold (\<lambda>r m. if uu_uuid r = [] then m else js_set (uu_node r) (uu_uuid r) m) rows m0) i = Some c"
    and "\<And>i c. js_get m0 i = Some c \<Longrightarrow> owns_uuid uid d i c"
  shows "owns_uuid uid d i c"
  using assms
proof (induction rows arbitrary: m0)
  case (Cons r rows)
  let ?m = "if uu_uuid r = [] then m0 else js_set (uu_node r) (uu_uuid r) m0"
  have "owns_uuid uid d j e" if "js_get ?m j = Some e" for j e
    using that Cons.prems(1,3) unfolding owns_uuid_def by (auto simp: update_conv' split: if_splits)
  then show ?case using Cons.IH [of ?m] Cons.prems(1,2) by simp
qed simp

lemma fill_uuid_sound:
  assumes "fill_uuid gen uid n (m, d) = (m', d')" and "\<And>i c. js_get m i = Some c \<Longrightarrow> owns_uuid uid d i c"
  shows "(\<forall>i c. js_get m' i = Some c \<longrightarrow> owns_uuid uid d' i c) \<and> (\<exists>t. d' = d\<lparr>d_uuids := t\<rparr>)"
proof (cases "js_get m (n_id n)")
  case (Some c)
  then show ?thesis using assms by (auto simp: fill_uuid_def intro: exI [of _ "d_uuids d"])
next
  case None
  obtain row d1 where g: "getUserNodeUuid (gen (n_id n)) uid (n_id n) d = (row, d1)" by fastforce
  have r: "uu_user row = uid" "uu_node row = n_id n" "row \<in> set (d_uuids d1)" "set (d_uuids d) \<subseteq> set (d_uuids d1)"
    "\<exists>t. d1 = d\<lparr>d_uuids := t\<rparr>"
    using g by (auto simp: getUserNodeUuid_def new_uuid_row_def Let_def split: option.splits
        dest!: find_Some_mem intro: exI [of _ "d_uuids d"])
  have e: "m' = (if uu_uuid row = [] then m else js_set (n_id n) (uu_uuid row) m)" "d' = d1"
    using assms(1) None g by (auto simp: fill_uuid_def)
  have "owns_uuid uid d' i c" if "js_get m' i = Some c" for i c
    using that assms(2) [of i c] r unfolding e owns_uuid_def by (auto simp: update_conv' split: if_splits)
  then show ?thesis using r(5) e(2) by blast
qed

lemma fill_uuid_covers:
  assumes "fill_uuid gen uid n (m, d) = (m', d')"
  shows "set (d_uuids d) \<subseteq> set (d_uuids d')" "js_get m i \<noteq> None \<Longrightarrow> js_get m' i \<noteq> None"
    "js_get m' (n_id n) = None \<Longrightarrow> owns_uuid uid d' (n_id n) []"
  using assms by (auto simp: fill_uuid_def getUserNodeUuid_def new_uuid_row_def owns_uuid_def update_conv' Let_def
      split: option.splits if_splits dest!: find_Some_mem)

text \<open>A listed node that is missing in the map has a row of the account with an empty credential.\<close>

lemma fill_all_covers:
  assumes "fold (fill_uuid gen uid) ns (m, d) = (m', d')"
  shows "set (d_uuids d) \<subseteq> set (d_uuids d') \<and> (\<forall>i. js_get m i \<noteq> None \<longrightarrow> js_get m' i \<noteq> None) \<and>
    (\<forall>n \<in> set ns. js_get m' (n_id n) = None \<longrightarrow> owns_uuid uid d' (n_id n) [])"
  using assms
proof (induction ns arbitrary: m d)
  case (Cons n ns)
  obtain m1 d1 where f: "fill_uuid gen uid n (m, d) = (m1, d1)" by fastforce
  note c = fill_uuid_covers [OF f]
  have "fold (fill_uuid gen uid) ns (m1, d1) = (m', d')" using Cons.prems f by simp
  note ih = Cons.IH [OF this]
  have "owns_uuid uid d' (n_id n) []" if none: "js_get m' (n_id n) = None"
  proof -
    have "js_get m1 (n_id n) = None" using ih none by metis
    from c(3) [OF this] show ?thesis using ih by (auto simp: owns_uuid_def)
  qed
  then show ?case using ih c(1,2) by auto
qed simp

lemma fill_all_sound:
  assumes "fold (fill_uuid gen uid) ns (m, d) = (m', d')" and "\<And>i c. js_get m i = Some c \<Longrightarrow> owns_uuid uid d i c"
  shows "(\<forall>i c. js_get m' i = Some c \<longrightarrow> owns_uuid uid d' i c) \<and> (\<exists>t. d' = d\<lparr>d_uuids := t\<rparr>)"
  using assms
proof (induction ns arbitrary: m d)
  case Nil
  then show ?case by (auto intro: exI [of _ "d_uuids d'"])
next
  case (Cons n ns)
  obtain m1 d1 where f: "fill_uuid gen uid n (m, d) = (m1, d1)" by fastforce
  note s = fill_uuid_sound [OF f Cons.prems(2)]
  have "(\<forall>i c. js_get m' i = Some c \<longrightarrow> owns_uuid uid d' i c) \<and> (\<exists>t. d' = d1\<lparr>d_uuids := t\<rparr>)"
    by (rule Cons.IH) (use Cons.prems(1) s f in auto)
  then show ?case using s by auto
qed

lemma uuid_map_sound:
  assumes "getUserNodeUuidMap gen uid ns d = (m, d')"
  shows "\<And>i c. js_get m i = Some c \<Longrightarrow> owns_uuid uid d' i c" and "\<exists>t. d' = d\<lparr>d_uuids := t\<rparr>"
proof -
  have "owns_uuid uid d i c" if "js_get (fold (\<lambda>r m. if uu_uuid r = [] then m else js_set (uu_node r) (uu_uuid r) m)
      (getUserAllNodeUuids uid d) []) i = Some c" for i c
    by (rule stored_uuid_map [OF _ that]) (auto simp: getUserAllNodeUuids_def)
  then have "(\<forall>i c. js_get m i = Some c \<longrightarrow> owns_uuid uid d' i c) \<and> (\<exists>t. d' = d\<lparr>d_uuids := t\<rparr>)"
    using fill_all_sound [OF assms [unfolded getUserNodeUuidMap_def Let_def]] by blast
  then show "\<And>i c. js_get m i = Some c \<Longrightarrow> owns_uuid uid d' i c" and "\<exists>t. d' = d\<lparr>d_uuids := t\<rparr>" by blast+
qed

lemma uuid_map_covers:
  assumes "getUserNodeUuidMap gen uid ns d = (m, d')" and "n \<in> set ns"
  shows "owns_uuid uid d' (n_id n) (case js_get m (n_id n) of None \<Rightarrow> [] | Some c \<Rightarrow> c)"
  using fill_all_covers [OF assms(1) [unfolded getUserNodeUuidMap_def Let_def]] assms(2) uuid_map_sound(1) [OF assms(1)]
  by (auto split: option.split)

section \<open>Who is served what\<close>

fun served_nodes :: "sub_reply \<Rightarrow> sub_node list" where
  "served_nodes (SubServed h (Config r g ns info)) = ns"
| "served_nodes (SubServed h (RawNodes ns)) = ns"
| "served_nodes _ = []"

definition served :: "sub_reply \<Rightarrow> bool" where
  "served reply \<longleftrightarrow> (\<exists>h b. reply = SubServed h b)"

text \<open>A node that an account may be given, with the credential the account has for that node in the database:
  in the field the route's links are made of, and as the password where the route has one.\<close>

definition entitled :: "sub_route \<Rightarrow> user \<Rightarrow> db \<Rightarrow> sub_node \<Rightarrow> bool" where
  "entitled route u d s \<longleftrightarrow>
     (\<exists>n \<in> set (d_nodes d). n_id n = n_id (sn_node s) \<and> n_is_active n \<and> node_filter route n \<and>
        n_min_level n \<le> u_trust_level u) \<and> sn_user_id s = u_id u \<and>
     (uuid_field route \<longrightarrow> owns_uuid (u_id u) d (n_id (sn_node s)) (sn_uuid s)) \<and>
     (case sn_user_password s of
        None \<Rightarrow> uuid_field route \<and> \<not> (route = SubAll \<and> n_protocol (sn_node s) = ''hy2'')
      | Some c \<Rightarrow> owns_uuid (u_id u) d (n_id (sn_node s)) c)"

lemma node_filter_decrypt [simp]: "node_filter route (decryptNode dec n) = node_filter route n"
  by (cases route) simp_all

lemma audit_sub_frame [simp]:
  "d_sub_events (addAuditLog now uid act args ip d) = d_sub_events d"
  "d_uuids (addAuditLog now uid act args ip d) = d_uuids d"
  by (simp_all add: addAuditLog_def)

lemma build_body_nodes:
  "build_body route t ns info = Some b \<Longrightarrow> set (served_nodes (SubServed h b)) \<subseteq> set ns"
  by (auto simp: build_body_def split: generator.splits)

lemma serve_cases:
  assumes "serve_subscription env route q u reason now st = (reply, st')" and "reply \<noteq> SubCrashed"
    and known: "user_by_id (sb_db st) (u_id u) \<noteq> None"
  obtains row m d1 where
    "getUserNodeUuidMap (sq_new_uuid q) (u_id u)
       (filter (\<lambda>n. node_filter route n \<and> canUserAccessNode u n) (getAllNodes (en_decrypt env) True (sb_db st)))
       (sb_db st) = (m, d1)"
    and "served reply"
    and "set (served_nodes reply) \<subseteq> sub_node_of route u m `
       {n \<in> set (getAllNodes (en_decrypt env) True (sb_db st)). node_filter route n \<and> canUserAccessNode u n}"
    and "exceeded u (getUserTraffic (u_id u) d1) \<Longrightarrow> served_nodes reply = []"
    and "reply_event q ''allow'' 200 row"
    and "sb_db st' = (addAuditLog now (Some (u_id u)) (audit_action route) [client_type q, sq_ip q] (sq_ip q) d1)
       \<lparr>d_sub_events := d_sub_events (sb_db st) @ [row]\<rparr>"
    and "\<exists>h b. reply = SubServed h b \<and> sb_cache st' = setSubCache (cache_key route (sq_token q) (client_type q))
       \<lparr>ce_headers = h, ce_body = b, ce_ts = now\<rparr> (sb_cache st)"
proof -
  let ?raw = "filter (\<lambda>n. node_filter route n \<and> canUserAccessNode u n) (getAllNodes (en_decrypt env) True (sb_db st))"
  obtain m d1 where mp: "getUserNodeUuidMap (sq_new_uuid q) (u_id u) ?raw (sb_db st) = (m, d1)" by fastforce
  obtain t where d1: "d1 = sb_db st\<lparr>d_uuids := t\<rparr>" using uuid_map_sound(2) [OF mp] by blast
  let ?d2 = "addAuditLog now (Some (u_id u)) (audit_action route) [client_type q, sq_ip q] (sq_ip q) d1"
  let ?over = "exceeded u (getUserTraffic (u_id u) d1)"
  let ?info = "\<lparr>ti_upload = fst (getUserTraffic (u_id u) d1), ti_download = snd (getUserTraffic (u_id u) d1),
      ti_total = (if 0 \<le> u_traffic_limit u then u_traffic_limit u else 1125899906842624)\<rparr>"
  obtain b where b: "build_body route (client_type q) (if ?over then [] else map (sub_node_of route u m) ?raw) ?info = Some b"
    using assms(1,2) mp by (auto simp: serve_subscription_def Let_def split: option.splits)
  have "user_by_id ?d2 n \<noteq> None" if "Some (u_id u) = Some n" for n
    using known that by (simp add: user_by_id_def d1)
  note lg = logged_event [of "Some (u_id u)" ?d2, OF this, of "''allow''" 200 route q]
  define rs where "rs = (if reason = ''ok'' then (if ?over then ''ok_exceeded'' else ''ok'')
                    else reason @ (if ?over then ''_exceeded'' else []))"
  obtain row where row: "logSubAccessEventSafe route q (Some (u_id u)) ''allow'' rs 200 now ?d2 =
      ?d2\<lparr>d_sub_events := d_sub_events ?d2 @ [row]\<rparr>" "reply_event q ''allow'' 200 row"
    using lg [of rs now] by auto
  obtain h where r: "reply = SubServed h b"
      "st' = st\<lparr>sb_cache := setSubCache (cache_key route (sq_token q) (client_type q))
           \<lparr>ce_headers = h, ce_body = b, ce_ts = now\<rparr> (sb_cache st),
         sb_db := logSubAccessEventSafe route q (Some (u_id u)) ''allow'' rs 200 now ?d2\<rparr>"
    using assms(1) [symmetric] mp b by (simp add: serve_subscription_def Let_def rs_def)
  show thesis
  proof (rule that [OF mp])
    show "served reply" by (simp add: served_def r)
    show "set (served_nodes reply) \<subseteq> sub_node_of route u m `
       {n \<in> set (getAllNodes (en_decrypt env) True (sb_db st)). node_filter route n \<and> canUserAccessNode u n}"
      using build_body_nodes [OF b, of h] by (auto simp: r split: if_splits)
    show "served_nodes reply = []" if ?over using build_body_nodes [OF b, of h] that by (simp add: r)
    show "reply_event q ''allow'' 200 row" by (rule row(2))
    show "sb_db st' = ?d2\<lparr>d_sub_events := d_sub_events (sb_db st) @ [row]\<rparr>"
      using arg_cong [OF d1, of d_sub_events] by (simp add: r row(1))
    show "\<exists>h b. reply = SubServed h b \<and> sb_cache st' = setSubCache (cache_key route (sq_token q) (client_type q))
       \<lparr>ce_headers = h, ce_body = b, ce_ts = now\<rparr> (sb_cache st)" by (simp add: r)
  qed
qed

lemma serve_entitled:
  assumes "serve_subscription env route q u reason now st = (reply, st')" and "reply \<noteq> SubCrashed"
    and "user_by_id (sb_db st) (u_id u) \<noteq> None" and "s \<in> set (served_nodes reply)"
  shows "entitled route u (sb_db st') s \<and> \<not> exceeded u (getUserTraffic (u_id u) (sb_db st))"
proof -
  obtain row m d1 where mp: "getUserNodeUuidMap (sq_new_uuid q) (u_id u)
       (filter (\<lambda>n. node_filter route n \<and> canUserAccessNode u n) (getAllNodes (en_decrypt env) True (sb_db st)))
       (sb_db st) = (m, d1)"
    and sub: "set (served_nodes reply) \<subseteq> sub_node_of route u m `
       {n \<in> set (getAllNodes (en_decrypt env) True (sb_db st)). node_filter route n \<and> canUserAccessNode u n}"
    and ex: "exceeded u (getUserTraffic (u_id u) d1) \<Longrightarrow> served_nodes reply = []"
    and db: "sb_db st' = (addAuditLog now (Some (u_id u)) (audit_action route) [client_type q, sq_ip q] (sq_ip q) d1)
       \<lparr>d_sub_events := d_sub_events (sb_db st) @ [row]\<rparr>"
    by (rule serve_cases [OF assms(1-3)]) blast
  obtain t where d1: "d1 = sb_db st\<lparr>d_uuids := t\<rparr>" using uuid_map_sound(2) [OF mp] by blast
  obtain k where k: "k \<in> set (getAllNodes (en_decrypt env) True (sb_db st))" "node_filter route k" "canUserAccessNode u k"
      "s = sub_node_of route u m k"
    using subsetD [OF sub assms(4)] by blast
  then obtain n where n: "n \<in> set (d_nodes (sb_db st))" "n_is_active n" "node_filter route n" "n_min_level n \<le> u_trust_level u"
      "k = decryptNode (en_decrypt env) n"
    by (auto simp: set_getAllNodes canUserAccessNode_def)
  have "owns_uuid (u_id u) d1 (n_id k) (case js_get m (n_id k) of None \<Rightarrow> [] | Some c \<Rightarrow> c)"
    by (rule uuid_map_covers [OF mp]) (use k in simp)
  then have own: "owns_uuid (u_id u) (sb_db st') (n_id k) (case js_get m (n_id k) of None \<Rightarrow> [] | Some c \<Rightarrow> c)"
    by (simp add: owns_uuid_def db)
  have "n \<in> set (d_nodes (sb_db st')) \<and> n_id n = n_id k" using n(1,5) by (simp add: db d1)
  then have "entitled route u (sb_db st') s" using n(2-4) own unfolding entitled_def k(4) sub_node_of_def by (auto simp: Let_def)
  moreover have "getUserTraffic (u_id u) d1 = getUserTraffic (u_id u) (sb_db st)"
    by (simp add: getUserTraffic_def d1 split: option.split)
  ultimately show ?thesis using ex assms(4) by auto
qed

section \<open>The steps before the account's own checks\<close>

definition same_books :: "sub_state \<Rightarrow> sub_state \<Rightarrow> bool" where
  "same_books st st1 \<longleftrightarrow> d_users (sb_db st1) = d_users (sb_db st) \<and> d_sub_events (sb_db st1) = d_sub_events (sb_db st) \<and>
     d_nodes (sb_db st1) = d_nodes (sb_db st) \<and> d_totals (sb_db st1) = d_totals (sb_db st) \<and>
     d_daily (sb_db st1) = d_daily (sb_db st) \<and> sb_cache st1 = sb_cache st"

lemma same_books_refl [simp]: "same_books st st"
  by (simp add: same_books_def)

lemma same_books_trans: "same_books st st1 \<Longrightarrow> same_books st1 st2 \<Longrightarrow> same_books st st2"
  by (simp add: same_books_def)

lemma same_books_audit: "same_books st (st\<lparr>sb_db := addAuditLog now uid act args ip (sb_db st)\<rparr>)"
  by (simp add: same_books_def addAuditLog_def)

lemma same_books_guards:
  assumes "applySubGuards env q now st = (v, st')"
  shows "same_books st st'"
  using assms by (auto simp: applySubGuards_def Let_def addAuditLog_def same_books_def split: prod.splits)

lemma guard_status: "\<not> gv_ok (fst (guard_apply c allow token ua ip now g)) \<Longrightarrow>
    gv_status (fst (guard_apply c allow token ua ip now g)) \<in> {403, 429}"
  by (auto simp: guard_apply_def refusal_def Let_def split: prod.splits option.splits if_splits)

lemma sign_status: "\<not> sv_ok (verifySignature hm sha env token s scope) \<Longrightarrow>
    sv_status (verifySignature hm sha env token s scope) \<in> {403, 500}"
  by (auto simp: verifySignature_def Let_def split: if_splits)

lemma resolved_known: "resolveSubUserIdByToken token d = Some n \<Longrightarrow> user_by_id d n \<noteq> None"
  using token_user_known(1) by (auto simp: resolveSubUserIdByToken_def split: option.splits if_splits)

text \<open>A request is either refused before the cache is consulted, or goes on with the same accounts,
  events and cache.\<close>

lemma handle_cases:
  assumes "handleSubscription env route q now st = (reply, st')"
  obtains (denied) st1 uid reason status where "deny route q uid reason status now st1 = (reply, st')"
      "same_books st st1" "status \<noteq> 0" "\<And>n. uid = Some n \<Longrightarrow> user_by_id (sb_db st1) n \<noteq> None"
    | (passed) st1 reason where "handle_cached env route q reason now st1 = (reply, st')" "same_books st st1"
proof -
  define sv where "sv = verifySignature (en_hmac env) (en_sha env) (en_sign env) (sq_token q)
                 (readSubSignatureFromQuery (sq_sig q)) (route_name route)"
  define st1 where "st1 = (if sv_should_log sv
                         then st\<lparr>sb_db := addAuditLog now None (route_name route @ ''_sig_observe'')
                                [take 8 (sq_token q), sq_ip q] (sq_ip q) (sb_db st)\<rparr>
                         else st)"
  have b1: "same_books st st1" by (simp add: st1_def same_books_audit)
  obtain gv st2 where g: "applySubGuards env q now st1 = (gv, st2)" by fastforce
  note b2 = same_books_trans [OF b1 same_books_guards [OF g]]
  note h = assms [unfolded handleSubscription_def Let_def, folded sv_def, folded st1_def, unfolded g]
  show thesis
  proof (cases "sv_ok sv \<and> js_trim (sq_ua q) \<noteq> [] \<and> gv_ok gv")
    case True
    then show ?thesis using h passed [of "allow_reason sv gv" st2] b2 by simp
  next
    case False
    then consider "\<not> sv_ok sv" | "sv_ok sv" "js_trim (sq_ua q) = []" | "sv_ok sv" "js_trim (sq_ua q) \<noteq> []" "\<not> gv_ok gv"
      by blast
    then show ?thesis
    proof cases
      case 1
      then have "sv_status sv \<noteq> 0" using sign_status unfolding sv_def by fastforce
      then show ?thesis using h 1 denied [OF _ same_books_refl] resolved_known by simp
    next
      case 2
      then show ?thesis using h denied [OF _ b1] resolved_known by simp
    next
      case 3
      have "gv = fst (guard_apply (en_guard env) (en_allow env) (sq_token q) (sq_ua q) (sq_ip q) now (sb_guard st1))"
        using g by (auto simp: applySubGuards_def Let_def split: prod.splits)
      then have "gv_status gv \<in> {403, 429}" using guard_status 3(3) by blast
      then have "gv_status gv \<noteq> 0" by auto
      then show ?thesis using h 3 denied [OF _ b2] resolved_known by simp
    qed
  qed
qed

lemma token_user_cong:
  "d_users d = d_users d' \<Longrightarrow> getUserBySubToken t d = getUserBySubToken t d'"
  by (simp add: getUserBySubToken_def)

lemma cached_cases:
  assumes "handle_cached env route q reason now st = (reply, st')"
  obtains (hit) e u row where "js_get (sb_cache st) (cache_key route (sq_token q) (client_type q)) = Some e"
      "now - ce_ts e < 60000" "getUserBySubToken (sq_token q) (sb_db st) = Some u"
      "reply = SubServed (ce_headers e) (ce_body e)" "reply_event q ''allow'' 200 row"
      "d_sub_events (sb_db st') = d_sub_events (sb_db st) @ [row]" "sb_cache st' = sb_cache st"
    | (miss) c where "handle_account env route q reason now (st\<lparr>sb_cache := filter c (sb_cache st)\<rparr>) = (reply, st')"
proof (cases "js_get (sb_cache st) (cache_key route (sq_token q) (client_type q))")
  case None
  then have "handle_account env route q reason now (st\<lparr>sb_cache := filter (\<lambda>_. True) (sb_cache st)\<rparr>) = (reply, st')"
    using assms by (simp add: handle_cached_def)
  then show ?thesis by (rule miss)
next
  case (Some e)
  consider "\<not> now - ce_ts e < 60000" | "now - ce_ts e < 60000" "getUserBySubToken (sq_token q) (sb_db st) = None"
    | u where "now - ce_ts e < 60000" "getUserBySubToken (sq_token q) (sb_db st) = Some u" by fastforce
  then show ?thesis
  proof cases
    case 1
    then have "handle_account env route q reason now (st\<lparr>sb_cache := filter (\<lambda>_. True) (sb_cache st)\<rparr>) = (reply, st')"
      using assms Some by (simp add: handle_cached_def SUB_CACHE_TTL_def)
    then show ?thesis by (rule miss)
  next
    case 2
    then show ?thesis using assms Some miss by (simp add: handle_cached_def SUB_CACHE_TTL_def)
  next
    case 3
    note k = token_user_known(1) [OF 3(2)]
    then obtain d where d: "logSubAccess (u_id u) (sq_ip q) (sq_ua q) now (sb_db st) = Some d"
      by (auto simp: logSubAccess_def)
    note f = log_access_frame [OF d]
    have kn: "user_by_id d n \<noteq> None" if "Some (u_id u) = Some n" for n using k that by (simp add: user_by_id_def f)
    define rs where "rs = (if reason = ''ok'' then ''ok_cache'' else reason @ ''_cache'')"
    obtain row where row: "logSubAccessEventSafe route q (Some (u_id u)) ''allow'' rs 200 now d =
        d\<lparr>d_sub_events := d_sub_events d @ [row]\<rparr>" "reply_event q ''allow'' 200 row"
      using logged_event [of "Some (u_id u)" d, OF kn, of "''allow''" 200 route q rs now] by auto
    have "reply = SubServed (ce_headers e) (ce_body e)"
        "st' = st\<lparr>sb_db := d\<lparr>d_sub_events := d_sub_events d @ [row]\<rparr>\<rparr>"
      using assms Some 3 d row(1) by (simp_all add: handle_cached_def SUB_CACHE_TTL_def rs_def)
    then show ?thesis using hit [OF Some 3] row(2) f(2) by simp
  qed
qed

lemma account_cases:
  assumes "handle_account env route q reason now st = (reply, st')"
  obtains (unknown) "getUserBySubToken (sq_token q) (sb_db st) = None"
      "deny route q None ''invalid_token'' 403 now st = (reply, st')"
    | (reset) u d d' where "getUserBySubToken (sq_token q) (sb_db st) = Some u"
      "logSubAccess (u_id u) (sq_ip q) (sq_ua q) now (sb_db st) = Some d"
      "enforceUaAutoReset (en_reset_limit env) q u now d = Some d'"
      "deny route q (Some (u_id u)) ''token_auto_reset_ua'' 403 now (st\<lparr>sb_db := d'\<rparr>) = (reply, st')"
    | (serve) u st1 where "getUserBySubToken (sq_token q) (sb_db st) = Some u"
      "serve_subscription env route q u reason now st1 = (reply, st')" "same_books st st1"
proof (cases "getUserBySubToken (sq_token q) (sb_db st)")
  case None
  then show ?thesis using assms unknown by (simp add: handle_account_def)
next
  case (Some u)
  then obtain d where d: "logSubAccess (u_id u) (sq_ip q) (sq_ua q) now (sb_db st) = Some d"
    using token_user_known(1) by (fastforce simp: logSubAccess_def)
  note f = log_access_frame [OF d]
  show ?thesis
  proof (cases "enforceUaAutoReset (en_reset_limit env) q u now d")
    case None
    have "same_books st (note_abuse u now (st\<lparr>sb_db := d\<rparr>))" by (simp add: same_books_def f)
    then show ?thesis using serve [OF Some] assms Some d None by (simp add: handle_account_def)
  next
    case (Some d')
    then show ?thesis
      using reset [OF \<open>getUserBySubToken _ _ = Some u\<close> d Some] assms \<open>getUserBySubToken _ _ = Some u\<close> d
      by (simp add: handle_account_def)
  qed
qed

lemma deny_serves_nothing: "deny route q uid reason status now st = (reply, st') \<Longrightarrow> served_nodes reply = []"
  by (auto simp: deny_def)

lemma served_known:
  assumes "handleSubscription env route q now st = (reply, st')" and "served reply"
  shows "getUserBySubToken (sq_token q) (sb_db st) \<noteq> None"
  using assms(1)
proof (cases rule: handle_cases)
  case (denied st1 uid reason status)
  then show ?thesis using assms(2) by (auto simp: deny_def served_def)
next
  case (passed st1 reason)
  have us: "getUserBySubToken (sq_token q) (sb_db st1) = getUserBySubToken (sq_token q) (sb_db st)"
    using passed(2) token_user_cong unfolding same_books_def by blast
  show ?thesis using passed(1)
  proof (cases rule: cached_cases)
    case (miss c)
    then show ?thesis using us assms(2) by (cases rule: account_cases) (auto simp: deny_def served_def)
  qed (use us in auto)
qed

text \<open>Account 2 asks for the configuration with one node.\<close>

definition sample_env :: sub_env where
  "sample_env = \<lparr>en_hmac = (\<lambda>k m. k @ m), en_sha = (\<lambda>s. s),
     en_sign = \<lparr>se_mode = ''off'', se_secret = [], se_session = [], se_param = []\<rparr>,
     en_guard = guard_config_of \<lparr>gs_mode = None, gs_token_window = None, gs_token_max = None, gs_token_ban = None,
       gs_behavior_window = None, gs_max_ips = None, gs_max_uas = None, gs_log_ttl = None, gs_max_tokens = None,
       gs_max_logs = None\<rparr>,
     en_allow = [], en_decrypt = (\<lambda>x. x), en_reset_limit = None\<rparr>"

definition sample_request :: sub_request where
  "sample_request = \<lparr>sq_token = ''tkk'', sq_sig = NoHeader, sq_ua = ''clash'', sq_ip = ''1.2.3.4'', sq_type = None,
     sq_new_token = ''fresh'', sq_new_uuid = (\<lambda>i. CHR ''u'' # show_int i)\<rparr>"

definition sample_sub :: sub_state where
  "sample_sub = \<lparr>sb_db = sample_db\<lparr>d_nodes := [sample_node 5]\<rparr>, sb_guard = empty_guard, sb_cache = [], sb_abuse = []\<rparr>"

lemma sample_served:
  "map (\<lambda>s. (n_id (sn_node s), sn_uuid s))
     (served_nodes (fst (handleSubscription sample_env Sub sample_request 1000 sample_sub))) = [(5, ''u5'')]"
  by code_simp

lemma sample_token_user: "getUserBySubToken ''tkk'' (sb_db sample_sub) = Some (sample_user 2 0 (5 * GB))"
  by code_simp

text \<open>C12: every node in a configuration goes to the account that the link belongs to, which is neither
  blocked nor frozen: the node is active, of the route's kind and within the account's level, its
  credential is the one the database has for this account at this node, and the account has quota left; or the
  configuration is the cached one, made less than a minute ago for the same address.\<close>

theorem subscription_serves_entitled_nodes:
  assumes "handleSubscription env route q now st = (reply, st')" and "s \<in> set (served_nodes reply)"
  shows "\<exists>u. getUserBySubToken (sq_token q) (sb_db st) = Some u \<and> \<not> u_is_blocked u \<and> \<not> u_is_frozen u \<and>
    (entitled route u (sb_db st') s \<and> \<not> exceeded u (getUserTraffic (u_id u) (sb_db st)) \<or>
     (\<exists>e. js_get (sb_cache st) (cache_key route (sq_token q) (client_type q)) = Some e \<and>
        now - ce_ts e < 60000 \<and> reply = SubServed (ce_headers e) (ce_body e)))"
  using assms(1)
proof (cases rule: handle_cases)
  case (denied st1 uid reason status)
  then show ?thesis using assms(2) deny_serves_nothing by fastforce
next
  case (passed st1 reason)
  have us: "getUserBySubToken (sq_token q) (sb_db st1) = getUserBySubToken (sq_token q) (sb_db st)"
    using passed(2) token_user_cong unfolding same_books_def by blast
  have c1: "sb_cache st1 = sb_cache st" using passed(2) by (simp add: same_books_def)
  show ?thesis using passed(1)
  proof (cases rule: cached_cases)
    case (hit e u row)
    then show ?thesis using token_user_known(4,5) us c1 by fastforce
  next
    case (miss c)
    show ?thesis using miss
    proof (cases rule: account_cases)
      case unknown
      then show ?thesis using assms(2) deny_serves_nothing by fastforce
    next
      case (reset u d d')
      then show ?thesis using assms(2) deny_serves_nothing by fastforce
    next
      case (serve u st2)
      have u: "getUserBySubToken (sq_token q) (sb_db st) = Some u" using serve(1) us by simp
      have b: "d_users (sb_db st2) = d_users (sb_db st)" "d_totals (sb_db st2) = d_totals (sb_db st)"
        "d_daily (sb_db st2) = d_daily (sb_db st)"
        using serve(3) passed(2) by (simp_all add: same_books_def)
      have "user_by_id (sb_db st2) (u_id u) \<noteq> None" using token_user_known(1) [OF u] by (simp add: user_by_id_def b)
      moreover have "reply \<noteq> SubCrashed" using assms(2) by auto
      moreover have "getUserTraffic (u_id u) (sb_db st2) = getUserTraffic (u_id u) (sb_db st)"
        by (simp add: getUserTraffic_def b split: option.split)
      ultimately have "entitled route u (sb_db st') s \<and> \<not> exceeded u (getUserTraffic (u_id u) (sb_db st))"
        using serve_entitled [OF serve(2) _ _ assms(2)] by simp
      then show ?thesis using u token_user_known(4,5) [OF u] by blast
    qed
  qed
qed

theorem subscription_serves_entitled_nodes_witness:
  "map (\<lambda>s. (n_id (sn_node s), sn_uuid s)) (served_nodes (fst (handleSubscription sample_env Sub sample_request 1000 sample_sub))) = [(5, ''u5'')] \<and>
   owns_uuid 2 (sb_db (snd (handleSubscription sample_env Sub sample_request 1000 sample_sub))) 5 ''u5''"
proof -
  let ?r = "handleSubscription sample_env Sub sample_request 1000 sample_sub"
  obtain s where s: "served_nodes (fst ?r) = [s]" "n_id (sn_node s) = 5" "sn_uuid s = ''u5''" using sample_served by auto
  then have "s \<in> set (served_nodes (fst ?r))" by simp
  from subscription_serves_entitled_nodes [OF prod.collapse [symmetric] this]
  obtain u where u: "getUserBySubToken ''tkk'' (sb_db sample_sub) = Some u" "entitled Sub u (sb_db (snd ?r)) s"
    by (auto simp: sample_request_def sample_sub_def)
  have "u_id u = 2" using u(1) by (auto simp: sample_token_user)
  moreover have "uuid_field Sub" by simp
  ultimately have "owns_uuid 2 (sb_db (snd ?r)) 5 ''u5''" using u(2) s(2,3) by (simp add: entitled_def)
  then show ?thesis using sample_served by blast
qed

section \<open>One event per request\<close>

lemma reset_effect:
  assumes "enforceUaAutoReset env q u now d = Some d'"
  shows "d_users d' = update_where (\<lambda>v. u_id v = u_id u) (\<lambda>v. v\<lparr>u_sub_token := sq_new_token q\<rparr>) (d_users d)"
    and "d_sub_events d' = delete_where (\<lambda>r. ev_user r = Some (u_id u) \<and> within_hours 24 now (ev_at r)) (d_sub_events d)"
    and "d_uuids d' = d_uuids (snd (rotateUserAllNodeUuids (sq_new_uuid q) (u_id u) d))"
proof -
  have h: "safe_hours ''24'' = 24" by code_simp
  let ?d1 = "update_user (u_id u) (\<lambda>v. v\<lparr>u_sub_token := sq_new_token q\<rparr>) d"
  let ?d2 = "snd (rotateUserAllNodeUuids (sq_new_uuid q) (u_id u) ?d1)"
  have r: "d_users ?d2 = d_users ?d1" "d_sub_events ?d2 = d_sub_events d"
    "d_uuids ?d2 = d_uuids (snd (rotateUserAllNodeUuids (sq_new_uuid q) (u_id u) d))"
    by (simp_all add: rotateUserAllNodeUuids_def rotate_where_def Let_def)
  obtain args args' act ip where "d' = add_effect EmitSyncAll (add_effect (Notify ''ops'' args)
      (addAuditLog now (Some (u_id u)) act args' ip (clearSubAccessWindow (u_id u) ''24'' now ?d2)))"
    using assms by (auto simp: enforceUaAutoReset_def resetSubToken_def Let_def split: if_splits prod.splits)
  then have e: "d_users d' = d_users ?d2" "d_uuids d' = d_uuids ?d2"
    "d_sub_events d' = delete_where (\<lambda>r. ev_user r = Some (u_id u) \<and> within_hours 24 now (ev_at r)) (d_sub_events ?d2)"
    by (simp_all add: clearSubAccessWindow_def h Let_def)
  show "d_users d' = update_where (\<lambda>v. u_id v = u_id u) (\<lambda>v. v\<lparr>u_sub_token := sq_new_token q\<rparr>) (d_users d)"
    by (simp only: e r) (simp add: update_user_def)
  show "d_sub_events d' = delete_where (\<lambda>r. ev_user r = Some (u_id u) \<and> within_hours 24 now (ev_at r)) (d_sub_events d)"
    by (simp only: e r)
  show "d_uuids d' = d_uuids (snd (rotateUserAllNodeUuids (sq_new_uuid q) (u_id u) d))" by (simp only: e r)
qed

text \<open>Every request that does not fail writes exactly one event, the last one, with the outcome, the
  status of the reply, the address and the start of the link; the earlier events stay, except those
  of an account whose link is reset.\<close>

theorem every_request_logged_once:
  assumes "handleSubscription env route q now st = (reply, st')" and "reply \<noteq> SubCrashed"
  shows "\<exists>base row. d_sub_events (sb_db st') = base @ [row] \<and>
    reply_event q (if served reply then ''allow'' else ''deny'') (case reply of SubDenied s r \<Rightarrow> s | _ \<Rightarrow> 200) row \<and>
    (base = d_sub_events (sb_db st) \<or> reply = SubDenied 403 ''token_auto_reset_ua'' \<and>
      (\<exists>uid. base = delete_where (\<lambda>r. ev_user r = Some uid \<and> within_hours 24 now (ev_at r)) (d_sub_events (sb_db st))))"
  using assms(1)
proof (cases rule: handle_cases)
  case (denied st1 uid reason status)
  then show ?thesis
    using deny_logged [OF denied(1,4,3)] by (auto simp: served_def same_books_def)
next
  case (passed st1 reason)
  have ev: "d_sub_events (sb_db st1) = d_sub_events (sb_db st)" "d_users (sb_db st1) = d_users (sb_db st)"
    using passed(2) by (simp_all add: same_books_def)
  show ?thesis using passed(1)
  proof (cases rule: cached_cases)
    case (hit e u row)
    then show ?thesis using ev by (auto simp: served_def)
  next
    case (miss c)
    show ?thesis using miss
    proof (cases rule: account_cases)
      case unknown
      then show ?thesis using deny_logged [OF unknown(2)] ev by (auto simp: served_def)
    next
      case (reset u d d')
      note f = log_access_frame [OF reset(2)] and r = reset_effect [OF reset(3)]
      have kn: "user_by_id (sb_db (st1\<lparr>sb_cache := filter c (sb_cache st1), sb_db := d'\<rparr>)) n \<noteq> None"
        if "Some (u_id u) = Some n" for n
        using token_user_known(2) [OF reset(1)] that by (auto simp: user_by_id_def find_None_iff r f set_update_where)
      obtain row where "reply = SubDenied 403 ''token_auto_reset_ua''" "reply_event q ''deny'' 403 row"
        "d_sub_events (sb_db st') = delete_where (\<lambda>r. ev_user r = Some (u_id u) \<and> within_hours 24 now (ev_at r))
           (d_sub_events (sb_db st)) @ [row]"
        using deny_logged [OF reset(4)] kn f r ev by auto
      then show ?thesis
        by (intro exI [of _ "delete_where (\<lambda>r. ev_user r = Some (u_id u) \<and> within_hours 24 now (ev_at r))
           (d_sub_events (sb_db st))"] exI [of _ row]) (simp add: served_def, blast)
    next
      case (serve u st2)
      have kn: "user_by_id (sb_db st2) (u_id u) \<noteq> None"
        using token_user_known(1) [OF serve(1)] serve(3) by (simp add: user_by_id_def same_books_def)
      have e2: "d_sub_events (sb_db st2) = d_sub_events (sb_db st)" using serve(3) ev by (simp add: same_books_def)
      show ?thesis by (rule serve_cases [OF serve(2) assms(2) kn]) (auto simp: served_def e2)
    qed
  qed
qed

theorem every_request_logged_once_witness:
  "\<exists>base row. d_sub_events (sb_db (snd (handleSubscription sample_env Sub sample_request 1000 sample_sub))) = base @ [row]"
proof -
  have "fst (handleSubscription sample_env Sub sample_request 1000 sample_sub) \<noteq> SubCrashed"
    using sample_served by auto
  from every_request_logged_once [OF prod.collapse [symmetric] this] show ?thesis by blast
qed

section \<open>The reset\<close>

text \<open>An id given out at random for a row of the credentials.\<close>

lemma rotate_row:
  "(\<lambda>r. if uu_id r = j then r\<lparr>uu_uuid := gen j\<rparr> else r) r =
     (if uu_id r = j then r\<lparr>uu_uuid := gen j\<rparr> else r)"
  by simp

lemma rotate_rows:
  assumes "r \<in> set (fold (\<lambda>i t. update_where (\<lambda>r. uu_id r = i) (\<lambda>r. r\<lparr>uu_uuid := gen i\<rparr>) t) ids t)"
  shows "\<exists>r0 \<in> set t. uu_id r = uu_id r0 \<and> uu_user r = uu_user r0 \<and> uu_node r = uu_node r0 \<and>
    uu_uuid r = (if uu_id r0 \<in> set ids then gen (uu_id r0) else uu_uuid r0)"
  using assms
proof (induction ids arbitrary: t)
  case (Cons i ids)
  then obtain r1 where r1: "r1 \<in> set (update_where (\<lambda>r. uu_id r = i) (\<lambda>r. r\<lparr>uu_uuid := gen i\<rparr>) t)"
    "uu_id r = uu_id r1 \<and> uu_user r = uu_user r1 \<and> uu_node r = uu_node r1 \<and>
    uu_uuid r = (if uu_id r1 \<in> set ids then gen (uu_id r1) else uu_uuid r1)" by fastforce
  then obtain r0 where "r0 \<in> set t" "r1 = (if uu_id r0 = i then r0\<lparr>uu_uuid := gen i\<rparr> else r0)"
    by (auto simp: set_update_where)
  then show ?case using r1(2) by (intro bexI [of _ r0]) (auto split: if_splits)
qed auto

lemma rotated_credentials:
  assumes "r \<in> set (d_uuids (snd (rotateUserAllNodeUuids gen uid d)))"
  shows "\<exists>r0 \<in> set (d_uuids d). uu_user r = uu_user r0 \<and> uu_node r = uu_node r0 \<and>
    (uu_user r0 = uid \<longrightarrow> uu_uuid r = gen (uu_id r0))"
proof -
  obtain r0 where "r0 \<in> set (d_uuids d)" "uu_user r = uu_user r0" "uu_node r = uu_node r0"
    "uu_uuid r = (if uu_id r0 \<in> set (map uu_id (filter (\<lambda>r. uu_user r = uid) (d_uuids d))) then gen (uu_id r0) else uu_uuid r0)"
    using rotate_rows [OF assms [unfolded rotateUserAllNodeUuids_def rotate_where_def Let_def snd_conv, simplified]]
    by auto
  then show ?thesis by force
qed

text \<open>C31: an automatic reset takes the old link out of use for good (no request with it is served any
  more, whatever the cache holds), the new link belongs to the account, all its credentials are
  new, and its count of clients starts again from zero.\<close>

theorem auto_reset_replaces_link:
  assumes "enforceUaAutoReset limit q u now d = Some d'" and "u \<in> set (d_users d)"
    and "distinct (map u_id (d_users d))" and "distinct (map u_sub_token (d_users d))"
    and "sq_new_token q \<notin> u_sub_token ` set (d_users d)" and "\<not> u_is_blocked u" and "\<not> u_is_frozen u"
  shows "getUserBySubToken (u_sub_token u) d' = None \<and>
    (sb_db st = d' \<and> sq_token q' = u_sub_token u \<longrightarrow> \<not> served (fst (handleSubscription env route q' later st))) \<and>
    map_option u_id (getUserBySubToken (sq_new_token q) d') = Some (u_id u) \<and>
    (\<forall>r \<in> set (d_uuids d'). uu_user r = u_id u \<longrightarrow> (\<exists>k. uu_uuid r = sq_new_uuid q k)) \<and>
    countDistinctSubAccessUas (u_id u) 24 now d' = 0"
proof -
  note r = reset_effect [OF assms(1)]
  have same: "v = u" if "v \<in> set (d_users d)" "u_id v = u_id u \<or> u_sub_token v = u_sub_token u" for v
    using that assms(2-4) by (metis distinct_map inj_on_def)
  define w where "w = u\<lparr>u_sub_token := sq_new_token q\<rparr>"
  have w: "u_sub_token w = sq_new_token q" "u_id w = u_id u" "u_is_blocked w = u_is_blocked u" "u_is_frozen w = u_is_frozen u"
    by (simp_all add: w_def)
  have "set (d_users d') = (\<lambda>v. if v = u then w else v) ` set (d_users d)"
    unfolding r(1) set_update_where by (rule image_cong) (auto simp: w_def dest: same)
  then have us: "v \<in> set (d_users d') \<longleftrightarrow> v = w \<or> v \<in> set (d_users d) \<and> v \<noteq> u" for v
    using assms(2) by auto
  have old: "getUserBySubToken (u_sub_token u) d' = None"
  proof -
    have "u_sub_token v \<noteq> u_sub_token u" if "v \<in> set (d_users d')" for v
    proof (cases "v = w")
      case True
      then show ?thesis using w(1) assms(5) imageI [OF assms(2), of u_sub_token] by force
    next
      case False
      then show ?thesis using that us same by blast
    qed
    then show ?thesis unfolding getUserBySubToken_def find_None_iff by blast
  qed
  have new: "\<exists>v. getUserBySubToken (sq_new_token q) d' = Some v \<and> u_id v = u_id u"
  proof -
    have "\<exists>v \<in> set (d_users d'). u_sub_token v = sq_new_token q \<and> \<not> u_is_blocked v \<and> \<not> u_is_frozen v"
      using us assms(6,7) w by (intro bexI [of _ w]) auto
    then obtain v where v: "getUserBySubToken (sq_new_token q) d' = Some v"
      unfolding getUserBySubToken_def by (metis (mono_tags, lifting) find_None_iff not_Some_eq)
    then have "v \<in> set (d_users d')" "u_sub_token v = sq_new_token q" using token_user_known(2,3) by blast+
    then have "u_id v = u_id u" using us assms(5) w(2) by (metis imageI)
    then show ?thesis using v by blast
  qed
  have dead: "\<not> served (fst (handleSubscription env route q' later st))" if "sb_db st = d'" "sq_token q' = u_sub_token u"
    using served_known [of env route q' later st] that old by (metis prod.collapse)
  have cred: "\<exists>k. uu_uuid x = sq_new_uuid q k" if "x \<in> set (d_uuids d')" "uu_user x = u_id u" for x
    using rotated_credentials [of x "sq_new_uuid q" "u_id u" d] that r(3) by auto
  have "filter (\<lambda>r. ev_user r = Some (u_id u) \<and> within_hours 24 now (ev_at r) \<and> sql_trim (ev_ua r) \<noteq> []) (d_sub_events d') = []"
    unfolding r(2) delete_where_def by (auto simp: filter_empty_conv)
  then have "countDistinctSubAccessUas (u_id u) 24 now d' = 0"
    by (simp add: countDistinctSubAccessUas_def count_distinct_def)
  then show ?thesis using old dead new cred by auto
qed

text \<open>With a limit of one client, account 2 has been seen with two.\<close>

definition sample_clients :: db where
  "sample_clients = sample_db\<lparr>d_settings := [(''guard_auto_reset_ua_24h_limit'', ''1'')],
     d_sub_events := map (\<lambda>ua. \<lparr>ev_user = Some 2, ev_token = ''tkk'', ev_route = ''sub'', ev_result = ''allow'', ev_reason = ''ok'',
       ev_ip = ''1'', ev_ua = ua, ev_client = [], ev_status = 200, ev_at = ''1970-01-02 00:00:00''\<rparr>) [''a'', ''b'']\<rparr>"

lemma sample_clients_count:
  "countDistinctSubAccessUas 2 24 90000000 sample_clients = 2" "getAutoResetUa24hLimit None sample_clients = 1"
  by code_simp+

lemma sample_clients_reset:
  "enforceUaAutoReset None sample_request (sample_user 2 0 (5 * GB)) 90000000 sample_clients \<noteq> None"
  by (simp add: enforceUaAutoReset_def sample_clients_count Let_def split: prod.split)

theorem auto_reset_replaces_link_witness:
  "\<exists>d'. enforceUaAutoReset None sample_request (sample_user 2 0 (5 * GB)) 90000000 sample_clients = Some d' \<and>
     getUserBySubToken ''tkk'' d' = None"
proof -
  obtain d' where d: "enforceUaAutoReset None sample_request (sample_user 2 0 (5 * GB)) 90000000 sample_clients = Some d'"
    using sample_clients_reset by blast
  have "u_sub_token (sample_user 2 0 (5 * GB)) = ''tkk''"
    by (simp add: sample_user_def eval_nat_numeral)
  then show ?thesis
    using auto_reset_replaces_link [OF d, THEN conjunct1] d
    by (simp add: sample_clients_def sample_db_def empty_db_def sample_request_def sample_user_def eval_nat_numeral)
qed

section \<open>The cache\<close>

lemma oldest_entry_mem: "oldest_entry m = Some f \<Longrightarrow> f \<in> set m"
  by (induction m arbitrary: f) (auto split: option.splits if_splits)

lemma oldest_entry_None: "oldest_entry m = None \<longleftrightarrow> m = []"
  by (cases m) (auto split: option.splits)

lemma js_set_keys: "fst ` set (js_set k v m) = insert k (fst ` set m)"
  using dom_update [of k v m] by simp

lemma js_set_length: "length (js_set k v m) = (if k \<in> fst ` set m then length m else Suc (length m))"
  by (induction m) auto

lemma filter_out_length: "f \<in> set m \<Longrightarrow> length (filter (\<lambda>e. fst e \<noteq> fst f) m) < length m"
  by (induction m) (auto simp: less_Suc_eq_le)

interpretation sub_cache: bounded_cache setSubCache SUB_CACHE_MAX_ENTRIES "\<lambda>k. k \<noteq> []"
proof
  fix m :: "(string, cache_entry) js_map" and k v
  let ?m = "(if js_get m k = None \<and> SUB_CACHE_MAX_ENTRIES \<le> length m
                then (case oldest_entry m of
                        None \<Rightarrow> m
                      | Some f \<Rightarrow> if fst f = [] then m else filter (\<lambda>e. fst e \<noteq> fst f) m)
                else m)"
  have e: "setSubCache k v m = js_set k v ?m" by (simp add: setSubCache_def)
  have sub: "set ?m \<subseteq> set m" by (auto split: option.split)
  show "js_keys_distinct (setSubCache k v m)" if "js_keys_distinct m"
    unfolding e using that by (intro distinct_update) (auto simp: distinct_map_filter split: option.split)
  show "fst ` set (setSubCache k v m) \<subseteq> insert k (fst ` set m)"
    unfolding e js_set_keys using image_mono [OF sub, of fst] by blast
  show "length (setSubCache k v m) \<le> SUB_CACHE_MAX_ENTRIES"
    if "js_keys_distinct m" "length m \<le> SUB_CACHE_MAX_ENTRIES" "\<And>j. j \<in> fst ` set m \<Longrightarrow> j \<noteq> []"
  proof (cases "js_get m k = None \<and> SUB_CACHE_MAX_ENTRIES \<le> length m")
    case True
    then obtain f where f: "oldest_entry m = Some f"
      using oldest_entry_None [of m] by (cases "oldest_entry m") (auto simp: SUB_CACHE_MAX_ENTRIES_def)
    have "fst f \<noteq> []" using that(3) imageI [OF oldest_entry_mem [OF f], of fst] by blast
    moreover have "length (filter (\<lambda>e. fst e \<noteq> fst f) m) < length m"
      by (rule filter_out_length [OF oldest_entry_mem [OF f]])
    ultimately show ?thesis using True f that(2) unfolding e js_set_length by auto
  next
    case False
    then show ?thesis
      using that(2) unfolding e js_set_length by (auto simp: map_of_eq_None_iff)
  qed
qed

lemma cache_key_nonempty: "cache_key route token t \<noteq> []"
  by (cases route) (simp_all add: cache_key_def)

lemma handle_cache_bounded:
  assumes "handleSubscription env route q now st = (reply, st')" and "sub_cache.bounded (sb_cache st)"
  shows "sub_cache.bounded (sb_cache st')"
  using assms(1)
proof (cases rule: handle_cases)
  case (denied st1 uid reason status)
  then show ?thesis using assms(2) by (auto simp: deny_def same_books_def)
next
  case (passed st1 reason)
  have c: "sb_cache st1 = sb_cache st" using passed(2) by (simp add: same_books_def)
  show ?thesis using passed(1)
  proof (cases rule: cached_cases)
    case (hit e u row)
    then show ?thesis using c assms(2) by simp
  next
    case (miss f)
    have b: "sub_cache.bounded (filter f (sb_cache st))" by (rule sub_cache.bounded_filter [OF assms(2)])
    show ?thesis using miss
    proof (cases rule: account_cases)
      case (serve u st2)
      have "sb_cache st2 = filter f (sb_cache st)" using serve(3) c by (simp add: same_books_def)
      then show ?thesis
        using serve(2) b sub_cache.bounded_put [OF b cache_key_nonempty]
        by (auto simp: serve_subscription_def Let_def split: prod.splits option.splits)
    qed (use b c in \<open>auto simp: deny_def\<close>)
  qed
qed

definition sub_step :: "(sub_env \<times> sub_route \<times> sub_request \<times> int) \<Rightarrow> sub_state \<Rightarrow> sub_reply \<times> sub_state" where
  "sub_step r st = (case r of (env, route, q, now) \<Rightarrow> handleSubscription env route q now st)"

lemma sub_run_bounded:
  "sub_cache.bounded (sb_cache st) \<Longrightarrow> sub_cache.bounded (sb_cache (snd (run_ops sub_step reqs st)))"
proof (induction reqs arbitrary: st)
  case (Cons r reqs)
  obtain env route q now where r: "r = (env, route, q, now)" by (metis prod_cases4)
  obtain reply st' where h: "handleSubscription env route q now st = (reply, st')" by fastforce
  have "sub_cache.bounded (sb_cache (snd (sub_step r st)))"
    using handle_cache_bounded [OF h Cons.prems] by (simp only: r sub_step_def h prod.case snd_conv)
  then show ?case using Cons.IH by (simp add: Let_def split_beta)
qed simp

text \<open>Whatever requests arrive on the four routes, the cache of configurations never holds more
  than two thousand entries, each key once.\<close>

theorem sub_cache_stays_bounded:
  assumes "sb_cache st = []"
  shows "length (sb_cache (snd (run_ops sub_step reqs st))) \<le> 2000 \<and>
    js_keys_distinct (sb_cache (snd (run_ops sub_step reqs st)))"
proof -
  have "sub_cache.bounded (sb_cache st)" by (simp add: assms sub_cache.bounded_def)
  then have "sub_cache.bounded (sb_cache (snd (run_ops sub_step reqs st)))" by (rule sub_run_bounded)
  then show ?thesis unfolding sub_cache.bounded_def unfolding SUB_CACHE_MAX_ENTRIES_def by blast
qed

theorem sub_cache_stays_bounded_witness:
  "length (sb_cache (snd (run_ops sub_step [(sample_env, Sub, sample_request, 1000)] sample_sub))) \<le> 2000"
  using sub_cache_stays_bounded [of sample_sub "[(sample_env, Sub, sample_request, 1000)]"]
  by (simp only: sample_sub_def select_convs sub_state.simps)

section \<open>Client types that are names of inherited properties\<close>

text \<open>With the type parameter set to constructor the reply is not a configuration but the rows of the nodes
  themselves, the decrypted secrets of the servers among them: where a request is served a
  configuration, the same request with that type is served those rows.\<close>

theorem constructor_type_discloses_rows:
  assumes "serve_subscription env route q u reason now st = (SubServed h (Config r g ns info), st1)"
  shows "\<exists>h' st2. serve_subscription env route (q\<lparr>sq_type := Some ''constructor''\<rparr>) u reason now st =
      (SubServed h' (RawNodes ns), st2) \<and>
    (\<forall>s \<in> set ns. \<exists>n \<in> set (d_nodes (sb_db st)). n_ssh_password (sn_node s) = en_decrypt env (n_ssh_password n))"
proof -
  let ?q = "q\<lparr>sq_type := Some ''constructor''\<rparr>"
  let ?raw = "filter (\<lambda>n. node_filter route n \<and> canUserAccessNode u n) (getAllNodes (en_decrypt env) True (sb_db st))"
  obtain m d1 where mp: "getUserNodeUuidMap (sq_new_uuid q) (u_id u) ?raw (sb_db st) = (m, d1)" by fastforce
  have ns: "ns = (if exceeded u (getUserTraffic (u_id u) d1) then [] else map (sub_node_of route u m) ?raw)"
  proof -
    obtain info' where "build_body route (client_type q)
        (if exceeded u (getUserTraffic (u_id u) d1) then [] else map (sub_node_of route u m) ?raw) info' = Some (Config r g ns info)"
      using assms mp by (auto simp: serve_subscription_def Let_def split: option.splits)
    then show ?thesis by (cases "generator_of (client_type q)") (simp_all add: build_body_def)
  qed
  have t: "client_type ?q = ''constructor''" by (simp add: client_type_def or_else_def)
  have "\<exists>h' st2. serve_subscription env route ?q u reason now st = (SubServed h' (RawNodes ns), st2)"
    using mp by (simp add: serve_subscription_def t build_body_def generator_of_def ns Let_def)
  moreover have "\<exists>n \<in> set (d_nodes (sb_db st)). n_ssh_password (sn_node s) = en_decrypt env (n_ssh_password n)"
    if "s \<in> set ns" for s
    using that unfolding ns by (auto simp: sub_node_of_def set_getAllNodes decryptNode_def Let_def split: if_splits)
  ultimately show ?thesis by blast
qed

lemma sample_configuration:
  "case fst (serve_subscription sample_env Sub sample_request (sample_user 2 0 (5 * GB)) ''ok'' 1000 sample_sub) of
     SubServed h (Config r g ns info) \<Rightarrow> length ns = 1 | _ \<Rightarrow> False"
  by code_simp

theorem constructor_type_discloses_rows_witness:
  "\<exists>h ns st. serve_subscription sample_env Sub (sample_request\<lparr>sq_type := Some ''constructor''\<rparr>)
      (sample_user 2 0 (5 * GB)) ''ok'' 1000 sample_sub = (SubServed h (RawNodes ns), st) \<and> length ns = 1"
proof -
  let ?s = "serve_subscription sample_env Sub sample_request (sample_user 2 0 (5 * GB)) ''ok'' 1000 sample_sub"
  obtain h r g ns info where "fst ?s = SubServed h (Config r g ns info)" and l: "length ns = 1"
    using sample_configuration by (auto split: sub_reply.splits sub_body.splits)
  then have "?s = (SubServed h (Config r g ns info), snd ?s)" by (metis prod.collapse)
  from constructor_type_discloses_rows [OF this] show ?thesis using l by blast
qed

end
