(* ===== verification/Spec2Isabelle.thy ===== *)
theory Spec2Isabelle
  imports PaymentProps SignInProps FarmProps GameProps DrawProps FarmRoutes CalendarProps TrafficProps GuardProps InviteProps HealthReport
    HubProps NodeProps DeployProps RotateProps AdminNodeProps
    MiddlewareProps SubProps Agents NetUtils OpsRepo
begin
text \<open>
  Verification of a panel for proxy nodes (Node.js, Express, SQLite; sources under src/src) and of the
  agent that runs on every node (src/node-agent/agent.js).

  The parts and how they meet. Accounts sign in (routes/auth.js), get a subscription link, and proxy
  clients fetch their configuration through it (routes/subscription.js). A guard limits and bans
  links (services/subGuard.js); a log of the requests drives the automatic replacement of links
  (services/repos/subAccessRepo.js). Every account has one credential per node
  (services/repos/uuidRepo.js), redrawn from time to time (services/rotate.js). Nodes are deployed and
  given their configuration, with the credentials of the entitled accounts, by services/deploy.js:
  over SSH, or by a command to the agent of the node. Agents keep a connection to the hub
  (services/agent-ws.js), which passes their reports to the health monitor (services/health.js); it
  books the traffic (services/repos/trafficRepo.js), takes nodes out of service and freezes accounts
  whose quota is used up. Quota is bought (routes/payment.js) or won in the games of the group chat
  (services/farm.js, routes/flipGame.js, routes/rpsGame.js, routes/luckyWheel.js). Invitation codes
  admit new accounts (services/database.js). All parts of the panel share one SQLite database.

  Theories.
  Prelude, Contracts: generic lemmas and the locales that state the contracts between the parts
  (unique-key upserts, additive upserts, quotas, budgets, claims that are granted once, or once until
  they are released, bounded caches); each is interpreted on the model's operations in the theories of the parts.
  Calendar, CalendarFacts, CalendarProps, Stamps: dates, time zones and SQL time stamps as texts.
  Schema: the rows of the database and the database as a record of lists of rows in the order of
  insertion; the id of a new row is one more than the largest or drawn by a parameter. SettingsRepo,
  UuidRepo, UserRepo, NodeRepo, Accounts, AccountFacts, OpsRepo: the repositories.
  TgGame, Farm, FarmFacts, FarmRoutes, FarmProps, Flip, Rps, Lucky, GameProps, DrawProps, Samples:
  the games, the route handlers around them, and sample databases for the witnesses.
  TrafficRepo, TrafficProps: the traffic books.
  NetUtils, Agents, Middleware, MiddlewareProps: request helpers, CSRF, keys, rate-limit keys,
  error handling.
  SubGuard, GuardProps, SubAccess, Subscription, SubProps: the subscription route.
  Invites, InviteProps, Passwords, SignIn, SignInProps: invitation codes and the sign-in routes.
  Payment, PaymentProps: orders and the callback of the payment service.
  AgentHub, HubSteps, HubAgents, HubProps: the hub. Its state is the connections, the registered
  agents, the pending commands, the timers and the time at which the process has to end (a signal or an
  exception that nothing catches, src/app.js); a run is a sequence of events of sockets, timers and the
  panel, which stops when the process has ended, and a ledger of commands is the abstract specification
  it refines.
  AgentSocket, NodeStats, NodeCommands, NodeLink, NodeProps: the agent: the frames of its WebSocket
  client, the counters it reads, the commands it runs, and its life of connecting again.
  Health, HealthTraffic, HealthOnline, HealthReport, HealthFacts, HealthProps: the health monitor:
  caches and buffered writes, booking a report, accounts online, the decision on a node, patrols.
  Regions, XrayConfig, XrayProps: places of servers, the configurations of xray and Hysteria, and
  whom they let in.
  Deploy, DeployRun, DeployProps: names of new nodes, pushing and synchronising configurations, and
  the four kinds of deployment as runs that may raise after every answer of the machine.
  Rotate, RotateProps: the rotation of ports, credentials and links, and the list of accounts an agent
  fetches (routes/agentApi.js).
  NodeUpdate, AdminNodes, AdminNodeProps: the general update of a node and the routes by which an
  administrator manages nodes and agents (routes/admin/adminNodes.js, routes/admin/adminAgents.js); the
  runs of the table of nodes have the other writers of the panel (deployments, reports, rotation) as steps.

  What the lemmas show. The Facts and Props theories give for each part its invariants over runs of
  its operations (rule induction on the steps), the limits of what one account or address can get, the
  exact effect of a request on the rows, equivalences of pages with the operations behind them, round
  trips of texts and frames, and that the loops end. Some theorems state what the code does where this
  is hardly meant: a late answer of the payment service reopens an order, the end of an old socket
  takes the new one out of use, a stop command is refused by every agent, the rate of a node that an
  administrator types is written nowhere, a message that is null ends the process.

  Conventions. A handler takes the state, the time (milliseconds or seconds since the epoch) and the
  random values it draws, and returns the state with a reply; every early return and every exception
  that reaches the error handler is a value of the reply type. JavaScript numbers that hold integers
  are int, amounts in bytes are int, odds are rat or real, strings are char lists. Time zone
  offsets, cryptographic functions (HMAC, key derivation, the cipher of stored secrets), the mail and
  payment services, the shell of a machine and the answers over SSH are parameters; what is assumed of
  them stands in the theorems that need it. The loops of the model are structural or have a
  termination proof; no fuel is used.

  Not modelled: the calls to AWS, the administration routes for settings, orders, invitations and pages,
  the routes of the operations interface, the texts of subscriptions (utils/vless.js), the statistics pages, the Telegram bot and
  other notices, backups and migrations, process set-up but the end of the process, and the browser scripts.
  A deployment runs without requests between its steps, and the pushes of a rotation take what happens
  between them as a parameter.
\<close>
end
